(* ===== verification/JsPrelude.thy ===== *)
theory JsPrelude
  imports Complex_Main "HOL-Library.Word" "HOL-Library.AList"
begin

text \<open>
  What the TypeScript sources use of their language and its standard library, shared by every
  component: thrown errors, numbers, strings, UTF-8 sizes, timestamps, objects used as
  dictionaries; the lemmas about them; and two interfaces of machines with a state.

  \<^item> A thrown \<open>Error(message)\<close> is \<open>Inl (Error message)\<close>, a returned value is \<open>Inr v\<close>.
  \<^item> A number that the code tests with \<open>Number.isFinite\<close> or \<open>Number.isSafeInteger\<close> is a
    \<open>js_number\<close>; a number that has passed such a test is an \<open>int\<close>. Sums of safe integers are
    computed exactly (the code tests \<open>isSafeInteger\<close> again, or stays below its caps).
  \<^item> Identifiers, which are compared and measured, are \<open>string\<close>s; prompts and worker outputs,
    whose UTF-8 size matters, are lists of UTF-16 code units.
  \<^item> A timestamp string is represented by what \<open>Date.parse\<close> and \<open>toISOString\<close> make of it.
  \<^item> An object used as a dictionary is an association list in insertion order with distinct keys,
    which is the order \<open>Object.entries\<close> enumerates for keys that are not array indices.
\<close>

named_theorems js_simps \<open>equations of the modelled standard library\<close>

section \<open>Errors\<close>

text \<open>What a call can throw: an \<open>Error\<close> with its message, the \<open>RangeError\<close> of \<open>toISOString\<close>, or (from
  a callback) a value that is not an \<open>Error\<close>.\<close>

datatype js_error = Error string | RangeError | NonError

type_synonym 'a js_result = "js_error + 'a"

definition bind_result :: "'e + 'a \<Rightarrow> ('a \<Rightarrow> 'e + 'b) \<Rightarrow> 'e + 'b" where
  "bind_result r f = (case r of Inl e \<Rightarrow> Inl e | Inr a \<Rightarrow> f a)"

lemma bind_result_simps [simp]:
  "bind_result (Inl e) f = Inl e"
  "bind_result (Inr a) f = f a"
  by (simp_all add: bind_result_def)

lemma bind_result_eq_Inr [simp]:
  "bind_result r f = Inr b \<longleftrightarrow> (\<exists>a. r = Inr a \<and> f a = Inr b)"
  by (cases r) simp_all

text \<open>A \<open>map\<close> whose callback may throw: the first throw ends it.\<close>

fun map_result :: "('a \<Rightarrow> 'e + 'b) \<Rightarrow> 'a list \<Rightarrow> 'e + 'b list" where
  "map_result f [] = Inr []"
| "map_result f (x # xs) = bind_result (f x) (\<lambda>y. bind_result (map_result f xs) (\<lambda>ys. Inr (y # ys)))"

lemma map_result_Inr: "map_result f xs = Inr ys \<Longrightarrow> ys = map (\<lambda>x. projr (f x)) xs \<and> (\<forall>x \<in> set xs. f x = Inr (projr (f x)))"
  by (induction xs arbitrary: ys) auto

lemma map_result_set: "map_result f xs = Inr ys \<Longrightarrow> set ys = {y. \<exists>x \<in> set xs. f x = Inr y}"
  by (induction xs arbitrary: ys) auto

lemma map_result_all: "(\<And>x. x \<in> set xs \<Longrightarrow> f x = Inr (g x)) \<Longrightarrow> map_result f xs = Inr (map g xs)"
  by (induction xs) auto

lemma map_result_id: "\<forall>x \<in> set xs. f x = Inr x \<Longrightarrow> map_result f xs = Inr xs"
  by (induction xs) auto

abbreviation is_ok :: "'e + 'a \<Rightarrow> bool" where
  "is_ok r \<equiv> (\<exists>a. r = Inr a)"

section \<open>Numbers\<close>

datatype js_number = Finite real | PosInfinity | NegInfinity | NotANumber

definition MAX_SAFE_INTEGER :: int where
  "MAX_SAFE_INTEGER = 9007199254740991"

definition isSafeInteger :: "int \<Rightarrow> bool" where
  "isSafeInteger n \<longleftrightarrow> - MAX_SAFE_INTEGER \<le> n \<and> n \<le> MAX_SAFE_INTEGER"

definition isNonNegativeSafeInteger :: "int \<Rightarrow> bool" where
  "isNonNegativeSafeInteger n \<longleftrightarrow> isSafeInteger n \<and> 0 \<le> n"

fun safeCount :: "js_number \<Rightarrow> int" where
  "safeCount (Finite x) = (if 0 \<le> x then \<lfloor>x\<rfloor> else 0)"
| "safeCount _ = 0"

lemma safeCount_nonneg [simp]: "0 \<le> safeCount x"
  by (cases x) auto

lemma safeCount_of_int [simp]: "0 \<le> n \<Longrightarrow> safeCount (Finite (real_of_int n)) = n"
  by simp

lemma safeCount_numeral [simp]: "safeCount (Finite (numeral k)) = numeral k"
  by simp

text \<open>\<open>Number.isSafeInteger\<close> on a number: the integer it is.\<close>

fun safe_integer_of :: "js_number \<Rightarrow> int option" where
  "safe_integer_of (Finite x) = (if real_of_int \<lfloor>x\<rfloor> = x \<and> isSafeInteger \<lfloor>x\<rfloor> then Some \<lfloor>x\<rfloor> else None)"
| "safe_integer_of _ = None"

section \<open>Strings\<close>

text \<open>\<open>String.prototype.trim\<close> on the characters below 256: tab, line feed, vertical tab, form
  feed, carriage return, space and no-break space.\<close>

definition js_space :: "char \<Rightarrow> bool" where
  "js_space c \<longleftrightarrow> of_char c \<in> {9, 10, 11, 12, 13, 32, 160 :: nat}"

lemma js_space_code [code]:
  "js_space (Char b0 b1 b2 b3 b4 b5 b6 b7) \<longleftrightarrow>
     \<not> b7 \<and> \<not> b6 \<and> \<not> b5 \<and> \<not> b4 \<and> b3 \<and> (b0 \<or> b1 \<or> b2) \<and> \<not> (b2 \<and> b1) \<or>
     b5 \<and> \<not> b6 \<and> \<not> b4 \<and> \<not> b3 \<and> \<not> b2 \<and> \<not> b1 \<and> \<not> b0"
  by (cases b0; cases b1; cases b2; cases b3; cases b4; cases b5; cases b6; cases b7) (simp_all add: js_space_def)

definition js_trim :: "string \<Rightarrow> string" where
  "js_trim s = rev (dropWhile js_space (rev (dropWhile js_space s)))"

lemma js_trim_Nil [simp]: "js_trim [] = []"
  by (simp add: js_trim_def)

lemma js_trim_eq_Nil: "js_trim s = [] \<longleftrightarrow> (\<forall>c \<in> set s. js_space c)"
proof
  assume "js_trim s = []"
  then have "\<forall>c \<in> set (dropWhile js_space s). js_space c"
    by (simp add: js_trim_def)
  then show "\<forall>c \<in> set s. js_space c"
    by (metis dropWhile_eq_Nil_conv list.set_intros(1) hd_dropWhile hd_in_set)
next
  assume "\<forall>c \<in> set s. js_space c"
  then have "dropWhile js_space s = []" by (subst dropWhile_eq_Nil_conv)
  then show "js_trim s = []" unfolding js_trim_def by (simp only: rev.simps dropWhile.simps)
qed

text \<open>The pattern of a SHA-256 digest in hexadecimal.\<close>

definition hex64 :: "string \<Rightarrow> bool" where
  "hex64 s \<longleftrightarrow> length s = 64 \<and> list_all (\<lambda>c. c \<in> set ''0123456789abcdef'') s"

section \<open>UTF-8 size of a UTF-16 string\<close>

type_synonym utf16 = "16 word list"

definition high_surrogate :: "16 word \<Rightarrow> bool" where
  "high_surrogate u \<longleftrightarrow> 0xD800 \<le> u \<and> u \<le> 0xDBFF"

definition low_surrogate :: "16 word \<Rightarrow> bool" where
  "low_surrogate u \<longleftrightarrow> 0xDC00 \<le> u \<and> u \<le> 0xDFFF"

text \<open>\<open>Buffer.byteLength(s, "utf8")\<close>: a surrogate pair takes four bytes, a lone surrogate is
  encoded as the three bytes of the replacement character.\<close>

fun utf8_byteLength :: "utf16 \<Rightarrow> int" where
  "utf8_byteLength [] = 0"
| "utf8_byteLength [u] = (if u < 0x80 then 1 else if u < 0x800 then 2 else 3)"
| "utf8_byteLength (u # v # us) =
     (if u < 0x80 then 1 + utf8_byteLength (v # us)
      else if u < 0x800 then 2 + utf8_byteLength (v # us)
      else if high_surrogate u \<and> low_surrogate v then 4 + utf8_byteLength us
      else 3 + utf8_byteLength (v # us))"

lemma utf8_byteLength_lower: "int (length us) \<le> utf8_byteLength us"
  by (induction us rule: utf8_byteLength.induct) auto

lemma utf8_byteLength_upper: "utf8_byteLength us \<le> 3 * int (length us)"
  by (induction us rule: utf8_byteLength.induct) auto

lemma utf8_byteLength_nonneg [simp]: "0 \<le> utf8_byteLength us"
  using utf8_byteLength_lower [of us] by linarith

lemma utf8_byteLength_ascii: "\<forall>u \<in> set us. u < 0x80 \<Longrightarrow> utf8_byteLength us = int (length us)"
  by (induction us rule: utf8_byteLength.induct) auto

section \<open>Texts of numbers and of characters\<close>

text \<open>The decimal text of a number (\<open>String(n)\<close>, template literals).\<close>

fun nat_text :: "nat \<Rightarrow> string" where
  "nat_text n = (if n < 10 then [''0123456789'' ! n] else nat_text (n div 10) @ [''0123456789'' ! (n mod 10)])"

definition int_text :: "int \<Rightarrow> string" where
  "int_text i = (if i < 0 then ''-'' @ nat_text (nat (- i)) else nat_text (nat i))"

text \<open>A text of characters below 256 as UTF-16 units and back.\<close>

definition units_of :: "string \<Rightarrow> utf16" where
  "units_of s = map of_char s"

definition chars_of :: "utf16 \<Rightarrow> string" where
  "chars_of us = map (\<lambda>u. char_of (unat u)) us"

lemma char_of_unat: "char_of (unat (of_char c :: 16 word)) = c"
proof -
  have "unat (of_char c :: 16 word) = take_bit 16 (of_char c)"
    using unsigned_of_nat [of "of_char c", where 'a = nat and 'b = 16] by (simp add: of_nat_of_char)
  moreover have "take_bit 16 (of_char c :: nat) = of_char c"
    using less_trans [OF nat_of_char_less_256 [of c], of "2 ^ 16"] by (simp add: take_bit_nat_eq_self_iff)
  ultimately show ?thesis by simp
qed

lemma chars_of_units: "chars_of (units_of s) = s"
  by (simp add: chars_of_def units_of_def comp_def char_of_unat)

section \<open>Timestamps\<close>

text \<open>
  \<open>Iso ms\<close> is the string \<open>new Date(ms).toISOString()\<close>, \<open>LooseDate ms\<close> any other string that
  \<open>Date.parse\<close> reads as \<open>ms\<close>, \<open>NotDate\<close> a string it does not read. A time value is a number of
  milliseconds of magnitude at most \<open>8.64e15\<close>; \<open>toISOString\<close> throws a \<open>RangeError\<close> beyond.
\<close>

datatype stamp = Iso int | LooseDate int | NotDate

definition MAX_TIME :: int where
  "MAX_TIME = 8640000000000000"

definition valid_time :: "int \<Rightarrow> bool" where
  "valid_time ms \<longleftrightarrow> - MAX_TIME \<le> ms \<and> ms \<le> MAX_TIME"

fun date_parse :: "stamp \<Rightarrow> int option" where
  "date_parse (Iso ms) = (if valid_time ms then Some ms else None)"
| "date_parse (LooseDate ms) = (if valid_time ms then Some ms else None)"
| "date_parse NotDate = None"

definition toISOString :: "int \<Rightarrow> js_error + stamp" where
  "toISOString ms = (if valid_time ms then Inr (Iso ms) else Inl RangeError)"

text \<open>The stores accept a timestamp only in the canonical form.\<close>

fun canonical_stamp :: "stamp \<Rightarrow> bool" where
  "canonical_stamp (Iso ms) = valid_time ms"
| "canonical_stamp _ = False"

lemma canonical_stamp_parse: "canonical_stamp t \<Longrightarrow> \<exists>ms. date_parse t = Some ms \<and> toISOString ms = Inr t"
  by (cases t) (simp_all add: toISOString_def)

lemma date_parse_toISOString: "toISOString ms = Inr t \<Longrightarrow> date_parse t = Some ms"
  by (auto simp: toISOString_def split: if_splits)

section \<open>Sets built from lists\<close>

text \<open>\<open>[...new Set(values)]\<close> keeps the first occurrence of each value.\<close>

fun js_unique :: "'a list \<Rightarrow> 'a list" where
  "js_unique [] = []"
| "js_unique (x # xs) = x # filter (\<lambda>y. y \<noteq> x) (js_unique xs)"

lemma set_js_unique [simp]: "set (js_unique xs) = set xs"
  by (induction xs) auto

lemma distinct_js_unique [simp]: "distinct (js_unique xs)"
  by (induction xs) auto

lemma js_unique_distinct: "distinct xs \<Longrightarrow> js_unique xs = xs"
proof (induction xs)
  case (Cons x xs)
  then have "filter (\<lambda>y. y \<noteq> x) xs = xs" by (auto simp: filter_id_conv)
  with Cons show ?case by simp
qed simp

lemma js_unique_idem [simp]: "js_unique (js_unique xs) = js_unique xs"
  by (simp add: js_unique_distinct)

lemma length_js_unique: "length (js_unique xs) \<le> length xs"
proof (induction xs)
  case (Cons x xs)
  then show ?case
    using le_trans [OF length_filter_le [of "\<lambda>y. y \<noteq> x" "js_unique xs"]] by simp
qed simp

text \<open>\<open>new Set(xs).size === xs.length\<close> says that no value occurs twice.\<close>

lemma length_js_unique_eq: "length (js_unique xs) = length xs \<longleftrightarrow> distinct xs"
proof (induction xs)
  case (Cons x xs)
  have le: "length (js_unique xs) \<le> length xs" by (rule length_js_unique)
  have f: "length (filter (\<lambda>y. y \<noteq> x) (js_unique xs)) \<le> length (js_unique xs)"
    by (rule length_filter_le)
  show ?case
  proof
    assume a: "length (js_unique (x # xs)) = length (x # xs)"
    then have e: "length (filter (\<lambda>y. y \<noteq> x) (js_unique xs)) = length xs" by simp
    from e f le have 1: "length (js_unique xs) = length xs" by linarith
    from e f le have 2: "length (filter (\<lambda>y. y \<noteq> x) (js_unique xs)) = length (js_unique xs)"
      by linarith
    from 2 have "x \<notin> set xs"
      by (metis (mono_tags, lifting) length_filter_less nat_neq_iff set_js_unique)
    with 1 Cons.IH show "distinct (x # xs)" by simp
  qed (use js_unique_distinct in fastforce)
qed simp

section \<open>Arrays\<close>

fun findIndex :: "('a \<Rightarrow> bool) \<Rightarrow> 'a list \<Rightarrow> nat option" where
  "findIndex P [] = None"
| "findIndex P (x # xs) = (if P x then Some 0 else map_option Suc (findIndex P xs))"

lemma findIndex_Some: "findIndex P xs = Some i \<Longrightarrow> i < length xs \<and> P (xs ! i)"
  by (induction xs arbitrary: i) (auto split: if_splits)

lemma findIndex_None: "findIndex P xs = None \<longleftrightarrow> (\<forall>x \<in> set xs. \<not> P x)"
  by (induction xs) auto

lemma find_SomeD: "List.find P xs = Some x \<Longrightarrow> x \<in> set xs \<and> P x"
  by (auto simp: find_Some_iff)

lemma find_mem_Some: "x \<in> set xs \<Longrightarrow> P x \<Longrightarrow> \<exists>y. List.find P xs = Some y \<and> y \<in> set xs \<and> P y"
  by (induction xs) auto

section \<open>Objects used as dictionaries\<close>

type_synonym 'v dict = "(string \<times> 'v) list"

abbreviation keys_of :: "('k \<times> 'v) list \<Rightarrow> 'k list" where
  "keys_of d \<equiv> map fst d"

abbreviation values_of :: "('k \<times> 'v) list \<Rightarrow> 'v list" where
  "values_of d \<equiv> map snd d"

text \<open>\<open>o[k] = v\<close> is \<open>AList.update k v o\<close>: it replaces in place or appends; \<open>delete o[k]\<close> is
  \<open>AList.delete k o\<close>; \<open>o[k]\<close> is \<open>map_of o k\<close>.\<close>

lemma distinct_update [simp]: "distinct (keys_of d) \<Longrightarrow> distinct (keys_of (AList.update k v d))"
  by (rule distinct_update)

lemma distinct_delete [simp]: "distinct (keys_of d) \<Longrightarrow> distinct (keys_of (AList.delete k d))"
  by (rule distinct_delete)

lemma set_keys_update: "set (keys_of (AList.update k v d)) = insert k (set (keys_of d))"
  by (induction d) auto

lemma set_keys_delete: "set (keys_of (AList.delete k d)) = set (keys_of d) - {k}"
  by (auto simp: AList.delete_keys)

lemma update_fresh: "k \<notin> set (keys_of d) \<Longrightarrow> AList.update k v d = d @ [(k, v)]"
  by (induction d) auto

lemma length_update: "length (AList.update k v d) =
    (if k \<in> set (keys_of d) then length d else Suc (length d))"
  by (induction d) auto

lemma length_delete: "distinct (keys_of d) \<Longrightarrow> k \<in> set (keys_of d) \<Longrightarrow>
    length (AList.delete k d) = length d - 1"
proof (induction d)
  case (Cons a d)
  show ?case
  proof (cases "fst a = k")
    case True
    with Cons.prems(1) have "k \<notin> fst ` set d" by auto
    then have "AList.delete k d = d" by (simp add: delete_idem)
    with True show ?thesis by (cases a) simp
  next
    case False
    with Cons have "length (AList.delete k d) = length d - 1" and "d \<noteq> []" by auto
    with False show ?thesis by (cases a; cases d) simp_all
  qed
qed simp

lemma length_delete_le: "length (AList.delete k d) \<le> length d"
  by (simp add: AList.delete_eq)

lemma in_values_update: "x \<in> set (AList.update k v d) \<Longrightarrow> x = (k, v) \<or> x \<in> set d"
  by (induction d) (auto split: if_splits)

lemma in_values_delete: "x \<in> set (AList.delete k d) \<longleftrightarrow> x \<in> set d \<and> fst x \<noteq> k"
  by (auto simp: AList.delete_eq)

text \<open>Deleting a list of keys.\<close>

lemma fold_delete_set: "set (fold AList.delete ks al) = {x \<in> set al. fst x \<notin> set ks}"
  by (induction ks arbitrary: al) (auto simp: in_values_delete)

lemma fold_delete_distinct: "distinct (keys_of al) \<Longrightarrow> distinct (keys_of (fold AList.delete ks al))"
  by (induction ks arbitrary: al) auto

lemma fold_delete_length:
  "distinct (keys_of al) \<Longrightarrow> distinct ks \<Longrightarrow> set ks \<subseteq> set (keys_of al) \<Longrightarrow>
   length (fold AList.delete ks al) = length al - length ks"
proof (induction ks arbitrary: al)
  case (Cons k ks)
  then have "set ks \<subseteq> set (keys_of (AList.delete k al))"
    unfolding set_keys_delete by auto
  with Cons have "length (fold AList.delete ks (AList.delete k al)) = length (AList.delete k al) - length ks"
    by simp
  with Cons.prems show ?case by (simp add: length_delete)
qed simp

text \<open>Sums over the entries of a dictionary after an update or a deletion.\<close>

lemma sum_update_fresh:
  fixes f :: "'k \<times> 'v \<Rightarrow> int"
  assumes "k \<notin> set (keys_of d)"
  shows "sum_list (map f (AList.update k v d)) = sum_list (map f d) + f (k, v)"
  using assms by (simp add: update_fresh)

lemma sum_update_old:
  fixes f :: "'k \<times> 'v \<Rightarrow> int"
  assumes "distinct (keys_of d)" and "map_of d k = Some w"
  shows "sum_list (map f (AList.update k v d)) = sum_list (map f d) - f (k, w) + f (k, v)"
  using assms
proof (induction d)
  case (Cons a d)
  obtain j u where a: "a = (j, u)" by (cases a)
  show ?case
  proof (cases "j = k")
    case True
    with Cons.prems a show ?thesis by simp
  next
    case False
    with Cons a show ?thesis by simp
  qed
qed simp

lemma sum_delete:
  fixes f :: "'k \<times> 'v \<Rightarrow> int"
  assumes "distinct (keys_of d)" and "map_of d k = Some w"
  shows "sum_list (map f (AList.delete k d)) = sum_list (map f d) - f (k, w)"
  using assms
proof (induction d)
  case (Cons a d)
  obtain j u where a: "a = (j, u)" by (cases a)
  show ?case
  proof (cases "j = k")
    case True
    with Cons.prems a have "AList.delete k d = d"
      by (auto intro!: delete_idem)
    with True Cons.prems a show ?thesis by simp
  next
    case False
    with Cons a show ?thesis by simp
  qed
qed simp

lemmas dict_simps = update_conv delete_conv set_keys_update set_keys_delete length_update

section \<open>Machines\<close>

text \<open>An operation is a total function on the state (a call that throws returns the state it
  leaves behind). Whatever every operation keeps, every run keeps.\<close>

locale invariant_machine =
  fixes step :: "'op \<Rightarrow> 's \<Rightarrow> 's" and inv :: "'s \<Rightarrow> bool"
  assumes step_inv: "inv s \<Longrightarrow> inv (step op s)"
begin

lemma run_inv: "inv s \<Longrightarrow> inv (fold step ops s)"
  by (induction ops arbitrary: s) (auto intro: step_inv)

end

text \<open>A life cycle: every transition raises a rank, so no status is ever revisited and a run has at
  most as many transitions as there are ranks.\<close>

locale life_cycle =
  fixes next_status :: "'s \<Rightarrow> 's \<Rightarrow> bool" and rank :: "'s \<Rightarrow> nat" and top :: nat
  assumes next_rank: "next_status s t \<Longrightarrow> rank s < rank t"
    and rank_top: "rank s \<le> top"
begin

lemma steps_rank: "next_status\<^sup>+\<^sup>+ s t \<Longrightarrow> rank s < rank t"
  by (induction rule: tranclp_induct) (auto dest: next_rank)

lemma never_revisited: "\<not> next_status\<^sup>+\<^sup>+ s s"
  using steps_rank by blast

lemma path_rank: "(next_status ^^ n) s t \<Longrightarrow> rank s + n \<le> rank t"
proof (induction n arbitrary: t)
  case (Suc n)
  then obtain u where "(next_status ^^ n) s u" and "next_status u t" by auto
  then have "rank s + n \<le> rank u" and "rank u < rank t" by (auto dest: Suc.IH next_rank)
  then show ?case by simp
qed simp

lemma path_bounded: "(next_status ^^ n) s t \<Longrightarrow> n \<le> top"
  using path_rank [of n s t] rank_top [of t] by simp

lemma top_is_final: "rank s = top \<Longrightarrow> \<not> next_status s t"
  using next_rank [of s t] rank_top [of t] by auto

end

end
