(* ===== verification/TokenGateway.thy ===== *)
theory TokenGateway
  imports JsPrelude "HOL-Library.Product_Lexorder" "HOL-Library.List_Lexorder"
begin

text \<open>
  \<^verbatim>\<open>src/data/delivery-system/tokenGateway.ts\<close>: the single token gate in front of every dispatch.
  A reservation holds its tokens against three budgets (provider, model, session) until it is
  settled with the tokens really used, or released; a group reservation holds the tokens of
  several slots, each of which is claimed later by one reservation.

  The state is the code's \<open>GatewayState\<close>. The gateway also has the snapshots it has written to its
  state file (\<open>gw_writes\<close>, oldest first) and its telemetry lines. Random identifiers and the clock
  are arguments; so is \<open>fits\<close>, the test that the serialized state has at most 2 MiB. A call that
  throws returns \<open>Inl\<close> with the state it leaves behind.
\<close>

section \<open>Data\<close>

datatype token_refusal_code =
    token_input_cap_exceeded
  | token_output_cap_exceeded
  | token_budget_exhausted
  | token_reservation_missing
  | token_route_mismatch
  | token_settlement_exceeds_reservation
  | token_reservation_limit

datatype gateway_error = TokenGatewayError token_refusal_code | GatewayError string

record token_gateway_limits =
  inputCapTokens :: int
  outputCapTokens :: int
  providerBudgetTokens :: int
  modelBudgetTokens :: int
  sessionBudgetTokens :: int

definition DEFAULT_TOKEN_GATEWAY_LIMITS :: token_gateway_limits where
  "DEFAULT_TOKEN_GATEWAY_LIMITS =
     \<lparr>inputCapTokens = 128000, outputCapTokens = 16000, providerBudgetTokens = 1000000,
      modelBudgetTokens = 500000, sessionBudgetTokens = 500000\<rparr>"

record token_route =
  provider :: string
  model :: "string option"
  sessionId :: "string option"

record token_request_input = token_route +
  raw_inputTokens :: js_number
  raw_outputTokens :: js_number
  raw_handoffId :: "string option"

record token_request = token_route +
  inputTokens :: int
  outputTokens :: int
  handoffId :: "string option"

record token_reservation = token_request +
  reservationId :: string
  reservedAt :: stamp
  totalTokens :: int
  groupId :: "string option"
  slotId :: "string option"
  heldTokens :: "int option"

record token_slot_request = token_route +
  slot_id :: string
  holdTokens :: int

datatype slot_state = SlotReserved | SlotClaimed | SlotSettled | SlotReleased

record token_slot = token_slot_request +
  slot_state :: slot_state
  slot_reservation :: "token_reservation option"

record token_group =
  group_id :: string
  slots :: "token_slot list"
  maximumTokens :: int

record group_spec =
  spec_groupId :: string
  spec_slots :: "token_slot_request list"

record token_usage =
  usage_inputTokens :: js_number
  usage_outputTokens :: js_number
  usage_released :: "bool option"

record token_settlement =
  settled_inputTokens :: int
  settled_outputTokens :: int
  settled_released :: "bool option"

datatype terminal_event = Settled | Released

record terminal_reservation =
  terminal_event :: terminal_event
  terminal_settlement :: token_settlement
  completedAt :: stamp

datatype telemetry_event = TReserved | TSettled | TReleased | TRefused

record gateway_telemetry =
  tel_event :: telemetry_event
  tel_recorded_at :: stamp
  tel_reservation_id :: "string option"
  tel_handoff_id :: "string option"
  tel_provider :: string
  tel_model :: "string option"
  tel_session_id :: "string option"
  tel_input_tokens :: int
  tel_output_tokens :: int
  tel_total_tokens :: int
  tel_reason :: "token_refusal_code option"

record gateway_state =
  used :: "int dict"
  reservations :: "token_reservation dict"
  terminal :: "terminal_reservation dict"
  groups :: "token_group dict"

record gateway =
  gw_state :: gateway_state
  gw_writes :: "gateway_state list"
  gw_telemetry :: "gateway_telemetry list"

definition MAX_TELEMETRY_LINES :: nat where "MAX_TELEMETRY_LINES = 512"
definition MAX_FIELD_LENGTH :: nat where "MAX_FIELD_LENGTH = 128"
definition MAX_ACTIVE_RESERVATIONS :: nat where "MAX_ACTIVE_RESERVATIONS = 512"
definition MAX_TERMINAL_RESERVATIONS :: nat where "MAX_TERMINAL_RESERVATIONS = 1024"
definition MAX_USAGE_KEYS :: nat where "MAX_USAGE_KEYS = MAX_ACTIVE_RESERVATIONS * 3"

lemmas gateway_limits_defs = MAX_TELEMETRY_LINES_def MAX_FIELD_LENGTH_def
  MAX_ACTIVE_RESERVATIONS_def MAX_TERMINAL_RESERVATIONS_def MAX_USAGE_KEYS_def

section \<open>Helpers\<close>

fun assertTokenBudget :: "js_number \<Rightarrow> int \<Rightarrow> int \<Rightarrow> js_error + unit" where
  "assertTokenBudget (Finite e) used_tokens max_tokens =
     (if e < 0 then Inl (Error ''invalid_estimated_tokens'')
      else if e + real_of_int used_tokens > real_of_int max_tokens
        then Inl (Error ''token_budget_exceeded'')
      else Inr ())"
| "assertTokenBudget _ used_tokens max_tokens = Inl (Error ''invalid_estimated_tokens'')"

definition remainingTokenBudget :: "int \<Rightarrow> int \<Rightarrow> int" where
  "remainingTokenBudget used_tokens max_tokens = max 0 (max_tokens - used_tokens)"

definition estimateTokenCount :: "utf16 \<Rightarrow> int" where
  "estimateTokenCount text = max 0 \<lceil>real (length text) / 4\<rceil>"

definition clean_char :: "char \<Rightarrow> char" where
  "clean_char c = (if of_char c \<in> {9, 10, 13 :: nat} then CHR '' '' else c)"

fun bounded :: "string option \<Rightarrow> string option" where
  "bounded None = None"
| "bounded (Some v) =
     (let clean = take MAX_FIELD_LENGTH (map clean_char v)
      in if length clean > 0 then Some clean else None)"

definition isPersistedString :: "string \<Rightarrow> bool" where
  "isPersistedString v \<longleftrightarrow>
     length v > 0 \<and> length v \<le> MAX_FIELD_LENGTH \<and> bounded (Some v) = Some v"

definition isPersistedOption :: "string option \<Rightarrow> bool" where
  "isPersistedOption v \<longleftrightarrow> (case v of None \<Rightarrow> True | Some w \<Rightarrow> isPersistedString w)"

definition normalizeRequest :: "token_request_input \<Rightarrow> token_request" where
  "normalizeRequest input =
     \<lparr>provider = (case bounded (Some (provider input)) of Some p \<Rightarrow> p | None \<Rightarrow> ''unknown''),
      model = bounded (model input),
      sessionId = bounded (sessionId input),
      inputTokens = safeCount (raw_inputTokens input),
      outputTokens = safeCount (raw_outputTokens input),
      handoffId = (case raw_handoffId input of
          None \<Rightarrow> None
        | Some h \<Rightarrow> Some (case bounded (Some h) of Some b \<Rightarrow> b | None \<Rightarrow> ''unknown''))\<rparr>"

definition same_route :: "'a token_route_scheme \<Rightarrow> 'b token_route_scheme \<Rightarrow> bool" where
  "same_route a b \<longleftrightarrow> provider a = provider b \<and> model a = model b \<and> sessionId a = sessionId b"

definition sameReservationInput :: "token_reservation \<Rightarrow> token_request \<Rightarrow> bool" where
  "sameReservationInput existing request \<longleftrightarrow>
     same_route existing request \<and> inputTokens existing = inputTokens request \<and>
     outputTokens existing = outputTokens request \<and> handoffId existing = handoffId request"

definition isCanonicalRequest :: "token_request_input \<Rightarrow> token_request \<Rightarrow> bool" where
  "isCanonicalRequest input normalized \<longleftrightarrow>
     same_route input normalized \<and>
     raw_inputTokens input = Finite (real_of_int (inputTokens normalized)) \<and>
     raw_outputTokens input = Finite (real_of_int (outputTokens normalized)) \<and>
     raw_handoffId input = handoffId normalized"

definition routeUsageKeys :: "'a token_route_scheme \<Rightarrow> string list" where
  "routeUsageKeys r =
     [''provider:'' @ provider r,
      ''model:'' @ provider r @ '':'' @ (case model r of None \<Rightarrow> ''default'' | Some m \<Rightarrow> m),
      ''session:'' @ (case sessionId r of None \<Rightarrow> ''unscoped'' | Some i \<Rightarrow> i)]"

definition budget_caps :: "token_gateway_limits \<Rightarrow> int list" where
  "budget_caps L = [providerBudgetTokens L, modelBudgetTokens L, sessionBudgetTokens L]"

definition usedOf :: "int dict \<Rightarrow> string \<Rightarrow> int" where
  "usedOf u key = (case map_of u key of None \<Rightarrow> 0 | Some v \<Rightarrow> v)"

text \<open>\<open>addUsage\<close> and \<open>addRouteUsage\<close> have the same body: the three keys of the route, in order.\<close>

definition bump_key :: "int \<Rightarrow> string \<Rightarrow> int dict \<Rightarrow> int dict" where
  "bump_key amount key u =
     (let usage = max 0 (usedOf u key + amount)
      in if usage = 0 then AList.delete key u else AList.update key usage u)"

definition addRouteUsage :: "'a token_route_scheme \<Rightarrow> int \<Rightarrow> int dict \<Rightarrow> int dict" where
  "addRouteUsage r amount u = fold (bump_key amount) (routeUsageKeys r) u"

definition hold_of :: "token_reservation \<Rightarrow> int" where
  "hold_of r = (case heldTokens r of Some h \<Rightarrow> h | None \<Rightarrow> totalTokens r)"

definition slot_active :: "token_slot \<Rightarrow> bool" where
  "slot_active s \<longleftrightarrow> slot_state s = SlotReserved \<or> slot_state s = SlotClaimed"

definition all_slots :: "gateway_state \<Rightarrow> token_slot list" where
  "all_slots s = concat (map slots (values_of (groups s)))"

definition activeGroupSlots :: "gateway_state \<Rightarrow> nat" where
  "activeGroupSlots s = length (filter slot_active (all_slots s))"

definition ordinaryReservations :: "gateway_state \<Rightarrow> token_reservation list" where
  "ordinaryReservations s = filter (\<lambda>r. groupId r = None) (values_of (reservations s))"

definition updateGroupSlot :: "token_reservation \<Rightarrow> slot_state \<Rightarrow> gateway_state \<Rightarrow> gateway_state" where
  "updateGroupSlot r st s =
     (case (groupId r, slotId r) of
        (Some g, Some i) \<Rightarrow>
          (case map_of (groups s) g of
             None \<Rightarrow> s
           | Some grp \<Rightarrow> s\<lparr>groups := AList.update g
               (grp\<lparr>slots := map (\<lambda>sl. if slot_id sl = i then sl\<lparr>slot_state := st\<rparr> else sl) (slots grp)\<rparr>)
               (groups s)\<rparr>)
      | _ \<Rightarrow> s)"

fun stamp_order :: "stamp \<Rightarrow> int" where
  "stamp_order (Iso ms) = ms"
| "stamp_order (LooseDate ms) = ms"
| "stamp_order NotDate = 0"

text \<open>Identifiers are \<open>tgr-\<close> followed by a lower-case UUID, on which \<open>localeCompare\<close> is the
  lexicographic order of the characters.\<close>

definition pruneTerminal :: "gateway_state \<Rightarrow> gateway_state" where
  "pruneTerminal s =
     (let entries = sort_key (\<lambda>(i, t). (stamp_order (completedAt t), map (of_char :: char \<Rightarrow> nat) i))
                      (terminal s)
      in s\<lparr>terminal := fold AList.delete
             (map fst (take (length entries - MAX_TERMINAL_RESERVATIONS) entries)) (terminal s)\<rparr>)"

section \<open>Persistence and telemetry\<close>

definition persist :: "(gateway_state \<Rightarrow> bool) \<Rightarrow> gateway \<Rightarrow> gateway \<times> (gateway_error + unit)" where
  "persist fits g =
     (if fits (gw_state g) then (g\<lparr>gw_writes := gw_writes g @ [gw_state g]\<rparr>, Inr ())
      else (g, Inl (GatewayError ''token_gateway_state_limit'')))"

definition telemetry_line ::
  "telemetry_event \<Rightarrow> stamp \<Rightarrow> 'a token_route_scheme \<Rightarrow> string option \<Rightarrow> string option \<Rightarrow> int \<Rightarrow> int \<Rightarrow>
   token_refusal_code option \<Rightarrow> gateway_telemetry" where
  "telemetry_line ev now r rid hid inp out reason =
     \<lparr>tel_event = ev, tel_recorded_at = now, tel_reservation_id = bounded rid,
      tel_handoff_id = bounded hid,
      tel_provider = (case bounded (Some (provider r)) of Some p \<Rightarrow> p | None \<Rightarrow> ''unknown''),
      tel_model = bounded (model r), tel_session_id = bounded (sessionId r),
      tel_input_tokens = max 0 inp, tel_output_tokens = max 0 out,
      tel_total_tokens = max 0 inp + max 0 out, tel_reason = reason\<rparr>"

definition record_telemetry :: "gateway_telemetry \<Rightarrow> gateway \<Rightarrow> gateway" where
  "record_telemetry line g =
     (let lines = gw_telemetry g @ [line]
      in g\<lparr>gw_telemetry := drop (length lines - MAX_TELEMETRY_LINES) lines\<rparr>)"

definition refuse :: "stamp \<Rightarrow> token_request \<Rightarrow> token_refusal_code \<Rightarrow> gateway \<Rightarrow>
    gateway \<times> (gateway_error + 'a)" where
  "refuse now request reason g =
     (record_telemetry (telemetry_line TRefused now request None (handoffId request)
        (inputTokens request) (outputTokens request) (Some reason)) g,
      Inl (TokenGatewayError reason))"

section \<open>Operations\<close>

definition reserve_usage_full :: "gateway_state \<Rightarrow> token_request \<Rightarrow> bool" where
  "reserve_usage_full s request \<longleftrightarrow>
     (let newUsageKeys = length (filter (\<lambda>k. map_of (used s) k = None) (routeUsageKeys request))
      in length (used s) + newUsageKeys > MAX_USAGE_KEYS)"

definition budget_exceeded :: "token_gateway_limits \<Rightarrow> gateway_state \<Rightarrow> token_request \<Rightarrow> int \<Rightarrow> bool" where
  "budget_exceeded L s request amount \<longleftrightarrow>
     list_ex (\<lambda>(k, cap). usedOf (used s) k + amount > cap) (zip (routeUsageKeys request) (budget_caps L))"

definition reserve ::
  "token_gateway_limits \<Rightarrow> (gateway_state \<Rightarrow> bool) \<Rightarrow> string \<Rightarrow> stamp \<Rightarrow> token_request_input \<Rightarrow>
   gateway \<Rightarrow> gateway \<times> (gateway_error + token_reservation)" where
  "reserve L fits rid now input g =
     (let request = normalizeRequest input; s = gw_state g;
          existing = (case handoffId request of None \<Rightarrow> None
            | Some h \<Rightarrow> List.find (\<lambda>r. handoffId r = Some h) (values_of (reservations s)))
      in case existing of
        Some e \<Rightarrow>
          (g, if \<not> same_route e request \<or> inputTokens e \<noteq> inputTokens request \<or>
                 outputTokens e \<noteq> outputTokens request
              then Inl (TokenGatewayError token_route_mismatch) else Inr e)
      | None \<Rightarrow>
          if activeGroupSlots s + length (ordinaryReservations s) \<ge> MAX_ACTIVE_RESERVATIONS
            then refuse now request token_reservation_limit g
          else if reserve_usage_full s request then refuse now request token_reservation_limit g
          else if inputTokens request > inputCapTokens L
            then refuse now request token_input_cap_exceeded g
          else if outputTokens request > outputCapTokens L
            then refuse now request token_output_cap_exceeded g
          else
            let amount = inputTokens request + outputTokens request
            in if budget_exceeded L s request amount then refuse now request token_budget_exhausted g
               else
                 let reservation = token_request.extend request
                       (token_reservation.fields rid now amount None None None);
                     s' = s\<lparr>reservations := AList.update rid reservation (reservations s),
                            used := addRouteUsage reservation amount (used s)\<rparr>
                 in (case persist fits (g\<lparr>gw_state := s'\<rparr>) of
                       (g', Inl e) \<Rightarrow> (g', Inl e)
                     | (g', Inr _) \<Rightarrow>
                         (record_telemetry (telemetry_line TReserved now reservation (Some rid)
                            (handoffId reservation) (inputTokens request) (outputTokens request) None) g',
                          Inr reservation)))"

text \<open>\<open>normalizeGroup\<close>, \<open>sameGroupRequest\<close> and the loop over the slots of a new group.\<close>

definition normalizeGroup :: "group_spec \<Rightarrow> gateway_error + group_spec" where
  "normalizeGroup input =
     (if \<not> isPersistedString (spec_groupId input) \<or>
         list_ex (\<lambda>sl. \<not> isPersistedString (slot_id sl) \<or> \<not> isPersistedString (provider sl) \<or>
            \<not> isPersistedOption (model sl) \<or> \<not> isPersistedOption (sessionId sl) \<or>
            \<not> isNonNegativeSafeInteger (holdTokens sl) \<or> holdTokens sl = 0) (spec_slots input) \<or>
         length (js_unique (map slot_id (spec_slots input))) \<noteq> length (spec_slots input)
      then Inl (GatewayError ''token_group_mismatch'') else Inr input)"

definition sameGroupRequest :: "token_group \<Rightarrow> group_spec \<Rightarrow> bool" where
  "sameGroupRequest existing request \<longleftrightarrow>
     group_id existing = spec_groupId request \<and>
     list_all2 (\<lambda>sl next. slot_id sl = slot_id next \<and> same_route sl next \<and> holdTokens sl = holdTokens next)
       (slots existing) (spec_slots request)"

fun hold_keys :: "(string \<times> int) list \<Rightarrow> int \<Rightarrow> int dict \<Rightarrow> gateway_error + int dict" where
  "hold_keys [] hold candidate = Inr candidate"
| "hold_keys ((key, cap) # rest) hold candidate =
     (let next = usedOf candidate key + hold
      in if \<not> isSafeInteger next \<or> next > cap then Inl (TokenGatewayError token_budget_exhausted)
         else hold_keys rest hold (AList.update key next candidate))"

fun hold_slots :: "token_gateway_limits \<Rightarrow> token_slot_request list \<Rightarrow> int dict \<Rightarrow> int \<Rightarrow>
    gateway_error + int dict \<times> int" where
  "hold_slots L [] candidate maximum = Inr (candidate, maximum)"
| "hold_slots L (sl # sls) candidate maximum =
     (let maximum' = maximum + holdTokens sl
      in if \<not> isSafeInteger maximum' then Inl (GatewayError ''token_group_mismatch'')
         else case hold_keys (zip (routeUsageKeys sl) (budget_caps L)) (holdTokens sl) candidate of
                Inl e \<Rightarrow> Inl e
              | Inr candidate' \<Rightarrow> hold_slots L sls candidate' maximum')"

definition new_slot :: "token_slot_request \<Rightarrow> token_slot" where
  "new_slot sl = token_slot_request.extend sl (token_slot.fields SlotReserved None)"

definition reserveGroup ::
  "token_gateway_limits \<Rightarrow> (gateway_state \<Rightarrow> bool) \<Rightarrow> group_spec \<Rightarrow> gateway \<Rightarrow>
   gateway \<times> (gateway_error + token_group)" where
  "reserveGroup L fits input g =
     (let s = gw_state g in
      case normalizeGroup input of
        Inl e \<Rightarrow> (g, Inl e)
      | Inr normalized \<Rightarrow>
          (case map_of (groups s) (spec_groupId normalized) of
             Some existing \<Rightarrow>
               (g, if \<not> sameGroupRequest existing normalized
                   then Inl (GatewayError ''token_group_mismatch'') else Inr existing)
           | None \<Rightarrow>
               if length (groups s) \<ge> MAX_ACTIVE_RESERVATIONS \<or> spec_slots normalized = [] \<or>
                  activeGroupSlots s + length (ordinaryReservations s) + length (spec_slots normalized)
                    > MAX_ACTIVE_RESERVATIONS
               then (g, Inl (TokenGatewayError token_reservation_limit))
               else
                 (case hold_slots L (spec_slots normalized) (used s) 0 of
                    Inl e \<Rightarrow> (g, Inl e)
                  | Inr (candidate, maximum) \<Rightarrow>
                      if length candidate > MAX_USAGE_KEYS
                      then (g, Inl (TokenGatewayError token_reservation_limit))
                      else
                        let grp = \<lparr>group_id = spec_groupId normalized,
                                   slots = map new_slot (spec_slots normalized),
                                   maximumTokens = maximum\<rparr>;
                            s' = s\<lparr>used := candidate,
                                   groups := AList.update (group_id grp) grp (groups s)\<rparr>
                        in (case persist fits (g\<lparr>gw_state := s'\<rparr>) of
                              (g', Inl e) \<Rightarrow> (g', Inl e) | (g', Inr _) \<Rightarrow> (g', Inr grp)))))"

definition findGroup :: "string \<Rightarrow> gateway \<Rightarrow> token_group option" where
  "findGroup gid g = map_of (groups (gw_state g)) gid"

definition claimGroupSlot ::
  "token_gateway_limits \<Rightarrow> (gateway_state \<Rightarrow> bool) \<Rightarrow> string \<Rightarrow> stamp \<Rightarrow> string \<Rightarrow> string \<Rightarrow>
   token_request_input \<Rightarrow> gateway \<Rightarrow> gateway \<times> (gateway_error + token_reservation)" where
  "claimGroupSlot L fits rid now gid sid input g =
     (let s = gw_state g in
      case map_of (groups s) gid of
        None \<Rightarrow> (g, Inl (GatewayError ''token_group_slot_missing''))
      | Some grp \<Rightarrow>
      (case findIndex (\<lambda>sl. slot_id sl = sid) (slots grp) of
        None \<Rightarrow> (g, Inl (GatewayError ''token_group_slot_missing''))
      | Some index \<Rightarrow>
        let sl = slots grp ! index; request = normalizeRequest input in
        if \<not> isCanonicalRequest input request \<or> \<not> same_route sl request \<or>
           inputTokens request + outputTokens request > holdTokens sl
        then (g, Inl (GatewayError ''token_group_slot_mismatch''))
        else case slot_reservation sl of
          Some r \<Rightarrow>
            (g, if \<not> sameReservationInput r request
                then Inl (GatewayError ''token_group_slot_mismatch'') else Inr r)
        | None \<Rightarrow>
            if inputTokens request > inputCapTokens L
              then (g, Inl (TokenGatewayError token_input_cap_exceeded))
            else if outputTokens request > outputCapTokens L
              then (g, Inl (TokenGatewayError token_output_cap_exceeded))
            else
              let reservation = token_request.extend request
                    (token_reservation.fields rid now (inputTokens request + outputTokens request)
                       (Some gid) (Some sid) (Some (holdTokens sl)));
                  sls = (slots grp)[index := sl\<lparr>slot_state := SlotClaimed,
                                               slot_reservation := Some reservation\<rparr>];
                  s' = s\<lparr>reservations := AList.update rid reservation (reservations s),
                         groups := AList.update gid (grp\<lparr>slots := sls\<rparr>) (groups s)\<rparr>
              in (case persist fits (g\<lparr>gw_state := s'\<rparr>) of
                    (g', Inl e) \<Rightarrow> (g', Inl e) | (g', Inr _) \<Rightarrow> (g', Inr reservation))))"

definition settle ::
  "token_gateway_limits \<Rightarrow> (gateway_state \<Rightarrow> bool) \<Rightarrow> stamp \<Rightarrow> token_reservation \<Rightarrow> token_usage \<Rightarrow>
   gateway \<Rightarrow> gateway \<times> (gateway_error + token_settlement)" where
  "settle L fits now reservation usage g =
     (let s = gw_state g; rid = reservationId reservation in
      case map_of (reservations s) rid of
        None \<Rightarrow>
          (g, case map_of (terminal s) rid of
                Some t \<Rightarrow> if terminal_event t = Settled then Inr (terminal_settlement t)
                          else Inl (TokenGatewayError token_reservation_missing)
              | None \<Rightarrow> Inl (TokenGatewayError token_reservation_missing))
      | Some active \<Rightarrow>
          if \<not> same_route active reservation then (g, Inl (TokenGatewayError token_route_mismatch))
          else
            let inp = safeCount (usage_inputTokens usage); out = safeCount (usage_outputTokens usage) in
            if inp > inputCapTokens L then (g, Inl (TokenGatewayError token_input_cap_exceeded))
            else if out > outputCapTokens L then (g, Inl (TokenGatewayError token_output_cap_exceeded))
            else if inp + out > totalTokens active
              then (g, Inl (TokenGatewayError token_settlement_exceeds_reservation))
            else if list_ex (\<lambda>(k, cap). usedOf (used s) k - hold_of active + (inp + out) > cap)
                      (zip (routeUsageKeys active) (budget_caps L))
              then (g, Inl (TokenGatewayError token_budget_exhausted))
            else
              let settled = \<lparr>settled_inputTokens = inp, settled_outputTokens = out,
                             settled_released = Some (usage_released usage = Some True)\<rparr>;
                  s' = pruneTerminal (updateGroupSlot active SlotSettled
                         (s\<lparr>used := addRouteUsage active (inp + out)
                                      (addRouteUsage active (- hold_of active) (used s)),
                            reservations := AList.delete rid (reservations s),
                            terminal := AList.update rid
                              \<lparr>terminal_event = Settled, terminal_settlement = settled,
                               completedAt = now\<rparr> (terminal s)\<rparr>))
              in (case persist fits (g\<lparr>gw_state := s'\<rparr>) of
                    (g', Inl e) \<Rightarrow> (g', Inl e)
                  | (g', Inr _) \<Rightarrow>
                      (record_telemetry (telemetry_line TSettled now active (Some (reservationId active))
                         (handoffId active) inp out None) g', Inr settled)))"

definition release ::
  "(gateway_state \<Rightarrow> bool) \<Rightarrow> stamp \<Rightarrow> token_reservation \<Rightarrow> gateway \<Rightarrow> gateway \<times> (gateway_error + unit)" where
  "release fits now reservation g =
     (let s = gw_state g; rid = reservationId reservation in
      case map_of (reservations s) rid of
        None \<Rightarrow> (g, if map_of (terminal s) rid \<noteq> None then Inr ()
                    else Inl (TokenGatewayError token_reservation_missing))
      | Some active \<Rightarrow>
          if \<not> same_route active reservation then (g, Inl (TokenGatewayError token_route_mismatch))
          else
            let s' = pruneTerminal (updateGroupSlot active SlotReleased
                       (s\<lparr>used := addRouteUsage active (- hold_of active) (used s),
                          reservations := AList.delete rid (reservations s),
                          terminal := AList.update rid
                            \<lparr>terminal_event = Released,
                             terminal_settlement = \<lparr>settled_inputTokens = 0, settled_outputTokens = 0,
                               settled_released = Some True\<rparr>,
                             completedAt = now\<rparr> (terminal s)\<rparr>))
            in (case persist fits (g\<lparr>gw_state := s'\<rparr>) of
                  (g', Inl e) \<Rightarrow> (g', Inl e)
                | (g', Inr _) \<Rightarrow>
                    (record_telemetry (telemetry_line TReleased now active (Some (reservationId active))
                       (handoffId active) 0 0 None) g', Inr ())))"

text \<open>The \<open>map\<close> over the slots of a group: a claimed slot is released through its reservation (which
  persists), a reserved one gives its hold back; the new slots are installed by the caller.\<close>

fun release_slots ::
  "(gateway_state \<Rightarrow> bool) \<Rightarrow> stamp \<Rightarrow> string list \<Rightarrow> token_slot list \<Rightarrow> gateway \<Rightarrow>
   gateway \<times> (gateway_error + token_slot list)" where
  "release_slots fits now requested [] g = (g, Inr [])"
| "release_slots fits now requested (sl # sls) g =
     (let (g1, r1) =
        (if slot_id sl \<notin> set requested \<or> slot_state sl = SlotReleased \<or> slot_state sl = SlotSettled
         then (g, Inr sl)
         else case (slot_state sl, slot_reservation sl) of
             (SlotClaimed, Some r) \<Rightarrow>
               (case release fits now r g of
                  (g', Inl e) \<Rightarrow> (g', Inl e)
                | (g', Inr _) \<Rightarrow> (g', Inr (sl\<lparr>slot_state := SlotReleased\<rparr>)))
           | _ \<Rightarrow>
               (g\<lparr>gw_state := (gw_state g)\<lparr>used := addRouteUsage sl (- holdTokens sl) (used (gw_state g))\<rparr>\<rparr>,
                Inr (sl\<lparr>slot_state := SlotReleased\<rparr>)))
      in case r1 of
           Inl e \<Rightarrow> (g1, Inl e)
         | Inr sl' \<Rightarrow>
             (case release_slots fits now requested sls g1 of
                (g2, Inl e) \<Rightarrow> (g2, Inl e)
              | (g2, Inr sls') \<Rightarrow> (g2, Inr (sl' # sls'))))"

definition releaseGroupSlots ::
  "(gateway_state \<Rightarrow> bool) \<Rightarrow> stamp \<Rightarrow> string \<Rightarrow> string list \<Rightarrow> gateway \<Rightarrow>
   gateway \<times> (gateway_error + token_group)" where
  "releaseGroupSlots fits now gid slotIds g =
     (case map_of (groups (gw_state g)) gid of
        None \<Rightarrow> (g, Inl (GatewayError ''token_group_missing''))
      | Some grp \<Rightarrow>
          if length (js_unique slotIds) \<noteq> length slotIds \<or>
             list_ex (\<lambda>i. \<not> list_ex (\<lambda>sl. slot_id sl = i) (slots grp)) slotIds
          then (g, Inl (GatewayError ''token_group_slot_missing''))
          else
            (case release_slots fits now slotIds (slots grp) g of
               (g', Inl e) \<Rightarrow> (g', Inl e)
             | (g', Inr sls) \<Rightarrow>
                 let grp' = grp\<lparr>slots := sls\<rparr>;
                     s' = (gw_state g')\<lparr>groups := AList.update gid grp' (groups (gw_state g'))\<rparr>
                 in (case persist fits (g'\<lparr>gw_state := s'\<rparr>) of
                       (g2, Inl e) \<Rightarrow> (g2, Inl e) | (g2, Inr _) \<Rightarrow> (g2, Inr grp'))))"

definition gateway_snapshot :: "gateway \<Rightarrow> int dict \<times> nat" where
  "gateway_snapshot g = (used (gw_state g), length (reservations (gw_state g)))"

definition findActiveReservation :: "string \<Rightarrow> gateway \<Rightarrow> token_reservation option" where
  "findActiveReservation hid g =
     List.find (\<lambda>r. handoffId r = Some hid) (values_of (reservations (gw_state g)))"

definition acknowledgeTerminal :: "(gateway_state \<Rightarrow> bool) \<Rightarrow> string \<Rightarrow> gateway \<Rightarrow> gateway \<times> (gateway_error + unit)" where
  "acknowledgeTerminal fits rid g =
     (let s = gw_state g in
      if map_of (terminal s) rid = None then (g, Inr ())
      else persist fits (g\<lparr>gw_state := s\<lparr>terminal := AList.delete rid (terminal s)\<rparr>\<rparr>))"

section \<open>Validation of a stored state\<close>

text \<open>The JSON shape (records with exactly the expected keys, arrays, strings) is the typing of the
  records above; the \<open>groups\<close> and \<open>completedAt\<close> that files of an older version lack are the defaults
  the loader gives them (no groups, the epoch). What remains of the validators is the following.\<close>

definition isReservation :: "string \<Rightarrow> token_reservation \<Rightarrow> bool" where
  "isReservation i r \<longleftrightarrow>
     isPersistedString i \<and> reservationId r = i \<and> isPersistedString (provider r) \<and>
     isPersistedOption (model r) \<and> isPersistedOption (sessionId r) \<and> isPersistedOption (handoffId r) \<and>
     canonical_stamp (reservedAt r) \<and>
     isNonNegativeSafeInteger (inputTokens r) \<and> isNonNegativeSafeInteger (outputTokens r) \<and>
     isNonNegativeSafeInteger (totalTokens r) \<and> isSafeInteger (inputTokens r + outputTokens r) \<and>
     totalTokens r = inputTokens r + outputTokens r \<and>
     (case (groupId r, slotId r, heldTokens r) of
        (None, None, None) \<Rightarrow> True
      | (Some g, Some sl, Some h) \<Rightarrow> isPersistedString g \<and> isPersistedString sl \<and>
          isNonNegativeSafeInteger h \<and> totalTokens r \<le> h
      | _ \<Rightarrow> False)"

definition isSlot :: "string \<Rightarrow> token_slot \<Rightarrow> bool" where
  "isSlot gid sl \<longleftrightarrow>
     isPersistedString (slot_id sl) \<and> isPersistedString (provider sl) \<and>
     isPersistedOption (model sl) \<and> isPersistedOption (sessionId sl) \<and>
     isNonNegativeSafeInteger (holdTokens sl) \<and> holdTokens sl \<noteq> 0 \<and>
     (case slot_reservation sl of None \<Rightarrow> True | Some r \<Rightarrow> isReservation (reservationId r) r) \<and>
     (slot_state sl = SlotReserved \<longrightarrow> slot_reservation sl = None) \<and>
     (slot_state sl \<in> {SlotClaimed, SlotSettled} \<longrightarrow> slot_reservation sl \<noteq> None) \<and>
     (case slot_reservation sl of None \<Rightarrow> True
      | Some r \<Rightarrow> groupId r = Some gid \<and> slotId r = Some (slot_id sl) \<and> heldTokens r = Some (holdTokens sl))"

fun isGroup_slots :: "string \<Rightarrow> token_slot list \<Rightarrow> string list \<Rightarrow> int \<Rightarrow> int option" where
  "isGroup_slots gid [] ids maximum = Some maximum"
| "isGroup_slots gid (sl # sls) ids maximum =
     (if slot_id sl \<in> set ids \<or> \<not> isSlot gid sl \<or> \<not> isSafeInteger (maximum + holdTokens sl) then None
      else isGroup_slots gid sls (slot_id sl # ids) (maximum + holdTokens sl))"

definition isGroup :: "token_group \<Rightarrow> bool" where
  "isGroup grp \<longleftrightarrow>
     isPersistedString (group_id grp) \<and> isNonNegativeSafeInteger (maximumTokens grp) \<and>
     slots grp \<noteq> [] \<and> isGroup_slots (group_id grp) (slots grp) [] 0 = Some (maximumTokens grp)"

definition isTerminalReservation :: "terminal_reservation \<Rightarrow> bool" where
  "isTerminalReservation t \<longleftrightarrow>
     (let st = terminal_settlement t in
      isNonNegativeSafeInteger (settled_inputTokens st) \<and>
      isNonNegativeSafeInteger (settled_outputTokens st) \<and>
      isSafeInteger (settled_inputTokens st + settled_outputTokens st) \<and>
      canonical_stamp (completedAt t) \<and>
      (terminal_event t \<noteq> Released \<or>
         settled_inputTokens st = 0 \<and> settled_outputTokens st = 0 \<and> settled_released st = Some True))"

datatype usage_kind = ProviderUsage | ModelUsage | SessionUsage

definition strip_prefix :: "string \<Rightarrow> string \<Rightarrow> string option" where
  "strip_prefix pre s = (if take (length pre) s = pre then Some (drop (length pre) s) else None)"

definition usageKeyKind :: "string \<Rightarrow> usage_kind option" where
  "usageKeyKind key =
     (case strip_prefix ''provider:'' key of
        Some p \<Rightarrow> if isPersistedString p then Some ProviderUsage else None
      | None \<Rightarrow>
     (case strip_prefix ''session:'' key of
        Some i \<Rightarrow> if isPersistedString i then Some SessionUsage else None
      | None \<Rightarrow>
     (case strip_prefix ''model:'' key of
        None \<Rightarrow> None
      | Some route \<Rightarrow>
          if list_ex (\<lambda>i. route ! i = CHR '':'' \<and> isPersistedString (take i route) \<and>
                isPersistedString (drop (Suc i) route)) [1..<length route - 1]
          then Some ModelUsage else None)))"

fun safeIncrement :: "usage_kind \<Rightarrow> int \<Rightarrow> int \<times> int \<times> int \<Rightarrow> (int \<times> int \<times> int) option" where
  "safeIncrement ProviderUsage n (p, m, i) = (if isSafeInteger (p + n) then Some (p + n, m, i) else None)"
| "safeIncrement ModelUsage n (p, m, i) = (if isSafeInteger (m + n) then Some (p, m + n, i) else None)"
| "safeIncrement SessionUsage n (p, m, i) = (if isSafeInteger (i + n) then Some (p, m, i + n) else None)"

fun usage_totals :: "int dict \<Rightarrow> int \<times> int \<times> int \<Rightarrow> (int \<times> int \<times> int) option" where
  "usage_totals [] totals = Some totals"
| "usage_totals ((key, v) # rest) totals =
     (case usageKeyKind key of
        None \<Rightarrow> None
      | Some kind \<Rightarrow>
          if \<not> isNonNegativeSafeInteger v \<or> v = 0 then None
          else case safeIncrement kind v totals of None \<Rightarrow> None | Some t \<Rightarrow> usage_totals rest t)"

fun require_keys :: "string list \<Rightarrow> int \<Rightarrow> int dict \<Rightarrow> int dict option" where
  "require_keys [] n required = Some required"
| "require_keys (k # ks) n required =
     (let next = usedOf required k + n
      in if \<not> isSafeInteger next then None else require_keys ks n (AList.update k next required))"

fun require_all :: "(string list \<times> int) list \<Rightarrow> int dict \<Rightarrow> int dict option" where
  "require_all [] required = Some required"
| "require_all ((ks, n) # rest) required =
     (case require_keys ks n required of None \<Rightarrow> None | Some r \<Rightarrow> require_all rest r)"

text \<open>The two loops over ordinary reservations and active slots, as one list of holds.\<close>

definition usage_holds :: "gateway_state \<Rightarrow> (string list \<times> int) list" where
  "usage_holds s =
     map (\<lambda>r. (routeUsageKeys r, totalTokens r))
       (filter (\<lambda>r. totalTokens r \<noteq> 0) (ordinaryReservations s)) @
     map (\<lambda>sl. (routeUsageKeys sl, holdTokens sl)) (filter slot_active (all_slots s))"

definition usageIsCoherent :: "gateway_state \<Rightarrow> bool" where
  "usageIsCoherent s \<longleftrightarrow>
     (case usage_totals (used s) (0, 0, 0) of
        None \<Rightarrow> False
      | Some (p, m, i) \<Rightarrow>
          p = m \<and> p = i \<and>
          (case require_all (usage_holds s) [] of
             None \<Rightarrow> False
           | Some required \<Rightarrow>
               list_all (\<lambda>(k, minimum). map_of (used s) k \<noteq> None \<and>
                 isNonNegativeSafeInteger (usedOf (used s) k) \<and> minimum \<le> usedOf (used s) k) required))"

definition claimed_slots_active :: "gateway_state \<Rightarrow> bool" where
  "claimed_slots_active s \<longleftrightarrow>
     list_all (\<lambda>sl. slot_state sl = SlotClaimed \<longrightarrow>
       (case slot_reservation sl of None \<Rightarrow> False
        | Some r \<Rightarrow> map_of (reservations s) (reservationId r) = Some r)) (all_slots s)"

definition reservations_claim_slots :: "gateway_state \<Rightarrow> bool" where
  "reservations_claim_slots s \<longleftrightarrow>
     list_all (\<lambda>r. case groupId r of None \<Rightarrow> True
       | Some g \<Rightarrow>
           (case map_of (groups s) g of None \<Rightarrow> False
            | Some grp \<Rightarrow>
                (case List.find (\<lambda>sl. Some (slot_id sl) = slotId r) (slots grp) of
                   None \<Rightarrow> False
                 | Some sl \<Rightarrow> slot_state sl = SlotClaimed \<and> slot_reservation sl = Some r)))
       (values_of (reservations s))"

definition handoffIds :: "gateway_state \<Rightarrow> string list" where
  "handoffIds s = concat (map (\<lambda>r. case handoffId r of None \<Rightarrow> [] | Some h \<Rightarrow> [h]) (values_of (reservations s)))"

definition isGatewayState :: "gateway_state \<Rightarrow> bool" where
  "isGatewayState s \<longleftrightarrow>
     length (used s) \<le> MAX_USAGE_KEYS \<and>
     length (reservations s) \<le> MAX_ACTIVE_RESERVATIONS \<and>
     length (terminal s) \<le> MAX_TERMINAL_RESERVATIONS \<and>
     length (groups s) \<le> MAX_ACTIVE_RESERVATIONS \<and>
     list_all (\<lambda>(i, grp). isPersistedString i \<and> isGroup grp \<and> group_id grp = i) (groups s) \<and>
     activeGroupSlots s + length (ordinaryReservations s) \<le> MAX_ACTIVE_RESERVATIONS \<and>
     list_all (\<lambda>(i, r). isReservation i r) (reservations s) \<and>
     list_all (\<lambda>(i, t). isPersistedString i \<and> isTerminalReservation t) (terminal s) \<and>
     length (js_unique (handoffIds s)) = length (handoffIds s) \<and>
     \<not> list_ex (\<lambda>i. i \<in> set (keys_of (terminal s))) (keys_of (reservations s)) \<and>
     claimed_slots_active s \<and> reservations_claim_slots s \<and> usageIsCoherent s"

definition empty_gateway_state :: gateway_state where
  "empty_gateway_state = \<lparr>used = [], reservations = [], terminal = [], groups = []\<rparr>"

text \<open>\<open>None\<close> is a missing state file.\<close>

definition readGatewayState :: "gateway_state option \<Rightarrow> gateway_error + gateway_state" where
  "readGatewayState file =
     (case file of
        None \<Rightarrow> Inr empty_gateway_state
      | Some s \<Rightarrow> if isGatewayState s then Inr s else Inl (GatewayError ''invalid_token_gateway_state''))"

definition load_gateway :: "gateway_state option \<Rightarrow> gateway_error + gateway" where
  "load_gateway file =
     (case readGatewayState file of Inl e \<Rightarrow> Inl e
      | Inr s \<Rightarrow> Inr \<lparr>gw_state = s, gw_writes = [], gw_telemetry = []\<rparr>)"

end
