(* ===== verification/TokenGatewayLaws.thy ===== *)
theory TokenGatewayLaws
  imports TokenGateway "HOL-Library.Multiset"
begin

text \<open>
  What the token gate guarantees: an invariant of its state that every operation keeps (the budgets
  are never exceeded, every active reservation is covered by the usage counted against it, the
  stored state is one that the loader accepts), and the functional behaviour of the operations.
\<close>

section \<open>Usage keys\<close>

lemma take_provider [simp]: "strip_prefix ''provider:'' (''provider:'' @ x) = Some x"
  by (simp add: strip_prefix_def)

lemma strip_session [simp]:
  "strip_prefix ''provider:'' (''session:'' @ x) = None"
  "strip_prefix ''session:'' (''session:'' @ x) = Some x"
  by (simp_all add: strip_prefix_def)

lemma strip_model [simp]:
  "strip_prefix ''provider:'' (''model:'' @ x) = None"
  "strip_prefix ''session:'' (''model:'' @ x) = None"
  "strip_prefix ''model:'' (''model:'' @ x) = Some x"
  by (simp_all add: strip_prefix_def)

definition persisted_route :: "'a token_route_scheme \<Rightarrow> bool" where
  "persisted_route r \<longleftrightarrow>
     isPersistedString (provider r) \<and> isPersistedOption (model r) \<and> isPersistedOption (sessionId r)"

lemma persisted_default: "isPersistedString ''default''" "isPersistedString ''unscoped''"
    "isPersistedString ''unknown''"
  by (simp_all add: isPersistedString_def MAX_FIELD_LENGTH_def clean_char_def)

lemma kind_provider: "isPersistedString p \<Longrightarrow> usageKeyKind (''provider:'' @ p) = Some ProviderUsage"
  by (simp only: usageKeyKind_def take_provider option.case if_True)

lemma kind_session: "isPersistedString p \<Longrightarrow> usageKeyKind (''session:'' @ p) = Some SessionUsage"
  by (simp only: usageKeyKind_def strip_session option.case if_True)

lemma kind_model:
  assumes "isPersistedString p" and "isPersistedString m"
  shows "usageKeyKind (''model:'' @ p @ '':'' @ m) = Some ModelUsage"
proof -
  let ?route = "p @ '':'' @ m"
  have "0 < length p" and "0 < length m" using assms by (auto simp: isPersistedString_def)
  then have "length p \<in> set [1..<length ?route - 1]"
    unfolding set_upt length_append by (auto simp: Suc_le_eq)
  moreover have "?route ! length p = CHR '':''" and "take (length p) ?route = p"
    and "drop (Suc (length p)) ?route = m"
    by (simp_all add: nth_append)
  ultimately have "list_ex (\<lambda>i. ?route ! i = CHR '':'' \<and> isPersistedString (take i ?route) \<and>
      isPersistedString (drop (Suc i) ?route)) [1..<length ?route - 1]"
    using assms unfolding list_ex_iff by metis
  then show ?thesis by (simp only: usageKeyKind_def strip_model option.case if_True)
qed

definition kind_cap :: "token_gateway_limits \<Rightarrow> usage_kind \<Rightarrow> int" where
  "kind_cap L K = (case K of ProviderUsage \<Rightarrow> providerBudgetTokens L
     | ModelUsage \<Rightarrow> modelBudgetTokens L | SessionUsage \<Rightarrow> sessionBudgetTokens L)"

lemma route_keys_kinds:
  assumes "persisted_route r"
  shows "map usageKeyKind (routeUsageKeys r) = [Some ProviderUsage, Some ModelUsage, Some SessionUsage]"
proof -
  have "isPersistedString (case model r of None \<Rightarrow> ''default'' | Some m \<Rightarrow> m)"
    and "isPersistedString (case sessionId r of None \<Rightarrow> ''unscoped'' | Some m \<Rightarrow> m)"
    using assms persisted_default
    by (auto simp: persisted_route_def isPersistedOption_def split: option.splits)
  then show ?thesis
    using assms
    by (simp only: routeUsageKeys_def list.map kind_provider kind_model kind_session persisted_route_def)
qed

lemma route_keys_distinct: "distinct (routeUsageKeys r)"
  by (simp add: routeUsageKeys_def)

lemma length_route_keys [simp]: "length (routeUsageKeys r) = 3"
  by (simp add: routeUsageKeys_def)

section \<open>The usage dictionary\<close>

definition sum_kind :: "int dict \<Rightarrow> usage_kind \<Rightarrow> int" where
  "sum_kind u K = sum_list (map (\<lambda>(k, v). if usageKeyKind k = Some K then v else 0) u)"

definition used_pos :: "int dict \<Rightarrow> bool" where
  "used_pos u \<longleftrightarrow> distinct (keys_of u) \<and> (\<forall>v \<in> set (values_of u). 0 < v)"

lemma usedOf_update: "usedOf (AList.update k v u) j = (if j = k then v else usedOf u j)"
  by (simp add: usedOf_def update_conv')

lemma usedOf_delete: "usedOf (AList.delete k u) j = (if j = k then 0 else usedOf u j)"
  by (simp add: usedOf_def delete_conv')

lemma usedOf_pos: "used_pos u \<Longrightarrow> 0 \<le> usedOf u k"
  by (force simp: usedOf_def used_pos_def split: option.splits dest: map_of_SomeD)

lemma usedOf_mem: "used_pos u \<Longrightarrow> (k, v) \<in> set u \<Longrightarrow> usedOf u k = v"
  by (simp add: usedOf_def used_pos_def)

lemma usedOf_zero: "used_pos u \<Longrightarrow> usedOf u k = 0 \<longleftrightarrow> map_of u k = None"
  by (force simp: usedOf_def used_pos_def split: option.splits dest: map_of_SomeD)

lemma usedOf_bump: "usedOf (bump_key n k u) j = (if j = k then max 0 (usedOf u k + n) else usedOf u j)"
  by (simp add: bump_key_def Let_def usedOf_update usedOf_delete)

lemma used_pos_bump: "used_pos u \<Longrightarrow> used_pos (bump_key n k u)"
  unfolding bump_key_def Let_def used_pos_def
  by (auto simp: max_def in_values_delete dest!: in_values_update)

lemma sum_kind_update:
  assumes "used_pos u"
  shows "sum_kind (AList.update k v u) K =
           sum_kind u K + (if usageKeyKind k = Some K then v - usedOf u k else 0)"
proof (cases "map_of u k")
  case None
  then have "k \<notin> set (keys_of u)" by (simp add: map_of_eq_None_iff)
  with None show ?thesis by (simp add: sum_kind_def sum_update_fresh usedOf_def)
next
  case (Some w)
  with assms show ?thesis by (simp add: sum_kind_def used_pos_def sum_update_old [OF _ Some] usedOf_def)
qed

lemma sum_kind_delete:
  assumes "used_pos u"
  shows "sum_kind (AList.delete k u) K = sum_kind u K - (if usageKeyKind k = Some K then usedOf u k else 0)"
proof (cases "map_of u k")
  case None
  then have "AList.delete k u = u" by (simp add: map_of_eq_None_iff delete_idem)
  with None show ?thesis by (simp add: usedOf_def)
next
  case (Some w)
  with assms show ?thesis by (simp add: sum_kind_def used_pos_def sum_delete [OF _ Some] usedOf_def)
qed

lemma sum_kind_bump:
  assumes "used_pos u" and "0 \<le> usedOf u k + n"
  shows "sum_kind (bump_key n k u) K = sum_kind u K + (if usageKeyKind k = Some K then n else 0)"
  using assms by (simp add: bump_key_def Let_def sum_kind_update sum_kind_delete max_def)

lemma fold_bump:
  assumes "distinct ks" and "used_pos u"
  shows "used_pos (fold (bump_key n) ks u)"
    and "usedOf (fold (bump_key n) ks u) j = (if j \<in> set ks then max 0 (usedOf u j + n) else usedOf u j)"
    and "(\<forall>k \<in> set ks. 0 \<le> usedOf u k + n) \<Longrightarrow>
      sum_kind (fold (bump_key n) ks u) K =
        sum_kind u K + n * int (length (filter (\<lambda>k. usageKeyKind k = Some K) ks))"
  using assms
proof (induction ks arbitrary: u)
  case (Cons k ks)
  { case 1 then show ?case using Cons.IH(1) by (simp add: used_pos_bump) }
  { case 2 then show ?case using Cons.IH(2) by (auto simp: used_pos_bump usedOf_bump) }
  { case 3
    then have "\<forall>j \<in> set ks. 0 \<le> usedOf (bump_key n k u) j + n"
      by (auto simp: usedOf_bump)
    with 3 show ?case
      using Cons.IH(3) by (simp add: used_pos_bump sum_kind_bump algebra_simps) }
qed simp_all

lemma used_pos_addRoute: "used_pos u \<Longrightarrow> used_pos (addRouteUsage r n u)"
  by (simp add: addRouteUsage_def fold_bump(1) route_keys_distinct)

lemma usedOf_addRoute:
  "used_pos u \<Longrightarrow> usedOf (addRouteUsage r n u) k =
     (if k \<in> set (routeUsageKeys r) then max 0 (usedOf u k + n) else usedOf u k)"
  by (simp add: addRouteUsage_def fold_bump(2) route_keys_distinct)

lemma sum_kind_addRoute:
  assumes "used_pos u" and "persisted_route r" and "\<forall>k \<in> set (routeUsageKeys r). 0 \<le> usedOf u k + n"
  shows "sum_kind (addRouteUsage r n u) K = sum_kind u K + n"
proof -
  have "length (filter (\<lambda>k. usageKeyKind k = Some K) (routeUsageKeys r)) =
      length (filter (\<lambda>k. k = Some K) (map usageKeyKind (routeUsageKeys r)))"
    by (simp add: filter_map comp_def)
  also have "\<dots> = 1"
    by (cases K) (simp_all add: route_keys_kinds [OF assms(2)])
  finally show ?thesis
    using assms by (simp add: addRouteUsage_def fold_bump(3) route_keys_distinct)
qed

section \<open>The invariant of the gateway state\<close>

definition ordHold :: "string \<Rightarrow> string \<times> token_reservation \<Rightarrow> int" where
  "ordHold k e = (if groupId (snd e) = None \<and> k \<in> set (routeUsageKeys (snd e)) then totalTokens (snd e) else 0)"

definition slotHold :: "string \<Rightarrow> token_slot \<Rightarrow> int" where
  "slotHold k sl = (if slot_active sl \<and> k \<in> set (routeUsageKeys sl) then holdTokens sl else 0)"

definition slotsHold :: "string \<Rightarrow> token_slot list \<Rightarrow> int" where
  "slotsHold k sls = sum_list (map (slotHold k) sls)"

definition grpHold :: "string \<Rightarrow> string \<times> token_group \<Rightarrow> int" where
  "grpHold k e = slotsHold k (slots (snd e))"

definition activeCount :: "token_slot list \<Rightarrow> int" where
  "activeCount sls = int (length (filter slot_active sls))"

text \<open>The tokens held under a usage key: what the active reservations and slots may still use.\<close>

definition holdsAt :: "gateway_state \<Rightarrow> string \<Rightarrow> int" where
  "holdsAt s k = sum_list (map (ordHold k) (reservations s)) + sum_list (map (grpHold k) (groups s))"

definition activeTotal :: "gateway_state \<Rightarrow> int" where
  "activeTotal s =
     sum_list (map (\<lambda>e. activeCount (slots (snd e))) (groups s)) +
     sum_list (map (\<lambda>e. if groupId (snd e) = None then 1 else 0) (reservations s))"

definition usage_inv :: "token_gateway_limits \<Rightarrow> int dict \<Rightarrow> bool" where
  "usage_inv L u \<longleftrightarrow>
     used_pos u \<and> length u \<le> MAX_USAGE_KEYS \<and> (\<forall>k \<in> set (keys_of u). usageKeyKind k \<noteq> None) \<and>
     sum_kind u ProviderUsage = sum_kind u ModelUsage \<and>
     sum_kind u ProviderUsage = sum_kind u SessionUsage \<and>
     (\<forall>k K. usageKeyKind k = Some K \<longrightarrow> usedOf u k \<le> kind_cap L K)"

definition reservations_inv :: "token_reservation dict \<Rightarrow> bool" where
  "reservations_inv rs \<longleftrightarrow>
     distinct (keys_of rs) \<and> (\<forall>i r. (i, r) \<in> set rs \<longrightarrow> isReservation i r)"

definition terminal_inv :: "terminal_reservation dict \<Rightarrow> bool" where
  "terminal_inv ts \<longleftrightarrow>
     distinct (keys_of ts) \<and> (\<forall>i t. (i, t) \<in> set ts \<longrightarrow> isPersistedString i \<and> isTerminalReservation t)"

definition groups_inv :: "token_group dict \<Rightarrow> bool" where
  "groups_inv gs \<longleftrightarrow>
     distinct (keys_of gs) \<and>
     (\<forall>i grp. (i, grp) \<in> set gs \<longrightarrow> isPersistedString i \<and> isGroup grp \<and> group_id grp = i)"

definition slot_linked :: "token_reservation dict \<Rightarrow> token_slot \<Rightarrow> bool" where
  "slot_linked rs sl \<longleftrightarrow>
     (slot_state sl = SlotClaimed \<longrightarrow>
        (\<exists>r. slot_reservation sl = Some r \<and> same_route sl r \<and> map_of rs (reservationId r) = Some r))"

definition reservation_linked :: "token_group dict \<Rightarrow> token_reservation \<Rightarrow> bool" where
  "reservation_linked gs r \<longleftrightarrow>
     (\<forall>g. groupId r = Some g \<longrightarrow>
        (\<exists>grp sl. map_of gs g = Some grp \<and> sl \<in> set (slots grp) \<and> slot_state sl = SlotClaimed \<and>
           slot_reservation sl = Some r))"

definition link_inv :: "gateway_state \<Rightarrow> bool" where
  "link_inv s \<longleftrightarrow>
     (\<forall>i grp. (i, grp) \<in> set (groups s) \<longrightarrow> (\<forall>sl \<in> set (slots grp). slot_linked (reservations s) sl)) \<and>
     (\<forall>i r. (i, r) \<in> set (reservations s) \<longrightarrow> reservation_linked (groups s) r)"

definition gateway_inv :: "token_gateway_limits \<Rightarrow> gateway_state \<Rightarrow> bool" where
  "gateway_inv L s \<longleftrightarrow>
     usage_inv L (used s) \<and> reservations_inv (reservations s) \<and> terminal_inv (terminal s) \<and>
     groups_inv (groups s) \<and> link_inv s \<and>
     length (terminal s) \<le> MAX_TERMINAL_RESERVATIONS \<and> length (groups s) \<le> MAX_ACTIVE_RESERVATIONS \<and>
     activeTotal s \<le> int MAX_ACTIVE_RESERVATIONS \<and> distinct (handoffIds s) \<and>
     set (keys_of (reservations s)) \<inter> set (keys_of (terminal s)) = {} \<and>
     (\<forall>k. holdsAt s k \<le> usedOf (used s) k)"

lemmas inv_defs = gateway_inv_def reservations_inv_def terminal_inv_def groups_inv_def

lemma length_filter_concat:
  "length (filter P (concat (map f xs))) = sum_list (map (\<lambda>x. length (filter P (f x))) xs)"
  by (induction xs) auto

lemma length_filter_sum: "int (length (filter P xs)) = sum_list (map (\<lambda>e. if P e then 1 else 0) xs)"
  by (induction xs) auto

lemma int_sum_list: "int (sum_list (map f xs)) = sum_list (map (\<lambda>x. int (f x)) xs)"
  by (induction xs) auto

lemma activeTotal_counts:
  "activeTotal s = int (activeGroupSlots s + length (ordinaryReservations s))"
proof -
  have "int (activeGroupSlots s) = sum_list (map (\<lambda>e. activeCount (slots (snd e))) (groups s))"
    by (simp add: activeGroupSlots_def all_slots_def length_filter_concat activeCount_def
        int_sum_list comp_def)
  then show ?thesis
    by (simp add: activeTotal_def ordinaryReservations_def length_filter_sum filter_map comp_def)
qed

lemma empty_gateway_inv: "0 \<le> providerBudgetTokens L \<Longrightarrow> 0 \<le> modelBudgetTokens L \<Longrightarrow>
    0 \<le> sessionBudgetTokens L \<Longrightarrow> gateway_inv L empty_gateway_state"
  by (auto simp: inv_defs usage_inv_def used_pos_def sum_kind_def link_inv_def empty_gateway_state_def
      usedOf_def kind_cap_def activeTotal_def handoffIds_def holdsAt_def split: usage_kind.splits)

section \<open>Slots of a valid group\<close>

lemma isGroup_slots_Some:
  "isGroup_slots gid sls ids n = Some m \<longleftrightarrow>
     distinct (map slot_id sls) \<and> set (map slot_id sls) \<inter> set ids = {} \<and> (\<forall>sl \<in> set sls. isSlot gid sl) \<and>
     m = n + sum_list (map holdTokens sls) \<and>
     (\<forall>j \<le> length sls. 0 < j \<longrightarrow> isSafeInteger (n + sum_list (map holdTokens (take j sls))))"
proof (induction gid sls ids n rule: isGroup_slots.induct)
  case (2 gid sl sls ids n)
  have *: "(\<forall>j \<le> length (sl # sls). 0 < j \<longrightarrow> isSafeInteger (n + sum_list (map holdTokens (take j (sl # sls))))) \<longleftrightarrow>
      isSafeInteger (n + holdTokens sl) \<and>
      (\<forall>j \<le> length sls. 0 < j \<longrightarrow> isSafeInteger (n + holdTokens sl + sum_list (map holdTokens (take j sls))))"
    (is "?A \<longleftrightarrow> ?B \<and> ?C")
  proof
    assume a: ?A
    have ?B using a [rule_format, of 1] by simp
    moreover have ?C
    proof (intro allI impI)
      fix j assume "j \<le> length sls" "0 < j"
      then show "isSafeInteger (n + holdTokens sl + sum_list (map holdTokens (take j sls)))"
        using a [rule_format, of "Suc j"] by (simp add: algebra_simps)
    qed
    ultimately show "?B \<and> ?C" ..
  next
    assume bc: "?B \<and> ?C"
    show ?A
    proof (intro allI impI)
      fix j assume j: "j \<le> length (sl # sls)" "0 < j"
      then obtain i where i: "j = Suc i" by (cases j) auto
      show "isSafeInteger (n + sum_list (map holdTokens (take j (sl # sls))))"
        using bc j i by (cases i) (auto simp: algebra_simps)
    qed
  qed
  show ?case
    unfolding * using 2 by (auto simp: algebra_simps)
qed auto

lemma isGroup_slots_facts:
  assumes "isGroup grp"
  shows "distinct (map slot_id (slots grp))" and "sl \<in> set (slots grp) \<Longrightarrow> isSlot (group_id grp) sl"
  using assms by (auto simp: isGroup_def isGroup_slots_Some)

text \<open>A change of the slots that keeps their requests and validity keeps the group valid.\<close>

lemma isGroup_update_slots:
  assumes "isGroup grp" and "map slot_id sls = map slot_id (slots grp)"
    and "map holdTokens sls = map holdTokens (slots grp)" and "\<forall>sl \<in> set sls. isSlot (group_id grp) sl"
  shows "isGroup (grp\<lparr>slots := sls\<rparr>)"
proof -
  have len: "length sls = length (slots grp)" using assms(2) by (metis length_map)
  have "map holdTokens (take j sls) = map holdTokens (take j (slots grp))" for j
    by (metis assms(3) take_map)
  with assms len show ?thesis
    by (auto simp: isGroup_def isGroup_slots_Some)
qed

section \<open>Changing the usage of a route\<close>

lemma zip_caps:
  assumes "persisted_route r" and "k \<in> set (routeUsageKeys r)"
  shows "\<exists>K. usageKeyKind k = Some K \<and> (k, kind_cap L K) \<in> set (zip (routeUsageKeys r) (budget_caps L))"
proof -
  obtain a b c where keys: "routeUsageKeys r = [a, b, c]"
    by (simp add: routeUsageKeys_def)
  from route_keys_kinds [OF assms(1)] assms(2) show ?thesis
    by (auto simp: keys budget_caps_def kind_cap_def)
qed

lemma keys_usedOf: "used_pos u \<Longrightarrow> fst ` set u = {k. usedOf u k \<noteq> 0}"
  using usedOf_zero by (auto simp: map_of_eq_None_iff)

lemma length_usedOf_mono:
  assumes "used_pos u" and "used_pos v" and "\<And>k. usedOf v k \<noteq> 0 \<Longrightarrow> usedOf u k \<noteq> 0"
  shows "length v \<le> length u"
proof -
  have "card (set (keys_of v)) \<le> card (set (keys_of u))"
  proof (rule card_mono [OF List.finite_set])
    show "set (keys_of v) \<subseteq> set (keys_of u)"
      using assms(3) by (simp add: keys_usedOf [OF assms(1)] keys_usedOf [OF assms(2)] Collect_mono)
  qed
  moreover have "length v = card (set (keys_of v))" "length u = card (set (keys_of u))"
    using assms distinct_card [of "keys_of v"] distinct_card [of "keys_of u"]
    by (simp_all add: used_pos_def)
  ultimately show ?thesis by simp
qed

text \<open>The invariant of the usage without the bound on the number of keys, which a group reservation
  tests only after its loop over the slots.\<close>

definition usage_core :: "token_gateway_limits \<Rightarrow> int dict \<Rightarrow> bool" where
  "usage_core L u \<longleftrightarrow>
     used_pos u \<and> (\<forall>k \<in> set (keys_of u). usageKeyKind k \<noteq> None) \<and>
     sum_kind u ProviderUsage = sum_kind u ModelUsage \<and>
     sum_kind u ProviderUsage = sum_kind u SessionUsage \<and>
     (\<forall>k K. usageKeyKind k = Some K \<longrightarrow> usedOf u k \<le> kind_cap L K)"

lemma usage_inv_core: "usage_inv L u \<longleftrightarrow> usage_core L u \<and> length u \<le> MAX_USAGE_KEYS"
  by (auto simp: usage_inv_def usage_core_def)

lemma usage_core_change:
  assumes u: "usage_core L u" and r: "persisted_route r" and pos: "used_pos u'"
    and sums: "\<And>K. sum_kind u' K = sum_kind u K + n"
    and usage: "\<And>k. usedOf u' k = usedOf u k + (if k \<in> set (routeUsageKeys r) then n else 0)"
    and cap: "\<And>k cap. (k, cap) \<in> set (zip (routeUsageKeys r) (budget_caps L)) \<Longrightarrow> usedOf u k + n \<le> cap"
  shows "usage_core L u'"
proof -
  have kinds: "usageKeyKind k \<noteq> None" if "k \<in> set (keys_of u')" for k
  proof (cases "k \<in> set (routeUsageKeys r)")
    case True
    then show ?thesis using zip_caps [OF r] by fastforce
  next
    case False
    with that usage have "k \<in> set (keys_of u)"
      using pos u by (simp add: keys_usedOf usage_core_def)
    with u show ?thesis by (auto simp: usage_core_def)
  qed
  have caps: "usedOf u' k \<le> kind_cap L K" if "usageKeyKind k = Some K" for k K
    using that u zip_caps [OF r, of k L] cap usage [of k]
    by (fastforce simp: usage_core_def split: if_splits)
  from u sums kinds caps pos show ?thesis by (simp add: usage_core_def)
qed

lemma usage_inv_change:
  assumes u: "usage_inv L u" and r: "persisted_route r" and pos: "used_pos u'"
    and sums: "\<And>K. sum_kind u' K = sum_kind u K + n"
    and usage: "\<And>k. usedOf u' k = usedOf u k + (if k \<in> set (routeUsageKeys r) then n else 0)"
    and len: "length u' \<le> MAX_USAGE_KEYS"
    and cap: "\<And>k cap. (k, cap) \<in> set (zip (routeUsageKeys r) (budget_caps L)) \<Longrightarrow> usedOf u k + n \<le> cap"
  shows "usage_inv L u'"
  using usage_core_change [OF _ r pos sums usage cap] u len by (simp add: usage_inv_core)

lemma usage_inv_add:
  assumes u: "usage_inv L u" and r: "persisted_route r" and n: "0 \<le> n"
    and len: "length u + length (filter (\<lambda>k. map_of u k = None) (routeUsageKeys r)) \<le> MAX_USAGE_KEYS"
    and cap: "\<And>k cap. (k, cap) \<in> set (zip (routeUsageKeys r) (budget_caps L)) \<Longrightarrow> usedOf u k + n \<le> cap"
  shows "usage_inv L (addRouteUsage r n u)"
proof (rule usage_inv_change [OF u r])
  have up: "used_pos u" using u by (simp add: usage_inv_def)
  then have ge: "0 \<le> usedOf u k" for k by (rule usedOf_pos)
  show pos: "used_pos (addRouteUsage r n u)" using up by (rule used_pos_addRoute)
  show "sum_kind (addRouteUsage r n u) K = sum_kind u K + n" for K
    using up r ge n by (simp add: sum_kind_addRoute add_nonneg_nonneg)
  show eq: "usedOf (addRouteUsage r n u) k = usedOf u k + (if k \<in> set (routeUsageKeys r) then n else 0)" for k
    using ge [of k] n by (simp add: usedOf_addRoute up)
  have "set (keys_of (addRouteUsage r n u)) \<subseteq>
      set (keys_of u @ filter (\<lambda>k. map_of u k = None) (routeUsageKeys r))"
    using up pos usedOf_zero [OF up] by (auto simp: keys_usedOf eq)
  then have "card (set (keys_of (addRouteUsage r n u))) \<le>
      length (keys_of u @ filter (\<lambda>k. map_of u k = None) (routeUsageKeys r))"
    by (meson List.finite_set card_length card_mono le_trans)
  moreover have "card (set (keys_of (addRouteUsage r n u))) = length (addRouteUsage r n u)"
    using pos distinct_card by (fastforce simp: used_pos_def)
  ultimately show "length (addRouteUsage r n u) \<le> MAX_USAGE_KEYS" using len by simp
qed (use cap in auto)

lemma usage_inv_sub:
  assumes u: "usage_inv L u" and r: "persisted_route r" and n: "0 \<le> n"
    and held: "\<forall>k \<in> set (routeUsageKeys r). n \<le> usedOf u k"
  shows "usage_inv L (addRouteUsage r (- n) u)"
    and "usedOf (addRouteUsage r (- n) u) k = usedOf u k - (if k \<in> set (routeUsageKeys r) then n else 0)"
proof -
  have up: "used_pos u" using u by (simp add: usage_inv_def)
  show eq: "usedOf (addRouteUsage r (- n) u) k = usedOf u k - (if k \<in> set (routeUsageKeys r) then n else 0)" for k
    using held by (auto simp: usedOf_addRoute up)
  show "usage_inv L (addRouteUsage r (- n) u)"
  proof (rule usage_inv_change [OF u r, where n = "- n"])
    show pos: "used_pos (addRouteUsage r (- n) u)" using up by (rule used_pos_addRoute)
    show "sum_kind (addRouteUsage r (- n) u) K = sum_kind u K + - n" for K
      using up r held by (simp add: sum_kind_addRoute)
    show "length (addRouteUsage r (- n) u) \<le> MAX_USAGE_KEYS"
    proof -
      have "length (addRouteUsage r (- n) u) \<le> length u"
        using usedOf_pos [OF up] held n
        by (intro length_usedOf_mono [OF up pos]) (force simp: eq split: if_splits)
      then show ?thesis using u by (simp add: usage_inv_def)
    qed
    show "usedOf u k + - n \<le> cap" if z: "(k, cap) \<in> set (zip (routeUsageKeys r) (budget_caps L))" for k cap
    proof -
      obtain a b c where keys: "routeUsageKeys r = [a, b, c]" by (simp add: routeUsageKeys_def)
      from z obtain K where "usageKeyKind k = Some K" "cap = kind_cap L K"
        using route_keys_kinds [OF r] by (auto simp: keys budget_caps_def kind_cap_def)
      with u n show ?thesis by (force simp: usage_inv_def)
    qed
  qed (simp add: eq)
qed

text \<open>Giving a hold back and counting the settled amount: the usage changes by the difference.\<close>

lemma usage_inv_settle:
  assumes u: "usage_inv L u" and r: "persisted_route r" and amt: "0 \<le> amt" "amt \<le> h"
    and held: "\<forall>k \<in> set (routeUsageKeys r). h \<le> usedOf u k"
  shows "usage_inv L (addRouteUsage r amt (addRouteUsage r (- h) u))"
    and "usedOf (addRouteUsage r amt (addRouteUsage r (- h) u)) k =
      usedOf u k - (if k \<in> set (routeUsageKeys r) then h - amt else 0)"
proof -
  let ?v = "addRouteUsage r (- h) u"
  have h: "0 \<le> h" using amt by simp
  note v = usage_inv_sub [OF u r h held]
  have up: "used_pos u" and vp: "used_pos ?v" using u v(1) by (simp_all add: usage_inv_def)
  have ge: "0 \<le> usedOf ?v k" for k using vp by (rule usedOf_pos)
  show eq: "usedOf (addRouteUsage r amt ?v) k = usedOf u k - (if k \<in> set (routeUsageKeys r) then h - amt else 0)" for k
    using ge [of k] amt by (auto simp: usedOf_addRoute [OF vp] v(2) max_def)
  show "usage_inv L (addRouteUsage r amt ?v)"
  proof (rule usage_inv_change [OF v(1) r, where n = amt])
    show pos: "used_pos (addRouteUsage r amt ?v)" using vp by (rule used_pos_addRoute)
    show "sum_kind (addRouteUsage r amt ?v) K = sum_kind ?v K + amt" for K
      using vp r ge amt by (simp add: sum_kind_addRoute add_nonneg_nonneg)
    show "length (addRouteUsage r amt ?v) \<le> MAX_USAGE_KEYS"
    proof -
      have "length (addRouteUsage r amt ?v) \<le> length u"
        using usedOf_pos [OF up] held amt h
        by (intro length_usedOf_mono [OF up pos]) (force simp: eq split: if_splits)
      then show ?thesis using u by (simp add: usage_inv_def)
    qed
    show "usedOf ?v k + amt \<le> cap" if z: "(k, cap) \<in> set (zip (routeUsageKeys r) (budget_caps L))" for k cap
    proof -
      obtain a b c where keys: "routeUsageKeys r = [a, b, c]" by (simp add: routeUsageKeys_def)
      from z obtain K where "usageKeyKind k = Some K" "cap = kind_cap L K"
        using route_keys_kinds [OF r] by (auto simp: keys budget_caps_def kind_cap_def)
      moreover have "k \<in> set (routeUsageKeys r)" using z by (rule set_zip_leftD)
      ultimately show ?thesis using u amt by (force simp: usage_inv_def v(2))
    qed
  qed (use ge amt in \<open>simp add: usedOf_addRoute [OF vp]\<close>)
qed

section \<open>Retiring a reservation\<close>

lemma prune_fields [simp]:
  "used (pruneTerminal s) = used s" "reservations (pruneTerminal s) = reservations s"
  "groups (pruneTerminal s) = groups s" "holdsAt (pruneTerminal s) k = holdsAt s k"
  "activeTotal (pruneTerminal s) = activeTotal s" "handoffIds (pruneTerminal s) = handoffIds s"
  "link_inv (pruneTerminal s) = link_inv s"
  by (simp_all add: pruneTerminal_def Let_def holdsAt_def activeTotal_def handoffIds_def link_inv_def)

lemma prune_subset: "set (terminal (pruneTerminal s)) \<subseteq> set (terminal s)"
  by (auto simp: pruneTerminal_def Let_def fold_delete_set)

lemma prune_distinct: "distinct (keys_of (terminal s)) \<Longrightarrow> distinct (keys_of (terminal (pruneTerminal s)))"
  by (simp add: pruneTerminal_def Let_def fold_delete_distinct)

lemma prune_length:
  assumes "distinct (keys_of (terminal s))"
  shows "length (terminal (pruneTerminal s)) = min (length (terminal s)) MAX_TERMINAL_RESERVATIONS"
proof -
  let ?f = "\<lambda>(i, t). (stamp_order (completedAt t), map (of_char :: char \<Rightarrow> nat) i)"
  let ?e = "sort_key ?f (terminal s)"
  let ?ks = "map fst (take (length ?e - MAX_TERMINAL_RESERVATIONS) ?e)"
  have "mset (map fst ?e) = mset (keys_of (terminal s))"
    by (simp only: mset_map mset_sort)
  then have d: "distinct (map fst ?e)"
    using assms mset_eq_imp_distinct_iff by blast
  have "distinct ?ks" using distinct_take [OF d] by (simp only: take_map)
  moreover have "set ?ks \<subseteq> set (keys_of (terminal s))"
    using set_take_subset by fastforce
  ultimately have "length (fold AList.delete ?ks (terminal s)) = length (terminal s) - length ?ks"
    by (rule fold_delete_length [OF assms])
  then show ?thesis by (simp add: pruneTerminal_def Let_def)
qed

lemma updateGroupSlot_fields [simp]:
  "used (updateGroupSlot r st s) = used s" "reservations (updateGroupSlot r st s) = reservations s"
  "terminal (updateGroupSlot r st s) = terminal s"
  "handoffIds (updateGroupSlot r st s) = handoffIds s"
  by (simp_all add: updateGroupSlot_def handoffIds_def split: option.splits)

lemma distinct_concat_filter: "distinct (concat (map f xs)) \<Longrightarrow> distinct (concat (map f (filter P xs)))"
  by (induction xs) auto

lemma handoffIds_delete:
  assumes "distinct (concat (map (\<lambda>r. case handoffId r of None \<Rightarrow> [] | Some h \<Rightarrow> [h]) (values_of rs)))"
  shows "distinct (concat (map (\<lambda>r. case handoffId r of None \<Rightarrow> [] | Some h \<Rightarrow> [h])
    (values_of (AList.delete k (rs :: token_reservation dict)))))"
proof -
  let ?h = "\<lambda>e. case handoffId (snd e :: token_reservation) of None \<Rightarrow> [] | Some h \<Rightarrow> [h]"
  have "distinct (concat (map ?h rs))" using assms by (simp add: comp_def)
  then have "distinct (concat (map ?h (AList.delete k rs)))"
    unfolding AList.delete_eq by (rule distinct_concat_filter)
  then show ?thesis by (simp add: comp_def)
qed

text \<open>Changing the state of one slot of a group.\<close>

lemma set_slot_state:
  fixes sls :: "token_slot list"
  assumes "distinct (map slot_id sls)" and "sl \<in> set sls"
  shows "set (map (\<lambda>x. if slot_id x = slot_id sl then x\<lparr>slot_state := st\<rparr> else x) sls) =
    insert (sl\<lparr>slot_state := st\<rparr>) (set sls - {sl})"
proof -
  have "slot_id x = slot_id sl \<longleftrightarrow> x = sl" if "x \<in> set sls" for x
    using assms that by (auto simp: distinct_map inj_on_def)
  then have "map (\<lambda>x. if slot_id x = slot_id sl then x\<lparr>slot_state := st\<rparr> else x) sls =
      map (\<lambda>x. if x = sl then x\<lparr>slot_state := st\<rparr> else x) sls"
    by simp
  then show ?thesis using assms(2) by (auto simp: image_iff)
qed

lemma map_slot_state:
  fixes sls :: "token_slot list"
  assumes "distinct (map slot_id sls)" and "sl \<in> set sls" and "\<not> slot_active (sl\<lparr>slot_state := st\<rparr>)"
    and "slot_active sl"
  defines "sls' \<equiv> map (\<lambda>x. if slot_id x = slot_id sl then x\<lparr>slot_state := st\<rparr> else x) sls"
  shows "slotsHold k sls' = slotsHold k sls - slotHold k sl"
    and "activeCount sls' = activeCount sls - 1"
proof -
  have other: "slot_id x = slot_id sl \<longleftrightarrow> x = sl" if "x \<in> set sls" for x
    using assms(1,2) that by (auto simp: distinct_map inj_on_def)
  then have eq: "sls' = map (\<lambda>x. if x = sl then x\<lparr>slot_state := st\<rparr> else x) sls"
    by (simp add: sls'_def)
  have d: "distinct sls" using assms(1) by (simp add: distinct_map)
  have zero: "slotHold k (sl\<lparr>slot_state := st\<rparr>) = 0"
    using assms(3) by (simp add: slotHold_def)
  have keys: "routeUsageKeys (sl\<lparr>slot_state := st\<rparr>) = routeUsageKeys sl"
    by (simp add: routeUsageKeys_def)
  show "slotsHold k sls' = slotsHold k sls - slotHold k sl"
    unfolding eq using d assms(2) zero
    by (induction sls) (auto simp: slotsHold_def intro!: arg_cong [where f = sum_list] map_cong)
  show "activeCount sls' = activeCount sls - 1"
    unfolding eq using d assms(2,3,4)
  proof (induction sls)
    case (Cons x xs)
    show ?case
    proof (cases "x = sl")
      case True
      with Cons.prems have "map (\<lambda>x. if x = sl then x\<lparr>slot_state := st\<rparr> else x) xs = xs"
        by (auto intro: map_idI)
      with True Cons.prems show ?thesis by (simp add: activeCount_def)
    next
      case False
      with Cons have "activeCount (map (\<lambda>x. if x = sl then x\<lparr>slot_state := st\<rparr> else x) xs) = activeCount xs - 1"
        by auto
      with False show ?thesis by (simp add: activeCount_def)
    qed
  qed simp
qed

lemma same_route_keys: "same_route a b \<Longrightarrow> routeUsageKeys a = routeUsageKeys b"
  by (simp add: same_route_def routeUsageKeys_def)

lemma isReservation_facts:
  assumes "isReservation i r"
  shows "reservationId r = i" and "persisted_route r" and "0 \<le> inputTokens r" and "0 \<le> outputTokens r"
    and "totalTokens r = inputTokens r + outputTokens r" and "totalTokens r \<le> hold_of r"
    and "0 \<le> hold_of r"
    and "groupId r = None \<Longrightarrow> hold_of r = totalTokens r" and "isPersistedString i"
  using assms
  by (auto simp: isReservation_def persisted_route_def isNonNegativeSafeInteger_def hold_of_def
      split: option.splits)

lemma gateway_invD:
  assumes "gateway_inv L s" and "map_of (reservations s) i = Some r"
  shows "isReservation i r" and "reservation_linked (groups s) r"
  using assms map_of_SomeD [OF assms(2)] by (auto simp: inv_defs link_inv_def)

lemma gateway_invG:
  assumes "gateway_inv L s" and "map_of (groups s) g = Some grp"
  shows "isGroup grp" and "group_id grp = g" and "sl \<in> set (slots grp) \<Longrightarrow> slot_linked (reservations s) sl"
    and "isPersistedString g" and "sl \<in> set (slots grp) \<Longrightarrow> isSlot g sl"
    and "distinct (map slot_id (slots grp))"
proof -
  show g: "isGroup grp" and i: "group_id grp = g"
    and "sl \<in> set (slots grp) \<Longrightarrow> slot_linked (reservations s) sl" and "isPersistedString g"
    using assms map_of_SomeD [OF assms(2)] by (auto simp: inv_defs link_inv_def)
  show "sl \<in> set (slots grp) \<Longrightarrow> isSlot g sl" and "distinct (map slot_id (slots grp))"
    using isGroup_slots_facts [OF g] i by simp_all
qed

lemma linked_slot:
  assumes inv: "gateway_inv L s" and r: "map_of (reservations s) i = Some r" and g: "groupId r = Some g"
  obtains grp sl where "map_of (groups s) g = Some grp" and "sl \<in> set (slots grp)"
    and "slot_state sl = SlotClaimed" and "slot_reservation sl = Some r"
    and "slotId r = Some (slot_id sl)" and "hold_of r = holdTokens sl" and "same_route sl r"
proof -
  from gateway_invD(2) [OF inv r] g obtain grp sl where
    l: "map_of (groups s) g = Some grp" "sl \<in> set (slots grp)" "slot_state sl = SlotClaimed"
      "slot_reservation sl = Some r"
    by (auto simp: reservation_linked_def)
  have "isSlot g sl" using inv l(1,2) by (rule gateway_invG(5))
  moreover have "slot_linked (reservations s) sl" using inv l(1,2) by (rule gateway_invG(3))
  ultimately have "slotId r = Some (slot_id sl)" "hold_of r = holdTokens sl" "same_route sl r"
    using l by (auto simp: isSlot_def slot_linked_def hold_of_def)
  with l that show ?thesis by blast
qed

lemma slotHold_nonneg: "isSlot g sl \<Longrightarrow> 0 \<le> slotHold k sl"
  by (simp add: slotHold_def isSlot_def isNonNegativeSafeInteger_def)

lemma grpHold_nonneg: "isGroup (snd e) \<Longrightarrow> 0 \<le> grpHold k e"
  unfolding grpHold_def slotsHold_def
  by (rule sum_list_nonneg) (auto dest: isGroup_slots_facts(2) slotHold_nonneg)

lemma ordHold_nonneg: "isReservation (fst e) (snd e) \<Longrightarrow> 0 \<le> ordHold k e"
  using isReservation_facts(3-5) [of "fst e" "snd e"] by (simp add: ordHold_def)

lemma gateway_inv_entries:
  assumes "gateway_inv L s"
  shows "e \<in> set (reservations s) \<Longrightarrow> isReservation (fst e) (snd e)"
    and "e' \<in> set (groups s) \<Longrightarrow> isGroup (snd e') \<and> group_id (snd e') = fst e'"
  using assms by (cases e; cases e'; auto simp: inv_defs)+

lemma holds_nonneg:
  assumes "gateway_inv L s"
  shows "0 \<le> sum_list (map (ordHold k) (reservations s))" and "0 \<le> sum_list (map (grpHold k) (groups s))"
proof -
  show "0 \<le> sum_list (map (ordHold k) (reservations s))"
    using gateway_inv_entries(1) [OF assms] by (intro sum_list_nonneg) (auto intro: ordHold_nonneg)
  show "0 \<le> sum_list (map (grpHold k) (groups s))"
    using gateway_inv_entries(2) [OF assms] by (intro sum_list_nonneg) (auto intro: grpHold_nonneg)
qed

definition retire :: "token_reservation \<Rightarrow> slot_state \<Rightarrow> int dict \<Rightarrow> terminal_reservation \<Rightarrow>
    gateway_state \<Rightarrow> gateway_state" where
  "retire r st u entry s = pruneTerminal (updateGroupSlot r st
     (s\<lparr>used := u, reservations := AList.delete (reservationId r) (reservations s),
        terminal := AList.update (reservationId r) entry (terminal s)\<rparr>))"

lemma retire_fields [simp]:
  "used (retire r st u entry s) = u"
  "reservations (retire r st u entry s) = AList.delete (reservationId r) (reservations s)"
  by (simp_all add: retire_def)

lemma slot_active_state [simp]:
  "slot_active (sl\<lparr>slot_state := st\<rparr>) \<longleftrightarrow> st = SlotReserved \<or> st = SlotClaimed"
  by (simp add: slot_active_def)

lemma retire_groups_None: "groupId r = None \<Longrightarrow> groups (retire r st u entry s) = groups s"
  by (simp add: retire_def updateGroupSlot_def)

lemma retire_groups_Some:
  "groupId r = Some g \<Longrightarrow> slotId r = Some i \<Longrightarrow> map_of (groups s) g = Some grp \<Longrightarrow>
   groups (retire r st u entry s) = AList.update g (grp\<lparr>slots :=
     map (\<lambda>x. if slot_id x = i then x\<lparr>slot_state := st\<rparr> else x) (slots grp)\<rparr>) (groups s)"
  by (simp add: retire_def updateGroupSlot_def)

lemma retire_counts:
  assumes inv: "gateway_inv L s" and r: "map_of (reservations s) (reservationId r) = Some r"
    and st: "st \<in> {SlotSettled, SlotReleased}"
  shows "holdsAt (retire r st u entry s) k =
           holdsAt s k - (if k \<in> set (routeUsageKeys r) then hold_of r else 0)"
    and "activeTotal (retire r st u entry s) = activeTotal s - 1"
proof -
  let ?s' = "retire r st u entry s"
  have dr: "distinct (keys_of (reservations s))" and dg: "distinct (keys_of (groups s))"
    using inv by (simp_all add: inv_defs)
  have ord: "sum_list (map f (reservations ?s')) = sum_list (map f (reservations s)) - f (reservationId r, r)"
    for f :: "string \<times> token_reservation \<Rightarrow> int"
    using sum_delete [OF dr r] by simp
  have "holdsAt ?s' k = holdsAt s k - (if k \<in> set (routeUsageKeys r) then hold_of r else 0) \<and>
      activeTotal ?s' = activeTotal s - 1"
  proof (cases "groupId r")
    case None
    with isReservation_facts(8) [OF gateway_invD(1) [OF inv r]] show ?thesis
      unfolding holdsAt_def activeTotal_def ord retire_groups_None [OF None]
      by (simp add: ordHold_def)
  next
    case (Some g)
    from linked_slot [OF inv r Some] obtain grp sl where
      l: "map_of (groups s) g = Some grp" "sl \<in> set (slots grp)" "slot_state sl = SlotClaimed"
        "slot_reservation sl = Some r" "slotId r = Some (slot_id sl)" "hold_of r = holdTokens sl"
        "same_route sl r"
      by blast
    have act: "slot_active sl" "\<not> slot_active (sl\<lparr>slot_state := st\<rparr>)"
      using l(3) st by (auto simp: slot_active_def)
    note ms = map_slot_state [OF gateway_invG(6) [OF inv l(1)] l(2) act(2) act(1)]
    have "slotHold k sl = (if k \<in> set (routeUsageKeys r) then hold_of r else 0)"
      using act l same_route_keys [OF l(7)] by (simp add: slotHold_def)
    then show ?thesis
      unfolding holdsAt_def activeTotal_def ord retire_groups_Some [OF Some l(5) l(1)]
        sum_update_old [OF dg l(1)]
      using Some by (simp add: ordHold_def grpHold_def ms(1) ms(2))
  qed
  then show "holdsAt ?s' k = holdsAt s k - (if k \<in> set (routeUsageKeys r) then hold_of r else 0)"
    and "activeTotal ?s' = activeTotal s - 1" by simp_all
qed

lemma hold_covered:
  assumes inv: "gateway_inv L s" and r: "map_of (reservations s) (reservationId r) = Some r"
    and k: "k \<in> set (routeUsageKeys r)"
  shows "hold_of r \<le> usedOf (used s) k"
proof -
  have dr: "distinct (keys_of (reservations s))" and dg: "distinct (keys_of (groups s))"
    using inv by (simp_all add: inv_defs)
  have "hold_of r \<le> holdsAt s k"
  proof (cases "groupId r")
    case None
    have "\<forall>e \<in> set (AList.delete (reservationId r) (reservations s)). 0 \<le> ordHold k e"
      using gateway_inv_entries(1) [OF inv] by (auto simp: in_values_delete intro: ordHold_nonneg)
    then have "0 \<le> sum_list (map (ordHold k) (AList.delete (reservationId r) (reservations s)))"
      by (intro sum_list_nonneg) auto
    then have "ordHold k (reservationId r, r) \<le> sum_list (map (ordHold k) (reservations s))"
      by (simp add: sum_delete [OF dr r])
    then show ?thesis
      using holds_nonneg(2) [OF inv, of k] None k isReservation_facts(8) [OF gateway_invD(1) [OF inv r]]
      by (simp add: holdsAt_def ordHold_def)
  next
    case (Some g)
    from linked_slot [OF inv r Some] obtain grp sl where
      l: "map_of (groups s) g = Some grp" "sl \<in> set (slots grp)" "slot_state sl = SlotClaimed"
        "slot_reservation sl = Some r" "slotId r = Some (slot_id sl)" "hold_of r = holdTokens sl"
        "same_route sl r"
      by blast
    have "slotHold k sl \<le> slotsHold k (slots grp)"
      unfolding slotsHold_def
      using l(2) gateway_invG(5) [OF inv l(1)]
      by (intro member_le_sum_list) (auto intro: slotHold_nonneg)
    moreover have "\<forall>e \<in> set (groups s). 0 \<le> grpHold k e"
      using gateway_inv_entries(2) [OF inv] by (auto intro: grpHold_nonneg)
    then have "grpHold k (g, grp) \<le> sum_list (map (grpHold k) (groups s))"
      using map_of_SomeD [OF l(1)] by (intro member_le_sum_list) auto
    moreover have "slotHold k sl = hold_of r"
      using l k same_route_keys [OF l(7)] by (simp add: slotHold_def slot_active_def)
    ultimately show ?thesis
      using holds_nonneg(1) [OF inv, of k] by (simp add: holdsAt_def grpHold_def)
  qed
  also have "\<dots> \<le> usedOf (used s) k" using inv by (simp add: gateway_inv_def)
  finally show ?thesis .
qed

lemma isSlot_state:
  "isSlot g sl \<Longrightarrow> slot_reservation sl \<noteq> None \<Longrightarrow> st \<noteq> SlotReserved \<Longrightarrow> isSlot g (sl\<lparr>slot_state := st\<rparr>)"
  by (auto simp: isSlot_def)

lemma groups_inv_update:
  assumes "groups_inv gs" and "isPersistedString g" and "isGroup grp" and "group_id grp = g"
  shows "groups_inv (AList.update g grp gs)"
  using assms unfolding groups_inv_def by (auto dest!: in_values_update)

lemma retire_groups_inv:
  assumes inv: "gateway_inv L s" and r: "map_of (reservations s) (reservationId r) = Some r"
    and st: "st \<in> {SlotSettled, SlotReleased}"
  shows "groups_inv (groups (retire r st u entry s))"
    and "length (groups (retire r st u entry s)) = length (groups s)"
proof -
  have gi: "groups_inv (groups s)" using inv by (simp add: gateway_inv_def)
  have "groups_inv (groups (retire r st u entry s)) \<and>
      length (groups (retire r st u entry s)) = length (groups s)"
  proof (cases "groupId r")
    case None
    with gi show ?thesis by (simp add: retire_groups_None)
  next
    case (Some g)
    from linked_slot [OF inv r Some] obtain grp sl where
      l: "map_of (groups s) g = Some grp" "sl \<in> set (slots grp)" "slot_state sl = SlotClaimed"
        "slot_reservation sl = Some r" "slotId r = Some (slot_id sl)"
      by blast
    let ?sls = "map (\<lambda>x. if slot_id x = slot_id sl then x\<lparr>slot_state := st\<rparr> else x) (slots grp)"
    have "isSlot g (sl\<lparr>slot_state := st\<rparr>)"
      using gateway_invG(5) [OF inv l(1,2)] l(4) st by (intro isSlot_state) auto
    then have "\<forall>x \<in> set ?sls. isSlot g x"
      using gateway_invG(5) [OF inv l(1)]
      unfolding set_slot_state [OF gateway_invG(6) [OF inv l(1)] l(2)] by blast
    then have "isGroup (grp\<lparr>slots := ?sls\<rparr>)"
      using gateway_invG(1,2) [OF inv l(1)] by (intro isGroup_update_slots) auto
    moreover have "g \<in> set (keys_of (groups s))"
      using map_of_SomeD [OF l(1)] by force
    ultimately show ?thesis
      unfolding retire_groups_Some [OF Some l(5) l(1)]
      using gateway_invG(2,4) [OF inv l(1)] gi by (auto intro!: groups_inv_update simp: length_update)
  qed
  then show "groups_inv (groups (retire r st u entry s))"
    and "length (groups (retire r st u entry s)) = length (groups s)" by simp_all
qed

text \<open>The links between reservations and slots. A slot other than the retired one keeps its link, since
  its reservation has another identifier.\<close>

lemma claimed_reservation_id:
  assumes inv: "gateway_inv L s" and r: "map_of (reservations s) (reservationId r) = Some r"
    and g: "map_of (groups s) g = Some grp" and sl: "sl \<in> set (slots grp)" and cl: "slot_state sl = SlotClaimed"
    and ne: "slot_reservation sl \<noteq> Some r"
  shows "\<exists>q. slot_reservation sl = Some q \<and> same_route sl q \<and> reservationId q \<noteq> reservationId r \<and>
     map_of (reservations s) (reservationId q) = Some q"
  using gateway_invG(3) [OF inv g sl] cl ne r by (fastforce simp: slot_linked_def)

lemma retire_link:
  assumes inv: "gateway_inv L s" and r: "map_of (reservations s) (reservationId r) = Some r"
    and st: "st \<in> {SlotSettled, SlotReleased}"
  shows "link_inv (retire r st u entry s)"
proof -
  let ?s' = "retire r st u entry s"
  let ?rs = "AList.delete (reservationId r) (reservations s)"
  have dg: "distinct (keys_of (groups s))" using inv by (simp add: inv_defs)
  have keep: "slot_linked ?rs sl"
    if "map_of (groups s) g = Some grp" "sl \<in> set (slots grp)"
      "slot_state sl = SlotClaimed \<longrightarrow> slot_reservation sl \<noteq> Some r" for g grp sl
    using claimed_reservation_id [OF inv r that(1,2)] that(3) by (auto simp: slot_linked_def delete_conv')
  have ids: "q \<noteq> r \<and> map_of (reservations s) i = Some q" if "(i, q) \<in> set ?rs" for i q
  proof -
    have i: "(i, q) \<in> set (reservations s)" "i \<noteq> reservationId r"
      using that by (auto simp: in_values_delete)
    have "distinct (keys_of (reservations s))" using inv by (simp add: inv_defs)
    with i(1) have "map_of (reservations s) i = Some q" by simp
    moreover have "reservationId q = i"
      using isReservation_facts(1) gateway_invD(1) [OF inv calculation] by blast
    ultimately show ?thesis using i(2) by auto
  qed
  show ?thesis
  proof (cases "groupId r")
    case None
    have sl: "slot_linked ?rs sl" if "(i, grp) \<in> set (groups s)" "sl \<in> set (slots grp)" for i grp sl
    proof (rule keep)
      show m: "map_of (groups s) i = Some grp" using that(1) dg by simp
      show "sl \<in> set (slots grp)" by (rule that(2))
      have "isSlot i sl" using gateway_invG(5) [OF inv m that(2)] .
      with None show "slot_state sl = SlotClaimed \<longrightarrow> slot_reservation sl \<noteq> Some r"
        by (auto simp: isSlot_def)
    qed
    have "reservation_linked (groups s) q" if "(i, q) \<in> set ?rs" for i q
      using ids [OF that] gateway_invD(2) [OF inv] by blast
    with sl None show ?thesis by (simp add: link_inv_def retire_groups_None)
  next
    case (Some g)
    from linked_slot [OF inv r Some] obtain grp sl where
      l: "map_of (groups s) g = Some grp" "sl \<in> set (slots grp)" "slot_state sl = SlotClaimed"
        "slot_reservation sl = Some r" "slotId r = Some (slot_id sl)"
      by blast
    let ?sls = "map (\<lambda>x. if slot_id x = slot_id sl then x\<lparr>slot_state := st\<rparr> else x) (slots grp)"
    have gs: "groups ?s' = AList.update g (grp\<lparr>slots := ?sls\<rparr>) (groups s)"
      by (rule retire_groups_Some [OF Some l(5) l(1)])
    have uniq: "x = sl \<longleftrightarrow> slot_id x = slot_id sl" if "x \<in> set (slots grp)" for x
      using that l(2) gateway_invG(6) [OF inv l(1)] by (auto simp: distinct_map inj_on_def)
    note sls = set_slot_state [OF gateway_invG(6) [OF inv l(1)] l(2), of st]
    have only: "h = g \<and> x = sl" if "map_of (groups s) h = Some grp'" "x \<in> set (slots grp')"
      "slot_reservation x = Some r" for h grp' x
    proof -
      have "isSlot h x" using gateway_invG(5) [OF inv that(1,2)] .
      with that(3) Some l(5) have "h = g" "slot_id x = slot_id sl" by (auto simp: isSlot_def)
      with that l(1) uniq show ?thesis by auto
    qed
    have slots_ok: "slot_linked ?rs x" if "(h, grp') \<in> set (groups ?s')" "x \<in> set (slots grp')" for h grp' x
    proof (cases "h = g")
      case True
      have "distinct (keys_of (groups ?s'))" unfolding gs using dg by simp
      from map_of_is_SomeI [OF this that(1)] True have "Some (grp\<lparr>slots := ?sls\<rparr>) = Some grp'"
        by (simp only: gs update_conv' fun_upd_same)
      then have "slots grp' = ?sls" by auto
      with that(2) have "x \<in> set ?sls" by (simp only:)
      then have "x = sl\<lparr>slot_state := st\<rparr> \<or> x \<in> set (slots grp) \<and> x \<noteq> sl"
        unfolding sls by blast
      then show ?thesis
      proof
        assume "x = sl\<lparr>slot_state := st\<rparr>"
        then show ?thesis using st by (auto simp: slot_linked_def)
      next
        assume "x \<in> set (slots grp) \<and> x \<noteq> sl"
        then show ?thesis using only [OF l(1)] by (intro keep [OF l(1)]) auto
      qed
    next
      case False
      with that(1) have "(h, grp') \<in> set (groups s)" unfolding gs by (auto dest: in_values_update)
      then have m: "map_of (groups s) h = Some grp'" using dg by simp
      show ?thesis using only [OF m that(2)] False by (intro keep [OF m that(2)]) auto
    qed
    have "reservation_linked (groups ?s') q" if q: "(i, q) \<in> set ?rs" for i q
      unfolding reservation_linked_def
    proof (intro allI impI)
      fix h assume h: "groupId q = Some h"
      have q': "q \<noteq> r" "map_of (reservations s) i = Some q" using ids [OF q] by auto
      from linked_slot [OF inv q'(2) h] obtain grp2 sl2 where
        l2: "map_of (groups s) h = Some grp2" "sl2 \<in> set (slots grp2)" "slot_state sl2 = SlotClaimed"
          "slot_reservation sl2 = Some q"
        by blast
      have "sl2 \<noteq> sl" using l2(4) l(4) q'(1) by auto
      show "\<exists>grp' sl'. map_of (groups ?s') h = Some grp' \<and> sl' \<in> set (slots grp') \<and>
          slot_state sl' = SlotClaimed \<and> slot_reservation sl' = Some q"
      proof (cases "h = g")
        case True
        with l2 l(1) \<open>sl2 \<noteq> sl\<close> have "sl2 \<in> set ?sls" unfolding sls by auto
        with True l2 show ?thesis
          by (intro exI [of _ "grp\<lparr>slots := ?sls\<rparr>"] exI [of _ sl2]) (simp add: gs update_conv')
      next
        case False
        with l2 show ?thesis by (auto simp: gs update_conv')
      qed
    qed
    with slots_ok show ?thesis by (simp add: link_inv_def)
  qed
qed

lemma retire_inv:
  assumes inv: "gateway_inv L s" and r: "map_of (reservations s) (reservationId r) = Some r"
    and st: "st \<in> {SlotSettled, SlotReleased}" and u: "usage_inv L u"
    and usage: "\<And>k. usedOf (used s) k - (if k \<in> set (routeUsageKeys r) then hold_of r else 0) \<le> usedOf u k"
    and entry: "isTerminalReservation entry"
  shows "gateway_inv L (retire r st u entry s)"
proof -
  let ?s' = "retire r st u entry s"
  let ?ts = "AList.update (reservationId r) entry (terminal s)"
  let ?m = "updateGroupSlot r st (s\<lparr>used := u, reservations := AList.delete (reservationId r) (reservations s),
    terminal := ?ts\<rparr>)"
  have pid: "isPersistedString (reservationId r)"
    using isReservation_facts(9) [OF gateway_invD(1) [OF inv r]] .
  have dts: "distinct (keys_of ?ts)" using inv by (simp add: inv_defs)
  have tsub: "set (terminal ?s') \<subseteq> set ?ts"
    using prune_subset [of ?m] by (simp add: retire_def)
  have tdist: "distinct (keys_of (terminal ?s'))"
    using prune_distinct [of ?m] dts by (simp add: retire_def)
  have tlen: "length (terminal ?s') \<le> MAX_TERMINAL_RESERVATIONS"
    using prune_length [of ?m] dts by (simp add: retire_def)
  have tinv: "terminal_inv (terminal ?s')"
    using tsub tdist inv pid entry unfolding inv_defs by (auto dest!: subsetD [OF tsub] in_values_update)
  have rinv: "reservations_inv (reservations ?s')"
    using inv by (auto simp: inv_defs in_values_delete)
  have disj: "set (keys_of (reservations ?s')) \<inter> set (keys_of (terminal ?s')) = {}"
  proof -
    have "set (keys_of (terminal ?s')) \<subseteq> insert (reservationId r) (set (keys_of (terminal s)))"
      using image_mono [OF tsub, of fst] set_keys_update [of "reservationId r" entry "terminal s"] by simp
    moreover have "set (keys_of (reservations s)) \<inter> set (keys_of (terminal s)) = {}"
      using inv unfolding gateway_inv_def by blast
    ultimately show ?thesis
      using set_keys_delete [of "reservationId r" "reservations s"] by (simp only: retire_fields) blast
  qed
  have hand: "distinct (handoffIds ?s')"
    using inv handoffIds_delete [of "reservations s" "reservationId r"]
    by (simp add: gateway_inv_def handoffIds_def)
  have holds: "holdsAt ?s' k \<le> usedOf (used ?s') k" for k
  proof -
    have "holdsAt s k \<le> usedOf (used s) k" using inv unfolding gateway_inv_def by blast
    then show ?thesis
      using usage [of k] retire_counts(1) [OF inv r st, of u entry k] unfolding retire_fields by linarith
  qed
  have a: "activeTotal s \<le> int MAX_ACTIVE_RESERVATIONS" "length (groups s) \<le> MAX_ACTIVE_RESERVATIONS"
    using inv unfolding gateway_inv_def by blast+
  have total: "activeTotal ?s' \<le> int MAX_ACTIVE_RESERVATIONS" and
    glen: "length (groups ?s') \<le> MAX_ACTIVE_RESERVATIONS"
    using a retire_counts(2) [OF inv r st, of u entry] retire_groups_inv(2) [OF inv r st, of u entry]
    by linarith+
  show ?thesis
    unfolding gateway_inv_def
    using u rinv tinv retire_groups_inv(1) [OF inv r st] retire_link [OF inv r st] tlen glen total hand
      disj holds
    by (simp only: retire_fields) blast
qed

end
