(* ===== verification/TokenGatewaySafety.thy ===== *)
theory TokenGatewaySafety
  imports TokenGatewayLaws
begin

text \<open>
  Every operation of the token gate keeps the invariant of \<^theory_text>\<open>TokenGatewayLaws\<close>, on
  the state and on the snapshots it writes; the properties of the gate that follow.
\<close>

section \<open>Persistence keeps the state\<close>

lemma gw_state_persist [simp]: "gw_state (fst (persist fits g)) = gw_state g"
  by (simp add: persist_def)

lemma gw_state_telemetry [simp]:
  "gw_state (record_telemetry l g) = gw_state g" "gw_writes (record_telemetry l g) = gw_writes g"
  by (simp_all add: record_telemetry_def Let_def)

lemma refuse_fields [simp]:
  "gw_state (fst (refuse now request reason g)) = gw_state g"
  "gw_writes (fst (refuse now request reason g)) = gw_writes g"
  "snd (refuse now request reason g) = Inl (TokenGatewayError reason)"
  by (simp_all add: refuse_def)

text \<open>The invariant of a gateway: on its state and on every snapshot it has written.\<close>

definition gateway_ok :: "token_gateway_limits \<Rightarrow> gateway \<Rightarrow> bool" where
  "gateway_ok L g \<longleftrightarrow> gateway_inv L (gw_state g) \<and> (\<forall>w \<in> set (gw_writes g). gateway_inv L w)"

lemma gateway_ok_persist:
  "gateway_inv L (gw_state g) \<Longrightarrow> \<forall>w \<in> set (gw_writes g). gateway_inv L w \<Longrightarrow>
   gateway_ok L (fst (persist fits g))"
  by (simp add: gateway_ok_def persist_def)

lemma gateway_ok_telemetry [simp]: "gateway_ok L (record_telemetry l g) = gateway_ok L g"
  by (simp add: gateway_ok_def)

lemma gateway_ok_refuse [simp]: "gateway_ok L (fst (refuse now request reason g)) = gateway_ok L g"
  by (simp add: gateway_ok_def)

definition limits_ok :: "token_gateway_limits \<Rightarrow> bool" where
  "limits_ok L \<longleftrightarrow> (\<forall>K \<in> {ProviderUsage, ModelUsage, SessionUsage}.
     0 \<le> kind_cap L K \<and> kind_cap L K * int MAX_USAGE_KEYS \<le> MAX_SAFE_INTEGER)"

lemma default_limits_ok: "limits_ok DEFAULT_TOKEN_GATEWAY_LIMITS"
  by (simp add: limits_ok_def kind_cap_def DEFAULT_TOKEN_GATEWAY_LIMITS_def gateway_limits_defs
      MAX_SAFE_INTEGER_def)

lemma limits_okD: "limits_ok L \<Longrightarrow> 0 \<le> kind_cap L K \<and> kind_cap L K \<le> MAX_SAFE_INTEGER"
  unfolding limits_ok_def by (cases K) (auto simp: gateway_limits_defs)

section \<open>Settling and releasing\<close>

definition settled_entry :: "token_usage \<Rightarrow> stamp \<Rightarrow> terminal_reservation" where
  "settled_entry usage now =
     \<lparr>terminal_event = Settled, terminal_settlement =
        \<lparr>settled_inputTokens = safeCount (usage_inputTokens usage),
         settled_outputTokens = safeCount (usage_outputTokens usage),
         settled_released = Some (usage_released usage = Some True)\<rparr>,
      completedAt = now\<rparr>"

definition released_entry :: "stamp \<Rightarrow> terminal_reservation" where
  "released_entry now =
     \<lparr>terminal_event = Released, terminal_settlement =
        \<lparr>settled_inputTokens = 0, settled_outputTokens = 0, settled_released = Some True\<rparr>,
      completedAt = now\<rparr>"

definition usage_total :: "token_usage \<Rightarrow> int" where
  "usage_total usage = safeCount (usage_inputTokens usage) + safeCount (usage_outputTokens usage)"

definition settle_effect :: "token_reservation \<Rightarrow> token_usage \<Rightarrow> stamp \<Rightarrow> gateway_state \<Rightarrow> gateway_state" where
  "settle_effect r usage now s = retire r SlotSettled
     (addRouteUsage r (usage_total usage) (addRouteUsage r (- hold_of r) (used s))) (settled_entry usage now) s"

definition release_effect :: "token_reservation \<Rightarrow> stamp \<Rightarrow> gateway_state \<Rightarrow> gateway_state" where
  "release_effect r now s = retire r SlotReleased (addRouteUsage r (- hold_of r) (used s)) (released_entry now) s"

definition written :: "gateway \<Rightarrow> gateway \<Rightarrow> bool" where
  "written g g' \<longleftrightarrow> gw_writes g' = gw_writes g \<or> gw_writes g' = gw_writes g @ [gw_state g']"

lemma active_id:
  "gateway_inv L s \<Longrightarrow> map_of (reservations s) i = Some r \<Longrightarrow> reservationId r = i"
  using isReservation_facts(1) gateway_invD(1) by blast

lemma settle_state:
  assumes inv: "gateway_inv L (gw_state g)" and out: "settle M fits now r usage g = (g', res)"
  obtains (same) "g' = g"
  | (settled) active where "map_of (reservations (gw_state g)) (reservationId active) = Some active"
      and "usage_total usage \<le> totalTokens active" and "gw_state g' = settle_effect active usage now (gw_state g)"
      and "written g g'"
proof (cases "map_of (reservations (gw_state g)) (reservationId r)")
  case None
  with out same show thesis by (auto simp: settle_def Let_def)
next
  case (Some active)
  note i = active_id [OF inv Some]
  from Some out have "g' = g \<or> usage_total usage \<le> totalTokens active \<and>
      gw_state g' = settle_effect active usage now (gw_state g) \<and> written g g'"
    by (auto simp: settle_def Let_def persist_def settle_effect_def retire_def usage_total_def
        settled_entry_def written_def i split: if_splits)
  with Some same settled i show thesis by metis
qed

lemma release_state:
  assumes inv: "gateway_inv L (gw_state g)" and out: "release fits now r g = (g', res)"
  obtains (same) "g' = g"
  | (released) active where "map_of (reservations (gw_state g)) (reservationId active) = Some active"
      and "gw_state g' = release_effect active now (gw_state g)" and "written g g'"
proof (cases "map_of (reservations (gw_state g)) (reservationId r)")
  case None
  with out same show thesis by (auto simp: release_def Let_def)
next
  case (Some active)
  note i = active_id [OF inv Some]
  from Some out have "g' = g \<or>
      gw_state g' = release_effect active now (gw_state g) \<and> written g g'"
    by (auto simp: release_def Let_def persist_def release_effect_def retire_def
        released_entry_def written_def i split: if_splits)
  with Some same released i show thesis by metis
qed

lemma released_entry_ok: "canonical_stamp now \<Longrightarrow> isTerminalReservation (released_entry now)"
  by (simp add: released_entry_def isTerminalReservation_def isNonNegativeSafeInteger_def
      isSafeInteger_def MAX_SAFE_INTEGER_def)

lemma nonneg_safe_parts:
  "0 \<le> a \<Longrightarrow> 0 \<le> b \<Longrightarrow> a + b \<le> MAX_SAFE_INTEGER \<Longrightarrow>
   isNonNegativeSafeInteger a \<and> isNonNegativeSafeInteger b \<and> isNonNegativeSafeInteger (a + b) \<and>
   isSafeInteger (a + b)"
  by (simp add: isNonNegativeSafeInteger_def isSafeInteger_def MAX_SAFE_INTEGER_def)

lemma settled_entry_ok:
  "canonical_stamp now \<Longrightarrow> usage_total usage \<le> MAX_SAFE_INTEGER \<Longrightarrow> isTerminalReservation (settled_entry usage now)"
  using nonneg_safe_parts [OF safeCount_nonneg safeCount_nonneg]
  by (simp add: settled_entry_def isTerminalReservation_def usage_total_def)

lemma usage_total_nonneg [simp]: "0 \<le> usage_total usage"
  by (simp add: usage_total_def)

lemma release_effect_inv:
  assumes inv: "gateway_inv L s" and r: "map_of (reservations s) (reservationId r) = Some r"
    and now: "canonical_stamp now"
  shows "gateway_inv L (release_effect r now s)"
    and "usedOf (used (release_effect r now s)) k =
      usedOf (used s) k - (if k \<in> set (routeUsageKeys r) then hold_of r else 0)"
proof -
  have u: "usage_inv L (used s)" using inv by (simp add: gateway_inv_def)
  have route: "persisted_route r" and h: "0 \<le> hold_of r"
    using isReservation_facts [OF gateway_invD(1) [OF inv r]] by simp_all
  have held: "\<forall>k \<in> set (routeUsageKeys r). hold_of r \<le> usedOf (used s) k"
    using hold_covered [OF inv r] by blast
  note sub = usage_inv_sub [OF u route h held]
  show "gateway_inv L (release_effect r now s)"
    unfolding release_effect_def using sub released_entry_ok [OF now]
    by (intro retire_inv [OF inv r]) auto
  show "usedOf (used (release_effect r now s)) k =
      usedOf (used s) k - (if k \<in> set (routeUsageKeys r) then hold_of r else 0)"
    by (simp add: release_effect_def sub(2))
qed

lemma settle_effect_inv:
  assumes inv: "gateway_inv L s" and r: "map_of (reservations s) (reservationId r) = Some r"
    and now: "canonical_stamp now" and amt: "usage_total usage \<le> totalTokens r"
  shows "gateway_inv L (settle_effect r usage now s)"
    and "usedOf (used (settle_effect r usage now s)) k =
      usedOf (used s) k - (if k \<in> set (routeUsageKeys r) then hold_of r - usage_total usage else 0)"
proof -
  have u: "usage_inv L (used s)" using inv by (simp add: gateway_inv_def)
  note facts = isReservation_facts [OF gateway_invD(1) [OF inv r]]
  have held: "\<forall>k \<in> set (routeUsageKeys r). hold_of r \<le> usedOf (used s) k"
    using hold_covered [OF inv r] by blast
  have "isNonNegativeSafeInteger (totalTokens r)"
    using gateway_invD(1) [OF inv r] unfolding isReservation_def by blast
  then have safe: "usage_total usage \<le> MAX_SAFE_INTEGER"
    using amt by (simp add: isNonNegativeSafeInteger_def isSafeInteger_def)
  have sum: "usage_total usage \<le> hold_of r" using amt facts(6) by simp
  note st = usage_inv_settle [OF u facts(2) usage_total_nonneg sum held]
  show "gateway_inv L (settle_effect r usage now s)"
    unfolding settle_effect_def using st settled_entry_ok [OF now safe] sum
    by (intro retire_inv [OF inv r]) auto
  show "usedOf (used (settle_effect r usage now s)) k =
      usedOf (used s) k - (if k \<in> set (routeUsageKeys r) then hold_of r - usage_total usage else 0)"
    by (simp add: settle_effect_def st(2))
qed

lemma gateway_ok_written:
  "gateway_ok L g \<Longrightarrow> gateway_inv L (gw_state g') \<Longrightarrow> written g g' \<Longrightarrow> gateway_ok L g'"
  by (auto simp: gateway_ok_def written_def)

lemma gateway_okD: "gateway_ok L g \<Longrightarrow> gateway_inv L (gw_state g)"
  by (simp add: gateway_ok_def)

lemma settle_ok:
  assumes ok: "gateway_ok L g" and now: "canonical_stamp now"
  shows "gateway_ok L (fst (settle M fits now r usage g))"
proof -
  obtain g' res where out: "settle M fits now r usage g = (g', res)" by fastforce
  from gateway_okD [OF ok] out have "gateway_ok L g'"
  proof (cases rule: settle_state)
    case same
    with ok show ?thesis by simp
  next
    case (settled active)
    then show ?thesis
      using settle_effect_inv(1) [OF gateway_okD [OF ok] _ now] by (intro gateway_ok_written [OF ok]) auto
  qed
  then show ?thesis by (simp add: out)
qed

lemma release_inv:
  assumes inv: "gateway_inv L (gw_state g)" and now: "canonical_stamp now"
  shows "gateway_inv L (gw_state (fst (release fits now r g)))" and "written g (fst (release fits now r g))"
proof -
  obtain g' res where out: "release fits now r g = (g', res)" by fastforce
  from inv out have "gateway_inv L (gw_state g') \<and> written g g'"
  proof (cases rule: release_state)
    case same
    with inv show ?thesis by (simp add: written_def)
  next
    case (released active)
    then show ?thesis using release_effect_inv(1) [OF inv _ now] by auto
  qed
  then show "gateway_inv L (gw_state (fst (release fits now r g)))" and "written g (fst (release fits now r g))"
    by (simp_all add: out)
qed

lemma release_ok:
  "gateway_ok L g \<Longrightarrow> canonical_stamp now \<Longrightarrow> gateway_ok L (fst (release fits now r g))"
  using release_inv gateway_okD gateway_ok_written by blast

lemma acknowledge_inv:
  assumes inv: "gateway_inv L s"
  shows "gateway_inv L (s\<lparr>terminal := AList.delete rid (terminal s)\<rparr>)" (is "gateway_inv L ?s'")
proof -
  have "terminal_inv (terminal ?s')"
    using inv by (auto simp: inv_defs in_values_delete)
  moreover have "length (terminal ?s') \<le> MAX_TERMINAL_RESERVATIONS"
    using inv length_delete_le [of rid "terminal s"] by (simp add: gateway_inv_def)
  moreover have "set (keys_of (reservations ?s')) \<inter> set (keys_of (terminal ?s')) = {}"
  proof -
    have "set (keys_of (terminal ?s')) \<subseteq> set (keys_of (terminal s))"
      using set_keys_delete [of rid "terminal s"] by auto
    moreover have "set (keys_of (reservations s)) \<inter> set (keys_of (terminal s)) = {}"
      using inv unfolding gateway_inv_def by blast
    moreover have r: "reservations ?s' = reservations s" by simp
    ultimately show ?thesis unfolding r by blast
  qed
  moreover have "link_inv ?s' = link_inv s" "activeTotal ?s' = activeTotal s"
      "handoffIds ?s' = handoffIds s" "holdsAt ?s' k = holdsAt s k" for k
    by (simp_all add: link_inv_def activeTotal_def handoffIds_def holdsAt_def)
  ultimately show ?thesis
    using inv by (simp add: gateway_inv_def)
qed

lemma acknowledge_ok:
  assumes ok: "gateway_ok L g"
  shows "gateway_ok L (fst (acknowledgeTerminal fits rid g))"
  using acknowledge_inv [OF gateway_okD [OF ok], of rid] ok
  by (auto simp: acknowledgeTerminal_def Let_def persist_def gateway_ok_def)

section \<open>Normalized requests\<close>

lemma clean_char_idem [simp]: "clean_char (clean_char c) = clean_char c"
  by (simp add: clean_char_def)

lemma bounded_persisted: "bounded v = Some b \<Longrightarrow> isPersistedString b"
  by (cases v) (auto simp: isPersistedString_def take_map Let_def comp_def split: if_splits)

lemma bounded_option_persisted: "isPersistedOption (bounded v)"
  using bounded_persisted by (auto simp: isPersistedOption_def split: option.splits)

lemma normalizeRequest_route: "persisted_route (normalizeRequest input)"
  using bounded_persisted [of "Some (provider input)"] persisted_default(3)
  by (auto simp: persisted_route_def normalizeRequest_def bounded_option_persisted
      simp del: bounded.simps split: option.splits)

lemma normalizeRequest_handoff: "isPersistedOption (handoffId (normalizeRequest input))"
  using bounded_persisted persisted_default(3)
  by (auto simp: isPersistedOption_def normalizeRequest_def simp del: bounded.simps split: option.splits)

lemma normalizeRequest_tokens [simp]:
  "0 \<le> inputTokens (normalizeRequest input)" "0 \<le> outputTokens (normalizeRequest input)"
  by (simp_all add: normalizeRequest_def)

section \<open>Adding a reservation\<close>

definition fresh_id :: "gateway_state \<Rightarrow> string \<Rightarrow> bool" where
  "fresh_id s rid \<longleftrightarrow> isPersistedString rid \<and> rid \<notin> set (keys_of (reservations s)) \<and>
     rid \<notin> set (keys_of (terminal s))"

definition fresh_handoff :: "gateway_state \<Rightarrow> string option \<Rightarrow> bool" where
  "fresh_handoff s h \<longleftrightarrow> (case h of None \<Rightarrow> True | Some x \<Rightarrow> x \<notin> set (handoffIds s))"

lemma handoffIds_add:
  assumes "rid \<notin> set (keys_of (reservations s))"
    and "reservations s' = AList.update rid r (reservations s)"
  shows "handoffIds s' = handoffIds s @ (case handoffId r of None \<Rightarrow> [] | Some h \<Rightarrow> [h])"
  using assms by (simp add: handoffIds_def update_fresh)

lemma slot_linked_add:
  assumes "rid \<notin> set (keys_of rs)" and "slot_linked rs sl"
  shows "slot_linked (AList.update rid r rs) sl"
  using assms by (force simp: slot_linked_def update_conv' dest: map_of_SomeD)

lemma reservations_inv_add:
  "reservations_inv rs \<Longrightarrow> isReservation rid r \<Longrightarrow> reservations_inv (AList.update rid r rs)"
  unfolding reservations_inv_def by (auto dest!: in_values_update)

lemma keys_disjoint_add:
  assumes "gateway_inv L s" and "fresh_id s rid"
  shows "set (keys_of (AList.update rid r (reservations s))) \<inter> set (keys_of (terminal s)) = {}"
proof -
  have "set (keys_of (reservations s)) \<inter> set (keys_of (terminal s)) = {}"
    using assms(1) unfolding gateway_inv_def by blast
  then show ?thesis
    using assms(2) unfolding set_keys_update fresh_id_def by blast
qed

lemma distinct_add_handoff:
  "distinct hs \<Longrightarrow> (case h of None \<Rightarrow> True | Some x \<Rightarrow> x \<notin> set hs) \<Longrightarrow>
   distinct (hs @ (case h of None \<Rightarrow> [] | Some x \<Rightarrow> [x]))"
  by (simp split: option.splits)

lemma add_reservation_inv:
  assumes inv: "gateway_inv L s" and fresh: "fresh_id s rid" and r: "isReservation rid r"
    and g: "groupId r = None" and h: "fresh_handoff s (handoffId r)" and u: "usage_inv L u"
    and usage: "\<And>k. usedOf u k = usedOf (used s) k + (if k \<in> set (routeUsageKeys r) then totalTokens r else 0)"
    and room: "activeTotal s < int MAX_ACTIVE_RESERVATIONS"
  shows "gateway_inv L (s\<lparr>reservations := AList.update rid r (reservations s), used := u\<rparr>)"
    (is "gateway_inv L ?s'")
proof -
  have new: "rid \<notin> set (keys_of (reservations s))" using fresh by (simp add: fresh_id_def)
  have rinv: "reservations_inv (reservations ?s')"
    using inv r by (simp add: gateway_inv_def reservations_inv_add)
  have hand: "distinct (handoffIds ?s')"
    using inv h handoffIds_add [OF new, of ?s' r] distinct_add_handoff [of "handoffIds s" "handoffId r"]
    by (simp add: gateway_inv_def fresh_handoff_def)
  have link: "link_inv ?s'"
    using inv g slot_linked_add [OF new]
    by (auto simp: gateway_inv_def link_inv_def reservation_linked_def dest!: in_values_update)
  have holds: "holdsAt ?s' k \<le> usedOf (used ?s') k" for k
  proof -
    have "holdsAt s k \<le> usedOf (used s) k" using inv unfolding gateway_inv_def by blast
    moreover have "holdsAt ?s' k = holdsAt s k + (if k \<in> set (routeUsageKeys r) then totalTokens r else 0)"
      using new g by (simp add: holdsAt_def sum_update_fresh ordHold_def)
    ultimately show ?thesis using usage [of k] by simp
  qed
  have total: "activeTotal ?s' \<le> int MAX_ACTIVE_RESERVATIONS"
    using new g room by (simp add: activeTotal_def sum_update_fresh)
  have disj: "set (keys_of (reservations ?s')) \<inter> set (keys_of (terminal ?s')) = {}"
    using keys_disjoint_add [OF inv fresh, of r] by simp
  show ?thesis
    unfolding gateway_inv_def
    using inv u rinv hand link holds total disj by (simp add: gateway_inv_def)
qed

lemma budget_exceededD:
  "\<not> budget_exceeded L s request n \<Longrightarrow> (k, cap) \<in> set (zip (routeUsageKeys request) (budget_caps L)) \<Longrightarrow>
   usedOf (used s) k + n \<le> cap"
  by (force simp: budget_exceeded_def list_ex_iff)

lemma budget_total_safe:
  assumes inv: "gateway_inv L s" and L: "limits_ok L" and r: "persisted_route request"
    and ok: "\<not> budget_exceeded L s request n"
  shows "n \<le> MAX_SAFE_INTEGER"
proof -
  let ?k = "hd (routeUsageKeys request)"
  have "?k \<in> set (routeUsageKeys request)" by (simp add: routeUsageKeys_def)
  from zip_caps [OF r this, of L] obtain K where
    "(?k, kind_cap L K) \<in> set (zip (routeUsageKeys request) (budget_caps L))" by blast
  then have "usedOf (used s) ?k + n \<le> kind_cap L K" by (rule budget_exceededD [OF ok])
  moreover have "0 \<le> usedOf (used s) ?k"
    using inv by (intro usedOf_pos) (simp add: gateway_inv_def usage_inv_def)
  ultimately show ?thesis using limits_okD [OF L, of K] by linarith
qed

definition new_reservation :: "token_request \<Rightarrow> string \<Rightarrow> stamp \<Rightarrow> token_reservation" where
  "new_reservation request rid now = token_request.extend request
     (token_reservation.fields rid now (inputTokens request + outputTokens request) None None None)"

lemma new_reservation_fields [simp]:
  "routeUsageKeys (new_reservation request rid now) = routeUsageKeys request"
  "provider (new_reservation request rid now) = provider request"
  "model (new_reservation request rid now) = model request"
  "sessionId (new_reservation request rid now) = sessionId request"
  "inputTokens (new_reservation request rid now) = inputTokens request"
  "outputTokens (new_reservation request rid now) = outputTokens request"
  "handoffId (new_reservation request rid now) = handoffId request"
  "reservationId (new_reservation request rid now) = rid"
  "reservedAt (new_reservation request rid now) = now"
  "totalTokens (new_reservation request rid now) = inputTokens request + outputTokens request"
  "groupId (new_reservation request rid now) = None"
  "slotId (new_reservation request rid now) = None"
  "heldTokens (new_reservation request rid now) = None"
  "addRouteUsage (new_reservation request rid now) n u = addRouteUsage request n u"
  by (simp_all add: new_reservation_def routeUsageKeys_def addRouteUsage_def
      token_request.defs token_reservation.defs)

lemma find_handoff_None:
  "List.find (\<lambda>r. handoffId r = Some h) (values_of (reservations s)) = None \<longleftrightarrow> h \<notin> set (handoffIds s)"
  by (force simp: find_None_iff handoffIds_def split: option.splits)

text \<open>The two outcomes of a reservation that changes the state, in the order of the code's guards.\<close>

lemma reserve_state:
  assumes out: "reserve L fits rid now input g = (g', res)"
  obtains (same) "gw_state g' = gw_state g" and "gw_writes g' = gw_writes g"
  | (reserved) request where "request = normalizeRequest input"
      and "fresh_handoff (gw_state g) (handoffId request)"
      and "activeTotal (gw_state g) < int MAX_ACTIVE_RESERVATIONS"
      and "\<not> reserve_usage_full (gw_state g) request"
      and "\<not> budget_exceeded L (gw_state g) request (inputTokens request + outputTokens request)"
      and "inputTokens request \<le> inputCapTokens L" and "outputTokens request \<le> outputCapTokens L"
      and "gw_state g' = (gw_state g)\<lparr>
         reservations := AList.update rid (new_reservation request rid now) (reservations (gw_state g)),
         used := addRouteUsage request (inputTokens request + outputTokens request) (used (gw_state g))\<rparr>"
      and "written g g'"
      and "res = Inr (new_reservation request rid now) \<or> res = Inl (GatewayError ''token_gateway_state_limit'')"
proof -
  define request where "request = normalizeRequest input"
  define existing where "existing = (case handoffId request of None \<Rightarrow> None
            | Some h \<Rightarrow> List.find (\<lambda>r. handoffId r = Some h) (values_of (reservations (gw_state g))))"
  note defs = reserve_def Let_def request_def [symmetric] existing_def [symmetric]
  show thesis
  proof (cases existing)
    case (Some e)
    with out have "g' = g" by (auto simp: defs split: if_splits)
    with same show thesis by simp
  next
    case None
    then have fresh: "fresh_handoff (gw_state g) (handoffId request)"
      unfolding existing_def fresh_handoff_def by (auto simp: find_handoff_None split: option.splits)
    have ext: "token_request.extend request (token_reservation.fields rid now
        (inputTokens request + outputTokens request) None None None) = new_reservation request rid now"
      by (simp add: new_reservation_def)
    show thesis
    proof (cases "gw_state g' = gw_state g \<and> gw_writes g' = gw_writes g")
      case True
      with same show thesis by simp
    next
      case False
      with out None show thesis
        using reserved [OF request_def fresh] activeTotal_counts [of "gw_state g"]
        by (auto simp: defs ext persist_def refuse_def written_def split: if_splits)
    qed
  qed
qed

lemma isReservation_new:
  assumes "isPersistedString rid" and "canonical_stamp now" and "persisted_route request"
    and "isPersistedOption (handoffId request)" and "0 \<le> inputTokens request" and "0 \<le> outputTokens request"
    and "inputTokens request + outputTokens request \<le> MAX_SAFE_INTEGER"
  shows "isReservation rid (new_reservation request rid now)"
  using assms nonneg_safe_parts [OF assms(5-7)]
  by (simp add: isReservation_def persisted_route_def)

lemma reserve_ok:
  assumes ok: "gateway_ok L g" and L: "limits_ok L" and now: "canonical_stamp now"
    and fresh: "fresh_id (gw_state g) rid"
  shows "gateway_ok L (fst (reserve L fits rid now input g))"
proof -
  obtain g' res where out: "reserve L fits rid now input g = (g', res)" by fastforce
  note inv = gateway_okD [OF ok]
  from out have "gateway_ok L g'"
  proof (cases rule: reserve_state)
    case same
    with ok show ?thesis by (simp add: gateway_ok_def)
  next
    case (reserved request)
    have route: "persisted_route request"
      unfolding reserved(1) by (rule normalizeRequest_route)
    have nonneg: "0 \<le> inputTokens request" "0 \<le> outputTokens request"
      unfolding reserved(1) by simp_all
    have r: "isReservation rid (new_reservation request rid now)"
      using fresh now route nonneg budget_total_safe [OF inv L route reserved(5)]
        normalizeRequest_handoff [of input]
      by (intro isReservation_new) (simp_all add: fresh_id_def reserved(1))
    have u: "usage_inv L (used (gw_state g))" using inv by (simp add: gateway_inv_def)
    let ?n = "inputTokens request + outputTokens request"
    have "usage_inv L (addRouteUsage request ?n (used (gw_state g)))"
      using reserved(4) nonneg budget_exceededD [OF reserved(5)]
      by (intro usage_inv_add [OF u route]) (simp_all add: reserve_usage_full_def Let_def)
    moreover have "usedOf (addRouteUsage request ?n (used (gw_state g))) k =
        usedOf (used (gw_state g)) k + (if k \<in> set (routeUsageKeys request) then ?n else 0)" for k
      using u nonneg usedOf_pos [of "used (gw_state g)" k]
      by (simp add: usage_inv_def usedOf_addRoute)
    ultimately have "gateway_inv L (gw_state g')"
      unfolding reserved(8) using reserved(2,3)
      by (intro add_reservation_inv [OF inv fresh r]) simp_all
    then show ?thesis using reserved(9) by (rule gateway_ok_written [OF ok])
  qed
  then show ?thesis by (simp add: out)
qed

section \<open>Claiming a slot\<close>

definition claimed_reservation :: "token_request \<Rightarrow> string \<Rightarrow> stamp \<Rightarrow> string \<Rightarrow> string \<Rightarrow> int \<Rightarrow> token_reservation" where
  "claimed_reservation request rid now gid sid hold = token_request.extend request
     (token_reservation.fields rid now (inputTokens request + outputTokens request)
        (Some gid) (Some sid) (Some hold))"

lemma claimed_reservation_fields [simp]:
  "routeUsageKeys (claimed_reservation request rid now gid sid hold) = routeUsageKeys request"
  "same_route x (claimed_reservation request rid now gid sid hold) = same_route x request"
  "provider (claimed_reservation request rid now gid sid hold) = provider request"
  "model (claimed_reservation request rid now gid sid hold) = model request"
  "sessionId (claimed_reservation request rid now gid sid hold) = sessionId request"
  "inputTokens (claimed_reservation request rid now gid sid hold) = inputTokens request"
  "outputTokens (claimed_reservation request rid now gid sid hold) = outputTokens request"
  "handoffId (claimed_reservation request rid now gid sid hold) = handoffId request"
  "reservationId (claimed_reservation request rid now gid sid hold) = rid"
  "reservedAt (claimed_reservation request rid now gid sid hold) = now"
  "totalTokens (claimed_reservation request rid now gid sid hold) = inputTokens request + outputTokens request"
  "groupId (claimed_reservation request rid now gid sid hold) = Some gid"
  "slotId (claimed_reservation request rid now gid sid hold) = Some sid"
  "heldTokens (claimed_reservation request rid now gid sid hold) = Some hold"
  by (simp_all add: claimed_reservation_def routeUsageKeys_def same_route_def
      token_request.defs token_reservation.defs)

definition claim_effect :: "string \<Rightarrow> token_group \<Rightarrow> nat \<Rightarrow> token_reservation \<Rightarrow> gateway_state \<Rightarrow> gateway_state" where
  "claim_effect gid grp index r s =
     s\<lparr>reservations := AList.update (reservationId r) r (reservations s),
       groups := AList.update gid (grp\<lparr>slots := (slots grp)[index := (slots grp ! index)
         \<lparr>slot_state := SlotClaimed, slot_reservation := Some r\<rparr>]\<rparr>) (groups s)\<rparr>"

lemma claim_state:
  assumes out: "claimGroupSlot L fits rid now gid sid input g = (g', res)"
  obtains (same) "g' = g"
  | (claimed) grp index request r where "request = normalizeRequest input"
      and "map_of (groups (gw_state g)) gid = Some grp"
      and "findIndex (\<lambda>sl. slot_id sl = sid) (slots grp) = Some index"
      and "same_route (slots grp ! index) request"
      and "inputTokens request + outputTokens request \<le> holdTokens (slots grp ! index)"
      and "slot_reservation (slots grp ! index) = None"
      and "r = claimed_reservation request rid now gid sid (holdTokens (slots grp ! index))"
      and "gw_state g' = claim_effect gid grp index r (gw_state g)" and "written g g'"
      and "res = Inr r \<or> res = Inl (GatewayError ''token_gateway_state_limit'')"
proof (cases "map_of (groups (gw_state g)) gid")
  case None
  with out same show thesis by (simp add: claimGroupSlot_def Let_def)
next
  case (Some grp)
  show thesis
  proof (cases "findIndex (\<lambda>sl. slot_id sl = sid) (slots grp)")
    case None
    with Some out same show thesis by (simp add: claimGroupSlot_def Let_def)
  next
    case i: (Some index)
    let ?sl = "slots grp ! index" and ?request = "normalizeRequest input"
    let ?r = "claimed_reservation ?request rid now gid sid (holdTokens ?sl)"
    have "g' = g \<or> same_route ?sl ?request \<and>
        inputTokens ?request + outputTokens ?request \<le> holdTokens ?sl \<and> slot_reservation ?sl = None \<and>
        gw_state g' = claim_effect gid grp index ?r (gw_state g) \<and> written g g' \<and>
        (res = Inr ?r \<or> res = Inl (GatewayError ''token_gateway_state_limit''))"
      using out Some i
      by (simp add: claimGroupSlot_def Let_def claimed_reservation_def [symmetric] persist_def
          claim_effect_def written_def split: if_splits option.splits) (auto simp: claim_effect_def)
    with same claimed [OF refl Some i] show thesis by blast
  qed
qed

text \<open>The slot to be claimed is still reserved (or the call returns its existing reservation).\<close>

definition claimable :: "gateway_state \<Rightarrow> string \<Rightarrow> string \<Rightarrow> bool" where
  "claimable s gid sid \<longleftrightarrow>
     (case map_of (groups s) gid of None \<Rightarrow> True
      | Some grp \<Rightarrow> list_all (\<lambda>sl. slot_id sl = sid \<and> slot_reservation sl = None \<longrightarrow> slot_state sl = SlotReserved)
          (slots grp))"

lemma sum_list_same_map:
  "length xs = length ys \<Longrightarrow> (\<And>i. i < length xs \<Longrightarrow> f (xs ! i) = f (ys ! i)) \<Longrightarrow> map f xs = map f ys"
  by (simp add: list_eq_iff_nth_eq)

lemma update_slot_maps:
  assumes "index < length sls"
  shows "map slot_id (sls[index := (sls ! index)\<lparr>slot_state := st, slot_reservation := r\<rparr>]) = map slot_id sls"
    and "map holdTokens (sls[index := (sls ! index)\<lparr>slot_state := st, slot_reservation := r\<rparr>]) = map holdTokens sls"
    and "slot_active (sls ! index) = (st = SlotReserved \<or> st = SlotClaimed) \<Longrightarrow>
      slotsHold k (sls[index := (sls ! index)\<lparr>slot_state := st, slot_reservation := r\<rparr>]) = slotsHold k sls"
    and "slot_active (sls ! index) = (st = SlotReserved \<or> st = SlotClaimed) \<Longrightarrow>
      activeCount (sls[index := (sls ! index)\<lparr>slot_state := st, slot_reservation := r\<rparr>]) = activeCount sls"
proof -
  let ?sl = "(sls ! index)\<lparr>slot_state := st, slot_reservation := r\<rparr>"
  show "map slot_id (sls[index := ?sl]) = map slot_id sls"
    and "map holdTokens (sls[index := ?sl]) = map holdTokens sls"
    using assms by (auto simp: list_eq_iff_nth_eq nth_list_update)
  assume a: "slot_active (sls ! index) = (st = SlotReserved \<or> st = SlotClaimed)"
  have "map (slotHold k) (sls[index := ?sl]) = map (slotHold k) sls"
    using assms a by (intro sum_list_same_map) (auto simp: nth_list_update slotHold_def slot_active_def routeUsageKeys_def)
  then show "slotsHold k (sls[index := ?sl]) = slotsHold k sls" by (simp add: slotsHold_def)
  have "map slot_active (sls[index := ?sl]) = map slot_active sls"
    using assms a by (intro sum_list_same_map) (auto simp: nth_list_update slot_active_def)
  then have "length (filter id (map slot_active (sls[index := ?sl]))) = length (filter id (map slot_active sls))"
    by simp
  then show "activeCount (sls[index := ?sl]) = activeCount sls"
    by (simp add: activeCount_def filter_map comp_def)
qed

end
