(* ===== verification/TokenGatewayGroups.thy ===== *)
theory TokenGatewayGroups
  imports TokenGatewaySafety
begin

text \<open>
  The group operations of the token gate (claiming a slot, reserving a group, releasing slots) keep
  the invariant; the gate as a machine of operations; a state in the invariant is one the loader
  accepts.
\<close>

section \<open>Claiming a slot keeps the invariant\<close>

lemma in_set_list_update: "x \<in> set xs \<Longrightarrow> x \<noteq> xs ! i \<Longrightarrow> x \<in> set (xs[i := y])"
  by (metis in_set_conv_nth length_list_update nth_list_update_neq)

lemma isReservation_claimed:
  assumes "isSlot gid sl" and "slot_id sl = sid" and "isPersistedString gid" and "isPersistedString rid"
    and "canonical_stamp now" and "persisted_route request" and "isPersistedOption (handoffId request)"
    and "0 \<le> inputTokens request" and "0 \<le> outputTokens request"
    and le: "inputTokens request + outputTokens request \<le> holdTokens sl"
  shows "isReservation rid (claimed_reservation request rid now gid sid (holdTokens sl))"
proof -
  have h: "isNonNegativeSafeInteger (holdTokens sl)" using assms(1) by (simp add: isSlot_def)
  then have "inputTokens request + outputTokens request \<le> MAX_SAFE_INTEGER"
    using le by (simp add: isNonNegativeSafeInteger_def isSafeInteger_def)
  from nonneg_safe_parts [OF assms(8,9) this] show ?thesis
    using assms h by (simp add: isReservation_def persisted_route_def isSlot_def)
qed

lemma claim_effect_inv:
  assumes inv: "gateway_inv L s" and fresh: "fresh_id s (reservationId r)" and h: "fresh_handoff s (handoffId r)"
    and grp: "map_of (groups s) gid = Some grp" and i: "index < length (slots grp)"
    and sl: "slot_state (slots grp ! index) = SlotReserved" "slot_reservation (slots grp ! index) = None"
    and route: "same_route (slots grp ! index) r" and r: "isReservation (reservationId r) r"
    and ids: "groupId r = Some gid" "slotId r = Some (slot_id (slots grp ! index))"
      "heldTokens r = Some (holdTokens (slots grp ! index))"
  shows "gateway_inv L (claim_effect gid grp index r s)" (is "gateway_inv L ?s'")
    and "holdsAt (claim_effect gid grp index r s) k = holdsAt s k"
proof -
  let ?sl = "slots grp ! index"
  let ?sl' = "?sl\<lparr>slot_state := SlotClaimed, slot_reservation := Some r\<rparr>"
  let ?sls = "(slots grp)[index := ?sl']"
  let ?rs = "AList.update (reservationId r) r (reservations s)"
  let ?gs = "AList.update gid (grp\<lparr>slots := ?sls\<rparr>) (groups s)"
  have mem: "?sl \<in> set (slots grp)" using i by simp
  have new: "reservationId r \<notin> set (keys_of (reservations s))" using fresh by (simp add: fresh_id_def)
  have dg: "distinct (keys_of (groups s))" using inv by (simp add: inv_defs)
  have act: "slot_active ?sl" using sl by (simp add: slot_active_def)
  note maps = update_slot_maps [OF i, where st = SlotClaimed and r = "Some r"]
  have slot: "isSlot gid ?sl'"
    using gateway_invG(5) [OF inv grp mem] r ids by (simp add: isSlot_def)
  have slots: "\<forall>x \<in> set ?sls. isSlot gid x"
    using slot gateway_invG(5) [OF inv grp] by (auto dest!: subsetD [OF set_update_subset_insert])
  have grp': "isGroup (grp\<lparr>slots := ?sls\<rparr>)"
    using gateway_invG(1,2) [OF inv grp] maps(1,2) slots by (intro isGroup_update_slots) auto
  have f: "reservations ?s' = ?rs" "groups ?s' = ?gs" "used ?s' = used s" "terminal ?s' = terminal s"
    by (simp_all add: claim_effect_def)
  have key: "gid \<in> set (keys_of (groups s))" using map_of_SomeD [OF grp] by force
  have ginv: "groups_inv ?gs" "length ?gs = length (groups s)"
    using grp' gateway_invG(2,4) [OF inv grp] inv key
    by (auto intro!: groups_inv_update simp: length_update gateway_inv_def)
  have rinv: "reservations_inv ?rs" using inv r by (simp add: gateway_inv_def reservations_inv_add)
  have hand: "distinct (handoffIds ?s')"
    using inv h handoffIds_add [OF new, of ?s' r] distinct_add_handoff [of "handoffIds s" "handoffId r"] f(1)
    by (simp add: gateway_inv_def fresh_handoff_def)
  have holds: "holdsAt ?s' k = holdsAt s k" for k
    unfolding holdsAt_def f sum_update_old [OF dg grp] sum_update_fresh [OF new]
    using act maps(3) ids by (simp add: grpHold_def ordHold_def)
  then show "holdsAt ?s' k = holdsAt s k" .
  have total: "activeTotal ?s' = activeTotal s"
    unfolding activeTotal_def f sum_update_old [OF dg grp] sum_update_fresh [OF new]
    using act maps(4) ids by simp
  have new_slot: "?sl' \<in> set ?sls" using i by (rule set_update_memI)
  have slot_ok: "slot_linked ?rs x" if "(j, g) \<in> set ?gs" "x \<in> set (slots g)" for j g x
  proof -
    have old: "slot_linked ?rs x" if "(j, g) \<in> set (groups s)" "x \<in> set (slots g)" for j g x
      using that inv slot_linked_add [OF new] by (auto simp: gateway_inv_def link_inv_def)
    from in_values_update [OF that(1)] that(2) have "x = ?sl' \<or> (\<exists>j g. (j, g) \<in> set (groups s) \<and> x \<in> set (slots g))"
      using map_of_SomeD [OF grp] by (auto dest!: subsetD [OF set_update_subset_insert])
    then show ?thesis
    proof
      assume "x = ?sl'"
      then show ?thesis using route by (simp add: slot_linked_def same_route_def update_conv')
    qed (use old in blast)
  qed
  have res_ok: "reservation_linked ?gs q" if "(j, q) \<in> set ?rs" for j q
  proof (cases "q = r")
    case True
    then show ?thesis
      using new_slot ids by (auto simp: reservation_linked_def update_conv' intro!: bexI [of _ ?sl'])
  next
    case False
    then have "(j, q) \<in> set (reservations s)" using in_values_update [OF that] by auto
    then have "reservation_linked (groups s) q" using inv by (auto simp: gateway_inv_def link_inv_def)
    moreover have "x \<in> set ?sls" if "x \<in> set (slots grp)" "slot_reservation x = Some q" for x
      using that sl(2) by (intro in_set_list_update) auto
    ultimately show ?thesis
      using grp by (fastforce simp: reservation_linked_def update_conv')
  qed
  have link: "link_inv ?s'" unfolding link_inv_def f using slot_ok res_ok by blast
  show "gateway_inv L ?s'"
    unfolding gateway_inv_def holds total
    using inv ginv rinv hand link keys_disjoint_add [OF inv fresh, of r]
    by (simp add: gateway_inv_def f)
qed

lemma claimable_reserved:
  assumes "claimable s gid sid" and "map_of (groups s) gid = Some grp"
    and "findIndex (\<lambda>sl. slot_id sl = sid) (slots grp) = Some index"
    and "slot_reservation (slots grp ! index) = None"
  shows "slot_state (slots grp ! index) = SlotReserved"
  using assms findIndex_Some [OF assms(3)] by (auto simp: claimable_def list_all_iff)

text \<open>Besides a fresh identifier and a clock, the invariant needs two things the code does not test:
  the slot must not have been released, and no active reservation may have the same handoff.\<close>

lemma claim_ok:
  assumes ok: "gateway_ok L g" and now: "canonical_stamp now" and fresh: "fresh_id (gw_state g) rid"
    and slot: "claimable (gw_state g) gid sid"
    and h: "fresh_handoff (gw_state g) (handoffId (normalizeRequest input))"
  shows "gateway_ok L (fst (claimGroupSlot L fits rid now gid sid input g))"
proof -
  obtain g' res where out: "claimGroupSlot L fits rid now gid sid input g = (g', res)" by fastforce
  note inv = gateway_okD [OF ok]
  from out have "gateway_ok L g'"
  proof (cases rule: claim_state)
    case same
    with ok show ?thesis by simp
  next
    case (claimed grp index request r)
    note i = findIndex_Some [OF claimed(3)]
    let ?sl = "slots grp ! index"
    have mem: "?sl \<in> set (slots grp)" using i by simp
    have req: "persisted_route request" "isPersistedOption (handoffId request)"
      "0 \<le> inputTokens request" "0 \<le> outputTokens request"
      unfolding claimed(1) by (simp_all add: normalizeRequest_route normalizeRequest_handoff)
    have "isReservation rid (claimed_reservation request rid now gid sid (holdTokens ?sl))"
      using i req fresh claimed(5) now gateway_invG(4,5) [OF inv claimed(2)] mem
      by (intro isReservation_claimed) (auto simp: fresh_id_def)
    then have "gateway_inv L (gw_state g')"
      unfolding claimed(8) using i fresh h claimed(4) claimable_reserved [OF slot claimed(2,3,6)] claimed(6)
      by (intro claim_effect_inv(1) [OF inv _ _ claimed(2)]) (simp_all add: claimed(1,7))
    then show ?thesis using claimed(9) by (rule gateway_ok_written [OF ok])
  qed
  then show ?thesis by (simp add: out)
qed

section \<open>Reserving a group keeps the invariant\<close>

lemma hold_keys_Inr:
  assumes "hold_keys kcs h u = Inr u'" and "used_pos u" and "0 < h" and "distinct (map fst kcs)"
  shows "u' = fold (bump_key h) (map fst kcs) u \<and> (\<forall>(k, cap) \<in> set kcs. usedOf u k + h \<le> cap)"
  using assms
proof (induction kcs arbitrary: u)
  case (Cons kc kcs)
  obtain key cap where kc: "kc = (key, cap)" by (cases kc)
  have b: "bump_key h key u = AList.update key (usedOf u key + h) u"
    using usedOf_pos [OF Cons.prems(2), of key] Cons.prems(3) by (simp add: bump_key_def Let_def)
  have pos: "used_pos (AList.update key (usedOf u key + h) u)"
    using used_pos_bump [OF Cons.prems(2), of h key] by (simp add: b)
  from Cons.prems(1) have step: "usedOf u key + h \<le> cap"
    "hold_keys kcs h (AList.update key (usedOf u key + h) u) = Inr u'"
    by (auto simp: kc Let_def split: if_splits)
  from Cons.IH [OF step(2) pos Cons.prems(3)] Cons.prems(4) show ?case
    using step(1) by (force simp: kc b usedOf_update split: if_splits)
qed simp

definition slotsUsage :: "string \<Rightarrow> token_slot_request list \<Rightarrow> int" where
  "slotsUsage k sls = sum_list (map (\<lambda>sl. if k \<in> set (routeUsageKeys sl) then holdTokens sl else 0) sls)"

definition slot_request_ok :: "token_slot_request \<Rightarrow> bool" where
  "slot_request_ok sl \<longleftrightarrow> isPersistedString (slot_id sl) \<and> persisted_route sl \<and>
     isNonNegativeSafeInteger (holdTokens sl) \<and> holdTokens sl \<noteq> 0"

lemma hold_slot_core:
  assumes u: "usage_core L u" and ok: "slot_request_ok sl"
    and out: "hold_keys (zip (routeUsageKeys sl) (budget_caps L)) (holdTokens sl) u = Inr u'"
  shows "usage_core L u'"
    and "usedOf u' k = usedOf u k + (if k \<in> set (routeUsageKeys sl) then holdTokens sl else 0)"
proof -
  have r: "persisted_route sl" and h: "0 < holdTokens sl"
    using ok by (auto simp: slot_request_ok_def isNonNegativeSafeInteger_def)
  have up: "used_pos u" using u by (simp add: usage_core_def)
  then have ge: "0 \<le> usedOf u k" for k by (rule usedOf_pos)
  have keys: "map fst (zip (routeUsageKeys sl) (budget_caps L)) = routeUsageKeys sl"
    by (simp add: budget_caps_def)
  note hk = hold_keys_Inr [OF out up h, unfolded keys, OF route_keys_distinct]
  have eq: "u' = addRouteUsage sl (holdTokens sl) u" using hk by (simp add: addRouteUsage_def)
  show us: "usedOf u' k = usedOf u k + (if k \<in> set (routeUsageKeys sl) then holdTokens sl else 0)" for k
    using ge [of k] h by (simp add: eq usedOf_addRoute up)
  show "usage_core L u'"
  proof (rule usage_core_change [OF u r, where n = "holdTokens sl"])
    show "used_pos u'" unfolding eq using up by (rule used_pos_addRoute)
    show "sum_kind u' K = sum_kind u K + holdTokens sl" for K
      unfolding eq using up r ge h by (simp add: sum_kind_addRoute add_nonneg_nonneg)
  qed (use us hk in auto)
qed

lemma hold_slots_core:
  assumes "hold_slots L sls u m = Inr (u', m')" and "usage_core L u" and "\<forall>sl \<in> set sls. slot_request_ok sl"
  shows "usage_core L u' \<and> (\<forall>k. usedOf u' k = usedOf u k + slotsUsage k sls) \<and>
    m' = m + sum_list (map holdTokens sls) \<and>
    (\<forall>j \<le> length sls. 0 < j \<longrightarrow> isSafeInteger (m + sum_list (map holdTokens (take j sls))))"
  using assms
proof (induction sls arbitrary: u m)
  case (Cons sl sls)
  from Cons.prems(1) obtain v where
    v: "isSafeInteger (m + holdTokens sl)"
      "hold_keys (zip (routeUsageKeys sl) (budget_caps L)) (holdTokens sl) u = Inr v"
      "hold_slots L sls v (m + holdTokens sl) = Inr (u', m')"
    by (auto simp: Let_def split: if_splits sum.splits)
  have ok: "slot_request_ok sl" using Cons.prems(3) by simp
  note core = hold_slot_core [OF Cons.prems(2) ok v(2)]
  have ih: "usage_core L u' \<and> (\<forall>k. usedOf u' k = usedOf v k + slotsUsage k sls) \<and>
    m' = m + holdTokens sl + sum_list (map holdTokens sls) \<and>
    (\<forall>j \<le> length sls. 0 < j \<longrightarrow> isSafeInteger (m + holdTokens sl + sum_list (map holdTokens (take j sls))))"
    using Cons.IH [OF v(3) core(1)] Cons.prems(3) by simp
  have safe: "isSafeInteger (m + sum_list (map holdTokens (take j (sl # sls))))"
    if "j \<le> length (sl # sls)" "0 < j" for j
  proof (cases j)
    case (Suc i)
    then show ?thesis using ih v(1) that by (cases "i = 0") (auto simp: algebra_simps)
  qed (use that in simp)
  show ?case using ih safe by (auto simp: slotsUsage_def core(2))
qed (simp add: slotsUsage_def)

lemma new_slot_fields [simp]:
  "slot_id (new_slot sl) = slot_id sl" "holdTokens (new_slot sl) = holdTokens sl"
  "provider (new_slot sl) = provider sl" "model (new_slot sl) = model sl" "sessionId (new_slot sl) = sessionId sl"
  "slot_state (new_slot sl) = SlotReserved" "slot_reservation (new_slot sl) = None"
  "routeUsageKeys (new_slot sl) = routeUsageKeys sl" "slot_active (new_slot sl)"
  by (simp_all add: new_slot_def token_slot_request.defs token_slot.defs routeUsageKeys_def slot_active_def)

lemma normalizeGroup_ok:
  assumes "normalizeGroup input = Inr spec"
  shows "spec = input" and "isPersistedString (spec_groupId spec)"
    and "\<forall>sl \<in> set (spec_slots spec). slot_request_ok sl" and "distinct (map slot_id (spec_slots spec))"
  using assms length_js_unique_eq [of "map slot_id (spec_slots input)"]
  by (auto simp: normalizeGroup_def list_ex_iff slot_request_ok_def persisted_route_def split: if_splits)

definition new_group :: "group_spec \<Rightarrow> int \<Rightarrow> token_group" where
  "new_group spec maximum =
     \<lparr>group_id = spec_groupId spec, slots = map new_slot (spec_slots spec), maximumTokens = maximum\<rparr>"

lemma new_group_fields [simp]:
  "group_id (new_group spec m) = spec_groupId spec" "slots (new_group spec m) = map new_slot (spec_slots spec)"
  "maximumTokens (new_group spec m) = m"
  by (simp_all add: new_group_def)

lemma new_group_holds:
  "slotsHold k (map new_slot sls) = slotsUsage k sls" "activeCount (map new_slot sls) = int (length sls)"
  by (simp_all add: slotsHold_def slotHold_def slotsUsage_def activeCount_def comp_def cong: if_cong)

lemma isGroup_new:
  assumes "isPersistedString (spec_groupId spec)" and "\<forall>sl \<in> set (spec_slots spec). slot_request_ok sl"
    and "distinct (map slot_id (spec_slots spec))" and "spec_slots spec \<noteq> []"
    and m: "m = sum_list (map holdTokens (spec_slots spec))"
      "\<forall>j \<le> length (spec_slots spec). 0 < j \<longrightarrow> isSafeInteger (sum_list (map holdTokens (take j (spec_slots spec))))"
  shows "isGroup (new_group spec m)"
proof -
  have slots: "isSlot gid (new_slot sl)" if "sl \<in> set (spec_slots spec)" for gid sl
    using assms(2) that by (simp add: isSlot_def slot_request_ok_def persisted_route_def)
  have "0 \<le> sum_list (map holdTokens (spec_slots spec))"
    using assms(2) by (intro sum_list_nonneg) (auto simp: slot_request_ok_def isNonNegativeSafeInteger_def)
  moreover have "isSafeInteger m"
    using m(2) [rule_format, of "length (spec_slots spec)"] assms(4) m(1) by simp
  ultimately have "isNonNegativeSafeInteger m" using m(1) by (simp add: isNonNegativeSafeInteger_def)
  with assms slots show ?thesis
    by (auto simp: isGroup_def isGroup_slots_Some comp_def take_map [symmetric])
qed

lemma add_group_inv:
  assumes inv: "gateway_inv L s" and new: "map_of (groups s) gid = None" and g: "isGroup grp" "group_id grp = gid"
    and fresh: "\<forall>sl \<in> set (slots grp). slot_state sl = SlotReserved"
    and u: "usage_inv L u" and usage: "\<And>k. usedOf u k = usedOf (used s) k + slotsHold k (slots grp)"
    and room: "activeTotal s + activeCount (slots grp) \<le> int MAX_ACTIVE_RESERVATIONS"
      "length (groups s) < MAX_ACTIVE_RESERVATIONS"
  shows "gateway_inv L (s\<lparr>used := u, groups := AList.update gid grp (groups s)\<rparr>)" (is "gateway_inv L ?s'")
proof -
  let ?gs = "AList.update gid grp (groups s)"
  have n: "gid \<notin> set (keys_of (groups s))" using new by (simp add: map_of_eq_None_iff)
  have gid: "isPersistedString gid" using g by (simp add: isGroup_def)
  have ginv: "groups_inv ?gs" using inv g gid by (intro groups_inv_update) (simp_all add: gateway_inv_def)
  have len: "length ?gs \<le> MAX_ACTIVE_RESERVATIONS" using room(2) n by (simp add: update_fresh)
  have total: "activeTotal ?s' = activeTotal s + activeCount (slots grp)"
    by (simp add: activeTotal_def sum_update_fresh [OF n])
  have holds: "holdsAt ?s' k \<le> usedOf u k" for k
  proof -
    have "holdsAt s k \<le> usedOf (used s) k" using inv unfolding gateway_inv_def by blast
    then show ?thesis by (simp add: holdsAt_def sum_update_fresh [OF n] usage grpHold_def)
  qed
  have link: "link_inv ?s'"
    unfolding link_inv_def
  proof (intro conjI allI impI ballI)
    fix i h x assume "(i, h) \<in> set (groups ?s')" "x \<in> set (slots h)"
    then show "slot_linked (reservations ?s') x"
      using inv fresh by (auto simp: gateway_inv_def link_inv_def slot_linked_def dest!: in_values_update)
  next
    fix i r assume "(i, r) \<in> set (reservations ?s')"
    then have "reservation_linked (groups s) r" using inv by (auto simp: gateway_inv_def link_inv_def)
    then show "reservation_linked (groups ?s') r"
      using new by (fastforce simp: reservation_linked_def update_conv')
  qed
  have "handoffIds ?s' = handoffIds s" by (simp add: handoffIds_def)
  then show ?thesis
    unfolding gateway_inv_def total using inv u ginv len holds link room by (simp add: gateway_inv_def)
qed

lemma reserveGroup_state:
  assumes out: "reserveGroup L fits spec g = (g', res)"
  obtains (same) "g' = g"
  | (reserved) u m where "normalizeGroup spec = Inr spec" and "map_of (groups (gw_state g)) (spec_groupId spec) = None"
      and "length (groups (gw_state g)) < MAX_ACTIVE_RESERVATIONS" and "spec_slots spec \<noteq> []"
      and "activeTotal (gw_state g) + int (length (spec_slots spec)) \<le> int MAX_ACTIVE_RESERVATIONS"
      and "hold_slots L (spec_slots spec) (used (gw_state g)) 0 = Inr (u, m)" and "length u \<le> MAX_USAGE_KEYS"
      and "gw_state g' = (gw_state g)\<lparr>used := u,
        groups := AList.update (spec_groupId spec) (new_group spec m) (groups (gw_state g))\<rparr>"
      and "written g g'" and "res = Inr (new_group spec m) \<or> res = Inl (GatewayError ''token_gateway_state_limit'')"
proof (cases "g' = g")
  case True
  with same show thesis by simp
next
  case False
  from False out have n: "normalizeGroup spec = Inr spec"
    using normalizeGroup_ok(1) by (fastforce simp: reserveGroup_def Let_def split: sum.splits)
  from False out n reserved activeTotal_counts [of "gw_state g"] show thesis
    by (auto simp: reserveGroup_def Let_def persist_def written_def new_group_def
        split: if_splits option.splits sum.splits prod.splits)
qed

lemma reserveGroup_ok:
  assumes ok: "gateway_ok L g"
  shows "gateway_ok L (fst (reserveGroup L fits spec g))"
proof -
  obtain g' res where out: "reserveGroup L fits spec g = (g', res)" by fastforce
  note inv = gateway_okD [OF ok]
  from out have "gateway_ok L g'"
  proof (cases rule: reserveGroup_state)
    case same
    with ok show ?thesis by simp
  next
    case (reserved u m)
    note spec = normalizeGroup_ok [OF reserved(1)]
    have "usage_core L (used (gw_state g))" using inv by (simp add: gateway_inv_def usage_inv_core)
    from hold_slots_core [OF reserved(6) this spec(3)]
    have h: "usage_core L u" "\<And>k. usedOf u k = usedOf (used (gw_state g)) k + slotsUsage k (spec_slots spec)"
      "isGroup (new_group spec m)"
      using spec reserved(4) by (auto intro: isGroup_new)
    have "gateway_inv L (gw_state g')"
      unfolding reserved(8)
      using h reserved(3,5,7)
      by (intro add_group_inv [OF inv reserved(2)]) (simp_all add: new_group_holds usage_inv_core)
    then show ?thesis using reserved(9) by (rule gateway_ok_written [OF ok])
  qed
  then show ?thesis by (simp add: out)
qed

end
