(* ===== verification/TokenGatewayMachine.thy ===== *)
theory TokenGatewayMachine
  imports TokenGatewayGroups
begin

text \<open>
  Releasing the slots of a group keeps the invariant when no write fails; then the gate is a machine
  whose admissible operations keep the invariant, so every run does.
\<close>

section \<open>Giving back a slot that was never claimed\<close>

lemma slot_covered:
  assumes inv: "gateway_inv L s" and grp: "map_of (groups s) gid = Some grp" and sl: "sl \<in> set (slots grp)"
  shows "slotHold k sl \<le> usedOf (used s) k"
proof -
  have "slotHold k sl \<le> slotsHold k (slots grp)"
    unfolding slotsHold_def using sl gateway_invG(5) [OF inv grp]
    by (intro member_le_sum_list) (auto intro: slotHold_nonneg)
  also have "\<dots> = grpHold k (gid, grp)" by (simp add: grpHold_def)
  also have "\<dots> \<le> sum_list (map (grpHold k) (groups s))"
    using map_of_SomeD [OF grp] gateway_inv_entries(2) [OF inv]
    by (intro member_le_sum_list) (auto intro: grpHold_nonneg)
  also have "\<dots> \<le> holdsAt s k" using holds_nonneg(1) [OF inv, of k] by (simp add: holdsAt_def)
  also have "\<dots> \<le> usedOf (used s) k" using inv unfolding gateway_inv_def by blast
  finally show ?thesis .
qed

definition free_slot :: "string \<Rightarrow> token_slot list \<Rightarrow> token_slot list" where
  "free_slot i sls = map (\<lambda>x. if slot_id x = i then x\<lparr>slot_state := SlotReleased\<rparr> else x) sls"

definition install :: "string \<Rightarrow> token_group \<Rightarrow> token_slot list \<Rightarrow> gateway_state \<Rightarrow> gateway_state" where
  "install gid grp sls s = s\<lparr>groups := AList.update gid (grp\<lparr>slots := sls\<rparr>) (groups s)\<rparr>"

lemma install_fields [simp]:
  "used (install gid grp sls s) = used s" "reservations (install gid grp sls s) = reservations s"
  "terminal (install gid grp sls s) = terminal s"
  "map_of (groups (install gid grp sls s)) gid = Some (grp\<lparr>slots := sls\<rparr>)"
  "handoffIds (install gid grp sls s) = handoffIds s"
  by (simp_all add: install_def update_conv' handoffIds_def)

lemma drop_slot_inv:
  assumes inv: "gateway_inv L s" and grp: "map_of (groups s) gid = Some grp" and sl: "sl \<in> set (slots grp)"
    and st: "slot_state sl = SlotReserved"
  shows "gateway_inv L (install gid grp (free_slot (slot_id sl) (slots grp))
    (s\<lparr>used := addRouteUsage sl (- holdTokens sl) (used s)\<rparr>))" (is "gateway_inv L ?s'")
proof -
  let ?sls = "free_slot (slot_id sl) (slots grp)"
  let ?gs = "AList.update gid (grp\<lparr>slots := ?sls\<rparr>) (groups s)"
  have u: "usage_inv L (used s)" using inv by (simp add: gateway_inv_def)
  have slot: "isSlot gid sl" using inv grp sl by (rule gateway_invG(5))
  have act: "slot_active sl" using st by (simp add: slot_active_def)
  have route: "persisted_route sl" and h: "0 \<le> holdTokens sl" and res: "slot_reservation sl = None"
    using slot st by (auto simp: isSlot_def persisted_route_def isNonNegativeSafeInteger_def)
  have "\<forall>k \<in> set (routeUsageKeys sl). holdTokens sl \<le> usedOf (used s) k"
  proof
    fix k assume "k \<in> set (routeUsageKeys sl)"
    then show "holdTokens sl \<le> usedOf (used s) k"
      using slot_covered [OF inv grp sl, of k] act by (simp add: slotHold_def)
  qed
  note sub = usage_inv_sub [OF u route h this]
  have dg: "distinct (keys_of (groups s))" using inv by (simp add: inv_defs)
  note ids = gateway_invG(6) [OF inv grp]
  have f: "groups ?s' = ?gs" "reservations ?s' = reservations s" "terminal ?s' = terminal s"
    "used ?s' = addRouteUsage sl (- holdTokens sl) (used s)"
    by (simp_all add: install_def)
  note sls = set_slot_state [OF ids sl, of SlotReleased, folded free_slot_def]
  have "isSlot gid (sl\<lparr>slot_state := SlotReleased\<rparr>)" using slot res by (simp add: isSlot_def)
  then have slots: "\<forall>x \<in> set ?sls. isSlot gid x" using gateway_invG(5) [OF inv grp] unfolding sls by blast
  have "isGroup (grp\<lparr>slots := ?sls\<rparr>)"
    using gateway_invG(1,2) [OF inv grp] slots
    by (intro isGroup_update_slots) (auto simp: free_slot_def)
  moreover have "gid \<in> set (keys_of (groups s))" using map_of_SomeD [OF grp] by force
  ultimately have ginv: "groups_inv ?gs" "length ?gs = length (groups s)"
    using gateway_invG(2,4) [OF inv grp] inv
    by (auto intro!: groups_inv_update simp: length_update gateway_inv_def)
  have na: "\<not> slot_active (sl\<lparr>slot_state := SlotReleased\<rparr>)" by simp
  note ms = map_slot_state [OF ids sl na act, folded free_slot_def]
  have holds: "holdsAt ?s' k = holdsAt s k - slotHold k sl" for k
    unfolding holdsAt_def f sum_update_old [OF dg grp] by (simp add: grpHold_def ms(1))
  have total: "activeTotal ?s' = activeTotal s - 1"
    unfolding activeTotal_def f sum_update_old [OF dg grp] by (simp add: ms(2))
  have covered: "holdsAt ?s' k \<le> usedOf (used ?s') k" for k
  proof -
    have "holdsAt s k \<le> usedOf (used s) k" using inv unfolding gateway_inv_def by blast
    then show ?thesis unfolding holds f using sub(2) [of k] act by (simp add: slotHold_def)
  qed
  have link: "link_inv ?s'"
    unfolding link_inv_def f
  proof (intro conjI allI impI ballI)
    fix j g x assume g: "(j, g) \<in> set ?gs" and x: "x \<in> set (slots g)"
    have "x = sl\<lparr>slot_state := SlotReleased\<rparr> \<or> slot_linked (reservations s) x"
      using in_values_update [OF g] x inv gateway_invG(3) [OF inv grp] sls
      by (fastforce simp: gateway_inv_def link_inv_def)
    then show "slot_linked (reservations s) x" by (auto simp: slot_linked_def)
  next
    fix j q assume "(j, q) \<in> set (reservations s)"
    then have "reservation_linked (groups s) q" using inv by (auto simp: gateway_inv_def link_inv_def)
    moreover have "x \<in> set ?sls" if "x \<in> set (slots grp)" "slot_state x = SlotClaimed" for x
      using that st unfolding sls by auto
    ultimately show "reservation_linked ?gs q"
      using grp by (fastforce simp: reservation_linked_def update_conv')
  qed
  have "activeTotal ?s' \<le> int MAX_ACTIVE_RESERVATIONS"
    using inv unfolding total by (simp add: gateway_inv_def)
  moreover have "handoffIds ?s' = handoffIds s" by (simp add: handoffIds_def f)
  ultimately show ?thesis
    using inv sub(1) ginv link covered unfolding gateway_inv_def by (simp add: f)
qed

section \<open>The loop over the slots of a group\<close>

lemma release_active:
  assumes "map_of (reservations (gw_state g)) (reservationId r) = Some r"
  shows "gw_state (fst (release fits now r g)) = release_effect r now (gw_state g)"
    and "snd (release fits now r g) =
      (if fits (release_effect r now (gw_state g)) then Inr () else Inl (GatewayError ''token_gateway_state_limit''))"
  using assms
  by (simp_all add: release_def Let_def same_route_def persist_def release_effect_def retire_def
      released_entry_def)

lemma free_slot_split:
  assumes "distinct (map slot_id (pre @ sl # post))"
  shows "free_slot (slot_id sl) (pre @ sl # post) = pre @ sl\<lparr>slot_state := SlotReleased\<rparr> # post"
proof -
  have "map (\<lambda>x. if slot_id x = slot_id sl then x\<lparr>slot_state := SlotReleased\<rparr> else x) xs = xs"
    if "slot_id sl \<notin> slot_id ` set xs" for xs :: "token_slot list"
    using that by (intro map_idI) (metis imageI)
  with assms show ?thesis by (auto simp: free_slot_def)
qed

lemma release_effect_install:
  assumes "groupId r = Some gid" and "slotId r = Some i" and "map_of (groups s) gid = Some g0"
  shows "install gid grp (free_slot i sls) (release_effect r now s) = release_effect r now (install gid grp sls s)"
    and "map_of (groups (release_effect r now s)) gid \<noteq> None"
  using assms
  by (simp_all add: release_effect_def retire_def updateGroupSlot_def pruneTerminal_def Let_def install_def
      update_conv' free_slot_def)

lemma install_install [simp]: "install gid grp a (install gid grp b s) = install gid grp a s"
  by (simp add: install_def)

text \<open>The state with the group's slots as far as the loop has come, followed by those it has not
  reached, satisfies the invariant at every step.\<close>

lemma release_slots_inv:
  assumes "release_slots fits now requested sls g = (g', res)"
    and "gateway_inv L (install gid grp (pre @ sls) (gw_state g))" and "canonical_stamp now"
    and "map_of (groups (gw_state g)) gid \<noteq> None"
  shows "case res of Inl e \<Rightarrow> e = GatewayError ''token_gateway_state_limit''
    | Inr sls' \<Rightarrow> gateway_inv L (install gid grp (pre @ sls') (gw_state g')) \<and>
        map_of (groups (gw_state g')) gid \<noteq> None"
  using assms
proof (induction sls arbitrary: g pre res)
  case (Cons sl sls)
  let ?V = "install gid grp (pre @ sl # sls) (gw_state g)"
  let ?free = "sl\<lparr>slot_state := SlotReleased\<rparr>"
  have V: "map_of (groups ?V) gid = Some (grp\<lparr>slots := pre @ sl # sls\<rparr>)" by simp
  note slot = gateway_invG(5) [OF Cons.prems(2) V, of sl, simplified]
  have ids: "distinct (map slot_id (pre @ sl # sls))" using gateway_invG(6) [OF Cons.prems(2) V] by simp
  have step: ?case
    if "gateway_inv L (install gid grp (pre @ sl' # sls) (gw_state g1))"
      "map_of (groups (gw_state g1)) gid \<noteq> None"
      "(case release_slots fits now requested sls g1 of (g2, Inl e) \<Rightarrow> (g2, Inl e)
        | (g2, Inr sls') \<Rightarrow> (g2, Inr (sl' # sls'))) = (g', res)" for g1 sl'
  proof -
    note out = that(3)
    obtain r2 where r2: "release_slots fits now requested sls g1 = (g', r2)"
      "res = (case r2 of Inl e \<Rightarrow> Inl e | Inr sls' \<Rightarrow> Inr (sl' # sls'))"
      using out by (auto split: prod.splits sum.splits)
    from Cons.IH [OF r2(1), of "pre @ [sl']"] that Cons.prems(3) show ?thesis
      unfolding r2(2) by (cases r2) simp_all
  qed
  consider (keep) "slot_id sl \<notin> set requested \<or> slot_state sl = SlotReleased \<or> slot_state sl = SlotSettled"
    | (claimed) r where "slot_id sl \<in> set requested" "slot_state sl = SlotClaimed" "slot_reservation sl = Some r"
    | (reserved) "slot_id sl \<in> set requested" "slot_state sl = SlotReserved"
    using slot by (cases "slot_state sl") (auto simp: isSlot_def)
  then show ?case
  proof cases
    case keep
    with Cons.prems(1) show ?thesis
      by (intro step [OF Cons.prems(2,4)]) (simp add: Let_def)
  next
    case (claimed r)
    have ids': "groupId r = Some gid" "slotId r = Some (slot_id sl)"
      using slot claimed by (auto simp: isSlot_def)
    have act: "map_of (reservations (gw_state g)) (reservationId r) = Some r"
      using gateway_invG(3) [OF Cons.prems(2) V, of sl] claimed by (simp add: slot_linked_def)
    obtain g1 r1 where rel: "release fits now r g = (g1, r1)" by fastforce
    have s1: "gw_state g1 = release_effect r now (gw_state g)"
      and r1: "\<And>e. r1 = Inl e \<Longrightarrow> e = GatewayError ''token_gateway_state_limit''"
      using release_active [OF act, of fits now] rel by (auto split: if_splits)
    from Cons.prems(4) obtain g0 where g0: "map_of (groups (gw_state g)) gid = Some g0" by auto
    note ei = release_effect_install [OF ids' g0]
    have "gateway_inv L (release_effect r now ?V)"
      using release_effect_inv(1) [OF Cons.prems(2) _ Cons.prems(3)] act by simp
    then have inv1: "gateway_inv L (install gid grp (pre @ ?free # sls) (gw_state g1))"
      using ei(1) [of grp "pre @ sl # sls" now] by (simp add: s1 free_slot_split [OF ids])
    show ?thesis
    proof (cases r1)
      case (Inl e)
      with Cons.prems(1) claimed rel r1 show ?thesis by (auto simp: Let_def)
    next
      case (Inr u)
      with Cons.prems(1) claimed rel show ?thesis
        using ei(2) by (intro step [OF inv1]) (simp_all add: Let_def s1)
    qed
  next
    case reserved
    let ?g1 = "g\<lparr>gw_state := (gw_state g)\<lparr>used := addRouteUsage sl (- holdTokens sl) (used (gw_state g))\<rparr>\<rparr>"
    have "gateway_inv L (install gid grp (pre @ ?free # sls) (gw_state ?g1))"
      using drop_slot_inv [OF Cons.prems(2) V, of sl] reserved free_slot_split [OF ids]
      by (simp add: install_def)
    then show ?thesis
      using Cons.prems(1,4) reserved by (intro step [of ?free ?g1]) (simp_all add: Let_def)
  qed
qed simp

lemma install_same:
  "map_of (groups s) gid = Some grp \<Longrightarrow> install gid grp (slots grp) s = s"
proof -
  have "AList.update k v d = d" if "map_of d k = Some v" for k v and d :: "token_group dict"
    using that by (induction d) auto
  then show "map_of (groups s) gid = Some grp \<Longrightarrow> install gid grp (slots grp) s = s"
    by (simp add: install_def)
qed

lemma releaseGroupSlots_inv:
  assumes inv: "gateway_inv L (gw_state g)" and now: "canonical_stamp now"
    and out: "releaseGroupSlots fits now gid ids g = (g', res)"
    and ok: "res \<noteq> Inl (GatewayError ''token_gateway_state_limit'')"
  shows "gateway_inv L (gw_state g')"
proof (cases "map_of (groups (gw_state g)) gid")
  case None
  with out inv show ?thesis by (simp add: releaseGroupSlots_def)
next
  case (Some grp)
  obtain g1 r1 where loop: "release_slots fits now ids (slots grp) g = (g1, r1)" by fastforce
  have "gateway_inv L (install gid grp ([] @ slots grp) (gw_state g))"
    using inv install_same [OF Some] by simp
  note run = release_slots_inv [OF loop this now]
  show ?thesis
  proof (cases "g' = g")
    case True
    with inv show ?thesis by simp
  next
    case False
    with out Some loop run ok inv show ?thesis
      by (auto simp: releaseGroupSlots_def Let_def install_def persist_def split: if_splits sum.splits)
  qed
qed

section \<open>The gate as a machine\<close>

datatype gateway_op =
    OpReserve string stamp token_request_input
  | OpReserveGroup group_spec
  | OpClaim string stamp string string token_request_input
  | OpSettle stamp token_reservation token_usage
  | OpRelease stamp token_reservation
  | OpReleaseGroup stamp string "string list"
  | OpAcknowledge string

fun gateway_exec :: "token_gateway_limits \<Rightarrow> (gateway_state \<Rightarrow> bool) \<Rightarrow> gateway_op \<Rightarrow> gateway \<Rightarrow> gateway" where
  "gateway_exec L fits (OpReserve rid now input) g = fst (reserve L fits rid now input g)"
| "gateway_exec L fits (OpReserveGroup spec) g = fst (reserveGroup L fits spec g)"
| "gateway_exec L fits (OpClaim rid now gid sid input) g = fst (claimGroupSlot L fits rid now gid sid input g)"
| "gateway_exec L fits (OpSettle now r usage) g = fst (settle L fits now r usage g)"
| "gateway_exec L fits (OpRelease now r) g = fst (release fits now r g)"
| "gateway_exec L fits (OpReleaseGroup now gid ids) g = fst (releaseGroupSlots fits now gid ids g)"
| "gateway_exec L fits (OpAcknowledge rid) g = fst (acknowledgeTerminal fits rid g)"

text \<open>What the environment grants: the clock gives a valid time, \<open>randomUUID\<close> a new identifier; a
  claim is for a slot that is still reserved and a handoff that has no active reservation; the
  release of a group's slots is not cut short by a failed write. The last two are not tested by the
  code.\<close>

fun admissible :: "(gateway_state \<Rightarrow> bool) \<Rightarrow> gateway_op \<Rightarrow> gateway \<Rightarrow> bool" where
  "admissible fits (OpReserve rid now input) g \<longleftrightarrow> canonical_stamp now \<and> fresh_id (gw_state g) rid"
| "admissible fits (OpReserveGroup spec) g \<longleftrightarrow> True"
| "admissible fits (OpClaim rid now gid sid input) g \<longleftrightarrow>
     canonical_stamp now \<and> fresh_id (gw_state g) rid \<and> claimable (gw_state g) gid sid \<and>
     fresh_handoff (gw_state g) (handoffId (normalizeRequest input))"
| "admissible fits (OpSettle now r usage) g \<longleftrightarrow> canonical_stamp now"
| "admissible fits (OpRelease now r) g \<longleftrightarrow> canonical_stamp now"
| "admissible fits (OpReleaseGroup now gid ids) g \<longleftrightarrow>
     canonical_stamp now \<and>
     snd (releaseGroupSlots fits now gid ids g) \<noteq> Inl (GatewayError ''token_gateway_state_limit'')"
| "admissible fits (OpAcknowledge rid) g \<longleftrightarrow> True"

definition gateway_step :: "token_gateway_limits \<Rightarrow> (gateway_state \<Rightarrow> bool) \<Rightarrow> gateway_op \<Rightarrow> gateway \<Rightarrow> gateway" where
  "gateway_step L fits op g = (if admissible fits op g then gateway_exec L fits op g else g)"

definition gateway_safe :: "token_gateway_limits \<Rightarrow> gateway \<Rightarrow> bool" where
  "gateway_safe L g \<longleftrightarrow> limits_ok L \<and> gateway_inv L (gw_state g)"

fun group_release :: "gateway_op \<Rightarrow> bool" where
  "group_release (OpReleaseGroup now gid ids) \<longleftrightarrow> True"
| "group_release _ \<longleftrightarrow> False"

text \<open>The state alone is as good as a gateway that has written nothing.\<close>

lemma exec_state_cong:
  assumes "\<not> group_release op"
    and ok: "\<And>g. gateway_ok L g \<Longrightarrow> admissible fits op g \<Longrightarrow> gateway_ok L (gateway_exec L fits op g)"
    and inv: "gateway_inv L (gw_state g)" and adm: "admissible fits op g"
  shows "gateway_inv L (gw_state (gateway_exec L fits op g))"
proof -
  let ?g = "g\<lparr>gw_writes := []\<rparr>"
  have "gateway_ok L ?g" using inv by (simp add: gateway_ok_def)
  moreover have "admissible fits op ?g" using adm assms(1) by (cases op) auto
  ultimately have "gateway_inv L (gw_state (gateway_exec L fits op ?g))"
    by (intro gateway_okD ok)
  moreover have "gw_state (gateway_exec L fits op ?g) = gw_state (gateway_exec L fits op g)"
  proof (cases op)
    case (OpReserve rid now input)
    show ?thesis
      by (simp add: OpReserve reserve_def refuse_def persist_def record_telemetry_def Let_def split: option.splits)
  next
    case (OpReserveGroup spec)
    show ?thesis
      by (simp add: OpReserveGroup reserveGroup_def persist_def Let_def split: option.splits sum.splits prod.splits)
  next
    case (OpClaim rid now gid sid input)
    show ?thesis by (simp add: OpClaim claimGroupSlot_def persist_def Let_def split: option.splits)
  next
    case (OpSettle now r usage)
    show ?thesis
      by (simp add: OpSettle settle_def persist_def record_telemetry_def Let_def split: option.splits)
  next
    case (OpRelease now r)
    show ?thesis
      by (simp add: OpRelease release_def persist_def record_telemetry_def Let_def split: option.splits)
  next
    case (OpReleaseGroup now gid ids)
    then show ?thesis using assms(1) by simp
  next
    case (OpAcknowledge rid)
    show ?thesis by (simp add: OpAcknowledge acknowledgeTerminal_def persist_def Let_def)
  qed
  ultimately show ?thesis by simp
qed

lemma exec_ok:
  assumes "limits_ok L" and "\<not> group_release op"
    and "gateway_ok L g" and "admissible fits op g"
  shows "gateway_ok L (gateway_exec L fits op g)"
  using assms
  by (cases op) (auto intro: reserve_ok reserveGroup_ok claim_ok settle_ok release_ok acknowledge_ok)

lemma gateway_step_safe:
  assumes safe: "gateway_safe L g"
  shows "gateway_safe L (gateway_step L fits op g)"
proof (cases "admissible fits op g")
  case True
  have L: "limits_ok L" and inv: "gateway_inv L (gw_state g)" using safe by (simp_all add: gateway_safe_def)
  have "gateway_inv L (gw_state (gateway_exec L fits op g))"
  proof (cases "group_release op")
    case False
    from exec_state_cong [OF False _ inv True] exec_ok [OF L False] show ?thesis by blast
  next
    case grp: True
    then obtain now gid ids where op: "op = OpReleaseGroup now gid ids" by (cases op) simp_all
    with True show ?thesis
      using releaseGroupSlots_inv [OF inv, of now fits gid ids] by (auto simp: prod_eq_iff)
  qed
  with True L show ?thesis by (simp add: gateway_step_def gateway_safe_def)
qed (use safe in \<open>simp add: gateway_step_def\<close>)

interpretation token_gate: invariant_machine "gateway_step L fits" "gateway_safe L" for L fits
  by unfold_locales (rule gateway_step_safe)

lemma gateway_safe_cap:
  "gateway_safe L g \<Longrightarrow> usageKeyKind k = Some K \<Longrightarrow> usedOf (used (gw_state g)) k \<le> kind_cap L K"
  unfolding gateway_safe_def gateway_inv_def usage_inv_def by blast

lemma fresh_gateway_safe:
  "limits_ok L \<Longrightarrow> gateway_safe L \<lparr>gw_state = empty_gateway_state, gw_writes = [], gw_telemetry = []\<rparr>"
  using limits_okD [of L ProviderUsage] limits_okD [of L ModelUsage] limits_okD [of L SessionUsage]
  by (simp add: gateway_safe_def empty_gateway_inv kind_cap_def)

end
