(* ===== verification/TokenGatewayReload.thy ===== *)
theory TokenGatewayReload
  imports TokenGatewayMachine
begin

text \<open>
  A state in the invariant passes the validation the gate runs when it is constructed on a stored
  state, so a gate that is restarted after an admissible run does not refuse its own file.
\<close>

section \<open>The totals of the usage dictionary\<close>

lemma sum_kind_Cons:
  "sum_kind ((k, v) # u) K = (if usageKeyKind k = Some K then v else 0) + sum_kind u K"
  by (simp add: sum_kind_def)

lemma sum_kind_nonneg: "\<forall>(k, v) \<in> set u. 0 < v \<Longrightarrow> 0 \<le> sum_kind u K"
  by (induction u) (auto simp: sum_kind_Cons sum_kind_def)

lemma usage_totals_Some:
  assumes "\<forall>(k, v) \<in> set u. usageKeyKind k \<noteq> None \<and> 0 < v" and "0 \<le> p" "0 \<le> m" "0 \<le> i"
    and "p + sum_kind u ProviderUsage \<le> MAX_SAFE_INTEGER" "m + sum_kind u ModelUsage \<le> MAX_SAFE_INTEGER"
      "i + sum_kind u SessionUsage \<le> MAX_SAFE_INTEGER"
  shows "usage_totals u (p, m, i) =
    Some (p + sum_kind u ProviderUsage, m + sum_kind u ModelUsage, i + sum_kind u SessionUsage)"
  using assms
proof (induction u arbitrary: p m i)
  case (Cons e u)
  obtain k v where e: "e = (k, v)" by (cases e)
  obtain K where K: "usageKeyKind k = Some K" and v: "0 < v" using Cons.prems(1) by (auto simp: e)
  have ge: "0 \<le> sum_kind u K" for K
    using Cons.prems(1) by (intro sum_kind_nonneg) auto
  have safe: "isNonNegativeSafeInteger n" "isSafeInteger n" if "0 \<le> n" "n \<le> MAX_SAFE_INTEGER" for n
    using that by (simp_all add: isNonNegativeSafeInteger_def isSafeInteger_def MAX_SAFE_INTEGER_def)
  show ?case
    using Cons.prems K v ge [of ProviderUsage] ge [of ModelUsage] ge [of SessionUsage]
    by (cases K) (simp_all add: e sum_kind_Cons safe Cons.IH add.assoc)
qed (simp add: sum_kind_def)

lemma sum_kind_bound:
  assumes "\<forall>(k, v) \<in> set u. usageKeyKind k = Some K \<longrightarrow> v \<le> c" and "0 \<le> c"
  shows "sum_kind u K \<le> c * int (length u)"
  using assms
proof (induction u)
  case (Cons e u)
  then have "sum_kind u K \<le> c * int (length u)" by simp
  moreover have "usageKeyKind (fst e) = Some K \<longrightarrow> snd e \<le> c"
    using Cons.prems by auto
  ultimately show ?case using Cons.prems(2) by (cases e) (auto simp: sum_kind_Cons algebra_simps)
qed (simp add: sum_kind_def)

section \<open>The usage the active holds require\<close>

definition requiredAt :: "string \<Rightarrow> (string list \<times> int) list \<Rightarrow> int" where
  "requiredAt k hs = sum_list (map (\<lambda>(ks, n). if k \<in> set ks then n else 0) hs)"

lemma require_keys_Some:
  assumes "distinct ks" and "0 < n" and "used_pos req" and "\<forall>k \<in> set ks. usedOf req k + n \<le> MAX_SAFE_INTEGER"
  shows "\<exists>req'. require_keys ks n req = Some req' \<and> used_pos req' \<and>
    (\<forall>k. usedOf req' k = usedOf req k + (if k \<in> set ks then n else 0))"
  using assms
proof (induction ks arbitrary: req)
  case (Cons k ks)
  have ge: "0 \<le> usedOf req k" using Cons.prems(3) by (rule usedOf_pos)
  have safe: "isSafeInteger (usedOf req k + n)"
    using Cons.prems(2,4) ge by (simp add: isSafeInteger_def MAX_SAFE_INTEGER_def)
  let ?req = "AList.update k (usedOf req k + n) req"
  have "bump_key n k req = ?req" using ge Cons.prems(2) by (simp add: bump_key_def Let_def)
  then have "used_pos ?req" using used_pos_bump [OF Cons.prems(3), of n k] by simp
  then obtain req' where "require_keys ks n ?req = Some req'" "used_pos req'"
    "\<forall>j. usedOf req' j = usedOf ?req j + (if j \<in> set ks then n else 0)"
  proof -
    have "\<forall>j \<in> set ks. usedOf ?req j + n \<le> MAX_SAFE_INTEGER"
      using Cons.prems(1,4) by (auto simp: usedOf_update)
    from Cons.IH [OF _ Cons.prems(2) \<open>used_pos ?req\<close> this] Cons.prems(1) that show thesis by auto
  qed
  then show ?case using safe Cons.prems(1) by (auto simp: Let_def usedOf_update)
qed simp

lemma require_all_Some:
  assumes "\<forall>(ks, n) \<in> set hs. distinct ks \<and> 0 < n" and "used_pos req"
    and "\<forall>(ks, n) \<in> set hs. \<forall>k \<in> set ks. usedOf req k + requiredAt k hs \<le> MAX_SAFE_INTEGER"
  shows "\<exists>req'. require_all hs req = Some req' \<and> used_pos req' \<and>
    (\<forall>k. usedOf req' k = usedOf req k + requiredAt k hs)"
  using assms
proof (induction hs arbitrary: req)
  case (Cons h hs)
  obtain ks n where h: "h = (ks, n)" by (cases h)
  have pos: "distinct ks" "0 < n" using Cons.prems(1) by (simp_all add: h)
  have ge: "0 \<le> requiredAt k hs" for k
    unfolding requiredAt_def using Cons.prems(1) by (intro sum_list_nonneg) force
  have "usedOf req k + n \<le> MAX_SAFE_INTEGER" if "k \<in> set ks" for k
  proof -
    have "usedOf req k + requiredAt k ((ks, n) # hs) \<le> MAX_SAFE_INTEGER" using Cons.prems(3) that by (simp add: h)
    then show ?thesis using ge [of k] that by (simp add: requiredAt_def)
  qed
  with require_keys_Some [OF pos Cons.prems(2)] obtain req1 where r1:
    "require_keys ks n req = Some req1" "used_pos req1"
    "\<forall>k. usedOf req1 k = usedOf req k + (if k \<in> set ks then n else 0)" by blast
  have "\<exists>req'. require_all hs req1 = Some req' \<and> used_pos req' \<and>
    (\<forall>k. usedOf req' k = usedOf req1 k + requiredAt k hs)"
  proof (rule Cons.IH)
    show "\<forall>(ks', n') \<in> set hs. \<forall>k \<in> set ks'. usedOf req1 k + requiredAt k hs \<le> MAX_SAFE_INTEGER"
      using Cons.prems(3) r1(3) by (fastforce simp: h requiredAt_def)
  qed (use Cons.prems(1) r1(2) in auto)
  then show ?case using r1 by (auto simp: h requiredAt_def)
qed (simp add: requiredAt_def)

lemma sum_list_filter: "sum_list (map f (filter P xs)) = sum_list (map (\<lambda>x. if P x then f x else 0) xs)"
  for f :: "'a \<Rightarrow> int"
  by (induction xs) auto

lemma sum_list_concat_map: "sum_list (map f (concat (map g xs))) = sum_list (map (\<lambda>x. sum_list (map f (g x))) xs)"
  for f :: "'a \<Rightarrow> int"
  by (induction xs) auto

lemma requiredAt_holds: "requiredAt k (usage_holds s) = holdsAt s k"
proof -
  have "requiredAt k (usage_holds s) =
      sum_list (map (\<lambda>r. if k \<in> set (routeUsageKeys r) then totalTokens r else 0)
        (filter (\<lambda>r. totalTokens r \<noteq> 0) (ordinaryReservations s))) +
      sum_list (map (\<lambda>sl. if k \<in> set (routeUsageKeys sl) then holdTokens sl else 0)
        (filter slot_active (all_slots s)))"
    by (simp add: requiredAt_def usage_holds_def comp_def)
  also have "sum_list (map (\<lambda>r. if k \<in> set (routeUsageKeys r) then totalTokens r else 0)
        (filter (\<lambda>r. totalTokens r \<noteq> 0) (ordinaryReservations s))) = sum_list (map (ordHold k) (reservations s))"
    unfolding ordinaryReservations_def filter_filter sum_list_filter
    by (auto simp: comp_def ordHold_def intro!: arg_cong [where f = sum_list])
  also have "sum_list (map (\<lambda>sl. if k \<in> set (routeUsageKeys sl) then holdTokens sl else 0)
        (filter slot_active (all_slots s))) = sum_list (map (grpHold k) (groups s))"
    unfolding sum_list_filter all_slots_def sum_list_concat_map
    by (auto simp: comp_def grpHold_def slotsHold_def slotHold_def intro!: arg_cong [where f = sum_list])
  finally show ?thesis by (simp add: holdsAt_def)
qed

lemma usage_holds_entries:
  assumes inv: "gateway_inv L s" and h: "(ks, n) \<in> set (usage_holds s)"
  shows "distinct ks" and "0 < n" and "k \<in> set ks \<Longrightarrow> usageKeyKind k \<noteq> None"
proof -
  have "\<exists>r :: token_route. ks = routeUsageKeys r \<and> persisted_route r \<and> 0 < n"
  proof -
    consider (r) r where "r \<in> set (values_of (reservations s))" "ks = routeUsageKeys r" "n = totalTokens r" "n \<noteq> 0"
      | (sl) sl where "sl \<in> set (all_slots s)" "ks = routeUsageKeys sl" "n = holdTokens sl"
      using h by (auto simp: usage_holds_def ordinaryReservations_def)
    then show ?thesis
    proof cases
      case r
      then obtain i where "(i, r) \<in> set (reservations s)" by auto
      then have "isReservation i r" using gateway_inv_entries(1) [OF inv] by fastforce
      from isReservation_facts [OF this] r show ?thesis
        by (intro exI [of _ "token_route.truncate r"])
          (auto simp: routeUsageKeys_def persisted_route_def token_route.defs)
    next
      case sl
      then obtain g where g: "g \<in> set (values_of (groups s))" "sl \<in> set (slots g)" by (auto simp: all_slots_def)
      then have "isGroup g" using gateway_inv_entries(2) [OF inv] by fastforce
      from isGroup_slots_facts(2) [OF this g(2)] sl show ?thesis
        by (intro exI [of _ "token_route.truncate sl"])
          (auto simp: routeUsageKeys_def persisted_route_def token_route.defs isSlot_def isNonNegativeSafeInteger_def)
    qed
  qed
  then obtain r :: token_route where r: "ks = routeUsageKeys r" "persisted_route r" "0 < n" by blast
  show "distinct ks" "0 < n" using r by (simp_all add: route_keys_distinct)
  show "k \<in> set ks \<Longrightarrow> usageKeyKind k \<noteq> None"
    using zip_caps [OF r(2)] r(1) by fastforce
qed

lemma inv_usage_coherent:
  assumes inv: "gateway_inv L s" and L: "limits_ok L"
  shows "usageIsCoherent s"
proof -
  let ?u = "used s"
  have u: "used_pos ?u" "length ?u \<le> MAX_USAGE_KEYS" "\<forall>k \<in> set (keys_of ?u). usageKeyKind k \<noteq> None"
    "sum_kind ?u ProviderUsage = sum_kind ?u ModelUsage" "sum_kind ?u ProviderUsage = sum_kind ?u SessionUsage"
    "\<And>k K. usageKeyKind k = Some K \<Longrightarrow> usedOf ?u k \<le> kind_cap L K"
    using inv unfolding gateway_inv_def usage_inv_def by blast+
  have bound: "sum_kind ?u K \<le> MAX_SAFE_INTEGER" for K
  proof -
    have "sum_kind ?u K \<le> kind_cap L K * int (length ?u)"
      using u(6) usedOf_mem [OF u(1)] limits_okD [OF L, of K] by (intro sum_kind_bound) fastforce+
    also have "\<dots> \<le> kind_cap L K * int MAX_USAGE_KEYS"
      using u(2) limits_okD [OF L, of K] by (intro mult_left_mono) auto
    also have "\<dots> \<le> MAX_SAFE_INTEGER" using L by (cases K) (auto simp: limits_ok_def)
    finally show ?thesis .
  qed
  have "usage_totals ?u (0, 0, 0) = Some (0 + sum_kind ?u ProviderUsage, 0 + sum_kind ?u ModelUsage, 0 + sum_kind ?u SessionUsage)"
    using u(1,3) bound by (intro usage_totals_Some) (force simp: used_pos_def)+
  then have totals: "usage_totals ?u (0, 0, 0) = Some (sum_kind ?u ProviderUsage, sum_kind ?u ModelUsage, sum_kind ?u SessionUsage)"
    by simp
  have held: "holdsAt s k \<le> usedOf ?u k" for k using inv unfolding gateway_inv_def by blast
  have safe: "usedOf ?u k \<le> MAX_SAFE_INTEGER" if "usageKeyKind k \<noteq> None" for k
    using that u(6) limits_okD [OF L] by (meson dual_order.trans not_Some_eq)
  have "\<exists>req. require_all (usage_holds s) [] = Some req \<and> used_pos req \<and>
    (\<forall>k. usedOf req k = usedOf [] k + requiredAt k (usage_holds s))"
  proof (rule require_all_Some)
    show "\<forall>(ks, n) \<in> set (usage_holds s). distinct ks \<and> 0 < n"
      using usage_holds_entries(1,2) [OF inv] by blast
    show "used_pos []" by (simp add: used_pos_def)
    show "\<forall>(ks, n) \<in> set (usage_holds s). \<forall>k \<in> set ks. usedOf [] k + requiredAt k (usage_holds s) \<le> MAX_SAFE_INTEGER"
    proof (intro ballI, clarify)
      fix ks n k assume "(ks, n) \<in> set (usage_holds s)" "k \<in> set ks"
      then have "usageKeyKind k \<noteq> None" using usage_holds_entries(3) [OF inv] by blast
      then show "usedOf [] k + requiredAt k (usage_holds s) \<le> MAX_SAFE_INTEGER"
        using safe [of k] held [of k] by (simp add: usedOf_def requiredAt_holds)
    qed
  qed
  then obtain req where req: "require_all (usage_holds s) [] = Some req" "used_pos req"
    "\<And>k. usedOf req k = holdsAt s k"
    by (auto simp: requiredAt_holds usedOf_def)
  have "map_of ?u k \<noteq> None \<and> isNonNegativeSafeInteger (usedOf ?u k) \<and> n \<le> usedOf ?u k"
    if kn: "(k, n) \<in> set req" for k n
  proof -
    have n: "n = holdsAt s k" "0 < n"
      using usedOf_mem [OF req(2) kn] req(2,3) kn by (force simp: used_pos_def)+
    then have pos: "0 < usedOf ?u k" using held [of k] by simp
    then have some: "map_of ?u k \<noteq> None" by (cases "map_of ?u k") (simp_all add: usedOf_def)
    then have "k \<in> set (keys_of ?u)" by (force dest: map_of_SomeD)
    then have "usedOf ?u k \<le> MAX_SAFE_INTEGER" using u(3) safe by blast
    with pos some held [of k] n show ?thesis
      by (simp add: isNonNegativeSafeInteger_def isSafeInteger_def MAX_SAFE_INTEGER_def)
  qed
  then show ?thesis
    unfolding usageIsCoherent_def totals req(1) using u(4,5) by (auto simp: list_all_iff)
qed

section \<open>The stored state is accepted\<close>

lemma inv_reservations_length:
  assumes inv: "gateway_inv L s"
  shows "length (reservations s) \<le> activeGroupSlots s + length (ordinaryReservations s)"
proof -
  let ?grouped = "filter (\<lambda>r. groupId r \<noteq> None) (values_of (reservations s))"
  have dk: "distinct (keys_of (reservations s))" using inv by (simp add: inv_defs)
  have ids: "map reservationId (values_of (reservations s)) = keys_of (reservations s)"
    using gateway_inv_entries(1) [OF inv] isReservation_facts(1) by auto
  have "distinct (values_of (reservations s))"
    using dk unfolding ids [symmetric] distinct_map by blast
  then have "distinct ?grouped" by (rule distinct_filter)
  then have "length ?grouped = card (set ?grouped)" by (rule distinct_card [symmetric])
  also have "\<dots> \<le> card (set (map slot_reservation (filter slot_active (all_slots s))))"
  proof -
    have "Some ` set ?grouped \<subseteq> set (map slot_reservation (filter slot_active (all_slots s)))"
    proof
      fix x assume "x \<in> Some ` set ?grouped"
      then obtain i r g where r: "x = Some r" "(i, r) \<in> set (reservations s)" "groupId r = Some g" by auto
      then have "map_of (reservations s) i = Some r" using dk by simp
      from linked_slot [OF inv this r(3)] obtain grp sl where
        "map_of (groups s) g = Some grp" "sl \<in> set (slots grp)" "slot_state sl = SlotClaimed"
        "slot_reservation sl = Some r" by blast
      then show "x \<in> set (map slot_reservation (filter slot_active (all_slots s)))"
        using r(1) by (force simp: all_slots_def slot_active_def dest: map_of_SomeD)
    qed
    then have "card (Some ` set ?grouped) \<le> card (set (map slot_reservation (filter slot_active (all_slots s))))"
      by (intro card_mono) auto
    then show ?thesis by (simp add: card_image)
  qed
  also have "\<dots> \<le> activeGroupSlots s"
    unfolding activeGroupSlots_def using card_length [of "map slot_reservation (filter slot_active (all_slots s))"] by simp
  finally have "length ?grouped \<le> activeGroupSlots s" .
  moreover have "length (reservations s) = length (ordinaryReservations s) + length ?grouped"
    using sum_length_filter_compl [of "\<lambda>r. groupId r = None" "values_of (reservations s)"]
    by (simp add: ordinaryReservations_def)
  ultimately show ?thesis by simp
qed

lemma inv_reservations_claim:
  assumes inv: "gateway_inv L s"
  shows "reservations_claim_slots s"
  unfolding reservations_claim_slots_def list_all_iff
proof
  fix r assume "r \<in> set (values_of (reservations s))"
  then obtain i where i: "(i, r) \<in> set (reservations s)" by auto
  moreover have "distinct (keys_of (reservations s))" using inv by (simp add: inv_defs)
  ultimately have m: "map_of (reservations s) i = Some r" by simp
  show "case groupId r of None \<Rightarrow> True
       | Some g \<Rightarrow> (case map_of (groups s) g of None \<Rightarrow> False
            | Some grp \<Rightarrow> (case List.find (\<lambda>sl. Some (slot_id sl) = slotId r) (slots grp) of
                   None \<Rightarrow> False | Some sl \<Rightarrow> slot_state sl = SlotClaimed \<and> slot_reservation sl = Some r))"
  proof (cases "groupId r")
    case (Some g)
    from linked_slot [OF inv m Some] obtain grp sl where
      l: "map_of (groups s) g = Some grp" "sl \<in> set (slots grp)" "slot_state sl = SlotClaimed"
        "slot_reservation sl = Some r" "slotId r = Some (slot_id sl)" by blast
    from find_mem_Some [OF l(2), of "\<lambda>x. Some (slot_id x) = slotId r"] l(5) obtain x where
      x: "List.find (\<lambda>sl. Some (slot_id sl) = slotId r) (slots grp) = Some x" "x \<in> set (slots grp)"
        "slot_id x = slot_id sl" by auto
    then have "x = sl" using gateway_invG(6) [OF inv l(1)] l(2) by (auto simp: distinct_map inj_on_def)
    with x Some l show ?thesis by simp
  qed simp
qed

lemma inv_claimed_active: "gateway_inv L s \<Longrightarrow> claimed_slots_active s"
  unfolding claimed_slots_active_def list_all_iff all_slots_def
  by (fastforce simp: gateway_inv_def link_inv_def slot_linked_def)

lemma inv_isGatewayState:
  assumes inv: "gateway_inv L s" and L: "limits_ok L"
  shows "isGatewayState s"
proof -
  have total: "activeGroupSlots s + length (ordinaryReservations s) \<le> MAX_ACTIVE_RESERVATIONS"
    using inv activeTotal_counts [of s] by (simp add: gateway_inv_def)
  have disj: "\<not> list_ex (\<lambda>i. i \<in> set (keys_of (terminal s))) (keys_of (reservations s))"
    using inv unfolding gateway_inv_def list_ex_iff by blast
  have "length (js_unique (handoffIds s)) = length (handoffIds s)"
    using inv by (simp add: length_js_unique_eq gateway_inv_def)
  moreover have "list_all (\<lambda>(i, grp). isPersistedString i \<and> isGroup grp \<and> group_id grp = i) (groups s)"
    "list_all (\<lambda>(i, r). isReservation i r) (reservations s)"
    "list_all (\<lambda>(i, t). isPersistedString i \<and> isTerminalReservation t) (terminal s)"
    using inv by (auto simp: list_all_iff inv_defs)
  moreover have "length (used s) \<le> MAX_USAGE_KEYS" "length (terminal s) \<le> MAX_TERMINAL_RESERVATIONS"
    "length (groups s) \<le> MAX_ACTIVE_RESERVATIONS"
    using inv by (simp_all add: gateway_inv_def usage_inv_def)
  moreover have "length (reservations s) \<le> MAX_ACTIVE_RESERVATIONS"
    using inv_reservations_length [OF inv] total by simp
  ultimately show ?thesis
    unfolding isGatewayState_def
    using total disj inv_claimed_active [OF inv] inv_reservations_claim [OF inv] inv_usage_coherent [OF inv L]
    by blast
qed

lemma inv_load: "gateway_inv L s \<Longrightarrow> limits_ok L \<Longrightarrow> load_gateway (Some s) = Inr \<lparr>gw_state = s, gw_writes = [], gw_telemetry = []\<rparr>"
  by (simp add: load_gateway_def readGatewayState_def inv_isGatewayState)

end
