(* ===== verification/TokenGatewayBudget.thy ===== *)
theory TokenGatewayBudget
  imports TokenGatewayReload
begin

text \<open>
  The part of the token gate's safety that needs nothing of its callers: no operation, with whatever arguments and in
  whatever order, counts more than a budget. What the gate's full invariant needs beside (\<^theory_text>\<open>TokenGatewayMachine\<close>) is
  that nobody claims a slot that was released, a case the code does not test.
\<close>

section \<open>Usage within the budgets\<close>

definition within_caps :: "token_gateway_limits \<Rightarrow> int dict \<Rightarrow> bool" where
  "within_caps L u \<longleftrightarrow> used_pos u \<and> (\<forall>k K. usageKeyKind k = Some K \<longrightarrow> usedOf u k \<le> kind_cap L K)"

text \<open>What a reservation or a slot may bring back when it is settled.\<close>

definition capped_route :: "token_gateway_limits \<Rightarrow> 'a token_route_scheme \<Rightarrow> int \<Rightarrow> bool" where
  "capped_route L r n \<longleftrightarrow> persisted_route r \<and> (\<forall>K. n \<le> kind_cap L K)"

definition budget_kept :: "token_gateway_limits \<Rightarrow> gateway_state \<Rightarrow> bool" where
  "budget_kept L s \<longleftrightarrow> within_caps L (used s) \<and>
     (\<forall>r \<in> set (values_of (reservations s)). capped_route L r (totalTokens r) \<and> 0 \<le> hold_of r) \<and>
     (\<forall>grp \<in> set (values_of (groups s)). \<forall>sl \<in> set (slots grp). capped_route L sl (holdTokens sl) \<and> 0 \<le> holdTokens sl)"

lemma budget_keptD:
  assumes "budget_kept L s"
  shows "within_caps L (used s)"
    "map_of (reservations s) i = Some r \<Longrightarrow> capped_route L r (totalTokens r) \<and> 0 \<le> hold_of r"
    "map_of (groups s) gid = Some grp \<Longrightarrow> sl \<in> set (slots grp) \<Longrightarrow> capped_route L sl (holdTokens sl) \<and> 0 \<le> holdTokens sl"
  using assms unfolding budget_kept_def by (auto dest!: map_of_SomeD)

lemma empty_budget_kept: "limits_ok L \<Longrightarrow> budget_kept L empty_gateway_state"
  by (simp add: budget_kept_def within_caps_def empty_gateway_state_def used_pos_def usedOf_def limits_okD)

lemma every_cap: "\<forall>(k, cap) \<in> set (zip (routeUsageKeys r) (budget_caps L)). n \<le> cap \<Longrightarrow> n \<le> kind_cap L K"
  by (cases K) (simp_all add: routeUsageKeys_def budget_caps_def kind_cap_def)

lemma zip_kind:
  assumes "persisted_route r" and "(k, cap) \<in> set (zip (routeUsageKeys r) (budget_caps L))"
  obtains K where "usageKeyKind k = Some K" and "cap = kind_cap L K"
proof -
  obtain a b c where keys: "routeUsageKeys r = [a, b, c]" by (simp add: routeUsageKeys_def)
  show thesis
    using route_keys_kinds [OF assms(1)] assms(2) that by (auto simp: keys budget_caps_def kind_cap_def)
qed

lemma within_caps_change:
  assumes "within_caps L u" and "used_pos u'" and "persisted_route r"
    and "\<And>k. k \<notin> set (routeUsageKeys r) \<Longrightarrow> usedOf u' k \<le> usedOf u k"
    and "\<And>k cap. (k, cap) \<in> set (zip (routeUsageKeys r) (budget_caps L)) \<Longrightarrow> usedOf u' k \<le> cap"
  shows "within_caps L u'"
  unfolding within_caps_def
proof (intro conjI allI impI assms(2))
  fix k K assume K: "usageKeyKind k = Some K"
  show "usedOf u' k \<le> kind_cap L K"
  proof (cases "k \<in> set (routeUsageKeys r)")
    case True
    from zip_caps [OF assms(3) True, of L] K assms(5) show ?thesis by auto
  next
    case False
    have "usedOf u k \<le> kind_cap L K" using assms(1) K by (simp add: within_caps_def)
    with assms(4) [OF False] show ?thesis by simp
  qed
qed

lemma within_caps_sub: "within_caps L u \<Longrightarrow> 0 \<le> n \<Longrightarrow> within_caps L (addRouteUsage r (- n) u)"
  unfolding within_caps_def using used_pos_addRoute usedOf_pos
  by (auto simp: usedOf_addRoute) (smt (verit, best))+

lemma within_caps_add:
  assumes u: "within_caps L u" and r: "persisted_route r"
    and fits: "\<And>k cap. (k, cap) \<in> set (zip (routeUsageKeys r) (budget_caps L)) \<Longrightarrow> usedOf u k + n \<le> cap"
  shows "within_caps L (addRouteUsage r n u)" and "0 \<le> usedOf u k" and "n \<le> kind_cap L K"
proof -
  have up: "used_pos u" using u by (simp add: within_caps_def)
  then have ge: "0 \<le> usedOf u k" for k by (rule usedOf_pos)
  show "0 \<le> usedOf u k" by (rule ge)
  have keys: "(k, cap) \<in> set (zip (routeUsageKeys r) (budget_caps L)) \<Longrightarrow> k \<in> set (routeUsageKeys r)" for k cap
    by (rule set_zip_leftD)
  have cap: "0 \<le> cap" if z: "(k, cap) \<in> set (zip (routeUsageKeys r) (budget_caps L))" for k cap
  proof -
    obtain K where "usageKeyKind k = Some K" "cap = kind_cap L K" using zip_kind [OF r z] by blast
    moreover from this have "usedOf u k \<le> cap" using u by (simp add: within_caps_def)
    ultimately show ?thesis using ge [of k] by linarith
  qed
  show "within_caps L (addRouteUsage r n u)"
    by (rule within_caps_change [OF u used_pos_addRoute [OF up] r])
      (use fits cap keys in \<open>auto simp: usedOf_addRoute up max_def\<close>)
  have "\<forall>(k, cap) \<in> set (zip (routeUsageKeys r) (budget_caps L)). n \<le> cap"
  proof clarify
    fix k cap assume "(k, cap) \<in> set (zip (routeUsageKeys r) (budget_caps L))"
    from fits [OF this] ge [of k] show "n \<le> cap" by linarith
  qed
  then show "n \<le> kind_cap L K" by (rule every_cap)
qed

section \<open>The operations\<close>

lemma budget_kept_fields:
  assumes "budget_kept L s" and "within_caps L u" and "set (values_of rs) \<subseteq> set (values_of (reservations s))"
  shows "budget_kept L (s\<lparr>used := u, reservations := rs, terminal := t\<rparr>)"
  unfolding budget_kept_def
proof (intro conjI ballI)
  fix r assume "r \<in> set (values_of (reservations (s\<lparr>used := u, reservations := rs, terminal := t\<rparr>)))"
  then have "r \<in> set (values_of (reservations s))" using assms(3) by auto
  then show "capped_route L r (totalTokens r)" "0 \<le> hold_of r" using assms(1) unfolding budget_kept_def by blast+
qed (use assms(1,2) in \<open>auto simp: budget_kept_def\<close>)

lemma values_delete: "set (values_of (AList.delete k d)) \<subseteq> set (values_of d)"
  by (auto simp: AList.delete_eq)

lemma budget_kept_group:
  assumes "budget_kept L s" and "\<forall>sl \<in> set (slots grp). capped_route L sl (holdTokens sl) \<and> 0 \<le> holdTokens sl"
  shows "budget_kept L (s\<lparr>groups := AList.update gid grp (groups s)\<rparr>)"
  using assms unfolding budget_kept_def by (force dest: in_values_update)

lemma budget_kept_slot_state:
  assumes "budget_kept L s"
  shows "budget_kept L (updateGroupSlot r st s)"
proof -
  have capped: "capped_route L (sl\<lparr>slot_state := st\<rparr>) n = capped_route L sl n" for sl :: token_slot and n
    by (simp add: capped_route_def persisted_route_def)
  show ?thesis
    unfolding updateGroupSlot_def
    using assms budget_keptD(3) [OF assms] by (auto split: option.split simp: capped intro!: budget_kept_group)
qed

lemma budget_kept_prune: "budget_kept L (pruneTerminal s) = budget_kept L s"
  by (simp add: budget_kept_def)

lemma budget_kept_retire:
  assumes "budget_kept L s" and "within_caps L u"
  shows "budget_kept L (retire r st u entry s)"
  unfolding retire_def budget_kept_prune
  by (intro budget_kept_slot_state budget_kept_fields assms values_delete)

lemma settled_within_caps:
  assumes s: "budget_kept L s" and r: "capped_route L r (totalTokens r)" "0 \<le> hold_of r" and n: "n \<le> totalTokens r"
    and ok: "\<not> list_ex (\<lambda>(k, cap). usedOf (used s) k - hold_of r + n > cap) (zip (routeUsageKeys r) (budget_caps L))"
  shows "within_caps L (addRouteUsage r n (addRouteUsage r (- hold_of r) (used s)))"
proof (rule within_caps_add(1))
  show u: "within_caps L (addRouteUsage r (- hold_of r) (used s))"
    using budget_keptD(1) [OF s] r(2) by (rule within_caps_sub)
  show p: "persisted_route r" using r(1) by (simp add: capped_route_def)
  have up: "used_pos (used s)" using budget_keptD(1) [OF s] by (simp add: within_caps_def)
  fix k cap assume z: "(k, cap) \<in> set (zip (routeUsageKeys r) (budget_caps L))"
  obtain K where "cap = kind_cap L K" using zip_kind [OF p z] by blast
  then have "n \<le> cap" using r(1) n order_trans by (auto simp: capped_route_def)
  moreover have "usedOf (used s) k - hold_of r + n \<le> cap" using ok z by (auto simp: list_ex_iff not_less)
  ultimately show "usedOf (addRouteUsage r (- hold_of r) (used s)) k + n \<le> cap"
    using set_zip_leftD [OF z] by (simp add: usedOf_addRoute up max_def)
qed

lemma budget_kept_settle: "budget_kept L (gw_state g) \<Longrightarrow> budget_kept L (gw_state (fst (settle L fits now r usage g)))"
proof -
  assume k: "budget_kept L (gw_state g)"
  show ?thesis
  proof (cases "map_of (reservations (gw_state g)) (reservationId r)")
    case None
    with k show ?thesis by (simp add: settle_def Let_def)
  next
    case (Some active)
    note a = budget_keptD(2) [OF k Some]
    show ?thesis
      using k settled_within_caps [OF k, of active "safeCount (usage_inputTokens usage) + safeCount (usage_outputTokens usage)"] a
      by (auto simp: settle_def Let_def persist_def Some not_less budget_kept_prune
          intro!: budget_kept_slot_state budget_kept_fields values_delete simp del: list_ex_iff)
  qed
qed

lemma budget_kept_release: "budget_kept L (gw_state g) \<Longrightarrow> budget_kept L (gw_state (fst (release fits now r g)))"
proof -
  assume k: "budget_kept L (gw_state g)"
  show ?thesis
  proof (cases "map_of (reservations (gw_state g)) (reservationId r)")
    case None
    with k show ?thesis by (simp add: release_def Let_def)
  next
    case (Some active)
    with k show ?thesis
      using within_caps_sub [OF budget_keptD(1) [OF k]] budget_keptD(2) [OF k Some]
      by (auto simp: release_def Let_def persist_def budget_kept_prune
          intro!: budget_kept_slot_state budget_kept_fields values_delete)
  qed
qed

lemma budget_kept_reserve: "budget_kept L (gw_state g) \<Longrightarrow> budget_kept L (gw_state (fst (reserve L fits rid now input g)))"
proof -
  assume k: "budget_kept L (gw_state g)"
  obtain g' res where out: "reserve L fits rid now input g = (g', res)" by fastforce
  then show ?thesis
  proof (cases rule: reserve_state)
    case (reserved request)
    let ?n = "inputTokens request + outputTokens request"
    have "usedOf (used (gw_state g)) i + ?n \<le> cap"
      if "(i, cap) \<in> set (zip (routeUsageKeys request) (budget_caps L))" for i cap
      using budget_exceededD [OF reserved(5) that] .
    note add = within_caps_add [OF budget_keptD(1) [OF k], of request ?n, OF _ this]
    have p: "persisted_route request" by (simp add: reserved(1) normalizeRequest_route)
    have new: "capped_route L (new_reservation request rid now) ?n" "0 \<le> hold_of (new_reservation request rid now)"
      using p add(3) by (simp_all add: capped_route_def persisted_route_def hold_of_def reserved(1))
    show ?thesis
      using k new add(1) [OF p] unfolding out fst_conv reserved(8) budget_kept_def
      by (auto dest!: in_values_update)
  qed (use k out in simp)
qed

lemma budget_kept_claim: "budget_kept L (gw_state g) \<Longrightarrow> budget_kept L (gw_state (fst (claimGroupSlot L fits rid now gid sid input g)))"
proof -
  assume k: "budget_kept L (gw_state g)"
  obtain g' res where out: "claimGroupSlot L fits rid now gid sid input g = (g', res)" by fastforce
  then show ?thesis
  proof (cases rule: claim_state)
    case (claimed grp index request r)
    let ?sl = "slots grp ! index"
    have mem: "?sl \<in> set (slots grp)" using findIndex_Some [OF claimed(3)] by simp
    note sl = budget_keptD(3) [OF k claimed(2) mem]
    have new: "capped_route L r (totalTokens r)" "0 \<le> hold_of r"
      using sl claimed(5) order_trans
      by (auto simp: claimed(7) capped_route_def persisted_route_def hold_of_def claimed(1) normalizeRequest_route
          [unfolded persisted_route_def])
    have "budget_kept L ((gw_state g)\<lparr>reservations := AList.update (reservationId r) r (reservations (gw_state g))\<rparr>)"
      using k new unfolding budget_kept_def by (auto dest!: in_values_update)
    moreover have "capped_route L (?sl\<lparr>slot_state := st, slot_reservation := q\<rparr>) n = capped_route L ?sl n" for st q n
      by (simp add: capped_route_def persisted_route_def)
    moreover from this have "\<forall>x \<in> set ((slots grp)[index := ?sl\<lparr>slot_state := SlotClaimed, slot_reservation := Some r\<rparr>]).
        capped_route L x (holdTokens x) \<and> 0 \<le> holdTokens x"
      using budget_keptD(3) [OF k claimed(2)] sl by (auto dest!: set_update_subset_insert [THEN subsetD])
    ultimately show ?thesis
      unfolding out fst_conv claimed(8) claim_effect_def
      using budget_kept_group [of L "(gw_state g)\<lparr>reservations := AList.update (reservationId r) r (reservations (gw_state g))\<rparr>"] by simp
  qed (use k out in simp)
qed

lemma held_slots:
  assumes "hold_slots L sls u m = Inr (u', m')" and "within_caps L u" and "\<forall>sl \<in> set sls. slot_request_ok sl"
  shows "within_caps L u' \<and> (\<forall>sl \<in> set sls. capped_route L sl (holdTokens sl) \<and> 0 \<le> holdTokens sl)"
  using assms
proof (induction sls arbitrary: u m)
  case (Cons sl sls)
  from Cons.prems(1) obtain v where
    v: "hold_keys (zip (routeUsageKeys sl) (budget_caps L)) (holdTokens sl) u = Inr v"
      "hold_slots L sls v (m + holdTokens sl) = Inr (u', m')"
    by (auto simp: Let_def split: if_splits sum.splits)
  have r: "persisted_route sl" and h: "0 < holdTokens sl"
    using Cons.prems(3) by (auto simp: slot_request_ok_def isNonNegativeSafeInteger_def)
  have up: "used_pos u" using Cons.prems(2) by (simp add: within_caps_def)
  have keys: "map fst (zip (routeUsageKeys sl) (budget_caps L)) = routeUsageKeys sl" by (simp add: budget_caps_def)
  note hk = hold_keys_Inr [OF v(1) up h, unfolded keys, OF route_keys_distinct]
  have eq: "v = addRouteUsage sl (holdTokens sl) u" using hk by (simp add: addRouteUsage_def)
  have fits: "(k, cap) \<in> set (zip (routeUsageKeys sl) (budget_caps L)) \<Longrightarrow> usedOf u k + holdTokens sl \<le> cap" for k cap
    using hk by auto
  note add = within_caps_add [OF Cons.prems(2) r fits]
  from Cons.IH [OF v(2)] add(1,3) Cons.prems(3) r h show ?case by (auto simp: eq capped_route_def)
qed simp

lemma budget_kept_reserve_group: "budget_kept L (gw_state g) \<Longrightarrow> budget_kept L (gw_state (fst (reserveGroup L fits spec g)))"
proof -
  assume k: "budget_kept L (gw_state g)"
  obtain g' res where out: "reserveGroup L fits spec g = (g', res)" by fastforce
  then show ?thesis
  proof (cases rule: reserveGroup_state)
    case (reserved u m)
    note held = held_slots [OF reserved(6) budget_keptD(1) [OF k] normalizeGroup_ok(3) [OF reserved(1)]]
    have "capped_route L (new_slot sl) n = capped_route L sl n" for sl n
      by (simp add: capped_route_def persisted_route_def)
    then have "\<forall>sl \<in> set (slots (new_group spec m)). capped_route L sl (holdTokens sl) \<and> 0 \<le> holdTokens sl"
      using held by auto
    moreover have "budget_kept L ((gw_state g)\<lparr>used := u\<rparr>)" using k held by (simp add: budget_kept_def)
    ultimately show ?thesis using budget_kept_group [of L "(gw_state g)\<lparr>used := u\<rparr>"] by (simp add: out reserved(8))
  qed (use k out in simp)
qed

lemma budget_kept_loop:
  assumes "release_slots fits now requested sls g = (g', res)" and "budget_kept L (gw_state g)"
    and "\<forall>sl \<in> set sls. capped_route L sl (holdTokens sl) \<and> 0 \<le> holdTokens sl"
  shows "budget_kept L (gw_state g') \<and>
    (\<forall>sls'. res = Inr sls' \<longrightarrow> (\<forall>sl \<in> set sls'. capped_route L sl (holdTokens sl) \<and> 0 \<le> holdTokens sl))"
  using assms
proof (induction sls arbitrary: g res)
  case (Cons sl sls)
  define head where "head = (if slot_id sl \<notin> set requested \<or> slot_state sl = SlotReleased \<or> slot_state sl = SlotSettled
         then (g, Inr sl)
         else case (slot_state sl, slot_reservation sl) of
             (SlotClaimed, Some r) \<Rightarrow>
               (case release fits now r g of
                  (g', Inl e) \<Rightarrow> (g', Inl e)
                | (g', Inr _) \<Rightarrow> (g', Inr (sl\<lparr>slot_state := SlotReleased\<rparr>)))
           | _ \<Rightarrow>
               (g\<lparr>gw_state := (gw_state g)\<lparr>used := addRouteUsage sl (- holdTokens sl) (used (gw_state g))\<rparr>\<rparr>,
                Inr (sl\<lparr>slot_state := SlotReleased\<rparr>)))"
  obtain g1 r1 where h: "head = (g1, r1)" by (cases head)
  let ?ok = "\<lambda>x. capped_route L x (holdTokens x) \<and> 0 \<le> holdTokens x"
  have capped: "?ok (sl\<lparr>slot_state := SlotReleased\<rparr>)" using Cons.prems(3) by (simp add: capped_route_def persisted_route_def)
  have rel: "release fits now r g = (g2, r2) \<Longrightarrow> budget_kept L (gw_state g2)" for r g2 r2
    using budget_kept_release [OF Cons.prems(2), of fits now r] by simp
  have given: "budget_kept L ((gw_state g)\<lparr>used := addRouteUsage sl (- holdTokens sl) (used (gw_state g))\<rparr>)"
    using Cons.prems(2,3) within_caps_sub by (auto simp: budget_kept_def)
  have head_kept: "budget_kept L (gw_state g1) \<and> (\<forall>x. r1 = Inr x \<longrightarrow> ?ok x)"
    using h Cons.prems(2,3) capped given unfolding head_def
    by (cases "slot_state sl"; cases "slot_reservation sl") (auto split: if_splits prod.splits sum.splits dest: rel)
  moreover have rest: "case r1 of Inl e \<Rightarrow> g' = g1 \<and> res = Inl e
      | Inr x \<Rightarrow> (\<exists>r2. release_slots fits now requested sls g1 = (g', r2) \<and>
          res = (case r2 of Inl e \<Rightarrow> Inl e | Inr xs \<Rightarrow> Inr (x # xs)))"
    using Cons.prems(1) unfolding release_slots.simps head_def [symmetric] h
    by (auto simp: Let_def split: prod.splits sum.splits)
  moreover have later: "budget_kept L (gw_state g') \<and> (\<forall>sls'. r2 = Inr sls' \<longrightarrow> (\<forall>sl \<in> set sls'. ?ok sl))"
    if "release_slots fits now requested sls g1 = (g', r2)" "budget_kept L (gw_state g1)" for r2
    using Cons.IH [OF that] Cons.prems(3) by simp
  ultimately show ?case
  proof (cases r1)
    case (Inr x)
    with rest obtain r2 where r2: "release_slots fits now requested sls g1 = (g', r2)"
      "res = (case r2 of Inl e \<Rightarrow> Inl e | Inr xs \<Rightarrow> Inr (x # xs))" by auto
    have "budget_kept L (gw_state g1)" "?ok x" using head_kept Inr by auto
    from later [OF r2(1) this(1)] this(2) show ?thesis unfolding r2(2) by (cases r2) auto
  qed (use head_kept in simp)
qed simp

lemma budget_kept_release_group:
  "budget_kept L (gw_state g) \<Longrightarrow> budget_kept L (gw_state (fst (releaseGroupSlots fits now gid ids g)))"
proof -
  assume k: "budget_kept L (gw_state g)"
  show ?thesis
  proof (cases "map_of (groups (gw_state g)) gid")
    case None
    with k show ?thesis by (simp add: releaseGroupSlots_def)
  next
    case (Some grp)
    obtain g1 r1 where loop: "release_slots fits now ids (slots grp) g = (g1, r1)" by fastforce
    have "\<forall>sl \<in> set (slots grp). capped_route L sl (holdTokens sl) \<and> 0 \<le> holdTokens sl"
      using budget_keptD(3) [OF k Some] by blast
    from budget_kept_loop [OF loop k this] k show ?thesis
      by (auto simp: releaseGroupSlots_def Let_def persist_def Some loop split: sum.split intro!: budget_kept_group)
  qed
qed

lemma budget_kept_exec: "budget_kept L (gw_state g) \<Longrightarrow> budget_kept L (gw_state (gateway_exec L fits op g))"
proof (cases op)
  case (OpAcknowledge rid)
  assume "budget_kept L (gw_state g)"
  then show ?thesis
    by (simp add: OpAcknowledge acknowledgeTerminal_def persist_def Let_def budget_kept_def)
qed (simp_all add: budget_kept_reserve budget_kept_reserve_group budget_kept_claim budget_kept_settle budget_kept_release
    budget_kept_release_group)

interpretation token_budget: invariant_machine "gateway_exec L fits" "\<lambda>g. budget_kept L (gw_state g)" for L fits
  by unfold_locales (rule budget_kept_exec)

end
