(* ===== verification/TokenGatewayProps.thy ===== *)
theory TokenGatewayProps
  imports TokenGatewayBudget
begin

text \<open>
  The properties of the token gate, over its operations and over every run of them.
\<close>

section \<open>Lemmas on the outcomes\<close>

definition fresh_gateway :: gateway where
  "fresh_gateway = \<lparr>gw_state = empty_gateway_state, gw_writes = [], gw_telemetry = []\<rparr>"

definition gateway_run :: "token_gateway_limits \<Rightarrow> (gateway_state \<Rightarrow> bool) \<Rightarrow> gateway_op list \<Rightarrow> gateway" where
  "gateway_run L fits ops = fold (gateway_exec L fits) ops fresh_gateway"

text \<open>A run in which every operation meets a gate that admits it.\<close>

fun admissible_run :: "token_gateway_limits \<Rightarrow> (gateway_state \<Rightarrow> bool) \<Rightarrow> gateway_op list \<Rightarrow> gateway \<Rightarrow> bool" where
  "admissible_run L fits [] g \<longleftrightarrow> True"
| "admissible_run L fits (op # ops) g \<longleftrightarrow> admissible fits op g \<and> admissible_run L fits ops (gateway_exec L fits op g)"

lemma admissible_steps: "admissible_run L fits ops g \<Longrightarrow> fold (gateway_exec L fits) ops g = fold (gateway_step L fits) ops g"
  by (induction ops arbitrary: g) (simp_all add: gateway_step_def)

lemma gateway_run_safe: "limits_ok L \<Longrightarrow> admissible_run L fits ops fresh_gateway \<Longrightarrow> gateway_safe L (gateway_run L fits ops)"
  unfolding gateway_run_def by (simp only: admissible_steps) (intro token_gate.run_inv fresh_gateway_safe [folded fresh_gateway_def])

lemma gateway_run_inv:
  "limits_ok L \<Longrightarrow> admissible_run L fits ops fresh_gateway \<Longrightarrow> gateway_inv L (gw_state (gateway_run L fits ops))"
  using gateway_run_safe by (simp add: gateway_safe_def)

lemma gateway_run_budget: "limits_ok L \<Longrightarrow> budget_kept L (gw_state (gateway_run L fits ops))"
  unfolding gateway_run_def by (rule token_budget.run_inv) (simp add: fresh_gateway_def empty_budget_kept)

lemma settle_outcome:
  assumes inv: "gateway_inv L (gw_state g)"
    and r: "map_of (reservations (gw_state g)) (reservationId r) = Some r"
    and caps: "safeCount (usage_inputTokens usage) \<le> inputCapTokens L"
      "safeCount (usage_outputTokens usage) \<le> outputCapTokens L"
    and amt: "usage_total usage \<le> totalTokens r"
  shows "gw_state (fst (settle L fits now r usage g)) = settle_effect r usage now (gw_state g)"
    and "snd (settle L fits now r usage g) =
      (if fits (settle_effect r usage now (gw_state g)) then Inr (terminal_settlement (settled_entry usage now))
       else Inl (GatewayError ''token_gateway_state_limit''))"
proof -
  have usage: "usage_inv L (used (gw_state g))" using inv by (simp add: gateway_inv_def)
  note facts = isReservation_facts [OF gateway_invD(1) [OF inv r]]
  have "\<not> list_ex (\<lambda>(k, cap). usedOf (used (gw_state g)) k - hold_of r +
      (safeCount (usage_inputTokens usage) + safeCount (usage_outputTokens usage)) > cap)
      (zip (routeUsageKeys r) (budget_caps L))"
  proof -
    have "usedOf (used (gw_state g)) k - hold_of r + usage_total usage \<le> cap"
      if z: "(k, cap) \<in> set (zip (routeUsageKeys r) (budget_caps L))" for k cap
    proof -
      obtain a b c where keys: "routeUsageKeys r = [a, b, c]" by (simp add: routeUsageKeys_def)
      from z obtain K where "usageKeyKind k = Some K" "cap = kind_cap L K"
        using route_keys_kinds [OF facts(2)] by (auto simp: keys budget_caps_def kind_cap_def)
      then have "usedOf (used (gw_state g)) k \<le> cap" using usage by (simp add: usage_inv_def)
      then show ?thesis using amt facts(6) by simp
    qed
    then show ?thesis by (force simp: list_ex_iff usage_total_def)
  qed
  with r caps amt show "gw_state (fst (settle L fits now r usage g)) = settle_effect r usage now (gw_state g)"
    and "snd (settle L fits now r usage g) =
      (if fits (settle_effect r usage now (gw_state g)) then Inr (terminal_settlement (settled_entry usage now))
       else Inl (GatewayError ''token_gateway_state_limit''))"
    by (simp_all add: settle_def Let_def same_route_def persist_def settle_effect_def retire_def
        settled_entry_def usage_total_def del: list_ex_iff)
qed

lemma map_of_delete_self: "map_of (AList.delete k d) k = None"
  by (simp add: delete_conv')

lemma in_dom_update: "k \<in> dom (map_of d) \<Longrightarrow> k \<in> dom (map_of (AList.update j v d))"
  by (simp add: update_conv')

text \<open>No operation removes a group.\<close>

lemma groups_kept_release: "dom (map_of (groups (gw_state g))) \<subseteq> dom (map_of (groups (gw_state (fst (release fits now r g)))))"
  by (auto simp: release_def Let_def persist_def updateGroupSlot_def update_conv' split: option.splits if_splits)

lemma groups_kept_loop:
  "release_slots fits now requested sls g = (g', res) \<Longrightarrow>
   dom (map_of (groups (gw_state g))) \<subseteq> dom (map_of (groups (gw_state g')))"
proof (induction sls arbitrary: g res)
  case (Cons sl sls)
  define head where "head = (if slot_id sl \<notin> set requested \<or> slot_state sl = SlotReleased \<or> slot_state sl = SlotSettled
         then (g, Inr sl)
         else case (slot_state sl, slot_reservation sl) of
             (SlotClaimed, Some r) \<Rightarrow>
               (case release fits now r g of
                  (g', Inl e) \<Rightarrow> (g', Inl e)
                | (g', Inr _) \<Rightarrow> (g', Inr (sl\<lparr>slot_state := SlotReleased\<rparr>)))
           | _ \<Rightarrow>
               (g\<lparr>gw_state := (gw_state g)\<lparr>used := addRouteUsage sl (- holdTokens sl) (used (gw_state g))\<rparr>\<rparr>,
                Inr (sl\<lparr>slot_state := SlotReleased\<rparr>)))"
  obtain g1 r1 where h: "head = (g1, r1)" by (cases head)
  have rel: "x \<in> dom (map_of (groups (gw_state g))) \<Longrightarrow> release fits now r g = (g2, r2) \<Longrightarrow>
      x \<in> dom (map_of (groups (gw_state g2)))" for x r g2 r2
    using groups_kept_release [of g fits now r] by auto
  have "dom (map_of (groups (gw_state g))) \<subseteq> dom (map_of (groups (gw_state g1)))"
    using h rel unfolding head_def
    by (cases "slot_state sl"; cases "slot_reservation sl") (auto split: if_splits prod.splits sum.splits dest: rel [OF domI])
  moreover have "g' = g1 \<or> (\<exists>r2. release_slots fits now requested sls g1 = (g', r2))"
    using Cons.prems unfolding release_slots.simps head_def [symmetric] h
    by (cases r1) (auto simp: Let_def split: prod.splits sum.splits)
  ultimately show ?case using Cons.IH by blast
qed simp

lemma groups_kept_persist: "gw_state (fst (persist fits g)) = gw_state g" by simp

lemma groups_kept_exec:
  "dom (map_of (groups (gw_state g))) \<subseteq> dom (map_of (groups (gw_state (gateway_exec L fits op g))))"
proof (cases op)
  case (OpReserve rid now input)
  show ?thesis
    by (auto simp: OpReserve reserve_def refuse_def persist_def Let_def split: option.splits)
next
  case (OpReserveGroup spec)
  show ?thesis
    by (auto simp: OpReserveGroup reserveGroup_def persist_def Let_def update_conv'
        split: option.splits sum.splits prod.splits)
next
  case (OpClaim rid now gid sid input)
  obtain g' res where out: "claimGroupSlot L fits rid now gid sid input g = (g', res)" by fastforce
  then show ?thesis
    by (cases rule: claim_state) (auto simp: OpClaim out claim_effect_def update_conv')
next
  case (OpSettle now r usage)
  show ?thesis
    by (auto simp: OpSettle settle_def Let_def persist_def updateGroupSlot_def update_conv' split: option.splits if_splits)
next
  case (OpRelease now r)
  show ?thesis using groups_kept_release by (simp add: OpRelease)
next
  case (OpReleaseGroup now gid ids)
  show ?thesis
  proof (cases "map_of (groups (gw_state g)) gid")
    case (Some grp)
    obtain g1 r1 where loop: "release_slots fits now ids (slots grp) g = (g1, r1)" by fastforce
    show ?thesis
      using groups_kept_loop [OF loop] loop Some
      by (auto simp: OpReleaseGroup releaseGroupSlots_def Let_def persist_def update_conv' split: sum.splits)
  qed (simp add: OpReleaseGroup releaseGroupSlots_def)
next
  case (OpAcknowledge rid)
  show ?thesis by (simp add: OpAcknowledge acknowledgeTerminal_def persist_def Let_def)
qed

lemma groups_kept_run: "dom (map_of (groups (gw_state g))) \<subseteq> dom (map_of (groups (gw_state (fold (gateway_exec L fits) ops g))))"
proof (induction ops arbitrary: g)
  case (Cons op ops)
  show ?case using groups_kept_exec [of g L fits op] Cons.IH [of "gateway_exec L fits op g"] by simp
qed simp

lemma length_dict_dom: "card (dom (map_of d)) \<le> length d"
proof -
  have "dom (map_of d) = set (keys_of d)" by (simp add: dom_map_of_conv_image_fst)
  then show ?thesis using card_length [of "keys_of d"] by simp
qed

lemma reserve_Inr_active:
  assumes "reserve L fits rid now input g = (g', Inr r)"
  shows "r \<in> set (values_of (reservations (gw_state g')))"
proof -
  define request where "request = normalizeRequest input"
  define existing where "existing = (case handoffId request of None \<Rightarrow> None
            | Some h \<Rightarrow> List.find (\<lambda>r. handoffId r = Some h) (values_of (reservations (gw_state g))))"
  note defs = reserve_def Let_def request_def [symmetric] existing_def [symmetric]
  show ?thesis
  proof (cases existing)
    case (Some e)
    then have "e \<in> set (values_of (reservations (gw_state g)))"
      unfolding existing_def by (cases "handoffId request") (auto dest: find_SomeD)
    with Some assms show ?thesis by (auto simp: defs split: if_splits)
  next
    case None
    have ext: "token_request.extend request (token_reservation.fields rid now
        (inputTokens request + outputTokens request) None None None) = new_reservation request rid now"
      by (simp add: new_reservation_def)
    have mem: "x \<in> snd ` set (AList.update k x d)" for x k and d :: "token_reservation dict"
      by (induction d) auto
    from None assms show ?thesis
      by (auto simp: defs ext persist_def refuse_def mem split: if_splits)
  qed
qed

lemma reserve_new:
  assumes ok: "gateway_inv L (gw_state g)" and L: "limits_ok L" and now: "canonical_stamp now"
    and fresh: "fresh_id (gw_state g) rid" and out: "reserve L fits rid now input g = (g', Inr r)"
    and id: "reservationId r = rid"
  shows "map_of (reservations (gw_state g')) rid = Some r" and "hold_of r = totalTokens r"
    and "groupId r = None" and "gateway_inv L (gw_state g')"
    and "usedOf (used (gw_state g')) k =
      usedOf (used (gw_state g)) k + (if k \<in> set (routeUsageKeys r) then totalTokens r else 0)"
    and "reservations (gw_state g') = AList.update rid r (reservations (gw_state g))"
    and "terminal (gw_state g') = terminal (gw_state g)" "groups (gw_state g') = groups (gw_state g)"
proof -
  have "gateway_safe L (gateway_step L fits (OpReserve rid now input) g)"
    using ok L by (intro gateway_step_safe) (simp add: gateway_safe_def)
  then show "gateway_inv L (gw_state g')"
    using fresh now out by (simp add: gateway_safe_def gateway_step_def)
  have "\<exists>request. r = new_reservation request rid now \<and> request = normalizeRequest input \<and> gw_state g' = (gw_state g)\<lparr>
         reservations := AList.update rid (new_reservation request rid now) (reservations (gw_state g)),
         used := addRouteUsage request (inputTokens request + outputTokens request) (used (gw_state g))\<rparr>"
  proof (cases rule: reserve_state [OF out])
    case 1
    then obtain i where i: "(i, r) \<in> set (reservations (gw_state g))"
      using reserve_Inr_active [OF out] by auto
    have "isReservation i r" using gateway_inv_entries(1) [OF ok i] by simp
    from isReservation_facts(1) [OF this] i id fresh show ?thesis by (force simp: fresh_id_def)
  qed auto
  then obtain request where request: "r = new_reservation request rid now" "request = normalizeRequest input"
    "gw_state g' = (gw_state g)\<lparr>
         reservations := AList.update rid (new_reservation request rid now) (reservations (gw_state g)),
         used := addRouteUsage request (inputTokens request + outputTokens request) (used (gw_state g))\<rparr>"
    by blast
  have up: "used_pos (used (gw_state g))" using ok by (simp add: gateway_inv_def usage_inv_def)
  show "map_of (reservations (gw_state g')) rid = Some r" "hold_of r = totalTokens r" "groupId r = None"
    "reservations (gw_state g') = AList.update rid r (reservations (gw_state g))"
    "terminal (gw_state g') = terminal (gw_state g)" "groups (gw_state g') = groups (gw_state g)"
    by (simp_all add: request(1,3) update_conv' hold_of_def)
  show "usedOf (used (gw_state g')) k =
      usedOf (used (gw_state g)) k + (if k \<in> set (routeUsageKeys r) then totalTokens r else 0)"
    using usedOf_pos [OF up, of k] by (simp add: request usedOf_addRoute [OF up])
qed

lemma find_handoff_unique:
  assumes "distinct (concat (map (\<lambda>r. case handoffId r of None \<Rightarrow> [] | Some h \<Rightarrow> [h]) rs))"
    and "e \<in> set rs" and "handoffId e = Some h"
  shows "List.find (\<lambda>r. handoffId r = Some h) rs = Some e"
  using assms by (induction rs) (force split: option.splits)+

section \<open>What the loader demands of the usage\<close>

lemma require_keys_sum:
  "require_keys ks n req = Some req' \<Longrightarrow> distinct ks \<Longrightarrow>
   usedOf req' k = usedOf req k + (if k \<in> set ks then n else 0)"
  by (induction ks arbitrary: req) (auto simp: Let_def usedOf_update split: if_splits)

lemma require_all_sum:
  "require_all hs req = Some req' \<Longrightarrow> \<forall>(ks, n) \<in> set hs. distinct ks \<Longrightarrow>
   usedOf req' k = usedOf req k + requiredAt k hs"
proof (induction hs arbitrary: req)
  case (Cons h hs)
  obtain ks n where h: "h = (ks, n)" by (cases h)
  from Cons.prems(1) obtain r where r: "require_keys ks n req = Some r" "require_all hs r = Some req'"
    by (auto simp: h split: option.splits)
  have "distinct ks" using Cons.prems(2) by (simp add: h)
  from require_keys_sum [OF r(1) this, of k] Cons.IH [OF r(2)] Cons.prems(2) show ?case by (simp add: h requiredAt_def)
qed (simp add: requiredAt_def)

lemma coherent_covers:
  assumes "usageIsCoherent s" and "0 < holdsAt s k"
  shows "holdsAt s k \<le> usedOf (used s) k"
proof -
  from assms(1) obtain req where req: "require_all (usage_holds s) [] = Some req"
    and all: "\<forall>(k, minimum) \<in> set req. minimum \<le> usedOf (used s) k"
    by (auto simp: usageIsCoherent_def list_all_iff split: option.splits)
  have "\<forall>(ks, n) \<in> set (usage_holds s). distinct ks" by (auto simp: usage_holds_def route_keys_distinct)
  from require_all_sum [OF req this, of k] have "usedOf req k = holdsAt s k" by (simp add: requiredAt_holds usedOf_def)
  with assms(2) have "map_of req k = Some (holdsAt s k)" by (auto simp: usedOf_def split: option.splits)
  with all show ?thesis by (auto dest: map_of_SomeD)
qed

lemma refused_when_uncounted:
  "0 < holdsAt s k \<Longrightarrow> usedOf (used s) k < holdsAt s k \<Longrightarrow>
   load_gateway (Some s) = Inl (GatewayError ''invalid_token_gateway_state'')"
  using coherent_covers [of s k] by (auto simp: load_gateway_def readGatewayState_def isGatewayState_def)

lemma sum_list_replaced: "i < length xs \<Longrightarrow> sum_list (map f (xs[i := y])) = sum_list (map f xs) - f (xs ! i) + f y"
  for f :: "'a \<Rightarrow> int"
  by (induction xs arbitrary: i) (auto split: nat.splits)

lemma holds_claimed_released:
  assumes inv: "gateway_inv L s" and fresh: "fresh_id s rid" and grp: "map_of (groups s) gid = Some grp"
    and i: "findIndex (\<lambda>sl. slot_id sl = sid) (slots grp) = Some index"
    and st: "slot_state (slots grp ! index) = SlotReleased" and k: "k \<in> set (routeUsageKeys (slots grp ! index))"
  shows "holdsAt (claim_effect gid grp index (claimed_reservation request rid now gid sid hold) s) k =
    holdsAt s k + holdTokens (slots grp ! index)"
proof -
  let ?r = "claimed_reservation request rid now gid sid hold"
  let ?sls = "(slots grp)[index := (slots grp ! index)\<lparr>slot_state := SlotClaimed, slot_reservation := Some ?r\<rparr>]"
  have dg: "distinct (keys_of (groups s))" using inv by (simp add: inv_defs)
  have "sum_list (map (ordHold k) (AList.update rid ?r (reservations s))) = sum_list (map (ordHold k) (reservations s))"
    using fresh by (simp add: update_fresh fresh_id_def ordHold_def)
  moreover have "slotsHold k ?sls = slotsHold k (slots grp) + holdTokens (slots grp ! index)"
    using findIndex_Some [OF i] k st
    by (simp add: slotsHold_def sum_list_replaced) (simp add: slotHold_def slot_active_def routeUsageKeys_def)
  ultimately show ?thesis
    by (simp add: claim_effect_def holdsAt_def sum_update_old [OF dg grp]) (simp add: grpHold_def)
qed

section \<open>Properties\<close>

text \<open>C1: No run of the token gate, started without a state file, ever counts more tokens under a
  provider, model or session key than that kind's budget, whatever operations it consists of and whatever their
  arguments are. If, beside, no operation claims a slot that was released or a handoff that has a reservation, and no
  write fails while a group is released, the tokens held by active reservations and slots are part of what is counted.\<close>

theorem gateway_budgets_hold:
  assumes "limits_ok L" and "usageKeyKind k = Some K"
  shows "usedOf (used (gw_state (gateway_run L fits ops))) k \<le> kind_cap L K \<and>
    (admissible_run L fits ops fresh_gateway \<longrightarrow>
       holdsAt (gw_state (gateway_run L fits ops)) k \<le> usedOf (used (gw_state (gateway_run L fits ops))) k)"
proof -
  have "usedOf (used (gw_state (gateway_run L fits ops))) k \<le> kind_cap L K"
    using budget_keptD(1) [OF gateway_run_budget [OF assms(1)], of fits ops] assms(2) by (simp add: within_caps_def)
  moreover have "holdsAt (gw_state (gateway_run L fits ops)) k \<le> usedOf (used (gw_state (gateway_run L fits ops))) k"
    if "admissible_run L fits ops fresh_gateway"
    using gateway_run_inv [OF assms(1) that] unfolding gateway_inv_def by blast
  ultimately show ?thesis by blast
qed

text \<open>C2: A gate restarted on the state any admissible run has reached accepts it and continues from the same state:
  the loader's validation never rejects what an admissible run wrote.\<close>

theorem gateway_run_reloads:
  assumes "limits_ok L" and "admissible_run L fits ops fresh_gateway"
  shows "load_gateway (Some (gw_state (gateway_run L fits ops))) =
    Inr \<lparr>gw_state = gw_state (gateway_run L fits ops), gw_writes = [], gw_telemetry = []\<rparr>"
  using inv_load [OF gateway_run_inv [OF assms] assms(1)] .

text \<open>Settling an active reservation with no more tokens than it reserved, within the per-call caps,
  is never refused for an exhausted budget: it returns the settlement, and the usage of each of the
  three keys of the route falls by the hold less the tokens used, all other usage staying the same.\<close>

theorem settle_exact:
  assumes "gateway_safe L g" and "map_of (reservations (gw_state g)) (reservationId r) = Some r"
    and "safeCount (usage_inputTokens usage) \<le> inputCapTokens L"
    and "safeCount (usage_outputTokens usage) \<le> outputCapTokens L"
    and "safeCount (usage_inputTokens usage) + safeCount (usage_outputTokens usage) \<le> totalTokens r"
    and "canonical_stamp now" and "settle L (\<lambda>_. True) now r usage g = (g', res)"
  shows "res = Inr \<lparr>settled_inputTokens = safeCount (usage_inputTokens usage),
      settled_outputTokens = safeCount (usage_outputTokens usage),
      settled_released = Some (usage_released usage = Some True)\<rparr> \<and>
    map_of (reservations (gw_state g')) (reservationId r) = None \<and>
    (\<forall>k. usedOf (used (gw_state g')) k = usedOf (used (gw_state g)) k -
      (if k \<in> set (routeUsageKeys r)
       then hold_of r - (safeCount (usage_inputTokens usage) + safeCount (usage_outputTokens usage)) else 0))"
proof -
  have inv: "gateway_inv L (gw_state g)" using assms(1) by (simp add: gateway_safe_def)
  have amt: "usage_total usage \<le> totalTokens r" using assms(5) by (simp add: usage_total_def)
  note out = settle_outcome [OF inv assms(2-4) amt, of "\<lambda>_. True" now]
  have g': "gw_state g' = settle_effect r usage now (gw_state g)" using out(1) assms(7) by simp
  have "map_of (reservations (gw_state g')) (reservationId r) = None"
    unfolding g' settle_effect_def retire_fields by (rule map_of_delete_self)
  then show ?thesis
    using out(2) assms(7) settle_effect_inv(2) [OF inv assms(2,6) amt]
    by (auto simp: g' settled_entry_def usage_total_def)
qed

text \<open>A reservation that is released without use leaves no trace in the budgets: after a new
  reservation and its release, every usage and the active reservations are as before.\<close>

theorem reserve_release_neutral:
  assumes "gateway_safe L g" and "fresh_id (gw_state g) rid" and "canonical_stamp t1" and "canonical_stamp t2"
    and "reserve L (\<lambda>_. True) rid t1 input g = (g1, Inr r)" and "reservationId r = rid"
    and "release (\<lambda>_. True) t2 r g1 = (g2, res)"
  shows "res = Inr () \<and> (\<forall>k. usedOf (used (gw_state g2)) k = usedOf (used (gw_state g)) k) \<and>
    reservations (gw_state g2) = reservations (gw_state g)"
proof -
  have inv: "gateway_inv L (gw_state g)" and L: "limits_ok L" using assms(1) by (simp_all add: gateway_safe_def)
  note new = reserve_new [OF inv L assms(3,2,5,6)]
  have act: "map_of (reservations (gw_state g1)) (reservationId r) = Some r" using new(1) assms(6) by simp
  note rel = release_active [OF act, of "\<lambda>_. True" t2]
  have g2: "gw_state g2 = release_effect r t2 (gw_state g1)" and "res = Inr ()"
    using rel assms(7) by simp_all
  moreover have "usedOf (used (gw_state g2)) k = usedOf (used (gw_state g)) k" for k
    using new(2,5) release_effect_inv(2) [OF new(4) act assms(4), of k] by (simp add: g2)
  moreover have "AList.delete rid (AList.update rid r (reservations (gw_state g))) = reservations (gw_state g)"
    using assms(2) by (simp add: fresh_id_def update_fresh AList.delete_eq filter_id_conv) force
  ultimately show ?thesis using new(6) assms(6) by (simp add: release_effect_def)
qed

text \<open>A finished reservation is final. Settling a settled reservation again, with any usage, returns
  the recorded settlement and changes nothing; releasing it again, whether it was settled or released,
  does nothing; settling after a release is refused and changes nothing.\<close>

theorem finished_reservation_final:
  assumes "map_of (reservations (gw_state g)) (reservationId r) = None"
    and "map_of (terminal (gw_state g)) (reservationId r) = Some t"
  shows "settle L fits now r usage g =
      (g, if terminal_event t = Settled then Inr (terminal_settlement t)
          else Inl (TokenGatewayError token_reservation_missing)) \<and>
    release fits now r g = (g, Inr ())"
  using assms by (cases "terminal_event t") (simp_all add: settle_def release_def Let_def)

text \<open>A task in flight cannot change its route: settling or releasing an active reservation with another
  provider, model or session is refused and leaves the gate unchanged.\<close>

theorem route_is_pinned:
  assumes "map_of (reservations (gw_state g)) (reservationId r) = Some active"
    and "provider r \<noteq> provider active \<or> model r \<noteq> model active \<or> sessionId r \<noteq> sessionId active"
  shows "settle L fits now r usage g = (g, Inl (TokenGatewayError token_route_mismatch)) \<and>
    release fits now r g = (g, Inl (TokenGatewayError token_route_mismatch))"
  using assms by (auto simp: settle_def release_def Let_def same_route_def)

text \<open>Reserving twice for one handoff is idempotent: the second call returns the reservation of the
  first and changes nothing; with other tokens or another route it is refused.\<close>

theorem reserve_idempotent:
  assumes "handoffId (normalizeRequest input) = Some h" and "distinct (handoffIds (gw_state g))"
    and "e \<in> set (values_of (reservations (gw_state g)))" and "handoffId e = Some h"
  shows "reserve L fits rid now input g =
    (g, if sameReservationInput e (normalizeRequest input) then Inr e
        else Inl (TokenGatewayError token_route_mismatch))"
proof -
  have "List.find (\<lambda>r. handoffId r = Some h) (values_of (reservations (gw_state g))) = Some e"
    using find_handoff_unique assms(2-4) unfolding handoffIds_def by blast
  with assms(1,4) show ?thesis by (auto simp: reserve_def Let_def sameReservationInput_def)
qed

text \<open>Groups are never removed, so the limit of 512 groups is over the life of the state file: once
  it is reached, every later reservation of a new group is refused, whatever operations run between.\<close>

theorem group_limit_is_permanent:
  assumes "card (dom (map_of (groups (gw_state g)))) \<ge> MAX_ACTIVE_RESERVATIONS"
    and "g' = fold (gateway_exec L fits) ops g"
    and "map_of (groups (gw_state g')) (spec_groupId spec) = None" and "normalizeGroup spec = Inr spec"
  shows "reserveGroup L fits spec g' = (g', Inl (TokenGatewayError token_reservation_limit))"
proof -
  have "card (dom (map_of (groups (gw_state g)))) \<le> card (dom (map_of (groups (gw_state g'))))"
    unfolding assms(2) by (intro card_mono groups_kept_run) (simp add: finite_dom_map_of)
  then have "length (groups (gw_state g')) \<ge> MAX_ACTIVE_RESERVATIONS"
    using assms(1) length_dict_dom [of "groups (gw_state g')"] by linarith
  then show ?thesis using assms(3,4) by (simp add: reserveGroup_def Let_def)
qed

text \<open>C18: A slot that was released before any reservation claimed it can still be claimed: the claim
  tests the slot's reservation and not its state. The claim then succeeds although the slot's hold
  was given back, so the reservation is active and no budget counts it. If nothing but active holds was counted under a
  key of the slot, the state that is stored is one that the loader refuses.\<close>

theorem released_slot_is_claimed:
  assumes "map_of (groups (gw_state g)) gid = Some grp"
    and "findIndex (\<lambda>sl. slot_id sl = sid) (slots grp) = Some index"
    and "slot_state (slots grp ! index) = SlotReleased" and "slot_reservation (slots grp ! index) = None"
    and "isCanonicalRequest input (normalizeRequest input)"
    and "same_route (slots grp ! index) (normalizeRequest input)"
    and "inputTokens (normalizeRequest input) \<le> inputCapTokens L"
    and "outputTokens (normalizeRequest input) \<le> outputCapTokens L"
    and "inputTokens (normalizeRequest input) + outputTokens (normalizeRequest input) \<le> holdTokens (slots grp ! index)"
    and "claimGroupSlot L (\<lambda>_. True) rid now gid sid input g = (g', res)"
  shows "(\<exists>r. res = Inr r \<and> map_of (reservations (gw_state g')) rid = Some r \<and>
      used (gw_state g') = used (gw_state g) \<and> hold_of r = holdTokens (slots grp ! index)) \<and>
    (gateway_inv L (gw_state g) \<and> fresh_id (gw_state g) rid \<and>
       (\<exists>k \<in> set (routeUsageKeys (slots grp ! index)). usedOf (used (gw_state g)) k = holdsAt (gw_state g) k) \<longrightarrow>
     load_gateway (Some (gw_state g')) = Inl (GatewayError ''invalid_token_gateway_state''))"
proof -
  have out: "(\<exists>r. res = Inr r \<and> map_of (reservations (gw_state g')) rid = Some r \<and>
      used (gw_state g') = used (gw_state g) \<and> hold_of r = holdTokens (slots grp ! index))"
    and state: "gw_state g' = claim_effect gid grp index (claimed_reservation (normalizeRequest input) rid now gid sid
      (holdTokens (slots grp ! index))) (gw_state g)"
    using assms
    by (auto simp: claimGroupSlot_def Let_def persist_def update_conv' claimed_reservation_def [symmetric] hold_of_def claim_effect_def)
  have "load_gateway (Some (gw_state g')) = Inl (GatewayError ''invalid_token_gateway_state'')"
    if inv: "gateway_inv L (gw_state g)" and fresh: "fresh_id (gw_state g) rid"
      and k: "k \<in> set (routeUsageKeys (slots grp ! index))" "usedOf (used (gw_state g)) k = holdsAt (gw_state g) k" for k
  proof -
    have "holdsAt (gw_state g') k = holdsAt (gw_state g) k + holdTokens (slots grp ! index)"
      unfolding state using holds_claimed_released [OF inv fresh assms(1,2,3) k(1)] by simp
    moreover have mem: "slots grp ! index \<in> set (slots grp)" using findIndex_Some [OF assms(2)] by simp
    have "0 < holdTokens (slots grp ! index)" "0 \<le> holdsAt (gw_state g) k"
      using gateway_invG(5) [OF inv assms(1) mem] holds_nonneg [OF inv, of k]
      by (auto simp: isSlot_def isNonNegativeSafeInteger_def holdsAt_def)
    ultimately show ?thesis using refused_when_uncounted [of "gw_state g'" k] k(2) out by auto
  qed
  with out show ?thesis by blast
qed

section \<open>Witnesses\<close>

definition demo_request :: "int \<Rightarrow> int \<Rightarrow> string option \<Rightarrow> token_request_input" where
  "demo_request inp out h =
     \<lparr>provider = ''codex'', model = Some ''gpt'', sessionId = Some ''s1'',
      raw_inputTokens = Finite (real_of_int inp), raw_outputTokens = Finite (real_of_int out), raw_handoffId = h\<rparr>"

definition demo_slot :: "string \<Rightarrow> int \<Rightarrow> token_slot_request" where
  "demo_slot i hold = \<lparr>provider = ''codex'', model = Some ''gpt'', sessionId = Some ''s1'', slot_id = i, holdTokens = hold\<rparr>"

abbreviation dflt :: token_gateway_limits where "dflt \<equiv> DEFAULT_TOKEN_GATEWAY_LIMITS"

abbreviation no_limit :: "gateway_state \<Rightarrow> bool" where "no_limit \<equiv> \<lambda>_. True"

definition demo_reservation :: token_reservation where
  "demo_reservation = new_reservation (normalizeRequest (demo_request 10 20 (Some ''h1''))) ''tgr-1'' (Iso 0)"

definition demo_active :: gateway where
  "demo_active = fst (reserve dflt no_limit ''tgr-1'' (Iso 0) (demo_request 10 20 (Some ''h1'')) fresh_gateway)"

definition demo_group :: gateway where
  "demo_group = fst (releaseGroupSlots no_limit (Iso 0) ''g'' [''a'']
     (fst (reserveGroup dflt no_limit \<lparr>spec_groupId = ''g'', spec_slots = [demo_slot ''a'' 10, demo_slot ''b'' 20]\<rparr> fresh_gateway)))"

definition demo_claimed :: gateway where
  "demo_claimed = fst (claimGroupSlot dflt no_limit ''tgr-1'' (Iso 0) ''g'' ''a'' (demo_request 4 5 None) demo_group)"

lemma demo_active_safe: "gateway_safe dflt demo_active"
proof -
  have "gateway_safe dflt (gateway_step dflt no_limit (OpReserve ''tgr-1'' (Iso 0) (demo_request 10 20 (Some ''h1''))) fresh_gateway)"
    using fresh_gateway_safe [OF default_limits_ok] by (intro gateway_step_safe) (simp add: fresh_gateway_def)
  moreover have "admissible no_limit (OpReserve ''tgr-1'' (Iso 0) (demo_request 10 20 (Some ''h1''))) fresh_gateway"
    by code_simp
  ultimately show ?thesis by (simp add: gateway_step_def demo_active_def)
qed

lemma demo_active_reservation: "map_of (reservations (gw_state demo_active)) ''tgr-1'' = Some demo_reservation"
  by code_simp

lemma demo_admissible: "admissible_run dflt no_limit [OpReserve ''tgr-1'' (Iso 0) (demo_request 10 20 None)] fresh_gateway"
  by code_simp

theorem gateway_budgets_hold_witness:
  "usedOf (used (gw_state (gateway_run dflt no_limit
     [OpReserve ''tgr-1'' (Iso 0) (demo_request 10 20 None)]))) ''provider:codex'' \<le> 1000000 \<and>
   holdsAt (gw_state (gateway_run dflt no_limit [OpReserve ''tgr-1'' (Iso 0) (demo_request 10 20 None)])) ''provider:codex''
     \<le> usedOf (used (gw_state (gateway_run dflt no_limit
     [OpReserve ''tgr-1'' (Iso 0) (demo_request 10 20 None)]))) ''provider:codex''"
  using gateway_budgets_hold [OF default_limits_ok, of "''provider:codex''" ProviderUsage no_limit
      "[OpReserve ''tgr-1'' (Iso 0) (demo_request 10 20 None)]"]
    kind_provider [of "''codex''"] demo_admissible
  by (simp add: kind_cap_def DEFAULT_TOKEN_GATEWAY_LIMITS_def isPersistedString_def MAX_FIELD_LENGTH_def clean_char_def
      del: admissible_run.simps)

theorem gateway_run_reloads_witness:
  "\<exists>g. load_gateway (Some (gw_state (gateway_run dflt no_limit
     [OpReserve ''tgr-1'' (Iso 0) (demo_request 10 20 None)]))) = Inr g"
  using gateway_run_reloads [OF default_limits_ok demo_admissible] by blast

theorem settle_exact_witness:
  "snd (settle dflt no_limit (Iso 5) demo_reservation
      \<lparr>usage_inputTokens = Finite 3, usage_outputTokens = Finite 4, usage_released = Some True\<rparr> demo_active) =
    Inr \<lparr>settled_inputTokens = 3, settled_outputTokens = 4, settled_released = Some True\<rparr>"
proof -
  let ?u = "\<lparr>usage_inputTokens = Finite 3, usage_outputTokens = Finite 4, usage_released = Some True\<rparr>"
  have id: "reservationId demo_reservation = ''tgr-1''" and t: "totalTokens demo_reservation = 30" by code_simp+
  obtain g' res where out: "settle dflt no_limit (Iso 5) demo_reservation ?u demo_active = (g', res)" by fastforce
  from settle_exact [OF demo_active_safe _ _ _ _ _ out] have
    "res = Inr \<lparr>settled_inputTokens = 3, settled_outputTokens = 4, settled_released = Some True\<rparr>"
    by (simp add: id t demo_active_reservation DEFAULT_TOKEN_GATEWAY_LIMITS_def valid_time_def MAX_TIME_def)
  with out show ?thesis by simp
qed

theorem reserve_release_neutral_witness:
  "snd (release no_limit (Iso 5) demo_reservation demo_active) = Inr ()"
proof -
  have safe: "gateway_safe dflt fresh_gateway"
    using fresh_gateway_safe [OF default_limits_ok] by (simp add: fresh_gateway_def)
  have f: "fresh_id (gw_state fresh_gateway) ''tgr-1''" by code_simp
  have r: "reserve dflt no_limit ''tgr-1'' (Iso 0) (demo_request 10 20 (Some ''h1'')) fresh_gateway =
      (demo_active, Inr demo_reservation)" by code_simp
  obtain g2 res where out: "release no_limit (Iso 5) demo_reservation demo_active = (g2, res)" by fastforce
  have "reservationId demo_reservation = ''tgr-1''" by code_simp
  from reserve_release_neutral [OF safe f _ _ r this out] out show ?thesis
    by (simp add: valid_time_def MAX_TIME_def)
qed

theorem finished_reservation_final_witness:
  "snd (settle dflt no_limit (Iso 7) demo_reservation
      \<lparr>usage_inputTokens = Finite 1, usage_outputTokens = Finite 1, usage_released = None\<rparr>
      (fst (release no_limit (Iso 5) demo_reservation demo_active))) = Inl (TokenGatewayError token_reservation_missing)"
proof -
  let ?g = "fst (release no_limit (Iso 5) demo_reservation demo_active)"
  have "map_of (reservations (gw_state ?g)) (reservationId demo_reservation) = None" by code_simp
  moreover have "map_of (terminal (gw_state ?g)) (reservationId demo_reservation) = Some (released_entry (Iso 5))"
    by code_simp
  ultimately show ?thesis by (simp add: finished_reservation_final released_entry_def)
qed

theorem route_is_pinned_witness:
  "snd (release no_limit (Iso 5) (demo_reservation\<lparr>provider := ''claude''\<rparr>) demo_active) =
    Inl (TokenGatewayError token_route_mismatch)"
proof -
  have "map_of (reservations (gw_state demo_active)) (reservationId (demo_reservation\<lparr>provider := ''claude''\<rparr>)) =
      Some demo_reservation" by code_simp
  moreover have "provider (demo_reservation\<lparr>provider := ''claude''\<rparr>) \<noteq> provider demo_reservation" by code_simp
  ultimately show ?thesis by (subst route_is_pinned [THEN conjunct2]) auto
qed

theorem reserve_idempotent_witness:
  "reserve dflt no_limit ''tgr-2'' (Iso 9) (demo_request 10 20 (Some ''h1'')) demo_active = (demo_active, Inr demo_reservation)"
proof -
  have h: "handoffId (normalizeRequest (demo_request 10 20 (Some ''h1''))) = Some ''h1''" by code_simp
  have d: "distinct (handoffIds (gw_state demo_active))" by code_simp
  have m: "demo_reservation \<in> set (values_of (reservations (gw_state demo_active)))" by code_simp
  have e: "handoffId demo_reservation = Some ''h1''" by code_simp
  have "sameReservationInput demo_reservation (normalizeRequest (demo_request 10 20 (Some ''h1'')))" by code_simp
  then show ?thesis by (subst reserve_idempotent [OF h d m e]) simp
qed

text \<open>The reservation claimed on a released slot leaves a state that the gate itself refuses to load.\<close>

theorem released_slot_is_claimed_witness:
  "used (gw_state demo_claimed) = used (gw_state demo_group) \<and>
   load_gateway (Some (gw_state demo_claimed)) = Inl (GatewayError ''invalid_token_gateway_state'')"
proof -
  obtain g' res where out: "claimGroupSlot dflt no_limit ''tgr-1'' (Iso 0) ''g'' ''a'' (demo_request 4 5 None) demo_group = (g', res)"
    by fastforce
  obtain grp where grp: "map_of (groups (gw_state demo_group)) ''g'' = Some grp"
    and i: "findIndex (\<lambda>sl. slot_id sl = ''a'') (slots grp) = Some 0"
    and sl: "slot_state (slots grp ! 0) = SlotReleased" "slot_reservation (slots grp ! 0) = None"
    and route: "same_route (slots grp ! 0) (normalizeRequest (demo_request 4 5 None))"
    and hold: "holdTokens (slots grp ! 0) = 10"
  proof -
    have "case map_of (groups (gw_state demo_group)) ''g'' of None \<Rightarrow> False
      | Some grp \<Rightarrow> findIndex (\<lambda>sl. slot_id sl = ''a'') (slots grp) = Some 0 \<and>
          slot_state (slots grp ! 0) = SlotReleased \<and> slot_reservation (slots grp ! 0) = None \<and>
          same_route (slots grp ! 0) (normalizeRequest (demo_request 4 5 None)) \<and> holdTokens (slots grp ! 0) = 10"
      by code_simp
    then show thesis using that by (auto split: option.splits)
  qed
  have c: "isCanonicalRequest (demo_request 4 5 None) (normalizeRequest (demo_request 4 5 None))" by code_simp
  have t: "inputTokens (normalizeRequest (demo_request 4 5 None)) = 4"
    "outputTokens (normalizeRequest (demo_request 4 5 None)) = 5" by code_simp+
  have "used (gw_state g') = used (gw_state demo_group)"
    using released_slot_is_claimed [OF grp i sl c route _ _ _ out]
    by (auto simp: t hold DEFAULT_TOKEN_GATEWAY_LIMITS_def)
  moreover have "load_gateway (Some (gw_state demo_claimed)) = Inl (GatewayError ''invalid_token_gateway_state'')"
    by code_simp
  ultimately show ?thesis by (simp add: demo_claimed_def out)
qed

definition many_groups :: gateway where
  "many_groups = \<lparr>gw_state = empty_gateway_state\<lparr>groups := map (\<lambda>i. (replicate i CHR ''x'',
     \<lparr>group_id = replicate i CHR ''x'', slots = [], maximumTokens = 0\<rparr>)) [0..<512]\<rparr>,
     gw_writes = [], gw_telemetry = []\<rparr>"

theorem group_limit_is_permanent_witness:
  "reserveGroup dflt no_limit \<lparr>spec_groupId = ''g'', spec_slots = [demo_slot ''a'' 10]\<rparr> many_groups =
     (many_groups, Inl (TokenGatewayError token_reservation_limit))"
proof (rule group_limit_is_permanent [where g = many_groups and ops = "[]" and fits = no_limit and L = dflt])
  have "dom (map_of (groups (gw_state many_groups))) = (\<lambda>i. replicate i CHR ''x'') ` {0..<512}"
    by (auto simp: many_groups_def empty_gateway_state_def dom_map_of_conv_image_fst image_iff)
  moreover have "inj_on (\<lambda>i. replicate i CHR ''x'') {0..<512}" by (rule inj_onI) (metis length_replicate)
  ultimately show "MAX_ACTIVE_RESERVATIONS \<le> card (dom (map_of (groups (gw_state many_groups))))"
    by (simp add: card_image gateway_limits_defs)
  have [simp]: "(''g'' = replicate i CHR ''x'') = False" for i by (cases i) auto
  show "map_of (groups (gw_state many_groups)) (spec_groupId \<lparr>spec_groupId = ''g'', spec_slots = [demo_slot ''a'' 10]\<rparr>) = None"
    by (auto simp: many_groups_def empty_gateway_state_def map_of_eq_None_iff)
  show "normalizeGroup \<lparr>spec_groupId = ''g'', spec_slots = [demo_slot ''a'' 10]\<rparr> =
      Inr \<lparr>spec_groupId = ''g'', spec_slots = [demo_slot ''a'' 10]\<rparr>" by code_simp
qed simp

section \<open>Snapshots that the gate does not load\<close>

text \<open>Releasing a slot that is reserved and then one that is claimed writes, between the two, a snapshot
  in which the first slot is still reserved but its hold is no longer counted.\<close>

definition demo_mixed :: gateway where
  "demo_mixed = fst (claimGroupSlot dflt no_limit ''tgr-1'' (Iso 0) ''g'' ''b'' (demo_request 4 5 None)
     (fst (reserveGroup dflt no_limit \<lparr>spec_groupId = ''g'', spec_slots = [demo_slot ''a'' 10, demo_slot ''b'' 20]\<rparr> fresh_gateway)))"

lemma mixed_release_snapshot:
  "map isGatewayState (gw_writes (fst (releaseGroupSlots no_limit (Iso 1) ''g'' [''a'', ''b''] demo_mixed))) =
     [True, True, False, True]"
  by code_simp

text \<open>A claim does not test that its handoff is new, which the loader requires of all reservations.\<close>

lemma duplicate_handoff_snapshot:
  "isGatewayState (gw_state (fst (claimGroupSlot dflt no_limit ''tgr-2'' (Iso 0) ''g'' ''a'' (demo_request 4 5 (Some ''h1''))
     (fst (reserveGroup dflt no_limit \<lparr>spec_groupId = ''g'', spec_slots = [demo_slot ''a'' 10]\<rparr> demo_active))))) = False"
  by code_simp

end
