(* ===== verification/JsJson.thy ===== *)
theory JsJson
  imports JsPrelude
begin

text \<open>
  JSON values and the run-time tests the stores make on them. A property access \<open>value.f\<close> is
  \<open>field f v\<close>: \<open>None\<close> is \<open>undefined\<close>. \<open>stringify\<close> is what a value becomes when it is written
  with \<open>JSON.stringify\<close> and read back: a number that is not finite becomes \<open>null\<close>.
\<close>

datatype json =
    JNull
  | JBool bool
  | JNum js_number
  | JStr string
  | JArr "json list"
  | JObj "(string \<times> json) list"

fun field :: "string \<Rightarrow> json \<Rightarrow> json option" where
  "field f (JObj fs) = map_of fs f"
| "field f _ = None"

primrec stringify :: "json \<Rightarrow> json" where
  "stringify JNull = JNull"
| "stringify (JBool b) = JBool b"
| "stringify (JNum n) = (case n of Finite x \<Rightarrow> JNum n | _ \<Rightarrow> JNull)"
| "stringify (JStr s) = JStr s"
| "stringify (JArr xs) = JArr (map stringify xs)"
| "stringify (JObj fs) = JObj (map (map_prod id stringify) fs)"

lemma stringify_idem [simp]: "stringify (stringify v) = stringify v"
proof (induction v)
  case (JNum n)
  then show ?case by (cases n) simp_all
next
  case (JObj fs)
  then show ?case by (auto simp: comp_def map_prod_def intro!: snds.intros)
qed simp_all

section \<open>Tests on one value\<close>

fun isRecord :: "json option \<Rightarrow> bool" where
  "isRecord (Some (JObj fs)) \<longleftrightarrow> True"
| "isRecord _ \<longleftrightarrow> False"

fun isStringValue :: "json option \<Rightarrow> bool" where
  "isStringValue (Some (JStr s)) \<longleftrightarrow> True"
| "isStringValue _ \<longleftrightarrow> False"

fun isBooleanValue :: "json option \<Rightarrow> bool" where
  "isBooleanValue (Some (JBool b)) \<longleftrightarrow> True"
| "isBooleanValue _ \<longleftrightarrow> False"

fun isArrayOf :: "(json \<Rightarrow> bool) \<Rightarrow> json option \<Rightarrow> bool" where
  "isArrayOf P (Some (JArr xs)) \<longleftrightarrow> list_all P xs"
| "isArrayOf P _ \<longleftrightarrow> False"

definition isStringArray :: "json option \<Rightarrow> bool" where
  "isStringArray v \<longleftrightarrow> isArrayOf (\<lambda>x. isStringValue (Some x)) v"

fun string_of :: "json \<Rightarrow> string" where
  "string_of (JStr s) = s"
| "string_of _ = []"

fun strings_of :: "json option \<Rightarrow> string list" where
  "strings_of (Some (JArr xs)) = map string_of xs"
| "strings_of _ = []"

definition isUniqueNonEmptyStringArray :: "json option \<Rightarrow> nat option \<Rightarrow> bool" where
  "isUniqueNonEmptyStringArray v maxItems \<longleftrightarrow>
     isStringArray v \<and> (case maxItems of None \<Rightarrow> True | Some n \<Rightarrow> length (strings_of v) \<le> n) \<and>
     list_all (\<lambda>s. length (js_trim s) > 0) (strings_of v) \<and>
     length (js_unique (strings_of v)) = length (strings_of v)"

definition isOptionalString :: "json option \<Rightarrow> bool" where
  "isOptionalString v \<longleftrightarrow> v = None \<or> isStringValue v"

definition isOptionalStringArray :: "json option \<Rightarrow> bool" where
  "isOptionalStringArray v \<longleftrightarrow> v = None \<or> isStringArray v"

definition isOptionalEnum :: "json option \<Rightarrow> string list \<Rightarrow> bool" where
  "isOptionalEnum v allowed \<longleftrightarrow>
     v = None \<or> (case v of Some (JStr s) \<Rightarrow> s \<in> set allowed | _ \<Rightarrow> False)"

fun isFiniteNumber :: "json option \<Rightarrow> bool" where
  "isFiniteNumber (Some (JNum (Finite x))) \<longleftrightarrow> True"
| "isFiniteNumber _ \<longleftrightarrow> False"

definition isOptionalFiniteNumber :: "json option \<Rightarrow> bool" where
  "isOptionalFiniteNumber v \<longleftrightarrow> v = None \<or> isFiniteNumber v"

fun isNonNegativeInteger :: "json option \<Rightarrow> bool" where
  "isNonNegativeInteger (Some (JNum (Finite x))) \<longleftrightarrow> real_of_int \<lfloor>x\<rfloor> = x \<and> 0 \<le> x"
| "isNonNegativeInteger _ \<longleftrightarrow> False"

fun isPositiveInteger :: "json option \<Rightarrow> bool" where
  "isPositiveInteger (Some (JNum (Finite x))) \<longleftrightarrow> real_of_int \<lfloor>x\<rfloor> = x \<and> 0 < x"
| "isPositiveInteger _ \<longleftrightarrow> False"

definition isOptionalPositiveInteger :: "json option \<Rightarrow> bool" where
  "isOptionalPositiveInteger v \<longleftrightarrow> v = None \<or> isPositiveInteger v"

text \<open>\<open>[...].includes(String(value))\<close>: \<open>String\<close> of a string is itself and of an array with one element
  that of the element; no other value converts to a name of the enumerations below.\<close>

fun string_in :: "string list \<Rightarrow> json \<Rightarrow> bool" where
  "string_in names (JStr s) \<longleftrightarrow> s \<in> set names"
| "string_in names (JArr [x]) \<longleftrightarrow> string_in names x"
| "string_in names _ \<longleftrightarrow> False"

definition isOneOf :: "string list \<Rightarrow> json option \<Rightarrow> bool" where
  "isOneOf names v \<longleftrightarrow> (case v of None \<Rightarrow> False | Some x \<Rightarrow> string_in names x)"

text \<open>A timestamp inside a JSON value is a string; what \<open>Date.parse\<close> makes of the string is the
  parameter \<open>parses\<close>.\<close>

definition isValidTimestampValue :: "(string \<Rightarrow> bool) \<Rightarrow> json option \<Rightarrow> bool" where
  "isValidTimestampValue parses v \<longleftrightarrow>
     (case v of Some (JStr s) \<Rightarrow> length s > 0 \<and> parses s | _ \<Rightarrow> False)"

definition isOptionalTimestampValue :: "(string \<Rightarrow> bool) \<Rightarrow> json option \<Rightarrow> bool" where
  "isOptionalTimestampValue parses v \<longleftrightarrow> v = None \<or> isValidTimestampValue parses v"

lemmas json_test_defs = isStringArray_def isOptionalString_def isOptionalStringArray_def isOptionalEnum_def
  isOptionalFiniteNumber_def isOptionalPositiveInteger_def isOneOf_def isValidTimestampValue_def
  isOptionalTimestampValue_def isUniqueNonEmptyStringArray_def

section \<open>Tests are stable under writing and reading back\<close>

lemma map_of_map_prod: "map_of (map (map_prod id f) fs) k = map_option f (map_of fs k)"
  by (induction fs) auto

lemma field_stringify: "field f (stringify v) = map_option stringify (field f v)"
  by (cases v) (auto simp: map_of_map_prod split: js_number.splits)

end
