(* ===== verification/SupervisorHandoff.thy ===== *)
theory SupervisorHandoff
  imports JsJson
begin

text \<open>
  The run-time validation of a stored handoff in \<^verbatim>\<open>src/data/delivery-system/supervisorQueue.ts\<close>
  (\<open>isGovernedHandoff\<close> and the tests it is made of), on JSON values.
\<close>

definition isReasoningProvider :: "json option \<Rightarrow> bool" where
  "isReasoningProvider v \<longleftrightarrow> isOneOf
     [''deterministic_tools'', ''qwen_local'', ''openai_gpt'', ''anthropic_claude_subscription'', ''gemini_cli'',
      ''deepseek_api_or_self_hosted'', ''openrouter_free'', ''deepseek_web_chat_manual''] v"

definition isRateLimitState :: "json option \<Rightarrow> bool" where
  "isRateLimitState v \<longleftrightarrow> isOneOf [''available'', ''rate_limited'', ''exhausted'', ''unknown''] v"

definition isCircuitBreakerThresholds :: "json \<Rightarrow> bool" where
  "isCircuitBreakerThresholds v \<longleftrightarrow>
     isRecord (Some v) \<and> isPositiveInteger (field ''failureThreshold'' v) \<and>
     isPositiveInteger (field ''windowMs'' v) \<and> isPositiveInteger (field ''cooldownMs'' v) \<and>
     (field ''failureSignals'' v = None \<or>
      isArrayOf (string_in [''timeout'', ''auth_error'', ''empty_output'', ''invalid_json'', ''non_zero_exit''])
        (field ''failureSignals'' v))"

definition isTierFailureSignal :: "(string \<Rightarrow> bool) \<Rightarrow> json \<Rightarrow> bool" where
  "isTierFailureSignal parses v \<longleftrightarrow>
     isRecord (Some v) \<and> isReasoningProvider (field ''provider'' v) \<and> isOptionalString (field ''tierId'' v) \<and>
     isOneOf [''timeout'', ''auth_error'', ''empty_output'', ''invalid_json'', ''non_zero_exit'']
       (field ''failureSignal'' v) \<and>
     isValidTimestampValue parses (field ''recordedAt'' v)"

definition isEvalRecord :: "json \<Rightarrow> bool" where
  "isEvalRecord v \<longleftrightarrow>
     isRecord (Some v) \<and> isStringValue (field ''taskType'' v) \<and>
     isOneOf [''openai'', ''anthropic'', ''google'', ''qwen'', ''deepseek'', ''local'', ''unknown''] (field ''provider'' v) \<and>
     isOneOf [''needs_scoring'', ''accepted'', ''retry_with_prompt_or_input_tuning'',
       ''review_model_or_reasoning_route'', ''blocked''] (field ''state'' v) \<and>
     isFiniteNumber (field ''scoreAverage'' v) \<and> isStringArray (field ''failureLabels'' v) \<and>
     isNonNegativeInteger (field ''rerunCount'' v)"

definition isProviderTier :: "(string \<Rightarrow> bool) \<Rightarrow> json \<Rightarrow> bool" where
  "isProviderTier parses v \<longleftrightarrow>
     isRecord (Some v) \<and> isReasoningProvider (field ''provider'' v) \<and>
     isStringValue (field ''tierId'' v) \<and> isStringValue (field ''label'' v) \<and>
     isOptionalString (field ''cliAccessPath'' v) \<and> isBooleanValue (field ''verifiedLocally'' v) \<and>
     isRateLimitState (field ''rateLimitState'' v) \<and> isFiniteNumber (field ''costWeight'' v) \<and>
     isOptionalString (field ''notes'' v) \<and> isOptionalTimestampValue parses (field ''lastAttemptedAt'' v)"

definition isSubscriptionBudget :: "(string \<Rightarrow> bool) \<Rightarrow> json \<Rightarrow> bool" where
  "isSubscriptionBudget parses v \<longleftrightarrow>
     isRecord (Some v) \<and> isReasoningProvider (field ''provider'' v) \<and>
     isOptionalString (field ''activeTierId'' v) \<and> isRateLimitState (field ''activeTierRateLimitState'' v) \<and>
     isOptionalTimestampValue parses (field ''rateLimitHitAt'' v) \<and>
     isOptionalTimestampValue parses (field ''lastAttemptedAt'' v) \<and>
     isArrayOf (isProviderTier parses) (field ''availableTiers'' v) \<and>
     isStringArray (field ''exhaustedTierIds'' v) \<and>
     list_all (\<lambda>f. isNonNegativeInteger (field f v))
       [''sessionTaskCount'', ''sessionInputTokens'', ''sessionOutputTokens'', ''sessionTotalTokens'', ''sessionCallCount''] \<and>
     isOptionalTimestampValue parses (field ''lastSuccessfulTaskAt'' v) \<and> isOptionalString (field ''notes'' v)"

definition isOptionalRoutingContext :: "(string \<Rightarrow> bool) \<Rightarrow> json option \<Rightarrow> bool" where
  "isOptionalRoutingContext parses value \<longleftrightarrow>
     (case value of None \<Rightarrow> True
      | Some v \<Rightarrow>
          isRecord (Some v) \<and>
          isOneOf [''orchestrator'', ''architect'', ''reviewer'', ''tester'', ''micro_worker'', ''bounded_coding'',
            ''memory_summarizer'', ''copywriter''] (field ''layer'' v) \<and>
          isArrayOf (isSubscriptionBudget parses) (field ''budgets'' v) \<and>
          isArrayOf isEvalRecord (field ''evalRecords'' v) \<and>
          (field ''recentFailureSignals'' v = None \<or>
           isArrayOf (isTierFailureSignal parses) (field ''recentFailureSignals'' v)) \<and>
          (case field ''circuitBreakerThresholds'' v of None \<Rightarrow> True | Some t \<Rightarrow> isCircuitBreakerThresholds t) \<and>
          (field ''now'' v = None \<or> isValidTimestampValue parses (field ''now'' v)))"

definition isOptionalPrepProvenance :: "json option \<Rightarrow> bool" where
  "isOptionalPrepProvenance value \<longleftrightarrow>
     (case value of None \<Rightarrow> True
      | Some v \<Rightarrow>
          isRecord (Some v) \<and>
          (if field ''kind'' v = Some (JStr ''cheap_attempts'')
           then isUniqueNonEmptyStringArray (field ''cheap_attempt_refs'' v) None
           else field ''kind'' v = Some (JStr ''cheap_not_applicable'') \<and>
             (case field ''reason'' v of Some (JStr s) \<Rightarrow> length (js_trim s) > 0 | _ \<Rightarrow> False) \<and>
             field ''owner_override'' v = Some (JBool True)))"

definition isOptionalGenerationSettings :: "json option \<Rightarrow> bool" where
  "isOptionalGenerationSettings value \<longleftrightarrow>
     (case value of None \<Rightarrow> True
      | Some v \<Rightarrow>
          isRecord (Some v) \<and>
          list_all (\<lambda>f. isOptionalFiniteNumber (field f v))
            [''temperature'', ''top_p'', ''top_k'', ''min_p'', ''max_output_tokens''] \<and>
          isOptionalString (field ''reasoning_effort'' v) \<and>
          (case field ''speculative_decoding'' v of None \<Rightarrow> True
           | Some d \<Rightarrow> isRecord (Some d) \<and> isStringValue (field ''type'' d) \<and>
               isOptionalFiniteNumber (field ''draft_length'' d)))"

text \<open>The length of a prompt, and the comparison with the handoff's own limit.\<close>

definition string_length :: "json option \<Rightarrow> nat" where
  "string_length v = (case v of Some (JStr s) \<Rightarrow> length s | _ \<Rightarrow> 0)"

definition at_most_number :: "nat \<Rightarrow> json option \<Rightarrow> bool" where
  "at_most_number n v \<longleftrightarrow> (case v of Some (JNum (Finite x)) \<Rightarrow> real n \<le> x | _ \<Rightarrow> False)"

definition isGovernedHandoff :: "(string \<Rightarrow> bool) \<Rightarrow> nat \<Rightarrow> json \<Rightarrow> bool" where
  "isGovernedHandoff parses maxPromptChars v \<longleftrightarrow>
     isStringValue (field ''handoffId'' v) \<and>
     isOneOf [''codex_cli'', ''claude_cli'', ''agy_cli'', ''openrouter_api''] (field ''vendor'' v) \<and>
     isStringValue (field ''prompt'' v) \<and> string_length (field ''prompt'' v) \<le> maxPromptChars \<and>
     isStringValue (field ''parentSessionHash'' v) \<and> isStringValue (field ''parentTurnHash'' v) \<and>
     isStringValue (field ''task'' v) \<and> isStringValue (field ''agent'' v) \<and>
     isStringValue (field ''packet_hash'' v) \<and> isStringArray (field ''required_checks'' v) \<and>
     isOptionalString (field ''sessionId'' v) \<and> isOptionalStringArray (field ''skillIds'' v) \<and>
     isOptionalString (field ''outputSchemaPath'' v) \<and>
     isOptionalEnum (field ''codexMode'' v) [''codex_implement'', ''codex_review'', ''codex_research''] \<and>
     isOptionalEnum (field ''openrouterMode'' v) [''qwen3_code_draft'', ''nemotron_planning''] \<and>
     isOptionalEnum (field ''routingMode'' v) [''idea'', ''spec'', ''build'', ''review''] \<and>
     isOptionalString (field ''taskPacketRef'' v) \<and> isOptionalString (field ''model'' v) \<and>
     isOptionalPositiveInteger (field ''timeoutMs'' v) \<and> isOptionalString (field ''cwd'' v) \<and>
     isOptionalStringArray (field ''addDirs'' v) \<and> isOptionalStringArray (field ''images'' v) \<and>
     isOptionalString (field ''lockSource'' v) \<and> isOptionalPositiveInteger (field ''maxPromptChars'' v) \<and>
     (field ''maxPromptChars'' v = None \<or>
      at_most_number (string_length (field ''prompt'' v)) (field ''maxPromptChars'' v)) \<and>
     isOptionalGenerationSettings (field ''generationSettings'' v) \<and>
     isOptionalEnum (field ''routing_mode'' v) [''idea'', ''spec'', ''build'', ''review''] \<and>
     isOptionalString (field ''task_package_hash'' v) \<and>
     isOptionalPrepProvenance (field ''prep_provenance'' v) \<and>
     isOptionalRoutingContext parses (field ''routing'' v)"

end
