(* ===== verification/SupervisorQueue.thy ===== *)
theory SupervisorQueue
  imports SupervisorHandoff
begin

text \<open>
  \<^verbatim>\<open>src/data/delivery-system/supervisorQueue.ts\<close>: the durable queue of governed handoffs. A task waits
  until its dependencies are complete and its approval is given, is claimed for an attempt, and is
  completed, retried after a delay that doubles, failed or cancelled.

  A queue is its list of tasks; every call that changes it goes through \<open>publish\<close>, which writes the
  new state only if the state, read back, is valid. The options, the clock and the dispatcher are
  arguments, and so are what the code takes from its platform: \<open>fits\<close> (the serialized state has at
  most 4 MiB), \<open>parses\<close> (\<open>Date.parse\<close> on strings inside a handoff) and \<open>sha256\<close>.
\<close>

section \<open>Data\<close>

datatype task_status = Queued | Running | Blocked | Completed | Failed | Cancelled

record handoff_reference =
  ref_handoff_id :: string
  ref_packet_hash :: string
  ref_task_packet_ref :: "string option"

record supervisor_task =
  task_id :: string
  session_id :: "string option"
  handoff :: json
  handoff_ref :: handoff_reference
  status :: task_status
  attempt :: int
  max_attempts :: int
  timeout_ms :: int
  queued_at :: stamp
  updated_at :: stamp
  next_attempt_at :: stamp
  run_started_at :: "stamp option"
  blocked_reason :: "string option"
  last_error :: "string option"
  attempt_delta_hash :: "string option"
  dependency_ids :: "string list"
  requires_approval :: bool
  approval_granted :: bool

type_synonym queue = "supervisor_task list"

record supervisor_env =
  maxTasks :: nat
  maxPromptChars :: nat
  baseRetryDelayMs :: int
  maxRetryDelayMs :: int
  fits_queue :: "queue \<Rightarrow> bool"
  parses :: "string \<Rightarrow> bool"
  sha256 :: "string \<Rightarrow> string"

record enqueue_input =
  in_taskId :: string
  in_handoff :: json
  in_sessionId :: "string option"
  in_maxAttempts :: "js_number option"
  in_timeoutMs :: "js_number option"
  in_dependencyIds :: "string list"
  in_requiresApproval :: bool
  in_approvalGranted :: bool

definition DEFAULT_TIMEOUT_MS :: int where "DEFAULT_TIMEOUT_MS = 15 * 60000"
definition MAX_ATTEMPTS :: int where "MAX_ATTEMPTS = 8"
definition MAX_DEPENDENCIES :: nat where "MAX_DEPENDENCIES = 32"
definition MAX_ERROR_CHARS :: nat where "MAX_ERROR_CHARS = 512"

lemmas supervisor_limits = DEFAULT_TIMEOUT_MS_def MAX_ATTEMPTS_def MAX_DEPENDENCIES_def MAX_ERROR_CHARS_def

section \<open>The dependency graph\<close>

text \<open>\<open>visit\<close> with its two sets: a node that is \<open>active\<close> is on the current path, one that is \<open>visited\<close> is
  finished. The set of active nodes is back to its value when a visit that found no cycle returns, so
  it is passed down; the visited set is threaded. The depth is bounded by fuel.\<close>

datatype visit_result = NoFuel | Cycle | Visited "string list"

fun visit :: "nat \<Rightarrow> (string \<Rightarrow> string list option) \<Rightarrow> string list \<Rightarrow> string list \<Rightarrow> string \<Rightarrow> visit_result"
  and visit_some :: "nat \<Rightarrow> (string \<Rightarrow> string list option) \<Rightarrow> string list \<Rightarrow> string list \<Rightarrow> string list \<Rightarrow> visit_result"
where
  "visit 0 deps active visited t = NoFuel"
| "visit (Suc n) deps active visited t =
     (if t \<in> set active then Cycle
      else if t \<in> set visited then Visited visited
      else case visit_some n deps (t # active) visited (case deps t of None \<Rightarrow> [] | Some ds \<Rightarrow> ds) of
             Visited vs \<Rightarrow> Visited (t # vs)
           | r \<Rightarrow> r)"
| "visit_some n deps active visited [] = Visited visited"
| "visit_some n deps active visited (t # ts) =
     (case visit n deps active visited t of
        Visited vs \<Rightarrow> visit_some n deps active vs ts
      | r \<Rightarrow> r)"

definition dependency_map :: "(string \<times> string list) list \<Rightarrow> string \<Rightarrow> string list option" where
  "dependency_map nodes = fold (\<lambda>(t, ds) m. m(t \<mapsto> ds)) nodes Map.empty"

definition hasDependencyCycle :: "(string \<times> string list) list \<Rightarrow> bool" where
  "hasDependencyCycle nodes =
     (visit_some (Suc (length nodes)) (dependency_map nodes) [] [] (js_unique (map fst nodes)) = Cycle)"

section \<open>Validation of a stored queue\<close>

definition valid_stamp :: "stamp \<Rightarrow> bool" where
  "valid_stamp t \<longleftrightarrow> date_parse t \<noteq> None"

definition json_string_is :: "json option \<Rightarrow> string \<Rightarrow> bool" where
  "json_string_is v s \<longleftrightarrow> v = Some (JStr s)"

text \<open>\<open>handoff.taskPacketRef ?? null\<close>: a missing field and \<open>null\<close> are both \<open>null\<close>.\<close>

fun packet_ref_is :: "json option \<Rightarrow> string option \<Rightarrow> bool" where
  "packet_ref_is None r \<longleftrightarrow> r = None"
| "packet_ref_is (Some JNull) r \<longleftrightarrow> r = None"
| "packet_ref_is (Some (JStr s)) r \<longleftrightarrow> r = Some s"
| "packet_ref_is (Some _) r \<longleftrightarrow> False"

definition isSupervisorTask :: "supervisor_env \<Rightarrow> supervisor_task \<Rightarrow> bool" where
  "isSupervisorTask E t \<longleftrightarrow>
     isRecord (Some (handoff t)) \<and> length (js_trim (task_id t)) > 0 \<and>
     isGovernedHandoff (parses E) (maxPromptChars E) (handoff t) \<and>
     0 \<le> attempt t \<and> 0 < max_attempts t \<and> max_attempts t \<le> MAX_ATTEMPTS \<and> attempt t \<le> max_attempts t \<and>
     (status t \<noteq> Queued \<or> attempt t < max_attempts t) \<and>
     0 < timeout_ms t \<and> timeout_ms t \<ge> 1000 \<and>
     valid_stamp (queued_at t) \<and> valid_stamp (updated_at t) \<and> valid_stamp (next_attempt_at t) \<and>
     (case run_started_at t of None \<Rightarrow> True | Some s \<Rightarrow> valid_stamp s) \<and>
     (case last_error t of None \<Rightarrow> True | Some e \<Rightarrow> length e \<le> MAX_ERROR_CHARS) \<and>
     (case attempt_delta_hash t of None \<Rightarrow> True | Some h \<Rightarrow> hex64 h) \<and>
     length (dependency_ids t) \<le> MAX_DEPENDENCIES \<and>
     list_all (\<lambda>d. length (js_trim d) > 0) (dependency_ids t) \<and>
     length (js_unique (dependency_ids t)) = length (dependency_ids t) \<and>
     json_string_is (field ''handoffId'' (handoff t)) (ref_handoff_id (handoff_ref t)) \<and>
     json_string_is (field ''packet_hash'' (handoff t)) (ref_packet_hash (handoff_ref t)) \<and>
     packet_ref_is (field ''taskPacketRef'' (handoff t)) (ref_task_packet_ref (handoff_ref t)) \<and>
     (if status t = Running then run_started_at t \<noteq> None \<and> attempt t > 0 else run_started_at t = None) \<and>
     (status t \<noteq> Blocked \<or> requires_approval t \<and> \<not> approval_granted t \<and>
        blocked_reason t = Some ''approval_required'')"

definition isSupervisorState :: "supervisor_env \<Rightarrow> queue \<Rightarrow> bool" where
  "isSupervisorState E q \<longleftrightarrow>
     length q \<le> maxTasks E \<and> length (js_unique (map task_id q)) = length q \<and>
     list_all (isSupervisorTask E) q \<and>
     list_all (\<lambda>t. \<not> list_ex (\<lambda>d. d = task_id t) (dependency_ids t)) q \<and>
     \<not> hasDependencyCycle (map (\<lambda>t. (task_id t, dependency_ids t)) q)"

definition readSupervisorState :: "supervisor_env \<Rightarrow> queue option \<Rightarrow> js_error + queue" where
  "readSupervisorState E file =
     (case file of None \<Rightarrow> Inr []
      | Some q \<Rightarrow> if isSupervisorState E q then Inr q else Inl (Error ''invalid_supervisor_state''))"

section \<open>Helpers\<close>

definition bounded_error :: "string \<Rightarrow> string" where
  "bounded_error s = take MAX_ERROR_CHARS s"

definition assertSupervisorTimestamp :: "stamp \<Rightarrow> js_error + unit" where
  "assertSupervisorTimestamp t = (if valid_stamp t then Inr () else Inl (Error ''invalid_supervisor_timestamp''))"

definition boundedIntegerInput :: "js_number option \<Rightarrow> int \<Rightarrow> int \<Rightarrow> int \<Rightarrow> js_error + int" where
  "boundedIntegerInput v fallback minimum maximum =
     (case v of None \<Rightarrow> Inr fallback
      | Some n \<Rightarrow> (case safe_integer_of n of None \<Rightarrow> Inl (Error ''invalid_supervisor_numeric_input'')
          | Some i \<Rightarrow> Inr (min maximum (max minimum i))))"

definition retry_delay :: "supervisor_env \<Rightarrow> supervisor_task \<Rightarrow> int" where
  "retry_delay E t = min (maxRetryDelayMs E) (baseRetryDelayMs E * 2 ^ nat (max 0 (attempt t - 1)))"

definition retry_at :: "supervisor_env \<Rightarrow> supervisor_task \<Rightarrow> stamp \<Rightarrow> js_error + stamp" where
  "retry_at E t now =
     (case date_parse now of None \<Rightarrow> Inl RangeError | Some ms \<Rightarrow> toISOString (ms + retry_delay E t))"

text \<open>The written state is read back: the handoffs are as \<open>JSON.parse\<close> gives them.\<close>

definition written_queue :: "queue \<Rightarrow> queue" where
  "written_queue q = map (\<lambda>t. t\<lparr>handoff := stringify (handoff t)\<rparr>) q"

definition publish :: "supervisor_env \<Rightarrow> queue \<Rightarrow> queue \<Rightarrow> queue \<times> (js_error + unit)" where
  "publish E next q =
     (if \<not> fits_queue E next then (q, Inl (Error ''supervisor_state_too_large''))
      else if \<not> isSupervisorState E (written_queue next) then (q, Inl (Error ''invalid_supervisor_state''))
      else (written_queue next, Inr ()))"

definition find_task :: "string \<Rightarrow> queue \<Rightarrow> supervisor_task option" where
  "find_task i q = List.find (\<lambda>t. task_id t = i) q"

definition require :: "string \<Rightarrow> queue \<Rightarrow> js_error + supervisor_task" where
  "require i q = (case find_task i q of None \<Rightarrow> Inl (Error ''task_not_found'') | Some t \<Rightarrow> Inr t)"

definition replace :: "supervisor_env \<Rightarrow> supervisor_task \<Rightarrow> queue \<Rightarrow> queue \<times> (js_error + supervisor_task)" where
  "replace E t q =
     (case publish E (map (\<lambda>c. if task_id c = task_id t then t else c) q) q of
        (q', Inl e) \<Rightarrow> (q', Inl e)
      | (q', Inr _) \<Rightarrow> (q', require (task_id t) q'))"

definition dependenciesComplete :: "queue \<Rightarrow> supervisor_task \<Rightarrow> bool" where
  "dependenciesComplete q t \<longleftrightarrow>
     list_all (\<lambda>d. case find_task d q of None \<Rightarrow> False | Some c \<Rightarrow> status c = Completed) (dependency_ids t)"

definition requeue :: "supervisor_env \<Rightarrow> supervisor_task \<Rightarrow> string \<Rightarrow> stamp \<Rightarrow> string \<Rightarrow> js_error + supervisor_task" where
  "requeue E t reason now attemptDelta =
     bind_result (retry_at E t now) (\<lambda>next. Inr (t\<lparr>status := Queued, run_started_at := None, updated_at := now,
       next_attempt_at := next, last_error := Some reason,
       attempt_delta_hash := Some (sha256 E attemptDelta)\<rparr>))"

definition recoveredTask :: "supervisor_env \<Rightarrow> supervisor_task \<Rightarrow> stamp \<Rightarrow> js_error + supervisor_task" where
  "recoveredTask E t now =
     (if attempt t \<ge> max_attempts t
      then Inr (t\<lparr>status := Failed, run_started_at := None, updated_at := now,
                  last_error := Some ''recovered_attempt_limit''\<rparr>)
      else requeue E t ''recovered_after_restart'' now ''retry_after_process_restart'')"

section \<open>Operations\<close>

definition json_string :: "json option \<Rightarrow> string option" where
  "json_string v = (case v of Some (JStr s) \<Rightarrow> Some s | _ \<Rightarrow> None)"

definition new_task :: "enqueue_input \<Rightarrow> stamp \<Rightarrow> int \<Rightarrow> int \<Rightarrow> string list \<Rightarrow> supervisor_task" where
  "new_task i now maxAttempts timeoutMs dependencyIds =
     (let h = in_handoff i; waits = in_requiresApproval i \<and> \<not> in_approvalGranted i in
      \<lparr>task_id = in_taskId i,
       session_id = (case in_sessionId i of Some s \<Rightarrow> Some s | None \<Rightarrow> json_string (field ''sessionId'' h)),
       handoff = h,
       handoff_ref = \<lparr>ref_handoff_id = (case json_string (field ''handoffId'' h) of Some s \<Rightarrow> s | None \<Rightarrow> ''undefined''),
         ref_packet_hash = (case json_string (field ''packet_hash'' h) of Some s \<Rightarrow> s | None \<Rightarrow> []),
         ref_task_packet_ref = json_string (field ''taskPacketRef'' h)\<rparr>,
       status = (if waits then Blocked else Queued), attempt = 0, max_attempts = maxAttempts,
       timeout_ms = timeoutMs, queued_at = now, updated_at = now, next_attempt_at = now,
       run_started_at = None, blocked_reason = (if waits then Some ''approval_required'' else None),
       last_error = None, attempt_delta_hash = None, dependency_ids = dependencyIds,
       requires_approval = in_requiresApproval i, approval_granted = in_approvalGranted i\<rparr>)"

definition enqueue :: "supervisor_env \<Rightarrow> enqueue_input \<Rightarrow> stamp \<Rightarrow> queue \<Rightarrow> queue \<times> (js_error + supervisor_task)" where
  "enqueue E i now q =
     (if js_trim (in_taskId i) = [] then (q, Inl (Error ''invalid_task_id''))
      else if string_length (field ''prompt'' (in_handoff i)) > maxPromptChars E
        then (q, Inl (Error ''supervisor_prompt_too_large''))
      else if list_ex (\<lambda>t. task_id t = in_taskId i) q then (q, Inl (Error ''task_already_exists''))
      else if length q \<ge> maxTasks E then (q, Inl (Error ''supervisor_queue_full''))
      else
        (case bind_result (assertSupervisorTimestamp now) (\<lambda>_.
                bind_result (boundedIntegerInput (in_maxAttempts i) 2 1 MAX_ATTEMPTS) (\<lambda>maxAttempts.
                bind_result (boundedIntegerInput (in_timeoutMs i) DEFAULT_TIMEOUT_MS 1000 MAX_SAFE_INTEGER) (\<lambda>timeoutMs.
                Inr (maxAttempts, timeoutMs)))) of
           Inl e \<Rightarrow> (q, Inl e)
         | Inr (maxAttempts, timeoutMs) \<Rightarrow>
             let dependencyIds = take MAX_DEPENDENCIES (js_unique (in_dependencyIds i));
                 graph = map (\<lambda>t. (task_id t, dependency_ids t)) q @ [(in_taskId i, dependencyIds)]
             in if list_ex (\<lambda>d. js_trim d = [] \<or> d = in_taskId i) dependencyIds \<or> hasDependencyCycle graph
                then (q, Inl (Error ''invalid_task_dependency''))
                else
                  (case publish E (q @ [new_task i now maxAttempts timeoutMs dependencyIds]) q of
                     (q', Inl e) \<Rightarrow> (q', Inl e)
                   | (q', Inr _) \<Rightarrow> (q', require (in_taskId i) q'))))"

text \<open>\<open>attempt\<close> of a pure guard followed by a replacement.\<close>

definition guarded :: "(js_error + supervisor_task) \<Rightarrow> supervisor_env \<Rightarrow> queue \<Rightarrow> queue \<times> (js_error + supervisor_task)" where
  "guarded r E q = (case r of Inl e \<Rightarrow> (q, Inl e) | Inr t \<Rightarrow> replace E t q)"

definition approve :: "supervisor_env \<Rightarrow> string \<Rightarrow> stamp \<Rightarrow> queue \<Rightarrow> queue \<times> (js_error + supervisor_task)" where
  "approve E i now q = guarded
     (bind_result (assertSupervisorTimestamp now) (\<lambda>_.
      bind_result (require i q) (\<lambda>t.
      if status t \<noteq> Blocked \<or> \<not> requires_approval t then Inl (Error ''task_not_approval_blocked'')
      else Inr (t\<lparr>status := Queued, approval_granted := True, blocked_reason := None, updated_at := now,
                  next_attempt_at := now\<rparr>)))) E q"

definition expired :: "int \<Rightarrow> supervisor_task \<Rightarrow> bool" where
  "expired clock t \<longleftrightarrow>
     status t = Running \<and>
     (case run_started_at t of None \<Rightarrow> False
      | Some s \<Rightarrow> (case date_parse s of None \<Rightarrow> True | Some ms \<Rightarrow> ms + timeout_ms t \<le> clock))"

definition reconcile :: "supervisor_env \<Rightarrow> stamp \<Rightarrow> queue \<Rightarrow> queue \<times> (js_error + unit)" where
  "reconcile E now q =
     (case date_parse now of
        None \<Rightarrow> (q, Inl (Error ''invalid_supervisor_timestamp''))
      | Some clock \<Rightarrow>
          (case map_result (\<lambda>t.
                  if \<not> expired clock t then Inr t
                  else if attempt t \<ge> max_attempts t
                    then Inr (t\<lparr>status := Failed, run_started_at := None, updated_at := now,
                                last_error := Some ''timeout''\<rparr>)
                  else requeue E t ''timeout'' now ''retry_after_timeout'') q of
             Inl e \<Rightarrow> (q, Inl e)
           | Inr changed \<Rightarrow> if list_ex (expired clock) q then publish E changed q else (q, Inr ())))"

definition claimable_at :: "int \<Rightarrow> queue \<Rightarrow> supervisor_task \<Rightarrow> bool" where
  "claimable_at clock q t \<longleftrightarrow>
     status t = Queued \<and> (case date_parse (next_attempt_at t) of None \<Rightarrow> False | Some ms \<Rightarrow> ms \<le> clock) \<and>
     dependenciesComplete q t"

definition peekClaimable :: "supervisor_env \<Rightarrow> stamp \<Rightarrow> queue \<Rightarrow> queue \<times> (js_error + supervisor_task option)" where
  "peekClaimable E now q =
     (case date_parse now of
        None \<Rightarrow> (q, Inl (Error ''invalid_supervisor_timestamp''))
      | Some clock \<Rightarrow>
          (case reconcile E now q of
             (q', Inl e) \<Rightarrow> (q', Inl e)
           | (q', Inr _) \<Rightarrow> (q', Inr (List.find (claimable_at clock q') q'))))"

definition claim :: "supervisor_env \<Rightarrow> stamp \<Rightarrow> queue \<Rightarrow> queue \<times> (js_error + supervisor_task option)" where
  "claim E now q =
     (case peekClaimable E now q of
        (q', Inl e) \<Rightarrow> (q', Inl e)
      | (q', Inr None) \<Rightarrow> (q', Inr None)
      | (q', Inr (Some t)) \<Rightarrow>
          (case replace E (t\<lparr>status := Running, attempt := attempt t + 1, run_started_at := Some now,
                             updated_at := now, last_error := None\<rparr>) q' of
             (q2, Inl e) \<Rightarrow> (q2, Inl e)
           | (q2, Inr t') \<Rightarrow> (q2, Inr (Some t'))))"

text \<open>\<open>transition\<close> with its \<open>extra\<close> fields as a function on the task.\<close>

definition transition :: "supervisor_env \<Rightarrow> string \<Rightarrow> task_status \<Rightarrow> stamp \<Rightarrow> (supervisor_task \<Rightarrow> supervisor_task) \<Rightarrow>
    queue \<Rightarrow> queue \<times> (js_error + supervisor_task)" where
  "transition E i st now extra q = guarded
     (bind_result (assertSupervisorTimestamp now) (\<lambda>_.
      bind_result (require i q) (\<lambda>t. Inr ((extra t)\<lparr>status := st, updated_at := now\<rparr>)))) E q"

definition complete :: "supervisor_env \<Rightarrow> string \<Rightarrow> stamp \<Rightarrow> queue \<Rightarrow> queue \<times> (js_error + supervisor_task)" where
  "complete E i now q = transition E i Completed now (\<lambda>t. t\<lparr>run_started_at := None, blocked_reason := None\<rparr>) q"

definition fail_transition :: "supervisor_env \<Rightarrow> string \<Rightarrow> string \<Rightarrow> stamp \<Rightarrow> queue \<Rightarrow> queue \<times> (js_error + supervisor_task)" where
  "fail_transition E i reason now q =
     transition E i Failed now (\<lambda>t. t\<lparr>run_started_at := None, last_error := Some (bounded_error reason)\<rparr>) q"

definition retry :: "supervisor_env \<Rightarrow> string \<Rightarrow> string \<Rightarrow> stamp \<Rightarrow> string option \<Rightarrow> queue \<Rightarrow>
    queue \<times> (js_error + supervisor_task)" where
  "retry E i reason now delta q =
     (case bind_result (assertSupervisorTimestamp now) (\<lambda>_. require i q) of
        Inl e \<Rightarrow> (q, Inl e)
      | Inr t \<Rightarrow>
          if status t \<noteq> Running \<and> status t \<noteq> Failed then (q, Inl (Error ''task_not_retryable''))
          else if attempt t \<ge> max_attempts t then fail_transition E i reason now q
          else
            let attemptDelta = (case delta of None \<Rightarrow> [] | Some d \<Rightarrow> js_trim d)
            in if attemptDelta = [] then (q, Inl (Error ''attempt_delta_missing''))
               else guarded (bind_result (retry_at E t now) (\<lambda>next. Inr (t\<lparr>status := Queued,
                 run_started_at := None, updated_at := now, next_attempt_at := next,
                 last_error := Some (bounded_error reason),
                 attempt_delta_hash := Some (sha256 E attemptDelta)\<rparr>))) E q)"

definition fail :: "supervisor_env \<Rightarrow> string \<Rightarrow> string \<Rightarrow> stamp \<Rightarrow> string option \<Rightarrow> queue \<Rightarrow>
    queue \<times> (js_error + supervisor_task)" where
  "fail E i reason now delta q =
     (case bind_result (assertSupervisorTimestamp now) (\<lambda>_. require i q) of
        Inl e \<Rightarrow> (q, Inl e)
      | Inr t \<Rightarrow>
          if status t \<noteq> Running then (q, Inl (Error ''task_not_running''))
          else if attempt t < max_attempts t then retry E i reason now delta q
          else fail_transition E i reason now q)"

definition cancel :: "supervisor_env \<Rightarrow> string \<Rightarrow> string \<Rightarrow> stamp \<Rightarrow> queue \<Rightarrow> queue \<times> (js_error + supervisor_task)" where
  "cancel E i reason now q =
     (case require i q of
        Inl e \<Rightarrow> (q, Inl e)
      | Inr t \<Rightarrow>
          if status t \<in> {Completed, Failed, Cancelled} then (q, Inl (Error ''task_already_terminal''))
          else transition E i Cancelled now (\<lambda>t. t\<lparr>run_started_at := None,
                 last_error := Some (bounded_error reason), blocked_reason := None\<rparr>) q)"

definition recover :: "supervisor_env \<Rightarrow> stamp \<Rightarrow> queue \<Rightarrow> queue \<times> (js_error + queue)" where
  "recover E now q =
     (if \<not> valid_stamp now then (q, Inl (Error ''invalid_supervisor_timestamp''))
      else case map_result (\<lambda>t. if status t = Running then recoveredTask E t now else Inr t) q of
        Inl e \<Rightarrow> (q, Inl e)
      | Inr changed \<Rightarrow>
          (case publish E changed q of (q', Inl e) \<Rightarrow> (q', Inl e) | (q', Inr _) \<Rightarrow> (q', Inr q')))"

section \<open>Dispatching a claimed task\<close>

text \<open>What the awaited dispatcher gives: a result, or a thrown value. While it is awaited other calls may
  change the queue, so it is a function of the queue as well. The clock is read again after it
  (\<open>later\<close>).\<close>

record dispatch_result =
  dispatch_refused :: bool
  dispatch_reason :: string

fun error_message :: "js_error \<Rightarrow> string" where
  "error_message (Error m) = m"
| "error_message RangeError = ''Invalid time value''"
| "error_message NonError = ''dispatch_failed''"

definition dispatchClaimed ::
  "supervisor_env \<Rightarrow> stamp \<Rightarrow> (json \<Rightarrow> queue \<Rightarrow> queue \<times> (js_error + dispatch_result)) \<Rightarrow> string \<Rightarrow>
   queue \<Rightarrow> queue \<times> (js_error + dispatch_result)" where
  "dispatchClaimed E later dispatch i q =
     (case require i q of
        Inl e \<Rightarrow> (q, Inl e)
      | Inr t \<Rightarrow>
          if status t \<noteq> Running then (q, Inl (Error ''task_not_running''))
          else
            let (q2, r2) = (case dispatch (handoff t) q of
                (q1, Inl e) \<Rightarrow> (q1, Inl e)
              | (q1, Inr res) \<Rightarrow>
                  (case (if dispatch_refused res then fail E i (dispatch_reason res) later (Some (''retry_after_refusal:'' @ dispatch_reason res)) q1
                         else complete E i later q1) of
                     (q1', Inl e) \<Rightarrow> (q1', Inl e)
                   | (q1', Inr _) \<Rightarrow> (q1', Inr res)))
            in (case r2 of
                  Inr res \<Rightarrow> (q2, Inr res)
                | Inl e \<Rightarrow>
                    (case fail E i (error_message e) later (Some ''retry_after_dispatch_exception'') q2 of
                       (q3, Inl e') \<Rightarrow> (q3, Inl e')
                     | (q3, Inr _) \<Rightarrow> (q3, Inl e))))"

definition runOnce ::
  "supervisor_env \<Rightarrow> stamp \<Rightarrow> stamp \<Rightarrow> (json \<Rightarrow> queue \<Rightarrow> queue \<times> (js_error + dispatch_result)) \<Rightarrow>
   queue \<Rightarrow> queue \<times> (js_error + (supervisor_task \<times> dispatch_result) option)" where
  "runOnce E now later dispatch q =
     (case claim E now q of
        (q', Inl e) \<Rightarrow> (q', Inl e)
      | (q', Inr None) \<Rightarrow> (q', Inr None)
      | (q', Inr (Some t)) \<Rightarrow>
          (case dispatchClaimed E later dispatch (task_id t) q' of
             (q2, Inl e) \<Rightarrow> (q2, Inl e)
           | (q2, Inr res) \<Rightarrow>
               (case require (task_id t) q2 of Inl e \<Rightarrow> (q2, Inl e) | Inr t' \<Rightarrow> (q2, Inr (Some (t', res))))))"

end
