(* ===== verification/SupervisorGraph.thy ===== *)
theory SupervisorGraph
  imports SupervisorQueue
begin

text \<open>
  The depth-first search of \<open>hasDependencyCycle\<close> is correct and its fuel is always enough: it answers
  true exactly when the dependency graph has a cycle.
\<close>

definition edges :: "(string \<Rightarrow> string list option) \<Rightarrow> (string \<times> string) set" where
  "edges deps = {(t, d). \<exists>ds. deps t = Some ds \<and> d \<in> set ds}"

definition finished :: "(string \<Rightarrow> string list option) \<Rightarrow> string set \<Rightarrow> bool" where
  "finished deps V \<longleftrightarrow> (\<forall>v \<in> V. \<forall>d. (v, d) \<in> edges deps \<longrightarrow> d \<in> V) \<and> (\<forall>v \<in> V. (v, v) \<notin> (edges deps)\<^sup>+)"

lemma finished_closed: "finished deps V \<Longrightarrow> v \<in> V \<Longrightarrow> (v, w) \<in> (edges deps)\<^sup>* \<Longrightarrow> w \<in> V"
  by (rotate_tac 2, induction rule: rtrancl_induct) (auto simp: finished_def)

lemma finished_insert:
  assumes "finished deps V" and "t \<notin> V" and "\<forall>d. (t, d) \<in> edges deps \<longrightarrow> d \<in> V"
  shows "finished deps (insert t V)"
proof -
  have "(t, t) \<notin> (edges deps)\<^sup>+"
  proof
    assume "(t, t) \<in> (edges deps)\<^sup>+"
    then obtain d where "(t, d) \<in> edges deps" "(d, t) \<in> (edges deps)\<^sup>*" by (meson tranclD)
    then show False using finished_closed [OF assms(1)] assms(2,3) by blast
  qed
  with assms show ?thesis by (auto simp: finished_def)
qed

text \<open>A search that returns leaves every node it was asked for finished, and no node of the current path.\<close>

lemma visit_Visited:
  "visit n deps act vis t = Visited vs \<Longrightarrow> finished deps (set vis) \<Longrightarrow> set vis \<inter> set act = {} \<Longrightarrow>
     finished deps (set vs) \<and> insert t (set vis) \<subseteq> set vs \<and> set vs \<inter> set act = {}"
  "visit_some n deps act vis ts = Visited vs \<Longrightarrow> finished deps (set vis) \<Longrightarrow> set vis \<inter> set act = {} \<Longrightarrow>
     finished deps (set vs) \<and> set ts \<union> set vis \<subseteq> set vs \<and> set vs \<inter> set act = {}"
proof (induction n deps act vis t and n deps act vis ts arbitrary: vs and vs rule: visit_visit_some.induct)
  case (2 n deps act vis t)
  show ?case
  proof (cases "t \<in> set act \<or> t \<in> set vis")
    case True
    with 2 show ?thesis by (auto split: if_splits)
  next
    case False
    let ?ds = "case deps t of None \<Rightarrow> [] | Some ds \<Rightarrow> ds"
    from 2(2) False obtain vs' where vs': "visit_some n deps (t # act) vis ?ds = Visited vs'" "vs = t # vs'"
      by (auto split: visit_result.splits)
    have IH: "finished deps (set vs')" "set ?ds \<union> set vis \<subseteq> set vs'" "set vs' \<inter> set (t # act) = {}"
      using 2(1) [OF _ _ vs'(1) 2(3)] 2(4) False by auto
    have "finished deps (insert t (set vs'))"
      using IH by (intro finished_insert) (auto simp: edges_def)
    with IH vs'(2) False show ?thesis by auto
  qed
next
  case (4 n deps act vis t ts)
  from 4(3) obtain v1 where v1: "visit n deps act vis t = Visited v1" "visit_some n deps act v1 ts = Visited vs"
    by (auto split: visit_result.splits)
  have "finished deps (set v1) \<and> insert t (set vis) \<subseteq> set v1 \<and> set v1 \<inter> set act = {}"
    using 4(1) [OF v1(1) 4(4,5)] .
  then show ?case using 4(2) [OF v1(1) v1(2)] by auto
qed auto

text \<open>A cycle that is reported is one: the nodes of the current path reach the node being visited.\<close>

lemma visit_Cycle:
  "visit n deps act vis t = Cycle \<Longrightarrow> \<forall>a \<in> set act. (a, t) \<in> (edges deps)\<^sup>+ \<Longrightarrow>
     \<exists>x. (x, x) \<in> (edges deps)\<^sup>+"
  "visit_some n deps act vis ts = Cycle \<Longrightarrow> \<forall>t \<in> set ts. \<forall>a \<in> set act. (a, t) \<in> (edges deps)\<^sup>+ \<Longrightarrow>
     \<exists>x. (x, x) \<in> (edges deps)\<^sup>+"
proof (induction n deps act vis t and n deps act vis ts rule: visit_visit_some.induct)
  case (2 n deps act vis t)
  show ?case
  proof (cases "t \<in> set act \<or> t \<in> set vis")
    case True
    with 2 show ?thesis by (auto split: if_splits)
  next
    case False
    let ?ds = "case deps t of None \<Rightarrow> [] | Some ds \<Rightarrow> ds"
    have "visit_some n deps (t # act) vis ?ds = Cycle"
      using 2(2) False by (auto split: visit_result.splits)
    moreover have "\<forall>d \<in> set ?ds. \<forall>a \<in> set (t # act). (a, d) \<in> (edges deps)\<^sup>+"
    proof (intro ballI)
      fix d a assume d: "d \<in> set ?ds" and a: "a \<in> set (t # act)"
      then have e: "(t, d) \<in> edges deps" by (cases "deps t") (auto simp: edges_def)
      then show "(a, d) \<in> (edges deps)\<^sup>+" using a 2(3) by (auto intro: trancl_into_trancl)
    qed
    ultimately show ?thesis using 2(1) False by blast
  qed
next
  case (4 n deps act vis t ts)
  then show ?case by (auto split: visit_result.splits)
qed auto

text \<open>A path visits a node with dependencies at most once, so the depth is at most their number.\<close>

lemma visit_fuel:
  "finite (dom deps) \<Longrightarrow> card (dom deps - set act) < n \<Longrightarrow> visit n deps act vis t \<noteq> NoFuel"
  "finite (dom deps) \<Longrightarrow> ts = [] \<or> card (dom deps - set act) < n \<Longrightarrow> visit_some n deps act vis ts \<noteq> NoFuel"
proof (induction n deps act vis t and n deps act vis ts rule: visit_visit_some.induct)
  case (2 n deps act vis t)
  show ?case
  proof (cases "t \<in> set act \<or> t \<in> set vis")
    case False
    let ?ds = "case deps t of None \<Rightarrow> [] | Some ds \<Rightarrow> ds"
    have "?ds = [] \<or> card (dom deps - set (t # act)) < n"
    proof (cases "deps t")
      case (Some ds)
      have "card (dom deps - set (t # act)) < card (dom deps - set act)"
        using False Some 2(2) by (intro psubset_card_mono) auto
      with 2(3) show ?thesis by simp
    qed simp
    with 2(1) [OF _ _ 2(2)] False show ?thesis by (auto split: visit_result.splits)
  qed auto
next
  case (4 n deps act vis t ts)
  then show ?case by (auto split: visit_result.splits)
qed auto

lemma dependency_map_dom: "dom (dependency_map nodes) = set (map fst nodes)"
proof -
  have "dom (fold (\<lambda>(t, ds) m. m(t \<mapsto> ds)) nodes m) = dom m \<union> set (map fst nodes)" for m :: "string \<Rightarrow> string list option"
    by (induction nodes arbitrary: m) auto
  then show ?thesis by (simp add: dependency_map_def)
qed

lemma dependency_map_distinct:
  assumes "distinct (map fst nodes)"
  shows "dependency_map nodes = map_of nodes"
proof -
  have "fold (\<lambda>(t, ds) m. m(t \<mapsto> ds)) nodes m = m ++ map_of nodes" if "distinct (map fst nodes)"
    for m :: "string \<Rightarrow> string list option"
    using that
  proof (induction nodes arbitrary: m)
    case (Cons e nodes)
    obtain t ds where e: "e = (t, ds)" by (cases e)
    have "t \<notin> dom (map_of nodes)" using Cons.prems by (simp add: e dom_map_of_conv_image_fst)
    with Cons show ?case by (auto simp: e map_add_def fun_eq_iff split: option.splits)
  qed simp
  with assms show ?thesis by (simp add: dependency_map_def)
qed

text \<open>Fuel above the number of tasks is enough for every visit, whatever the current path is.\<close>

lemma search_ends:
  assumes "length nodes < n"
  shows "visit n (dependency_map nodes) act vis t \<noteq> NoFuel" and "visit_some n (dependency_map nodes) act vis ts \<noteq> NoFuel"
proof -
  have fin: "finite (dom (dependency_map nodes))" by (simp add: dependency_map_dom)
  have "card (dom (dependency_map nodes) - set act) \<le> card (dom (dependency_map nodes))"
    by (intro card_mono fin) blast
  also have "\<dots> \<le> length nodes" unfolding dependency_map_dom by (metis card_length length_map)
  finally have "card (dom (dependency_map nodes) - set act) < n" using assms by simp
  then show "visit n (dependency_map nodes) act vis t \<noteq> NoFuel" "visit_some n (dependency_map nodes) act vis ts \<noteq> NoFuel"
    using visit_fuel fin by blast+
qed

text \<open>A search that ends gives the same answer with more fuel.\<close>

lemma visit_Suc:
  "visit n deps act vis t \<noteq> NoFuel \<Longrightarrow> visit (Suc n) deps act vis t = visit n deps act vis t"
  "visit_some n deps act vis ts \<noteq> NoFuel \<Longrightarrow> visit_some (Suc n) deps act vis ts = visit_some n deps act vis ts"
proof (induction n deps act vis t and n deps act vis ts rule: visit_visit_some.induct)
  case (2 n deps act vis t)
  show ?case
  proof (cases "t \<in> set act \<or> t \<in> set vis")
    case False
    let ?ds = "case deps t of None \<Rightarrow> [] | Some ds \<Rightarrow> ds"
    have "visit_some n deps (t # act) vis ?ds \<noteq> NoFuel" using 2(2) False by auto
    with 2(1) False have "visit_some (Suc n) deps (t # act) vis ?ds = visit_some n deps (t # act) vis ?ds" by blast
    with False show ?thesis by simp
  qed auto
next
  case (4 n deps act vis t ts)
  then show ?case by (auto split: visit_result.splits simp del: visit.simps(2))
qed simp_all

lemma search_stable:
  assumes "length nodes < n"
  shows "visit_some n (dependency_map nodes) act vis ts = visit_some (Suc (length nodes)) (dependency_map nodes) act vis ts"
  using Suc_leI [OF assms]
proof (induction n rule: dec_induct)
  case (step k)
  have "visit_some k (dependency_map nodes) act vis ts \<noteq> NoFuel" using step(1) by (intro search_ends) simp
  from visit_Suc(2) [OF this] step(3) show ?case by simp
qed simp

theorem hasDependencyCycle_iff:
  "hasDependencyCycle nodes \<longleftrightarrow> (\<exists>x. (x, x) \<in> (edges (dependency_map nodes))\<^sup>+)"
proof -
  let ?deps = "dependency_map nodes" and ?ids = "js_unique (map fst nodes)"
  let ?r = "visit_some (Suc (length nodes)) ?deps [] [] ?ids"
  have fuel: "?r \<noteq> NoFuel" by (rule search_ends) simp
  show ?thesis
  proof (cases ?r)
    case Cycle
    from visit_Cycle(2) [OF this] show ?thesis by (simp add: hasDependencyCycle_def Cycle)
  next
    case (Visited vs)
    have fin: "finished ?deps (set vs)" and ids: "set ?ids \<subseteq> set vs"
      using visit_Visited(2) [OF Visited] by (auto simp: finished_def)
    have "(x, x) \<notin> (edges ?deps)\<^sup>+" for x
    proof
      assume x: "(x, x) \<in> (edges ?deps)\<^sup>+"
      then obtain d where "(x, d) \<in> edges ?deps" by (meson tranclD)
      then have "x \<in> dom ?deps" by (auto simp: edges_def)
      then have "x \<in> set vs" using ids by (auto simp: dependency_map_dom)
      with fin x show False by (simp add: finished_def)
    qed
    then show ?thesis by (simp add: hasDependencyCycle_def Visited)
  qed (use fuel in simp)
qed

text \<open>An acyclic graph on finitely many nodes with dependencies has, in every non-empty set of nodes, one
  none of whose dependencies is in the set.\<close>

lemma acyclic_minimal:
  assumes "\<not> hasDependencyCycle nodes" and "x \<in> S"
  shows "\<exists>t \<in> S. \<forall>d. (t, d) \<in> edges (dependency_map nodes) \<longrightarrow> d \<notin> S"
proof -
  let ?E = "edges (dependency_map nodes)"
  have "?E = (\<Union>t \<in> dom (dependency_map nodes). {t} \<times> set (the (dependency_map nodes t)))"
    by (fastforce simp: edges_def)
  moreover have "finite (dom (dependency_map nodes))" by (simp add: dependency_map_dom)
  ultimately have "finite ?E" by simp
  moreover have "acyclic ?E" using assms(1) by (auto simp: hasDependencyCycle_iff acyclic_def)
  ultimately have "wf (?E\<inverse>)" by (simp add: finite_acyclic_wf_converse)
  from wfE_min [OF this assms(2)] obtain t where "t \<in> S" "\<And>d. (d, t) \<in> ?E\<inverse> \<Longrightarrow> d \<notin> S" by metis
  then show ?thesis by blast
qed

end
