(* ===== verification/SupervisorLaws.thy ===== *)
theory SupervisorLaws
  imports SupervisorGraph
begin

text \<open>
  The abstract specification of the queue: which changes one task may make (\<open>task_change\<close>) and what one
  published write may do to the queue (\<open>queue_step\<close>). Every operation of the code is a sequence of such
  steps; the invariants are proved once on the steps.
\<close>

section \<open>Changes of one task\<close>

inductive task_change :: "queue \<Rightarrow> supervisor_task \<Rightarrow> supervisor_task \<Rightarrow> bool" for q where
  change_approve: "status t = Blocked \<Longrightarrow> requires_approval t \<Longrightarrow>
     task_change q t (t\<lparr>status := Queued, approval_granted := True, blocked_reason := None, updated_at := now,
       next_attempt_at := now\<rparr>)"
| change_claim: "status t = Queued \<Longrightarrow> dependenciesComplete q t \<Longrightarrow>
     task_change q t (t\<lparr>status := Running, attempt := attempt t + 1, run_started_at := Some now,
       updated_at := now, last_error := None\<rparr>)"
| change_requeue: "status t \<in> {Running, Failed} \<Longrightarrow> attempt t < max_attempts t \<Longrightarrow>
     task_change q t (t\<lparr>status := Queued, run_started_at := None, updated_at := now, next_attempt_at := next,
       last_error := e, attempt_delta_hash := h\<rparr>)"
| change_fail: "status t \<in> {Running, Failed} \<Longrightarrow> max_attempts t \<le> attempt t \<Longrightarrow>
     task_change q t (t\<lparr>status := Failed, run_started_at := None, updated_at := now, last_error := e\<rparr>)"
| change_complete:
     "task_change q t (t\<lparr>status := Completed, run_started_at := None, updated_at := now, blocked_reason := None\<rparr>)"
| change_cancel: "status t \<notin> {Completed, Failed, Cancelled} \<Longrightarrow>
     task_change q t (t\<lparr>status := Cancelled, run_started_at := None, updated_at := now, last_error := e,
       blocked_reason := None\<rparr>)"

inductive_cases task_changeE: "task_change q t t'"

lemma task_change_frame:
  "task_change q t t' \<Longrightarrow> task_id t' = task_id t \<and> max_attempts t' = max_attempts t \<and>
     dependency_ids t' = dependency_ids t \<and> requires_approval t' = requires_approval t \<and>
     handoff t' = handoff t \<and> (approval_granted t \<longrightarrow> approval_granted t') \<and>
     attempt t \<le> attempt t' \<and> (status t = Completed \<longrightarrow> status t' = Completed)"
  by (erule task_changeE) auto

section \<open>Published writes\<close>

definition fresh_task :: "supervisor_task \<Rightarrow> bool" where
  "fresh_task t \<longleftrightarrow> attempt t = 0 \<and>
     status t = (if requires_approval t \<and> \<not> approval_granted t then Blocked else Queued)"

inductive queue_step :: "supervisor_env \<Rightarrow> queue \<Rightarrow> queue \<Rightarrow> bool" for E where
  step_update: "\<forall>t \<in> set q. f t = t \<or> task_change q t (f t) \<Longrightarrow> isSupervisorState E (written_queue (map f q)) \<Longrightarrow>
     queue_step E q (written_queue (map f q))"
| step_append: "fresh_task t \<Longrightarrow> task_id t \<notin> task_id ` set q \<Longrightarrow> isSupervisorState E (written_queue (q @ [t])) \<Longrightarrow>
     queue_step E q (written_queue (q @ [t]))"

inductive_cases queue_stepE: "queue_step E q q'"

abbreviation queue_steps :: "supervisor_env \<Rightarrow> queue \<Rightarrow> queue \<Rightarrow> bool" where
  "queue_steps E \<equiv> (queue_step E)\<^sup>*\<^sup>*"

lemma queue_step_valid: "queue_step E q q' \<Longrightarrow> isSupervisorState E q'"
  by (erule queue_stepE) simp_all

lemma queue_steps_valid: "queue_steps E q q' \<Longrightarrow> isSupervisorState E q \<Longrightarrow> isSupervisorState E q'"
  by (induction rule: rtranclp_induct) (auto dest: queue_step_valid)

lemma valid_ids: "isSupervisorState E q \<Longrightarrow> distinct (map task_id q)"
  using length_js_unique_eq [of "map task_id q"] by (simp add: isSupervisorState_def)

lemma find_taskD: "find_task i q = Some t \<Longrightarrow> t \<in> set q \<and> task_id t = i"
  unfolding find_task_def by (drule find_SomeD) simp

lemma find_task_mem: "distinct (map task_id q) \<Longrightarrow> t \<in> set q \<Longrightarrow> find_task (task_id t) q = Some t"
  by (induction q) (auto simp: find_task_def)

lemma require_Inr: "require i q = Inr t \<longleftrightarrow> find_task i q = Some t"
  by (simp add: require_def split: option.splits)

lemma publish_cases:
  "publish E next q = (q', r) \<Longrightarrow>
     q' = q \<and> (\<exists>e. r = Inl e) \<or> q' = written_queue next \<and> r = Inr () \<and> isSupervisorState E q'"
  by (auto simp: publish_def split: if_splits)

lemma publish_map_steps:
  "\<forall>t \<in> set q. f t = t \<or> task_change q t (f t) \<Longrightarrow> publish E (map f q) q = (q', r) \<Longrightarrow> queue_steps E q q'"
  using publish_cases [of E "map f q" q q' r] step_update [of q f E] by auto

lemma replace_fst: "fst (replace E t' q) = fst (publish E (map (\<lambda>c. if task_id c = task_id t' then t' else c) q) q)"
  by (simp add: replace_def split: prod.splits sum.splits)

lemma replace_steps:
  assumes "isSupervisorState E q" and t: "find_task i q = Some t" and ch: "task_change q t t'"
  shows "queue_steps E q (fst (replace E t' q))"
proof -
  let ?f = "\<lambda>c. if task_id c = task_id t' then t' else c"
  obtain q' r where p: "publish E (map ?f q) q = (q', r)" by fastforce
  have "\<forall>c \<in> set q. ?f c = c \<or> task_change q c (?f c)"
  proof
    fix c assume "c \<in> set q"
    then have "task_id c = task_id t \<Longrightarrow> c = t"
      using find_taskD [OF t] valid_ids [OF assms(1)] by (auto simp: distinct_map inj_on_def)
    then show "?f c = c \<or> task_change q c (?f c)" using ch task_change_frame [OF ch] by auto
  qed
  from publish_map_steps [OF this p] show ?thesis by (simp add: replace_fst p)
qed

lemma guarded_steps:
  assumes "isSupervisorState E q" and "\<And>t'. r = Inr t' \<Longrightarrow> \<exists>i t. find_task i q = Some t \<and> task_change q t t'"
  shows "queue_steps E q (fst (guarded r E q))"
  using assms replace_steps by (cases r) (fastforce simp: guarded_def)+

section \<open>Every operation is a sequence of steps\<close>

lemma approve_steps:
  assumes "isSupervisorState E q"
  shows "queue_steps E q (fst (approve E i now q))"
  unfolding approve_def using assms
  by (rule guarded_steps) (auto simp: require_Inr split: if_splits intro: change_approve)

lemma complete_steps:
  assumes "isSupervisorState E q"
  shows "queue_steps E q (fst (complete E i now q))"
proof -
  have eq: "t\<lparr>run_started_at := None, blocked_reason := None, status := Completed, updated_at := now\<rparr> =
    t\<lparr>status := Completed, run_started_at := None, updated_at := now, blocked_reason := None\<rparr>" for t :: supervisor_task
    by simp
  show ?thesis
    unfolding complete_def transition_def using assms
    by (rule guarded_steps) (use change_complete in \<open>force simp: require_Inr eq\<close>)
qed

lemma fail_transition_steps:
  assumes "isSupervisorState E q" and "find_task i q = Some t" and "status t \<in> {Running, Failed}"
    and "max_attempts t \<le> attempt t"
  shows "queue_steps E q (fst (fail_transition E i reason now q))"
proof -
  have "task_change q t ((t\<lparr>run_started_at := None, last_error := Some (bounded_error reason)\<rparr>)\<lparr>status := Failed, updated_at := now\<rparr>)"
    using change_fail [OF assms(3,4), where q = q and now = now and e = "Some (bounded_error reason)"]
    by (rule back_subst [where P = "task_change q t"]) simp
  then show ?thesis
    unfolding fail_transition_def transition_def using assms
    by (intro guarded_steps) (auto simp: require_Inr)
qed

lemma retry_steps:
  assumes ok: "isSupervisorState E q"
  shows "queue_steps E q (fst (retry E i reason now delta q))"
proof (cases "bind_result (assertSupervisorTimestamp now) (\<lambda>_. require i q)")
  case (Inr t)
  then have t: "find_task i q = Some t" by (auto simp: require_Inr)
  consider (no) "status t \<noteq> Running \<and> status t \<noteq> Failed" | (fail) "status t \<in> {Running, Failed}" "max_attempts t \<le> attempt t"
    | (retry) "status t \<in> {Running, Failed}" "attempt t < max_attempts t" by fastforce
  then show ?thesis
  proof cases
    case fail
    then show ?thesis using fail_transition_steps [OF ok t] Inr by (auto simp: retry_def)
  next
    case retry
    show ?thesis
    proof (cases "(case delta of None \<Rightarrow> [] | Some d \<Rightarrow> js_trim d) = []")
      case False
      have "queue_steps E q (fst (guarded (bind_result (retry_at E t now) (\<lambda>next. Inr (t\<lparr>status := Queued,
                 run_started_at := None, updated_at := now, next_attempt_at := next,
                 last_error := Some (bounded_error reason),
                 attempt_delta_hash := Some (sha256 E (case delta of None \<Rightarrow> [] | Some d \<Rightarrow> js_trim d))\<rparr>))) E q))"
        using t change_requeue [OF retry]
        by (intro guarded_steps [OF ok]) (auto intro!: exI [of _ i] exI [of _ t])
      with Inr retry False show ?thesis by (auto simp: retry_def Let_def)
    qed (use Inr retry in \<open>auto simp: retry_def Let_def\<close>)
  qed (use Inr in \<open>simp add: retry_def\<close>)
qed (simp add: retry_def)

lemma fail_steps:
  assumes ok: "isSupervisorState E q"
  shows "queue_steps E q (fst (fail E i reason now delta q))"
proof (cases "bind_result (assertSupervisorTimestamp now) (\<lambda>_. require i q)")
  case (Inr t)
  then have "find_task i q = Some t" by (auto simp: require_Inr)
  with Inr retry_steps [OF ok] fail_transition_steps [OF ok] show ?thesis by (auto simp: fail_def)
qed (simp add: fail_def)

lemma cancel_steps:
  assumes ok: "isSupervisorState E q"
  shows "queue_steps E q (fst (cancel E i reason now q))"
proof (cases "require i q")
  case (Inr t)
  then have t: "find_task i q = Some t" by (simp add: require_Inr)
  show ?thesis
  proof (cases "status t \<in> {Completed, Failed, Cancelled}")
    case False
    have "task_change q t ((t\<lparr>run_started_at := None, last_error := Some (bounded_error reason), blocked_reason := None\<rparr>)
        \<lparr>status := Cancelled, updated_at := now\<rparr>)"
      using change_cancel [OF False, where q = q and now = now and e = "Some (bounded_error reason)"]
    by (rule back_subst [where P = "task_change q t"]) simp
    then have "queue_steps E q (fst (transition E i Cancelled now (\<lambda>t. t\<lparr>run_started_at := None,
        last_error := Some (bounded_error reason), blocked_reason := None\<rparr>) q))"
      unfolding transition_def using t by (intro guarded_steps [OF ok]) (auto simp: require_Inr)
    with Inr False show ?thesis by (simp add: cancel_def)
  qed (use Inr in \<open>simp add: cancel_def\<close>)
qed (simp add: cancel_def)

lemma requeue_change:
  assumes "requeue E t e now delta = Inr t'" and "status t \<in> {Running, Failed}" and "attempt t < max_attempts t"
  shows "task_change q t t'"
  using assms change_requeue [OF assms(2,3), where q = q and now = now] by (auto simp: requeue_def)

lemma reconcile_steps:
  assumes "isSupervisorState E q"
  shows "queue_steps E q (fst (reconcile E now q))"
proof (cases "date_parse now")
  case (Some clock)
  let ?f = "\<lambda>t. if \<not> expired clock t then Inr t
      else if attempt t \<ge> max_attempts t
        then Inr (t\<lparr>status := Failed, run_started_at := None, updated_at := now, last_error := Some ''timeout''\<rparr>)
      else requeue E t ''timeout'' now ''retry_after_timeout''"
  show ?thesis
  proof (cases "map_result ?f q")
    case (Inr changed)
    note ch = map_result_Inr [OF Inr]
    have change: "projr (?f t) = t \<or> task_change q t (projr (?f t))" if "t \<in> set q" for t
    proof -
      from ch that have f: "?f t = Inr (projr (?f t))" by blast
      consider "\<not> expired clock t" | "expired clock t" "max_attempts t \<le> attempt t"
        | "expired clock t" "attempt t < max_attempts t" by fastforce
      then show ?thesis
      proof cases
        case 2
        then show ?thesis using change_fail [where t = t and q = q and now = now] by (simp add: expired_def)
      next
        case 3
        then show ?thesis using requeue_change [of E t "''timeout''" now] f by (simp add: expired_def)
      qed simp
    qed
    obtain q' r where p: "publish E changed q = (q', r)" by fastforce
    have "\<forall>t \<in> set q. (\<lambda>t. projr (?f t)) t = t \<or> task_change q t ((\<lambda>t. projr (?f t)) t)"
      using change by blast
    from publish_map_steps [OF this] p have "queue_steps E q q'" using ch by simp
    with Some Inr p show ?thesis by (simp add: reconcile_def)
  qed (simp add: reconcile_def Some)
qed (simp add: reconcile_def)

lemma recover_steps:
  assumes "isSupervisorState E q"
  shows "queue_steps E q (fst (recover E now q))"
proof (cases "valid_stamp now")
  case True
  let ?f = "\<lambda>t. if status t = Running then recoveredTask E t now else Inr t"
  show ?thesis
  proof (cases "map_result ?f q")
    case (Inr changed)
    note ch = map_result_Inr [OF Inr]
    have change: "projr (?f t) = t \<or> task_change q t (projr (?f t))" if "t \<in> set q" for t
    proof -
      from ch that have f: "?f t = Inr (projr (?f t))" by blast
      consider "status t \<noteq> Running" | "status t = Running" "max_attempts t \<le> attempt t"
        | "status t = Running" "attempt t < max_attempts t" by fastforce
      then show ?thesis
      proof cases
        case 2
        then show ?thesis using change_fail [where t = t and q = q and now = now] by (simp add: recoveredTask_def)
      next
        case 3
        then show ?thesis
          using requeue_change [of E t "''recovered_after_restart''" now] f by (simp add: recoveredTask_def)
      qed simp
    qed
    obtain q' r where p: "publish E changed q = (q', r)" by fastforce
    have "\<forall>t \<in> set q. (\<lambda>t. projr (?f t)) t = t \<or> task_change q t ((\<lambda>t. projr (?f t)) t)"
      using change by blast
    from publish_map_steps [OF this] p have "queue_steps E q q'" using ch by simp
    with True Inr p show ?thesis by (simp add: recover_def split: sum.splits)
  qed (simp add: recover_def True)
qed (simp add: recover_def)

lemma claim_steps:
  assumes ok: "isSupervisorState E q"
  shows "queue_steps E q (fst (claim E now q))"
proof -
  obtain q1 r where rec: "reconcile E now q = (q1, r)" by fastforce
  have s1: "queue_steps E q q1" using reconcile_steps [OF ok, of now] by (simp add: rec)
  have ok1: "isSupervisorState E q1" using queue_steps_valid [OF s1 ok] .
  show ?thesis
  proof (cases "date_parse now")
    case (Some clock)
    show ?thesis
    proof (cases r)
      case (Inr u)
      show ?thesis
      proof (cases "List.find (claimable_at clock q1) q1")
        case none: None
        with Some Inr rec s1 show ?thesis by (simp add: claim_def peekClaimable_def)
      next
        case (Some t)
        then have t: "find_task (task_id t) q1 = Some t" "status t = Queued" "dependenciesComplete q1 t"
          using find_SomeD [OF Some] find_task_mem [OF valid_ids [OF ok1]] by (auto simp: claimable_at_def)
        have "queue_steps E q1 (fst (replace E (t\<lparr>status := Running, attempt := attempt t + 1,
            run_started_at := Some now, updated_at := now, last_error := None\<rparr>) q1))"
          using replace_steps [OF ok1 t(1) change_claim [OF t(2,3)]] .
        with s1 Some Inr rec \<open>date_parse now = Some clock\<close> show ?thesis
          by (auto simp: claim_def peekClaimable_def split: prod.splits sum.splits)
      qed
    qed (use Some rec s1 in \<open>simp add: claim_def peekClaimable_def\<close>)
  qed (simp add: claim_def peekClaimable_def)
qed

lemma fst_case_result:
  "fst (case p of (q', Inl e) \<Rightarrow> (q', Inl e) | (q', Inr u) \<Rightarrow> (q', f q')) = fst p"
  by (simp split: prod.splits sum.splits)

lemma enqueue_steps: "queue_steps E q (fst (enqueue E i now q))"
proof -
  have "fst (enqueue E i now q) = q \<or> (\<exists>m t d. in_taskId i \<notin> task_id ` set q \<and>
      fst (enqueue E i now q) = fst (publish E (q @ [new_task i now m t d]) q))"
    unfolding enqueue_def Let_def
    by (cases "bind_result (assertSupervisorTimestamp now) (\<lambda>_.
                bind_result (boundedIntegerInput (in_maxAttempts i) 2 1 MAX_ATTEMPTS) (\<lambda>maxAttempts.
                bind_result (boundedIntegerInput (in_timeoutMs i) DEFAULT_TIMEOUT_MS 1000 MAX_SAFE_INTEGER) (\<lambda>timeoutMs.
                Inr (maxAttempts, timeoutMs))))")
      (auto simp: list_ex_iff fst_case_result split: prod.split simp del: bind_result_eq_Inr)
  then show ?thesis
  proof
    assume "\<exists>m t d. in_taskId i \<notin> task_id ` set q \<and>
      fst (enqueue E i now q) = fst (publish E (q @ [new_task i now m t d]) q)"
    then obtain m t d where n: "in_taskId i \<notin> task_id ` set q"
      and e: "fst (enqueue E i now q) = fst (publish E (q @ [new_task i now m t d]) q)" by blast
    have "fresh_task (new_task i now m t d)" "task_id (new_task i now m t d) = in_taskId i"
      by (simp_all add: fresh_task_def new_task_def Let_def)
    with n step_append [of "new_task i now m t d" q E] show ?thesis
      unfolding e using publish_cases [of E "q @ [new_task i now m t d]" q] by (auto simp: publish_def)
  qed simp
qed

end
