(* ===== verification/SupervisorProps.thy ===== *)
theory SupervisorProps
  imports SupervisorLaws
begin

text \<open>
  The invariants of the queue, its operations as a machine, the life cycle of a task, and the properties.
\<close>

section \<open>The invariant\<close>

definition task_inv :: "queue \<Rightarrow> supervisor_task \<Rightarrow> bool" where
  "task_inv q t \<longleftrightarrow>
     (status t \<in> {Queued, Running, Failed} \<longrightarrow> requires_approval t \<longrightarrow> approval_granted t) \<and>
     (status t = Failed \<longrightarrow> max_attempts t \<le> attempt t) \<and>
     (status t = Running \<longrightarrow> dependenciesComplete q t)"

definition queue_inv :: "supervisor_env \<Rightarrow> queue \<Rightarrow> bool" where
  "queue_inv E q \<longleftrightarrow> isSupervisorState E q \<and> (\<forall>t \<in> set q. task_inv q t)"

abbreviation read_back :: "supervisor_task \<Rightarrow> supervisor_task" where
  "read_back t \<equiv> t\<lparr>handoff := stringify (handoff t)\<rparr>"

lemma find_task_map:
  assumes "\<forall>t \<in> set q. task_id (f t) = task_id t"
  shows "find_task i (map f q) = map_option f (find_task i q)"
  using assms by (induction q) (auto simp: find_task_def)

lemma find_task_written: "find_task i (written_queue q) = map_option read_back (find_task i q)"
  unfolding written_queue_def by (rule find_task_map) simp

lemma find_task_append: "find_task i (q @ [t]) =
    (case find_task i q of Some c \<Rightarrow> Some c | None \<Rightarrow> if task_id t = i then Some t else None)"
  by (induction q) (auto simp: find_task_def)

lemma dependenciesComplete_mono:
  assumes "dependenciesComplete q t" and "dependency_ids t' = dependency_ids t"
    and "\<And>i c. find_task i q = Some c \<Longrightarrow> status c = Completed \<Longrightarrow> \<exists>c'. find_task i q' = Some c' \<and> status c' = Completed"
  shows "dependenciesComplete q' t'"
  using assms unfolding dependenciesComplete_def list_all_iff by (fastforce split: option.splits)

lemma task_inv_change:
  assumes "task_inv q t" and "task_change q t t'"
    and "\<And>i c. find_task i q = Some c \<Longrightarrow> status c = Completed \<Longrightarrow> \<exists>c'. find_task i q' = Some c' \<and> status c' = Completed"
  shows "task_inv q' t'"
  using assms(2)
proof cases
  case (change_claim now)
  have "dependenciesComplete q' t'"
    using dependenciesComplete_mono [OF change_claim(3) _ assms(3)] change_claim(1) by simp
  with change_claim assms(1) show ?thesis by (simp add: task_inv_def)
qed (use assms(1) in \<open>auto simp: task_inv_def\<close>)

lemma task_inv_mono:
  assumes "task_inv q t"
    and "\<And>i c. find_task i q = Some c \<Longrightarrow> status c = Completed \<Longrightarrow> \<exists>c'. find_task i q' = Some c' \<and> status c' = Completed"
  shows "task_inv q' t"
  using assms dependenciesComplete_mono [of q t t q'] by (auto simp: task_inv_def)

lemma task_inv_read_back [simp]: "task_inv q (read_back t) = task_inv q t"
  by (simp add: task_inv_def dependenciesComplete_def)

lemma queue_step_inv:
  assumes "queue_step E q q'" and "queue_inv E q"
  shows "queue_inv E q'"
proof -
  have valid: "isSupervisorState E q'" using assms(1) by (rule queue_step_valid)
  from assms(1) have "\<forall>t \<in> set q'. task_inv q' t"
  proof cases
    case (step_update f)
    have ids: "\<forall>t \<in> set q. task_id (f t) = task_id t" using step_update(2) task_change_frame by fastforce
    have kept: "\<exists>c'. find_task i q' = Some c' \<and> status c' = Completed"
      if "find_task i q = Some c" "status c = Completed" for i c
    proof -
      have "c \<in> set q" using find_taskD [OF that(1)] by simp
      then have "status (f c) = Completed" using step_update(2) that(2) task_change_frame by fastforce
      then show ?thesis by (simp add: step_update(1) find_task_written find_task_map [OF ids] that(1))
    qed
    show ?thesis
    proof
      fix t' assume "t' \<in> set q'"
      then obtain t where t: "t \<in> set q" "t' = read_back (f t)" by (auto simp: step_update(1) written_queue_def)
      have "task_inv q t" using assms(2) t(1) by (simp add: queue_inv_def)
      then have "task_inv q' (f t)"
        using step_update(2) t(1) task_inv_mono [OF _ kept] task_inv_change [OF _ _ kept] by fastforce
      then show "task_inv q' t'" by (simp add: t(2))
    qed
  next
    case (step_append n)
    have kept: "\<exists>c'. find_task i q' = Some c' \<and> status c' = Completed"
      if "find_task i q = Some c" "status c = Completed" for i c
      using that by (simp add: step_append(1) find_task_written find_task_append)
    show ?thesis
    proof
      fix t' assume "t' \<in> set q'"
      then consider (new) "t' = read_back n" | (old) t where "t \<in> set q" "t' = read_back t"
        by (auto simp: step_append(1) written_queue_def)
      then show "task_inv q' t'"
      proof cases
        case new
        then show ?thesis using step_append(2) by (auto simp: task_inv_def fresh_task_def split: if_splits)
      next
        case (old t)
        then have "task_inv q t" using assms(2) by (simp add: queue_inv_def)
        from task_inv_mono [OF this kept] show ?thesis by (simp add: old(2))
      qed
    qed
  qed
  with valid show ?thesis by (simp add: queue_inv_def)
qed

lemma queue_steps_inv: "queue_steps E q q' \<Longrightarrow> queue_inv E q \<Longrightarrow> queue_inv E q'"
  by (induction rule: rtranclp_induct) (auto dest: queue_step_inv)

section \<open>The queue as a machine\<close>

datatype supervisor_op =
    SEnqueue enqueue_input stamp
  | SApprove string stamp
  | SReconcile stamp
  | SClaim stamp
  | SComplete string stamp
  | SFail string string stamp "string option"
  | SRetry string string stamp "string option"
  | SCancel string string stamp
  | SRecover stamp

fun supervisor_exec :: "supervisor_env \<Rightarrow> supervisor_op \<Rightarrow> queue \<Rightarrow> queue" where
  "supervisor_exec E (SEnqueue i now) q = fst (enqueue E i now q)"
| "supervisor_exec E (SApprove i now) q = fst (approve E i now q)"
| "supervisor_exec E (SReconcile now) q = fst (reconcile E now q)"
| "supervisor_exec E (SClaim now) q = fst (claim E now q)"
| "supervisor_exec E (SComplete i now) q = fst (complete E i now q)"
| "supervisor_exec E (SFail i e now d) q = fst (fail E i e now d q)"
| "supervisor_exec E (SRetry i e now d) q = fst (retry E i e now d q)"
| "supervisor_exec E (SCancel i e now) q = fst (cancel E i e now q)"
| "supervisor_exec E (SRecover now) q = fst (recover E now q)"

fun_cases supervisor_exec_cases: "supervisor_exec E op q = q'"

lemma supervisor_exec_steps: "isSupervisorState E q \<Longrightarrow> queue_steps E q (supervisor_exec E op q)"
  by (cases op) (simp_all add: enqueue_steps approve_steps reconcile_steps claim_steps complete_steps
      fail_steps retry_steps cancel_steps recover_steps)

interpretation supervisor: invariant_machine "supervisor_exec E" "queue_inv E" for E
  by unfold_locales (use supervisor_exec_steps queue_steps_inv queue_inv_def in blast)

definition supervisor_run :: "supervisor_env \<Rightarrow> supervisor_op list \<Rightarrow> queue" where
  "supervisor_run E ops = fold (supervisor_exec E) ops []"

lemma empty_queue_inv: "queue_inv E []"
  by (simp add: queue_inv_def isSupervisorState_def hasDependencyCycle_iff edges_def dependency_map_def)

lemma supervisor_run_inv: "queue_inv E (supervisor_run E ops)"
  unfolding supervisor_run_def by (rule supervisor.run_inv) (rule empty_queue_inv)

section \<open>The life cycle of a task\<close>

text \<open>Where a task stands: nothing before it is enqueued, then its status and its attempts. The rank of the stages
  grows with every change an operation of the queue makes; a completed task has the highest.\<close>

definition task_stage :: "string \<Rightarrow> queue \<Rightarrow> (task_status \<times> int \<times> int) option" where
  "task_stage i q = map_option (\<lambda>t. (status t, attempt t, max_attempts t)) (find_task i q)"

fun stage_rank :: "(task_status \<times> int \<times> int) option \<Rightarrow> nat" where
  "stage_rank None = 0"
| "stage_rank (Some (s, a, m)) = (case s of Blocked \<Rightarrow> 1 | Queued \<Rightarrow> 2 * nat a + 2 | Running \<Rightarrow> 2 * nat a + 1
     | Completed \<Rightarrow> 2 * nat m + 3 | _ \<Rightarrow> 2 * nat m + 2)"

definition stage_grows :: "string \<Rightarrow> queue \<Rightarrow> queue \<Rightarrow> bool" where
  "stage_grows i q q' \<longleftrightarrow>
     (task_stage i q' = task_stage i q \<or> stage_rank (task_stage i q) < stage_rank (task_stage i q')) \<and>
     (\<forall>t. find_task i q = Some t \<longrightarrow> (\<exists>t'. find_task i q' = Some t' \<and> max_attempts t' = max_attempts t))"

lemma stage_read_back [simp]: "task_stage i (written_queue q) = task_stage i q"
  by (simp add: task_stage_def find_task_written option.map_comp comp_def)

lemma task_counts:
  "isSupervisorTask E t \<Longrightarrow> 0 \<le> attempt t \<and> attempt t \<le> max_attempts t \<and> max_attempts t \<le> 8 \<and>
     (status t = Queued \<longrightarrow> attempt t < max_attempts t)"
  by (simp add: isSupervisorTask_def MAX_ATTEMPTS_def)

lemma stage_change:
  assumes "task_change q t t'" and "isSupervisorTask E t" and "isSupervisorTask E (read_back t')" and "task_inv q t"
  shows "(status t', attempt t', max_attempts t') = (status t, attempt t, max_attempts t) \<or>
    stage_rank (Some (status t, attempt t, max_attempts t)) < stage_rank (Some (status t', attempt t', max_attempts t'))"
proof -
  have t: "0 \<le> attempt t" "attempt t \<le> max_attempts t" "status t = Queued \<Longrightarrow> attempt t < max_attempts t"
    "status t = Failed \<Longrightarrow> max_attempts t \<le> attempt t"
    using task_counts [OF assms(2)] assms(4) by (simp_all add: task_inv_def)
  have t': "attempt t' \<le> max_attempts t'" "status t' = Queued \<Longrightarrow> attempt t' < max_attempts t'"
    using task_counts [OF assms(3)] by simp_all
  from assms(1) show ?thesis
  proof cases
    case (change_complete now)
    then show ?thesis using t by (cases "status t") auto
  next
    case (change_cancel now e)
    then show ?thesis using t by (cases "status t") auto
  qed (use t t' in auto)
qed

lemma isSupervisorTask_of: "isSupervisorState E q \<Longrightarrow> t \<in> set q \<Longrightarrow> isSupervisorTask E t"
  by (simp add: isSupervisorState_def list_all_iff)

lemma queue_step_grows:
  assumes "queue_step E q q'" and "queue_inv E q"
  shows "stage_grows i q q'"
  using assms(1)
proof cases
  case (step_update f)
  have ids: "\<forall>t \<in> set q. task_id (f t) = task_id t" using step_update(2) task_change_frame by fastforce
  have q': "find_task i q' = map_option (read_back \<circ> f) (find_task i q)"
    by (simp add: step_update(1) find_task_written find_task_map [OF ids] option.map_comp)
  show ?thesis
  proof (cases "find_task i q")
    case (Some t)
    then have t: "t \<in> set q" using find_taskD by blast
    have "find_task i q' = Some (read_back (f t))" by (simp add: q' Some)
    then have "read_back (f t) \<in> set q'" using find_taskD by blast
    then have v: "isSupervisorTask E t" "isSupervisorTask E (read_back (f t))" "task_inv q t"
      using assms(2) t step_update(1,3) by (auto simp: queue_inv_def intro: isSupervisorTask_of)
    show ?thesis
    proof (cases "f t = t")
      case False
      then have ch: "task_change q t (f t)" using step_update(2) t by blast
      then show ?thesis
        using stage_change [OF ch v] task_change_frame [OF ch] by (simp add: stage_grows_def task_stage_def q' Some)
    qed (simp add: stage_grows_def task_stage_def q' Some)
  qed (simp add: stage_grows_def task_stage_def q')
next
  case (step_append t)
  then show ?thesis
    by (auto simp: stage_grows_def task_stage_def find_task_written find_task_append option.map_comp split: option.splits task_status.splits)
qed

lemma queue_steps_grows: "queue_steps E q q' \<Longrightarrow> queue_inv E q \<Longrightarrow> stage_grows i q q'"
proof (induction rule: rtranclp_induct)
  case (step u w)
  then have "stage_grows i q u" "stage_grows i u w" using queue_step_grows queue_steps_inv by blast+
  then show ?case by (fastforce simp: stage_grows_def)
qed (simp add: stage_grows_def)

lemma supervisor_exec_grows: "queue_inv E q \<Longrightarrow> stage_grows i q (supervisor_exec E op q)"
  by (rule queue_steps_grows [OF supervisor_exec_steps]) (simp_all add: queue_inv_def)

lemma stage_bound:
  "isSupervisorTask E t \<Longrightarrow> stage_rank (Some (status t, attempt t, max_attempts t)) \<le> 2 * nat (max_attempts t) + 3"
  using nat_mono [of "attempt t" "max_attempts t"] by (drule_tac task_counts) (auto split: task_status.splits)

lemma found_task: "queue_inv E q \<Longrightarrow> find_task i q = Some t \<Longrightarrow> isSupervisorTask E t"
  using find_taskD [of i q t] isSupervisorTask_of [of E q t] by (simp add: queue_inv_def)

lemma stage_rank_top:
  assumes "queue_inv E q"
  shows "stage_rank (task_stage i q) \<le> 19"
proof (cases "find_task i q")
  case (Some t)
  have "stage_rank (task_stage i q) \<le> 2 * nat (max_attempts t) + 3"
    using stage_bound [OF found_task [OF assms Some]] by (simp add: task_stage_def Some del: stage_rank.simps)
  moreover have "nat (max_attempts t) \<le> 8" using task_counts [OF found_task [OF assms Some]] by (simp add: nat_le_iff)
  ultimately show ?thesis by simp
qed (simp add: task_stage_def)

text \<open>How many operations of a sequence change the stage of a task.\<close>

primrec task_moves :: "supervisor_env \<Rightarrow> string \<Rightarrow> supervisor_op list \<Rightarrow> queue \<Rightarrow> nat" where
  "task_moves E i [] q = 0"
| "task_moves E i (op # ops) q = (if task_stage i (supervisor_exec E op q) = task_stage i q then 0 else 1) +
     task_moves E i ops (supervisor_exec E op q)"

definition stage_move :: "supervisor_env \<Rightarrow> string \<Rightarrow> (task_status \<times> int \<times> int) option \<Rightarrow> (task_status \<times> int \<times> int) option \<Rightarrow> bool" where
  "stage_move E i v v' \<longleftrightarrow> v' \<noteq> v \<and> (\<exists>q op. queue_inv E q \<and> v = task_stage i q \<and> v' = task_stage i (supervisor_exec E op q))"

interpretation task_life: life_cycle "stage_move E i" "\<lambda>v. min 19 (stage_rank v)" 19 for E i
proof
  fix v v' assume "stage_move E i v v'"
  then obtain q op where q: "queue_inv E q" "v' \<noteq> v" "v = task_stage i q" "v' = task_stage i (supervisor_exec E op q)"
    by (auto simp: stage_move_def)
  have "stage_rank v' \<le> 19" unfolding q(4) by (rule stage_rank_top [OF supervisor.step_inv [OF q(1)]])
  moreover have "stage_rank v < stage_rank v'" using supervisor_exec_grows [OF q(1), of i op] q by (simp add: stage_grows_def)
  ultimately show "min 19 (stage_rank v) < min 19 (stage_rank v')" by simp
qed simp

lemma task_moves_path:
  "queue_inv E q \<Longrightarrow> \<exists>v. (stage_move E i ^^ task_moves E i ops q) (task_stage i q) v \<and> task_stage i (fold (supervisor_exec E) ops q) = v"
proof (induction ops arbitrary: q)
  case (Cons op ops)
  have "(stage_move E i ^^ task_moves E i ops (supervisor_exec E op q)) (task_stage i (supervisor_exec E op q))
      (task_stage i (fold (supervisor_exec E) (op # ops) q))"
    using Cons.IH [of "supervisor_exec E op q"] supervisor.step_inv [OF Cons.prems] by simp
  moreover have "stage_move E i (task_stage i q) (task_stage i (supervisor_exec E op q))" if "task_stage i (supervisor_exec E op q) \<noteq> task_stage i q"
    using that Cons.prems by (auto simp: stage_move_def)
  ultimately show ?case
    by (cases "task_stage i (supervisor_exec E op q) = task_stage i q") (simp_all add: relpowp_Suc_I2 del: relpowp.simps)
qed simp

lemma kept_limit:
  "queue_inv E q \<Longrightarrow> find_task i q = Some t \<Longrightarrow>
     \<exists>t'. find_task i (fold (supervisor_exec E) ops q) = Some t' \<and> max_attempts t' = max_attempts t"
proof (induction ops arbitrary: q t)
  case (Cons op ops)
  then obtain t' where "find_task i (supervisor_exec E op q) = Some t'" "max_attempts t' = max_attempts t"
    using supervisor_exec_grows [OF Cons.prems(1), of i op] by (auto simp: stage_grows_def)
  then show ?case using Cons.IH [of "supervisor_exec E op q" t'] supervisor.step_inv [OF Cons.prems(1)] by simp
qed simp

lemma task_moves_bound:
  assumes "queue_inv E q"
  shows "task_moves E i ops q \<le> (case find_task i q of None \<Rightarrow> 19 | Some t \<Rightarrow> 2 * nat (max_attempts t) + 2)"
proof (cases "find_task i q")
  case None
  then show ?thesis using task_moves_path [OF assms, of i ops] task_life.path_bounded by fastforce
next
  case (Some t)
  let ?q = "fold (supervisor_exec E) ops q"
  obtain t' where t': "find_task i ?q = Some t'" "max_attempts t' = max_attempts t" using kept_limit [OF assms Some] by blast
  have valid: "isSupervisorTask E t'" by (rule found_task [OF supervisor.run_inv [OF assms] t'(1)])
  have "min 19 (stage_rank (task_stage i q)) + task_moves E i ops q \<le> min 19 (stage_rank (task_stage i ?q))"
    using task_moves_path [OF assms, of i ops] task_life.path_rank by metis
  then have "stage_rank (task_stage i q) + task_moves E i ops q \<le> stage_rank (task_stage i ?q)"
    using stage_rank_top [OF assms, of i] stage_rank_top [OF supervisor.run_inv [OF assms], of i] by (simp add: min_absorb2)
  moreover have "1 \<le> stage_rank (task_stage i q)" using Some by (simp add: task_stage_def split: task_status.splits)
  moreover have "stage_rank (task_stage i ?q) \<le> 2 * nat (max_attempts t) + 3"
    using stage_bound [OF valid] t' by (simp add: task_stage_def del: stage_rank.simps)
  ultimately show ?thesis using Some by simp
qed

section \<open>Replacing a task by a valid one\<close>

lemma same_graph:
  assumes "\<forall>t \<in> set q. task_id (f t) = task_id t \<and> dependency_ids (f t) = dependency_ids t"
    and "isSupervisorState E q" and "\<forall>t \<in> set q. isSupervisorTask E (f t)"
  shows "isSupervisorState E (map f q)"
proof -
  have g: "map (\<lambda>t. (task_id t, dependency_ids t)) (map f q) = map (\<lambda>t. (task_id t, dependency_ids t)) q"
    and i: "map task_id (map f q) = map task_id q"
    using assms(1) by simp_all
  show ?thesis
    unfolding isSupervisorState_def g i using assms by (simp add: isSupervisorState_def list_all_iff)
qed

lemma replace_valid:
  assumes ok: "isSupervisorState E q" and w: "written_queue q = q" and f: "\<And>x. fits_queue E x"
    and t: "find_task (task_id t') q = Some t" and deps: "dependency_ids t' = dependency_ids t"
    and valid: "isSupervisorTask E t'" and h: "handoff t' = handoff t"
  shows "replace E t' q = (map (\<lambda>c. if task_id c = task_id t' then t' else c) q, Inr t')"
    and "isSupervisorState E (map (\<lambda>c. if task_id c = task_id t' then t' else c) q)"
    and "written_queue (map (\<lambda>c. if task_id c = task_id t' then t' else c) q) =
      map (\<lambda>c. if task_id c = task_id t' then t' else c) q"
    and "find_task (task_id t') (map (\<lambda>c. if task_id c = task_id t' then t' else c) q) = Some t'"
proof -
  let ?f = "\<lambda>c. if task_id c = task_id t' then t' else c"
  have same: "c = t" if "c \<in> set q" "task_id c = task_id t'" for c
    using that find_taskD [OF t] valid_ids [OF ok] by (auto simp: distinct_map inj_on_def)
  have "map read_back q = map id q" using w by (simp add: written_queue_def)
  then have wt: "read_back c = c" if "c \<in> set q" for c
    using that unfolding map_eq_conv by simp
  have "read_back t' = t'"
  proof -
    have "stringify (handoff t) = handoff t"
      using arg_cong [OF wt [of t], of handoff] find_taskD [OF t] by simp
    then show ?thesis by (simp add: h)
  qed
  then show w': "written_queue (map ?f q) = map ?f q"
    using wt by (simp add: written_queue_def)
  show ok': "isSupervisorState E (map ?f q)"
    using deps same valid ok by (intro same_graph) (auto simp: isSupervisorState_def list_all_iff)
  have "find_task (task_id t') (map ?f q) = map_option ?f (find_task (task_id t') q)"
    by (rule find_task_map) simp
  then show ft: "find_task (task_id t') (map ?f q) = Some t'"
    using find_taskD [OF t] by (simp add: t)
  show "replace E t' q = (map ?f q, Inr t')"
    using ok' w' f ft by (simp add: replace_def publish_def require_def)
qed

text \<open>A queue as the loader or the last write left it.\<close>

definition stored_queue :: "supervisor_env \<Rightarrow> queue \<Rightarrow> bool" where
  "stored_queue E q \<longleftrightarrow> isSupervisorState E q \<and> written_queue q = q"

definition replaced :: "supervisor_task \<Rightarrow> queue \<Rightarrow> queue" where
  "replaced t' q = map (\<lambda>c. if task_id c = task_id t' then t' else c) q"

lemma replace_stored:
  assumes "stored_queue E q" and "\<And>x. fits_queue E x" and "find_task (task_id t') q = Some t"
    and "dependency_ids t' = dependency_ids t" and "isSupervisorTask E t'" and "handoff t' = handoff t"
  shows "replace E t' q = (replaced t' q, Inr t')" and "stored_queue E (replaced t' q)"
    and "find_task (task_id t') (replaced t' q) = Some t'"
  using replace_valid [OF _ _ assms(2-6)] assms(1) by (simp_all add: stored_queue_def replaced_def)

lemma find_replaced_other: "i \<noteq> task_id t' \<Longrightarrow> find_task i (replaced t' q) = find_task i q"
  by (induction q) (auto simp: find_task_def replaced_def)

lemma stored_task: "stored_queue E q \<Longrightarrow> find_task i q = Some t \<Longrightarrow> isSupervisorTask E t \<and> task_id t = i"
  using find_taskD [of i q t] by (auto simp: stored_queue_def isSupervisorState_def list_all_iff)

lemma reconcile_idle:
  assumes "date_parse now = Some clock" and "\<forall>t \<in> set q. status t \<noteq> Running"
  shows "reconcile E now q = (q, Inr ())"
proof -
  have e: "\<not> expired clock t" if "t \<in> set q" for t using assms(2) that by (simp add: expired_def)
  then have "\<not> list_ex (expired clock) q" by (auto simp: list_ex_iff)
  then show ?thesis unfolding reconcile_def assms(1) option.case using e by (subst map_result_id) auto
qed

lemma progress_candidate:
  assumes ok: "isSupervisorState E q"
    and st: "\<forall>t \<in> set q. status t \<in> {Queued, Completed}"
    and deps: "\<forall>t \<in> set q. \<forall>d \<in> set (dependency_ids t). find_task d q \<noteq> None"
    and due: "\<forall>t \<in> set q. case date_parse (next_attempt_at t) of None \<Rightarrow> False | Some ms \<Rightarrow> ms \<le> clock"
    and some: "\<exists>t \<in> set q. status t = Queued"
  shows "\<exists>t. List.find (claimable_at clock q) q = Some t \<and> t \<in> set q \<and> claimable_at clock q t"
proof -
  let ?nodes = "map (\<lambda>t. (task_id t, dependency_ids t)) q"
  let ?S = "task_id ` {t \<in> set q. status t = Queued}"
  have ids: "distinct (map task_id q)" using ok by (rule valid_ids)
  then have dm: "dependency_map ?nodes = map_of ?nodes" by (intro dependency_map_distinct) (simp add: comp_def)
  from some obtain i where i: "i \<in> ?S" by blast
  have "\<not> hasDependencyCycle ?nodes" using ok unfolding isSupervisorState_def by blast
  from acyclic_minimal [OF this i] obtain j where
    j: "j \<in> ?S" "\<forall>d. (j, d) \<in> edges (dependency_map ?nodes) \<longrightarrow> d \<notin> ?S" by (elim bexE)
  then obtain t where t: "t \<in> set q" "status t = Queued" "j = task_id t" by blast
  have "map_of ?nodes (task_id t) = Some (dependency_ids t)"
    using t(1) ids by (intro map_of_is_SomeI) (auto simp: comp_def)
  then have min: "d \<notin> ?S" if "d \<in> set (dependency_ids t)" for d
    using j(2) that t(3) by (auto simp: edges_def dm)
  have "dependenciesComplete q t"
    unfolding dependenciesComplete_def list_all_iff
  proof (rule ballI)
    fix d assume d: "d \<in> set (dependency_ids t)"
    then obtain c where c: "find_task d q = Some c" using deps t(1) by blast
    then have "c \<in> set q" "task_id c = d" using find_taskD by blast+
    then have "status c = Completed" using min [OF d] st by fastforce
    with c show "case find_task d q of None \<Rightarrow> False | Some c \<Rightarrow> status c = Completed" by simp
  qed
  then have "claimable_at clock q t" using t due by (simp add: claimable_at_def)
  with t(1) show ?thesis using find_mem_Some by fastforce
qed

lemma claimed_valid:
  assumes "isSupervisorTask E t" and "status t = Queued" and "valid_stamp now"
  shows "isSupervisorTask E (t\<lparr>status := Running, attempt := attempt t + 1, run_started_at := Some now,
    updated_at := now, last_error := None\<rparr>)"
  using assms by (simp add: isSupervisorTask_def)

lemma transition_stored:
  assumes "stored_queue E q" and "\<And>x. fits_queue E x" and "find_task i q = Some t" and "valid_stamp now"
    and "isSupervisorTask E ((extra t)\<lparr>status := st, updated_at := now\<rparr>)"
    and "task_id (extra t) = task_id t" "dependency_ids (extra t) = dependency_ids t" "handoff (extra t) = handoff t"
  shows "\<exists>q'. transition E i st now extra q = (q', Inr ((extra t)\<lparr>status := st, updated_at := now\<rparr>)) \<and>
    stored_queue E q' \<and> find_task i q' = Some ((extra t)\<lparr>status := st, updated_at := now\<rparr>)"
proof -
  let ?t' = "(extra t)\<lparr>status := st, updated_at := now\<rparr>"
  have i: "task_id t = i" using stored_task [OF assms(1,3)] by simp
  have "replace E ?t' q = (replaced ?t' q, Inr ?t') \<and> stored_queue E (replaced ?t' q) \<and>
      find_task i (replaced ?t' q) = Some ?t'"
    using replace_stored [OF assms(1,2), of ?t' t] assms(3,5-8) i by simp
  then show ?thesis
    using assms(3,4) by (simp add: transition_def guarded_def assertSupervisorTimestamp_def require_def)
qed

lemma complete_stored:
  assumes "stored_queue E q" and "\<And>x. fits_queue E x" and "find_task i q = Some t" and "valid_stamp now"
  shows "\<exists>q' t'. complete E i now q = (q', Inr t') \<and> stored_queue E q' \<and> find_task i q' = Some t' \<and>
    status t' = Completed"
proof -
  have t: "isSupervisorTask E t" using stored_task [OF assms(1,3)] by simp
  have "\<exists>q'. transition E i Completed now (\<lambda>t. t\<lparr>run_started_at := None, blocked_reason := None\<rparr>) q = (q', Inr ((\<lambda>t. t\<lparr>run_started_at := None, blocked_reason := None\<rparr>) t\<lparr>status := Completed, updated_at := now\<rparr>)) \<and>
    stored_queue E q' \<and> find_task i q' = Some ((\<lambda>t. t\<lparr>run_started_at := None, blocked_reason := None\<rparr>) t\<lparr>status := Completed, updated_at := now\<rparr>)"
    using t assms(4) by (intro transition_stored [OF assms(1-4)]) (simp_all add: isSupervisorTask_def bounded_error_def)
  then show ?thesis using assms(3,4) by (auto simp: complete_def)
qed

lemma cancel_stored:
  assumes "stored_queue E q" and "\<And>x. fits_queue E x" and "find_task i q = Some t" and "valid_stamp now"
    and "status t \<notin> {Completed, Failed, Cancelled}"
  shows "\<exists>q' t'. cancel E i e now q = (q', Inr t') \<and> stored_queue E q' \<and> find_task i q' = Some t' \<and>
    status t' = Cancelled"
proof -
  have t: "isSupervisorTask E t" using stored_task [OF assms(1,3)] by simp
  have "\<exists>q'. transition E i Cancelled now (\<lambda>t. t\<lparr>run_started_at := None, last_error := Some (bounded_error e), blocked_reason := None\<rparr>) q = (q', Inr ((\<lambda>t. t\<lparr>run_started_at := None, last_error := Some (bounded_error e), blocked_reason := None\<rparr>) t\<lparr>status := Cancelled, updated_at := now\<rparr>)) \<and>
    stored_queue E q' \<and> find_task i q' = Some ((\<lambda>t. t\<lparr>run_started_at := None, last_error := Some (bounded_error e), blocked_reason := None\<rparr>) t\<lparr>status := Cancelled, updated_at := now\<rparr>)"
    using t assms(4,5) by (intro transition_stored [OF assms(1-4)]) (simp_all add: isSupervisorTask_def bounded_error_def)
  then show ?thesis using assms(3,4,5) by (auto simp: cancel_def require_def)
qed

lemma fail_stored:
  assumes "stored_queue E q" and "\<And>x. fits_queue E x" and "find_task i q = Some t" and "valid_stamp now"
    and "status t = Running" and "max_attempts t \<le> attempt t"
  shows "\<exists>q' t'. fail E i e now d q = (q', Inr t') \<and> stored_queue E q' \<and> find_task i q' = Some t' \<and>
    status t' = Failed"
proof -
  have t: "isSupervisorTask E t" using stored_task [OF assms(1,3)] by simp
  have "\<exists>q'. transition E i Failed now (\<lambda>t. t\<lparr>run_started_at := None, last_error := Some (bounded_error e)\<rparr>) q = (q', Inr ((\<lambda>t. t\<lparr>run_started_at := None, last_error := Some (bounded_error e)\<rparr>) t\<lparr>status := Failed, updated_at := now\<rparr>)) \<and>
    stored_queue E q' \<and> find_task i q' = Some ((\<lambda>t. t\<lparr>run_started_at := None, last_error := Some (bounded_error e)\<rparr>) t\<lparr>status := Failed, updated_at := now\<rparr>)"
    using t assms(4,5,6) by (intro transition_stored [OF assms(1-4)]) (simp_all add: isSupervisorTask_def bounded_error_def)
  then show ?thesis using assms(3,4,5,6) by (auto simp: fail_def fail_transition_def require_def assertSupervisorTimestamp_def)
qed

lemma retry_stored:
  assumes "stored_queue E q" and "\<And>x. fits_queue E x" and "\<And>s. hex64 (sha256 E s)"
    and t: "find_task i q = Some t" and "status t = Running" and "attempt t < max_attempts t"
    and "js_trim delta \<noteq> []" and "date_parse now = Some ms" and vt: "valid_time (ms + retry_delay E t)"
  shows "\<exists>t'. retry E i e now (Some delta) q = (replaced t' q, Inr t') \<and> task_id t' = i \<and>
    find_task i (replaced t' q) = Some t' \<and> status t' = Queued \<and> attempt t' = attempt t \<and>
    next_attempt_at t' = Iso (ms + retry_delay E t)"
proof -
  have i: "isSupervisorTask E t" "task_id t = i" using stored_task [OF assms(1,4)] by simp_all
  let ?at = "Iso (ms + retry_delay E t)"
  let ?t' = "t\<lparr>status := Queued, run_started_at := None, updated_at := now, next_attempt_at := ?at,
    last_error := Some (bounded_error e), attempt_delta_hash := Some (sha256 E (js_trim delta))\<rparr>"
  have at: "retry_at E t now = Inr ?at" using vt by (simp add: retry_at_def assms(8) toISOString_def)
  have "isSupervisorTask E ?t'"
    using i(1) assms(3,5,6,8) vt by (simp add: isSupervisorTask_def valid_stamp_def bounded_error_def)
  then have rep: "replace E ?t' q = (replaced ?t' q, Inr ?t')" "find_task i (replaced ?t' q) = Some ?t'"
    using replace_stored [OF assms(1,2), of ?t' t] assms(4) i(2) by auto
  have "retry E i e now (Some delta) q = (replaced ?t' q, Inr ?t')"
    using assms(4-8) at rep(1)
    by (simp add: retry_def assertSupervisorTimestamp_def valid_stamp_def require_def guarded_def Let_def)
  with rep(2) i(2) show ?thesis by (intro exI [of _ ?t']) simp
qed

section \<open>Properties\<close>

text \<open>C24: The depth-first search of \<open>hasDependencyCycle\<close> answers true exactly when the dependencies of a queue
  with distinct identifiers contain a cycle, and it always ends: no visit, from any task and along any path, is nested
  deeper than the number of tasks, so its answer is the same with any larger bound on the depth.\<close>

theorem dependency_cycle_exact:
  assumes "distinct (map fst nodes)"
  shows "(hasDependencyCycle nodes \<longleftrightarrow> \<not> acyclic {(t, d). \<exists>ds. (t, ds) \<in> set nodes \<and> d \<in> set ds}) \<and>
    (\<forall>act vis t. visit (Suc (length nodes)) (dependency_map nodes) act vis t \<noteq> NoFuel) \<and>
    (\<forall>n > length nodes. \<forall>act vis ts.
       visit_some n (dependency_map nodes) act vis ts = visit_some (Suc (length nodes)) (dependency_map nodes) act vis ts \<and>
       visit_some n (dependency_map nodes) act vis ts \<noteq> NoFuel)"
proof -
  have "edges (dependency_map nodes) = {(t, d). \<exists>ds. (t, ds) \<in> set nodes \<and> d \<in> set ds}"
    using assms by (auto simp: edges_def dependency_map_distinct)
  then have exact: "hasDependencyCycle nodes \<longleftrightarrow> \<not> acyclic {(t, d). \<exists>ds. (t, ds) \<in> set nodes \<and> d \<in> set ds}"
    by (simp add: hasDependencyCycle_iff acyclic_def)
  show ?thesis
    by (intro conjI allI impI exact) (rule search_ends(1) [OF lessI], erule search_stable, erule search_ends(2))
qed

text \<open>C22: Every operation of the queue refines the abstract specification: from a stored queue it makes a
  sequence of published steps, each of which changes tasks only as the task life cycle allows or
  appends one new task.\<close>

theorem operations_refine_steps:
  assumes "isSupervisorState E q"
  shows "queue_steps E q (supervisor_exec E op q)"
  using assms by (rule supervisor_exec_steps)

text \<open>C23: In every queue that any sequence of operations reaches from an empty one, a running task has its
  approval if it requires one, and all its dependencies are completed.\<close>

theorem running_tasks_are_cleared:
  assumes "t \<in> set (supervisor_run E ops)" and "status t = Running"
  shows "(requires_approval t \<longrightarrow> approval_granted t) \<and>
    (\<forall>d \<in> set (dependency_ids t). \<exists>c \<in> set (supervisor_run E ops). task_id c = d \<and> status c = Completed)"
proof -
  have "task_inv (supervisor_run E ops) t"
    using supervisor_run_inv assms(1) by (auto simp: queue_inv_def)
  then show ?thesis
    using assms(2) find_taskD
    by (fastforce simp: task_inv_def dependenciesComplete_def list_all_iff split: option.splits)
qed

text \<open>C26: No reachable task has been attempted more often than its limit, which is at most eight, and a
  failed task has used all its attempts, so that retrying it never queues it again.\<close>

theorem attempts_are_bounded:
  assumes "t \<in> set (supervisor_run E ops)"
  shows "attempt t \<le> max_attempts t \<and> max_attempts t \<le> 8 \<and> (status t = Failed \<longrightarrow> attempt t = max_attempts t)"
proof -
  have "task_inv (supervisor_run E ops) t" "isSupervisorTask E t"
    using supervisor_run_inv [of E ops] assms by (auto simp: queue_inv_def isSupervisorState_def list_all_iff)
  then show ?thesis by (auto simp: task_inv_def isSupervisorTask_def MAX_ATTEMPTS_def)
qed

text \<open>C27: The life of a task is bounded. Along any sequence of operations, from any queue that operations reach from
  an empty one, at most twice its attempt limit and two more of the operations change the status or the attempts of a
  given task; for a task that is not enqueued yet the number is at most nineteen, its creation included.\<close>

theorem task_life_is_bounded:
  "task_moves E i ops (supervisor_run E before) \<le> (case find_task i (supervisor_run E before) of
     None \<Rightarrow> 19 | Some t \<Rightarrow> 2 * nat (max_attempts t) + 2)"
  by (rule task_moves_bound) (rule supervisor_run_inv)

text \<open>C25: The queue makes progress: when no task is running, failed, blocked or cancelled, every dependency is
  a task of the queue, and all retry delays have passed, a claim never comes back empty: it starts a
  queued task whose dependencies are complete.\<close>

theorem claim_makes_progress:
  assumes "stored_queue E q" and "\<And>x. fits_queue E x" and "date_parse now = Some clock"
    and "\<forall>t \<in> set q. status t \<in> {Queued, Completed}" and "\<exists>t \<in> set q. status t = Queued"
    and "\<forall>t \<in> set q. \<forall>d \<in> set (dependency_ids t). find_task d q \<noteq> None"
    and "\<forall>t \<in> set q. case date_parse (next_attempt_at t) of None \<Rightarrow> False | Some ms \<Rightarrow> ms \<le> clock"
  shows "\<exists>t q'. t \<in> set q \<and> status t = Queued \<and> dependenciesComplete q t \<and>
    claim E now q = (q', Inr (find_task (task_id t) q')) \<and>
    find_task (task_id t) q' = Some (t\<lparr>status := Running, attempt := attempt t + 1, run_started_at := Some now,
      updated_at := now, last_error := None\<rparr>)"
proof -
  have ok: "isSupervisorState E q" using assms(1) by (simp add: stored_queue_def)
  obtain t where t: "List.find (claimable_at clock q) q = Some t" "t \<in> set q" "claimable_at clock q t"
    using progress_candidate [OF ok assms(4,6,7,5)] by blast
  let ?t' = "t\<lparr>status := Running, attempt := attempt t + 1, run_started_at := Some now, updated_at := now, last_error := None\<rparr>"
  have find: "find_task (task_id t) q = Some t" using find_task_mem [OF valid_ids [OF ok] t(2)] .
  have queued: "status t = Queued" "dependenciesComplete q t" using t(3) by (simp_all add: claimable_at_def)
  have "isSupervisorTask E ?t'"
    using stored_task [OF assms(1) find] queued assms(3) by (intro claimed_valid) (auto simp: valid_stamp_def)
  then have rep: "replace E ?t' q = (replaced ?t' q, Inr ?t')" "find_task (task_id t) (replaced ?t' q) = Some ?t'"
    using replace_stored [OF assms(1,2), of ?t' t] find by auto
  have "reconcile E now q = (q, Inr ())" using assms(3,4) by (intro reconcile_idle) auto
  then have "claim E now q = (replaced ?t' q, Inr (Some ?t'))"
    using t(1) rep(1) assms(3) by (simp add: claim_def peekClaimable_def)
  with t(2) queued rep(2) show ?thesis by (intro exI [of _ t] exI [of _ "replaced ?t' q"]) simp
qed

text \<open>A retry waits for the base delay doubled with every attempt already made, up to the maximum, and
  touches no other task.\<close>

theorem retry_backs_off:
  assumes "stored_queue E q" and "\<And>x. fits_queue E x" and "\<And>s. hex64 (sha256 E s)"
    and "find_task i q = Some t" and "status t = Running" and "attempt t < max_attempts t"
    and "js_trim delta \<noteq> []" and "date_parse now = Some ms"
    and "valid_time (ms + min (maxRetryDelayMs E) (baseRetryDelayMs E * 2 ^ nat (attempt t - 1)))"
    and "retry E i e now (Some delta) q = (q', r)"
  shows "\<exists>t'. r = Inr t' \<and> find_task i q' = Some t' \<and> status t' = Queued \<and> attempt t' = attempt t \<and>
    next_attempt_at t' = Iso (ms + min (maxRetryDelayMs E) (baseRetryDelayMs E * 2 ^ nat (attempt t - 1))) \<and>
    (\<forall>j. j \<noteq> i \<longrightarrow> find_task j q' = find_task j q)"
proof -
  have "0 < attempt t" using stored_task [OF assms(1,4)] assms(5) by (simp add: isSupervisorTask_def)
  then have "max 0 (attempt t - 1) = attempt t - 1" by simp
  then have delay: "retry_delay E t = min (maxRetryDelayMs E) (baseRetryDelayMs E * 2 ^ nat (attempt t - 1))"
    unfolding retry_delay_def by (simp only:)
  from retry_stored [OF assms(1-8), unfolded delay, OF assms(9), of e] obtain t' where
    "retry E i e now (Some delta) q = (replaced t' q, Inr t')" "task_id t' = i" "find_task i (replaced t' q) = Some t'"
    "status t' = Queued" "attempt t' = attempt t"
    "next_attempt_at t' = Iso (ms + min (maxRetryDelayMs E) (baseRetryDelayMs E * 2 ^ nat (attempt t - 1)))"
    by blast
  then show ?thesis using assms(10) find_replaced_other [of _ t' q] by auto
qed

text \<open>When the queue is not changed while a claimed task is dispatched, the task ends as the dispatcher's
  result says: completed if it was not refused, otherwise queued again while attempts are left and
  failed when they are used up; the dispatcher's result is returned.\<close>

theorem dispatch_settles_task:
  assumes "stored_queue E q" and "\<And>x. fits_queue E x" and "\<And>s. hex64 (sha256 E s)"
    and "find_task i q = Some t" and "status t = Running" and "date_parse later = Some ms"
    and "valid_time (ms + retry_delay E t)" and "dispatch (handoff t) q = (q, Inr res)"
    and "dispatchClaimed E later dispatch i q = (q', r)"
  shows "r = Inr res \<and> (\<exists>t'. find_task i q' = Some t' \<and> status t' =
    (if \<not> dispatch_refused res then Completed else if attempt t < max_attempts t then Queued else Failed))"
proof -
  have now: "valid_stamp later" using assms(6) by (simp add: valid_stamp_def)
  have delta: "js_trim (''retry_after_refusal:'' @ dispatch_reason res) \<noteq> []"
    by (simp add: js_trim_eq_Nil js_space_def)
  consider "\<not> dispatch_refused res" | "dispatch_refused res" "attempt t < max_attempts t"
    | "dispatch_refused res" "max_attempts t \<le> attempt t" by fastforce
  then show ?thesis
  proof cases
    case 1
    from complete_stored [OF assms(1,2,4) now] obtain q1 t' where
      "complete E i later q = (q1, Inr t')" "find_task i q1 = Some t'" "status t' = Completed" by blast
    then show ?thesis using 1 assms(4,5,8,9) by (auto simp: dispatchClaimed_def require_def)
  next
    case 2
    from retry_stored [OF assms(1-5) 2(2) delta assms(6,7), of "dispatch_reason res"] obtain t' where
      rt: "retry E i (dispatch_reason res) later (Some (''retry_after_refusal:'' @ dispatch_reason res)) q = (replaced t' q, Inr t')"
        "find_task i (replaced t' q) = Some t'" "status t' = Queued" by blast
    have "fail E i (dispatch_reason res) later (Some (''retry_after_refusal:'' @ dispatch_reason res)) q = (replaced t' q, Inr t')"
      unfolding fail_def using rt(1) 2(2) assms(4,5) now by (simp add: require_def assertSupervisorTimestamp_def)
    then show ?thesis using 2 rt(2,3) assms(4,5,8,9) by (auto simp: dispatchClaimed_def require_def)
  next
    case 3
    from fail_stored [OF assms(1,2,4) now assms(5) 3(2)] obtain q1 t' where
      "fail E i (dispatch_reason res) later (Some (''retry_after_refusal:'' @ dispatch_reason res)) q = (q1, Inr t')"
      "find_task i q1 = Some t'" "status t' = Failed" by blast
    then show ?thesis using 3 assms(4,5,8,9) by (auto simp: dispatchClaimed_def require_def)
  qed
qed

text \<open>C28: What becomes of a task that is cancelled while its dispatch is awaited depends on the dispatcher. \<open>complete\<close>
  does not test the status, so when the dispatcher returns without refusing the task becomes completed and the result is
  returned; when it refuses or throws, the queue stays as the cancellation left it, and the caller gets
  \<open>task_not_running\<close> in place of the refusal or the exception.\<close>

theorem cancelled_task_is_completed:
  assumes "stored_queue E q" and "\<And>x. fits_queue E x" and "find_task i q = Some t" and "status t = Running"
    and "valid_stamp now" and "valid_stamp later"
    and "(q1, r1) = cancel E i e now q" and "(q2, r2) = dispatchClaimed E later (\<lambda>h q. (fst (cancel E i e now q), out)) i q"
  shows "(\<exists>c. find_task i q1 = Some c \<and> status c = Cancelled) \<and>
    (if \<exists>res. out = Inr res \<and> \<not> dispatch_refused res
     then r2 = out \<and> (\<exists>c. find_task i q2 = Some c \<and> status c = Completed)
     else q2 = q1 \<and> r2 = Inl (Error ''task_not_running''))"
proof -
  from cancel_stored [OF assms(1-3,5)] assms(4) obtain q' t1 where
    c: "cancel E i e now q = (q', Inr t1)" "stored_queue E q'" "find_task i q' = Some t1" "status t1 = Cancelled" by force
  from complete_stored [OF c(2) assms(2) c(3) assms(6)] obtain q'' t2 where
    d: "complete E i later q' = (q'', Inr t2)" "find_task i q'' = Some t2" "status t2 = Completed" by blast
  have f: "fail E i reason later h q' = (q', Inl (Error ''task_not_running''))" for reason h
    using c(3,4) assms(6) by (simp add: fail_def require_def assertSupervisorTimestamp_def)
  note steps = c(1) d f assms(3,4)
  have q1: "q1 = q'" using assms(7) c(1) by simp
  show ?thesis
  proof (cases "\<exists>res. out = Inr res \<and> \<not> dispatch_refused res")
    case True
    then obtain res where res: "out = Inr res" "\<not> dispatch_refused res" by blast
    have "q2 = q'' \<and> r2 = Inr res" using assms(8) res steps by (simp add: dispatchClaimed_def require_def)
    with True res c(3,4) q1 steps show ?thesis by simp
  next
    case False
    then have "q2 = q' \<and> r2 = Inl (Error ''task_not_running'')"
      using assms(8) steps by (cases out) (simp_all add: dispatchClaimed_def require_def)
    with False c(3,4) q1 show ?thesis by simp
  qed
qed

text \<open>Whatever an operation leaves behind is a state that the queue loads again unchanged after a restart.\<close>

theorem queue_reloads:
  "readSupervisorState E (Some (supervisor_run E ops)) = Inr (supervisor_run E ops)"
  using supervisor_run_inv [of E ops] by (simp add: readSupervisorState_def queue_inv_def)

section \<open>Witnesses\<close>

definition demo_env :: supervisor_env where
  "demo_env = \<lparr>maxTasks = 4, maxPromptChars = 20, baseRetryDelayMs = 1000, maxRetryDelayMs = 300000,
     fits_queue = (\<lambda>_. True), parses = (\<lambda>_. True), sha256 = (\<lambda>_. replicate 64 CHR ''0'')\<rparr>"

definition demo_handoff :: json where
  "demo_handoff = JObj [(''handoffId'', JStr ''h1''), (''vendor'', JStr ''codex_cli''), (''prompt'', JStr ''do it''),
     (''parentSessionHash'', JStr ''a''), (''parentTurnHash'', JStr ''b''), (''task'', JStr ''t''),
     (''agent'', JStr ''x''), (''packet_hash'', JStr ''p''), (''required_checks'', JArr [])]"

definition demo_input :: "string \<Rightarrow> string list \<Rightarrow> enqueue_input" where
  "demo_input i deps = \<lparr>in_taskId = i, in_handoff = demo_handoff, in_sessionId = None, in_maxAttempts = None,
     in_timeoutMs = None, in_dependencyIds = deps, in_requiresApproval = False, in_approvalGranted = False\<rparr>"

definition demo_item :: "string \<Rightarrow> string list \<Rightarrow> supervisor_task" where
  "demo_item i deps = new_task (demo_input i deps) (Iso 0) 2 DEFAULT_TIMEOUT_MS deps"

definition demo_task :: supervisor_task where
  "demo_task = (demo_item ''a'' [])\<lparr>status := Running, attempt := 1, run_started_at := Some (Iso 10), updated_at := Iso 10\<rparr>"

definition demo_queued :: queue where
  "demo_queued = [demo_item ''a'' [], demo_item ''b'' [''a'']]"

definition demo_running :: queue where
  "demo_running = [demo_task, demo_item ''b'' [''a'']]"

definition demo_ops :: "supervisor_op list" where
  "demo_ops = [SEnqueue (demo_input ''a'' []) (Iso 0), SEnqueue (demo_input ''b'' [''a'']) (Iso 0), SClaim (Iso 10)]"

lemma demo_env_facts: "fits_queue demo_env x" "hex64 (sha256 demo_env s)"
  by (simp_all add: demo_env_def hex64_def list_all_iff)

lemmas demo_item_defs = demo_queued_def demo_running_def demo_task_def demo_item_def new_task_def demo_input_def demo_handoff_def

lemma demo_queued_run: "fold (supervisor_exec demo_env) [SEnqueue (demo_input ''a'' []) (Iso 0), SEnqueue (demo_input ''b'' [''a'']) (Iso 0)] [] = demo_queued"
  by code_simp

lemma demo_running_run: "supervisor_exec demo_env (SClaim (Iso 10)) demo_queued = demo_running"
  by code_simp

lemma demo_ops_run: "supervisor_run demo_env demo_ops = demo_running"
  using demo_queued_run demo_running_run by (simp add: demo_ops_def supervisor_run_def)

lemma demo_stored: "stored_queue demo_env demo_queued" "stored_queue demo_env demo_running"
  by code_simp+

lemma demo_task_facts:
  "find_task ''a'' demo_running = Some demo_task" "status demo_task = Running" "attempt demo_task = 1"
  "max_attempts demo_task = 2"
  by (simp_all add: demo_item_defs find_task_def Let_def)

theorem dependency_cycle_exact_witness:
  "\<not> acyclic {(t, d). \<exists>ds. (t, ds) \<in> set [(''a'', [''b'']), (''b'', [''a''])] \<and> d \<in> set ds} \<and>
    visit_some 3 (dependency_map [(''a'', [''b'']), (''b'', [''a''])]) [] [] [''a'', ''b''] \<noteq> NoFuel"
proof -
  have c: "hasDependencyCycle [(''a'', [''b'']), (''b'', [''a''])]" by code_simp
  have "distinct (map fst [(''a'', [''b'']), (''b'', [''a''])])" by simp
  note exact = dependency_cycle_exact [OF this]
  from exact c have "\<not> acyclic {(t, d). \<exists>ds. (t, ds) \<in> set [(''a'', [''b'']), (''b'', [''a''])] \<and> d \<in> set ds}" by blast
  moreover have "length [(''a'', [''b'']), (''b'', [''a''])] < (3 :: nat)" by simp
  with exact have "visit_some 3 (dependency_map [(''a'', [''b'']), (''b'', [''a''])]) [] [] [''a'', ''b''] \<noteq> NoFuel" by blast
  ultimately show ?thesis by blast
qed

theorem operations_refine_steps_witness:
  "queue_steps demo_env demo_queued demo_running"
  unfolding demo_running_run [symmetric] using demo_stored(1)
  by (intro operations_refine_steps) (simp add: stored_queue_def)

theorem running_tasks_are_cleared_witness:
  "demo_task \<in> set (supervisor_run demo_env demo_ops) \<and> \<not> (requires_approval demo_task \<and> \<not> approval_granted demo_task)"
proof -
  have "demo_task \<in> set (supervisor_run demo_env demo_ops)" by (simp add: demo_ops_run demo_running_def)
  with running_tasks_are_cleared [OF this] demo_task_facts(2) show ?thesis by blast
qed

theorem attempts_are_bounded_witness: "attempt demo_task \<le> max_attempts demo_task \<and> max_attempts demo_task \<le> 8"
proof -
  have "demo_task \<in> set (supervisor_run demo_env demo_ops)" by (simp add: demo_ops_run demo_running_def)
  from attempts_are_bounded [OF this] show ?thesis by blast
qed

theorem claim_makes_progress_witness:
  "\<exists>t q'. t \<in> set demo_queued \<and> claim demo_env (Iso 10) demo_queued = (q', Inr (find_task (task_id t) q')) \<and>
    find_task (task_id t) q' \<noteq> None"
proof -
  have st: "\<forall>t \<in> set demo_queued. status t \<in> {Queued, Completed}" "\<exists>t \<in> set demo_queued. status t = Queued"
    by (simp_all add: demo_item_defs Let_def)
  have deps: "\<forall>t \<in> set demo_queued. \<forall>d \<in> set (dependency_ids t). find_task d demo_queued \<noteq> None"
    by (simp add: demo_item_defs find_task_def Let_def)
  have due: "\<forall>t \<in> set demo_queued. case date_parse (next_attempt_at t) of None \<Rightarrow> False | Some ms \<Rightarrow> ms \<le> 10"
    by (simp add: demo_item_defs Let_def valid_time_def MAX_TIME_def)
  have now: "date_parse (Iso 10) = Some 10" by code_simp
  from claim_makes_progress [OF demo_stored(1) demo_env_facts(1) now st deps due] show ?thesis
    by (metis option.distinct(1))
qed

theorem retry_backs_off_witness:
  "\<exists>t'. snd (retry demo_env ''a'' ''boom'' (Iso 50) (Some ''delta'') demo_running) = Inr t' \<and> next_attempt_at t' = Iso 1050"
proof -
  obtain q' r where out: "retry demo_env ''a'' ''boom'' (Iso 50) (Some ''delta'') demo_running = (q', r)" by fastforce
  have delta: "js_trim ''delta'' \<noteq> []" and now: "date_parse (Iso 50) = Some 50" by code_simp+
  have e: "maxRetryDelayMs demo_env = 300000" "baseRetryDelayMs demo_env = 1000" by (simp_all add: demo_env_def)
  from retry_backs_off [OF demo_stored(2) demo_env_facts demo_task_facts(1,2) _ delta now _ out]
  show ?thesis by (auto simp: demo_task_facts(3,4) e valid_time_def MAX_TIME_def out)
qed

theorem dispatch_settles_task_witness:
  "\<exists>t'. find_task ''a'' (fst (dispatchClaimed demo_env (Iso 60)
      (\<lambda>h q. (q, Inr \<lparr>dispatch_refused = True, dispatch_reason = ''no''\<rparr>)) ''a'' demo_running)) = Some t' \<and> status t' = Queued"
proof -
  let ?d = "\<lambda>(h::json) q. (q :: queue, (Inr \<lparr>dispatch_refused = True, dispatch_reason = ''no''\<rparr> :: js_error + dispatch_result))"
  obtain q' r where out: "dispatchClaimed demo_env (Iso 60) ?d ''a'' demo_running = (q', r)" by fastforce
  have now: "date_parse (Iso 60) = Some 60" by code_simp
  have vt: "valid_time (60 + retry_delay demo_env demo_task)"
    by (simp add: retry_delay_def demo_task_facts demo_env_def valid_time_def MAX_TIME_def)
  from dispatch_settles_task [OF demo_stored(2) demo_env_facts demo_task_facts(1,2) now vt _ out]
  show ?thesis by (simp add: demo_task_facts(3,4) out)
qed

theorem cancelled_task_is_completed_witness:
  "(\<exists>c. find_task ''a'' (fst (dispatchClaimed demo_env (Iso 60)
      (\<lambda>h q. (fst (cancel demo_env ''a'' ''stop'' (Iso 55) q), Inr \<lparr>dispatch_refused = False, dispatch_reason = []\<rparr>)) ''a'' demo_running)) = Some c \<and>
    status c = Completed) \<and>
   snd (dispatchClaimed demo_env (Iso 60)
      (\<lambda>h q. (fst (cancel demo_env ''a'' ''stop'' (Iso 55) q), Inl (Error ''boom''))) ''a'' demo_running) = Inl (Error ''task_not_running'')"
proof -
  have now: "valid_stamp (Iso 55)" "valid_stamp (Iso 60)" by code_simp+
  note outcome = cancelled_task_is_completed [OF demo_stored(2) demo_env_facts(1) demo_task_facts(1,2) now
    prod.collapse prod.collapse, of "''stop''"]
  show ?thesis
    using outcome [of "Inr \<lparr>dispatch_refused = False, dispatch_reason = []\<rparr>"] outcome [of "Inl (Error ''boom'')"] by simp
qed

end
