(* ===== verification/RunPolicy.thy ===== *)
theory RunPolicy
  imports JsPrelude
begin

text \<open>
  The policies a run is created under: \<^verbatim>\<open>src/data/delivery-system/runPromptPolicy.ts\<close> (how many tokens a
  prompt counts for, and when it needs a review) and \<^verbatim>\<open>src/data/delivery-system/executionProfile.ts\<close> (which
  reasoning efforts a provider supports, how work is classified, that a route never changes silently).
\<close>

section \<open>Prompts\<close>

definition RUN_PROMPT_TOKEN_HARD_CAP :: int where "RUN_PROMPT_TOKEN_HARD_CAP = 9000"
definition RUN_PROMPT_REVIEW_THRESHOLD :: int where "RUN_PROMPT_REVIEW_THRESHOLD = 1000"
definition RUN_OUTPUT_TOKEN_ALLOWANCE_MAX :: int where "RUN_OUTPUT_TOKEN_ALLOWANCE_MAX = 16000"
definition RUN_OUTPUT_TOKEN_ALLOWANCE :: int where "RUN_OUTPUT_TOKEN_ALLOWANCE = 8192"

lemmas run_token_limits = RUN_PROMPT_TOKEN_HARD_CAP_def RUN_PROMPT_REVIEW_THRESHOLD_def
  RUN_OUTPUT_TOKEN_ALLOWANCE_MAX_def RUN_OUTPUT_TOKEN_ALLOWANCE_def

definition conservativeRunPromptTokens :: "utf16 \<Rightarrow> int" where
  "conservativeRunPromptTokens prompt = utf8_byteLength prompt"

definition assertRunPromptPolicy :: "utf16 \<Rightarrow> bool \<Rightarrow> js_error + int" where
  "assertRunPromptPolicy prompt reviewAcknowledged =
     (let tokens = conservativeRunPromptTokens prompt in
      if tokens \<ge> RUN_PROMPT_TOKEN_HARD_CAP then Inl (Error ''run_prompt_token_cap_exceeded'')
      else if tokens > RUN_PROMPT_REVIEW_THRESHOLD \<and> \<not> reviewAcknowledged
        then Inl (Error ''run_prompt_review_required'')
      else Inr tokens)"

definition canonicalRunTokenBudget :: "utf16 \<Rightarrow> int" where
  "canonicalRunTokenBudget prompt = conservativeRunPromptTokens prompt + RUN_OUTPUT_TOKEN_ALLOWANCE"

lemma prompt_policy_Inr:
  "assertRunPromptPolicy prompt ack = Inr n \<longleftrightarrow>
     n = utf8_byteLength prompt \<and> n < 9000 \<and> (ack \<or> n \<le> 1000)"
  by (auto simp: assertRunPromptPolicy_def conservativeRunPromptTokens_def run_token_limits Let_def)

lemma prompt_budget_bounds:
  "assertRunPromptPolicy prompt ack = Inr n \<Longrightarrow>
     8192 \<le> canonicalRunTokenBudget prompt \<and> canonicalRunTokenBudget prompt < 17192"
  by (auto simp: prompt_policy_Inr canonicalRunTokenBudget_def conservativeRunPromptTokens_def run_token_limits)

section \<open>Execution profiles\<close>

datatype run_profile = Dev | Prod
datatype stored_profile = Stored run_profile | Legacy
datatype reasoning_effort = Low | Medium | High | XHigh | MaxEffort | Ultra
datatype run_provider = Codex_cli | Claude_cli | Agy_cli | Openrouter_api
datatype verification_mode = Diff_scoped | Full_fail_closed
datatype lock_status = Acquired_supervisor_spawn | Already_locked | Stale_replaced | Lock_failed
datatype work_risk = OrdinaryRisk | HighRisk
datatype work_class = Deterministic_check | Mechanical_change | Bounded_implementation | Research_or_design
  | Review_class | High_risk_class

fun SUPPORTED_REASONING_EFFORTS :: "run_provider \<Rightarrow> reasoning_effort list" where
  "SUPPORTED_REASONING_EFFORTS Codex_cli = [Low, Medium, High, XHigh, MaxEffort, Ultra]"
| "SUPPORTED_REASONING_EFFORTS Claude_cli = [Low, Medium, High, XHigh, MaxEffort]"
| "SUPPORTED_REASONING_EFFORTS Agy_cli = [Low, Medium, High]"
| "SUPPORTED_REASONING_EFFORTS Openrouter_api = []"

definition resolveVerificationMode :: "run_profile \<Rightarrow> work_risk \<Rightarrow> verification_mode" where
  "resolveVerificationMode p risk = (if p = Prod \<or> risk = HighRisk then Full_fail_closed else Diff_scoped)"

definition classifyWorkUnitForProfile :: "run_profile \<Rightarrow> bool \<Rightarrow> work_class \<times> work_risk" where
  "classifyWorkUnitForProfile p touchesHighRiskBoundary =
     (if p = Prod \<or> touchesHighRiskBoundary then (High_risk_class, HighRisk)
      else (Bounded_implementation, OrdinaryRisk))"

record route_snapshot =
  snap_provider :: string
  snap_model :: "string option"
  snap_reasoning :: "string option"

definition assertNoSilentRouteChange :: "route_snapshot \<Rightarrow> route_snapshot \<Rightarrow> js_error + unit" where
  "assertNoSilentRouteChange earlier later =
     (if snap_provider earlier \<noteq> snap_provider later \<or> snap_model earlier \<noteq> snap_model later \<or>
         snap_reasoning earlier \<noteq> snap_reasoning later
      then Inl (Error ''silent_route_change_forbidden'') else Inr ())"

lemma no_silent_route_change: "assertNoSilentRouteChange earlier later = Inr () \<longleftrightarrow> earlier = later"
  by (cases earlier; cases later) (auto simp: assertNoSilentRouteChange_def)

text \<open>High-risk work is always verified in full.\<close>

lemma high_risk_is_verified:
  "classifyWorkUnitForProfile p b = (cls, risk) \<Longrightarrow> b \<or> p = Prod \<Longrightarrow>
     resolveVerificationMode p risk = Full_fail_closed"
  by (auto simp: classifyWorkUnitForProfile_def resolveVerificationMode_def split: if_splits)

end
