(* ===== verification/RunStore.thy ===== *)
theory RunStore
  imports RunPolicy
begin

text \<open>
  \<^verbatim>\<open>src/data/delivery-system/runStore.ts\<close>: the stored runs. A run is drafted, revised, approved at one
  revision, bound to a supervisor task and a token reservation, run, and finished; every write
  validates the whole document first and every read validates the file.

  A store is the list of its records (a missing file is the empty list). A call that throws leaves the
  store as it was. The environment has the project registry (\<open>resolveEnabledProject\<close>, which gives the
  working directory of an enabled project), the test that the serialized document has at most 16 MiB,
  and SHA-256. Prompts, outputs and previews are UTF-16 strings. The optional fields that records of
  older versions lack have the defaults the reader gives them; a draft without a profile is a legacy
  one.
\<close>

section \<open>Data\<close>

datatype run_status = RDraft | RApproved | RQueued | RRunning | RCompleted | RFailed | RCancelled
datatype artifact_type = TextArtifact | VisualArtifact
datatype reservation_state = NoReservation | ActiveReservation | SettledReservation | ReleasedReservation

record run_draft =
  draft_run_id :: string
  draft_revision :: int
  project_id :: string
  prompt :: utf16
  draft_provider :: run_provider
  draft_model :: "string option"
  estimated_tokens :: int
  input_token_bound :: int
  output_token_allowance :: int
  requested_artifacts :: "artifact_type list"
  prompt_review_acknowledged :: bool
  profile :: "run_profile option"
  requested_reasoning_effort :: "reasoning_effort option"
  promotion_packet_id :: "string option"
  created_at :: stamp

record run_draft_input =
  in_project_id :: string
  in_prompt :: utf16
  in_provider :: run_provider
  in_model :: "string option"
  in_estimated_tokens :: js_number
  in_requested_artifacts :: "artifact_type list"
  in_prompt_review_acknowledged :: bool
  in_profile :: run_profile
  in_reasoning_effort :: "reasoning_effort option"
  in_promotion_packet_id :: "string option"

record run_artifact =
  artifact_id :: string
  artifact_kind :: artifact_type
  preview :: utf16
  artifact_created_at :: stamp

record run_reservation =
  rr_reservationId :: string
  rr_provider :: string
  rr_model :: "string option"
  rr_sessionId :: "string option"
  rr_inputTokens :: int
  rr_outputTokens :: int
  rr_handoffId :: "string option"
  rr_reservedAt :: stamp
  rr_totalTokens :: int
  rr_groupId :: "string option"
  rr_slotId :: "string option"
  rr_heldTokens :: "int option"

record provider_result =
  pr_refused :: bool
  pr_reason :: "string option"
  pr_worker_run_id :: "string option"
  pr_raw_output :: utf16
  pr_exit_code :: "int option"
  pr_error_reason :: "string option"
  pr_lock_status :: "lock_status option"

record run_token_settlement =
  rs_inputTokens :: int
  rs_outputTokens :: int
  rs_totalTokens :: int

record orchestration_reference =
  ref_group_id :: string
  ref_slot_id :: string

record orchestration_request =
  req_operator :: string
  req_estimated_tokens :: int
  req_prompt_commitment :: "string option"

record run_record =
  orchestration_ref :: "orchestration_reference option"
  orchestration_req :: "orchestration_request option"
  current :: run_draft
  revisions :: "run_draft list"
  run_status :: run_status
  approved_revision :: "int option"
  approved_by :: "string option"
  approved_at :: "stamp option"
  supervisor_task_id :: "string option"
  worker_run_id :: "string option"
  terminal_reason :: "string option"
  token_reservation :: "run_reservation option"
  token_settled :: "run_token_settlement option"
  reservation_status :: reservation_state
  provider_result :: "provider_result option"
  cancellation_requested :: bool
  queue_compensation_requested :: bool
  dispatch_failure :: "string option"
  retry_input_tokens :: int
  retry_output_tokens :: int
  artifacts :: "run_artifact list"
  run_updated_at :: stamp

type_synonym run_store = "run_record list"

record run_env =
  resolveEnabledProject :: "string \<Rightarrow> js_error + string"
  fits_store :: "run_store \<Rightarrow> bool"
  run_sha256 :: "utf16 \<Rightarrow> string"

definition MAX_RUNS :: nat where "MAX_RUNS = 256"
definition MAX_REVISIONS :: nat where "MAX_REVISIONS = 20"
definition MAX_PROMPT :: nat where "MAX_PROMPT = 32000"
definition MAX_ARTIFACTS :: nat where "MAX_ARTIFACTS = 32"
definition MAX_PREVIEW :: nat where "MAX_PREVIEW = 32000"
definition MAX_ID :: nat where "MAX_ID = 256"
definition MAX_MODEL :: nat where "MAX_MODEL = 256"
definition MAX_OPERATOR :: nat where "MAX_OPERATOR = 256"
definition MAX_TERMINAL_REASON :: nat where "MAX_TERMINAL_REASON = 32000"

lemmas run_store_limits = MAX_RUNS_def MAX_REVISIONS_def MAX_PROMPT_def MAX_ARTIFACTS_def MAX_PREVIEW_def
  MAX_ID_def MAX_MODEL_def MAX_OPERATOR_def MAX_TERMINAL_REASON_def

text \<open>The pattern of a project identifier: a lower-case letter or digit, then at most 79 of
  \<open>a-z0-9._-\<close>.\<close>

definition project_id_pattern :: "string \<Rightarrow> bool" where
  "project_id_pattern s \<longleftrightarrow>
     (case s of [] \<Rightarrow> False
      | c # cs \<Rightarrow> c \<in> set ''abcdefghijklmnopqrstuvwxyz0123456789'' \<and> length cs \<le> 79 \<and>
          list_all (\<lambda>d. d \<in> set ''abcdefghijklmnopqrstuvwxyz0123456789._-'') cs)"

fun transitions :: "run_status \<Rightarrow> run_status list" where
  "transitions RDraft = [RCancelled]"
| "transitions RApproved = [RQueued, RCancelled]"
| "transitions RQueued = [RRunning, RCancelled]"
| "transitions RRunning = [RCompleted, RFailed, RCancelled]"
| "transitions RCompleted = []"
| "transitions RFailed = []"
| "transitions RCancelled = []"

section \<open>Validation\<close>

definition validString :: "'a list \<Rightarrow> nat \<Rightarrow> bool \<Rightarrow> bool" where
  "validString v maximum allowEmpty \<longleftrightarrow> (allowEmpty \<or> length v > 0) \<and> length v \<le> maximum"

definition validNullableString :: "'a list option \<Rightarrow> nat \<Rightarrow> bool" where
  "validNullableString v maximum \<longleftrightarrow> (case v of None \<Rightarrow> True | Some s \<Rightarrow> validString s maximum False)"

definition validDraftInput :: "run_draft \<Rightarrow> bool" where
  "validDraftInput d \<longleftrightarrow>
     (case assertRunPromptPolicy (prompt d) (prompt_review_acknowledged d) of Inl _ \<Rightarrow> False | Inr _ \<Rightarrow> True) \<and>
     project_id_pattern (project_id d) \<and> length (prompt d) \<le> MAX_PROMPT \<and>
     (case draft_model d of None \<Rightarrow> True | Some m \<Rightarrow> validString m MAX_MODEL True) \<and>
     input_token_bound d = conservativeRunPromptTokens (prompt d) \<and>
     output_token_allowance d = RUN_OUTPUT_TOKEN_ALLOWANCE \<and>
     output_token_allowance d \<le> RUN_OUTPUT_TOKEN_ALLOWANCE_MAX \<and>
     estimated_tokens d = input_token_bound d + output_token_allowance d \<and>
     length (requested_artifacts d) \<le> 2 \<and>
     length (js_unique (requested_artifacts d)) = length (requested_artifacts d)"

lemma accepted_case [simp]: "(case r of Inl _ \<Rightarrow> False | Inr _ \<Rightarrow> True) \<longleftrightarrow> is_ok r"
  by (cases r) simp_all

definition validStoredProfileFields :: "run_draft \<Rightarrow> bool" where
  "validStoredProfileFields d \<longleftrightarrow>
     (case profile d of
        None \<Rightarrow> requested_reasoning_effort d = None \<and> promotion_packet_id d = None
      | Some p \<Rightarrow>
          (case requested_reasoning_effort d of None \<Rightarrow> True
           | Some e \<Rightarrow> e \<in> set (SUPPORTED_REASONING_EFFORTS (draft_provider d))) \<and>
          (case p of Dev \<Rightarrow> promotion_packet_id d = None
           | Prod \<Rightarrow> (case promotion_packet_id d of None \<Rightarrow> False | Some i \<Rightarrow> validString i MAX_ID False)))"

definition validDraft :: "run_draft \<Rightarrow> bool" where
  "validDraft d \<longleftrightarrow>
     validString (draft_run_id d) MAX_ID False \<and> isSafeInteger (draft_revision d) \<and> draft_revision d > 0 \<and>
     canonical_stamp (created_at d) \<and> validDraftInput d \<and> validStoredProfileFields d"

definition normalizeProfileFields :: "run_draft_input \<Rightarrow> js_error + reasoning_effort option \<times> string option" where
  "normalizeProfileFields i =
     (let effort = in_reasoning_effort i in
      if (case effort of None \<Rightarrow> False | Some e \<Rightarrow> e \<notin> set (SUPPORTED_REASONING_EFFORTS (in_provider i)))
      then Inl (Error ''invalid_run_draft'')
      else case in_profile i of
          Dev \<Rightarrow> if in_promotion_packet_id i \<noteq> None then Inl (Error ''invalid_run_draft'') else Inr (effort, None)
        | Prod \<Rightarrow>
            (case in_promotion_packet_id i of
               None \<Rightarrow> Inl (Error ''invalid_run_draft'')
             | Some p \<Rightarrow> if validString p MAX_ID False then Inr (effort, Some p) else Inl (Error ''invalid_run_draft'')))"

definition canonicalPromptCommitment :: "run_env \<Rightarrow> utf16 \<Rightarrow> string" where
  "canonicalPromptCommitment E p = run_sha256 E p"

definition resolveRunProfile :: "run_record \<Rightarrow> stored_profile" where
  "resolveRunProfile r = (case profile (current r) of None \<Rightarrow> Legacy | Some p \<Rightarrow> Stored p)"

definition resolveLegacyRequestedReasoning :: "run_record \<Rightarrow> reasoning_effort option" where
  "resolveLegacyRequestedReasoning r =
     (if resolveRunProfile r = Legacy then None else requested_reasoning_effort (current r))"

definition resolveLegacyPromotionPacketId :: "run_record \<Rightarrow> string option" where
  "resolveLegacyPromotionPacketId r =
     (if resolveRunProfile r = Legacy then None else promotion_packet_id (current r))"

definition validReservation :: "run_reservation option \<Rightarrow> bool" where
  "validReservation v \<longleftrightarrow>
     (case v of None \<Rightarrow> True
      | Some r \<Rightarrow>
          validString (rr_reservationId r) MAX_ID False \<and> validString (rr_provider r) MAX_ID False \<and>
          validNullableString (rr_model r) MAX_MODEL \<and> validNullableString (rr_sessionId r) MAX_ID \<and>
          isSafeInteger (rr_inputTokens r) \<and> rr_inputTokens r \<ge> 0 \<and>
          isSafeInteger (rr_outputTokens r) \<and> rr_outputTokens r \<ge> 0 \<and>
          isSafeInteger (rr_totalTokens r) \<and> rr_totalTokens r = rr_inputTokens r + rr_outputTokens r \<and>
          canonical_stamp (rr_reservedAt r) \<and> validNullableString (rr_handoffId r) MAX_ID \<and>
          (case (rr_groupId r, rr_slotId r, rr_heldTokens r) of
             (None, None, None) \<Rightarrow> True
           | (Some g, Some s, Some h) \<Rightarrow> validString g MAX_ID False \<and> validString s MAX_ID False \<and>
               isSafeInteger h \<and> h \<ge> rr_totalTokens r
           | _ \<Rightarrow> False))"

definition validTokenSettlement :: "run_token_settlement option \<Rightarrow> bool" where
  "validTokenSettlement v \<longleftrightarrow>
     (case v of None \<Rightarrow> True
      | Some s \<Rightarrow>
          isSafeInteger (rs_inputTokens s) \<and> rs_inputTokens s \<ge> 0 \<and>
          isSafeInteger (rs_outputTokens s) \<and> rs_outputTokens s \<ge> 0 \<and>
          isSafeInteger (rs_totalTokens s) \<and> rs_totalTokens s = rs_inputTokens s + rs_outputTokens s)"

definition validProviderResult :: "provider_result option \<Rightarrow> bool" where
  "validProviderResult v \<longleftrightarrow>
     (case v of None \<Rightarrow> True
      | Some r \<Rightarrow>
          validNullableString (pr_reason r) MAX_TERMINAL_REASON \<and> validNullableString (pr_worker_run_id r) MAX_ID \<and>
          length (pr_raw_output r) \<le> MAX_PREVIEW \<and>
          (case pr_exit_code r of None \<Rightarrow> True | Some c \<Rightarrow> isSafeInteger c) \<and>
          validNullableString (pr_error_reason r) MAX_TERMINAL_REASON)"

definition hasApproval :: "run_record \<Rightarrow> bool" where
  "hasApproval r \<longleftrightarrow>
     approved_revision r = Some (draft_revision (current r)) \<and>
     (case approved_by r of None \<Rightarrow> False | Some name \<Rightarrow> validString name MAX_OPERATOR False) \<and>
     (case approved_at r of None \<Rightarrow> False | Some t \<Rightarrow> canonical_stamp t)"

definition lacksApproval :: "run_record \<Rightarrow> bool" where
  "lacksApproval r \<longleftrightarrow> approved_revision r = None \<and> approved_by r = None \<and> approved_at r = None"

definition approvalIsValid :: "run_record \<Rightarrow> bool" where
  "approvalIsValid r \<longleftrightarrow>
     (if run_status r = RDraft then lacksApproval r
      else if run_status r = RCancelled then lacksApproval r \<or> hasApproval r
      else hasApproval r)"

definition validOrchestrationRequest :: "orchestration_request option \<Rightarrow> bool" where
  "validOrchestrationRequest v \<longleftrightarrow>
     (case v of None \<Rightarrow> True
      | Some q \<Rightarrow> validString (req_operator q) MAX_OPERATOR False \<and> isSafeInteger (req_estimated_tokens q) \<and>
          req_estimated_tokens q \<ge> 0 \<and>
          (case req_prompt_commitment q of None \<Rightarrow> True | Some c \<Rightarrow> hex64 c))"

definition validRevisions :: "run_record \<Rightarrow> bool" where
  "validRevisions r \<longleftrightarrow>
     revisions r \<noteq> [] \<and> length (revisions r) \<le> MAX_REVISIONS \<and> validDraft (current r) \<and>
     draft_revision (current r) = int (length (revisions r)) \<and> current r = last (revisions r) \<and>
     list_all (\<lambda>(i, d). validDraft d \<and> draft_run_id d = draft_run_id (current r) \<and> draft_revision d = int i + 1)
       (enumerate 0 (revisions r))"

definition validArtifacts :: "run_record \<Rightarrow> bool" where
  "validArtifacts r \<longleftrightarrow>
     length (artifacts r) \<le> MAX_ARTIFACTS \<and> length (js_unique (map artifact_id (artifacts r))) = length (artifacts r) \<and>
     list_all (\<lambda>a. validString (artifact_id a) MAX_ID False \<and> length (preview a) \<le> MAX_PREVIEW \<and>
       canonical_stamp (artifact_created_at a)) (artifacts r)"

definition validRecord :: "run_record \<Rightarrow> bool" where
  "validRecord r \<longleftrightarrow>
     (case orchestration_ref r of None \<Rightarrow> True
      | Some q \<Rightarrow> validString (ref_group_id q) MAX_ID False \<and> validString (ref_slot_id q) MAX_ID False) \<and>
     (orchestration_ref r = None) = (orchestration_req r = None) \<and> validOrchestrationRequest (orchestration_req r) \<and>
     validRevisions r \<and> approvalIsValid r \<and>
     validNullableString (supervisor_task_id r) MAX_ID \<and> validNullableString (worker_run_id r) MAX_ID \<and>
     validNullableString (terminal_reason r) MAX_TERMINAL_REASON \<and> canonical_stamp (run_updated_at r) \<and>
     validReservation (token_reservation r) \<and>
     (reservation_status r = NoReservation) = (token_reservation r = None) \<and>
     validTokenSettlement (token_settled r) \<and>
     (token_settled r \<noteq> None \<longrightarrow> reservation_status r = SettledReservation) \<and>
     validProviderResult (provider_result r) \<and>
     validNullableString (dispatch_failure r) MAX_TERMINAL_REASON \<and>
     isSafeInteger (retry_input_tokens r) \<and> retry_input_tokens r \<ge> 0 \<and>
     isSafeInteger (retry_output_tokens r) \<and> retry_output_tokens r \<ge> 0 \<and> validArtifacts r"

definition group_refs :: "run_store \<Rightarrow> orchestration_reference list" where
  "group_refs s = concat (map (\<lambda>r. case orchestration_ref r of None \<Rightarrow> [] | Some q \<Rightarrow> [q]) s)"

definition run_id :: "run_record \<Rightarrow> string" where
  "run_id r = draft_run_id (current r)"

definition validate :: "run_store \<Rightarrow> bool" where
  "validate s \<longleftrightarrow>
     length s \<le> MAX_RUNS \<and> list_all validRecord s \<and>
     length (js_unique (map run_id s)) = length s \<and>
     length (js_unique (group_refs s)) = length (group_refs s)"

section \<open>Reading and writing\<close>

definition readRunStore :: "run_store \<Rightarrow> js_error + run_store" where
  "readRunStore file = (if validate file then Inr file else Inl (Error ''invalid_run_store''))"

definition write_store :: "run_env \<Rightarrow> run_store \<Rightarrow> js_error + run_store" where
  "write_store E s = (if \<not> validate s \<or> \<not> fits_store E s then Inl (Error ''invalid_run_store'') else Inr s)"

definition find_run :: "string \<Rightarrow> run_store \<Rightarrow> js_error + run_record" where
  "find_run i file =
     bind_result (readRunStore file) (\<lambda>s.
       case List.find (\<lambda>r. run_id r = i) s of None \<Rightarrow> Inl (Error ''run_not_found'') | Some r \<Rightarrow> Inr r)"

text \<open>A call on the store returns the new file, or throws and leaves the file.\<close>

definition replace_run :: "run_env \<Rightarrow> run_record \<Rightarrow> run_store \<Rightarrow> js_error + run_store \<times> run_record" where
  "replace_run E r file =
     bind_result (readRunStore file) (\<lambda>s.
       case List.find (\<lambda>x. run_id x = run_id r) s of
         None \<Rightarrow> Inl (Error ''legacy_run_read_only'')
       | Some original \<Rightarrow>
           if resolveRunProfile original = Legacy then Inl (Error ''legacy_run_read_only'')
           else bind_result (write_store E (map (\<lambda>x. if run_id x = run_id r then r else x) s)) (\<lambda>s'. Inr (s', r)))"

section \<open>Drafts\<close>

definition draft_of :: "run_draft_input \<Rightarrow> reasoning_effort option \<Rightarrow> string option \<Rightarrow> string \<Rightarrow> int \<Rightarrow> stamp \<Rightarrow> run_draft" where
  "draft_of i effort packet rid revision now =
     \<lparr>draft_run_id = rid, draft_revision = revision, project_id = in_project_id i, prompt = in_prompt i,
      draft_provider = in_provider i, draft_model = in_model i,
      estimated_tokens = canonicalRunTokenBudget (in_prompt i),
      input_token_bound = conservativeRunPromptTokens (in_prompt i),
      output_token_allowance = RUN_OUTPUT_TOKEN_ALLOWANCE,
      requested_artifacts = in_requested_artifacts i,
      prompt_review_acknowledged = in_prompt_review_acknowledged i, profile = Some (in_profile i),
      requested_reasoning_effort = effort, promotion_packet_id = packet, created_at = now\<rparr>"

text \<open>The checks the three draft functions share, in their order: the project, the prompt policy, the
  estimate, the profile, the draft. \<open>build\<close> is the draft the caller makes.\<close>

definition checked_draft :: "run_env \<Rightarrow> run_draft_input \<Rightarrow> string \<Rightarrow> int \<Rightarrow> stamp \<Rightarrow> js_error + run_draft" where
  "checked_draft E i rid revision now =
     bind_result (resolveEnabledProject E (in_project_id i)) (\<lambda>_.
     bind_result (assertRunPromptPolicy (in_prompt i) (in_prompt_review_acknowledged i)) (\<lambda>_.
     if (case safe_integer_of (in_estimated_tokens i) of None \<Rightarrow> True
         | Some n \<Rightarrow> n < canonicalRunTokenBudget (in_prompt i))
     then Inl (Error ''run_token_budget_underestimated'')
     else bind_result (normalizeProfileFields i) (\<lambda>(effort, packet).
       let d = draft_of i effort packet rid revision now
       in if \<not> validDraftInput d \<or> \<not> canonical_stamp now then Inl (Error ''invalid_run_draft'') else Inr d)))"

definition new_record :: "run_draft \<Rightarrow> orchestration_reference option \<Rightarrow> orchestration_request option \<Rightarrow> stamp \<Rightarrow> run_record" where
  "new_record d ref req now =
     \<lparr>orchestration_ref = ref, orchestration_req = req, current = d, revisions = [d], run_status = RDraft,
      approved_revision = None, approved_by = None, approved_at = None, supervisor_task_id = None,
      worker_run_id = None, terminal_reason = None, token_reservation = None, token_settled = None,
      reservation_status = NoReservation, provider_result = None, cancellation_requested = False,
      queue_compensation_requested = False, dispatch_failure = None, retry_input_tokens = 0,
      retry_output_tokens = 0, artifacts = [], run_updated_at = now\<rparr>"

text \<open>\<open>fresh\<close> is the identifier that \<open>randomUUID\<close> gives.\<close>

definition createRunDraft :: "run_env \<Rightarrow> string \<Rightarrow> run_draft_input \<Rightarrow> stamp \<Rightarrow> run_store \<Rightarrow> js_error + run_store \<times> run_draft" where
  "createRunDraft E fresh i now file =
     bind_result (checked_draft E i fresh 1 now) (\<lambda>d.
     bind_result (readRunStore file) (\<lambda>s.
     if length s \<ge> MAX_RUNS then Inl (Error ''run_limit'')
     else bind_result (write_store E (s @ [new_record d None None now])) (\<lambda>s'. Inr (s', d))))"

definition createGroupRunDraft ::
  "run_env \<Rightarrow> string \<Rightarrow> orchestration_reference \<Rightarrow> string \<Rightarrow> run_draft_input \<Rightarrow> stamp \<Rightarrow> run_store \<Rightarrow>
   js_error + run_store \<times> run_draft" where
  "createGroupRunDraft E rid ref operator i now file =
     (if \<not> validString rid MAX_ID False \<or> \<not> validString (ref_group_id ref) MAX_ID False \<or>
         \<not> validString (ref_slot_id ref) MAX_ID False \<or> \<not> validString operator MAX_OPERATOR False
      then Inl (Error ''invalid_run_draft'')
      else bind_result (checked_draft E i rid 1 now) (\<lambda>d.
        bind_result (readRunStore file) (\<lambda>s.
        if list_ex (\<lambda>r. run_id r = rid \<or> orchestration_ref r = Some ref) s
          then Inl (Error ''orchestration_group_run_exists'')
        else if length s \<ge> MAX_RUNS then Inl (Error ''run_limit'')
        else
          let req = \<lparr>req_operator = operator,
                req_estimated_tokens = (case safe_integer_of (in_estimated_tokens i) of Some n \<Rightarrow> n | None \<Rightarrow> 0),
                req_prompt_commitment = Some (canonicalPromptCommitment E (in_prompt i))\<rparr>
          in bind_result (write_store E (s @ [new_record d (Some ref) (Some req) now])) (\<lambda>s'. Inr (s', d)))))"

definition reviseRunDraft :: "run_env \<Rightarrow> string \<Rightarrow> int \<Rightarrow> run_draft_input \<Rightarrow> stamp \<Rightarrow> run_store \<Rightarrow>
    js_error + run_store \<times> run_draft" where
  "reviseRunDraft E i revision input now file =
     bind_result (find_run i file) (\<lambda>r.
       if run_status r \<noteq> RDraft \<or> draft_revision (current r) \<noteq> revision then Inl (Error ''run_revision_conflict'')
       else if length (revisions r) \<ge> MAX_REVISIONS then Inl (Error ''run_revision_limit'')
       else bind_result (checked_draft E input i (revision + 1) now) (\<lambda>d.
         bind_result (replace_run E (r\<lparr>current := d, revisions := revisions r @ [d], run_updated_at := now\<rparr>) file)
           (\<lambda>(s', _). Inr (s', d))))"

section \<open>Operations on a run\<close>

text \<open>An operation finds the run, decides, and replaces it or returns it unchanged (\<open>None\<close>).\<close>

definition on_run :: "run_env \<Rightarrow> string \<Rightarrow> (run_record \<Rightarrow> js_error + run_record option) \<Rightarrow> run_store \<Rightarrow>
    js_error + run_store \<times> run_record" where
  "on_run E i f file =
     bind_result (find_run i file) (\<lambda>r.
     bind_result (f r) (\<lambda>c. case c of None \<Rightarrow> Inr (file, r) | Some r' \<Rightarrow> replace_run E r' file))"

definition approveRunRevision :: "run_env \<Rightarrow> string \<Rightarrow> int \<Rightarrow> string \<Rightarrow> stamp \<Rightarrow> run_store \<Rightarrow>
    js_error + run_store \<times> run_record" where
  "approveRunRevision E i revision operator at' = on_run E i (\<lambda>r.
     if approved_revision r = Some revision \<and> approved_by r = Some operator then Inr None
     else if run_status r \<noteq> RDraft \<or> draft_revision (current r) \<noteq> revision then Inl (Error ''run_revision_conflict'')
     else if \<not> validString operator MAX_OPERATOR False \<or> \<not> canonical_stamp at' then Inl (Error ''invalid_run_approval'')
     else Inr (Some (r\<lparr>run_status := RApproved, approved_revision := Some revision, approved_by := Some operator,
       approved_at := Some at', run_updated_at := at'\<rparr>)))"

definition transition_step :: "run_status \<Rightarrow> stamp \<Rightarrow> run_record \<Rightarrow> js_error + run_record option" where
  "transition_step st now r =
     (if \<not> canonical_stamp now \<or> st \<notin> set (transitions (run_status r)) then Inl (Error ''invalid_run_transition'')
      else Inr (Some (r\<lparr>run_status := st, run_updated_at := now\<rparr>)))"

definition transitionRun :: "run_env \<Rightarrow> string \<Rightarrow> run_status \<Rightarrow> stamp \<Rightarrow> run_store \<Rightarrow> js_error + run_store \<times> run_record" where
  "transitionRun E i st now = on_run E i (transition_step st now)"

definition appendRunArtifact :: "run_env \<Rightarrow> string \<Rightarrow> string \<Rightarrow> artifact_type \<Rightarrow> utf16 \<Rightarrow> stamp \<Rightarrow> run_store \<Rightarrow>
    js_error + run_store \<times> run_record" where
  "appendRunArtifact E i aid kind pre now = on_run E i (\<lambda>r.
     if length (artifacts r) \<ge> MAX_ARTIFACTS then Inl (Error ''run_artifact_limit'')
     else if \<not> validString aid MAX_ID False \<or> list_ex (\<lambda>a. artifact_id a = aid) (artifacts r) \<or>
             length pre > MAX_PREVIEW \<or> \<not> canonical_stamp now
       then Inl (Error ''invalid_run_artifact'')
     else Inr (Some (r\<lparr>artifacts := artifacts r @ [\<lparr>artifact_id = aid, artifact_kind = kind, preview = pre,
       artifact_created_at = now\<rparr>], run_updated_at := now\<rparr>)))"

definition bindRunToSupervisor :: "run_env \<Rightarrow> string \<Rightarrow> string \<Rightarrow> run_reservation \<Rightarrow> stamp \<Rightarrow> run_store \<Rightarrow>
    js_error + run_store \<times> run_record" where
  "bindRunToSupervisor E i taskId res now = on_run E i (\<lambda>r.
     if run_status r \<noteq> RApproved \<or> supervisor_task_id r \<noteq> None \<or> \<not> validString taskId MAX_ID False \<or>
        \<not> validReservation (Some res) \<or> rr_totalTokens res \<noteq> estimated_tokens (current r) \<or> \<not> canonical_stamp now
     then Inl (Error ''invalid_run_binding'')
     else Inr (Some (r\<lparr>supervisor_task_id := Some taskId, token_reservation := Some res,
       reservation_status := ActiveReservation, run_updated_at := now\<rparr>)))"

definition clearRunSupervisorBinding :: "run_env \<Rightarrow> string \<Rightarrow> stamp \<Rightarrow> run_store \<Rightarrow> js_error + run_store \<times> run_record" where
  "clearRunSupervisorBinding E i now = on_run E i (\<lambda>r.
     if run_status r \<noteq> RApproved \<or> \<not> canonical_stamp now then Inl (Error ''invalid_run_binding'')
     else Inr (Some (r\<lparr>supervisor_task_id := None, token_reservation := None, reservation_status := NoReservation,
       queue_compensation_requested := False, run_updated_at := now\<rparr>)))"

definition recordRunProviderResult :: "run_env \<Rightarrow> string \<Rightarrow> provider_result \<Rightarrow> stamp \<Rightarrow> run_store \<Rightarrow>
    js_error + run_store \<times> run_record" where
  "recordRunProviderResult E i res now = on_run E i (\<lambda>r.
     if run_status r \<notin> {RQueued, RRunning} \<or> \<not> validProviderResult (Some res) \<or> \<not> canonical_stamp now
     then Inl (Error ''invalid_run_provider_result'')
     else if provider_result r \<noteq> None then Inr None
     else Inr (Some (r\<lparr>provider_result := Some res, worker_run_id := pr_worker_run_id res, run_updated_at := now\<rparr>)))"

definition clearRunProviderResultForRetry :: "run_env \<Rightarrow> string \<Rightarrow> int \<Rightarrow> int \<Rightarrow> stamp \<Rightarrow> run_store \<Rightarrow>
    js_error + run_store \<times> run_record" where
  "clearRunProviderResultForRetry E i inp out now = on_run E i (\<lambda>r.
     if provider_result r = None \<or> \<not> isSafeInteger inp \<or> inp < 0 \<or> \<not> isSafeInteger out \<or> out < 0 \<or>
        \<not> canonical_stamp now
     then Inl (Error ''invalid_run_provider_result'')
     else Inr (Some (r\<lparr>provider_result := None, worker_run_id := None,
       retry_input_tokens := retry_input_tokens r + inp, retry_output_tokens := retry_output_tokens r + out,
       run_updated_at := now\<rparr>)))"

definition settlement_of :: "int \<Rightarrow> int \<Rightarrow> run_token_settlement" where
  "settlement_of inp out = \<lparr>rs_inputTokens = inp, rs_outputTokens = out, rs_totalTokens = inp + out\<rparr>"

definition recordRunTokenSettlement :: "run_env \<Rightarrow> string \<Rightarrow> int \<Rightarrow> int \<Rightarrow> stamp \<Rightarrow> run_store \<Rightarrow>
    js_error + run_store \<times> run_record" where
  "recordRunTokenSettlement E i inp out now = on_run E i (\<lambda>r.
     if \<not> validTokenSettlement (Some (settlement_of inp out)) \<or> \<not> canonical_stamp now
       then Inl (Error ''invalid_run_token_settlement'')
     else case token_settled r of
       Some t \<Rightarrow> if t = settlement_of inp out then Inr None else Inl (Error ''run_token_settlement_conflict'')
     | None \<Rightarrow> Inr (Some (r\<lparr>token_settled := Some (settlement_of inp out), run_updated_at := now\<rparr>)))"

definition settleRunReservation :: "run_env \<Rightarrow> string \<Rightarrow> int \<Rightarrow> int \<Rightarrow> stamp \<Rightarrow> run_store \<Rightarrow>
    js_error + run_store \<times> run_record" where
  "settleRunReservation E i inp out now = on_run E i (\<lambda>r.
     if \<not> validTokenSettlement (Some (settlement_of inp out)) \<or> \<not> canonical_stamp now
       then Inl (Error ''invalid_run_token_settlement'')
     else if reservation_status r = SettledReservation \<and> token_settled r \<noteq> None
       then (if token_settled r = Some (settlement_of inp out) then Inr None
             else Inl (Error ''run_token_settlement_conflict''))
     else if reservation_status r \<noteq> ActiveReservation \<or> token_settled r \<noteq> None
       then Inl (Error ''invalid_run_reservation_transition'')
     else Inr (Some (r\<lparr>reservation_status := SettledReservation, token_settled := Some (settlement_of inp out),
       run_updated_at := now\<rparr>)))"

text \<open>The status asked for is \<open>settled\<close> or \<open>released\<close>.\<close>

definition markRunReservationTerminal :: "run_env \<Rightarrow> string \<Rightarrow> bool \<Rightarrow> stamp \<Rightarrow> run_store \<Rightarrow>
    js_error + run_store \<times> run_record" where
  "markRunReservationTerminal E i settled now = on_run E i (\<lambda>r.
     let st = (if settled then SettledReservation else ReleasedReservation) in
     if reservation_status r = st then Inr None
     else if reservation_status r \<noteq> ActiveReservation \<or> \<not> canonical_stamp now
       then Inl (Error ''invalid_run_reservation_transition'')
     else Inr (Some (r\<lparr>reservation_status := st, run_updated_at := now\<rparr>)))"

text \<open>The final status is \<open>completed\<close> or \<open>failed\<close>; a queued run is first moved to running, by a write of its
  own, which stays when the second step throws.\<close>

definition finalizeRun :: "run_env \<Rightarrow> string \<Rightarrow> bool \<Rightarrow> string option \<Rightarrow> stamp \<Rightarrow> run_store \<Rightarrow>
    run_store \<times> (js_error + run_record)" where
  "finalizeRun E i completed reason now file =
     (let st = (if completed then RCompleted else RFailed) in
      case find_run i file of
        Inl e \<Rightarrow> (file, Inl e)
      | Inr r \<Rightarrow>
          if run_status r = st then (file, Inr r)
          else
            (case (if run_status r = RQueued then transitionRun E i RRunning now file else Inr (file, r)) of
               Inl e \<Rightarrow> (file, Inl e)
             | Inr (file', r') \<Rightarrow>
                 if run_status r' \<noteq> RRunning \<or> \<not> validNullableString reason MAX_TERMINAL_REASON
                 then (file', Inl (Error ''invalid_run_transition''))
                 else
                   (case replace_run E (r'\<lparr>run_status := st, terminal_reason := reason, run_updated_at := now\<rparr>) file' of
                      Inl e \<Rightarrow> (file', Inl e) | Inr (file2, r2) \<Rightarrow> (file2, Inr r2))))"

definition requestRunCancellation :: "run_env \<Rightarrow> string \<Rightarrow> stamp \<Rightarrow> run_store \<Rightarrow> js_error + run_store \<times> run_record" where
  "requestRunCancellation E i now = on_run E i (\<lambda>r.
     if cancellation_requested r then Inr None
     else if run_status r \<in> {RCompleted, RFailed, RCancelled} \<or> \<not> canonical_stamp now
       then Inl (Error ''invalid_run_cancellation'')
     else Inr (Some (r\<lparr>cancellation_requested := True, run_updated_at := now\<rparr>)))"

definition requestRunQueueCompensation :: "run_env \<Rightarrow> string \<Rightarrow> stamp \<Rightarrow> run_store \<Rightarrow> js_error + run_store \<times> run_record" where
  "requestRunQueueCompensation E i now = on_run E i (\<lambda>r.
     if queue_compensation_requested r then Inr None
     else if run_status r \<noteq> RApproved \<or> supervisor_task_id r = None \<or> token_reservation r = None \<or>
             \<not> canonical_stamp now
       then Inl (Error ''invalid_run_compensation'')
     else Inr (Some (r\<lparr>queue_compensation_requested := True, run_updated_at := now\<rparr>)))"

definition recordRunDispatchFailure :: "run_env \<Rightarrow> string \<Rightarrow> string \<Rightarrow> stamp \<Rightarrow> run_store \<Rightarrow> js_error + run_store \<times> run_record" where
  "recordRunDispatchFailure E i reason now = on_run E i (\<lambda>r.
     if dispatch_failure r \<noteq> None then Inr None
     else if run_status r \<notin> {RQueued, RRunning} \<or> \<not> validString reason MAX_TERMINAL_REASON False \<or>
             \<not> canonical_stamp now
       then Inl (Error ''invalid_run_dispatch_failure'')
     else Inr (Some (r\<lparr>dispatch_failure := Some reason, run_updated_at := now\<rparr>)))"

definition clearRunDispatchFailure :: "run_env \<Rightarrow> string \<Rightarrow> stamp \<Rightarrow> run_store \<Rightarrow> js_error + run_store \<times> run_record" where
  "clearRunDispatchFailure E i now = on_run E i (\<lambda>r.
     if dispatch_failure r = None then Inr None
     else if \<not> canonical_stamp now then Inl (Error ''invalid_run_dispatch_failure'')
     else Inr (Some (r\<lparr>dispatch_failure := None, run_updated_at := now\<rparr>)))"

end
