(* ===== verification/RunStoreProps.thy ===== *)
theory RunStoreProps
  imports RunStore "HOL-Library.Sublist"
begin

text \<open>
  What every operation of the run store keeps: the document stays valid, and a record only moves forward
  (\<open>record_frame\<close>). Proved once for the scheme the operations share and instantiated by each.
\<close>

section \<open>The status life cycle\<close>

definition run_next :: "run_status \<Rightarrow> run_status \<Rightarrow> bool" where
  "run_next s t \<longleftrightarrow> t \<in> set (transitions s) \<or> s = RDraft \<and> t = RApproved"

fun run_rank :: "run_status \<Rightarrow> nat" where
  "run_rank RDraft = 0"
| "run_rank RApproved = 1"
| "run_rank RQueued = 2"
| "run_rank RRunning = 3"
| "run_rank RCompleted = 4"
| "run_rank RFailed = 4"
| "run_rank RCancelled = 4"

interpretation run_life: life_cycle run_next run_rank 4
proof unfold_locales
  show "run_next s t \<Longrightarrow> run_rank s < run_rank t" for s t
    by (cases s; cases t) (simp_all add: run_next_def)
  show "run_rank s \<le> 4" for s by (cases s) simp_all
qed

section \<open>What a record keeps\<close>

text \<open>The reservation a run is bound to holds exactly the tokens its approved draft estimates.\<close>

definition bound_ok :: "run_record \<Rightarrow> bool" where
  "bound_ok r \<longleftrightarrow> (\<forall>res. token_reservation r = Some res \<longrightarrow>
     rr_totalTokens res = estimated_tokens (current r) \<and> run_status r \<noteq> RDraft)"

definition record_frame :: "run_record \<Rightarrow> run_record \<Rightarrow> bool" where
  "record_frame r r' \<longleftrightarrow>
     run_id r' = run_id r \<and> orchestration_ref r' = orchestration_ref r \<and> orchestration_req r' = orchestration_req r \<and>
     prefix (revisions r) (revisions r') \<and> prefix (artifacts r) (artifacts r') \<and>
     (run_status r \<noteq> RDraft \<longrightarrow> current r' = current r \<and> revisions r' = revisions r \<and>
        approved_revision r' = approved_revision r \<and> approved_by r' = approved_by r \<and>
        approved_at r' = approved_at r) \<and>
     run_next\<^sup>*\<^sup>* (run_status r) (run_status r') \<and>
     (token_settled r \<noteq> None \<longrightarrow> token_settled r' = token_settled r) \<and>
     (cancellation_requested r \<longrightarrow> cancellation_requested r') \<and> (bound_ok r \<longrightarrow> bound_ok r')"

lemma record_frame_refl [simp]: "record_frame r r"
  by (simp add: record_frame_def)

lemma run_next_not_draft: "run_next s t \<Longrightarrow> t \<noteq> RDraft"
  by (cases s) (auto simp: run_next_def)

lemma draft_never_left: "run_next\<^sup>*\<^sup>* s t \<Longrightarrow> s \<noteq> RDraft \<Longrightarrow> t \<noteq> RDraft"
  by (induction rule: rtranclp_induct) (auto dest: run_next_not_draft)

lemma record_frame_trans: "record_frame a b \<Longrightarrow> record_frame b c \<Longrightarrow> record_frame a c"
proof -
  assume ab: "record_frame a b" and bc: "record_frame b c"
  have nd: "run_status b \<noteq> RDraft" if "run_status a \<noteq> RDraft"
    using ab draft_never_left that unfolding record_frame_def by blast
  have a: "prefix (revisions a) (revisions b)" "prefix (artifacts a) (artifacts b)" "run_next\<^sup>*\<^sup>* (run_status a) (run_status b)"
    using ab unfolding record_frame_def by simp_all
  have c: "prefix (revisions b) (revisions c)" "prefix (artifacts b) (artifacts c)" "run_next\<^sup>*\<^sup>* (run_status b) (run_status c)"
    using bc unfolding record_frame_def by simp_all
  have "prefix (revisions a) (revisions c)" "prefix (artifacts a) (artifacts c)"
    and "run_next\<^sup>*\<^sup>* (run_status a) (run_status c)"
    using prefix_order.trans [OF a(1) c(1)] prefix_order.trans [OF a(2) c(2)] rtranclp_trans [OF a(3) c(3)] by simp_all
  with ab bc nd show "record_frame a c" unfolding record_frame_def by simp
qed

text \<open>Every record of the earlier store goes on in the later one, every record of the later one comes from
  there or from a fresh draft, and a legacy record is untouched.\<close>

definition fresh_record :: "run_record \<Rightarrow> bool" where
  "fresh_record r \<longleftrightarrow> run_status r = RDraft \<and> token_reservation r = None"

definition store_frame :: "run_store \<Rightarrow> run_store \<Rightarrow> bool" where
  "store_frame s s' \<longleftrightarrow>
     (\<forall>r \<in> set s. \<exists>r' \<in> set s'. record_frame r r') \<and>
     (\<forall>r' \<in> set s'. \<exists>r. (r \<in> set s \<or> fresh_record r) \<and> record_frame r r') \<and>
     (\<forall>r \<in> set s. profile (current r) = None \<longrightarrow> r \<in> set s')"

lemma store_frame_refl [simp]: "store_frame s s"
  unfolding store_frame_def by (blast intro: record_frame_refl)

lemma store_frame_trans:
  assumes "store_frame a b" and "store_frame b c"
  shows "store_frame a c"
  unfolding store_frame_def
proof (intro conjI ballI impI)
  show "\<exists>r' \<in> set c. record_frame r r'" if "r \<in> set a" for r
    using assms that record_frame_trans unfolding store_frame_def by meson
  show "\<exists>r. (r \<in> set a \<or> fresh_record r) \<and> record_frame r r'" if "r' \<in> set c" for r'
    using assms that record_frame_trans unfolding store_frame_def by meson
  show "r \<in> set c" if "r \<in> set a" "profile (current r) = None" for r
    using assms that unfolding store_frame_def by blast
qed

lemma store_frame_append: "fresh_record r \<Longrightarrow> store_frame s (s @ [r])"
  unfolding store_frame_def by (auto intro!: bexI exI record_frame_refl)

section \<open>Reading and writing\<close>

lemma validate_ids: "validate s \<Longrightarrow> distinct (map run_id s)"
  using length_js_unique_eq [of "map run_id s"] by (simp add: validate_def)

lemma write_store_Inr: "write_store E s = Inr s' \<longleftrightarrow> s' = s \<and> validate s \<and> fits_store E s"
  by (auto simp: write_store_def)

lemma readRunStore_Inr: "readRunStore f = Inr s \<longleftrightarrow> s = f \<and> validate f"
  by (auto simp: readRunStore_def)

lemma find_run_Inr: "find_run i f = Inr r \<Longrightarrow> validate f \<and> r \<in> set f \<and> run_id r = i"
  by (auto simp: find_run_def readRunStore_Inr split: option.splits dest: find_SomeD)

lemma replace_run_Inr:
  assumes "replace_run E r f = Inr (s', r')"
  shows "r' = r \<and> validate f \<and> validate s' \<and> s' = map (\<lambda>x. if run_id x = run_id r then r else x) f \<and>
    (\<exists>x \<in> set f. run_id x = run_id r \<and> profile (current x) \<noteq> None)"
  using assms
  by (auto simp: replace_run_def readRunStore_Inr write_store_Inr resolveRunProfile_def dest: find_SomeD
      split: option.splits if_splits)

lemma same_id: "validate f \<Longrightarrow> x \<in> set f \<Longrightarrow> y \<in> set f \<Longrightarrow> run_id x = run_id y \<Longrightarrow> x = y"
  using validate_ids [of f] by (auto simp: distinct_map inj_on_def)

lemma replace_run_frame:
  assumes "replace_run E r' f = Inr (s', u)" and "r \<in> set f" and "record_frame r r'"
  shows "validate s' \<and> store_frame f s'"
proof -
  have f: "validate f" and v: "validate s'" and s': "s' = map (\<lambda>x. if run_id x = run_id r' then r' else x) f"
    and leg: "\<exists>x \<in> set f. run_id x = run_id r' \<and> profile (current x) \<noteq> None"
    using replace_run_Inr [OF assms(1)] by blast+
  have id: "run_id r' = run_id r" using assms(3) by (simp add: record_frame_def)
  have new: "r' \<in> set s'" using assms(2) id by (force simp: s')
  have kept: "x \<in> set s'" if "x \<in> set f" "run_id x \<noteq> run_id r'" for x
    using that by (force simp: s')
  have old: "x \<in> set f" if "x \<in> set s'" "x \<noteq> r'" for x
    using that by (auto simp: s')
  have only: "x = r" if "x \<in> set f" "run_id x = run_id r'" for x
    using same_id [OF f that(1) assms(2)] that(2) id by simp
  have "store_frame f s'"
    unfolding store_frame_def
  proof (intro conjI ballI impI)
    show "\<exists>y \<in> set s'. record_frame x y" if "x \<in> set f" for x
      using new kept [OF that] only [OF that] assms(3) record_frame_refl by blast
    show "\<exists>x. (x \<in> set f \<or> fresh_record x) \<and> record_frame x y" if "y \<in> set s'" for y
      using old [OF that] assms(2,3) record_frame_refl by blast
    show "x \<in> set s'" if "x \<in> set f" "profile (current x) = None" for x
      using kept [OF that(1)] only leg assms(2) that by metis
  qed
  with v show ?thesis by blast
qed

lemma on_run_frame:
  assumes "on_run E i f s = Inr (s', u)"
    and "\<And>r r'. r \<in> set s \<Longrightarrow> run_id r = i \<Longrightarrow> f r = Inr (Some r') \<Longrightarrow> record_frame r r'"
  shows "validate s' \<and> store_frame s s'"
proof -
  from assms(1) obtain r c where r: "find_run i s = Inr r" "f r = Inr c"
    and out: "(case c of None \<Rightarrow> Inr (s, r) | Some r' \<Rightarrow> replace_run E r' s) = Inr (s', u)"
    by (auto simp: on_run_def)
  show ?thesis
  proof (cases c)
    case None
    with out find_run_Inr [OF r(1)] show ?thesis by auto
  next
    case (Some r')
    with out have "replace_run E r' s = Inr (s', u)" by simp
    then show ?thesis using find_run_Inr [OF r(1)] assms(2) r(2) Some by (intro replace_run_frame) auto
  qed
qed

section \<open>The operations\<close>

datatype run_op =
    RCreate string run_draft_input stamp
  | RCreateGroup string orchestration_reference string run_draft_input stamp
  | RRevise string int run_draft_input stamp
  | RApprove string int string stamp
  | RTransition string run_status stamp
  | RArtifact string string artifact_type utf16 stamp
  | RBind string string run_reservation stamp
  | RClearBinding string stamp
  | RResult string provider_result stamp
  | RClearResult string int int stamp
  | RSettlement string int int stamp
  | RSettle string int int stamp
  | RMark string bool stamp
  | RFinalize string bool "string option" stamp
  | RCancel string stamp
  | RCompensate string stamp
  | RFailure string string stamp
  | RClearFailure string stamp

definition result_store :: "run_store \<Rightarrow> js_error + run_store \<times> 'a \<Rightarrow> run_store" where
  "result_store s r = (case r of Inl _ \<Rightarrow> s | Inr (s', _) \<Rightarrow> s')"

lemma result_store_simps [simp]: "result_store s (Inl e) = s" "result_store s (Inr (s', x)) = s'"
  by (simp_all add: result_store_def)

fun run_exec :: "run_env \<Rightarrow> run_op \<Rightarrow> run_store \<Rightarrow> run_store" where
  "run_exec E (RCreate i d now) s = result_store s (createRunDraft E i d now s)"
| "run_exec E (RCreateGroup i ref op d now) s = result_store s (createGroupRunDraft E i ref op d now s)"
| "run_exec E (RRevise i n d now) s = result_store s (reviseRunDraft E i n d now s)"
| "run_exec E (RApprove i n op now) s = result_store s (approveRunRevision E i n op now s)"
| "run_exec E (RTransition i st now) s = result_store s (transitionRun E i st now s)"
| "run_exec E (RArtifact i a k p now) s = result_store s (appendRunArtifact E i a k p now s)"
| "run_exec E (RBind i t res now) s = result_store s (bindRunToSupervisor E i t res now s)"
| "run_exec E (RClearBinding i now) s = result_store s (clearRunSupervisorBinding E i now s)"
| "run_exec E (RResult i res now) s = result_store s (recordRunProviderResult E i res now s)"
| "run_exec E (RClearResult i a b now) s = result_store s (clearRunProviderResultForRetry E i a b now s)"
| "run_exec E (RSettlement i a b now) s = result_store s (recordRunTokenSettlement E i a b now s)"
| "run_exec E (RSettle i a b now) s = result_store s (settleRunReservation E i a b now s)"
| "run_exec E (RMark i b now) s = result_store s (markRunReservationTerminal E i b now s)"
| "run_exec E (RFinalize i b e now) s = fst (finalizeRun E i b e now s)"
| "run_exec E (RCancel i now) s = result_store s (requestRunCancellation E i now s)"
| "run_exec E (RCompensate i now) s = result_store s (requestRunQueueCompensation E i now s)"
| "run_exec E (RFailure i e now) s = result_store s (recordRunDispatchFailure E i e now s)"
| "run_exec E (RClearFailure i now) s = result_store s (clearRunDispatchFailure E i now s)"

definition keeps :: "run_store \<Rightarrow> run_store \<Rightarrow> bool" where
  "keeps s s' \<longleftrightarrow> (validate s \<longrightarrow> validate s') \<and> store_frame s s'"

lemma keeps_refl [simp]: "keeps s s"
  by (simp add: keeps_def)

lemma keeps_trans: "keeps a b \<Longrightarrow> keeps b c \<Longrightarrow> keeps a c"
  using store_frame_trans by (auto simp: keeps_def)

lemma keeps_on_run:
  assumes "\<And>r r'. r \<in> set s \<Longrightarrow> run_id r = i \<Longrightarrow> f r = Inr (Some r') \<Longrightarrow> record_frame r r'"
  shows "keeps s (result_store s (on_run E i f s))"
proof (cases "on_run E i f s")
  case (Inr x)
  obtain s' u where x: "x = (s', u)" by (cases x)
  with Inr have out: "on_run E i f s = Inr (s', u)" by simp
  have "validate s' \<and> store_frame s s'" using out assms by (rule on_run_frame)
  then show ?thesis by (simp only: keeps_def out result_store_simps) blast
qed (simp only: result_store_simps keeps_refl)

lemma run_next_transition: "t \<in> set (transitions s) \<Longrightarrow> run_next\<^sup>*\<^sup>* s t"
  by (simp add: run_next_def r_into_rtranclp)

lemma frame_status:
  fixes r :: run_record
  assumes "t \<in> set (transitions (run_status r))"
  shows "record_frame r (r\<lparr>run_status := t, run_updated_at := now\<rparr>)"
    and "record_frame r (r\<lparr>run_status := t, terminal_reason := e, run_updated_at := now\<rparr>)"
  using run_next_transition [OF assms] assms by (cases "run_status r"; auto simp: record_frame_def bound_ok_def run_id_def)+

lemma keeps_transition: "keeps s (result_store s (transitionRun E i st now s))"
  unfolding transitionRun_def
  by (rule keeps_on_run) (auto simp: transition_step_def frame_status split: if_splits)

lemma keeps_approve: "keeps s (result_store s (approveRunRevision E i n op now s))"
  unfolding approveRunRevision_def
proof (rule keeps_on_run)
  fix r r' :: run_record assume "(if approved_revision r = Some n \<and> approved_by r = Some op then Inr None
      else if run_status r \<noteq> RDraft \<or> draft_revision (current r) \<noteq> n then Inl (Error ''run_revision_conflict'')
      else if \<not> validString op MAX_OPERATOR False \<or> \<not> canonical_stamp now then Inl (Error ''invalid_run_approval'')
      else Inr (Some (r\<lparr>run_status := RApproved, approved_revision := Some n, approved_by := Some op,
        approved_at := Some now, run_updated_at := now\<rparr>))) = Inr (Some r')"
  then have "run_status r = RDraft" and r': "r' = r\<lparr>run_status := RApproved, approved_revision := Some n,
      approved_by := Some op, approved_at := Some now, run_updated_at := now\<rparr>"
    by (auto split: if_splits)
  then have "run_next (run_status r) RApproved" by (simp add: run_next_def)
  then show "record_frame r r'"
    using \<open>run_status r = RDraft\<close> by (simp add: r' record_frame_def bound_ok_def run_id_def r_into_rtranclp)
qed

text \<open>The operations that touch neither the draft, nor the approval, nor the status.\<close>

definition plain_update :: "run_record \<Rightarrow> run_record \<Rightarrow> bool" where
  "plain_update r r' \<longleftrightarrow>
     current r' = current r \<and> orchestration_ref r' = orchestration_ref r \<and> orchestration_req r' = orchestration_req r \<and>
     revisions r' = revisions r \<and> prefix (artifacts r) (artifacts r') \<and> approved_revision r' = approved_revision r \<and>
     approved_by r' = approved_by r \<and> approved_at r' = approved_at r \<and> run_status r' = run_status r \<and>
     (token_settled r \<noteq> None \<longrightarrow> token_settled r' = token_settled r) \<and>
     (cancellation_requested r \<longrightarrow> cancellation_requested r') \<and> (bound_ok r \<longrightarrow> bound_ok r')"

lemma plain_update_frame: "plain_update r r' \<Longrightarrow> record_frame r r'"
  by (simp add: plain_update_def record_frame_def run_id_def)

lemma keeps_plain:
  assumes "\<And>r r'. f r = Inr (Some r') \<Longrightarrow> plain_update r r'"
  shows "keeps s (result_store s (on_run E i f s))"
  by (rule keeps_on_run) (auto intro: plain_update_frame assms)

lemma keeps_artifact: "keeps s (result_store s (appendRunArtifact E i aid k p now s))"
  unfolding appendRunArtifact_def
  by (rule keeps_plain) (auto simp: plain_update_def bound_ok_def Let_def split: if_splits option.splits)

lemma keeps_bind: "keeps s (result_store s (bindRunToSupervisor E i t res now s))"
  unfolding bindRunToSupervisor_def
  by (rule keeps_plain) (auto simp: plain_update_def bound_ok_def Let_def split: if_splits option.splits)

lemma keeps_clear_bind: "keeps s (result_store s (clearRunSupervisorBinding E i now s))"
  unfolding clearRunSupervisorBinding_def
  by (rule keeps_plain) (auto simp: plain_update_def bound_ok_def Let_def split: if_splits option.splits)

lemma keeps_result: "keeps s (result_store s (recordRunProviderResult E i pr now s))"
  unfolding recordRunProviderResult_def
  by (rule keeps_plain) (auto simp: plain_update_def bound_ok_def Let_def split: if_splits option.splits)

lemma keeps_clear_result: "keeps s (result_store s (clearRunProviderResultForRetry E i a b now s))"
  unfolding clearRunProviderResultForRetry_def
  by (rule keeps_plain) (auto simp: plain_update_def bound_ok_def Let_def split: if_splits option.splits)

lemma keeps_settlement: "keeps s (result_store s (recordRunTokenSettlement E i a b now s))"
  unfolding recordRunTokenSettlement_def
  by (rule keeps_plain) (auto simp: plain_update_def bound_ok_def Let_def split: if_splits option.splits)

lemma keeps_settle: "keeps s (result_store s (settleRunReservation E i a b now s))"
  unfolding settleRunReservation_def
  by (rule keeps_plain) (auto simp: plain_update_def bound_ok_def Let_def split: if_splits option.splits)

lemma keeps_mark: "keeps s (result_store s (markRunReservationTerminal E i st now s))"
  unfolding markRunReservationTerminal_def
  by (rule keeps_plain) (auto simp: plain_update_def bound_ok_def Let_def split: if_splits option.splits)

lemma keeps_cancel: "keeps s (result_store s (requestRunCancellation E i now s))"
  unfolding requestRunCancellation_def
  by (rule keeps_plain) (auto simp: plain_update_def bound_ok_def Let_def split: if_splits option.splits)

lemma keeps_compensate: "keeps s (result_store s (requestRunQueueCompensation E i now s))"
  unfolding requestRunQueueCompensation_def
  by (rule keeps_plain) (auto simp: plain_update_def bound_ok_def Let_def split: if_splits option.splits)

lemma keeps_failure: "keeps s (result_store s (recordRunDispatchFailure E i e now s))"
  unfolding recordRunDispatchFailure_def
  by (rule keeps_plain) (auto simp: plain_update_def bound_ok_def Let_def split: if_splits option.splits)

lemma keeps_clear_failure: "keeps s (result_store s (clearRunDispatchFailure E i now s))"
  unfolding clearRunDispatchFailure_def
  by (rule keeps_plain) (auto simp: plain_update_def bound_ok_def Let_def split: if_splits option.splits)

lemmas keeps_fields = keeps_artifact keeps_bind keeps_clear_bind keeps_result keeps_clear_result keeps_settlement keeps_settle keeps_mark keeps_cancel keeps_compensate keeps_failure keeps_clear_failure

lemma keeps_finalize: "keeps s (fst (finalizeRun E i b e now s))"
proof (cases "find_run i s")
  case (Inr r)
  define st where "st = (if b then RCompleted else RFailed)"
  show ?thesis
  proof (cases "run_status r = st")
    case False
    define mid where "mid = (if run_status r = RQueued then transitionRun E i RRunning now s else Inr (s, r))"
    show ?thesis
    proof (cases mid)
      case (Inl e)
      with False Inr show ?thesis by (simp add: finalizeRun_def st_def [symmetric] mid_def [symmetric])
    next
      case (Inr m)
      then obtain s1 r1 where m: "mid = Inr (s1, r1)" by (cases m) auto
      have s1: "keeps s s1" and r1: "r1 \<in> set s1"
      proof -
        have "transitionRun E i RRunning now s = Inr (s1, r1) \<Longrightarrow> r1 \<in> set s1"
          unfolding transitionRun_def on_run_def
          by (auto simp: transition_step_def split: if_splits dest!: replace_run_Inr find_run_Inr)
        then show "keeps s s1" "r1 \<in> set s1"
          using m keeps_transition [of s E i RRunning now] find_run_Inr [OF \<open>find_run i s = Inr r\<close>]
          by (auto simp: mid_def split: if_splits)
      qed
      show ?thesis
      proof (cases "run_status r1 \<noteq> RRunning \<or> \<not> validNullableString e MAX_TERMINAL_REASON")
        case True
        with False s1 m \<open>find_run i s = Inr r\<close> show ?thesis
          by (simp add: finalizeRun_def st_def [symmetric] mid_def [symmetric])
      next
        case running: False
        let ?r2 = "r1\<lparr>run_status := st, terminal_reason := e, run_updated_at := now\<rparr>"
        have frame: "record_frame r1 ?r2" using running by (intro frame_status) (simp add: st_def)
        have "keeps s1 s2" if "replace_run E ?r2 s1 = Inr (s2, u)" for s2 u
          using replace_run_frame [OF that r1 frame] by (simp add: keeps_def)
        with s1 running False m \<open>find_run i s = Inr r\<close> show ?thesis
          by (auto simp: finalizeRun_def st_def [symmetric] mid_def [symmetric] intro: keeps_trans split: sum.splits)
      qed
    qed
  qed (use Inr in \<open>simp add: finalizeRun_def st_def\<close>)
qed (simp add: finalizeRun_def)

lemma checked_draft_Inr:
  "checked_draft E i rid n now = Inr d \<Longrightarrow>
     (\<exists>effort packet. d = draft_of i effort packet rid n now) \<and> validDraftInput d \<and> canonical_stamp now \<and>
     (\<exists>m. assertRunPromptPolicy (in_prompt i) (in_prompt_review_acknowledged i) = Inr m) \<and>
     (\<exists>cwd. resolveEnabledProject E (in_project_id i) = Inr cwd)"
  by (auto simp: checked_draft_def Let_def split: if_splits prod.splits)

lemma fresh_new_record [simp]: "fresh_record (new_record d ref req now)"
  by (simp add: fresh_record_def new_record_def)

lemma keeps_create:
  "keeps s (result_store s (createRunDraft E i d now s))"
  "keeps s (result_store s (createGroupRunDraft E i ref op d now s))"
proof -
  have c: "keeps s s'" if "createRunDraft E i d now s = Inr (s', u)" for s' u
    using that by (auto simp: createRunDraft_def keeps_def readRunStore_Inr write_store_Inr store_frame_append
        split: if_splits)
  then show "keeps s (result_store s (createRunDraft E i d now s))"
    by (cases "createRunDraft E i d now s") (auto simp: result_store_def split: prod.splits)
  have g: "keeps s s'" if "createGroupRunDraft E i ref op d now s = Inr (s', u)" for s' u
    using that by (auto simp: createGroupRunDraft_def Let_def keeps_def readRunStore_Inr write_store_Inr
        store_frame_append split: if_splits)
  then show "keeps s (result_store s (createGroupRunDraft E i ref op d now s))"
    by (cases "createGroupRunDraft E i ref op d now s") (auto simp: result_store_def split: prod.splits)
qed

lemma keeps_revise: "keeps s (result_store s (reviseRunDraft E i n d now s))"
proof -
  have "keeps s s'" if "reviseRunDraft E i n d now s = Inr (s', u)" for s' u
  proof -
    from that obtain r d' x where r: "find_run i s = Inr r" "run_status r = RDraft"
      and d': "checked_draft E d i (n + 1) now = Inr d'"
      and rep: "replace_run E (r\<lparr>current := d', revisions := revisions r @ [d'], run_updated_at := now\<rparr>) s = Inr (s', x)"
      by (auto simp: reviseRunDraft_def split: if_splits prod.splits)
    from find_run_Inr [OF r(1)] have mem: "r \<in> set s" "run_id r = i" by auto
    have "draft_run_id d' = i" using checked_draft_Inr [OF d'] by (auto simp: draft_of_def)
    then have "record_frame r (r\<lparr>current := d', revisions := revisions r @ [d'], run_updated_at := now\<rparr>)"
      using r(2) mem(2) by (simp add: record_frame_def bound_ok_def run_id_def)
    from replace_run_frame [OF rep mem(1) this] show ?thesis by (simp add: keeps_def)
  qed
  then show ?thesis
    by (cases "reviseRunDraft E i n d now s") (auto simp: result_store_def split: prod.splits)
qed

lemma run_exec_keeps: "keeps s (run_exec E op s)"
  by (cases op) (simp_all add: keeps_create keeps_revise keeps_approve keeps_transition keeps_fields keeps_finalize)

interpretation run_store: invariant_machine "run_exec E" validate for E
  by unfold_locales (use run_exec_keeps keeps_def in blast)

lemma run_steps_keep: "keeps s (fold (run_exec E) ops s)"
  by (induction ops arbitrary: s) (auto intro: keeps_trans run_exec_keeps)

lemma validate_empty [simp]: "validate []"
  by (simp add: validate_def group_refs_def)

lemma run_store_valid: "validate (fold (run_exec E) ops [])"
  by (rule run_store.run_inv) simp

lemma run_steps_frame: "store_frame s (fold (run_exec E) ops s)"
  using run_steps_keep keeps_def by blast

section \<open>What the operations promise\<close>

lemma run_path:
  assumes "run_next\<^sup>*\<^sup>* s t"
  shows "\<exists>n \<le> 4. (run_next ^^ n) s t"
proof -
  from assms obtain n where "(run_next ^^ n) s t" using rtranclp_imp_relpowp by fastforce
  then show ?thesis using run_life.path_bounded by blast
qed

lemma terminal_stays: "run_next\<^sup>*\<^sup>* s t \<Longrightarrow> run_rank s = 4 \<Longrightarrow> t = s"
  using run_life.top_is_final by (metis converse_rtranclpE)

text \<open>C29: Whatever sequence of run-store operations follows, a stored run is never lost: it keeps its identifier,
  its revisions and artifacts only grow at the end, once it has left the draft its draft, revisions and approval
  (revision, operator, time) are fixed for good, its status moves along the life cycle by at most four
  transitions and never leaves a final status, and a recorded settlement is never rewritten.\<close>

theorem run_history_is_kept:
  assumes "r \<in> set s"
  shows "\<exists>r' \<in> set (fold (run_exec E) ops s).
    run_id r' = run_id r \<and> prefix (revisions r) (revisions r') \<and> prefix (artifacts r) (artifacts r') \<and>
    (run_status r \<noteq> RDraft \<longrightarrow> current r' = current r \<and> revisions r' = revisions r \<and>
       approved_revision r' = approved_revision r \<and> approved_by r' = approved_by r \<and> approved_at r' = approved_at r) \<and>
    (\<exists>n \<le> 4. (run_next ^^ n) (run_status r) (run_status r')) \<and>
    (run_status r \<in> {RCompleted, RFailed, RCancelled} \<longrightarrow> run_status r' = run_status r) \<and>
    (token_settled r \<noteq> None \<longrightarrow> token_settled r' = token_settled r)"
proof -
  from run_steps_frame assms obtain r' where r': "r' \<in> set (fold (run_exec E) ops s)" "record_frame r r'"
    unfolding store_frame_def by blast
  then have path: "run_next\<^sup>*\<^sup>* (run_status r) (run_status r')" by (simp add: record_frame_def)
  have "run_status r \<in> {RCompleted, RFailed, RCancelled} \<longrightarrow> run_status r' = run_status r"
    using terminal_stays [OF path] by auto
  with r' run_path [OF path] show ?thesis
    by (intro bexI [of _ r'] conjI) (simp_all add: record_frame_def)
qed

text \<open>C30: In every store the operations can reach, a run that is neither a draft nor cancelled was approved by a
  named operator at exactly its latest revision, within the prompt policy (fewer than 9000 tokens, reviewed above
  1000), its estimate is the UTF-8 size of its prompt plus the output allowance of 8192, below 17192, and a
  reservation it is bound to holds exactly that estimate.\<close>

theorem active_runs_are_approved:
  assumes "r \<in> set (fold (run_exec E) ops [])" and "run_status r \<notin> {RDraft, RCancelled}"
  shows "approved_revision r = Some (int (length (revisions r))) \<and> current r = last (revisions r) \<and>
    (\<exists>operator. approved_by r = Some operator \<and> operator \<noteq> []) \<and>
    estimated_tokens (current r) = utf8_byteLength (prompt (current r)) + 8192 \<and>
    estimated_tokens (current r) < 17192 \<and>
    (utf8_byteLength (prompt (current r)) > 1000 \<longrightarrow> prompt_review_acknowledged (current r)) \<and>
    (\<forall>res. token_reservation r = Some res \<longrightarrow> rr_totalTokens res = estimated_tokens (current r))"
proof -
  have rec: "validRecord r"
    using run_store_valid [of E ops] assms(1) unfolding validate_def by (auto simp: list_all_iff)
  have "store_frame [] (fold (run_exec E) ops [])" by (rule run_steps_frame)
  then obtain r0 where "fresh_record r0" "record_frame r0 r"
    using assms(1) unfolding store_frame_def by auto
  then have bound: "bound_ok r" by (simp add: record_frame_def bound_ok_def fresh_record_def)
  from rec have rev: "validRevisions r" and ap: "approvalIsValid r" unfolding validRecord_def by simp_all
  from rev have "validDraft (current r)" unfolding validRevisions_def by blast
  then have d: "validDraftInput (current r)" unfolding validDraft_def by blast
  from d obtain n where "assertRunPromptPolicy (prompt (current r)) (prompt_review_acknowledged (current r)) = Inr n"
    by (auto simp: validDraftInput_def)
  then have n: "utf8_byteLength (prompt (current r)) < 9000"
      "prompt_review_acknowledged (current r) \<or> utf8_byteLength (prompt (current r)) \<le> 1000"
    by (auto simp: prompt_policy_Inr)
  moreover from d have "estimated_tokens (current r) = utf8_byteLength (prompt (current r)) + 8192"
    by (simp add: validDraftInput_def conservativeRunPromptTokens_def run_token_limits)
  moreover from ap assms(2) have "hasApproval r" by (auto simp: approvalIsValid_def)
  ultimately show ?thesis
    using rev bound by (auto simp: hasApproval_def validRevisions_def bound_ok_def validString_def split: option.splits)
qed

text \<open>A legacy run, one that was stored without an execution profile, is read-only: no sequence of operations
  changes any field of it or removes it.\<close>

theorem legacy_runs_are_read_only:
  assumes "r \<in> set s" and "profile (current r) = None"
  shows "r \<in> set (fold (run_exec E) ops s)"
  using run_steps_frame [of s E ops] assms unfolding store_frame_def by blast

text \<open>What any sequence of operations leaves on disk is read back by the store's validation as it is.\<close>

theorem run_store_reloads: "readRunStore (fold (run_exec E) ops []) = Inr (fold (run_exec E) ops [])"
  by (simp add: readRunStore_Inr run_store_valid)

text \<open>C31: Once a run's reservation is settled, then after any operations whatever the same settlement is accepted again
  without a change and every other valid settlement is refused as a conflict.\<close>

theorem settlement_is_final:
  assumes "settleRunReservation E i a b now s = Inr (s1, r1)"
    and "validTokenSettlement (Some (settlement_of a' b'))" and "canonical_stamp now'"
  shows "let s2 = fold (run_exec E) ops s1 in
    if settlement_of a' b' = settlement_of a b
    then \<exists>r2. settleRunReservation E i a' b' now' s2 = Inr (s2, r2) \<and> token_settled r2 = Some (settlement_of a b)
    else settleRunReservation E i a' b' now' s2 = Inl (Error ''run_token_settlement_conflict'')"
proof -
  define s2 where "s2 = fold (run_exec E) ops s1"
  have r1: "validate s1 \<and> r1 \<in> set s1 \<and> run_id r1 = i \<and> token_settled r1 = Some (settlement_of a b)"
    using assms(1) unfolding settleRunReservation_def on_run_def
    by (auto simp: run_id_def dest!: find_run_Inr replace_run_Inr split: if_splits)
  have v2: "validate s2" using r1 run_steps_keep [of s1 E ops] by (simp add: keeps_def s2_def)
  from run_steps_frame [of s1 E ops] r1 obtain r2 where "r2 \<in> set s2" "record_frame r1 r2"
    unfolding store_frame_def s2_def by blast
  with r1 have r2: "r2 \<in> set s2" "run_id r2 = i" "token_settled r2 = Some (settlement_of a b)"
    by (auto simp: record_frame_def)
  then have "validRecord r2" using v2 by (auto simp: validate_def list_all_iff)
  with r2 have "reservation_status r2 = SettledReservation" by (simp add: validRecord_def)
  moreover have "find_run i s2 = Inr r2"
  proof -
    from r2 obtain x where "List.find (\<lambda>r. run_id r = i) s2 = Some x" "x \<in> set s2" "run_id x = i"
      using find_mem_Some [of r2 s2 "\<lambda>r. run_id r = i"] by auto
    with same_id [OF v2 _ r2(1), of x] r2(2) v2 show ?thesis by (simp add: find_run_def readRunStore_def)
  qed
  ultimately show ?thesis
    using assms(2,3) r2(3) by (auto simp: settleRunReservation_def on_run_def s2_def [symmetric] Let_def)
qed

section \<open>A world to run them in\<close>

definition demo_env :: run_env where
  "demo_env = \<lparr>resolveEnabledProject = (\<lambda>_. Inr ''/work''), fits_store = (\<lambda>_. True), run_sha256 = (\<lambda>_. [])\<rparr>"

definition demo_input :: run_draft_input where
  "demo_input = \<lparr>in_project_id = ''p1'', in_prompt = [0x66, 0x69, 0x78], in_provider = Codex_cli, in_model = None,
     in_estimated_tokens = Finite 9000, in_requested_artifacts = [TextArtifact], in_prompt_review_acknowledged = False,
     in_profile = Dev, in_reasoning_effort = Some High, in_promotion_packet_id = None\<rparr>"

definition demo_reservation :: run_reservation where
  "demo_reservation = \<lparr>rr_reservationId = ''r'', rr_provider = ''codex'', rr_model = None, rr_sessionId = None,
     rr_inputTokens = 3, rr_outputTokens = 8192, rr_handoffId = None, rr_reservedAt = Iso 2, rr_totalTokens = 8195,
     rr_groupId = None, rr_slotId = None, rr_heldTokens = None\<rparr>"

definition demo_draft :: run_draft where
  "demo_draft = draft_of demo_input (Some High) None ''run'' 1 (Iso 1)"

definition demo_legacy :: run_record where
  "demo_legacy = new_record (demo_draft\<lparr>profile := None, requested_reasoning_effort := None\<rparr>) None None (Iso 1)"

lemmas demo_defs = demo_env_def demo_input_def demo_reservation_def demo_draft_def

lemmas demo_checks = run_store_limits run_token_limits checked_draft_def assertRunPromptPolicy_def
  conservativeRunPromptTokens_def canonicalRunTokenBudget_def isSafeInteger_def MAX_SAFE_INTEGER_def
  normalizeProfileFields_def draft_of_def validDraftInput_def project_id_pattern_def validString_def
  validNullableString_def valid_time_def MAX_TIME_def

lemmas demo_store = validate_def validRecord_def validRevisions_def validDraft_def validStoredProfileFields_def
  approvalIsValid_def hasApproval_def lacksApproval_def validReservation_def validTokenSettlement_def
  validProviderResult_def validOrchestrationRequest_def validArtifacts_def group_refs_def run_id_def
  readRunStore_def write_store_def find_run_def replace_run_def on_run_def resolveRunProfile_def new_record_def

definition demo_settled :: run_record where
  "demo_settled = (new_record demo_draft None None (Iso 1))
     \<lparr>run_status := RApproved, approved_revision := Some 1, approved_by := Some ''ops'', approved_at := Some (Iso 2),
      supervisor_task_id := Some ''task'', token_reservation := Some demo_reservation,
      reservation_status := SettledReservation, token_settled := Some (settlement_of 3 5), run_updated_at := Iso 3\<rparr>"

definition demo_bound :: run_record where
  "demo_bound = (new_record demo_draft None None (Iso 1))
     \<lparr>run_status := RApproved, approved_revision := Some 1, approved_by := Some ''ops'', approved_at := Some (Iso 2),
      supervisor_task_id := Some ''task'', token_reservation := Some demo_reservation,
      reservation_status := ActiveReservation, run_updated_at := Iso 2\<rparr>"

lemma demo_create: "run_exec demo_env (RCreate ''run'' demo_input (Iso 1)) [] = [new_record demo_draft None None (Iso 1)]"
  by (simp add: createRunDraft_def demo_defs demo_checks demo_store)

lemma demo_approve:
  "run_exec demo_env (RApprove ''run'' 1 ''ops'' (Iso 2)) [new_record demo_draft None None (Iso 1)] =
     [(new_record demo_draft None None (Iso 1)) \<lparr>run_status := RApproved, approved_revision := Some 1,
        approved_by := Some ''ops'', approved_at := Some (Iso 2), run_updated_at := Iso 2\<rparr>]"
  by (simp add: approveRunRevision_def demo_defs demo_checks demo_store)

lemma demo_bind:
  "run_exec demo_env (RBind ''run'' ''task'' demo_reservation (Iso 2))
     [(new_record demo_draft None None (Iso 1)) \<lparr>run_status := RApproved, approved_revision := Some 1,
        approved_by := Some ''ops'', approved_at := Some (Iso 2), run_updated_at := Iso 2\<rparr>] = [demo_bound]"
  by (simp add: bindRunToSupervisor_def demo_bound_def demo_defs demo_checks demo_store)

lemma demo_settle: "settleRunReservation demo_env ''run'' 3 5 (Iso 3) [demo_bound] = Inr ([demo_settled], demo_settled)"
  by (simp add: settleRunReservation_def settlement_of_def demo_bound_def demo_settled_def demo_defs demo_checks demo_store)

lemma demo_run: "fold (run_exec demo_env) [RCreate ''run'' demo_input (Iso 1), RApprove ''run'' 1 ''ops'' (Iso 2),
    RBind ''run'' ''task'' demo_reservation (Iso 2)] [] = [demo_bound]"
  by (simp only: fold_simps demo_create demo_approve demo_bind)

lemma run_history_is_kept_witness:
  "fold (run_exec demo_env) [RSettle ''run'' 3 5 (Iso 3)] [demo_bound] = [demo_settled] \<and>
   current demo_settled = current demo_bound \<and> approved_by demo_settled = Some ''ops''"
proof -
  have run: "fold (run_exec demo_env) [RSettle ''run'' 3 5 (Iso 3)] [demo_bound] = [demo_settled]"
    by (simp add: demo_settle)
  have "\<exists>r' \<in> set [demo_settled]. run_status demo_bound \<noteq> RDraft \<longrightarrow>
      current r' = current demo_bound \<and> approved_by r' = approved_by demo_bound"
    using run_history_is_kept [of demo_bound "[demo_bound]" demo_env "[RSettle ''run'' 3 5 (Iso 3)]"]
    unfolding run by auto
  with run show ?thesis by (simp add: demo_bound_def)
qed

lemma active_runs_are_approved_witness:
  "demo_bound \<in> set (fold (run_exec demo_env) [RCreate ''run'' demo_input (Iso 1), RApprove ''run'' 1 ''ops'' (Iso 2),
     RBind ''run'' ''task'' demo_reservation (Iso 2)] []) \<and> estimated_tokens (current demo_bound) < 17192"
  using active_runs_are_approved [of demo_bound demo_env "[RCreate ''run'' demo_input (Iso 1),
      RApprove ''run'' 1 ''ops'' (Iso 2), RBind ''run'' ''task'' demo_reservation (Iso 2)]"]
  unfolding demo_run by (simp add: demo_bound_def new_record_def)

lemma legacy_runs_are_read_only_witness:
  "demo_legacy \<in> set (fold (run_exec demo_env) [RTransition ''run'' RCancelled (Iso 5)] [demo_legacy])"
  by (rule legacy_runs_are_read_only) (simp_all add: demo_legacy_def new_record_def)

lemma settlement_is_final_witness:
  "settleRunReservation demo_env ''run'' 4 5 (Iso 9)
     (fold (run_exec demo_env) [RCancel ''run'' (Iso 4), RTransition ''run'' RCancelled (Iso 5)] [demo_settled])
   = Inl (Error ''run_token_settlement_conflict'')"
  using settlement_is_final [OF demo_settle, of 4 5 "Iso 9" "[RCancel ''run'' (Iso 4), RTransition ''run'' RCancelled (Iso 5)]"]
  by (simp add: settlement_of_def validTokenSettlement_def isSafeInteger_def MAX_SAFE_INTEGER_def valid_time_def MAX_TIME_def Let_def del: fold_simps)

end
