(* ===== verification/AuthSessions.thy ===== *)
theory AuthSessions
  imports JsPrelude "HOL-Library.List_Lexorder" "HOL-Library.Char_ord"
begin

text \<open>
  \<^verbatim>\<open>src/data/delivery-system/authSessionRegistry.ts\<close>: the browser sessions and the service token of the
  control plane. A session is stored under the SHA-256 digest of its token, carries the credential
  generation it was opened under, expires 30 days after it was opened or last renewed, and is renewed by
  a lookup when a quarter of that time has passed; at most 256 sessions are kept and the oldest give way.
  There is one service token, replaced with a new generation each time.

  The state is the two files: the parsed session document (\<open>None\<close> when the file is missing) and the
  service token record. \<open>withStateMaintenanceLock\<close> makes each operation one step. \<open>sha\<close> is SHA-256 in
  hexadecimal. Numbers that fail \<open>Number.isSafeInteger\<close> because they are not integers are not
  represented. On hexadecimal digests \<open>localeCompare\<close> is the order of the characters.
\<close>

section \<open>Data\<close>

definition SESSION_TTL_MS :: int where "SESSION_TTL_MS = 30 * 24 * 60 * 60 * 1000"
definition SESSION_RENEW_AFTER_MS :: int where "SESSION_RENEW_AFTER_MS = SESSION_TTL_MS div 4"
definition MAX_AUTH_SESSIONS :: nat where "MAX_AUTH_SESSIONS = 256"
definition SESSION_REGISTRY_VERSION :: string where "SESSION_REGISTRY_VERSION = ''autopilot-auth-sessions-v1''"
definition SERVICE_TOKEN_VERSION :: string where "SERVICE_TOKEN_VERSION = ''autopilot-service-token-v1''"

record auth_session =
  expires_at_epoch :: int
  credential_generation :: int
  created_at_epoch :: int

record auth_lookup =
  looked_up :: auth_session
  refreshCookie :: bool

record service_token =
  token_version :: string
  token_digest :: string
  issued_at_epoch :: int
  token_generation :: int

record session_document =
  session_version :: string
  sessions :: "auth_session dict"

record auth_state =
  session_file :: "session_document option"
  service_file :: "service_token option"

section \<open>Tests\<close>

definition isEpoch :: "int \<Rightarrow> bool" where
  "isEpoch n \<longleftrightarrow> isSafeInteger n \<and> n \<ge> 0"

definition isDigest :: "string \<Rightarrow> bool" where
  "isDigest s \<longleftrightarrow> hex64 s"

definition isServiceToken :: "string \<Rightarrow> bool" where
  "isServiceToken s \<longleftrightarrow> hex64 s"

definition isSessionToken :: "string \<Rightarrow> bool" where
  "isSessionToken s \<longleftrightarrow> length s = 43 \<and>
     list_all (\<lambda>c. c \<in> set ''ABCDEFGHIJKLMNOPQRSTUVWXYZabcdefghijklmnopqrstuvwxyz0123456789_-'') s"

definition isSessionRecord :: "auth_session \<Rightarrow> bool" where
  "isSessionRecord r \<longleftrightarrow>
     isEpoch (expires_at_epoch r) \<and> isEpoch (created_at_epoch r) \<and> expires_at_epoch r > created_at_epoch r \<and>
     isSafeInteger (credential_generation r) \<and> credential_generation r \<ge> 1"

section \<open>The files\<close>

definition readSessionDocument :: "session_document option \<Rightarrow> js_error + auth_session dict" where
  "readSessionDocument file =
     (case file of
        None \<Rightarrow> Inr []
      | Some d \<Rightarrow>
          if session_version d \<noteq> SESSION_REGISTRY_VERSION \<or> length (sessions d) > MAX_AUTH_SESSIONS \<or>
             \<not> list_all (\<lambda>(k, r). isDigest k \<and> isSessionRecord r) (sessions d)
          then Inl (Error ''invalid_auth_session_registry'') else Inr (sessions d))"

definition writeSessionDocument :: "auth_session dict \<Rightarrow> auth_state \<Rightarrow> auth_state" where
  "writeSessionDocument ss st =
     st\<lparr>session_file := Some \<lparr>session_version = SESSION_REGISTRY_VERSION, sessions = ss\<rparr>\<rparr>"

definition readServiceTokenRecord :: "service_token option \<Rightarrow> js_error + service_token option" where
  "readServiceTokenRecord file =
     (case file of
        None \<Rightarrow> Inr None
      | Some t \<Rightarrow>
          if token_version t \<noteq> SERVICE_TOKEN_VERSION \<or> \<not> isDigest (token_digest t) \<or>
             \<not> isEpoch (issued_at_epoch t) \<or> \<not> isSafeInteger (token_generation t) \<or> token_generation t < 1
          then Inl (Error ''invalid_service_token_registry'') else Inr (Some t))"

definition pruneExpired :: "auth_session dict \<Rightarrow> int \<Rightarrow> auth_session dict" where
  "pruneExpired ss now = filter (\<lambda>(_, r). expires_at_epoch r > now) ss"

section \<open>The order of eviction\<close>

text \<open>Sessions are evicted by age, then by digest: a linear order of the pairs.\<close>

datatype eviction_key = EvictionKey (opened_at: int) (opened_digest: string)

instantiation eviction_key :: linorder
begin

definition less_eq_eviction_key :: "eviction_key \<Rightarrow> eviction_key \<Rightarrow> bool" where
  "less_eq_eviction_key a b \<longleftrightarrow>
     opened_at a < opened_at b \<or> opened_at a = opened_at b \<and> opened_digest a \<le> opened_digest b"

definition less_eviction_key :: "eviction_key \<Rightarrow> eviction_key \<Rightarrow> bool" where
  "less_eviction_key a b \<longleftrightarrow>
     opened_at a < opened_at b \<or> opened_at a = opened_at b \<and> opened_digest a < opened_digest b"

instance
  by standard (auto simp: less_eq_eviction_key_def less_eviction_key_def intro: eviction_key.expand)

end

definition eviction_key_of :: "string \<times> auth_session \<Rightarrow> eviction_key" where
  "eviction_key_of e = EvictionKey (created_at_epoch (snd e)) (fst e)"

definition eviction_order :: "auth_session dict \<Rightarrow> auth_session dict" where
  "eviction_order ss = sort_key eviction_key_of ss"

text \<open>The oldest entries, as many as must go for one more session to fit, are deleted.\<close>

definition evicted :: "auth_session dict \<Rightarrow> string list" where
  "evicted ss = keys_of (take (Suc (length ss) - MAX_AUTH_SESSIONS) (eviction_order ss))"

definition evict_oldest :: "auth_session dict \<Rightarrow> auth_session dict" where
  "evict_oldest ss = fold AList.delete (evicted ss) ss"

section \<open>Sessions\<close>

definition createSession :: "(string \<Rightarrow> string) \<Rightarrow> string \<Rightarrow> int \<Rightarrow> int \<Rightarrow> auth_state \<Rightarrow>
    (js_error + auth_session) \<times> auth_state" where
  "createSession sha rawToken generation now st =
     (if \<not> isSessionToken rawToken then (Inl (Error ''invalid_auth_token''), st)
      else if \<not> isEpoch now then (Inl (Error ''invalid_auth_epoch''), st)
      else if \<not> isSafeInteger generation \<or> generation < 1 then (Inl (Error ''invalid_credential_generation''), st)
      else case readSessionDocument (session_file st) of
          Inl e \<Rightarrow> (Inl e, st)
        | Inr document \<Rightarrow>
            let r = \<lparr>expires_at_epoch = now + SESSION_TTL_MS, credential_generation = generation, created_at_epoch = now\<rparr>
            in (Inr r, writeSessionDocument (AList.update (sha rawToken) r (evict_oldest (pruneExpired document now))) st))"

definition lookupSession :: "(string \<Rightarrow> string) \<Rightarrow> string \<Rightarrow> int \<Rightarrow> int \<Rightarrow> auth_state \<Rightarrow>
    (js_error + auth_lookup option) \<times> auth_state" where
  "lookupSession sha rawToken currentGeneration now st =
     (if \<not> isSessionToken rawToken \<or> \<not> isSafeInteger currentGeneration \<or> currentGeneration < 1 then (Inr None, st)
      else if \<not> isEpoch now then (Inl (Error ''invalid_auth_epoch''), st)
      else case readSessionDocument (session_file st) of
          Inl e \<Rightarrow> (Inl e, st)
        | Inr document \<Rightarrow>
            let ss = pruneExpired document now;
                pruned = (length ss \<noteq> length document);
                kept = (if pruned then writeSessionDocument ss st else st);
                digest = sha rawToken
            in (case map_of ss digest of
                  None \<Rightarrow> (Inr None, kept)
                | Some current \<Rightarrow>
                    if credential_generation current \<noteq> currentGeneration then (Inr None, kept)
                    else if now \<le> expires_at_epoch current - SESSION_TTL_MS + SESSION_RENEW_AFTER_MS
                      then (Inr (Some \<lparr>looked_up = current, refreshCookie = False\<rparr>), kept)
                    else
                      let renewed = current\<lparr>expires_at_epoch := now + SESSION_TTL_MS\<rparr>
                      in (Inr (Some \<lparr>looked_up = renewed, refreshCookie = True\<rparr>),
                          writeSessionDocument (AList.update digest renewed ss) st)))"

definition deleteSession :: "(string \<Rightarrow> string) \<Rightarrow> string \<Rightarrow> auth_state \<Rightarrow> (js_error + unit) \<times> auth_state" where
  "deleteSession sha rawToken st =
     (if \<not> isSessionToken rawToken then (Inr (), st)
      else case readSessionDocument (session_file st) of
          Inl e \<Rightarrow> (Inl e, st)
        | Inr document \<Rightarrow>
            if map_of document (sha rawToken) = None then (Inr (), st)
            else (Inr (), writeSessionDocument (AList.delete (sha rawToken) document) st))"

section \<open>The service token\<close>

definition serviceTokenDigest :: "auth_state \<Rightarrow> js_error + string option" where
  "serviceTokenDigest st = bind_result (readServiceTokenRecord (service_file st)) (\<lambda>t. Inr (map_option token_digest t))"

definition verifyServiceToken :: "(string \<Rightarrow> string) \<Rightarrow> string \<Rightarrow> auth_state \<Rightarrow> js_error + bool" where
  "verifyServiceToken sha rawToken st =
     (if \<not> isServiceToken rawToken then Inr False
      else bind_result (readServiceTokenRecord (service_file st)) (\<lambda>t.
        case t of None \<Rightarrow> Inr False | Some stored \<Rightarrow> Inr (token_digest stored = sha rawToken)))"

definition storeServiceToken :: "(string \<Rightarrow> string) \<Rightarrow> string \<Rightarrow> int \<Rightarrow> auth_state \<Rightarrow>
    (js_error + service_token) \<times> auth_state" where
  "storeServiceToken sha rawToken now st =
     (if \<not> isServiceToken rawToken then (Inl (Error ''invalid_auth_token''), st)
      else if \<not> isEpoch now then (Inl (Error ''invalid_auth_epoch''), st)
      else case readServiceTokenRecord (service_file st) of
          Inl e \<Rightarrow> (Inl e, st)
        | Inr previous \<Rightarrow>
            let r = \<lparr>token_version = SERVICE_TOKEN_VERSION, token_digest = sha rawToken, issued_at_epoch = now,
                  token_generation = (case previous of None \<Rightarrow> 0 | Some p \<Rightarrow> token_generation p) + 1\<rparr>
            in (Inr r, st\<lparr>service_file := Some r\<rparr>))"

end
