(* ===== verification/AuthSessionProps.thy ===== *)
theory AuthSessionProps
  imports AuthSessions
begin

text \<open>
  What the session registry keeps: its files stay readable, a session comes from a login and lives no
  longer than thirty days after its last use, only the oldest sessions give way, and only the last
  service token verifies.
\<close>

section \<open>Operations as steps\<close>

datatype auth_op =
    CreateSession string int int
  | LookupSession string int int
  | DeleteSession string
  | StoreServiceToken string int

fun auth_exec :: "(string \<Rightarrow> string) \<Rightarrow> auth_op \<Rightarrow> auth_state \<Rightarrow> auth_state" where
  "auth_exec sha (CreateSession tok gen now) st = snd (createSession sha tok gen now st)"
| "auth_exec sha (LookupSession tok gen now) st = snd (lookupSession sha tok gen now st)"
| "auth_exec sha (DeleteSession tok) st = snd (deleteSession sha tok st)"
| "auth_exec sha (StoreServiceToken tok now) st = snd (storeServiceToken sha tok now st)"

text \<open>The clock of the platform reads at most the largest time value.\<close>

fun timely :: "auth_op \<Rightarrow> bool" where
  "timely (CreateSession _ _ now) = (now \<le> MAX_TIME)"
| "timely (LookupSession _ _ now) = (now \<le> MAX_TIME)"
| "timely (DeleteSession _) = True"
| "timely (StoreServiceToken _ now) = (now \<le> MAX_TIME)"

definition no_auth_files :: auth_state where
  "no_auth_files = \<lparr>session_file = None, service_file = None\<rparr>"

section \<open>The session document stays readable\<close>

definition good_sessions :: "auth_session dict \<Rightarrow> bool" where
  "good_sessions ss \<longleftrightarrow> length ss \<le> MAX_AUTH_SESSIONS \<and> distinct (keys_of ss) \<and>
     (\<forall>(k, r) \<in> set ss. isDigest k \<and> isSessionRecord r)"

definition auth_inv :: "auth_state \<Rightarrow> bool" where
  "auth_inv st \<longleftrightarrow>
     (case session_file st of None \<Rightarrow> True
      | Some d \<Rightarrow> session_version d = SESSION_REGISTRY_VERSION \<and> good_sessions (sessions d))"

definition sessions_of :: "auth_state \<Rightarrow> auth_session dict" where
  "sessions_of st = (case session_file st of None \<Rightarrow> [] | Some d \<Rightarrow> sessions d)"

lemma auth_inv_read: "auth_inv st \<Longrightarrow> readSessionDocument (session_file st) = Inr (sessions_of st)"
  by (auto simp: auth_inv_def readSessionDocument_def sessions_of_def good_sessions_def list_all_iff split: option.splits)

lemma auth_inv_good: "auth_inv st \<Longrightarrow> good_sessions (sessions_of st)"
  by (auto simp: auth_inv_def sessions_of_def good_sessions_def split: option.splits)

lemma auth_inv_write [simp]: "auth_inv (writeSessionDocument ss st) \<longleftrightarrow> good_sessions ss"
  by (simp add: auth_inv_def writeSessionDocument_def)

lemma sessions_of_write [simp]: "sessions_of (writeSessionDocument ss st) = ss"
  by (simp add: sessions_of_def writeSessionDocument_def)

lemma session_file_service [simp]:
  "auth_inv (st\<lparr>service_file := x\<rparr>) = auth_inv st" "sessions_of (st\<lparr>service_file := x\<rparr>) = sessions_of st"
  by (simp_all add: auth_inv_def sessions_of_def)

lemma good_subset: "good_sessions ss \<Longrightarrow> length tt \<le> length ss \<Longrightarrow> distinct (keys_of tt) \<Longrightarrow> set tt \<subseteq> set ss \<Longrightarrow>
    good_sessions tt"
  by (fastforce simp: good_sessions_def)

lemma set_prune: "(k, r) \<in> set (pruneExpired ss now) \<longleftrightarrow> (k, r) \<in> set ss \<and> expires_at_epoch r > now"
  by (auto simp: pruneExpired_def)

lemma good_prune: "good_sessions ss \<Longrightarrow> good_sessions (pruneExpired ss now)"
  by (rule good_subset, assumption) (auto simp: pruneExpired_def good_sessions_def intro!: distinct_map_filter)

subsection \<open>Eviction\<close>

lemma set_eviction_order [simp]: "set (eviction_order ss) = set ss"
  by (simp add: eviction_order_def)

lemma length_eviction_order [simp]: "length (eviction_order ss) = length ss"
  by (simp add: eviction_order_def)

lemma distinct_eviction_order: "distinct (keys_of ss) \<Longrightarrow> distinct (keys_of (eviction_order ss))"
  by (simp add: eviction_order_def distinct_map)

lemma evicted_keys: "set (evicted ss) \<subseteq> set (keys_of ss)"
  using set_take_subset [of _ "eviction_order ss"] by (fastforce simp: evicted_def)

lemma distinct_evicted: "distinct (keys_of ss) \<Longrightarrow> distinct (evicted ss)"
  using distinct_eviction_order [of ss] by (simp add: evicted_def take_map [symmetric] distinct_take)

lemma length_evict: "distinct (keys_of ss) \<Longrightarrow> length (evict_oldest ss) < MAX_AUTH_SESSIONS"
proof -
  assume d: "distinct (keys_of ss)"
  have "length (evict_oldest ss) = length ss - length (evicted ss)"
    unfolding evict_oldest_def by (rule fold_delete_length [OF d distinct_evicted [OF d] evicted_keys])
  then show ?thesis by (simp add: evicted_def MAX_AUTH_SESSIONS_def)
qed

lemma set_evict: "x \<in> set (evict_oldest ss) \<longleftrightarrow> x \<in> set ss \<and> fst x \<notin> set (evicted ss)"
  by (simp add: evict_oldest_def fold_delete_set)

lemma distinct_evict: "distinct (keys_of ss) \<Longrightarrow> distinct (keys_of (evict_oldest ss))"
  by (simp add: evict_oldest_def fold_delete_distinct)

text \<open>Whatever is evicted comes before everything that stays.\<close>

lemma evicted_older:
  assumes "(k, r) \<in> set ss" and "k \<in> set (evicted ss)" and "distinct (keys_of ss)"
    and "e \<in> set (evict_oldest ss)"
  shows "eviction_key_of (k, r) \<le> eviction_key_of e"
proof -
  define n where "n = Suc (length ss) - MAX_AUTH_SESSIONS"
  let ?o = "eviction_order ss"
  have sorted: "sorted (map eviction_key_of ?o)" by (simp add: eviction_order_def)
  from assms(2) obtain r' where r': "(k, r') \<in> set (take n ?o)" by (auto simp: evicted_def n_def)
  then have "(k, r') \<in> set ss" by (metis in_set_takeD set_eviction_order)
  then have "r' = r" using assms(1,3) by (metis map_of_eq_Some_iff option.inject)
  have "e \<in> set ?o" and "fst e \<notin> set (keys_of (take n ?o))"
    using assms(4) by (auto simp: set_evict evicted_def n_def)
  then have "e \<in> set (drop n ?o)" by (metis append_take_drop_id in_set_conv_decomp_first Un_iff set_append image_eqI set_map)
  moreover have "sorted (map eviction_key_of (take n ?o @ drop n ?o))" using sorted by simp
  ultimately show ?thesis using r' \<open>r' = r\<close> by (auto simp: sorted_append simp del: append_take_drop_id)
qed

lemma good_update: "good_sessions ss \<Longrightarrow> length ss < MAX_AUTH_SESSIONS \<or> k \<in> set (keys_of ss) \<Longrightarrow>
    isDigest k \<Longrightarrow> isSessionRecord r \<Longrightarrow> good_sessions (AList.update k r ss)"
  unfolding good_sessions_def by (auto simp: length_update dest!: in_values_update)

lemma new_session_record:
  assumes "isEpoch now" and "now \<le> MAX_TIME" and "isSafeInteger gen" and "gen \<ge> 1"
  shows "isSessionRecord \<lparr>expires_at_epoch = now + SESSION_TTL_MS, credential_generation = gen, created_at_epoch = now\<rparr>"
  using assms by (simp add: isSessionRecord_def isEpoch_def isSafeInteger_def MAX_SAFE_INTEGER_def MAX_TIME_def
      SESSION_TTL_MS_def)

lemma create_inv:
  assumes inv: "auth_inv st" and t: "now \<le> MAX_TIME" and sha: "\<forall>s. hex64 (sha s)"
  shows "auth_inv (snd (createSession sha tok gen now st))"
proof -
  let ?p = "pruneExpired (sessions_of st) now"
  have p: "good_sessions ?p" using inv by (simp add: good_prune auth_inv_good)
  then have d: "distinct (keys_of ?p)" by (simp add: good_sessions_def)
  have "good_sessions (evict_oldest ?p)"
  proof (rule good_subset [OF p])
    have "length (evict_oldest ?p) = length ?p - length (evicted ?p)"
      unfolding evict_oldest_def by (rule fold_delete_length [OF d distinct_evicted [OF d] evicted_keys])
    then show "length (evict_oldest ?p) \<le> length ?p" by simp
    show "distinct (keys_of (evict_oldest ?p))" by (rule distinct_evict [OF d])
    show "set (evict_oldest ?p) \<subseteq> set ?p" using set_evict by blast
  qed
  then have "good_sessions (AList.update (sha tok) r (evict_oldest ?p))" if "isSessionRecord r" for r
    using length_evict [OF d] sha that by (intro good_update) (auto simp: isDigest_def)
  with inv show ?thesis
    using new_session_record [of now gen] t
    by (auto simp: createSession_def auth_inv_read Let_def not_less)
qed

lemma lookup_inv:
  assumes inv: "auth_inv st" and t: "now \<le> MAX_TIME" and sha: "\<forall>s. hex64 (sha s)"
  shows "auth_inv (snd (lookupSession sha tok gen now st))"
proof -
  let ?p = "pruneExpired (sessions_of st) now"
  have p: "good_sessions ?p" using inv by (simp add: good_prune auth_inv_good)
  have up: "good_sessions (AList.update (sha tok) (c\<lparr>expires_at_epoch := now + SESSION_TTL_MS\<rparr>) ?p)"
    if c: "map_of ?p (sha tok) = Some c" and "isEpoch now"
      and late: "\<not> now \<le> expires_at_epoch c - SESSION_TTL_MS + SESSION_RENEW_AFTER_MS" for c
  proof (rule good_update [OF p])
    from c have "(sha tok, c) \<in> set ?p" by (rule map_of_SomeD)
    with p have rec: "isSessionRecord c" by (auto simp: good_sessions_def)
    have "SESSION_TTL_MS - SESSION_RENEW_AFTER_MS > 0" by (simp add: SESSION_TTL_MS_def SESSION_RENEW_AFTER_MS_def)
    with late have "now + SESSION_TTL_MS > expires_at_epoch c"
      by (simp add: SESSION_TTL_MS_def SESSION_RENEW_AFTER_MS_def)
    with rec t \<open>isEpoch now\<close> show "isSessionRecord (c\<lparr>expires_at_epoch := now + SESSION_TTL_MS\<rparr>)"
      by (simp add: isSessionRecord_def isEpoch_def isSafeInteger_def MAX_SAFE_INTEGER_def MAX_TIME_def SESSION_TTL_MS_def)
    show "length ?p < MAX_AUTH_SESSIONS \<or> sha tok \<in> set (keys_of ?p)"
      using \<open>(sha tok, c) \<in> set ?p\<close> by (force simp: image_iff)
  qed (use sha in \<open>simp add: isDigest_def\<close>)
  with inv p show ?thesis
    by (auto simp: lookupSession_def auth_inv_read Let_def split: option.splits)
qed

lemma good_delete: "good_sessions ss \<Longrightarrow> good_sessions (AList.delete k ss)"
  by (rule good_subset, assumption) (auto simp: in_values_delete length_delete_le good_sessions_def)

lemma delete_inv: "auth_inv st \<Longrightarrow> auth_inv (snd (deleteSession sha tok st))"
  by (simp add: deleteSession_def auth_inv_read good_delete auth_inv_good)

lemma store_inv: "auth_inv st \<Longrightarrow> auth_inv (snd (storeServiceToken sha tok now st))"
  by (auto simp: storeServiceToken_def Let_def split: sum.splits)

lemma auth_exec_inv: "auth_inv st \<Longrightarrow> timely op \<Longrightarrow> \<forall>s. hex64 (sha s) \<Longrightarrow> auth_inv (auth_exec sha op st)"
  by (cases op) (simp_all add: create_inv lookup_inv delete_inv store_inv)

lemma auth_run_inv: "auth_inv st \<Longrightarrow> \<forall>op \<in> set ops. timely op \<Longrightarrow> \<forall>s. hex64 (sha s) \<Longrightarrow>
    auth_inv (fold (auth_exec sha) ops st)"
  by (induction ops arbitrary: st) (auto intro: auth_exec_inv)

lemma auth_inv_empty [simp]: "auth_inv no_auth_files"
  by (simp add: auth_inv_def no_auth_files_def)

section \<open>Where a session comes from\<close>

text \<open>After \<open>ops\<close> the entry \<open>(k, r)\<close> was opened by a login, has not been logged out since, and was last used
  thirty days before it expires.\<close>

definition logged_in :: "(string \<Rightarrow> string) \<Rightarrow> auth_op list \<Rightarrow> string \<Rightarrow> auth_session \<Rightarrow> bool" where
  "logged_in sha ops k r \<longleftrightarrow>
     (\<exists>pre tok suf. ops = pre @ CreateSession tok (credential_generation r) (created_at_epoch r) # suf \<and>
        isSessionToken tok \<and> sha tok = k \<and>
        (\<forall>tok'. DeleteSession tok' \<in> set suf \<and> isSessionToken tok' \<longrightarrow> sha tok' \<noteq> k) \<and>
        (expires_at_epoch r = created_at_epoch r + SESSION_TTL_MS \<or>
         (\<exists>tok' t. LookupSession tok' (credential_generation r) t \<in> set suf \<and> sha tok' = k \<and>
            expires_at_epoch r = t + SESSION_TTL_MS)))"

lemma exec_entries:
  assumes inv: "auth_inv st" and e: "(k, r) \<in> set (sessions_of (auth_exec sha op st))"
  shows "((k, r) \<in> set (sessions_of st) \<and> (\<forall>tok. op = DeleteSession tok \<and> isSessionToken tok \<longrightarrow> sha tok \<noteq> k)) \<or>
    (\<exists>tok. op = CreateSession tok (credential_generation r) (created_at_epoch r) \<and> isSessionToken tok \<and>
       sha tok = k \<and> expires_at_epoch r = created_at_epoch r + SESSION_TTL_MS) \<or>
    (\<exists>tok t r0. op = LookupSession tok (credential_generation r) t \<and> sha tok = k \<and> (k, r0) \<in> set (sessions_of st) \<and>
       credential_generation r0 = credential_generation r \<and> created_at_epoch r0 = created_at_epoch r \<and>
       expires_at_epoch r = t + SESSION_TTL_MS)"
proof (cases op)
  case (CreateSession tok gen now)
  with inv e show ?thesis
    by (auto simp: createSession_def auth_inv_read Let_def set_evict set_prune split: if_splits dest!: in_values_update)
next
  case (LookupSession tok gen now)
  with inv e show ?thesis
    by (auto simp: lookupSession_def auth_inv_read Let_def set_prune split: if_splits option.splits
        dest!: in_values_update map_of_SomeD)
next
  case (DeleteSession tok)
  with inv e show ?thesis
    by (auto simp: deleteSession_def auth_inv_read in_values_delete map_of_eq_None_iff split: if_splits)
      (force simp: image_iff)+
next
  case (StoreServiceToken tok now)
  with e show ?thesis by (auto simp: storeServiceToken_def Let_def split: sum.splits if_splits)
qed

lemma logged_in_kept:
  assumes "logged_in sha ops k r" and "\<forall>tok. op = DeleteSession tok \<and> isSessionToken tok \<longrightarrow> sha tok \<noteq> k"
  shows "logged_in sha (ops @ [op]) k r"
proof -
  from assms(1) obtain pre tok suf where s:
      "ops = pre @ CreateSession tok (credential_generation r) (created_at_epoch r) # suf"
      "isSessionToken tok" "sha tok = k" "\<forall>tok'. DeleteSession tok' \<in> set suf \<and> isSessionToken tok' \<longrightarrow> sha tok' \<noteq> k"
      "expires_at_epoch r = created_at_epoch r + SESSION_TTL_MS \<or>
       (\<exists>tok' t. LookupSession tok' (credential_generation r) t \<in> set suf \<and> sha tok' = k \<and>
          expires_at_epoch r = t + SESSION_TTL_MS)"
    unfolding logged_in_def by blast
  with assms(2) show ?thesis
    unfolding logged_in_def by (intro exI [of _ pre] exI [of _ tok] exI [of _ "suf @ [op]"]) auto
qed

lemma logged_in_renewed:
  assumes "logged_in sha ops k r0" and "credential_generation r0 = credential_generation r"
    and "created_at_epoch r0 = created_at_epoch r" and "expires_at_epoch r = t + SESSION_TTL_MS" and "sha tok' = k"
  shows "logged_in sha (ops @ [LookupSession tok' (credential_generation r) t]) k r"
proof -
  from assms(1) obtain pre tok suf where s:
      "ops = pre @ CreateSession tok (credential_generation r0) (created_at_epoch r0) # suf"
      "isSessionToken tok" "sha tok = k" "\<forall>tok'. DeleteSession tok' \<in> set suf \<and> isSessionToken tok' \<longrightarrow> sha tok' \<noteq> k"
    unfolding logged_in_def by blast
  with assms(2-) show ?thesis
    unfolding logged_in_def
    by (intro exI [of _ pre] exI [of _ tok] exI [of _ "suf @ [LookupSession tok' (credential_generation r) t]"]) auto
qed

lemma logged_in_created:
  assumes "isSessionToken tok" and "expires_at_epoch r = created_at_epoch r + SESSION_TTL_MS"
  shows "logged_in sha (ops @ [CreateSession tok (credential_generation r) (created_at_epoch r)]) (sha tok) r"
  using assms unfolding logged_in_def by (intro exI [of _ ops] exI [of _ tok] exI [of _ "[]"]) simp

lemma entries_logged_in:
  assumes "\<forall>op \<in> set ops. timely op" and "\<forall>s. hex64 (sha s)"
  shows "(k, r) \<in> set (sessions_of (fold (auth_exec sha) ops no_auth_files)) \<Longrightarrow> logged_in sha ops k r"
  using assms(1)
proof (induction ops arbitrary: k r rule: rev_induct)
  case Nil
  then show ?case by (simp add: sessions_of_def no_auth_files_def)
next
  case (snoc op ops)
  let ?st = "fold (auth_exec sha) ops no_auth_files"
  have inv: "auth_inv ?st" using snoc.prems(2) assms(2) by (intro auth_run_inv) simp_all
  have IH: "(k, r0) \<in> set (sessions_of ?st) \<Longrightarrow> logged_in sha ops k r0" for r0
    using snoc.IH snoc.prems(2) by simp
  from snoc.prems(1) have "(k, r) \<in> set (sessions_of (auth_exec sha op ?st))" by simp
  from exec_entries [OF inv this] show ?case
  proof (elim disjE exE conjE)
    assume "(k, r) \<in> set (sessions_of ?st)" "\<forall>tok. op = DeleteSession tok \<and> isSessionToken tok \<longrightarrow> sha tok \<noteq> k"
    then show ?thesis using IH logged_in_kept by blast
  next
    fix tok assume "op = CreateSession tok (credential_generation r) (created_at_epoch r)" "isSessionToken tok"
      "sha tok = k" "expires_at_epoch r = created_at_epoch r + SESSION_TTL_MS"
    then show ?thesis using logged_in_created by blast
  next
    fix tok t r0 assume op: "op = LookupSession tok (credential_generation r) t" and r0: "(k, r0) \<in> set (sessions_of ?st)"
      and "credential_generation r0 = credential_generation r" "created_at_epoch r0 = created_at_epoch r"
      "expires_at_epoch r = t + SESSION_TTL_MS" "sha tok = k"
    then show ?thesis unfolding op by (intro logged_in_renewed [OF IH [OF r0]])
  qed
qed

lemma lookup_found:
  assumes "auth_inv st" and "lookupSession sha tok gen now st = (Inr (Some found), st')"
  shows "\<exists>r. map_of (pruneExpired (sessions_of st) now) (sha tok) = Some r \<and> credential_generation r = gen \<and>
    looked_up found = (if now \<le> expires_at_epoch r - SESSION_TTL_MS + SESSION_RENEW_AFTER_MS then r
      else r\<lparr>expires_at_epoch := now + SESSION_TTL_MS\<rparr>)"
proof (cases "map_of (pruneExpired (sessions_of st) now) (sha tok)")
  case None
  with assms show ?thesis by (simp add: lookupSession_def auth_inv_read Let_def split: if_splits)
next
  case (Some r)
  with assms show ?thesis by (auto simp: lookupSession_def auth_inv_read Let_def split: if_splits)
qed

section \<open>What the registry promises\<close>

text \<open>C32: Whatever sequence of operations the registry has executed, a lookup that succeeds returns a session that
  was opened by a login with a token of the same digest under the credential generation asked for, that has not
  been logged out since, that has not expired, and that was opened or renewed by a lookup no more than thirty
  days ago; after the lookup it has at least three quarters of that time left.\<close>

theorem session_needs_login:
  assumes "\<forall>op \<in> set ops. timely op" and "\<forall>s. hex64 (sha s)"
    and "lookupSession sha tok gen now (fold (auth_exec sha) ops no_auth_files) = (Inr (Some found), st')"
  shows "\<exists>r. logged_in sha ops (sha tok) r \<and> credential_generation r = gen \<and> now < expires_at_epoch r \<and>
    created_at_epoch (looked_up found) = created_at_epoch r \<and> credential_generation (looked_up found) = gen \<and>
    now + 3 * SESSION_RENEW_AFTER_MS \<le> expires_at_epoch (looked_up found)"
proof -
  let ?st = "fold (auth_exec sha) ops no_auth_files"
  have inv: "auth_inv ?st" by (rule auth_run_inv) (use assms in simp_all)
  from lookup_found [OF inv assms(3)] obtain r where r:
      "map_of (pruneExpired (sessions_of ?st) now) (sha tok) = Some r" "credential_generation r = gen"
      "looked_up found = (if now \<le> expires_at_epoch r - SESSION_TTL_MS + SESSION_RENEW_AFTER_MS then r
        else r\<lparr>expires_at_epoch := now + SESSION_TTL_MS\<rparr>)"
    by blast
  from map_of_SomeD [OF r(1)] have m: "(sha tok, r) \<in> set (sessions_of ?st)" "now < expires_at_epoch r"
    by (simp_all add: set_prune)
  from entries_logged_in [OF assms(1,2) m(1)] r m(2) show ?thesis
    by (intro exI [of _ r]) (simp add: SESSION_TTL_MS_def SESSION_RENEW_AFTER_MS_def)
qed

text \<open>Opening a session evicts another live one only when the registry is full, and then only the oldest: at
  least 255 other live sessions were opened no earlier than any session that is evicted.\<close>

theorem only_the_oldest_give_way:
  assumes "auth_inv st" and "createSession sha tok gen now st = (Inr opened, st')"
    and "(k, r) \<in> set (sessions_of st)" and "now < expires_at_epoch r" and "k \<noteq> sha tok"
    and "k \<notin> set (keys_of (sessions_of st'))"
  shows "255 \<le> length (filter (\<lambda>(k', r'). k' \<noteq> k \<and> now < expires_at_epoch r' \<and>
    created_at_epoch r \<le> created_at_epoch r') (sessions_of st))"
proof -
  let ?p = "pruneExpired (sessions_of st) now"
  have d: "distinct (keys_of ?p)" using good_prune [OF auth_inv_good [OF assms(1)]] by (simp add: good_sessions_def)
  have kr: "(k, r) \<in> set ?p" using assms(3,4) by (simp add: set_prune)
  from assms(2) auth_inv_read [OF assms(1)] have st': "sessions_of st' = AList.update (sha tok) opened (evict_oldest ?p)"
    by (auto simp: createSession_def Let_def split: if_splits)
  have "k \<notin> set (keys_of (evict_oldest ?p))" using assms(5,6) unfolding st' set_keys_update by simp
  with kr have ev: "k \<in> set (evicted ?p)" by (force simp: set_evict)
  have len: "length (evict_oldest ?p) = length ?p - length (evicted ?p)"
    unfolding evict_oldest_def by (rule fold_delete_length [OF d distinct_evicted [OF d] evicted_keys])
  have "255 \<le> length (evict_oldest ?p)"
    using ev unfolding len by (cases "length ?p \<le> 255") (auto simp: evicted_def MAX_AUTH_SESSIONS_def)
  also have "\<dots> = card (set (evict_oldest ?p))"
    using distinct_evict [OF d] by (simp add: distinct_card distinct_map)
  also have "\<dots> \<le> card (set (filter (\<lambda>(k', r'). k' \<noteq> k \<and> now < expires_at_epoch r' \<and>
      created_at_epoch r \<le> created_at_epoch r') (sessions_of st)))"
  proof (rule card_mono, simp, rule subsetI)
    fix e assume e: "e \<in> set (evict_oldest ?p)"
    have "created_at_epoch r \<le> created_at_epoch (snd e)"
      using evicted_older [OF kr ev d e] by (auto simp: eviction_key_of_def less_eq_eviction_key_def)
    moreover have "fst e \<noteq> k" using e ev set_evict by blast
    moreover have "e \<in> set ?p" using e set_evict by blast
    ultimately show "e \<in> set (filter (\<lambda>(k', r'). k' \<noteq> k \<and> now < expires_at_epoch r' \<and>
        created_at_epoch r \<le> created_at_epoch r') (sessions_of st))"
      by (cases e) (simp add: set_prune)
  qed
  also have "\<dots> \<le> length (filter (\<lambda>(k', r'). k' \<noteq> k \<and> now < expires_at_epoch r' \<and>
      created_at_epoch r \<le> created_at_epoch r') (sessions_of st))"
    by (rule card_length)
  finally show ?thesis .
qed

text \<open>Storing a service token replaces the previous one: from then on, through any later session operations, exactly
  the tokens with the stored digest verify, and the generation is one more than before.\<close>

theorem service_token_is_replaced:
  assumes "storeServiceToken sha tok now st = (Inr stored, st1)" and "\<forall>s. hex64 (sha s)"
    and "\<forall>op \<in> set ops. \<not> (\<exists>t n. op = StoreServiceToken t n)" and "isSafeInteger (token_generation stored)"
  shows "verifyServiceToken sha tok' (fold (auth_exec sha) ops st1) = Inr (isServiceToken tok' \<and> sha tok' = sha tok) \<and>
    token_generation stored = (case service_file st of None \<Rightarrow> 1 | Some old \<Rightarrow> token_generation old + 1)"
proof -
  have same: "service_file (auth_exec sha op s) = service_file s" if "\<not> (\<exists>t n. op = StoreServiceToken t n)" for op s
    using that by (cases op) (auto simp: createSession_def lookupSession_def deleteSession_def writeSessionDocument_def
        Let_def split: sum.splits option.splits)
  have keep: "service_file (fold (auth_exec sha) ops s) = service_file s" for s
    using assms(3) by (induction ops arbitrary: s) (auto simp: same)
  show ?thesis
    using assms(1,2,4) keep
    by (auto simp: storeServiceToken_def verifyServiceToken_def readServiceTokenRecord_def isDigest_def Let_def
        split: if_splits option.splits)
qed

section \<open>A world to run them in\<close>

definition demo_token :: "char \<Rightarrow> string" where
  "demo_token c = replicate 43 c"

definition demo_service_token :: "char \<Rightarrow> string" where
  "demo_service_token c = replicate 64 c"

text \<open>A stand-in for the digest: it tells the tokens below apart and gives 64 hexadecimal digits.\<close>

definition demo_sha :: "string \<Rightarrow> string" where
  "demo_sha s = replicate 64 (if s = demo_token (CHR ''x'') \<or> s = demo_service_token (CHR ''a'') then CHR ''e'' else CHR ''f'')"

lemma demo_sha_hex [simp]: "hex64 (demo_sha s)"
  by (simp add: demo_sha_def hex64_def list_all_iff)

lemma demo_token_ok [simp]: "isSessionToken (demo_token (CHR ''x''))"
  by (simp add: demo_token_def isSessionToken_def list_all_iff)

lemma session_needs_login_witness:
  "\<exists>r. logged_in demo_sha [CreateSession (demo_token (CHR ''x'')) 1 5] (demo_sha (demo_token (CHR ''x''))) r \<and>
     created_at_epoch r = 5"
proof -
  let ?tok = "demo_token (CHR ''x'')"
  let ?r = "\<lparr>expires_at_epoch = 2592000005, credential_generation = 1, created_at_epoch = 5\<rparr>"
  have st: "fold (auth_exec demo_sha) [CreateSession ?tok 1 5] no_auth_files =
      writeSessionDocument [(demo_sha ?tok, ?r)] no_auth_files"
    by (simp add: createSession_def no_auth_files_def readSessionDocument_def pruneExpired_def evict_oldest_def
        evicted_def eviction_order_def MAX_AUTH_SESSIONS_def isEpoch_def isSafeInteger_def MAX_SAFE_INTEGER_def
        SESSION_TTL_MS_def Let_def)
  have "lookupSession demo_sha ?tok 1 7 (fold (auth_exec demo_sha) [CreateSession ?tok 1 5] no_auth_files) =
      (Inr (Some \<lparr>looked_up = ?r, refreshCookie = False\<rparr>), writeSessionDocument [(demo_sha ?tok, ?r)] no_auth_files)"
    unfolding st
    by (simp add: lookupSession_def readSessionDocument_def writeSessionDocument_def pruneExpired_def isDigest_def
        isSessionRecord_def MAX_AUTH_SESSIONS_def isEpoch_def isSafeInteger_def MAX_SAFE_INTEGER_def
        SESSION_TTL_MS_def SESSION_RENEW_AFTER_MS_def Let_def)
  from session_needs_login [OF _ _ this] show ?thesis by (auto simp: MAX_TIME_def)
qed

definition demo_key :: "nat \<Rightarrow> string" where
  "demo_key i = replicate 62 (CHR ''0'') @ [''0123456789abcdef'' ! (i div 16), ''0123456789abcdef'' ! (i mod 16)]"

definition full_size :: nat where
  "full_size = 256"

definition full_registry :: "auth_session dict" where
  "full_registry = map (\<lambda>i. (demo_key i, \<lparr>expires_at_epoch = 2592000000 + int i, credential_generation = 1,
     created_at_epoch = int i\<rparr>)) [0..<full_size]"

lemma demo_key_inj: "i < 256 \<Longrightarrow> j < 256 \<Longrightarrow> demo_key i = demo_key j \<longleftrightarrow> i = j"
proof
  assume ij: "i < 256" "j < 256" and "demo_key i = demo_key j"
  then have "''0123456789abcdef'' ! (i div 16) = ''0123456789abcdef'' ! (j div 16)"
    and "''0123456789abcdef'' ! (i mod 16) = ''0123456789abcdef'' ! (j mod 16)"
    by (simp_all add: demo_key_def)
  then have "i div 16 = j div 16" "i mod 16 = j mod 16"
    using ij by (subst (asm) nth_eq_iff_index_eq; simp)+
  then show "i = j" by (metis div_mult_mod_eq)
qed simp

lemma full_registry_keys: "keys_of full_registry = map demo_key [0..<full_size]"
  by (simp add: full_registry_def comp_def)

lemma demo_key_digest: "i < 256 \<Longrightarrow> isDigest (demo_key i)"
proof -
  assume "i < 256"
  then have "''0123456789abcdef'' ! (i div 16) \<in> set ''0123456789abcdef''"
      "''0123456789abcdef'' ! (i mod 16) \<in> set ''0123456789abcdef''"
    by (intro nth_mem; simp)+
  then show ?thesis by (simp add: demo_key_def isDigest_def hex64_def list_all_iff)
qed

lemma length_full_registry [simp]: "length full_registry = full_size"
  by (simp add: full_registry_def)

lemma full_registry_good: "good_sessions full_registry"
proof -
  have "distinct (keys_of full_registry)"
    unfolding full_registry_keys distinct_map by (auto simp: inj_on_def full_size_def dest: demo_key_inj [THEN iffD1, rotated 2])
  moreover have "isDigest k \<and> isSessionRecord r" if kr: "(k, r) \<in> set full_registry" for k r
  proof -
    from kr obtain i where "i < full_size" "k = demo_key i" "r = \<lparr>expires_at_epoch = 2592000000 + int i,
        credential_generation = 1, created_at_epoch = int i\<rparr>"
      by (auto simp: full_registry_def)
    then show ?thesis
      by (simp add: full_size_def demo_key_digest isSessionRecord_def isEpoch_def isSafeInteger_def MAX_SAFE_INTEGER_def)
  qed
  ultimately show ?thesis by (auto simp: good_sessions_def MAX_AUTH_SESSIONS_def full_size_def)
qed

lemma full_registry_evicted: "evicted full_registry = [demo_key 0]"
proof -
  have "sorted (map eviction_key_of full_registry)"
    by (auto simp: full_registry_def eviction_key_of_def less_eq_eviction_key_def sorted_iff_nth_mono)
  then have order: "eviction_order full_registry = full_registry"
    unfolding eviction_order_def by (rule sort_key_id_if_sorted)
  have "evicted full_registry = take 1 (keys_of full_registry)"
    unfolding evicted_def order by (simp add: take_map MAX_AUTH_SESSIONS_def full_size_def)
  also have "\<dots> = [demo_key 0]" unfolding full_registry_keys by (simp add: take_map full_size_def)
  finally show ?thesis .
qed

lemma only_the_oldest_give_way_witness:
  "255 \<le> length (filter (\<lambda>(k', r'). k' \<noteq> demo_key 0 \<and> 1000 < expires_at_epoch r' \<and> 0 \<le> created_at_epoch r') full_registry)"
proof -
  let ?st = "writeSessionDocument full_registry no_auth_files"
  let ?tok = "demo_token (CHR ''x'')"
  have inv: "auth_inv ?st" by (simp add: full_registry_good)
  have prune: "pruneExpired full_registry 1000 = full_registry"
    by (auto simp: pruneExpired_def full_registry_def intro: filter_True)
  define opened where "opened = \<lparr>expires_at_epoch = 1000 + SESSION_TTL_MS, credential_generation = 1, created_at_epoch = 1000\<rparr>"
  define st' where "st' = writeSessionDocument (AList.update (demo_sha ?tok) opened (evict_oldest full_registry)) ?st"
  have doc: "readSessionDocument (session_file ?st) = Inr full_registry"
    using auth_inv_read [OF inv] unfolding sessions_of_write .
  have "isEpoch 1000" "isSafeInteger 1" by (simp_all add: isEpoch_def isSafeInteger_def MAX_SAFE_INTEGER_def)
  then have out: "createSession demo_sha ?tok 1 1000 ?st = (Inr opened, st')"
    by (simp only: createSession_def doc prune Let_def opened_def st'_def demo_token_ok sum.case if_False not_True_eq_False)
      simp
  have st': "sessions_of st' = AList.update (demo_sha ?tok) opened (evict_oldest full_registry)"
    by (simp only: st'_def sessions_of_write)
  have "hd (demo_key 0) = CHR ''0''" by (simp add: demo_key_def hd_append hd_replicate)
  moreover have "hd (demo_sha ?tok) \<noteq> CHR ''0''" by (simp add: demo_sha_def hd_replicate)
  ultimately have ne: "demo_key 0 \<noteq> demo_sha ?tok" by force
  have gone: "demo_key 0 \<notin> set (keys_of (sessions_of st'))"
    using ne unfolding st' set_keys_update by (auto simp: set_evict full_registry_evicted)
  have mem: "(demo_key 0, \<lparr>expires_at_epoch = 2592000000, credential_generation = 1, created_at_epoch = 0\<rparr>)
      \<in> set (sessions_of ?st)"
    unfolding sessions_of_write full_registry_def set_map
    by (rule image_eqI [of _ _ 0]) (simp_all add: full_size_def)
  from only_the_oldest_give_way [OF inv out mem _ ne gone] show ?thesis by simp
qed

lemma service_token_is_replaced_witness:
  "\<exists>st. snd (storeServiceToken demo_sha (demo_service_token (CHR ''a'')) 9 no_auth_files) = st \<and>
     verifyServiceToken demo_sha (demo_service_token (CHR ''a'')) (fold (auth_exec demo_sha) [] st) = Inr True \<and>
     verifyServiceToken demo_sha (demo_service_token (CHR ''b'')) (fold (auth_exec demo_sha) [] st) = Inr False"
proof -
  let ?tok = "demo_service_token (CHR ''a'')"
  obtain stored st where out: "storeServiceToken demo_sha ?tok 9 no_auth_files = (Inr stored, st)"
      and gen: "token_generation stored = 1"
    by (auto simp: storeServiceToken_def no_auth_files_def readServiceTokenRecord_def isServiceToken_def hex64_def
        demo_service_token_def list_all_iff isEpoch_def isSafeInteger_def MAX_SAFE_INTEGER_def Let_def)
  have "verifyServiceToken demo_sha t (fold (auth_exec demo_sha) [] st) =
      Inr (isServiceToken t \<and> demo_sha t = demo_sha ?tok)" for t
    using service_token_is_replaced [OF out, of "[]" t] gen by (simp add: isSafeInteger_def MAX_SAFE_INTEGER_def)
  then show ?thesis
    using out by (simp add: isServiceToken_def hex64_def list_all_iff demo_sha_def demo_service_token_def demo_token_def)
qed

end
