(* ===== verification/ApprovalQueue.thy ===== *)
theory ApprovalQueue
  imports JsPrelude
begin

text \<open>
  \<^verbatim>\<open>src/data/delivery-system/approvalQueue.ts\<close>: the records an operator approves or rejects, with the checks of
  the document before every write and after every read; and \<^verbatim>\<open>src/data/delivery-system/sessionRegistry.ts\<close>
  with \<^verbatim>\<open>sessionDispatch.ts\<close>: the agent sessions, the choice of the live session a dispatch goes to, and of the
  skills it may use.

  Prompts are UTF-16 strings. The approval queue treats times as text, the session registry parses them.
  \<open>fits\<close> is the test that the serialized queue has at most 1 MiB.
\<close>

section \<open>Approvals\<close>

datatype approval_status = Pending | Approved | Rejected

record approval_record =
  approval_id :: string
  approval_run_id :: "string option"
  approval_revision :: "js_number option"
  approval_session_id :: string
  approval_vendor :: string
  approval_model :: "string option"
  approval_skill_ids :: "string list"
  prompt_preview :: utf16
  prompt_file :: "string option"
  approval_estimated_tokens :: js_number
  approval_input_bound :: js_number
  approval_output_allowance :: js_number
  review_acknowledged :: bool
  approval_status :: approval_status
  approval_created_at :: string
  decided_at :: "string option"
  rejection_reason :: "string option"

record approval_input =
  ai_approvalId :: string
  ai_runId :: "string option"
  ai_revision :: "js_number option"
  ai_sessionId :: string
  ai_vendor :: string
  ai_model :: "string option"
  ai_skillIds :: "string list"
  ai_prompt :: utf16
  ai_promptFile :: "string option"
  ai_estimatedTokens :: js_number
  ai_inputTokenBound :: js_number
  ai_outputTokenAllowance :: js_number
  ai_promptReviewAcknowledged :: "bool option"
  ai_now :: string

type_synonym approval_queue = "approval_record list"

definition MAX_RECORDS :: nat where "MAX_RECORDS = 512"
definition MAX_FIELD :: nat where "MAX_FIELD = 512"

definition validText :: "string \<Rightarrow> nat \<Rightarrow> bool" where
  "validText v maximum \<longleftrightarrow> length v > 0 \<and> length v \<le> maximum"

definition nullable :: "('a \<Rightarrow> bool) \<Rightarrow> 'a option \<Rightarrow> bool" where
  "nullable P v \<longleftrightarrow> (case v of None \<Rightarrow> True | Some x \<Rightarrow> P x)"

text \<open>The three token numbers must be safe integers and the estimate the sum of the bounds.\<close>

definition valid_token_fields :: "js_number \<Rightarrow> js_number \<Rightarrow> js_number \<Rightarrow> bool" where
  "valid_token_fields estimated inp out \<longleftrightarrow>
     (case (safe_integer_of estimated, safe_integer_of inp, safe_integer_of out) of
        (Some e, Some i, Some v) \<Rightarrow> i \<ge> 0 \<and> v \<ge> 0 \<and> e = i + v
      | _ \<Rightarrow> False)"

definition valid_approval :: "approval_record \<Rightarrow> bool" where
  "valid_approval r \<longleftrightarrow>
     validText (approval_id r) MAX_FIELD \<and> nullable (\<lambda>v. validText v MAX_FIELD) (approval_run_id r) \<and>
     nullable (\<lambda>v. case safe_integer_of v of None \<Rightarrow> False | Some n \<Rightarrow> n \<ge> 1) (approval_revision r) \<and>
     validText (approval_session_id r) MAX_FIELD \<and> validText (approval_vendor r) MAX_FIELD \<and>
     nullable (\<lambda>v. validText v MAX_FIELD) (approval_model r) \<and>
     length (approval_skill_ids r) \<le> 64 \<and> list_all (\<lambda>s. validText s MAX_FIELD) (approval_skill_ids r) \<and>
     length (prompt_preview r) \<le> 500 \<and> nullable (\<lambda>v. validText v 2048) (prompt_file r) \<and>
     valid_token_fields (approval_estimated_tokens r) (approval_input_bound r) (approval_output_allowance r) \<and>
     validText (approval_created_at r) 32 \<and> nullable (\<lambda>v. validText v 32) (decided_at r) \<and>
     nullable (\<lambda>v. validText v 200) (rejection_reason r)"

definition validate_approvals :: "approval_queue \<Rightarrow> bool" where
  "validate_approvals q \<longleftrightarrow> length q \<le> MAX_RECORDS \<and> list_all valid_approval q"

text \<open>\<open>Math.max(0, Math.floor(x))\<close>.\<close>

fun floor_at_zero :: "js_number \<Rightarrow> js_number" where
  "floor_at_zero (Finite x) = Finite (of_int (max 0 \<lfloor>x\<rfloor>))"
| "floor_at_zero PosInfinity = PosInfinity"
| "floor_at_zero NegInfinity = Finite 0"
| "floor_at_zero NotANumber = NotANumber"

definition createApprovalRecord :: "approval_input \<Rightarrow> approval_record" where
  "createApprovalRecord i =
     \<lparr>approval_id = ai_approvalId i, approval_run_id = ai_runId i, approval_revision = ai_revision i,
      approval_session_id = ai_sessionId i, approval_vendor = ai_vendor i, approval_model = ai_model i,
      approval_skill_ids = js_unique (ai_skillIds i), prompt_preview = take 500 (ai_prompt i),
      prompt_file = ai_promptFile i, approval_estimated_tokens = floor_at_zero (ai_estimatedTokens i),
      approval_input_bound = ai_inputTokenBound i, approval_output_allowance = ai_outputTokenAllowance i,
      review_acknowledged = (ai_promptReviewAcknowledged i = Some True), approval_status = Pending,
      approval_created_at = ai_now i, decided_at = None, rejection_reason = None\<rparr>"

text \<open>The decision is \<open>Approved\<close> or \<open>Rejected\<close>.\<close>

definition decideApproval :: "approval_record \<Rightarrow> bool \<Rightarrow> string \<Rightarrow> string option \<Rightarrow> js_error + approval_record" where
  "decideApproval r rejected now reason' =
     (if approval_status r \<noteq> Pending then Inl (Error ''approval_already_decided'')
      else Inr (r\<lparr>approval_status := (if rejected then Rejected else Approved), decided_at := Some now,
        rejection_reason := (if rejected
          then Some (case reason' of None \<Rightarrow> ''rejected_by_owner'' | Some t \<Rightarrow> take 200 t) else None)\<rparr>))"

definition requireApprovedApproval :: "approval_queue \<Rightarrow> string \<Rightarrow> js_error + approval_record" where
  "requireApprovedApproval q i =
     (case List.find (\<lambda>r. approval_id r = i) q of
        None \<Rightarrow> Inl (Error ''approval_not_found'')
      | Some r \<Rightarrow> if approval_status r \<noteq> Approved then Inl (Error ''approval_not_approved'') else Inr r)"

definition readApprovalQueue :: "approval_queue \<Rightarrow> js_error + approval_queue" where
  "readApprovalQueue file = (if validate_approvals file then Inr file else Inl (Error ''invalid_approval_queue''))"

definition writeApprovalQueue :: "(approval_queue \<Rightarrow> bool) \<Rightarrow> approval_queue \<Rightarrow> js_error + approval_queue" where
  "writeApprovalQueue fits q =
     (if \<not> validate_approvals q \<or> \<not> fits q then Inl (Error ''invalid_approval_queue'') else Inr q)"

section \<open>Agent sessions\<close>

record session_item =
  prompt_id :: string
  item_queued_at :: stamp

record agent_session =
  agent_session_id :: string
  agent_command :: string
  agent_cwd :: string
  agent_name :: "string option"
  agent_active :: bool
  agent_created_at :: stamp
  agent_updated_at :: stamp
  owner_expires_at :: "stamp option"
  agent_queue :: "session_item list"
  close_reason :: "string option"

record session_scope =
  scope_command :: string
  scope_cwd :: string
  scope_name :: "string option"

definition createSessionRecord :: "string \<Rightarrow> string \<Rightarrow> string \<Rightarrow> string option \<Rightarrow> stamp option \<Rightarrow> stamp \<Rightarrow> agent_session" where
  "createSessionRecord sid command cwd' name' ownerExpiresAt now =
     \<lparr>agent_session_id = sid, agent_command = command, agent_cwd = cwd', agent_name = name', agent_active = True,
      agent_created_at = now, agent_updated_at = now, owner_expires_at = ownerExpiresAt, agent_queue = [],
      close_reason = None\<rparr>"

definition selectScopedSession :: "agent_session list \<Rightarrow> session_scope \<Rightarrow> agent_session option" where
  "selectScopedSession ss scope =
     List.find (\<lambda>s. agent_active s \<and> agent_command s = scope_command scope \<and> agent_cwd s = scope_cwd scope \<and>
       agent_name s = scope_name scope) ss"

definition enqueuePrompt :: "agent_session \<Rightarrow> string \<Rightarrow> stamp \<Rightarrow> agent_session" where
  "enqueuePrompt s p now = s\<lparr>agent_updated_at := now, agent_queue := agent_queue s @ [\<lparr>prompt_id = p, item_queued_at = now\<rparr>]\<rparr>"

definition cancelSession :: "agent_session \<Rightarrow> string \<Rightarrow> stamp \<Rightarrow> agent_session" where
  "cancelSession s why now = s\<lparr>agent_active := False, agent_updated_at := now, close_reason := Some why\<rparr>"

definition resumeSession :: "agent_session \<Rightarrow> stamp \<Rightarrow> agent_session" where
  "resumeSession s now = s\<lparr>agent_active := True, agent_updated_at := now, owner_expires_at := None\<rparr>"

definition isSessionOwnerExpired :: "agent_session \<Rightarrow> stamp \<Rightarrow> bool" where
  "isSessionOwnerExpired s now =
     (case owner_expires_at s of
        None \<Rightarrow> False
      | Some e \<Rightarrow>
          (case (date_parse e, date_parse now) of (Some expiresAt, Some nowAt) \<Rightarrow> nowAt \<ge> expiresAt | _ \<Rightarrow> True))"

section \<open>Dispatch to a session\<close>

text \<open>The route is chosen by the tool catalog, which is outside the model: \<open>route\<close> gives the identifiers of the
  skills it selects for a task, or throws.\<close>

record dispatch_plan =
  plan_session :: agent_session
  plan_skill_ids :: "string list"

definition skillIdsForHandoff :: "dispatch_plan \<Rightarrow> string list option \<Rightarrow> js_error + string list" where
  "skillIdsForHandoff plan requested =
     (case requested of
        None \<Rightarrow> Inr (plan_skill_ids plan)
      | Some ids \<Rightarrow>
          if list_ex (\<lambda>i. i \<notin> set (plan_skill_ids plan)) (js_unique ids)
          then Inl (Error ''skill_not_in_governed_route'') else Inr (js_unique ids))"

definition prepareGovernedSessionDispatch ::
  "(string \<Rightarrow> js_error + string list) \<Rightarrow> agent_session list \<Rightarrow> session_scope \<Rightarrow> string \<Rightarrow> stamp \<Rightarrow> js_error + dispatch_plan" where
  "prepareGovernedSessionDispatch route ss scope task now =
     (case selectScopedSession ss scope of
        None \<Rightarrow> Inl (Error ''session_not_found'')
      | Some s \<Rightarrow>
          if isSessionOwnerExpired s now then Inl (Error ''session_owner_expired'')
          else bind_result (route task) (\<lambda>ids. Inr \<lparr>plan_session = s, plan_skill_ids = js_unique ids\<rparr>))"

section \<open>What they promise\<close>

lemma decideApproval_Inr:
  "decideApproval r rejected now why = Inr r' \<Longrightarrow>
     approval_status r = Pending \<and> approval_status r' = (if rejected then Rejected else Approved) \<and> decided_at r' = Some now"
  by (auto simp: decideApproval_def split: if_splits)

lemma length_js_unique_le: "length xs \<le> n \<Longrightarrow> length (js_unique xs) \<le> n"
  using length_js_unique [of xs] by simp

text \<open>C33: A decision is made once: deciding a pending record sets its status, its time and, on a rejection, a reason of at
  most 200 characters, leaves what was to be approved as it was, and deciding it again is refused. The decided record
  can be written back exactly when the reason given was not the empty string (the empty reason is stored as it is and
  then fails the queue's own validation).\<close>

theorem approval_decided_once:
  assumes "valid_approval r" and "validText now 32" and "decideApproval r rejected now why = Inr r'"
  shows "approval_status r = Pending \<and> approval_status r' = (if rejected then Rejected else Approved) \<and>
    decided_at r' = Some now \<and>
    r'\<lparr>approval_status := approval_status r, decided_at := decided_at r, rejection_reason := rejection_reason r\<rparr> = r \<and>
    decideApproval r' rejected2 now2 why2 = Inl (Error ''approval_already_decided'') \<and>
    (valid_approval r' \<longleftrightarrow> \<not> (rejected \<and> why = Some []))"
proof -
  from assms(3) have pend: "approval_status r = Pending"
    and r': "r' = r\<lparr>approval_status := (if rejected then Rejected else Approved), decided_at := Some now,
        rejection_reason := (if rejected then Some (case why of None \<Rightarrow> ''rejected_by_owner'' | Some t \<Rightarrow> take 200 t) else None)\<rparr>"
    by (auto simp: decideApproval_def split: if_splits)
  have "valid_approval r' \<longleftrightarrow> \<not> (rejected \<and> why = Some [])"
    using assms(1,2) by (auto simp: r' valid_approval_def nullable_def validText_def split: option.splits)
  with pend show ?thesis by (simp add: r' decideApproval_def)
qed

definition demo_approval :: approval_record where
  "demo_approval = createApprovalRecord
     \<lparr>ai_approvalId = ''a'', ai_runId = Some ''r'', ai_revision = Some (Finite 1), ai_sessionId = ''s'',
      ai_vendor = ''codex_cli'', ai_model = None, ai_skillIds = [''x'', ''x''], ai_prompt = [0x68, 0x69], ai_promptFile = None,
      ai_estimatedTokens = Finite 5, ai_inputTokenBound = Finite 2, ai_outputTokenAllowance = Finite 3,
      ai_promptReviewAcknowledged = None, ai_now = ''t''\<rparr>"

lemma demo_approval_valid: "valid_approval demo_approval"
  by (simp add: demo_approval_def createApprovalRecord_def valid_approval_def validText_def nullable_def
      valid_token_fields_def isSafeInteger_def MAX_SAFE_INTEGER_def MAX_FIELD_def)

lemma approval_decided_once_witness:
  "\<exists>r'. decideApproval demo_approval True ''t'' (Some []) = Inr r' \<and> \<not> valid_approval r' \<and>
     decideApproval r' False ''t'' None = Inl (Error ''approval_already_decided'')"
proof -
  obtain r' where out: "decideApproval demo_approval True ''t'' (Some []) = Inr r'"
    by (simp add: decideApproval_def demo_approval_def createApprovalRecord_def)
  from approval_decided_once [OF demo_approval_valid _ out, of False "''t''" None] out show ?thesis
    by (simp add: validText_def)
qed

text \<open>C34: A governed dispatch goes only to an active session of exactly the command, directory and name asked for whose
  owner has not expired at the time of the dispatch (unreadable times count as expired), and the skills handed over
  are always among those the governed route selected, each once.\<close>

theorem dispatch_goes_to_live_session:
  assumes "prepareGovernedSessionDispatch route ss scope task now = Inr plan"
  shows "\<exists>s \<in> set ss. plan_session plan = s \<and> agent_active s \<and> agent_command s = scope_command scope \<and>
      agent_cwd s = scope_cwd scope \<and> agent_name s = scope_name scope \<and>
      (case owner_expires_at s of None \<Rightarrow> True
       | Some e \<Rightarrow> \<exists>t n. date_parse e = Some t \<and> date_parse now = Some n \<and> n < t) \<and>
      (\<forall>requested. case skillIdsForHandoff plan requested of
         Inl e \<Rightarrow> \<exists>ids i. requested = Some ids \<and> i \<in> set ids \<and> i \<notin> set (plan_skill_ids plan)
       | Inr ids \<Rightarrow> distinct ids \<and> (\<exists>routed. route task = Inr routed \<and> set ids \<subseteq> set routed))"
proof -
  from assms obtain s routed where s: "selectScopedSession ss scope = Some s" "\<not> isSessionOwnerExpired s now"
      and routed: "route task = Inr routed" and plan: "plan = \<lparr>plan_session = s, plan_skill_ids = js_unique routed\<rparr>"
    by (auto simp: prepareGovernedSessionDispatch_def split: option.splits if_splits)
  from s(1) have m: "s \<in> set ss" "agent_active s" "agent_command s = scope_command scope"
      "agent_cwd s = scope_cwd scope" "agent_name s = scope_name scope"
    by (auto simp: selectScopedSession_def dest!: find_SomeD)
  have "case skillIdsForHandoff plan requested of
      Inl e \<Rightarrow> \<exists>ids i. requested = Some ids \<and> i \<in> set ids \<and> i \<notin> set (plan_skill_ids plan)
    | Inr ids \<Rightarrow> distinct ids \<and> (\<exists>routed. route task = Inr routed \<and> set ids \<subseteq> set routed)" for requested
    by (auto simp: skillIdsForHandoff_def plan routed list_ex_iff split: option.splits)
  with m s(2) show ?thesis
    by (intro bexI [of _ s]) (auto simp: plan isSessionOwnerExpired_def split: option.splits)
qed

lemma dispatch_goes_to_live_session_witness:
  "let s = resumeSession (cancelSession (enqueuePrompt (createSessionRecord ''s'' ''codex'' ''/w'' None (Some NotDate) (Iso 1)) ''p'' (Iso 2))
             ''done'' (Iso 3)) (Iso 4);
       scope = \<lparr>scope_command = ''codex'', scope_cwd = ''/w'', scope_name = None\<rparr>
   in \<exists>plan. prepareGovernedSessionDispatch (\<lambda>_. Inr [''a'', ''b'', ''a'']) [s] scope ''t'' (Iso 5) = Inr plan \<and>
        plan_session plan = s"
proof -
  define s where "s = resumeSession (cancelSession (enqueuePrompt (createSessionRecord ''s'' ''codex'' ''/w'' None (Some NotDate) (Iso 1))
      ''p'' (Iso 2)) ''done'' (Iso 3)) (Iso 4)"
  define scope where "scope = \<lparr>scope_command = ''codex'', scope_cwd = ''/w'', scope_name = None\<rparr>"
  have "prepareGovernedSessionDispatch (\<lambda>_. Inr [''a'', ''b'', ''a'']) [s] scope ''t'' (Iso 5) =
      Inr \<lparr>plan_session = s, plan_skill_ids = [''a'', ''b'']\<rparr>"
    by (simp add: prepareGovernedSessionDispatch_def selectScopedSession_def isSessionOwnerExpired_def s_def scope_def
        resumeSession_def cancelSession_def enqueuePrompt_def createSessionRecord_def)
  with dispatch_goes_to_live_session [OF this] show ?thesis by (auto simp: Let_def s_def scope_def)
qed

end
