(* ===== verification/Routing.thy ===== *)
theory Routing
  imports JsPrelude
begin

text \<open>
  How work is routed to lanes and providers: \<^verbatim>\<open>src/data/delivery-system/routingModes.ts\<close> (which lanes a
  mode allows, how a vendor and a model resolve to a lane), \<^verbatim>\<open>subscriptionBudget.ts\<close> (the tiers of a
  subscription and the budget of a session), \<^verbatim>\<open>routingGuards.ts\<close> (circuit breakers of tiers, from recent
  failures) and \<^verbatim>\<open>fallbackChains.ts\<close> (where to go when a provider is limited or fails).

  The free-text notes and summaries of the catalogs are not represented. \<open>collate\<close> is the collation
  \<open>localeCompare\<close> uses, which depends on the host. Times are the parsed timestamps of the prelude.
\<close>

section \<open>Lanes and modes\<close>

datatype routing_mode = Idea | Spec | Build | Review

datatype routing_lane = Agy_fast | Agy_deep | Agy_gpt_oss_120b | Agy_claude_sonnet_4_6
  | Openrouter_nemotron_planning | Openrouter_qwen3_code_draft | Qwen_local_lane | Deterministic_tools_lane
  | Claude_supervisor | Codex_cli_lane

datatype lane_cost = Free | Mid | Expensive

definition EXPENSIVE_LANES :: "routing_lane list" where
  "EXPENSIVE_LANES = [Claude_supervisor, Codex_cli_lane]"

fun LANE_COST_TIERS :: "routing_lane \<Rightarrow> lane_cost" where
  "LANE_COST_TIERS Deterministic_tools_lane = Free"
| "LANE_COST_TIERS Qwen_local_lane = Free"
| "LANE_COST_TIERS Openrouter_qwen3_code_draft = Free"
| "LANE_COST_TIERS Openrouter_nemotron_planning = Free"
| "LANE_COST_TIERS Agy_fast = Mid"
| "LANE_COST_TIERS Agy_deep = Mid"
| "LANE_COST_TIERS Agy_gpt_oss_120b = Mid"
| "LANE_COST_TIERS Agy_claude_sonnet_4_6 = Mid"
| "LANE_COST_TIERS Claude_supervisor = Expensive"
| "LANE_COST_TIERS Codex_cli_lane = Expensive"

definition AGY_FAST_DEFAULT :: string where "AGY_FAST_DEFAULT = ''gemini-3.5-flash-medium''"
definition AGY_GPT_OSS_120B :: string where "AGY_GPT_OSS_120B = ''gpt-oss-120b''"
definition AGY_CLAUDE_SONNET :: string where "AGY_CLAUDE_SONNET = ''claude-4.6-sonnet''"

datatype prep_provenance =
    Cheap_attempts "string list"
  | Cheap_not_applicable string bool

definition isBuildPrepProvenanceSatisfied :: "prep_provenance option \<Rightarrow> bool" where
  "isBuildPrepProvenanceSatisfied p =
     (case p of
        None \<Rightarrow> False
      | Some (Cheap_attempts refs) \<Rightarrow> length refs > 0 \<and> list_all (\<lambda>r. length (js_trim r) > 0) refs
      | Some (Cheap_not_applicable why override) \<Rightarrow> length (js_trim why) > 0 \<and> override)"

record routing_mode_policy =
  mode_id :: routing_mode
  allowedLanes :: "routing_lane list"
  expensiveLanesAllowed :: bool
  step_budget :: int
  mode_requiredChecks :: "string list"
  mode_stopConditions :: "string list"
  mode_shipped :: bool

definition routingModes :: "routing_mode_policy list" where
  "routingModes =
     [\<lparr>mode_id = Idea,
       allowedLanes = [Agy_fast, Agy_deep, Agy_gpt_oss_120b, Agy_claude_sonnet_4_6, Openrouter_nemotron_planning],
       expensiveLanesAllowed = False, step_budget = 2,
       mode_requiredChecks = [''mode_is_explicit_supervisor_input'', ''lane_in_allowed_set'', ''no_expensive_lane''],
       mode_stopConditions = [''expensive_lane_requested_in_idea'', ''auto_mode_classification_used_as_authority''],
       mode_shipped = True\<rparr>,
      \<lparr>mode_id = Spec,
       allowedLanes = [Openrouter_nemotron_planning, Agy_fast, Agy_deep, Deterministic_tools_lane],
       expensiveLanesAllowed = True, step_budget = 3,
       mode_requiredChecks = [''mode_is_explicit_supervisor_input'', ''lane_in_allowed_set'', ''upstream_spec_draft_present''],
       mode_stopConditions = [''missing_upstream_draft'', ''missing_task_package_hash'', ''auto_mode_classification_used_as_authority''],
       mode_shipped = False\<rparr>,
      \<lparr>mode_id = Build,
       allowedLanes = [Openrouter_qwen3_code_draft, Qwen_local_lane, Deterministic_tools_lane, Codex_cli_lane],
       expensiveLanesAllowed = True, step_budget = 3,
       mode_requiredChecks = [''mode_is_explicit_supervisor_input'', ''lane_in_allowed_set'', ''approved_patch_plan_present''],
       mode_stopConditions = [''missing_upstream_draft'', ''missing_failed_attempt_trail'', ''raw_prompt_used_for_build''],
       mode_shipped = True\<rparr>,
      \<lparr>mode_id = Review,
       allowedLanes = [Agy_fast, Agy_deep, Agy_gpt_oss_120b, Agy_claude_sonnet_4_6, Claude_supervisor, Codex_cli_lane],
       expensiveLanesAllowed = True, step_budget = 2,
       mode_requiredChecks = [''mode_is_explicit_supervisor_input'', ''lane_in_allowed_set'', ''review_severity_declared''],
       mode_stopConditions = [''missing_review_severity'', ''cheap_artifact_absent'', ''low_severity_polish_routed_to_claude''],
       mode_shipped = False\<rparr>]"

definition getRoutingMode :: "routing_mode \<Rightarrow> js_error + routing_mode_policy" where
  "getRoutingMode i = (case List.find (\<lambda>m. mode_id m = i) routingModes of
      None \<Rightarrow> Inl (Error ''routing_mode_not_found'') | Some m \<Rightarrow> Inr m)"

definition isLaneAllowedInMode :: "routing_mode \<Rightarrow> routing_lane \<Rightarrow> bool" where
  "isLaneAllowedInMode i lane = (case getRoutingMode i of Inl _ \<Rightarrow> False | Inr m \<Rightarrow> lane \<in> set (allowedLanes m))"

definition isWithinStepBudget :: "routing_mode \<Rightarrow> js_number \<Rightarrow> bool" where
  "isWithinStepBudget i round' =
     (case round' of
        Finite x \<Rightarrow> real_of_int \<lfloor>x\<rfloor> = x \<and> \<lfloor>x\<rfloor> \<ge> 1 \<and>
          (case getRoutingMode i of Inl _ \<Rightarrow> False | Inr m \<Rightarrow> \<lfloor>x\<rfloor> \<le> step_budget m)
      | _ \<Rightarrow> False)"

datatype cli_vendor = V_codex_cli | V_claude_cli | V_agy_cli | V_openrouter_api
datatype openrouter_mode = Qwen3_code_draft | Nemotron_planning

text \<open>\<open>/pro/i.test(s)\<close>.\<close>

fun test_pro :: "string \<Rightarrow> bool" where
  "test_pro (a # b # c # s) \<longleftrightarrow>
     a \<in> set ''pP'' \<and> b \<in> set ''rR'' \<and> c \<in> set ''oO'' \<or> test_pro (b # c # s)"
| "test_pro _ \<longleftrightarrow> False"

definition resolveRoutingLane :: "cli_vendor \<Rightarrow> openrouter_mode option \<Rightarrow> string option \<Rightarrow> js_error + routing_lane" where
  "resolveRoutingLane vendor omode model =
     (case vendor of
        V_codex_cli \<Rightarrow> Inr Codex_cli_lane
      | V_claude_cli \<Rightarrow> Inr Agy_claude_sonnet_4_6
      | V_agy_cli \<Rightarrow>
          let m = (case model of None \<Rightarrow> [] | Some s \<Rightarrow> s) in
          if m = AGY_GPT_OSS_120B then Inr Agy_gpt_oss_120b
          else if m = AGY_CLAUDE_SONNET then Inr Agy_claude_sonnet_4_6
          else Inr (if test_pro m then Agy_deep else Agy_fast)
      | V_openrouter_api \<Rightarrow>
          (case omode of
             Some Nemotron_planning \<Rightarrow> Inr Openrouter_nemotron_planning
           | Some Qwen3_code_draft \<Rightarrow> Inr Openrouter_qwen3_code_draft
           | None \<Rightarrow> Inl (Error ''routing_lane_unresolved: openrouter_api handoff requires an openrouterMode'')))"

definition assertLaneAllowedInMode :: "routing_mode \<Rightarrow> routing_lane \<Rightarrow> js_error + unit" where
  "assertLaneAllowedInMode i lane =
     (if isLaneAllowedInMode i lane then Inr () else Inl (Error ''lane_not_allowed_in_mode''))"

section \<open>Subscription budgets\<close>

datatype reasoning_provider = Deterministic_tools | Qwen_local | Openai_gpt | Anthropic_claude_subscription
  | Gemini_cli | Deepseek_api_or_self_hosted | Openrouter_free | Deepseek_web_chat_manual

fun provider_id :: "reasoning_provider \<Rightarrow> string" where
  "provider_id Deterministic_tools = ''deterministic_tools''"
| "provider_id Qwen_local = ''qwen_local''"
| "provider_id Openai_gpt = ''openai_gpt''"
| "provider_id Anthropic_claude_subscription = ''anthropic_claude_subscription''"
| "provider_id Gemini_cli = ''gemini_cli''"
| "provider_id Deepseek_api_or_self_hosted = ''deepseek_api_or_self_hosted''"
| "provider_id Openrouter_free = ''openrouter_free''"
| "provider_id Deepseek_web_chat_manual = ''deepseek_web_chat_manual''"

datatype rate_limit_state = RateAvailable | RateLimited | RateExhausted | RateUnknown

record provider_tier =
  tier_provider :: reasoning_provider
  tierId :: string
  tier_label :: string
  cliAccessPath :: "string option"
  verifiedLocally :: bool
  rateLimitState :: rate_limit_state
  costWeight :: real
  tier_lastAttemptedAt :: "stamp option"

record session_budget =
  budget_provider :: reasoning_provider
  activeTierId :: "string option"
  activeTierRateLimitState :: rate_limit_state
  rateLimitHitAt :: "stamp option"
  lastAttemptedAt :: "stamp option"
  availableTiers :: "provider_tier list"
  exhaustedTierIds :: "string list"
  sessionTaskCount :: js_number
  sessionInputTokens :: js_number
  sessionOutputTokens :: js_number
  sessionTotalTokens :: js_number
  sessionCallCount :: js_number
  lastSuccessfulTaskAt :: "stamp option"

record budget_telemetry =
  bt_input_tokens :: js_number
  bt_output_tokens :: js_number
  bt_total_tokens :: js_number
  bt_recorded_at :: stamp

fun safeTokenCount :: "js_number \<Rightarrow> int" where
  "safeTokenCount (Finite x) = (if x > 0 then \<lfloor>x\<rfloor> else 0)"
| "safeTokenCount _ = 0"

definition aggregateCliCallTelemetryIntoBudget :: "session_budget \<Rightarrow> budget_telemetry \<Rightarrow> session_budget" where
  "aggregateCliCallTelemetryIntoBudget b t =
     b\<lparr>sessionInputTokens := Finite (of_int (safeTokenCount (sessionInputTokens b) + safeTokenCount (bt_input_tokens t))),
       sessionOutputTokens := Finite (of_int (safeTokenCount (sessionOutputTokens b) + safeTokenCount (bt_output_tokens t))),
       sessionTotalTokens := Finite (of_int (safeTokenCount (sessionTotalTokens b) + safeTokenCount (bt_total_tokens t))),
       sessionCallCount := Finite (of_int (safeTokenCount (sessionCallCount b) + 1)),
       lastAttemptedAt := Some (bt_recorded_at t)\<rparr>"

definition unverified_tier :: "reasoning_provider \<Rightarrow> string \<Rightarrow> string \<Rightarrow> real \<Rightarrow> provider_tier" where
  "unverified_tier p i l w = \<lparr>tier_provider = p, tierId = i, tier_label = l, cliAccessPath = None, verifiedLocally = False,
     rateLimitState = RateUnknown, costWeight = w, tier_lastAttemptedAt = None\<rparr>"

definition geminiKnownTiers :: "provider_tier list" where
  "geminiKnownTiers =
     [\<lparr>tier_provider = Gemini_cli, tierId = ''gemini_auto'', tier_label = ''Gemini CLI auto tier'',
       cliAccessPath = Some ''gemini.cmd -m auto'', verifiedLocally = True, rateLimitState = RateAvailable,
       costWeight = 1/2, tier_lastAttemptedAt = None\<rparr>,
      unverified_tier Gemini_cli ''gemini_flash'' ''Gemini Flash tier'' (1/5),
      unverified_tier Gemini_cli ''gemini_pro'' ''Gemini Pro tier'' 1]"

definition anthropicKnownTiers :: "provider_tier list" where
  "anthropicKnownTiers =
     [unverified_tier Anthropic_claude_subscription ''opus'' ''Claude Opus (flagship)'' 1,
      unverified_tier Anthropic_claude_subscription ''sonnet_5'' ''Claude Sonnet 5 (cheaper)'' (2/5)]"

definition openaiKnownTiers :: "provider_tier list" where
  "openaiKnownTiers =
     [unverified_tier Openai_gpt ''gpt_5_5'' ''GPT-5.5 (flagship)'' 1,
      unverified_tier Openai_gpt ''gpt_5_4'' ''GPT-5.4 (cheaper)'' (3/5),
      unverified_tier Openai_gpt ''gpt_mini'' ''GPT mini (cheaper)'' (3/10),
      unverified_tier Openai_gpt ''codex_spark'' ''codex-spark (cheaper, spill catch)'' (1/5)]"

section \<open>Circuit breakers\<close>

datatype failure_signal = Timeout | Auth_error | Provider_executable_missing | Provider_runtime_denied
  | Empty_output | Invalid_json | Non_zero_exit

record tier_failure =
  failed_provider :: reasoning_provider
  failed_tier :: "string option"
  failureSignal :: failure_signal
  recordedAt :: stamp

record circuit_thresholds =
  failureThreshold :: js_number
  windowMs :: js_number
  cooldownMs :: js_number
  failureSignals :: "failure_signal list option"

record circuit_state =
  circuit_provider :: reasoning_provider
  circuit_tier :: "string option"
  circuit_open :: bool
  failureCount :: nat
  cooldownUntil :: "stamp option"

definition CIRCUIT_BREAKER_FAILURE_SIGNALS :: "failure_signal list" where
  "CIRCUIT_BREAKER_FAILURE_SIGNALS = [Empty_output, Invalid_json, Auth_error, Timeout]"

definition DEFAULT_TIER_CIRCUIT_BREAKER_THRESHOLDS :: circuit_thresholds where
  "DEFAULT_TIER_CIRCUIT_BREAKER_THRESHOLDS =
     \<lparr>failureThreshold = Finite 3, windowMs = Finite (10 * 60 * 1000), cooldownMs = Finite (15 * 60 * 1000),
      failureSignals = Some CIRCUIT_BREAKER_FAILURE_SIGNALS\<rparr>"

text \<open>The thresholds as numbers: a positive integer and two positive finite numbers.\<close>

definition validateThresholds :: "circuit_thresholds \<Rightarrow> js_error + int \<times> real \<times> real" where
  "validateThresholds th =
     (case failureThreshold th of
        Finite f \<Rightarrow>
          if real_of_int \<lfloor>f\<rfloor> \<noteq> f \<or> f \<le> 0
          then Inl (Error ''routing_circuit_invalid_threshold: failureThreshold must be a positive integer'')
          else (case windowMs th of
              Finite w \<Rightarrow>
                if w \<le> 0 then Inl (Error ''routing_circuit_invalid_threshold: windowMs must be a positive number'')
                else (case cooldownMs th of
                    Finite c \<Rightarrow>
                      if c \<le> 0 then Inl (Error ''routing_circuit_invalid_threshold: cooldownMs must be a positive number'')
                      else Inr (\<lfloor>f\<rfloor>, w, c)
                  | _ \<Rightarrow> Inl (Error ''routing_circuit_invalid_threshold: cooldownMs must be a positive number''))
            | _ \<Rightarrow> Inl (Error ''routing_circuit_invalid_threshold: windowMs must be a positive number''))
      | _ \<Rightarrow> Inl (Error ''routing_circuit_invalid_threshold: failureThreshold must be a positive integer''))"

definition parseOptionalTimeMs :: "stamp \<Rightarrow> int option" where
  "parseOptionalTimeMs v = date_parse v"

definition parseTimeMs :: "stamp \<Rightarrow> js_error + int" where
  "parseTimeMs v = (case date_parse v of
      None \<Rightarrow> Inl (Error ''routing_circuit_invalid_time: not a valid timestamp'') | Some t \<Rightarrow> Inr t)"

definition NUL :: char where "NUL = CHR 0x00"

definition circuitKey :: "reasoning_provider \<Rightarrow> string option \<Rightarrow> string" where
  "circuitKey p t = provider_id p @ NUL # (case t of None \<Rightarrow> [] | Some s \<Rightarrow> s)"

definition all_providers :: "reasoning_provider list" where
  "all_providers = [Deterministic_tools, Qwen_local, Openai_gpt, Anthropic_claude_subscription, Gemini_cli,
     Deepseek_api_or_self_hosted, Openrouter_free, Deepseek_web_chat_manual]"

text \<open>The two parts of \<open>key.split("\0")\<close> that are used: up to the first NUL, and from there to the next.\<close>

definition parseCircuitKey :: "string \<Rightarrow> js_error + reasoning_provider \<times> string option" where
  "parseCircuitKey key =
     (let name = takeWhile (\<lambda>c. c \<noteq> NUL) key;
          tier = takeWhile (\<lambda>c. c \<noteq> NUL) (tl (dropWhile (\<lambda>c. c \<noteq> NUL) key))
      in case List.find (\<lambda>p. provider_id p = name) all_providers of
           None \<Rightarrow> Inl (Error ''routing_circuit_invalid_provider'')
         | Some p \<Rightarrow> Inr (p, if tier = [] then None else Some tier))"

text \<open>The signals that count: of a counted kind, with a readable time in the window.\<close>

definition counted_signal :: "circuit_thresholds \<Rightarrow> int \<Rightarrow> real \<Rightarrow> tier_failure \<Rightarrow> bool" where
  "counted_signal th nowMs w s \<longleftrightarrow>
     failureSignal s \<in> set (case failureSignals th of None \<Rightarrow> CIRCUIT_BREAKER_FAILURE_SIGNALS | Some l \<Rightarrow> l) \<and>
     (case parseOptionalTimeMs (recordedAt s) of
        None \<Rightarrow> False | Some t \<Rightarrow> \<not> t > nowMs \<and> \<not> real_of_int t < real_of_int nowMs - w)"

text \<open>The map of the groups, in the order in which their keys were first met.\<close>

definition add_signal :: "tier_failure \<Rightarrow> tier_failure list dict \<Rightarrow> tier_failure list dict" where
  "add_signal s g =
     (let key = circuitKey (failed_provider s) (failed_tier s);
          bucket = (case map_of g key of None \<Rightarrow> [] | Some b \<Rightarrow> b)
      in AList.update key (bucket @ [s]) g)"

definition group_signals :: "tier_failure list \<Rightarrow> tier_failure list dict" where
  "group_signals ss = fold add_signal ss []"

text \<open>\<open>new Date(x).toISOString()\<close> of a number: the fraction is dropped towards zero.\<close>

definition js_truncate :: "real \<Rightarrow> int" where
  "js_truncate x = (if x \<ge> 0 then \<lfloor>x\<rfloor> else \<lceil>x\<rceil>)"

definition circuit_of :: "int \<Rightarrow> real \<Rightarrow> int \<Rightarrow> string \<times> tier_failure list \<Rightarrow> js_error + circuit_state" where
  "circuit_of threshold cooldown nowMs entry =
     (case entry of (key, signals) \<Rightarrow>
        bind_result (parseCircuitKey key) (\<lambda>(p, t).
        bind_result (map_result (\<lambda>s. parseTimeMs (recordedAt s)) signals) (\<lambda>times.
          let cooldownUntilMs = real_of_int (Max (set times)) + cooldown;
              isOpen = (int (length signals) \<ge> threshold \<and> real_of_int nowMs < cooldownUntilMs)
          in if isOpen
             then bind_result (toISOString (js_truncate cooldownUntilMs)) (\<lambda>u.
               Inr \<lparr>circuit_provider = p, circuit_tier = t, circuit_open = True, failureCount = length signals,
                 cooldownUntil = Some u\<rparr>)
             else Inr \<lparr>circuit_provider = p, circuit_tier = t, circuit_open = False, failureCount = length signals,
               cooldownUntil = None\<rparr>)))"

text \<open>A stable sort by a comparison function.\<close>

fun insert_by :: "('a \<Rightarrow> 'a \<Rightarrow> int) \<Rightarrow> 'a \<Rightarrow> 'a list \<Rightarrow> 'a list" where
  "insert_by cmp x [] = [x]"
| "insert_by cmp x (y # ys) = (if cmp x y \<le> 0 then x # y # ys else y # insert_by cmp x ys)"

definition sort_by :: "('a \<Rightarrow> 'a \<Rightarrow> int) \<Rightarrow> 'a list \<Rightarrow> 'a list" where
  "sort_by cmp xs = foldr (insert_by cmp) xs []"

definition compareCircuitStates :: "(string \<Rightarrow> string \<Rightarrow> int) \<Rightarrow> circuit_state \<Rightarrow> circuit_state \<Rightarrow> int" where
  "compareCircuitStates collate a b =
     (let c = collate (provider_id (circuit_provider a)) (provider_id (circuit_provider b)) in
      if c \<noteq> 0 then c
      else collate (case circuit_tier a of None \<Rightarrow> [] | Some t \<Rightarrow> t) (case circuit_tier b of None \<Rightarrow> [] | Some t \<Rightarrow> t))"

definition computeTierCircuitState ::
  "(string \<Rightarrow> string \<Rightarrow> int) \<Rightarrow> tier_failure list \<Rightarrow> circuit_thresholds \<Rightarrow> stamp \<Rightarrow> js_error + circuit_state list" where
  "computeTierCircuitState collate recentSignals th now =
     bind_result (validateThresholds th) (\<lambda>(threshold, w, c).
     bind_result (parseTimeMs now) (\<lambda>nowMs.
     bind_result (map_result (circuit_of threshold c nowMs)
         (group_signals (filter (counted_signal th nowMs w) recentSignals))) (\<lambda>cs.
       Inr (sort_by (compareCircuitStates collate) cs))))"

definition isTierCircuitOpen :: "circuit_state list \<Rightarrow> reasoning_provider \<Rightarrow> string option \<Rightarrow> bool" where
  "isTierCircuitOpen cs p t \<longleftrightarrow>
     list_ex (\<lambda>s. circuit_open s \<and> circuit_provider s = p \<and>
       (circuit_tier s = None \<or> t = None \<or> circuit_tier s = t)) cs"

datatype fallback_target = ToProvider reasoning_provider | OwnerDecision | Blocked

definition isSelfFallbackRoute :: "reasoning_provider \<Rightarrow> string option \<Rightarrow> fallback_target \<Rightarrow> string option \<Rightarrow> bool" where
  "isSelfFallbackRoute fromP fromT to toT =
     (case to of
        ToProvider p \<Rightarrow> fromP = p \<and> (fromT = None \<or> toT = None \<or> fromT = toT)
      | _ \<Rightarrow> False)"

definition isActiveTierExplicitlyUnverified :: "session_budget \<Rightarrow> bool" where
  "isActiveTierExplicitlyUnverified b =
     (case activeTierId b of None \<Rightarrow> False
      | Some a \<Rightarrow> list_ex (\<lambda>t. tierId t = a \<and> \<not> verifiedLocally t) (availableTiers b))"

definition isFallbackTierLocallyConfirmed :: "fallback_target \<Rightarrow> string option \<Rightarrow> session_budget list \<Rightarrow> bool" where
  "isFallbackTierLocallyConfirmed to toT budgets =
     (case (to, toT) of
        (ToProvider p, Some t) \<Rightarrow>
          (case List.find (\<lambda>b. budget_provider b = p) budgets of
             None \<Rightarrow> False
           | Some b \<Rightarrow> list_ex (\<lambda>x. tierId x = t \<and> verifiedLocally x) (availableTiers b))
      | _ \<Rightarrow> True)"

definition isVerifiedTierExhaustedOrOpen :: "session_budget \<Rightarrow> string \<Rightarrow> circuit_state list \<Rightarrow> bool" where
  "isVerifiedTierExhaustedOrOpen b t cs \<longleftrightarrow>
     t \<in> set (exhaustedTierIds b) \<or>
     (case List.find (\<lambda>x. tierId x = t) (availableTiers b) of None \<Rightarrow> False | Some x \<Rightarrow> rateLimitState x = RateExhausted) \<or>
     isTierCircuitOpen cs (budget_provider b) (Some t)"

section \<open>Fallback chains\<close>

datatype fallback_trigger = OnRateLimited | ProviderUnavailable | QualityBelowThreshold | RepeatedFailure | AllTiersExhausted

record fallback_step =
  fb_trigger :: fallback_trigger
  fromProvider :: reasoning_provider
  fromTierId :: "string option"
  toTarget :: fallback_target
  toTierId :: "string option"
  fb_condition :: string
  requiresCheckpoint :: bool
  requiresOwnerApproval :: bool

record fallback_options =
  fo_chain :: "fallback_step list option"
  fo_budgets :: "session_budget list option"
  fo_recentFailureSignals :: "tier_failure list option"
  fo_thresholds :: "circuit_thresholds option"
  fo_now :: "stamp option"

definition subscriptionFallbackChains :: "fallback_step list" where
  "subscriptionFallbackChains =
     [\<lparr>fb_trigger = OnRateLimited, fromProvider = Gemini_cli, fromTierId = Some ''gemini_auto'',
       toTarget = ToProvider Gemini_cli, toTierId = Some ''gemini_flash'',
       fb_condition = ''gemini_auto rate limited; Gemini Flash may be tried only when the tier id is locally confirmed later'',
       requiresCheckpoint = False, requiresOwnerApproval = False\<rparr>,
      \<lparr>fb_trigger = AllTiersExhausted, fromProvider = Gemini_cli, fromTierId = None, toTarget = Blocked, toTierId = None,
       fb_condition = ''All Gemini tiers exhausted; pause only, no provider substitution'',
       requiresCheckpoint = False, requiresOwnerApproval = False\<rparr>,
      \<lparr>fb_trigger = OnRateLimited, fromProvider = Openai_gpt, fromTierId = None, toTarget = ToProvider Qwen_local, toTierId = None,
       fb_condition = ''task fits local scope: bounded_coding, micro_worker, test_generation'',
       requiresCheckpoint = True, requiresOwnerApproval = False\<rparr>,
      \<lparr>fb_trigger = RepeatedFailure, fromProvider = Openai_gpt, fromTierId = None, toTarget = OwnerDecision, toTierId = None,
       fb_condition = ''task requires GPT-quality review or a supervisor route decision before further retries'',
       requiresCheckpoint = True, requiresOwnerApproval = True\<rparr>,
      \<lparr>fb_trigger = ProviderUnavailable, fromProvider = Anthropic_claude_subscription, fromTierId = None,
       toTarget = OwnerDecision, toTierId = None,
       fb_condition = ''Claude unavailable; orchestration is waiting_owner until the owner resumes or changes scope'',
       requiresCheckpoint = True, requiresOwnerApproval = True\<rparr>]"

definition buildBlockedFallbackStep :: "fallback_trigger \<Rightarrow> reasoning_provider \<Rightarrow> string option \<Rightarrow> string \<Rightarrow> fallback_step" where
  "buildBlockedFallbackStep trigger p t cond =
     \<lparr>fb_trigger = trigger, fromProvider = p, fromTierId = t, toTarget = Blocked, toTierId = None, fb_condition = cond,
      requiresCheckpoint = True, requiresOwnerApproval = False\<rparr>"

definition resolveCircuitStates :: "(string \<Rightarrow> string \<Rightarrow> int) \<Rightarrow> fallback_options \<Rightarrow> js_error + circuit_state list" where
  "resolveCircuitStates collate opts =
     (let signals = (case fo_recentFailureSignals opts of None \<Rightarrow> [] | Some s \<Rightarrow> s) in
      if signals = [] then Inr []
      else case fo_now opts of
          None \<Rightarrow> Inl (Error ''routing_circuit_now_required: pass an injected now when recentFailureSignals are provided'')
        | Some now \<Rightarrow> computeTierCircuitState collate signals
            (case fo_thresholds opts of None \<Rightarrow> DEFAULT_TIER_CIRCUIT_BREAKER_THRESHOLDS | Some th \<Rightarrow> th) now)"

definition allVerifiedTiersExhaustedOrOpen :: "session_budget \<Rightarrow> circuit_state list \<Rightarrow> bool" where
  "allVerifiedTiersExhaustedOrOpen b cs =
     (let verified = filter verifiedLocally (availableTiers b) in
      length verified > 0 \<and> list_all (\<lambda>t. isVerifiedTierExhaustedOrOpen b (tierId t) cs) verified)"

text \<open>A tier identifier is truthy when it is there and not empty.\<close>

definition truthy :: "string option \<Rightarrow> bool" where
  "truthy t \<longleftrightarrow> (case t of None \<Rightarrow> False | Some s \<Rightarrow> s \<noteq> [])"

definition or_else :: "'a option \<Rightarrow> 'a option \<Rightarrow> 'a option" where
  "or_else a b = (case a of None \<Rightarrow> b | Some _ \<Rightarrow> a)"

definition isValidFallbackStep :: "fallback_step \<Rightarrow> session_budget \<Rightarrow> session_budget list \<Rightarrow> circuit_state list \<Rightarrow> bool" where
  "isValidFallbackStep step b budgets cs =
     (if isSelfFallbackRoute (fromProvider step) (or_else (fromTierId step) (activeTierId b)) (toTarget step) (toTierId step)
      then False
      else if \<not> isFallbackTierLocallyConfirmed (toTarget step) (toTierId step) budgets then False
      else case toTarget step of
          OwnerDecision \<Rightarrow> True
        | Blocked \<Rightarrow> True
        | ToProvider p \<Rightarrow>
            let target = List.find (\<lambda>x. budget_provider x = p) budgets;
                targetTierId = or_else (toTierId step) (case target of None \<Rightarrow> None | Some x \<Rightarrow> activeTierId x)
            in if (case target of None \<Rightarrow> False | Some x \<Rightarrow> isActiveTierExplicitlyUnverified x) then False
               else if isTierCircuitOpen cs p targetTierId then False
               else if (case (target, targetTierId) of
                     (Some x, Some t) \<Rightarrow> t \<noteq> [] \<and> t \<in> set (exhaustedTierIds x) | _ \<Rightarrow> False) then False
               else True)"

definition resolveFallback ::
  "(string \<Rightarrow> string \<Rightarrow> int) \<Rightarrow> fallback_trigger \<Rightarrow> reasoning_provider \<Rightarrow> session_budget \<Rightarrow> fallback_options \<Rightarrow>
   js_error + fallback_step option" where
  "resolveFallback collate trigger p b opts =
     (let chain = (case fo_chain opts of None \<Rightarrow> subscriptionFallbackChains | Some c \<Rightarrow> c);
          budgets = (case fo_budgets opts of None \<Rightarrow> [b] | Some bs \<Rightarrow> bs)
      in bind_result (resolveCircuitStates collate opts) (\<lambda>cs.
        if p = Gemini_cli \<and> allVerifiedTiersExhaustedOrOpen b cs
        then Inr (Some (case List.find (\<lambda>s. fromProvider s = Gemini_cli \<and> fb_trigger s = AllTiersExhausted) chain of
            Some s \<Rightarrow> s
          | None \<Rightarrow> buildBlockedFallbackStep trigger p (activeTierId b)
              ''All verified Gemini tiers are exhausted or circuit-open; pause only.''))
        else
          let matching = filter (\<lambda>s. fb_trigger s = trigger \<and> fromProvider s = p \<and>
                \<not> (truthy (fromTierId s) \<and> fromTierId s \<noteq> activeTierId b)) chain
          in case List.find (\<lambda>s. isValidFallbackStep s b budgets cs) matching of
               Some s \<Rightarrow> Inr (Some s)
             | None \<Rightarrow>
                 if length matching > 0
                 then Inr (Some (buildBlockedFallbackStep trigger p (activeTierId b)
                   ''No valid fallback candidate remains after self-route, verified-tier, and circuit-breaker guards.''))
                 else Inr None))"

end
