(* ===== verification/RoutingProps.thy ===== *)
theory RoutingProps
  imports Routing
begin

text \<open>
  What the guards promise: a tier's circuit is open exactly when enough recent failures say so, and the
  fallback chain never leads to a tier that is unverified, exhausted, open, or the one it came from.
\<close>

section \<open>Keys\<close>

lemma provider_no_NUL: "takeWhile (\<lambda>c. c \<noteq> NUL) (provider_id p @ NUL # xs) = provider_id p"
  by (cases p) (simp_all add: NUL_def)

lemma provider_drop: "dropWhile (\<lambda>c. c \<noteq> NUL) (provider_id p @ NUL # xs) = NUL # xs"
  by (cases p) (simp_all add: NUL_def)

lemma find_provider: "List.find (\<lambda>q. provider_id q = provider_id p) all_providers = Some p"
  by (cases p) (simp_all add: all_providers_def)

definition plain_tier :: "string option \<Rightarrow> bool" where
  "plain_tier t \<longleftrightarrow> (case t of None \<Rightarrow> True | Some s \<Rightarrow> s \<noteq> [] \<and> NUL \<notin> set s)"

lemma parse_key: "plain_tier t \<Longrightarrow> parseCircuitKey (circuitKey p t) = Inr (p, t)"
proof (cases t)
  case (Some s)
  assume "plain_tier t"
  with Some have tw: "takeWhile (\<lambda>c. c \<noteq> NUL) s = s" "s \<noteq> []"
    by (auto simp: plain_tier_def takeWhile_eq_all_conv)
  with Some show ?thesis
    by (simp add: parseCircuitKey_def circuitKey_def provider_no_NUL provider_drop find_provider Let_def tw)
qed (simp add: parseCircuitKey_def circuitKey_def provider_no_NUL provider_drop find_provider Let_def)

lemma key_inj: "plain_tier t \<Longrightarrow> plain_tier u \<Longrightarrow> circuitKey p t = circuitKey q u \<longleftrightarrow> p = q \<and> t = u"
  by (metis parse_key Inr_inject prod.inject)

section \<open>Groups\<close>

definition of_key :: "string \<Rightarrow> tier_failure \<Rightarrow> bool" where
  "of_key key s \<longleftrightarrow> circuitKey (failed_provider s) (failed_tier s) = key"

lemma group_signals_snoc: "group_signals (ss @ [s]) = add_signal s (group_signals ss)"
  by (simp add: group_signals_def)

lemma group_signals_map:
  "map_of (group_signals ss) key = (if filter (of_key key) ss = [] then None else Some (filter (of_key key) ss))"
proof (induction ss rule: rev_induct)
  case Nil
  show ?case by (simp add: group_signals_def)
next
  case (snoc s ss)
  have own: "of_key k s \<longleftrightarrow> k = circuitKey (failed_provider s) (failed_tier s)" for k
    by (auto simp: of_key_def)
  show ?case
    using snoc.IH by (cases "of_key key s") (auto simp: own group_signals_snoc add_signal_def Let_def update_conv split: option.splits)
qed

lemma group_signals_distinct: "distinct (keys_of (group_signals ss))"
  by (induction ss rule: rev_induct) (simp_all add: group_signals_def add_signal_def Let_def)

lemma group_signals_set:
  "(key, b) \<in> set (group_signals ss) \<longleftrightarrow> b = filter (of_key key) ss \<and> b \<noteq> []"
  using map_of_eq_Some_iff [OF group_signals_distinct, of ss key b] by (auto simp: group_signals_map split: if_splits)

lemma set_insert_by [simp]: "set (insert_by cmp x ys) = insert x (set ys)"
  by (induction ys) auto

lemma set_sort_by [simp]: "set (sort_by cmp xs) = set xs"
  unfolding sort_by_def by (induction xs) auto

lemma isTierCircuitOpen_set: "set cs = set ds \<Longrightarrow> isTierCircuitOpen cs p t = isTierCircuitOpen ds p t"
  by (simp add: isTierCircuitOpen_def list_ex_iff)

section \<open>One group\<close>

definition signal_time :: "tier_failure \<Rightarrow> int" where
  "signal_time s = (case date_parse (recordedAt s) of None \<Rightarrow> 0 | Some t \<Rightarrow> t)"

lemma counted_time: "counted_signal th n w s \<Longrightarrow> parseTimeMs (recordedAt s) = Inr (signal_time s)"
  by (auto simp: counted_signal_def parseOptionalTimeMs_def parseTimeMs_def signal_time_def split: option.splits)

lemma circuit_of_open:
  assumes b: "b \<noteq> []" and time: "\<And>s. s \<in> set b \<Longrightarrow> parseTimeMs (recordedAt s) = Inr (signal_time s)"
    and key: "parseCircuitKey key = Inr (p, t)" and out: "circuit_of k c n (key, b) = Inr st"
  shows "circuit_provider st = p \<and> circuit_tier st = t \<and>
    (circuit_open st \<longleftrightarrow> int (length b) \<ge> k \<and> (\<exists>s \<in> set b. real_of_int n < real_of_int (signal_time s) + c))"
proof -
  have times: "map_result (\<lambda>s. parseTimeMs (recordedAt s)) b = Inr (map signal_time b)"
    by (rule map_result_all) (rule time)
  have "real_of_int n < real_of_int (Max (set (map signal_time b))) + c \<longleftrightarrow>
      (\<exists>s \<in> set b. real_of_int n < real_of_int (signal_time s) + c)"
  proof
    assume a: "real_of_int n < real_of_int (Max (set (map signal_time b))) + c"
    have "Max (set (map signal_time b)) \<in> set (map signal_time b)" using b by (intro Max_in) auto
    with a show "\<exists>s \<in> set b. real_of_int n < real_of_int (signal_time s) + c" by auto
  next
    assume "\<exists>s \<in> set b. real_of_int n < real_of_int (signal_time s) + c"
    then obtain s where s: "s \<in> set b" "real_of_int n < real_of_int (signal_time s) + c" by blast
    then have "signal_time s \<le> Max (set (map signal_time b))" by (intro Max_ge) auto
    with s(2) show "real_of_int n < real_of_int (Max (set (map signal_time b))) + c" by linarith
  qed
  with out key times show ?thesis
    unfolding circuit_of_def by (auto simp: Let_def simp del: set_map split: if_splits)
qed

lemma validateThresholds_Inr: "validateThresholds th = Inr (k, w, c) \<Longrightarrow> k > 0 \<and> w > 0 \<and> c > 0"
  by (auto simp: validateThresholds_def split: js_number.splits if_splits)

section \<open>What the guards promise\<close>

text \<open>C35: Whenever the circuit states can be computed, the circuit of a tier is open exactly when, among the failures of
  its provider recorded for that tier, or among those recorded for no tier, at least the threshold number are of a
  counted kind and inside the window, and the last of them is more recent than the cool-down.\<close>

theorem circuit_open_exact:
  assumes "computeTierCircuitState collate signals th now = Inr cs"
    and "validateThresholds th = Inr (k, w, c)" and "date_parse now = Some n"
    and "\<forall>s \<in> set signals. plain_tier (failed_tier s)" and "plain_tier (Some t)"
  shows "isTierCircuitOpen cs p (Some t) \<longleftrightarrow>
    (\<exists>u \<in> {None, Some t}.
       let hits = filter (\<lambda>s. counted_signal th n w s \<and> failed_provider s = p \<and> failed_tier s = u) signals
       in k \<le> int (length hits) \<and> (\<exists>s \<in> set hits. real_of_int n < real_of_int (signal_time s) + c))"
proof -
  let ?ss = "filter (counted_signal th n w) signals"
  let ?hits = "\<lambda>q u. filter (\<lambda>s. counted_signal th n w s \<and> failed_provider s = q \<and> failed_tier s = u) signals"
  from assms(1-3) obtain ds where ds: "map_result (circuit_of k c n) (group_signals ?ss) = Inr ds"
      and cs: "cs = sort_by (compareCircuitStates collate) ds"
    by (auto simp: computeTierCircuitState_def parseTimeMs_def)
  have k: "k > 0" using validateThresholds_Inr [OF assms(2)] by simp
  have hits: "filter (of_key (circuitKey q u)) ?ss = ?hits q u" if "plain_tier u" for q u
    using assms(4) key_inj [OF _ that] unfolding filter_filter of_key_def by (intro filter_cong) auto
  have mem: "st \<in> set ds \<longleftrightarrow> (\<exists>q u. plain_tier u \<and> ?hits q u \<noteq> [] \<and> circuit_of k c n (circuitKey q u, ?hits q u) = Inr st)" for st
  proof
    assume "st \<in> set ds"
    then obtain key b where kb: "(key, b) \<in> set (group_signals ?ss)" "circuit_of k c n (key, b) = Inr st"
      using map_result_set [OF ds] by auto
    from iffD1 [OF group_signals_set kb(1)] have b: "b = filter (of_key key) ?ss" "b \<noteq> []" by blast+
    have "set b \<subseteq> {s \<in> set ?ss. of_key key s}" unfolding b(1) by auto
    then obtain s where s: "s \<in> set ?ss" "of_key key s" using hd_in_set [OF b(2)] by blast
    then have "plain_tier (failed_tier s)" "key = circuitKey (failed_provider s) (failed_tier s)"
      using assms(4) by (auto simp: of_key_def)
    then have "b = ?hits (failed_provider s) (failed_tier s)" using b(1) hits by simp
    with \<open>plain_tier (failed_tier s)\<close> \<open>key = _\<close> b(2) kb(2)
    show "\<exists>q u. plain_tier u \<and> ?hits q u \<noteq> [] \<and> circuit_of k c n (circuitKey q u, ?hits q u) = Inr st"
      by (intro exI [of _ "failed_provider s"] exI [of _ "failed_tier s"]) simp
  next
    assume "\<exists>q u. plain_tier u \<and> ?hits q u \<noteq> [] \<and> circuit_of k c n (circuitKey q u, ?hits q u) = Inr st"
    then obtain q u where qu: "plain_tier u" "?hits q u \<noteq> []" "circuit_of k c n (circuitKey q u, ?hits q u) = Inr st" by blast
    have "(circuitKey q u, ?hits q u) \<in> set (group_signals ?ss)"
      unfolding group_signals_set hits [OF qu(1)] using qu(2) by (intro conjI refl)
    with qu(3) show "st \<in> set ds" using map_result_set [OF ds] by blast
  qed
  have one: "circuit_provider st = q \<and> circuit_tier st = u \<and>
      (circuit_open st \<longleftrightarrow> k \<le> int (length (?hits q u)) \<and>
         (\<exists>s \<in> set (?hits q u). real_of_int n < real_of_int (signal_time s) + c))"
    if "plain_tier u" "?hits q u \<noteq> []" "circuit_of k c n (circuitKey q u, ?hits q u) = Inr st" for q u st
    by (rule circuit_of_open [OF that(2) _ parse_key [OF that(1)] that(3)]) (auto intro: counted_time)
  have total: "\<exists>st. circuit_of k c n (circuitKey q u, ?hits q u) = Inr st" if "plain_tier u" "?hits q u \<noteq> []" for q u
  proof -
    have "(circuitKey q u, ?hits q u) \<in> set (group_signals ?ss)"
      unfolding group_signals_set hits [OF that(1)] using that(2) by (intro conjI refl)
    moreover have "\<exists>y. f x = Inr y" if "map_result f xs = Inr ys" "x \<in> set xs" for f :: "string \<times> tier_failure list \<Rightarrow> js_error + circuit_state" and xs ys x
      using that by (induction xs arbitrary: ys) auto
    ultimately show ?thesis using ds by blast
  qed
  have "isTierCircuitOpen cs p (Some t) = isTierCircuitOpen ds p (Some t)" by (rule isTierCircuitOpen_set) (simp add: cs)
  also have "\<dots> \<longleftrightarrow> (\<exists>u \<in> {None, Some t}. \<exists>st. ?hits p u \<noteq> [] \<and> circuit_of k c n (circuitKey p u, ?hits p u) = Inr st \<and> circuit_open st)"
    (is "?L \<longleftrightarrow> ?R")
  proof
    assume ?L
    then obtain st where st: "st \<in> set ds" "circuit_open st" "circuit_provider st = p" "circuit_tier st = None \<or> circuit_tier st = Some t"
      by (auto simp: isTierCircuitOpen_def list_ex_iff)
    from st(1) mem obtain q u where "plain_tier u" "?hits q u \<noteq> []" "circuit_of k c n (circuitKey q u, ?hits q u) = Inr st" by blast
    with one [OF this] st(2-) show ?R by auto
  next
    assume ?R
    then obtain u st where u: "u \<in> {None, Some t}" "?hits p u \<noteq> []" "circuit_of k c n (circuitKey p u, ?hits p u) = Inr st" "circuit_open st"
      by blast
    from u(1) assms(5) have "plain_tier u" by (auto simp: plain_tier_def)
    have "st \<in> set ds" using mem \<open>plain_tier u\<close> u(2,3) by blast
    moreover have "circuit_provider st = p" "circuit_tier st = u" using one [OF \<open>plain_tier u\<close> u(2,3)] by simp_all
    ultimately show ?L using u(1,4) unfolding isTierCircuitOpen_def list_ex_iff by (intro bexI [of _ st]) auto
  qed
  also have "\<dots> \<longleftrightarrow> (\<exists>u \<in> {None, Some t}. k \<le> int (length (?hits p u)) \<and>
      (\<exists>s \<in> set (?hits p u). real_of_int n < real_of_int (signal_time s) + c))"
  proof (rule bex_cong [OF refl])
    fix u assume "u \<in> {None, Some t}"
    then have u: "plain_tier u" using assms(5) by (auto simp: plain_tier_def)
    show "(\<exists>st. ?hits p u \<noteq> [] \<and> circuit_of k c n (circuitKey p u, ?hits p u) = Inr st \<and> circuit_open st) \<longleftrightarrow>
      k \<le> int (length (?hits p u)) \<and> (\<exists>s \<in> set (?hits p u). real_of_int n < real_of_int (signal_time s) + c)"
    proof (cases "?hits p u = []")
      case True
      then show ?thesis using k by simp
    next
      case False
      then show ?thesis using one [OF u False] total [OF u False] by blast
    qed
  qed
  finally show ?thesis by (simp add: Let_def)
qed

definition demo_failure :: "int \<Rightarrow> tier_failure" where
  "demo_failure t = \<lparr>failed_provider = Gemini_cli, failed_tier = Some ''gemini_auto'', failureSignal = Empty_output,
     recordedAt = Iso t\<rparr>"

lemma circuit_open_exact_witness:
  "\<exists>cs. computeTierCircuitState (\<lambda>_ _. 0) (map demo_failure [1, 2, 3]) DEFAULT_TIER_CIRCUIT_BREAKER_THRESHOLDS (Iso 10) = Inr cs \<and>
     isTierCircuitOpen cs Gemini_cli (Some ''gemini_auto'')"
proof -
  define fs where "fs = map demo_failure [1, 2, 3]"
  have g: "group_signals fs = [(circuitKey Gemini_cli (Some ''gemini_auto''), fs)]"
    by (simp add: fs_def group_signals_def add_signal_def demo_failure_def Let_def)
  have p: "parseCircuitKey (circuitKey Gemini_cli (Some ''gemini_auto'')) = Inr (Gemini_cli, Some ''gemini_auto'')"
    by (rule parse_key) (simp add: plain_tier_def NUL_def)
  have th: "validateThresholds DEFAULT_TIER_CIRCUIT_BREAKER_THRESHOLDS = Inr (3, 600000, 900000)"
    by (simp add: validateThresholds_def DEFAULT_TIER_CIRCUIT_BREAKER_THRESHOLDS_def)
  have counted: "filter (counted_signal DEFAULT_TIER_CIRCUIT_BREAKER_THRESHOLDS 10 600000) fs = fs"
    by (simp add: fs_def counted_signal_def DEFAULT_TIER_CIRCUIT_BREAKER_THRESHOLDS_def CIRCUIT_BREAKER_FAILURE_SIGNALS_def
        demo_failure_def parseOptionalTimeMs_def valid_time_def MAX_TIME_def)
  have now: "parseTimeMs (Iso 10) = Inr 10" by (simp add: parseTimeMs_def valid_time_def MAX_TIME_def)
  have "\<exists>st. circuit_of 3 900000 10 (circuitKey Gemini_cli (Some ''gemini_auto''), fs) = Inr st"
    by (simp add: p circuit_of_def fs_def parseTimeMs_def demo_failure_def valid_time_def MAX_TIME_def js_truncate_def
        toISOString_def Let_def)
  then have "\<exists>cs. computeTierCircuitState (\<lambda>_ _. 0) fs DEFAULT_TIER_CIRCUIT_BREAKER_THRESHOLDS (Iso 10) = Inr cs"
    by (auto simp: computeTierCircuitState_def th now counted g)
  then obtain cs where cs: "computeTierCircuitState (\<lambda>_ _. 0) fs
      DEFAULT_TIER_CIRCUIT_BREAKER_THRESHOLDS (Iso 10) = Inr cs" by blast
  have hits: "filter (\<lambda>s. counted_signal DEFAULT_TIER_CIRCUIT_BREAKER_THRESHOLDS 10 600000 s \<and>
      failed_provider s = Gemini_cli \<and> failed_tier s = Some ''gemini_auto'') fs = fs"
    by (simp add: fs_def counted_signal_def DEFAULT_TIER_CIRCUIT_BREAKER_THRESHOLDS_def CIRCUIT_BREAKER_FAILURE_SIGNALS_def
        demo_failure_def parseOptionalTimeMs_def valid_time_def MAX_TIME_def)
  have len: "3 \<le> int (length fs)" and late: "\<exists>s \<in> set fs. real_of_int 10 < real_of_int (signal_time s) + 900000"
    by (simp_all add: fs_def demo_failure_def signal_time_def valid_time_def MAX_TIME_def)
  have "\<exists>u \<in> {None, Some ''gemini_auto''}.
      let hits = filter (\<lambda>s. counted_signal DEFAULT_TIER_CIRCUIT_BREAKER_THRESHOLDS 10 600000 s \<and>
        failed_provider s = Gemini_cli \<and> failed_tier s = u) fs
      in 3 \<le> int (length hits) \<and> (\<exists>s \<in> set hits. real_of_int 10 < real_of_int (signal_time s) + 900000)"
    by (rule bexI [of _ "Some ''gemini_auto''"]) (simp only: Let_def hits len late simp_thms, simp)
  moreover have "\<forall>s \<in> set fs. plain_tier (failed_tier s)" "plain_tier (Some ''gemini_auto'')"
    by (simp_all add: fs_def demo_failure_def plain_tier_def NUL_def)
  moreover have "date_parse (Iso 10) = Some 10" by (simp add: valid_time_def MAX_TIME_def)
  ultimately have "isTierCircuitOpen cs Gemini_cli (Some ''gemini_auto'')"
    using circuit_open_exact [OF cs th] by blast
  with cs show ?thesis unfolding fs_def by blast
qed

lemma find_filter_Some: "List.find P (filter Q xs) = Some x \<Longrightarrow> x \<in> set xs \<and> P x \<and> Q x"
  by (auto dest!: find_SomeD)

text \<open>What the code checks of a step to a provider. Its target tier is the tier the step names, otherwise the active
  tier of the provider's budget. The circuit of the target tier is closed; a tier that the step names is confirmed
  locally in the provider's budget; a step that names none only asks that the active tier is not listed as unverified;
  and the target tier is not exhausted.\<close>

definition step_guarded :: "fallback_step \<Rightarrow> reasoning_provider \<Rightarrow> session_budget list \<Rightarrow> circuit_state list \<Rightarrow> bool" where
  "step_guarded s q budgets cs \<longleftrightarrow>
     (let target = List.find (\<lambda>x. budget_provider x = q) budgets;
          tier = (case toTierId s of Some t \<Rightarrow> Some t | None \<Rightarrow> Option.bind target activeTierId)
      in \<not> isTierCircuitOpen cs q tier \<and>
         (\<forall>t. toTierId s = Some t \<longrightarrow> (\<exists>x. target = Some x \<and> (\<exists>k \<in> set (availableTiers x). tierId k = t \<and> verifiedLocally k))) \<and>
         (\<forall>x. target = Some x \<longrightarrow>
            (\<forall>k \<in> set (availableTiers x). activeTierId x = Some (tierId k) \<longrightarrow> verifiedLocally k) \<and>
            (\<forall>t. tier = Some t \<longrightarrow> t \<noteq> [] \<longrightarrow> t \<notin> set (exhaustedTierIds x))))"

lemma valid_step_guarded:
  assumes "isValidFallbackStep s b budgets cs" and "toTarget s = ToProvider q"
  shows "step_guarded s q budgets cs"
proof -
  let ?target = "List.find (\<lambda>x. budget_provider x = q) budgets"
  have tier: "or_else (toTierId s) (case ?target of None \<Rightarrow> None | Some x \<Rightarrow> activeTierId x) =
      (case toTierId s of Some t \<Rightarrow> Some t | None \<Rightarrow> Option.bind ?target activeTierId)"
    by (simp add: or_else_def bind_split split: option.splits)
  have conf: "isFallbackTierLocallyConfirmed (ToProvider q) (toTierId s) budgets"
    and act: "\<not> (case ?target of None \<Rightarrow> False | Some x \<Rightarrow> isActiveTierExplicitlyUnverified x)"
    and closed: "\<not> isTierCircuitOpen cs q (case toTierId s of Some t \<Rightarrow> Some t | None \<Rightarrow> Option.bind ?target activeTierId)"
    and left: "\<not> (case (?target, case toTierId s of Some t \<Rightarrow> Some t | None \<Rightarrow> Option.bind ?target activeTierId) of
        (Some x, Some t) \<Rightarrow> t \<noteq> [] \<and> t \<in> set (exhaustedTierIds x) | _ \<Rightarrow> False)"
    using assms by (simp_all add: isValidFallbackStep_def tier Let_def split: if_splits)
  have "\<exists>x. ?target = Some x \<and> (\<exists>k \<in> set (availableTiers x). tierId k = t \<and> verifiedLocally k)" if "toTierId s = Some t" for t
    using conf that by (auto simp: isFallbackTierLocallyConfirmed_def list_ex_iff split: option.splits)
  moreover have "verifiedLocally k" if "?target = Some x" "k \<in> set (availableTiers x)" "activeTierId x = Some (tierId k)" for x k
    using act that by (auto simp: isActiveTierExplicitlyUnverified_def list_ex_iff)
  moreover have "t \<notin> set (exhaustedTierIds x)"
    if "?target = Some x" "(case toTierId s of Some t \<Rightarrow> Some t | None \<Rightarrow> Option.bind ?target activeTierId) = Some t" "t \<noteq> []" for x t
    using left that by auto
  ultimately show ?thesis using closed by (simp add: step_guarded_def Let_def)
qed

text \<open>C36: The subscription fallback chain leads only where its guards allow. Gemini falls back to its flash tier alone,
  and only when that tier is confirmed locally, is not exhausted and has a closed circuit; GPT falls back when it is rate
  limited to the local Qwen worker with a checkpoint and names no tier, so no confirmation is asked: the circuit of
  Qwen's active tier is closed, and the tier is neither exhausted nor listed as unverified; a hand-over to the owner
  always asks for the owner's approval and never happens for Gemini; everything else is a stop. No answer at all means
  that the chain has no step for the trigger, and without failure signals the resolution never throws.\<close>

theorem fallback_is_guarded:
  assumes "fo_chain opts = None"
  shows "(case resolveFallback collate trigger p b opts of
      Inl _ \<Rightarrow> fo_recentFailureSignals opts \<noteq> None \<and> fo_recentFailureSignals opts \<noteq> Some []
    | Inr None \<Rightarrow> \<forall>s \<in> set subscriptionFallbackChains. fb_trigger s = trigger \<longrightarrow> fromProvider s = p \<longrightarrow>
        fromTierId s \<noteq> None \<and> fromTierId s \<noteq> activeTierId b
    | Inr (Some s) \<Rightarrow> fromProvider s = p \<and>
       (case toTarget s of
          ToProvider q \<Rightarrow>
            (\<exists>cs. resolveCircuitStates collate opts = Inr cs \<and>
               step_guarded s q (case fo_budgets opts of None \<Rightarrow> [b] | Some bs \<Rightarrow> bs) cs) \<and>
            (p = Gemini_cli \<and> q = Gemini_cli \<and> toTierId s = Some ''gemini_flash'' \<and> activeTierId b = Some ''gemini_auto'' \<or>
             p = Openai_gpt \<and> q = Qwen_local \<and> toTierId s = None \<and> trigger = OnRateLimited \<and> requiresCheckpoint s)
        | OwnerDecision \<Rightarrow> requiresOwnerApproval s \<and> p \<in> {Openai_gpt, Anthropic_claude_subscription}
        | Blocked \<Rightarrow> \<not> requiresOwnerApproval s))"
proof (cases "resolveCircuitStates collate opts")
  case (Inl e)
  then show ?thesis
    using assms by (auto simp: resolveFallback_def resolveCircuitStates_def Let_def split: option.splits if_splits)
next
  case (Inr cs)
  let ?budgets = "case fo_budgets opts of None \<Rightarrow> [b] | Some bs \<Rightarrow> bs"
  show ?thesis
  proof (cases "p = Gemini_cli \<and> allVerifiedTiersExhaustedOrOpen b cs")
    case True
    with Inr assms show ?thesis
      by (simp add: resolveFallback_def subscriptionFallbackChains_def)
  next
    case False
    let ?m = "filter (\<lambda>s. fb_trigger s = trigger \<and> fromProvider s = p \<and>
        \<not> (truthy (fromTierId s) \<and> fromTierId s \<noteq> activeTierId b)) subscriptionFallbackChains"
    show ?thesis
    proof (cases "List.find (\<lambda>s. isValidFallbackStep s b ?budgets cs) ?m")
      case None
      have r: "resolveFallback collate trigger p b opts = (if length ?m > 0
          then Inr (Some (buildBlockedFallbackStep trigger p (activeTierId b)
            ''No valid fallback candidate remains after self-route, verified-tier, and circuit-breaker guards.''))
          else Inr None)"
        by (simp only: resolveFallback_def Let_def assms option.case Inr bind_result_simps if_not_P [OF False] None)
      show ?thesis
      proof (cases "?m = []")
        case True
        then have "fromTierId s \<noteq> None \<and> fromTierId s \<noteq> activeTierId b"
          if "s \<in> set subscriptionFallbackChains" "fb_trigger s = trigger" "fromProvider s = p" for s
          using that by (auto simp: filter_empty_conv truthy_def split: option.splits)
        with True r show ?thesis by simp
      qed (simp add: r buildBlockedFallbackStep_def)
    next
      case (Some s)
      then have s: "s \<in> set subscriptionFallbackChains" "isValidFallbackStep s b ?budgets cs"
        "fb_trigger s = trigger" "fromProvider s = p" "\<not> (truthy (fromTierId s) \<and> fromTierId s \<noteq> activeTierId b)"
        by (auto dest!: find_filter_Some)
      have r: "resolveFallback collate trigger p b opts = Inr (Some s)"
        by (simp only: resolveFallback_def Let_def assms option.case Inr bind_result_simps if_not_P [OF False] Some)
      have "\<exists>cs. resolveCircuitStates collate opts = Inr cs \<and> step_guarded s q ?budgets cs" if "toTarget s = ToProvider q" for q
        using Inr valid_step_guarded [OF s(2) that] by blast
      with s(1,3-5) show ?thesis
        by (auto simp: r subscriptionFallbackChains_def truthy_def)
    qed
  qed
qed

definition demo_budget :: session_budget where
  "demo_budget = \<lparr>budget_provider = Gemini_cli, activeTierId = Some ''gemini_auto'', activeTierRateLimitState = RateLimited,
     rateLimitHitAt = None, lastAttemptedAt = None,
     availableTiers = map (\<lambda>t. t\<lparr>verifiedLocally := True\<rparr>) geminiKnownTiers, exhaustedTierIds = [],
     sessionTaskCount = Finite 0, sessionInputTokens = Finite 0, sessionOutputTokens = Finite 0,
     sessionTotalTokens = Finite 0, sessionCallCount = Finite 0, lastSuccessfulTaskAt = None\<rparr>"

lemma fallback_is_guarded_witness:
  "\<exists>s. resolveFallback (\<lambda>_ _. 0) OnRateLimited Gemini_cli demo_budget
       \<lparr>fo_chain = None, fo_budgets = None, fo_recentFailureSignals = None, fo_thresholds = None, fo_now = None\<rparr> =
     Inr (Some s) \<and> fromProvider s = Gemini_cli"
  using fallback_is_guarded [of "\<lparr>fo_chain = None, fo_budgets = None, fo_recentFailureSignals = None,
      fo_thresholds = None, fo_now = None\<rparr>", where collate = "\<lambda>_ _. 0" and trigger = OnRateLimited
      and p = Gemini_cli and b = demo_budget]
  by (simp add: resolveFallback_def resolveCircuitStates_def allVerifiedTiersExhaustedOrOpen_def demo_budget_def
      geminiKnownTiers_def unverified_tier_def isVerifiedTierExhaustedOrOpen_def subscriptionFallbackChains_def Let_def
      isTierCircuitOpen_def isValidFallbackStep_def isSelfFallbackRoute_def isFallbackTierLocallyConfirmed_def or_else_def
      truthy_def isActiveTierExplicitlyUnverified_def split: option.splits)

end
