(* ===== verification/JsText.thy ===== *)
theory JsText
  imports JsPrelude
begin

text \<open>
  The text matching that the decision mesh (\<^verbatim>\<open>src/lib/decision-mesh/query.ts\<close>) and the capability catalog
  (\<^verbatim>\<open>src/data/delivery-system/capabilities.ts\<close>, word for word the same functions) decide relevance by: a task
  and a term in lower case with \<open>_\<close> and \<open>-\<close> as spaces; a term of several words occurs as text, a single word as
  one of the words of the task. Characters are those below 256.
\<close>

text \<open>\<open>toLowerCase\<close> on the characters below 256.\<close>

definition js_lower :: "char \<Rightarrow> char" where
  "js_lower c = (let n = of_char c :: nat in
     if 65 \<le> n \<and> n \<le> 90 \<or> 192 \<le> n \<and> n \<le> 222 \<and> n \<noteq> 215 then char_of (n + 32) else c)"

text \<open>The same on the bits of a character, for evaluation.\<close>

lemma js_lower_code [code]:
  "js_lower (Char b0 b1 b2 b3 b4 b5 b6 b7) =
     (if b6 \<and> \<not> b5 \<and> (if b7 then \<not> (b4 \<and> b2 \<and> b1 \<and> b0)
                     else (b0 \<or> b1 \<or> b2 \<or> b3 \<or> b4) \<and> \<not> (b4 \<and> b3 \<and> (b2 \<or> b1 \<and> b0)))
      then Char b0 b1 b2 b3 b4 True b6 b7 else Char b0 b1 b2 b3 b4 b5 b6 b7)"
  by (cases b0; cases b1; cases b2; cases b3; cases b4; cases b5; cases b6; cases b7)
    (simp_all add: js_lower_def Let_def char_of_def bit_iff_odd)

definition normalize :: "string \<Rightarrow> string" where
  "normalize s = map (\<lambda>c. if js_lower c = CHR ''_'' \<or> js_lower c = CHR ''-'' then CHR '' '' else js_lower c) s"

text \<open>\<open>split(/\s+/)\<close>: maximal runs of white space separate, so the first or last piece may be empty.\<close>

fun split_spaces :: "string \<Rightarrow> string list" where
  "split_spaces [] = [[]]"
| "split_spaces (c # s) =
     (if js_space c then
        (case s of d # t \<Rightarrow> if js_space d then split_spaces s else [] # split_spaces s | [] \<Rightarrow> [[], []])
      else (case split_spaces s of w # ws \<Rightarrow> (c # w) # ws | [] \<Rightarrow> [[c]]))"

fun split_char :: "char \<Rightarrow> string \<Rightarrow> string list" where
  "split_char d [] = [[]]"
| "split_char d (c # s) =
     (if c = d then [] # split_char d s
      else (case split_char d s of w # ws \<Rightarrow> (c # w) # ws | [] \<Rightarrow> [[c]]))"

text \<open>\<open>String.prototype.includes\<close>.\<close>

fun js_includes :: "string \<Rightarrow> string \<Rightarrow> bool" where
  "js_includes [] t \<longleftrightarrow> t = []"
| "js_includes (c # s) t \<longleftrightarrow> take (length t) (c # s) = t \<or> js_includes s t"

definition containsTerm :: "string \<Rightarrow> string \<Rightarrow> bool" where
  "containsTerm normalizedTask term' =
     (let normalizedTerm = normalize term' in
      if CHR '' '' \<in> set normalizedTerm then js_includes normalizedTask normalizedTerm
      else normalizedTerm \<in> set (split_spaces normalizedTask))"

text \<open>\<open>join\<close>, and the looser test of the policies: some term occurs as text.\<close>

fun js_join :: "'a list \<Rightarrow> 'a list list \<Rightarrow> 'a list" where
  "js_join sep [] = []"
| "js_join sep [s] = s"
| "js_join sep (s # t # ss) = s @ sep @ js_join sep (t # ss)"

definition hasAny :: "string \<Rightarrow> string list \<Rightarrow> bool" where
  "hasAny normalizedTask terms \<longleftrightarrow> list_ex (\<lambda>t. js_includes normalizedTask (normalize t)) terms"

end
