(* ===== verification/Capabilities.thy ===== *)
theory Capabilities
  imports JsText
begin

text \<open>
  \<^verbatim>\<open>src/data/delivery-system/capabilities.ts\<close>: the catalog of capability modules, the routing rules that
  activate them for a task, and the selection.
\<close>

section \<open>Data\<close>

datatype capability_module_id = Web_build | Optimization | Data_mesh | Seo | Automation | Recovery
  | Observability | Document_mesh | Bot_rag | Three_d_addon

datatype capability_positioning = Primary_service | Supporting_service | Premium_addon

record capability_module =
  module_id :: capability_module_id
  module_title :: string
  module_positioning :: capability_positioning
  useFor :: "string list"
  module_signals :: "string list"
  requiredAgents :: "string list"
  requiredChecks :: "string list"
  avoidWhen :: "string list option"

record capability_routing_rule =
  routing_rule_id :: string
  rule_signals :: "string list"
  activate :: "capability_module_id list"
  optional_modules :: "capability_module_id list option"
  avoid_modules :: "capability_module_id list option"
  rule_reason :: string

record capability_selection =
  selection_task :: string
  sel_activate :: "capability_module_id list"
  sel_optional :: "capability_module_id list"
  sel_avoid :: "capability_module_id list"
  sel_agents :: "string list"
  sel_checks :: "string list"
  sel_reason :: "string list"

section \<open>Catalog\<close>

fun capability_id :: "capability_module_id \<Rightarrow> string" where
  "capability_id Web_build = ''web_build_mesh''"
| "capability_id Optimization = ''optimization_mesh''"
| "capability_id Data_mesh = ''data_mesh''"
| "capability_id Seo = ''seo_mesh''"
| "capability_id Automation = ''automation_mesh''"
| "capability_id Recovery = ''recovery_mesh''"
| "capability_id Observability = ''observability_mesh''"
| "capability_id Document_mesh = ''document_mesh''"
| "capability_id Bot_rag = ''bot_rag_mesh''"
| "capability_id Three_d_addon = ''three_d_experience_addon''"

definition capabilityModules :: "capability_module list" where
  "capabilityModules =
     [\<lparr>module_id = Web_build, module_title = ''Web Build Mesh'', module_positioning = Primary_service,
       useFor = [''landing_page'', ''company_website'', ''portfolio'', ''web_application'', ''client_portal'',
         ''admin_panel''],
       module_signals = [''website'', ''landing'', ''web app'', ''frontend'', ''company website'', ''portfolio'',
         ''portal'', ''admin''],
       requiredAgents = [''web_architect'', ''frontend'', ''seo_performance'', ''qa''],
       requiredChecks = [''responsive_check'', ''accessibility_check'', ''seo_metadata_check'', ''speed_check'',
         ''mobile_check''],
       avoidWhen = None\<rparr>,
      \<lparr>module_id = Optimization, module_title = ''Optimization Mesh'', module_positioning = Primary_service,
       useFor = [''page_speed'', ''core_web_vitals'', ''conversion_path'', ''ux_friction'',
         ''database_bottlenecks''],
       module_signals = [''slow'', ''performance'', ''optimize'', ''core web vitals'', ''conversion'',
         ''ux friction'', ''caching'', ''bottleneck''],
       requiredAgents = [''seo_performance'', ''frontend'', ''backend_database'', ''qa''],
       requiredChecks = [''baseline_metric'', ''target_metric'', ''backup'', ''rollback_plan'',
         ''performance_check''],
       avoidWhen = None\<rparr>,
      \<lparr>module_id = Data_mesh, module_title = ''Data Mesh'', module_positioning = Primary_service,
       useFor = [''database_design'', ''data_cleaning'', ''migration'', ''csv_xlsx_processing'', ''reports'',
         ''dashboards''],
       module_signals = [''data'', ''database'', ''csv'', ''xlsx'', ''migration'', ''duplicate'', ''schema'',
         ''report''],
       requiredAgents = [''data_processing'', ''backend_database'', ''qa''],
       requiredChecks = [''preserve_original'', ''infer_schema'', ''validate_data'', ''transformation_log'',
         ''backup''],
       avoidWhen = None\<rparr>,
      \<lparr>module_id = Seo, module_title = ''SEO Mesh'', module_positioning = Primary_service,
       useFor = [''technical_audit'', ''content_structure'', ''migration_recovery'', ''local_business'',
         ''ecommerce_categories''],
       module_signals = [''seo'', ''index'', ''metadata'', ''canonical'', ''sitemap'', ''schema'',
         ''broken links'', ''local seo''],
       requiredAgents = [''seo_performance'', ''frontend'', ''content'', ''qa''],
       requiredChecks = [''titles'', ''descriptions'', ''headings'', ''canonical'', ''robots'', ''sitemap'',
         ''indexability''],
       avoidWhen = None\<rparr>,
      \<lparr>module_id = Automation, module_title = ''Automation Mesh'', module_positioning = Primary_service,
       useFor = [''email_automation'', ''form_to_database'', ''crm_sync'', ''api_integrations'',
         ''notifications'', ''reporting''],
       module_signals = [''automation'', ''workflow'', ''crm'', ''google sheets'', ''api integration'',
         ''notifications'', ''scraping'', ''monitoring''],
       requiredAgents = [''automation'', ''backend_database'', ''qa''],
       requiredChecks = [''process_mapping'', ''retry_policy'', ''error_logging'', ''manual_override'',
         ''test_data''],
       avoidWhen = None\<rparr>,
      \<lparr>module_id = Recovery, module_title = ''Recovery Mesh'', module_positioning = Primary_service,
       useFor = [''broken_website'', ''hacked_website'', ''failed_migration'', ''seo_drop'', ''plugin_conflict''],
       module_signals = [''recovery'', ''rescue'', ''broken website'', ''hacked'', ''failed migration'',
         ''lost content'', ''seo drop'', ''wordpress''],
       requiredAgents = [''qa_recovery'', ''security'', ''seo_performance'', ''backend_database''],
       requiredChecks = [''backup_current_state'', ''validate_backup_before_rotation'',
         ''verify_runtime_write_boundary'', ''identify_platform'', ''crawl_current_site'',
         ''scan_basic_security''],
       avoidWhen = None\<rparr>,
      \<lparr>module_id = Observability, module_title = ''Observability Mesh'', module_positioning = Supporting_service,
       useFor = [''runtime_logs'', ''diagnostics'', ''bottleneck_localization'', ''error_triage'',
         ''performance_tracing'', ''incident_evidence''],
       module_signals = [''log'', ''logs'', ''logging'', ''runtime logs'', ''observability'', ''diagnostic'',
         ''diagnostics'', ''trace'', ''tracing'', ''error'', ''bottleneck'', ''bottlenecks'', ''problem'',
         ''problems'', ''monitoring'', ''incident'', ''request id'', ''deploy log'', ''ci log'',
         ''runtime log'', ''control plane'', ''advisory model run'', ''provider run'', ''runner log'',
         ''cli error'', ''cli syntax error'', ''missing model output'', ''no model output'', ''prompt only''],
       requiredAgents = [''architect'', ''qa'', ''frontend'', ''backend_database'', ''seo_performance'',
         ''security''],
       requiredChecks = [''problem_scope_classified'', ''autopilot_vs_project_boundary'',
         ''project_slug_or_control_plane_identified'', ''provider_run_status_recorded'',
         ''runner_artifact_contract_verified'', ''model_output_presence_verified'', ''log_window_defined'',
         ''source_inventory'', ''redacted_log_summary'', ''correlation_id_or_fallback'', ''baseline_metric'',
         ''suspect_layer_identified'', ''reproduction_or_counterexample'', ''fix_verification''],
       avoidWhen = None\<rparr>,
      \<lparr>module_id = Document_mesh, module_title = ''Document Mesh'', module_positioning = Supporting_service,
       useFor = [''document_reconstruction'', ''pdf_extraction'', ''ocr'', ''information_cleanup'',
         ''structured_export''],
       module_signals = [''document'', ''pdf'', ''ocr'', ''scan'', ''reconstruction'', ''extract'', ''digitize''],
       requiredAgents = [''data_processing'', ''qa''],
       requiredChecks = [''preserve_original'', ''mark_uncertain_values'', ''validate_extraction'',
         ''export_review''],
       avoidWhen = None\<rparr>,
      \<lparr>module_id = Bot_rag, module_title = ''Bot / RAG Mesh'', module_positioning = Supporting_service,
       useFor = [''knowledge_base'', ''faq_bot'', ''internal_assistant'', ''rag'', ''document_bot''],
       module_signals = [''bot'', ''rag'', ''knowledge base'', ''faq'', ''assistant'', ''retrieval'', ''chat''],
       requiredAgents = [''automation'', ''data_processing'', ''security'', ''qa''],
       requiredChecks = [''source_grounding'', ''private_data_boundary'', ''fallback_to_human'', ''answer_policy''],
       avoidWhen = None\<rparr>,
      \<lparr>module_id = Three_d_addon, module_title = ''3D Experience Add-on'', module_positioning = Premium_addon,
       useFor = [''premium_landing_page'', ''product_storytelling'', ''interactive_visualization'',
         ''scroll_story''],
       module_signals = [''3d'', ''webgl'', ''r3f'', ''three'', ''animation'', ''product reveal'',
         ''scroll storytelling'', ''interactive visual''],
       requiredAgents = [''design_ux'', ''frontend'', ''seo_performance'', ''qa''],
       requiredChecks = [''performance_budget'', ''mobile_fallback'', ''reduced_motion_support'',
         ''seo_content_outside_canvas''],
       avoidWhen = Some [''seo_content_page'', ''low_budget_website'', ''performance_is_primary_problem'',
         ''mobile_first_simple_site'', ''client_needs_easy_cms_editing'']\<rparr>]"

definition capabilityRoutingRules :: "capability_routing_rule list" where
  "capabilityRoutingRules =
     [\<lparr>routing_rule_id = ''observability_diagnostics'',
       rule_signals = [''log'', ''logs'', ''runtime logs'', ''logging'', ''observability'', ''diagnostic'',
         ''diagnostics'', ''trace'', ''tracing'', ''error'', ''bottleneck'', ''bottlenecks'', ''problem'',
         ''problems'', ''monitoring'', ''incident'', ''advisory model run'', ''provider run'', ''runner log'',
         ''cli error'', ''cli syntax error'', ''missing model output'', ''no model output'', ''prompt only''],
       activate = [Observability], optional_modules = Some [Optimization, Recovery, Automation, Data_mesh],
       avoid_modules = Some [Three_d_addon],
       rule_reason = ''Classify Autopilot-vs-project ownership first, then inspect redacted evidence for the narrowest failing layer.''\<rparr>,
      \<lparr>routing_rule_id = ''slow_website'',
       rule_signals = [''slow'', ''performance'', ''core web vitals'', ''broken links'', ''seo issues'',
         ''optimize''],
       activate = [Optimization, Seo], optional_modules = Some [Data_mesh],
       avoid_modules = Some [Three_d_addon],
       rule_reason = ''Measure first, then optimize against a target metric.''\<rparr>,
      \<lparr>routing_rule_id = ''new_business_website'',
       rule_signals = [''new website'', ''landing page'', ''company website'', ''portfolio'', ''web app''],
       activate = [Web_build, Seo], optional_modules = Some [Automation, Three_d_addon],
       avoid_modules = None,
       rule_reason = ''New web surfaces need content structure, SEO basics, responsive UX, and deployment gates.''\<rparr>,
      \<lparr>routing_rule_id = ''data_cleanup'',
       rule_signals = [''data'', ''database'', ''csv'', ''xlsx'', ''migration'', ''duplicate'', ''schema''],
       activate = [Data_mesh], optional_modules = Some [Document_mesh],
       avoid_modules = Some [Three_d_addon],
       rule_reason = ''Data work must preserve originals, infer schema, validate transforms, and keep a change log.''\<rparr>,
      \<lparr>routing_rule_id = ''automation_workflow'',
       rule_signals = [''automation'', ''workflow'', ''crm'', ''google sheets'', ''api integration'',
         ''notifications''],
       activate = [Automation], optional_modules = Some [Data_mesh, Bot_rag],
       avoid_modules = None,
       rule_reason = ''Automation work needs mapped inputs, outputs, failure points, logging, alerts, and manual override.''\<rparr>,
      \<lparr>routing_rule_id = ''website_rescue'',
       rule_signals = [''recovery'', ''rescue'', ''broken website'', ''hacked'', ''failed migration'',
         ''lost content'', ''seo drop''],
       activate = [Recovery, Optimization, Seo], optional_modules = None,
       avoid_modules = Some [Three_d_addon],
       rule_reason = ''Recovery starts with backup, diagnosis, platform checks, crawl, and risk-first repair planning.''\<rparr>,
      \<lparr>routing_rule_id = ''knowledge_bot'',
       rule_signals = [''bot'', ''rag'', ''knowledge base'', ''faq'', ''assistant'', ''retrieval''],
       activate = [Bot_rag, Data_mesh], optional_modules = Some [Automation],
       avoid_modules = None,
       rule_reason = ''Knowledge bots need grounded sources, answer policy, privacy boundaries, and escalation.''\<rparr>,
      \<lparr>routing_rule_id = ''document_reconstruction'',
       rule_signals = [''document'', ''pdf'', ''ocr'', ''scan'', ''reconstruction'', ''extract'', ''digitize''],
       activate = [Document_mesh, Data_mesh], optional_modules = None,
       avoid_modules = None,
       rule_reason = ''Document reconstruction must preserve originals and mark uncertain extraction results.''\<rparr>,
      \<lparr>routing_rule_id = ''premium_3d_experience'',
       rule_signals = [''3d'', ''webgl'', ''r3f'', ''animation'', ''product reveal'', ''scroll storytelling''],
       activate = [Web_build, Three_d_addon], optional_modules = Some [Optimization],
       avoid_modules = None,
       rule_reason = ''3D is useful only when it explains product, process, data, or system state.''\<rparr>]"

section \<open>Selection\<close>

definition requireCapabilityModule :: "capability_module_id \<Rightarrow> js_error + capability_module" where
  "requireCapabilityModule i = (case List.find (\<lambda>m. module_id m = i) capabilityModules of
      None \<Rightarrow> Inl (Error (''Capability module not found: '' @ capability_id i)) | Some m \<Rightarrow> Inr m)"

definition matched_rules :: "string \<Rightarrow> capability_routing_rule list" where
  "matched_rules task = filter (\<lambda>r. list_ex (containsTerm (normalize task)) (rule_signals r)) capabilityRoutingRules"

definition selectCapabilityModules :: "string \<Rightarrow> js_error + capability_selection" where
  "selectCapabilityModules task =
     (let rules = matched_rules task in
      if length rules = 0 then
        Inr \<lparr>selection_task = task, sel_activate = [], sel_optional = [], sel_avoid = [], sel_agents = [], sel_checks = [],
          sel_reason = [''No capability signals matched. Return a neutral routing result and ask for bounded context if implementation cannot continue.'']\<rparr>
      else
        let active = js_unique (concat (map activate rules)) in
        bind_result (map_result requireCapabilityModule active) (\<lambda>activeModules.
          Inr \<lparr>selection_task = task, sel_activate = active,
            sel_optional = js_unique (concat (map (\<lambda>r. case optional_modules r of None \<Rightarrow> [] | Some ms \<Rightarrow> ms) rules)),
            sel_avoid = js_unique (concat (map (\<lambda>r. case avoid_modules r of None \<Rightarrow> [] | Some ms \<Rightarrow> ms) rules)),
            sel_agents = js_unique (concat (map requiredAgents activeModules)),
            sel_checks = js_unique (concat (map requiredChecks activeModules)),
            sel_reason = js_unique (map rule_reason rules)\<rparr>))"

end
