(* ===== verification/DecisionMesh.thy ===== *)
theory DecisionMesh
  imports JsJson Routing Capabilities "HOL-Library.Char_ord" "HOL-Library.List_Lexorder"
begin

text \<open>
  The decision mesh: \<^verbatim>\<open>src/lib/decision-mesh/types.ts\<close> (nodes, edges and rules), \<^verbatim>\<open>query.ts\<close> (which part
  of the mesh governs a task, and the packet an agent gets), \<^verbatim>\<open>graph.ts\<close> (its picture) and
  \<^verbatim>\<open>capabilityMirror.ts\<close> (its comparison with the capability catalog); the loader is in \<open>MeshLoad\<close>.

  \<open>collate\<close> is the host's collation of \<open>localeCompare\<close>. Scores and weights are finite numbers. An optional
  field is an \<open>option\<close>; the limits on the number of nodes are the numbers of the code, \<open>NaN\<close> included.
\<close>

section \<open>Data\<close>

record mesh_node =
  node_id :: string
  node_type :: string
  node_name :: string
  node_question :: string
  node_why :: string
  node_signals :: "string list"
  related_agents :: "string list"
  related_files :: "string list"
  node_required_checks :: "string list"
  node_stop_conditions :: "string list option"
  node_must_not_assume :: "string list option"
  node_objective :: "string list option"
  node_failure_modes :: "string list option"

record mesh_edge =
  edge_from :: string
  edge_to :: string
  edge_relation :: string
  edge_weight :: real
  edge_why :: string

datatype rule_severity = Blocker_rule | Major_rule | Minor_rule | Note_rule

record mesh_rule =
  rule_id :: string
  rule_title :: string
  applies_to :: "string list"
  rule_instruction :: string
  rule_severity :: rule_severity
  rule_must_not_assume :: "string list option"

record decision_mesh =
  mesh_nodes :: "mesh_node list"
  mesh_edges :: "mesh_edge list"
  mesh_rules :: "mesh_rule list"

record subgraph_input =
  sub_task :: string
  sub_agent :: "string option"
  sub_max_nodes :: "js_number option"

record full_subgraph =
  full_task :: string
  full_agent :: "string option"
  full_nodes :: "mesh_node list"
  full_edges :: "mesh_edge list"
  full_agents :: "string list"
  node_scores :: "(string \<times> real) list"

record node_reference =
  ref_id :: string
  ref_name :: string
  ref_score :: real

record relevant_subgraph =
  rel_task :: string
  rel_agent :: "string option"
  rel_nodes :: "node_reference list"
  rel_edges :: "mesh_edge list"
  rel_agents :: "string list"

record agent_packet_input =
  ap_task :: string
  ap_agent :: string
  ap_token_budget :: "js_number option"
  ap_mode :: "routing_mode option"

record agent_packet =
  packet_agent :: string
  packet_task :: string
  packet_routing_mode :: "routing_mode option"
  packet_objective :: "string list"
  packet_rules :: "string list"
  packet_nodes :: "string list"
  packet_required_agents :: "string list"
  packet_must_read :: "string list"
  packet_must_not_assume :: "string list"
  packet_required_checks :: "string list"
  packet_stop_conditions :: "string list"
  no_governance_matched :: bool

section \<open>Numbers of the queries\<close>

text \<open>\<open>Math.min\<close>, \<open>Math.max\<close>, \<open>Math.floor\<close> and comparisons, where \<open>NaN\<close> wins or compares false.\<close>

fun js_less_eq :: "js_number \<Rightarrow> js_number \<Rightarrow> bool" where
  "js_less_eq NotANumber y \<longleftrightarrow> False"
| "js_less_eq x NotANumber \<longleftrightarrow> False"
| "js_less_eq NegInfinity y \<longleftrightarrow> True"
| "js_less_eq x PosInfinity \<longleftrightarrow> True"
| "js_less_eq (Finite a) (Finite b) \<longleftrightarrow> a \<le> b"
| "js_less_eq x y \<longleftrightarrow> False"

definition js_min :: "js_number \<Rightarrow> js_number \<Rightarrow> js_number" where
  "js_min x y = (if x = NotANumber \<or> y = NotANumber then NotANumber else if js_less_eq x y then x else y)"

definition js_max :: "js_number \<Rightarrow> js_number \<Rightarrow> js_number" where
  "js_max x y = (if x = NotANumber \<or> y = NotANumber then NotANumber else if js_less_eq x y then y else x)"

fun js_floor_div :: "js_number \<Rightarrow> real \<Rightarrow> js_number" where
  "js_floor_div (Finite x) d = Finite (of_int \<lfloor>x / d\<rfloor>)"
| "js_floor_div x d = x"

text \<open>\<open>n < limit\<close> and \<open>n >= limit\<close> for a length \<open>n\<close>.\<close>

fun below :: "nat \<Rightarrow> js_number \<Rightarrow> bool" where
  "below n (Finite m) \<longleftrightarrow> real n < m"
| "below n PosInfinity \<longleftrightarrow> True"
| "below n NegInfinity \<longleftrightarrow> False"
| "below n NotANumber \<longleftrightarrow> False"

fun reached :: "nat \<Rightarrow> js_number \<Rightarrow> bool" where
  "reached n (Finite m) \<longleftrightarrow> real n \<ge> m"
| "reached n PosInfinity \<longleftrightarrow> False"
| "reached n NegInfinity \<longleftrightarrow> True"
| "reached n NotANumber \<longleftrightarrow> False"

definition js_compare :: "real \<Rightarrow> real \<Rightarrow> int" where
  "js_compare a b = (if a < b then - 1 else if a > b then 1 else 0)"

definition or_empty :: "'a list option \<Rightarrow> 'a list" where
  "or_empty xs = (case xs of None \<Rightarrow> [] | Some ys \<Rightarrow> ys)"

section \<open>Scoring\<close>

definition DEFAULT_MAX_NODES :: real where "DEFAULT_MAX_NODES = 12"
definition AGENT_PACKET_MAX_NODES :: real where "AGENT_PACKET_MAX_NODES = 7"

definition GOVERNANCE_FLOOR_NODE_IDS :: "string list" where
  "GOVERNANCE_FLOOR_NODE_IDS = [''capability_routing'', ''context_economy_policy'']"

definition AGENT_ORDER :: "string list" where
  "AGENT_ORDER = [''architect'', ''web_architect'', ''backend'', ''backend_database'', ''frontend'',
     ''seo_performance'', ''data_processing'', ''automation'', ''design_ux'', ''security'', ''business'',
     ''qa'', ''qa_recovery'', ''content'']"

definition scoreNode :: "mesh_node \<Rightarrow> string \<Rightarrow> string option \<Rightarrow> real" where
  "scoreNode node task agent =
     (let normalizedTask = normalize task;
          s1 = 4 * real (length (filter (containsTerm normalizedTask) (node_signals node)));
          terms = split_char (CHR ''_'') (node_id node) @ split_spaces (node_name node) @ [node_type node];
          s2 = s1 + real (length (filter (\<lambda>t. length t > 2 \<and> containsTerm normalizedTask t) terms))
      in if s2 > 0 \<and> truthy agent \<and> the agent \<in> set (related_agents node) then s2 + 1/2 else s2)"

type_synonym scored_node = "mesh_node \<times> real"

definition compareScoredNodes :: "(string \<Rightarrow> string \<Rightarrow> int) \<Rightarrow> scored_node \<Rightarrow> scored_node \<Rightarrow> int" where
  "compareScoredNodes collate left right =
     (let c = js_compare (snd right) (snd left) in
      if c \<noteq> 0 then c else collate (node_id (fst left)) (node_id (fst right)))"

definition scored_nodes :: "(string \<Rightarrow> string \<Rightarrow> int) \<Rightarrow> decision_mesh \<Rightarrow> string \<Rightarrow> string option \<Rightarrow> scored_node list" where
  "scored_nodes collate mesh task agent =
     sort_by (compareScoredNodes collate)
       (filter (\<lambda>(n, s). s > 0) (map (\<lambda>n. (n, scoreNode n task agent)) (mesh_nodes mesh)))"

text \<open>The position of an agent in the fixed order; unknown agents come last, in the order of their names.\<close>

definition agent_rank :: "string \<Rightarrow> int" where
  "agent_rank a = (case findIndex (\<lambda>b. b = a) AGENT_ORDER of None \<Rightarrow> MAX_SAFE_INTEGER | Some i \<Rightarrow> int i)"

definition orderAgents :: "(string \<Rightarrow> string \<Rightarrow> int) \<Rightarrow> string list \<Rightarrow> string list" where
  "orderAgents collate agents =
     sort_by (\<lambda>l r. if agent_rank l \<noteq> agent_rank r then agent_rank l - agent_rank r else collate l r)
       (js_unique agents)"

section \<open>Choosing nodes\<close>

definition requireNode :: "decision_mesh \<Rightarrow> string \<Rightarrow> js_error + mesh_node" where
  "requireNode mesh i = (case List.find (\<lambda>n. node_id n = i) (mesh_nodes mesh) of
      None \<Rightarrow> Inl (Error (''Decision Mesh node not found: '' @ i)) | Some n \<Rightarrow> Inr n)"

definition addId :: "string list \<Rightarrow> string \<Rightarrow> js_number \<Rightarrow> string list" where
  "addId selectedIds i maxNodes =
     (if below (length selectedIds) maxNodes \<and> i \<notin> set selectedIds then selectedIds @ [i] else selectedIds)"

text \<open>The loop that adds ids one by one and ends as soon as the limit is reached.\<close>

fun add_ids :: "js_number \<Rightarrow> string list \<Rightarrow> string list \<Rightarrow> string list" where
  "add_ids maxNodes [] selectedIds = selectedIds"
| "add_ids maxNodes (i # is) selectedIds =
     (let ids = addId selectedIds i maxNodes in
      if reached (length ids) maxNodes then ids else add_ids maxNodes is ids)"

definition compare_edges :: "(string \<Rightarrow> string \<Rightarrow> int) \<Rightarrow> (mesh_edge \<Rightarrow> string) \<Rightarrow> mesh_edge \<Rightarrow> mesh_edge \<Rightarrow> int" where
  "compare_edges collate end_of left right =
     (let c = js_compare (edge_weight right) (edge_weight left) in
      if c \<noteq> 0 then c else collate (end_of left) (end_of right))"

definition outgoing_ids :: "(string \<Rightarrow> string \<Rightarrow> int) \<Rightarrow> decision_mesh \<Rightarrow> string \<Rightarrow> string list" where
  "outgoing_ids collate mesh i =
     map edge_to (sort_by (compare_edges collate edge_to) (filter (\<lambda>e. edge_from e = i) (mesh_edges mesh)))"

definition incoming_ids :: "(string \<Rightarrow> string \<Rightarrow> int) \<Rightarrow> decision_mesh \<Rightarrow> string \<Rightarrow> string list" where
  "incoming_ids collate mesh i =
     map edge_from (sort_by (compare_edges collate edge_from) (filter (\<lambda>e. edge_to e = i) (mesh_edges mesh)))"

text \<open>The first loop's \<open>return\<close> skips the second; at the limit the second would add nothing anyway.\<close>

definition addConnectedNodes ::
  "(string \<Rightarrow> string \<Rightarrow> int) \<Rightarrow> decision_mesh \<Rightarrow> js_number \<Rightarrow> string \<Rightarrow> string list \<Rightarrow> string list" where
  "addConnectedNodes collate mesh maxNodes source selectedIds =
     (let outs = outgoing_ids collate mesh source; ids = add_ids maxNodes outs selectedIds in
      if outs \<noteq> [] \<and> reached (length ids) maxNodes then ids
      else add_ids maxNodes (incoming_ids collate mesh source) ids)"

fun add_neighbours ::
  "(string \<Rightarrow> string \<Rightarrow> int) \<Rightarrow> decision_mesh \<Rightarrow> js_number \<Rightarrow> string list \<Rightarrow> string list \<Rightarrow> string list" where
  "add_neighbours collate mesh maxNodes [] selectedIds = selectedIds"
| "add_neighbours collate mesh maxNodes (i # is) selectedIds =
     (let ids = addConnectedNodes collate mesh maxNodes i selectedIds in
      if reached (length ids) maxNodes then ids else add_neighbours collate mesh maxNodes is ids)"

definition node_limit :: "decision_mesh \<Rightarrow> js_number option \<Rightarrow> js_number" where
  "node_limit mesh requested =
     js_max (Finite 1) (js_min (case requested of None \<Rightarrow> Finite DEFAULT_MAX_NODES | Some m \<Rightarrow> m)
       (Finite (real (length (mesh_nodes mesh)))))"

definition selected_ids ::
  "(string \<Rightarrow> string \<Rightarrow> int) \<Rightarrow> decision_mesh \<Rightarrow> js_number \<Rightarrow> string list \<Rightarrow> string list" where
  "selected_ids collate mesh maxNodes ranked =
     (let ids = add_ids maxNodes ranked [] in
      if below (length ids) maxNodes then add_neighbours collate mesh maxNodes ranked ids else ids)"

definition getRelevantSubgraphFull ::
  "(string \<Rightarrow> string \<Rightarrow> int) \<Rightarrow> decision_mesh \<Rightarrow> subgraph_input \<Rightarrow> js_error + full_subgraph" where
  "getRelevantSubgraphFull collate mesh input =
     (let scored = scored_nodes collate mesh (sub_task input) (sub_agent input);
          ids = selected_ids collate mesh (node_limit mesh (sub_max_nodes input)) (map (\<lambda>(n, s). node_id n) scored)
      in bind_result (map_result (requireNode mesh) ids) (\<lambda>nodes.
         Inr \<lparr>full_task = sub_task input,
              full_agent = (if truthy (sub_agent input) then sub_agent input else None),
              full_nodes = nodes,
              full_edges = filter (\<lambda>e. edge_from e \<in> set ids \<and> edge_to e \<in> set ids) (mesh_edges mesh),
              full_agents = orderAgents collate (js_unique (concat (map related_agents nodes))),
              node_scores = map (\<lambda>(n, s). (node_id n, s)) scored\<rparr>))"

text \<open>\<open>new Map(entries)\<close> keeps the last value of a key.\<close>

definition toNodeReference :: "(string \<times> real) list \<Rightarrow> mesh_node \<Rightarrow> node_reference" where
  "toNodeReference scores n =
     \<lparr>ref_id = node_id n, ref_name = node_name n,
      ref_score = (case map_of (rev scores) (node_id n) of None \<Rightarrow> 0 | Some s \<Rightarrow> s)\<rparr>"

definition getRelevantSubgraph ::
  "(string \<Rightarrow> string \<Rightarrow> int) \<Rightarrow> decision_mesh \<Rightarrow> subgraph_input \<Rightarrow> js_error + relevant_subgraph" where
  "getRelevantSubgraph collate mesh input =
     bind_result (getRelevantSubgraphFull collate mesh input) (\<lambda>sub.
       Inr \<lparr>rel_task = full_task sub, rel_agent = (if truthy (full_agent sub) then full_agent sub else None),
            rel_nodes = map (toNodeReference (node_scores sub)) (full_nodes sub),
            rel_edges = full_edges sub, rel_agents = full_agents sub\<rparr>)"

section \<open>Packets\<close>

definition blocker_node_ids :: "decision_mesh \<Rightarrow> string list" where
  "blocker_node_ids mesh = concat (map applies_to (filter (\<lambda>r. rule_severity r = Blocker_rule) (mesh_rules mesh)))"

definition withRelevantBlockerNodes ::
  "(string \<Rightarrow> string \<Rightarrow> int) \<Rightarrow> decision_mesh \<Rightarrow> mesh_node list \<Rightarrow> string \<Rightarrow> string option \<Rightarrow> js_number \<Rightarrow>
   js_error + mesh_node list" where
  "withRelevantBlockerNodes collate mesh baseNodes task agent ceilingMaxNodes =
     bind_result (getRelevantSubgraph collate mesh
         \<lparr>sub_task = task, sub_agent = (if truthy agent then agent else None), sub_max_nodes = Some ceilingMaxNodes\<rparr>)
       (\<lambda>ceiling.
         let have' = map node_id baseNodes; ceilingIds = map ref_id (rel_nodes ceiling);
             forced = filter (\<lambda>n. node_id n \<notin> set have' \<and> node_id n \<in> set (blocker_node_ids mesh) \<and>
               node_id n \<in> set ceilingIds) (mesh_nodes mesh)
         in Inr (if length forced > 0 then baseNodes @ forced else baseNodes))"

fun present :: "'a option list \<Rightarrow> 'a list" where
  "present [] = []"
| "present (None # xs) = present xs"
| "present (Some x # xs) = x # present xs"

definition applyGovernanceFloor :: "decision_mesh \<Rightarrow> mesh_node list \<Rightarrow> mesh_node list \<times> bool" where
  "applyGovernanceFloor mesh nodes =
     (if length nodes > 0 then (nodes, False)
      else (present (map (\<lambda>i. List.find (\<lambda>n. node_id n = i) (mesh_nodes mesh)) GOVERNANCE_FLOOR_NODE_IDS), True))"

definition rules_for :: "decision_mesh \<Rightarrow> mesh_node list \<Rightarrow> mesh_rule list" where
  "rules_for mesh nodes =
     filter (\<lambda>r. list_ex (\<lambda>i. i \<in> set (map node_id nodes)) (applies_to r)) (mesh_rules mesh)"

definition packet_limit :: "js_number option \<Rightarrow> js_number" where
  "packet_limit token_budget =
     js_max (Finite 4) (js_min (Finite AGENT_PACKET_MAX_NODES)
       (js_floor_div (case token_budget of None \<Rightarrow> Finite 7000 | Some b \<Rightarrow> b) 1000))"

definition agent_packet_of ::
  "(string \<Rightarrow> string \<Rightarrow> int) \<Rightarrow> agent_packet_input \<Rightarrow> routing_mode_policy option \<Rightarrow> mesh_node list \<Rightarrow> mesh_rule list \<Rightarrow>
   bool \<Rightarrow> agent_packet" where
  "agent_packet_of collate input modeContract nodes rules noGovernance =
     \<lparr>packet_agent = ap_agent input, packet_task = ap_task input, packet_routing_mode = ap_mode input,
      packet_objective = js_unique (concat (map (\<lambda>n. case node_objective n of
          None \<Rightarrow> [''Answer: '' @ node_question n] | Some os \<Rightarrow> os) nodes)),
      packet_rules = map rule_id rules, packet_nodes = map node_id nodes,
      packet_required_agents = orderAgents collate (js_unique (concat (map related_agents nodes))),
      packet_must_read = js_unique (concat (map related_files nodes)),
      packet_must_not_assume = js_unique (concat (map (\<lambda>n. or_empty (node_must_not_assume n)) nodes) @
        concat (map (\<lambda>r. or_empty (rule_must_not_assume r)) rules)),
      packet_required_checks = js_unique (concat (map node_required_checks nodes) @
        (case modeContract of None \<Rightarrow> [] | Some m \<Rightarrow> mode_requiredChecks m)),
      packet_stop_conditions = js_unique (concat (map (\<lambda>n. or_empty (node_stop_conditions n)) nodes) @
        (case modeContract of None \<Rightarrow> [] | Some m \<Rightarrow> mode_stopConditions m)),
      no_governance_matched = noGovernance\<rparr>"

definition packet_base ::
  "(string \<Rightarrow> string \<Rightarrow> int) \<Rightarrow> decision_mesh \<Rightarrow> agent_packet_input \<Rightarrow> js_error + mesh_node list" where
  "packet_base collate mesh input =
     bind_result (getRelevantSubgraphFull collate mesh
         \<lparr>sub_task = ap_task input, sub_agent = Some (ap_agent input),
          sub_max_nodes = Some (packet_limit (ap_token_budget input))\<rparr>) (\<lambda>sub.
       withRelevantBlockerNodes collate mesh (full_nodes sub) (ap_task input) (Some (ap_agent input))
         (Finite AGENT_PACKET_MAX_NODES))"

definition buildAgentPacket ::
  "(string \<Rightarrow> string \<Rightarrow> int) \<Rightarrow> decision_mesh \<Rightarrow> agent_packet_input \<Rightarrow> js_error + agent_packet" where
  "buildAgentPacket collate mesh input =
     bind_result (case ap_mode input of None \<Rightarrow> Inr None
         | Some i \<Rightarrow> bind_result (getRoutingMode i) (\<lambda>m. Inr (Some m))) (\<lambda>modeContract.
     bind_result (packet_base collate mesh input) (\<lambda>scored.
       let (nodes, noGovernance) = applyGovernanceFloor mesh scored
       in Inr (agent_packet_of collate input modeContract nodes (rules_for mesh nodes) noGovernance)))"

section \<open>Project packets and questions\<close>

record project_packet_rule =
  ppr_id :: string
  ppr_title :: string
  ppr_severity :: rule_severity
  ppr_instruction :: string
  ppr_applies_to :: "string list"
  ppr_must_not_assume :: "string list"

record project_packet_input =
  pp_slug :: string
  pp_task :: string
  pp_agent :: "string option"
  pp_max_nodes :: "js_number option"

record project_packet =
  project_slug :: string
  project_task :: string
  project_agent :: "string option"
  project_nodes :: "string list"
  project_rules :: "project_packet_rule list"
  project_required_agents :: "string list"
  project_must_read :: "string list"
  project_must_not_assume :: "string list"
  project_required_checks :: "string list"
  project_stop_conditions :: "string list"
  project_why :: "string list"
  project_no_governance :: bool

definition toProjectMeshPacketRule :: "mesh_rule \<Rightarrow> project_packet_rule" where
  "toProjectMeshPacketRule r =
     \<lparr>ppr_id = rule_id r, ppr_title = rule_title r, ppr_severity = rule_severity r,
      ppr_instruction = rule_instruction r, ppr_applies_to = applies_to r,
      ppr_must_not_assume = or_empty (rule_must_not_assume r)\<rparr>"

definition buildProjectMeshPacket ::
  "(string \<Rightarrow> string \<Rightarrow> int) \<Rightarrow> decision_mesh \<Rightarrow> project_packet_input \<Rightarrow> js_error + project_packet" where
  "buildProjectMeshPacket collate mesh input =
     (let maxNodes = (case pp_max_nodes input of None \<Rightarrow> Finite DEFAULT_MAX_NODES | Some m \<Rightarrow> m);
          agent = (if truthy (pp_agent input) then pp_agent input else None) in
      bind_result (getRelevantSubgraphFull collate mesh
          \<lparr>sub_task = pp_task input, sub_agent = agent, sub_max_nodes = Some maxNodes\<rparr>) (\<lambda>sub.
      bind_result (withRelevantBlockerNodes collate mesh (full_nodes sub) (pp_task input) (pp_agent input)
          (js_max maxNodes (Finite DEFAULT_MAX_NODES))) (\<lambda>scored.
        let (nodes, noGovernance) = applyGovernanceFloor mesh scored; rules = rules_for mesh nodes in
        Inr \<lparr>project_slug = pp_slug input, project_task = pp_task input, project_agent = agent,
             project_nodes = map node_id nodes, project_rules = map toProjectMeshPacketRule rules,
             project_required_agents = orderAgents collate (js_unique (concat (map related_agents nodes))),
             project_must_read = js_unique (concat (map related_files nodes)),
             project_must_not_assume = js_unique (concat (map (\<lambda>n. or_empty (node_must_not_assume n)) nodes) @
               concat (map (\<lambda>r. or_empty (rule_must_not_assume r)) rules)),
             project_required_checks = js_unique (concat (map node_required_checks nodes)),
             project_stop_conditions = js_unique (concat (map (\<lambda>n. or_empty (node_stop_conditions n)) nodes)),
             project_why = js_unique (map node_why nodes),
             project_no_governance = noGovernance\<rparr>)))"

definition isRiskNode :: "mesh_node \<Rightarrow> bool" where
  "isRiskNode n \<longleftrightarrow> js_includes (node_type n) ''risk''"

record node_explanation =
  expl_id :: string
  expl_type :: string
  expl_name :: string
  expl_question :: string
  expl_why :: string
  expl_agents :: "string list"
  expl_checks :: "string list"
  expl_stop_conditions :: "string list"
  connections :: "mesh_edge list"
  connected_risks :: "string list"

definition explainNode :: "(string \<Rightarrow> string \<Rightarrow> int) \<Rightarrow> decision_mesh \<Rightarrow> string \<Rightarrow> js_error + node_explanation" where
  "explainNode collate mesh i =
     bind_result (requireNode mesh i) (\<lambda>n.
       let edges = filter (\<lambda>e. edge_from e = i \<or> edge_to e = i) (mesh_edges mesh) in
       bind_result (map_result (requireNode mesh) (map (\<lambda>e. if edge_from e = i then edge_to e else edge_from e) edges))
         (\<lambda>connected.
           Inr \<lparr>expl_id = node_id n, expl_type = node_type n, expl_name = node_name n,
                expl_question = node_question n, expl_why = node_why n,
                expl_agents = orderAgents collate (related_agents n), expl_checks = node_required_checks n,
                expl_stop_conditions = or_empty (node_stop_conditions n), connections = edges,
                connected_risks = js_unique (map node_id (filter isRiskNode connected))\<rparr>))"

record required_agents_result =
  ra_task :: string
  ra_agents :: "string list"
  ra_reason :: "string list"

definition default_subgraph ::
  "(string \<Rightarrow> string \<Rightarrow> int) \<Rightarrow> decision_mesh \<Rightarrow> string \<Rightarrow> js_error + full_subgraph" where
  "default_subgraph collate mesh task = getRelevantSubgraphFull collate mesh
     \<lparr>sub_task = task, sub_agent = None, sub_max_nodes = Some (Finite DEFAULT_MAX_NODES)\<rparr>"

definition findRequiredAgents ::
  "(string \<Rightarrow> string \<Rightarrow> int) \<Rightarrow> decision_mesh \<Rightarrow> string \<Rightarrow> js_error + required_agents_result" where
  "findRequiredAgents collate mesh task =
     bind_result (default_subgraph collate mesh task) (\<lambda>sub.
       Inr \<lparr>ra_task = task, ra_agents = full_agents sub, ra_reason = js_unique (map node_why (full_nodes sub))\<rparr>)"

record risk_result =
  rr_task :: string
  rr_risks :: "node_reference list"
  rr_stop_conditions :: "string list"

definition findRisks ::
  "(string \<Rightarrow> string \<Rightarrow> int) \<Rightarrow> decision_mesh \<Rightarrow> string \<Rightarrow> js_error + risk_result" where
  "findRisks collate mesh task =
     bind_result (default_subgraph collate mesh task) (\<lambda>sub.
       let risks = filter (\<lambda>n. isRiskNode n \<or> length (or_empty (node_stop_conditions n)) > 0) (full_nodes sub) in
       Inr \<lparr>rr_task = task, rr_risks = map (toNodeReference (node_scores sub)) risks,
            rr_stop_conditions = js_unique (concat (map (\<lambda>n. or_empty (node_stop_conditions n)) risks))\<rparr>)"

section \<open>Capabilities\<close>

record mesh_capability_selection =
  mcs_task :: string
  mcs_capabilities :: "capability_module_id list"
  mcs_optional :: "capability_module_id list"
  mcs_avoided :: "capability_module_id list"
  mcs_agents :: "string list"
  mcs_checks :: "string list"
  mcs_nodes :: "string list"
  mcs_reason :: "string list"
  mcs_stop_conditions :: "string list"

text \<open>\<open>slice(0, n)\<close> with \<open>n\<close> at least one or \<open>NaN\<close>.\<close>

fun slice_to :: "js_number \<Rightarrow> 'a list \<Rightarrow> 'a list" where
  "slice_to (Finite m) xs = take (nat \<lfloor>m\<rfloor>) xs"
| "slice_to PosInfinity xs = xs"
| "slice_to _ xs = []"

definition selectCapabilities ::
  "(string \<Rightarrow> string \<Rightarrow> int) \<Rightarrow> decision_mesh \<Rightarrow> string \<Rightarrow> js_number option \<Rightarrow> js_error + mesh_capability_selection" where
  "selectCapabilities collate mesh task max_nodes =
     bind_result (selectCapabilityModules task) (\<lambda>selection.
       let nodeIds = map node_id (mesh_nodes mesh) in
       if length (sel_activate selection) = 0 then
         Inr \<lparr>mcs_task = task, mcs_capabilities = [], mcs_optional = [], mcs_avoided = [], mcs_agents = [],
              mcs_checks = [], mcs_nodes = [], mcs_reason = sel_reason selection, mcs_stop_conditions = []\<rparr>
       else
         let ids = slice_to (node_limit mesh max_nodes) (js_unique
               (filter (\<lambda>i. i \<in> set nodeIds) (map capability_id (sel_activate selection)) @
                filter (\<lambda>i. i \<in> set nodeIds) [''capability_routing'', ''context_economy_policy'', ''model_spend_policy'']))
         in bind_result (map_result (requireNode mesh) ids) (\<lambda>nodes.
           Inr \<lparr>mcs_task = task, mcs_capabilities = sel_activate selection, mcs_optional = sel_optional selection,
                mcs_avoided = sel_avoid selection, mcs_agents = orderAgents collate (sel_agents selection),
                mcs_checks = sel_checks selection, mcs_nodes = ids, mcs_reason = sel_reason selection,
                mcs_stop_conditions = js_unique (concat (map (\<lambda>n. or_empty (node_stop_conditions n)) nodes))\<rparr>))"

text \<open>The drift messages between the catalog and the mesh; \<open>sort()\<close> is by code units.\<close>

definition compareSets :: "string \<Rightarrow> string list \<Rightarrow> string list \<Rightarrow> string list" where
  "compareSets label actualValues expectedValues =
     (let actual = sort (js_unique actualValues); expected = sort (js_unique expectedValues);
          missing = filter (\<lambda>v. v \<notin> set actual) expected; extra = filter (\<lambda>v. v \<notin> set expected) actual
      in if length missing > 0 \<or> length extra > 0
         then [label @ '' drift: missing ['' @ js_join '', '' missing @ ''], extra ['' @ js_join '', '' extra @ '']'']
         else [])"

definition validateCapabilityRoutingMirror :: "decision_mesh \<Rightarrow> capability_module list \<Rightarrow> string list" where
  "validateCapabilityRoutingMirror mesh modules =
     (let yamlNodes = filter (\<lambda>n. node_type n = ''capability_module'' \<or> node_type n = ''capability_addon'') (mesh_nodes mesh)
      in compareSets ''capability ids'' (map (\<lambda>m. capability_id (module_id m)) modules) (map node_id yamlNodes) @
         concat (map (\<lambda>m. let i = capability_id (module_id m) in
           case List.find (\<lambda>n. node_id n = i) yamlNodes of
             None \<Rightarrow> []
           | Some n \<Rightarrow>
               compareSets (i @ ''.signals'') (module_signals m) (node_signals n) @
               compareSets (i @ ''.requiredAgents'') (requiredAgents m) (related_agents n) @
               compareSets (i @ ''.requiredChecks'') (requiredChecks m) (node_required_checks n)) modules))"

section \<open>The picture of the mesh\<close>

record graph_node =
  gn_id :: string
  gn_group :: string
  gn_risk :: real
  gn_label :: string

record graph_link =
  gl_source :: string
  gl_target :: string
  gl_relation :: string
  gl_weight :: real

record mesh_graph =
  graph_nodes :: "graph_node list"
  graph_links :: "graph_link list"

definition inferRisk :: "string \<Rightarrow> nat \<Rightarrow> real" where
  "inferRisk type' stopConditionCount =
     (if js_includes type' ''risk'' then 9/10 else if stopConditionCount > 0 then 7/10 else 35/100)"

definition toGraphNode :: "mesh_node \<Rightarrow> graph_node" where
  "toGraphNode n = \<lparr>gn_id = node_id n, gn_group = node_type n,
     gn_risk = inferRisk (node_type n) (length (or_empty (node_stop_conditions n))), gn_label = node_name n\<rparr>"

definition toGraphLink :: "mesh_edge \<Rightarrow> graph_link" where
  "toGraphLink e = \<lparr>gl_source = edge_from e, gl_target = edge_to e, gl_relation = edge_relation e, gl_weight = edge_weight e\<rparr>"

definition buildDecisionMeshGraph :: "decision_mesh \<Rightarrow> mesh_graph" where
  "buildDecisionMeshGraph mesh =
     \<lparr>graph_nodes = map toGraphNode (mesh_nodes mesh), graph_links = map toGraphLink (mesh_edges mesh)\<rparr>"

end
