(* ===== verification/MeshLoad.thy ===== *)
theory MeshLoad
  imports DecisionMesh
begin

text \<open>
  \<^verbatim>\<open>src/lib/decision-mesh/load.ts\<close>: where the mesh of a project is, and how it is read. Parsing YAML and the
  file system are outside the code: a file is what the YAML parser makes of it (\<open>None\<close> is \<open>undefined\<close>) or the
  error of reading it, and \<open>exists\<close> says which paths exist. Joining paths puts \<open>/\<close> between them.
\<close>

section \<open>Reading values\<close>

definition asRecord :: "json option \<Rightarrow> string \<Rightarrow> js_error + json" where
  "asRecord v label = (case v of
      Some (JObj fs) \<Rightarrow> Inr (JObj fs)
    | _ \<Rightarrow> Inl (Error (''Expected '' @ label @ '' to be an object'')))"

definition asArray :: "json option \<Rightarrow> string \<Rightarrow> js_error + json list" where
  "asArray v label = (case v of
      Some (JArr xs) \<Rightarrow> Inr xs
    | _ \<Rightarrow> Inl (Error (''Expected '' @ label @ '' to be an array'')))"

definition asString :: "json option \<Rightarrow> string \<Rightarrow> js_error + string" where
  "asString v label = (case v of
      Some (JStr s) \<Rightarrow> if js_trim s = [] then Inl (Error (''Expected '' @ label @ '' to be a non-empty string'')) else Inr s
    | _ \<Rightarrow> Inl (Error (''Expected '' @ label @ '' to be a non-empty string'')))"

definition asNumber :: "json option \<Rightarrow> string \<Rightarrow> js_error + real" where
  "asNumber v label = (case v of
      Some (JNum (Finite x)) \<Rightarrow> Inr x
    | _ \<Rightarrow> Inl (Error (''Expected '' @ label @ '' to be a finite number'')))"

definition asStringArray :: "json option \<Rightarrow> string \<Rightarrow> js_error + string list" where
  "asStringArray v label = (case v of
      Some (JArr xs) \<Rightarrow>
        if list_all (\<lambda>x. case x of JStr s \<Rightarrow> js_trim s \<noteq> [] | _ \<Rightarrow> False) xs then Inr (map string_of xs)
        else Inl (Error (''Expected '' @ label @ '' to be an array of non-empty strings''))
    | _ \<Rightarrow> Inl (Error (''Expected '' @ label @ '' to be an array of non-empty strings'')))"

definition optionalStringArray :: "json option \<Rightarrow> string \<Rightarrow> js_error + string list option" where
  "optionalStringArray v label = (case v of
      None \<Rightarrow> Inr None
    | Some _ \<Rightarrow> bind_result (asStringArray v label) (\<lambda>xs. Inr (Some xs)))"

text \<open>\<open>withOptionalArrays\<close> drops an empty array.\<close>

definition nonempty_array :: "string list option \<Rightarrow> string list option" where
  "nonempty_array xs = (case xs of Some (y # ys) \<Rightarrow> Some (y # ys) | _ \<Rightarrow> None)"

section \<open>Nodes, edges and rules\<close>

definition parseNodeFile :: "string \<Rightarrow> js_error + json option \<Rightarrow> js_error + mesh_node" where
  "parseNodeFile path file =
     bind_result file (\<lambda>doc.
     bind_result (asRecord doc path) (\<lambda>r.
     bind_result (optionalStringArray (field ''stop_conditions'' r) (path @ ''.stop_conditions'')) (\<lambda>stopConditions.
     bind_result (optionalStringArray (field ''must_not_assume'' r) (path @ ''.must_not_assume'')) (\<lambda>mustNotAssume.
     bind_result (optionalStringArray (field ''objective'' r) (path @ ''.objective'')) (\<lambda>objective.
     bind_result (optionalStringArray (field ''failure_modes'' r) (path @ ''.failure_modes'')) (\<lambda>failureModes.
     bind_result (asString (field ''id'' r) (path @ ''.id'')) (\<lambda>i.
     bind_result (asString (field ''type'' r) (path @ ''.type'')) (\<lambda>ty.
     bind_result (asString (field ''name'' r) (path @ ''.name'')) (\<lambda>nm.
     bind_result (asString (field ''question'' r) (path @ ''.question'')) (\<lambda>q.
     bind_result (asString (field ''why'' r) (path @ ''.why'')) (\<lambda>why.
     bind_result (asStringArray (field ''signals'' r) (path @ ''.signals'')) (\<lambda>signals.
     bind_result (asStringArray (field ''related_agents'' r) (path @ ''.related_agents'')) (\<lambda>agents.
     bind_result (asStringArray (field ''related_files'' r) (path @ ''.related_files'')) (\<lambda>files.
     bind_result (asStringArray (field ''required_checks'' r) (path @ ''.required_checks'')) (\<lambda>checks.
       Inr \<lparr>node_id = i, node_type = ty, node_name = nm, node_question = q, node_why = why,
            node_signals = signals, related_agents = agents, related_files = files, node_required_checks = checks,
            node_stop_conditions = nonempty_array stopConditions, node_must_not_assume = nonempty_array mustNotAssume,
            node_objective = nonempty_array objective, node_failure_modes = nonempty_array failureModes\<rparr>)))))))))))))))"

definition parseEdge :: "json \<Rightarrow> js_error + mesh_edge" where
  "parseEdge v =
     bind_result (asRecord (Some v) ''edge'') (\<lambda>r.
     bind_result (asString (field ''from'' r) ''edge.from'') (\<lambda>f.
     bind_result (asString (field ''to'' r) ''edge.to'') (\<lambda>t.
     bind_result (asString (field ''relation'' r) ''edge.relation'') (\<lambda>rel.
     bind_result (asNumber (field ''weight'' r) ''edge.weight'') (\<lambda>w.
     bind_result (asString (field ''why'' r) ''edge.why'') (\<lambda>why.
       Inr \<lparr>edge_from = f, edge_to = t, edge_relation = rel, edge_weight = w, edge_why = why\<rparr>))))))"

definition severity_of :: "string \<Rightarrow> rule_severity option" where
  "severity_of s =
     (if s = ''blocker'' then Some Blocker_rule else if s = ''major'' then Some Major_rule
      else if s = ''minor'' then Some Minor_rule else if s = ''note'' then Some Note_rule else None)"

definition parseRule :: "json \<Rightarrow> js_error + mesh_rule" where
  "parseRule v =
     bind_result (asRecord (Some v) ''rule'') (\<lambda>r.
     bind_result (optionalStringArray (field ''must_not_assume'' r) ''rule.must_not_assume'') (\<lambda>mustNotAssume.
     bind_result (asString (field ''severity'' r) ''rule.severity'') (\<lambda>sev.
       case severity_of sev of
         None \<Rightarrow> Inl (Error (''Invalid Decision Mesh rule severity: '' @ sev))
       | Some severity \<Rightarrow>
     bind_result (asString (field ''id'' r) ''rule.id'') (\<lambda>i.
     bind_result (asString (field ''title'' r) ''rule.title'') (\<lambda>t.
     bind_result (asStringArray (field ''applies_to'' r) ''rule.applies_to'') (\<lambda>ids.
     bind_result (asString (field ''instruction'' r) ''rule.instruction'') (\<lambda>instr.
       Inr \<lparr>rule_id = i, rule_title = t, applies_to = ids, rule_instruction = instr, rule_severity = severity,
            rule_must_not_assume = nonempty_array mustNotAssume\<rparr>)))))))"

section \<open>Validation\<close>

fun validate_nodes :: "mesh_node list \<Rightarrow> string list \<Rightarrow> js_error + string list" where
  "validate_nodes [] nodeIds = Inr nodeIds"
| "validate_nodes (n # ns) nodeIds =
     (if node_id n \<in> set nodeIds then Inl (Error (''Duplicate Decision Mesh node id: '' @ node_id n))
      else if js_trim (node_why n) = [] then Inl (Error (''Decision Mesh node '' @ node_id n @ '' is missing why''))
      else validate_nodes ns (node_id n # nodeIds))"

definition validate_edge :: "string list \<Rightarrow> mesh_edge \<Rightarrow> js_error + unit" where
  "validate_edge nodeIds e =
     (if edge_from e \<notin> set nodeIds
        then Inl (Error (''Decision Mesh edge references missing from node: '' @ edge_from e))
      else if edge_to e \<notin> set nodeIds
        then Inl (Error (''Decision Mesh edge references missing to node: '' @ edge_to e))
      else if edge_weight e < 0 \<or> edge_weight e > 1
        then Inl (Error (''Decision Mesh edge weight must be 0..1: '' @ edge_from e @ '' -> '' @ edge_to e))
      else Inr ())"

definition validate_rule :: "string list \<Rightarrow> mesh_rule \<Rightarrow> js_error + unit" where
  "validate_rule nodeIds r =
     (case List.find (\<lambda>i. i \<notin> set nodeIds) (applies_to r) of
        None \<Rightarrow> Inr ()
      | Some i \<Rightarrow> Inl (Error (''Decision Mesh rule '' @ rule_id r @ '' references missing node: '' @ i)))"

definition validateMesh :: "decision_mesh \<Rightarrow> js_error + unit" where
  "validateMesh mesh =
     bind_result (validate_nodes (mesh_nodes mesh) []) (\<lambda>nodeIds.
     bind_result (map_result (validate_edge nodeIds) (mesh_edges mesh)) (\<lambda>_.
     bind_result (map_result (validate_rule nodeIds) (mesh_rules mesh)) (\<lambda>_. Inr ())))"

section \<open>Loading\<close>

text \<open>A directory of node files is its listing (\<open>None\<close> when it does not exist); \<open>sort()\<close> is by code units.\<close>

definition endsWith :: "string \<Rightarrow> string \<Rightarrow> bool" where
  "endsWith s suffix \<longleftrightarrow> length suffix \<le> length s \<and> drop (length s - length suffix) s = suffix"

record mesh_directory =
  nodes_listing :: "(string \<times> (js_error + json option)) list option"
  edges_file :: "js_error + json option"
  rules_file :: "js_error + json option"

definition loadDecisionMesh :: "string \<Rightarrow> mesh_directory \<Rightarrow> js_error + decision_mesh" where
  "loadDecisionMesh path dir =
     (let nodesDirectory = path @ ''/nodes'' in
      case nodes_listing dir of
        None \<Rightarrow> Inl (Error (''Decision Mesh nodes directory not found: '' @ nodesDirectory))
      | Some listing \<Rightarrow>
          let files = sort_key fst (filter (\<lambda>(f, _). endsWith f ''.yaml'' \<or> endsWith f ''.yml'') listing) in
          bind_result (map_result (\<lambda>(f, doc). parseNodeFile (nodesDirectory @ ''/'' @ f) doc) files) (\<lambda>nodes.
          bind_result (bind_result (edges_file dir) (\<lambda>d. asRecord d ''mesh/edges.yaml'')) (\<lambda>edgeDocument.
          bind_result (bind_result (rules_file dir) (\<lambda>d. asRecord d ''mesh/rules.yaml'')) (\<lambda>ruleDocument.
          bind_result (bind_result (asArray (field ''edges'' edgeDocument) ''edges'') (map_result parseEdge)) (\<lambda>edges.
          bind_result (bind_result (asArray (field ''rules'' ruleDocument) ''rules'') (map_result parseRule)) (\<lambda>rules.
            let mesh = \<lparr>mesh_nodes = nodes, mesh_edges = edges, mesh_rules = rules\<rparr> in
            bind_result (validateMesh mesh) (\<lambda>_. Inr mesh)))))))"

section \<open>Where a project's mesh is\<close>

definition slug_char :: "char \<Rightarrow> bool" where
  "slug_char c \<longleftrightarrow> (let n = of_char c :: nat in 97 \<le> n \<and> n \<le> 122 \<or> 48 \<le> n \<and> n \<le> 57)"

definition assertSafeProjectSlug :: "string \<Rightarrow> js_error + unit" where
  "assertSafeProjectSlug slug =
     (case slug of
        c # cs \<Rightarrow> if slug_char c \<and> list_all (\<lambda>d. slug_char d \<or> d = CHR ''-'') cs then Inr ()
                  else Inl (Error (''Invalid project mesh slug: '' @ slug))
      | [] \<Rightarrow> Inl (Error (''Invalid project mesh slug: '' @ slug)))"

definition projectMeshDirectory :: "(string \<Rightarrow> bool) \<Rightarrow> string \<Rightarrow> string \<Rightarrow> js_error + string" where
  "projectMeshDirectory exists' rootDir slug =
     bind_result (assertSafeProjectSlug slug) (\<lambda>_.
       let repoLocal = rootDir @ ''/.autopilot/decision-mesh''; repoLocalSlug = repoLocal @ ''/'' @ slug in
       Inr (if exists' (repoLocalSlug @ ''/nodes'') then repoLocalSlug
            else if exists' (repoLocal @ ''/nodes'') then repoLocal
            else rootDir @ ''/docs/projects/'' @ slug @ ''/decision-mesh''))"

definition resolveProjectMeshRoot :: "(string \<Rightarrow> bool) \<Rightarrow> string \<Rightarrow> string \<Rightarrow> string \<Rightarrow> js_error + string" where
  "resolveProjectMeshRoot exists' projectsDir controlPlaneRoot slug =
     bind_result (assertSafeProjectSlug slug) (\<lambda>_.
       let sibling = projectsDir @ ''/'' @ slug in
       Inr (if exists' (sibling @ ''/.autopilot/decision-mesh/nodes'') then sibling else controlPlaneRoot))"

definition loadDecisionMeshFromRoot :: "(string \<Rightarrow> mesh_directory) \<Rightarrow> string \<Rightarrow> js_error + decision_mesh" where
  "loadDecisionMeshFromRoot disk rootDir = loadDecisionMesh (rootDir @ ''/mesh'') (disk (rootDir @ ''/mesh''))"

definition loadProjectDecisionMeshFromRoot ::
  "(string \<Rightarrow> mesh_directory) \<Rightarrow> string \<Rightarrow> string \<Rightarrow> js_error + decision_mesh" where
  "loadProjectDecisionMeshFromRoot disk rootDir slug =
     bind_result (projectMeshDirectory (\<lambda>p. nodes_listing (disk (take (length p - length ''/nodes'') p)) \<noteq> None)
       rootDir slug) (\<lambda>path. loadDecisionMesh path (disk path))"

end
