(* ===== verification/MeshProps.thy ===== *)
theory MeshProps
  imports MeshLoad RoutingProps
begin

text \<open>
  What the decision mesh promises. A loaded mesh is well formed, so that no query on it throws. The loops that
  choose nodes compute a prefix of one fixed list of candidates (\<open>candidates\<close>), so a smaller budget gives a
  shorter prefix; with the re-attached blockers a packet carries the same blocking rules for every budget.
\<close>

section \<open>Prefixes of the candidates\<close>

lemma js_unique_append: "js_unique (xs @ ys) = js_unique xs @ filter (\<lambda>y. y \<notin> set xs) (js_unique ys)"
proof (induction xs)
  case (Cons x xs)
  have "filter (\<lambda>y. y \<noteq> x) (filter (\<lambda>y. y \<notin> set xs) (js_unique ys)) = filter (\<lambda>y. y \<notin> set (x # xs)) (js_unique ys)"
    unfolding filter_filter by (rule filter_cong) auto
  with Cons show ?case by simp
qed (simp add: filter_id_conv)

lemma js_unique_Nil: "js_unique xs = [] \<longleftrightarrow> xs = []"
  by (cases xs) simp_all

lemma js_unique_prefix: "js_unique (js_unique xs @ ys) = js_unique (xs @ ys)"
  by (simp add: js_unique_append)

definition extend_to :: "nat \<Rightarrow> string list \<Rightarrow> string list \<Rightarrow> string list" where
  "extend_to k is ids = take k (js_unique (ids @ is))"

lemma extend_to_facts [simp]: "distinct (extend_to k is ids)" "length (extend_to k is ids) \<le> k"
  "set (extend_to k is ids) \<subseteq> set ids \<union> set is"
  by (auto simp: extend_to_def dest: in_set_takeD)

lemma extend_to_Nil: "distinct ids \<Longrightarrow> length ids \<le> k \<Longrightarrow> extend_to k [] ids = ids"
  by (simp add: extend_to_def js_unique_distinct)

lemma extend_to_full: "distinct ids \<Longrightarrow> length ids = k \<Longrightarrow> extend_to k is ids = ids"
  by (simp add: extend_to_def js_unique_append js_unique_distinct)

lemma extend_to_append: "extend_to k js (extend_to k is ids) = extend_to k (is @ js) ids"
proof (cases "length (js_unique (ids @ is)) \<le> k")
  case True
  then show ?thesis using js_unique_prefix [of "ids @ is" js] by (simp add: extend_to_def)
next
  case False
  let ?u = "take k (js_unique (ids @ is))"
  have "distinct ?u" "length ?u = k" using False by simp_all
  then have "extend_to k js ?u = ?u" by (rule extend_to_full)
  moreover have "extend_to k (is @ js) ids = ?u"
    using False js_unique_append [of "ids @ is" js] by (simp add: extend_to_def)
  ultimately show ?thesis by (simp add: extend_to_def)
qed

text \<open>A finite limit counts like the natural number above it.\<close>

definition limit_nat :: "real \<Rightarrow> nat" where "limit_nat m = nat \<lceil>m\<rceil>"

lemma below_nat: "below n (Finite m) \<longleftrightarrow> n < limit_nat m"
  unfolding limit_nat_def below.simps by linarith

lemma reached_nat: "reached n (Finite m) \<longleftrightarrow> limit_nat m \<le> n"
  unfolding limit_nat_def reached.simps by linarith

lemma addId_extend:
  "distinct ids \<Longrightarrow> length ids \<le> limit_nat m \<Longrightarrow> addId ids i (Finite m) = extend_to (limit_nat m) [i] ids"
  unfolding addId_def below_nat
  by (cases "limit_nat m - length ids") (auto simp: extend_to_def js_unique_append js_unique_distinct)

lemma add_ids_extend:
  "distinct ids \<Longrightarrow> length ids \<le> limit_nat m \<Longrightarrow> add_ids (Finite m) is ids = extend_to (limit_nat m) is ids"
proof (induction "is" arbitrary: ids)
  case Nil
  then show ?case by (simp add: extend_to_Nil)
next
  case (Cons i "is")
  let ?k = "limit_nat m" let ?ids = "extend_to ?k [i] ids"
  have id: "addId ids i (Finite m) = ?ids" by (rule addId_extend [OF Cons.prems])
  have all: "extend_to ?k is ?ids = extend_to ?k (i # is) ids" by (simp add: extend_to_append)
  show ?case
  proof (cases "length ?ids = ?k")
    case True
    then have "extend_to ?k is ?ids = ?ids" by (intro extend_to_full) simp_all
    with True all show ?thesis by (simp add: id Let_def reached_nat del: reached.simps)
  next
    case False
    then have "\<not> reached (length ?ids) (Finite m)"
      using extend_to_facts(2) [of ?k "[i]" ids] unfolding reached_nat by linarith
    with Cons.IH [of ?ids] all show ?thesis by (simp add: id Let_def del: reached.simps)
  qed
qed

lemma addConnectedNodes_extend:
  assumes "distinct ids" and "length ids \<le> limit_nat m"
  shows "addConnectedNodes collate mesh (Finite m) i ids =
    extend_to (limit_nat m) (outgoing_ids collate mesh i @ incoming_ids collate mesh i) ids"
proof -
  let ?k = "limit_nat m" let ?ids = "extend_to ?k (outgoing_ids collate mesh i) ids"
  have out: "add_ids (Finite m) (outgoing_ids collate mesh i) ids = ?ids"
    using assms by (rule add_ids_extend)
  have "add_ids (Finite m) (incoming_ids collate mesh i) ?ids = extend_to ?k (incoming_ids collate mesh i) ?ids"
    by (rule add_ids_extend) simp_all
  moreover have "?ids = extend_to ?k (incoming_ids collate mesh i) ?ids" if "reached (length ?ids) (Finite m)"
    using that extend_to_facts(2) [of ?k _ ids] unfolding reached_nat by (intro extend_to_full [symmetric]) (auto intro: antisym)
  ultimately show ?thesis
    by (simp add: addConnectedNodes_def Let_def out extend_to_append [symmetric] del: reached.simps) 
qed

definition neighbours :: "(string \<Rightarrow> string \<Rightarrow> int) \<Rightarrow> decision_mesh \<Rightarrow> string list \<Rightarrow> string list" where
  "neighbours collate mesh is = concat (map (\<lambda>i. outgoing_ids collate mesh i @ incoming_ids collate mesh i) is)"

lemma add_neighbours_extend:
  "distinct ids \<Longrightarrow> length ids \<le> limit_nat m \<Longrightarrow>
   add_neighbours collate mesh (Finite m) is ids = extend_to (limit_nat m) (neighbours collate mesh is) ids"
proof (induction "is" arbitrary: ids)
  case Nil
  then show ?case by (simp add: neighbours_def extend_to_Nil)
next
  case (Cons i "is")
  let ?k = "limit_nat m" let ?o = "outgoing_ids collate mesh i @ incoming_ids collate mesh i"
  let ?ids = "extend_to ?k ?o ids"
  have one: "addConnectedNodes collate mesh (Finite m) i ids = ?ids" by (rule addConnectedNodes_extend [OF Cons.prems])
  have all: "extend_to ?k (neighbours collate mesh is) ?ids = extend_to ?k (neighbours collate mesh (i # is)) ids"
    by (simp add: extend_to_append neighbours_def)
  show ?case
  proof (cases "length ?ids = ?k")
    case True
    then have "extend_to ?k (neighbours collate mesh is) ?ids = ?ids" by (intro extend_to_full) simp_all
    with True all show ?thesis by (simp add: one Let_def reached_nat del: reached.simps)
  next
    case False
    then have "\<not> reached (length ?ids) (Finite m)"
      using extend_to_facts(2) [of ?k ?o ids] unfolding reached_nat by linarith
    with Cons.IH [of ?ids] all show ?thesis by (simp add: one Let_def del: reached.simps)
  qed
qed

text \<open>All that a query could choose, best first: the scored nodes, then the neighbours of each.\<close>

definition ranked_ids :: "(string \<Rightarrow> string \<Rightarrow> int) \<Rightarrow> decision_mesh \<Rightarrow> string \<Rightarrow> string option \<Rightarrow> string list" where
  "ranked_ids collate mesh task agent = map (\<lambda>(n, s). node_id n) (scored_nodes collate mesh task agent)"

definition candidates :: "(string \<Rightarrow> string \<Rightarrow> int) \<Rightarrow> decision_mesh \<Rightarrow> string list \<Rightarrow> string list" where
  "candidates collate mesh ranked = js_unique (ranked @ neighbours collate mesh ranked)"

lemma selected_ids_prefix:
  "selected_ids collate mesh (Finite m) ranked = take (limit_nat m) (candidates collate mesh ranked)"
proof -
  let ?k = "limit_nat m" let ?ids = "extend_to ?k ranked []"
  have ids: "add_ids (Finite m) ranked [] = ?ids" by (rule add_ids_extend) simp_all
  have nb: "add_neighbours collate mesh (Finite m) ranked ?ids = extend_to ?k (neighbours collate mesh ranked) ?ids"
    by (rule add_neighbours_extend) simp_all
  have "extend_to ?k (neighbours collate mesh ranked) ?ids = ?ids" if "\<not> below (length ?ids) (Finite m)"
    using that extend_to_facts(2) [of ?k ranked "[]"] unfolding below_nat by (intro extend_to_full) simp_all
  then show ?thesis
    unfolding selected_ids_def Let_def ids nb candidates_def
    using extend_to_append [of ?k "neighbours collate mesh ranked" ranked "[]"] by (simp add: extend_to_def)
qed

section \<open>Well-formed meshes\<close>

definition mesh_ids :: "decision_mesh \<Rightarrow> string list" where
  "mesh_ids mesh = map node_id (mesh_nodes mesh)"

definition well_formed_mesh :: "decision_mesh \<Rightarrow> bool" where
  "well_formed_mesh mesh \<longleftrightarrow>
     distinct (mesh_ids mesh) \<and> (\<forall>n \<in> set (mesh_nodes mesh). js_trim (node_why n) \<noteq> []) \<and>
     (\<forall>e \<in> set (mesh_edges mesh). edge_from e \<in> set (mesh_ids mesh) \<and> edge_to e \<in> set (mesh_ids mesh) \<and>
        0 \<le> edge_weight e \<and> edge_weight e \<le> 1) \<and>
     (\<forall>r \<in> set (mesh_rules mesh). set (applies_to r) \<subseteq> set (mesh_ids mesh))"

lemma validate_nodes_Inr:
  "validate_nodes ns ids = Inr ids' \<longleftrightarrow> ids' = rev (map node_id ns) @ ids \<and> distinct (map node_id ns) \<and>
     set (map node_id ns) \<inter> set ids = {} \<and> (\<forall>n \<in> set ns. js_trim (node_why n) \<noteq> [])"
  by (induction ns arbitrary: ids) auto

lemma map_result_unit: "(\<exists>us. map_result f xs = Inr us) \<longleftrightarrow> (\<forall>x \<in> set xs. \<exists>u. f x = Inr u)"
  by (induction xs) auto

lemma validate_edge_Inr:
  "validate_edge ids e = Inr () \<longleftrightarrow> edge_from e \<in> set ids \<and> edge_to e \<in> set ids \<and> 0 \<le> edge_weight e \<and> edge_weight e \<le> 1"
  by (auto simp: validate_edge_def)

lemma validate_rule_Inr: "validate_rule ids r = Inr () \<longleftrightarrow> set (applies_to r) \<subseteq> set ids"
  by (auto simp: validate_rule_def find_None_iff subset_iff split: option.splits dest!: find_SomeD)

text \<open>The validation accepts exactly the well-formed meshes.\<close>

lemma validateMesh_exact: "validateMesh mesh = Inr () \<longleftrightarrow> well_formed_mesh mesh"
proof -
  let ?ids = "rev (mesh_ids mesh)"
  have "validateMesh mesh = Inr () \<longleftrightarrow>
      distinct (mesh_ids mesh) \<and> (\<forall>n \<in> set (mesh_nodes mesh). js_trim (node_why n) \<noteq> []) \<and>
      (\<exists>us. map_result (validate_edge ?ids) (mesh_edges mesh) = Inr us) \<and>
      (\<exists>us. map_result (validate_rule ?ids) (mesh_rules mesh) = Inr us)"
    by (auto simp: validateMesh_def validate_nodes_Inr mesh_ids_def)
  then show ?thesis
    by (auto simp: map_result_unit validate_edge_Inr validate_rule_Inr well_formed_mesh_def)
qed

lemma loaded_mesh:
  assumes "loadDecisionMesh path dir = Inr mesh"
  obtains listing edgeDoc ruleDoc es rs where "nodes_listing dir = Some listing"
    and "map_result (\<lambda>(f, doc). parseNodeFile (path @ ''/nodes'' @ ''/'' @ f) doc)
          (sort_key fst (filter (\<lambda>(f, _). endsWith f ''.yaml'' \<or> endsWith f ''.yml'') listing)) = Inr (mesh_nodes mesh)"
    and "map_result parseEdge es = Inr (mesh_edges mesh)" and "map_result parseRule rs = Inr (mesh_rules mesh)"
    and "validateMesh mesh = Inr ()"
proof -
  from assms obtain listing where l: "nodes_listing dir = Some listing"
    by (cases "nodes_listing dir") (simp_all add: loadDecisionMesh_def)
  from assms obtain nodes es' rs' es rs u where
    n: "map_result (\<lambda>(f, doc). parseNodeFile (path @ ''/nodes'' @ ''/'' @ f) doc)
          (sort_key fst (filter (\<lambda>(f, _). endsWith f ''.yaml'' \<or> endsWith f ''.yml'') listing)) = Inr nodes"
    and e: "map_result parseEdge es = Inr es'" and r: "map_result parseRule rs = Inr rs'"
    and v: "validateMesh \<lparr>mesh_nodes = nodes, mesh_edges = es', mesh_rules = rs'\<rparr> = Inr u"
    and m: "\<lparr>mesh_nodes = nodes, mesh_edges = es', mesh_rules = rs'\<rparr> = mesh"
    unfolding loadDecisionMesh_def l Let_def option.case bind_result_eq_Inr append_assoc sum.inject
    by (elim exE conjE) (rule that)
  from that [OF l, of es rs] n e r v show thesis unfolding m [symmetric] by simp
qed

lemma loaded_well_formed: "loadDecisionMesh path dir = Inr mesh \<Longrightarrow> well_formed_mesh mesh"
  by (erule loaded_mesh) (simp add: validateMesh_exact)

lemma requireNode_mesh:
  assumes "i \<in> set (mesh_ids mesh)"
  shows "\<exists>n \<in> set (mesh_nodes mesh). requireNode mesh i = Inr n \<and> node_id n = i"
proof -
  from assms obtain m where "m \<in> set (mesh_nodes mesh)" "node_id m = i" by (auto simp: mesh_ids_def)
  from find_mem_Some [of m "mesh_nodes mesh" "\<lambda>n. node_id n = i"] this show ?thesis
    by (auto simp: requireNode_def)
qed

lemma require_all_nodes:
  "set ids \<subseteq> set (mesh_ids mesh) \<Longrightarrow> \<exists>ns. map_result (requireNode mesh) ids = Inr ns \<and> map node_id ns = ids \<and> set ns \<subseteq> set (mesh_nodes mesh)"
proof (induction ids)
  case (Cons i ids)
  then obtain ns where ns: "map_result (requireNode mesh) ids = Inr ns" "map node_id ns = ids" "set ns \<subseteq> set (mesh_nodes mesh)" by auto
  from Cons.prems requireNode_mesh [of i mesh] obtain n where
    n: "requireNode mesh i = Inr n" "node_id n = i" "n \<in> set (mesh_nodes mesh)" by auto
  from ns n show ?case by (intro exI [of _ "n # ns"]) simp
qed simp

lemma ranked_ids_mesh: "set (ranked_ids collate mesh task agent) =
    {node_id n | n. n \<in> set (mesh_nodes mesh) \<and> scoreNode n task agent > 0}"
  by (auto simp: ranked_ids_def scored_nodes_def image_iff)

lemma candidates_mesh:
  "well_formed_mesh mesh \<Longrightarrow> set (candidates collate mesh (ranked_ids collate mesh task agent)) \<subseteq> set (mesh_ids mesh)"
  by (auto simp: candidates_def neighbours_def ranked_ids_mesh mesh_ids_def outgoing_ids_def incoming_ids_def well_formed_mesh_def)

lemma selected_mesh:
  assumes "well_formed_mesh mesh"
  shows "set (selected_ids collate mesh limit (ranked_ids collate mesh task agent)) \<subseteq> set (mesh_ids mesh)"
proof -
  let ?r = "ranked_ids collate mesh task agent"
  have add: "set (add_ids l is ids) \<subseteq> set ids \<union> set is" for l "is" ids
  proof (induction "is" arbitrary: ids)
    case (Cons i "is")
    have "set (addId ids i l) \<subseteq> set ids \<union> {i}" by (auto simp: addId_def)
    with Cons [of "addId ids i l"] show ?case by (auto simp: Let_def)
  qed simp
  have con: "set (addConnectedNodes collate mesh l i ids) \<subseteq> set ids \<union> set (outgoing_ids collate mesh i @ incoming_ids collate mesh i)" for l i ids
    using add [of l "outgoing_ids collate mesh i" ids]
      add [of l "incoming_ids collate mesh i" "add_ids l (outgoing_ids collate mesh i) ids"]
    by (auto simp: addConnectedNodes_def Let_def)
  have nb: "set (add_neighbours collate mesh l is ids) \<subseteq> set ids \<union> set (neighbours collate mesh is)" for l "is" ids
  proof (induction "is" arbitrary: ids)
    case (Cons i "is")
    show ?case using Cons [of "addConnectedNodes collate mesh l i ids"] con [of l i ids]
      by (auto simp: Let_def neighbours_def)
  qed simp
  have "set (selected_ids collate mesh limit ?r) \<subseteq> set (candidates collate mesh ?r)"
    using add [of limit ?r "[]"] nb [of limit ?r "add_ids limit ?r []"]
    by (auto simp: selected_ids_def Let_def candidates_def split: if_splits)
  with candidates_mesh [OF assms] show ?thesis by blast
qed

text \<open>On a well-formed mesh the subgraph query returns the selected nodes.\<close>

lemma subgraph_total:
  assumes "well_formed_mesh mesh"
  obtains sub where "getRelevantSubgraphFull collate mesh input = Inr sub"
    and "map node_id (full_nodes sub) = selected_ids collate mesh (node_limit mesh (sub_max_nodes input))
           (ranked_ids collate mesh (sub_task input) (sub_agent input))"
    and "set (full_nodes sub) \<subseteq> set (mesh_nodes mesh)"
proof -
  let ?ids = "selected_ids collate mesh (node_limit mesh (sub_max_nodes input))
      (ranked_ids collate mesh (sub_task input) (sub_agent input))"
  obtain ns where "map_result (requireNode mesh) ?ids = Inr ns" "map node_id ns = ?ids" "set ns \<subseteq> set (mesh_nodes mesh)"
    using require_all_nodes [OF selected_mesh [OF assms]] by blast
  with that show thesis
    by (auto simp: getRelevantSubgraphFull_def Let_def ranked_ids_def)
qed

section \<open>Packets\<close>

lemma js_min_max_simps [simp]:
  "js_min (Finite a) (Finite b) = Finite (min a b)" "js_max (Finite a) (Finite b) = Finite (max a b)"
  "js_min PosInfinity (Finite b) = Finite b" "js_min (Finite a) PosInfinity = Finite a"
  "js_min NegInfinity (Finite b) = NegInfinity" "js_min (Finite b) NegInfinity = NegInfinity"
  "js_max (Finite a) NegInfinity = Finite a"
  by (simp_all add: js_min_def js_max_def min_def max_def)

lemma node_limit_Finite:
  assumes "requested \<noteq> Some NotANumber"
  obtains m where "node_limit mesh requested = Finite m" and "1 \<le> m"
proof (cases requested)
  case (Some x)
  with assms that show thesis by (cases x) (auto simp: node_limit_def)
qed (use that in \<open>auto simp: node_limit_def\<close>)

lemma packet_limit_Finite:
  assumes "b \<noteq> Some NotANumber"
  obtains m where "packet_limit b = Finite m" and "4 \<le> m" and "m \<le> AGENT_PACKET_MAX_NODES"
proof (cases b)
  case (Some x)
  with assms that show thesis by (cases x) (auto simp: packet_limit_def AGENT_PACKET_MAX_NODES_def)
qed (use that in \<open>auto simp: packet_limit_def AGENT_PACKET_MAX_NODES_def\<close>)

lemma ranked_ids_truthy:
  "ranked_ids collate mesh task (if truthy a then a else None) = ranked_ids collate mesh task a"
  by (auto simp: ranked_ids_def scored_nodes_def scoreNode_def Let_def truthy_def)

text \<open>The widest selection of the packet builder.\<close>

definition ceiling_ids :: "(string \<Rightarrow> string \<Rightarrow> int) \<Rightarrow> decision_mesh \<Rightarrow> string \<Rightarrow> string option \<Rightarrow> js_number \<Rightarrow> string list" where
  "ceiling_ids collate mesh task agent limit =
     selected_ids collate mesh (node_limit mesh (Some limit)) (ranked_ids collate mesh task agent)"

lemma blocker_nodes:
  assumes wf: "well_formed_mesh mesh" and base: "set base \<subseteq> set (mesh_nodes mesh)"
  obtains ns where "withRelevantBlockerNodes collate mesh base task agent limit = Inr ns"
    and "set ns \<subseteq> set (mesh_nodes mesh)"
    and "set (map node_id ns) = set (map node_id base) \<union>
          (set (blocker_node_ids mesh) \<inter> set (ceiling_ids collate mesh task agent limit))"
proof -
  let ?in = "\<lparr>sub_task = task, sub_agent = (if truthy agent then agent else None), sub_max_nodes = Some limit\<rparr>"
  obtain sub where sub: "getRelevantSubgraphFull collate mesh ?in = Inr sub"
    and ids: "map node_id (full_nodes sub) = ceiling_ids collate mesh task agent limit"
    using subgraph_total [OF wf, of collate ?in] by (auto simp: ceiling_ids_def ranked_ids_truthy)
  have refs: "map ref_id (map (toNodeReference sc) xs) = map node_id xs" for sc xs by (simp add: toNodeReference_def)
  let ?forced = "filter (\<lambda>n. node_id n \<notin> set (map node_id base) \<and> node_id n \<in> set (blocker_node_ids mesh) \<and>
      node_id n \<in> set (ceiling_ids collate mesh task agent limit)) (mesh_nodes mesh)"
  have res: "withRelevantBlockerNodes collate mesh base task agent limit = Inr (base @ ?forced)"
    unfolding withRelevantBlockerNodes_def getRelevantSubgraph_def sub bind_result_simps Let_def relevant_subgraph.simps
      refs ids by simp
  have "set (ceiling_ids collate mesh task agent limit) \<subseteq> set (mesh_ids mesh)"
    unfolding ceiling_ids_def by (rule selected_mesh [OF wf])
  then have "set (map node_id (base @ ?forced)) = set (map node_id base) \<union>
      (set (blocker_node_ids mesh) \<inter> set (ceiling_ids collate mesh task agent limit))"
    by (auto simp: mesh_ids_def)
  with that [OF res] base show thesis by auto
qed

lemma packet_base_total:
  assumes wf: "well_formed_mesh mesh"
  obtains ns where "packet_base collate mesh input = Inr ns" and "set ns \<subseteq> set (mesh_nodes mesh)"
    and "set (map node_id ns) =
      set (selected_ids collate mesh (node_limit mesh (Some (packet_limit (ap_token_budget input))))
            (ranked_ids collate mesh (ap_task input) (Some (ap_agent input)))) \<union>
      (set (blocker_node_ids mesh) \<inter> set (ceiling_ids collate mesh (ap_task input) (Some (ap_agent input)) (Finite AGENT_PACKET_MAX_NODES)))"
proof -
  let ?in = "\<lparr>sub_task = ap_task input, sub_agent = Some (ap_agent input),
      sub_max_nodes = Some (packet_limit (ap_token_budget input))\<rparr>"
  obtain sub where sub: "getRelevantSubgraphFull collate mesh ?in = Inr sub"
    and ids: "map node_id (full_nodes sub) = selected_ids collate mesh (node_limit mesh (Some (packet_limit (ap_token_budget input))))
            (ranked_ids collate mesh (ap_task input) (Some (ap_agent input)))"
    and m: "set (full_nodes sub) \<subseteq> set (mesh_nodes mesh)"
    using subgraph_total [OF wf, of collate ?in] by auto
  from blocker_nodes [OF wf m] obtain ns where
    "withRelevantBlockerNodes collate mesh (full_nodes sub) (ap_task input) (Some (ap_agent input)) (Finite AGENT_PACKET_MAX_NODES) = Inr ns"
    "set ns \<subseteq> set (mesh_nodes mesh)"
    "set (map node_id ns) = set (map node_id (full_nodes sub)) \<union> (set (blocker_node_ids mesh) \<inter>
       set (ceiling_ids collate mesh (ap_task input) (Some (ap_agent input)) (Finite AGENT_PACKET_MAX_NODES)))" by blast
  with that [of ns] show thesis unfolding packet_base_def sub ids by simp
qed

lemma present_set: "set (present xs) = {x. Some x \<in> set xs}"
  by (induction xs rule: present.induct) auto

lemma length_present: "length (present xs) \<le> length xs"
  by (induction xs rule: present.induct) auto

lemma floor_nodes: "applyGovernanceFloor mesh ns = (ms, f) \<Longrightarrow> set ns \<subseteq> set (mesh_nodes mesh) \<Longrightarrow>
    set ms \<subseteq> set (mesh_nodes mesh) \<and> (f \<longleftrightarrow> ns = []) \<and> (\<not> f \<longrightarrow> ms = ns)"
  by (auto simp: applyGovernanceFloor_def present_set GOVERNANCE_FLOOR_NODE_IDS_def split: if_splits dest!: find_SomeD sym [of "Some _"])

lemma mode_contract: "\<exists>m. getRoutingMode i = Inr m \<and> mode_id m = i"
  by (cases i) (simp_all add: getRoutingMode_def routingModes_def)

lemma buildAgentPacket_total:
  assumes wf: "well_formed_mesh mesh"
  obtains base nodes f contract where "packet_base collate mesh input = Inr base" and "set base \<subseteq> set (mesh_nodes mesh)"
    and "applyGovernanceFloor mesh base = (nodes, f)"
    and "buildAgentPacket collate mesh input = Inr (agent_packet_of collate input contract nodes (rules_for mesh nodes) f)"
    and "case ap_mode input of None \<Rightarrow> contract = None | Some i \<Rightarrow> \<exists>m. contract = Some m \<and> getRoutingMode i = Inr m"
proof -
  obtain base where base: "packet_base collate mesh input = Inr base" "set base \<subseteq> set (mesh_nodes mesh)"
    using packet_base_total [OF wf] by metis
  obtain nodes f where fl: "applyGovernanceFloor mesh base = (nodes, f)" by fastforce
  show thesis
  proof (cases "ap_mode input")
    case None
    with that [OF base fl] base fl show thesis by (simp add: buildAgentPacket_def)
  next
    case (Some i)
    obtain m where "getRoutingMode i = Inr m" using mode_contract by blast
    with that [OF base fl] base fl Some show thesis by (simp add: buildAgentPacket_def)
  qed
qed

section \<open>What packets promise\<close>

definition blocking_rules :: "decision_mesh \<Rightarrow> string list \<Rightarrow> mesh_rule list" where
  "blocking_rules mesh ids =
     filter (\<lambda>r. rule_severity r = Blocker_rule \<and> (\<exists>i \<in> set (applies_to r). i \<in> set ids)) (mesh_rules mesh)"

lemma blocking_rules_shown:
  "set (map rule_id (blocking_rules mesh (map node_id nodes))) \<subseteq> set (map rule_id (rules_for mesh nodes))"
  by (auto simp: blocking_rules_def rules_for_def list_ex_iff)

lemma agent_packet_of_fields [simp]:
  "packet_nodes (agent_packet_of collate input c nodes rules f) = map node_id nodes"
  "packet_rules (agent_packet_of collate input c nodes rules f) = map rule_id rules"
  "no_governance_matched (agent_packet_of collate input c nodes rules f) = f"
  by (simp_all add: agent_packet_of_def)

lemma limit_nat_mono: "a \<le> b \<Longrightarrow> limit_nat a \<le> limit_nat b"
  unfolding limit_nat_def by (intro nat_mono ceiling_mono)

definition ceiling_count :: "decision_mesh \<Rightarrow> nat" where
  "ceiling_count mesh = limit_nat (max 1 (min AGENT_PACKET_MAX_NODES (real (length (mesh_nodes mesh)))))"

lemma ceiling_count_le: "ceiling_count mesh \<le> 7"
proof -
  have "ceiling_count mesh \<le> limit_nat 7"
    unfolding ceiling_count_def by (rule limit_nat_mono) (simp add: AGENT_PACKET_MAX_NODES_def)
  then show ?thesis by (simp add: limit_nat_def)
qed

lemma packet_node_limit:
  assumes "b \<noteq> Some NotANumber"
  obtains m where "node_limit mesh (Some (packet_limit b)) = Finite m" and "1 \<le> limit_nat m"
    and "limit_nat m \<le> ceiling_count mesh"
proof -
  from packet_limit_Finite [OF assms] obtain k where k: "packet_limit b = Finite k" "4 \<le> k" "k \<le> AGENT_PACKET_MAX_NODES" .
  let ?n = "real (length (mesh_nodes mesh))"
  have "1 \<le> limit_nat (max 1 (min k ?n))" unfolding limit_nat_def by linarith
  moreover have "limit_nat (max 1 (min k ?n)) \<le> ceiling_count mesh"
    unfolding ceiling_count_def using k(3) by (intro limit_nat_mono) auto
  ultimately show thesis using that k(1) by (simp add: node_limit_def)
qed

text \<open>The candidates of a packet, best first.\<close>

definition packet_candidates :: "(string \<Rightarrow> string \<Rightarrow> int) \<Rightarrow> decision_mesh \<Rightarrow> agent_packet_input \<Rightarrow> string list" where
  "packet_candidates collate mesh input =
     candidates collate mesh (ranked_ids collate mesh (ap_task input) (Some (ap_agent input)))"

lemma ceiling_packet_ids:
  "ceiling_ids collate mesh (ap_task input) (Some (ap_agent input)) (Finite AGENT_PACKET_MAX_NODES) =
   take (ceiling_count mesh) (packet_candidates collate mesh input)"
  by (simp add: ceiling_ids_def node_limit_def selected_ids_prefix ceiling_count_def packet_candidates_def)

text \<open>The nodes of a packet before the floor, for any budget: the first few candidates, and the blocker nodes
  among the first seven.\<close>

lemma packet_base_nodes:
  assumes wf: "well_formed_mesh mesh" and b: "ap_token_budget input \<noteq> Some NotANumber"
    and base: "packet_base collate mesh input = Inr ns"
  obtains k where "1 \<le> k" and "k \<le> ceiling_count mesh"
    and "set (map node_id ns) = set (take k (packet_candidates collate mesh input)) \<union>
      (set (blocker_node_ids mesh) \<inter> set (take (ceiling_count mesh) (packet_candidates collate mesh input)))"
proof -
  from packet_node_limit [OF b] obtain m where m: "node_limit mesh (Some (packet_limit (ap_token_budget input))) = Finite m"
    "1 \<le> limit_nat m" "limit_nat m \<le> ceiling_count mesh" .
  obtain ns' where ns': "packet_base collate mesh input = Inr ns'" and ids: "set (map node_id ns') =
      set (selected_ids collate mesh (Finite m) (ranked_ids collate mesh (ap_task input) (Some (ap_agent input)))) \<union>
      (set (blocker_node_ids mesh) \<inter> set (ceiling_ids collate mesh (ap_task input) (Some (ap_agent input)) (Finite AGENT_PACKET_MAX_NODES)))"
    using packet_base_total [OF wf, of collate input] m(1) by metis
  have "ns' = ns" using base ns' by simp
  with that [OF m(2,3)] ids show thesis
    by (simp add: ceiling_packet_ids selected_ids_prefix packet_candidates_def del: set_map)
qed

lemma take_subset: "k \<le> c \<Longrightarrow> set (take k xs) \<subseteq> set (take c xs)"
  by (rule set_take_subset_set_take)

text \<open>Before the floor, a packet's blocking rules are those of the widest selection.\<close>

lemma blocking_rules_base:
  assumes "well_formed_mesh mesh" and "ap_token_budget input \<noteq> Some NotANumber" and "packet_base collate mesh input = Inr ns"
  shows "blocking_rules mesh (map node_id ns) =
    blocking_rules mesh (take (ceiling_count mesh) (packet_candidates collate mesh input))"
proof -
  from packet_base_nodes [OF assms] obtain k where k: "k \<le> ceiling_count mesh"
    and ids: "set (map node_id ns) = set (take k (packet_candidates collate mesh input)) \<union>
      (set (blocker_node_ids mesh) \<inter> set (take (ceiling_count mesh) (packet_candidates collate mesh input)))" by metis
  note sub = take_subset [OF k, of "packet_candidates collate mesh input"]
  have "(\<exists>i \<in> set (applies_to r). i \<in> set (map node_id ns)) \<longleftrightarrow>
      (\<exists>i \<in> set (applies_to r). i \<in> set (take (ceiling_count mesh) (packet_candidates collate mesh input)))"
    if "r \<in> set (mesh_rules mesh)" "rule_severity r = Blocker_rule" for r
  proof -
    have "set (applies_to r) \<subseteq> set (blocker_node_ids mesh)" using that by (auto simp: blocker_node_ids_def)
    with sub show ?thesis unfolding ids by blast
  qed
  then show ?thesis unfolding blocking_rules_def by (intro filter_cong) auto
qed

lemma base_empty:
  assumes "well_formed_mesh mesh" and "ap_token_budget input \<noteq> Some NotANumber" and "packet_base collate mesh input = Inr ns"
  shows "ns = [] \<longleftrightarrow> (\<forall>n \<in> set (mesh_nodes mesh). \<not> scoreNode n (ap_task input) (Some (ap_agent input)) > 0)"
proof -
  let ?L = "packet_candidates collate mesh input" let ?r = "ranked_ids collate mesh (ap_task input) (Some (ap_agent input))"
  from packet_base_nodes [OF assms] obtain k where k: "1 \<le> k" "k \<le> ceiling_count mesh"
    and ids: "set (map node_id ns) = set (take k ?L) \<union> (set (blocker_node_ids mesh) \<inter> set (take (ceiling_count mesh) ?L))" by metis
  have "ns = [] \<longleftrightarrow> set (map node_id ns) = {}" by simp
  also have "\<dots> \<longleftrightarrow> ?L = []" unfolding ids using k by (auto simp: neq_Nil_conv Suc_le_eq gr0_conv_Suc)
  also have "\<dots> \<longleftrightarrow> ?r = []" by (auto simp: packet_candidates_def candidates_def neighbours_def js_unique_Nil)
  also have "\<dots> \<longleftrightarrow> set ?r = {}" by simp
  finally show ?thesis by (auto simp: ranked_ids_mesh)
qed

text \<open>C38: The token budget never hides a blocking rule: on a loaded mesh two packets for the same task, agent and mode
  but different budgets carry exactly the same blocking rules (and both are built, for any budget that is a number).\<close>

theorem budget_never_hides_blockers:
  assumes "loadDecisionMesh path dir = Inr mesh" and "b1 \<noteq> NotANumber" and "b2 \<noteq> NotANumber"
  shows "\<exists>p1 p2. buildAgentPacket collate mesh (input\<lparr>ap_token_budget := Some b1\<rparr>) = Inr p1 \<and>
    buildAgentPacket collate mesh (input\<lparr>ap_token_budget := Some b2\<rparr>) = Inr p2 \<and>
    blocking_rules mesh (packet_nodes p1) = blocking_rules mesh (packet_nodes p2) \<and>
    set (map rule_id (blocking_rules mesh (packet_nodes p1))) \<subseteq> set (packet_rules p1) \<inter> set (packet_rules p2)"
proof -
  note wf = loaded_well_formed [OF assms(1)]
  let ?i1 = "input\<lparr>ap_token_budget := Some b1\<rparr>" let ?i2 = "input\<lparr>ap_token_budget := Some b2\<rparr>"
  have num: "ap_token_budget ?i1 \<noteq> Some NotANumber" "ap_token_budget ?i2 \<noteq> Some NotANumber" using assms(2,3) by simp_all
  obtain base1 n1 f1 c1 where 1: "packet_base collate mesh ?i1 = Inr base1" "applyGovernanceFloor mesh base1 = (n1, f1)"
    "buildAgentPacket collate mesh ?i1 = Inr (agent_packet_of collate ?i1 c1 n1 (rules_for mesh n1) f1)"
    by (rule buildAgentPacket_total [OF wf, of collate ?i1]) (rule that, assumption+)
  obtain base2 n2 f2 c2 where 2: "packet_base collate mesh ?i2 = Inr base2" "applyGovernanceFloor mesh base2 = (n2, f2)"
    "buildAgentPacket collate mesh ?i2 = Inr (agent_packet_of collate ?i2 c2 n2 (rules_for mesh n2) f2)"
    by (rule buildAgentPacket_total [OF wf, of collate ?i2]) (rule that, assumption+)
  have cand: "packet_candidates collate mesh ?i1 = packet_candidates collate mesh ?i2" by (simp add: packet_candidates_def)
  have "base1 = [] \<longleftrightarrow> base2 = []"
    using base_empty [OF wf num(1) 1(1)] base_empty [OF wf num(2) 2(1)] by simp
  moreover have "blocking_rules mesh (map node_id base1) = blocking_rules mesh (map node_id base2)"
    using blocking_rules_base [OF wf num(1) 1(1)] blocking_rules_base [OF wf num(2) 2(1)] cand by simp
  ultimately have "blocking_rules mesh (map node_id n1) = blocking_rules mesh (map node_id n2)"
    using 1(2) 2(2) by (auto simp: applyGovernanceFloor_def split: if_splits)
  note same = this
  from blocking_rules_shown [of mesh n1] blocking_rules_shown [of mesh n2]
  have "set (map rule_id (blocking_rules mesh (map node_id n1))) \<subseteq>
      set (map rule_id (rules_for mesh n1)) \<inter> set (map rule_id (rules_for mesh n2))"
    unfolding same by (rule Int_greatest)
  with same show ?thesis
    unfolding 1(3) 2(3) sum.inject by (metis (no_types) agent_packet_of_fields(1,2))
qed

section \<open>Capabilities\<close>

lemma find_unique: "distinct (map f xs) \<Longrightarrow> x \<in> set xs \<Longrightarrow> List.find (\<lambda>y. f y = f x) xs = Some x"
  by (induction xs) auto

lemma capability_ids_distinct: "distinct (map module_id capabilityModules)"
  by code_simp

lemma rule_activates_3d:
  "list_all (\<lambda>r. (Three_d_addon \<in> set (activate r)) = (routing_rule_id r = ''premium_3d_experience'')) capabilityRoutingRules"
  by code_simp

lemma rule_avoids:
  "list_all (\<lambda>r. set (or_empty (avoid_modules r)) = (if routing_rule_id r \<in>
        {''observability_diagnostics'', ''slow_website'', ''data_cleanup'', ''website_rescue''} then {Three_d_addon} else {}))
     capabilityRoutingRules"
  by code_simp

lemma capability_known: "\<exists>m. requireCapabilityModule i = Inr m \<and> module_id m = i"
  by (cases i) (simp_all add: requireCapabilityModule_def capabilityModules_def)

lemma selectCapabilityModules_total: "\<exists>s. selectCapabilityModules task = Inr s"
proof (cases "length (matched_rules task) = 0")
  case False
  have "\<exists>ms. map_result requireCapabilityModule is = Inr ms" for "is"
    using capability_known by (simp add: map_result_unit) blast
  with False show ?thesis by (auto simp: selectCapabilityModules_def Let_def)
qed (simp add: selectCapabilityModules_def)

section \<open>Loaded meshes\<close>

definition plain_text :: "string \<Rightarrow> bool" where "plain_text s \<longleftrightarrow> js_trim s \<noteq> []"

definition well_typed_node :: "mesh_node \<Rightarrow> bool" where
  "well_typed_node n \<longleftrightarrow>
     list_all plain_text [node_id n, node_type n, node_name n, node_question n, node_why n] \<and>
     list_all (list_all plain_text) [node_signals n, related_agents n, related_files n, node_required_checks n] \<and>
     list_all (\<lambda>xs. case xs of None \<Rightarrow> True | Some ys \<Rightarrow> ys \<noteq> [] \<and> list_all plain_text ys)
       [node_stop_conditions n, node_must_not_assume n, node_objective n, node_failure_modes n]"

lemma asString_Inr: "asString v l = Inr s \<Longrightarrow> plain_text s"
  by (auto simp: asString_def plain_text_def split: option.splits json.splits if_splits)

lemma asStringArray_Inr: "asStringArray v l = Inr xs \<Longrightarrow> list_all plain_text xs"
proof -
  have "\<forall>x \<in> set vs. case x of JStr s \<Rightarrow> js_trim s \<noteq> [] | _ \<Rightarrow> False \<Longrightarrow> \<forall>x \<in> set vs. js_trim (string_of x) \<noteq> []" for vs
    by (auto split: json.splits) (metis json.exhaust string_of.simps)
  then show "asStringArray v l = Inr xs \<Longrightarrow> list_all plain_text xs"
    by (auto simp: asStringArray_def plain_text_def list_all_iff split: option.splits json.splits if_splits)
qed

lemma optionalStringArray_Inr:
  "optionalStringArray v l = Inr xs \<Longrightarrow>
   (case nonempty_array xs of None \<Rightarrow> True | Some ys \<Rightarrow> ys \<noteq> [] \<and> list_all plain_text ys)"
  by (auto simp: optionalStringArray_def nonempty_array_def split: option.splits list.splits dest!: asStringArray_Inr)

lemma parseNodeFile_Inr: "parseNodeFile path file = Inr n \<Longrightarrow> well_typed_node n"
  unfolding parseNodeFile_def bind_result_eq_Inr
  by (elim exE conjE)
    (simp only: sum.inject well_typed_node_def list.pred_inject; hypsubst; simp only: mesh_node.simps;
     intro conjI TrueI; (erule asString_Inr | erule asStringArray_Inr | erule optionalStringArray_Inr))

definition well_typed_edge :: "mesh_edge \<Rightarrow> bool" where
  "well_typed_edge e \<longleftrightarrow>
     list_all plain_text [edge_from e, edge_to e, edge_relation e, edge_why e] \<and> 0 \<le> edge_weight e \<and> edge_weight e \<le> 1"

definition well_typed_rule :: "mesh_rule \<Rightarrow> bool" where
  "well_typed_rule r \<longleftrightarrow>
     list_all plain_text [rule_id r, rule_title r, rule_instruction r] \<and> list_all plain_text (applies_to r) \<and>
     (case rule_must_not_assume r of None \<Rightarrow> True | Some ys \<Rightarrow> ys \<noteq> [] \<and> list_all plain_text ys)"

lemma parseEdge_Inr: "parseEdge v = Inr e \<Longrightarrow> list_all plain_text [edge_from e, edge_to e, edge_relation e, edge_why e]"
  unfolding parseEdge_def bind_result_eq_Inr by (elim exE conjE) (auto dest!: asString_Inr)

lemma parseRule_Inr: "parseRule v = Inr r \<Longrightarrow> well_typed_rule r"
  unfolding parseRule_def bind_result_eq_Inr
  by (elim exE conjE)
    (auto simp: well_typed_rule_def split: option.splits dest!: asString_Inr asStringArray_Inr optionalStringArray_Inr)

text \<open>C40: What the loader returns is a well-typed mesh: every text of its nodes, edges and rules is non-blank and every
  optional list absent or non-empty, node ids are distinct, edges connect existing nodes with a weight between 0 and 1,
  and rules refer to existing nodes only.\<close>

theorem loaded_mesh_is_well_typed:
  assumes "loadDecisionMesh path dir = Inr mesh"
  shows "list_all well_typed_node (mesh_nodes mesh) \<and> distinct (map node_id (mesh_nodes mesh)) \<and>
    list_all well_typed_edge (mesh_edges mesh) \<and> list_all well_typed_rule (mesh_rules mesh) \<and>
    list_all (\<lambda>e. edge_from e \<in> set (map node_id (mesh_nodes mesh)) \<and> edge_to e \<in> set (map node_id (mesh_nodes mesh)))
      (mesh_edges mesh) \<and>
    list_all (\<lambda>r. set (applies_to r) \<subseteq> set (map node_id (mesh_nodes mesh))) (mesh_rules mesh)"
proof -
  from assms obtain listing es rs where
    n: "map_result (\<lambda>(f, doc). parseNodeFile (path @ ''/nodes'' @ ''/'' @ f) doc)
          (sort_key fst (filter (\<lambda>(f, _). endsWith f ''.yaml'' \<or> endsWith f ''.yml'') listing)) = Inr (mesh_nodes mesh)"
    and e: "map_result parseEdge es = Inr (mesh_edges mesh)" and r: "map_result parseRule rs = Inr (mesh_rules mesh)"
    by (rule loaded_mesh) (rule that, assumption+)
  have "list_all well_typed_node (mesh_nodes mesh)"
    unfolding list_all_iff map_result_set [OF n] by (auto dest: parseNodeFile_Inr)
  moreover have "list_all well_typed_rule (mesh_rules mesh)"
    unfolding list_all_iff map_result_set [OF r] by (auto dest: parseRule_Inr)
  moreover have "\<forall>e \<in> set (mesh_edges mesh). list_all plain_text [edge_from e, edge_to e, edge_relation e, edge_why e]"
    unfolding map_result_set [OF e] using parseEdge_Inr by blast
  ultimately show ?thesis
    using loaded_well_formed [OF assms] by (auto simp: well_formed_mesh_def mesh_ids_def list_all_iff well_typed_edge_def)
qed

text \<open>No query throws on a loaded mesh: packets for agents (any budget and mode) and projects, required agents,
  risks and capabilities are always answered, and a node is explained exactly when it exists, with the error naming
  it otherwise.\<close>

theorem mesh_queries_never_throw:
  assumes "loadDecisionMesh path dir = Inr mesh"
  shows "is_ok (buildAgentPacket collate mesh input) \<and> is_ok (buildProjectMeshPacket collate mesh pinput) \<and>
    is_ok (getRelevantSubgraph collate mesh sinput) \<and> is_ok (findRequiredAgents collate mesh task) \<and>
    is_ok (findRisks collate mesh task) \<and> is_ok (selectCapabilities collate mesh task max_nodes) \<and>
    (if i \<in> set (map node_id (mesh_nodes mesh)) then is_ok (explainNode collate mesh i)
     else explainNode collate mesh i = Inl (Error (''Decision Mesh node not found: '' @ i)))"
proof -
  note wf = loaded_well_formed [OF assms]
  have sub: "\<exists>s. getRelevantSubgraphFull collate mesh x = Inr s \<and> set (full_nodes s) \<subseteq> set (mesh_nodes mesh)" for x
    using subgraph_total [OF wf] by metis
  have "is_ok (buildAgentPacket collate mesh input)"
    by (rule buildAgentPacket_total [OF wf, of collate input]) blast
  moreover have "is_ok (buildProjectMeshPacket collate mesh pinput)"
  proof -
    let ?max = "case pp_max_nodes pinput of None \<Rightarrow> Finite DEFAULT_MAX_NODES | Some m \<Rightarrow> m"
    obtain s where s: "getRelevantSubgraphFull collate mesh \<lparr>sub_task = pp_task pinput,
        sub_agent = (if truthy (pp_agent pinput) then pp_agent pinput else None), sub_max_nodes = Some ?max\<rparr> = Inr s"
      "set (full_nodes s) \<subseteq> set (mesh_nodes mesh)" using sub by blast
    obtain ns where "withRelevantBlockerNodes collate mesh (full_nodes s) (pp_task pinput) (pp_agent pinput)
        (js_max ?max (Finite DEFAULT_MAX_NODES)) = Inr ns" using blocker_nodes [OF wf s(2)] by metis
    with s(1) show ?thesis by (simp add: buildProjectMeshPacket_def Let_def split: prod.splits)
  qed
  moreover have "is_ok (getRelevantSubgraph collate mesh sinput)" using sub by (simp add: getRelevantSubgraph_def) blast
  moreover have "is_ok (findRequiredAgents collate mesh task)" "is_ok (findRisks collate mesh task)"
    using sub unfolding findRequiredAgents_def findRisks_def default_subgraph_def Let_def bind_result_eq_Inr by blast+
  moreover have "is_ok (selectCapabilities collate mesh task max_nodes)"
  proof -
    obtain sel where sel: "selectCapabilityModules task = Inr sel" using selectCapabilityModules_total by blast
    have "set (slice_to m xs) \<subseteq> set xs" for m and xs :: "string list"
      by (cases m) (auto dest: in_set_takeD)
    then have "set (slice_to m (js_unique (filter (\<lambda>i. i \<in> set (map node_id (mesh_nodes mesh))) ys @
        filter (\<lambda>i. i \<in> set (map node_id (mesh_nodes mesh))) zs))) \<subseteq> set (mesh_ids mesh)" for m ys zs
      by (rule order_trans) (auto simp: mesh_ids_def)
    from require_all_nodes [OF this] have known: "is_ok (map_result (requireNode mesh) (slice_to m (js_unique
        (filter (\<lambda>i. i \<in> set (map node_id (mesh_nodes mesh))) ys @
         filter (\<lambda>i. i \<in> set (map node_id (mesh_nodes mesh))) zs))))" for m ys zs by blast
    show ?thesis
    proof (cases "length (sel_activate sel) = 0")
      case False
      with known show ?thesis
        unfolding selectCapabilities_def sel Let_def bind_result_simps by (simp only: if_False bind_result_eq_Inr) blast
    qed (simp add: selectCapabilities_def sel)
  qed
  moreover have "is_ok (explainNode collate mesh i)" if "i \<in> set (map node_id (mesh_nodes mesh))"
  proof -
    from that requireNode_mesh [of i mesh] obtain n where n: "requireNode mesh i = Inr n" by (auto simp: mesh_ids_def)
    let ?es = "filter (\<lambda>e. edge_from e = i \<or> edge_to e = i) (mesh_edges mesh)"
    have "set (map (\<lambda>e. if edge_from e = i then edge_to e else edge_from e) ?es) \<subseteq> set (mesh_ids mesh)"
      using wf by (auto simp: well_formed_mesh_def)
    from require_all_nodes [OF this] n show ?thesis by (auto simp: explainNode_def Let_def)
  qed
  moreover have "explainNode collate mesh i = Inl (Error (''Decision Mesh node not found: '' @ i))"
    if "i \<notin> set (map node_id (mesh_nodes mesh))"
    using that by (auto simp: explainNode_def requireNode_def split: option.splits dest!: find_SomeD)
  ultimately show ?thesis by (simp del: set_map)
qed

lemma rules_for_packet: "rules_for mesh nodes =
    filter (\<lambda>r. \<exists>i \<in> set (applies_to r). i \<in> set (map node_id nodes)) (mesh_rules mesh)"
  by (simp add: rules_for_def list_ex_iff)

lemma packet_covers:
  "set (packet_required_checks (agent_packet_of collate input c nodes rules f)) =
     (\<Union>n \<in> set nodes. set (node_required_checks n)) \<union> set (case c of None \<Rightarrow> [] | Some m \<Rightarrow> mode_requiredChecks m)"
  "set (packet_stop_conditions (agent_packet_of collate input c nodes rules f)) =
     (\<Union>n \<in> set nodes. set (or_empty (node_stop_conditions n))) \<union> set (case c of None \<Rightarrow> [] | Some m \<Rightarrow> mode_stopConditions m)"
  "set (packet_must_not_assume (agent_packet_of collate input c nodes rules f)) =
     (\<Union>n \<in> set nodes. set (or_empty (node_must_not_assume n))) \<union> (\<Union>r \<in> set rules. set (or_empty (rule_must_not_assume r)))"
  by (simp_all add: agent_packet_of_def)

text \<open>C39: A packet governs its task: it names at most seven nodes, exactly the rules that apply to one of them, all the
  checks, stop conditions and non-assumptions of each and the checks and stop conditions of the mode asked for; and it
  is flagged as ungoverned exactly when no node of the mesh matches the task, so an unflagged packet is never empty.\<close>

theorem packet_is_governed:
  assumes "loadDecisionMesh path dir = Inr mesh" and "ap_token_budget input \<noteq> Some NotANumber"
    and "buildAgentPacket collate mesh input = Inr p"
  shows "card (set (packet_nodes p)) \<le> 7 \<and>
    packet_rules p = map rule_id (filter (\<lambda>r. list_ex (\<lambda>i. i \<in> set (packet_nodes p)) (applies_to r)) (mesh_rules mesh)) \<and>
    list_all (\<lambda>n. node_id n \<in> set (packet_nodes p) \<longrightarrow>
        set (node_required_checks n) \<subseteq> set (packet_required_checks p) \<and>
        set (or_empty (node_stop_conditions n)) \<subseteq> set (packet_stop_conditions p) \<and>
        set (or_empty (node_must_not_assume n)) \<subseteq> set (packet_must_not_assume p)) (mesh_nodes mesh) \<and>
    (\<forall>i m. ap_mode input = Some i \<and> getRoutingMode i = Inr m \<longrightarrow>
        set (mode_requiredChecks m) \<subseteq> set (packet_required_checks p) \<and>
        set (mode_stopConditions m) \<subseteq> set (packet_stop_conditions p)) \<and>
    (no_governance_matched p \<longleftrightarrow>
        list_all (\<lambda>n. \<not> scoreNode n (ap_task input) (Some (ap_agent input)) > 0) (mesh_nodes mesh)) \<and>
    (no_governance_matched p \<or> packet_nodes p \<noteq> [])"
proof -
  note wf = loaded_well_formed [OF assms(1)]
  obtain base nodes f c where base: "packet_base collate mesh input = Inr base" "set base \<subseteq> set (mesh_nodes mesh)"
    and fl: "applyGovernanceFloor mesh base = (nodes, f)"
    and b: "buildAgentPacket collate mesh input = Inr (agent_packet_of collate input c nodes (rules_for mesh nodes) f)"
    and c: "case ap_mode input of None \<Rightarrow> c = None | Some i \<Rightarrow> \<exists>m. c = Some m \<and> getRoutingMode i = Inr m"
    by (rule buildAgentPacket_total [OF wf, of collate input])
  have p: "p = agent_packet_of collate input c nodes (rules_for mesh nodes) f" using b assms(3) by simp
  note fn = floor_nodes [OF fl base(2)]
  have card: "card (set (map node_id nodes)) \<le> 7"
  proof (cases "base = []")
    case True
    with fl have "nodes = present (map (\<lambda>i. List.find (\<lambda>n. node_id n = i) (mesh_nodes mesh)) GOVERNANCE_FLOOR_NODE_IDS)"
      by (simp add: applyGovernanceFloor_def)
    then have "length nodes \<le> length GOVERNANCE_FLOOR_NODE_IDS" using length_present by (metis length_map)
    then have "length nodes \<le> 2" by (simp add: GOVERNANCE_FLOOR_NODE_IDS_def)
    then show ?thesis using card_length [of "map node_id nodes"] by simp
  next
    case False
    with fn have nb: "nodes = base" by blast
    from packet_base_nodes [OF wf assms(2) base(1)] obtain k where k: "k \<le> ceiling_count mesh"
      and ids: "set (map node_id base) = set (take k (packet_candidates collate mesh input)) \<union>
        (set (blocker_node_ids mesh) \<inter> set (take (ceiling_count mesh) (packet_candidates collate mesh input)))" by metis
    have "set (map node_id base) \<subseteq> set (take (ceiling_count mesh) (packet_candidates collate mesh input))"
      unfolding ids using take_subset [OF k, of "packet_candidates collate mesh input"] by blast
    then have "card (set (map node_id base)) \<le> length (take (ceiling_count mesh) (packet_candidates collate mesh input))"
      by (meson List.finite_set card_length card_mono le_trans)
    then show ?thesis using nb ceiling_count_le [of mesh] by simp
  qed
  have own: "n \<in> set nodes" if "n \<in> set (mesh_nodes mesh)" "node_id n \<in> set (map node_id nodes)" for n
  proof -
    from that(2) obtain m where m: "m \<in> set nodes" "node_id m = node_id n" by auto
    have "inj_on node_id (set (mesh_nodes mesh))"
      using wf by (simp add: well_formed_mesh_def mesh_ids_def distinct_map)
    from inj_onD [OF this m(2) _ that(1)] m(1) fn show ?thesis by blast
  qed
  have ung: "f \<longleftrightarrow> list_all (\<lambda>n. \<not> scoreNode n (ap_task input) (Some (ap_agent input)) > 0) (mesh_nodes mesh)"
    using fn base_empty [OF wf assms(2) base(1)] by (simp add: list_all_iff)
  have mode: "c = Some m" if "ap_mode input = Some i" "getRoutingMode i = Inr m" for i m using c that by auto
  have cov: "list_all (\<lambda>n. node_id n \<in> set (packet_nodes p) \<longrightarrow>
        set (node_required_checks n) \<subseteq> set (packet_required_checks p) \<and>
        set (or_empty (node_stop_conditions n)) \<subseteq> set (packet_stop_conditions p) \<and>
        set (or_empty (node_must_not_assume n)) \<subseteq> set (packet_must_not_assume p)) (mesh_nodes mesh)"
    unfolding p list_all_iff agent_packet_of_fields packet_covers using own by (auto simp del: set_map)
  show ?thesis
    using card cov ung mode fn unfolding p agent_packet_of_fields packet_covers rules_for_def by (auto simp del: set_map)
qed

text \<open>Which capabilities are selected for a task is always answered, with all agents and checks of every activated
  module; and a module is activated and avoided at the same time exactly in one case: the 3D add-on, when the task has
  a 3D signal and a signal of one of the four rules that avoid it.\<close>

theorem capability_conflict_exact:
  "\<exists>s. selectCapabilityModules task = Inr s \<and>
     list_all (\<lambda>m. set (requiredChecks m) \<subseteq> set (sel_checks s) \<and> set (requiredAgents m) \<subseteq> set (sel_agents s))
       (filter (\<lambda>m. module_id m \<in> set (sel_activate s)) capabilityModules) \<and>
     set (sel_activate s) \<inter> set (sel_avoid s) =
       (if list_ex (\<lambda>r. routing_rule_id r = ''premium_3d_experience'') (matched_rules task) \<and>
           list_ex (\<lambda>r. routing_rule_id r \<in> {''observability_diagnostics'', ''slow_website'', ''data_cleanup'', ''website_rescue''})
             (matched_rules task)
        then {Three_d_addon} else {})"
proof -
  obtain s where s: "selectCapabilityModules task = Inr s" using selectCapabilityModules_total by blast
  let ?R = "matched_rules task"
  have "sel_activate s = js_unique (concat (map activate ?R))"
    using s by (cases "length ?R = 0") (auto simp: selectCapabilityModules_def Let_def)
  then have act: "set (sel_activate s) = (\<Union>r \<in> set ?R. set (activate r))" by simp
  have "sel_avoid s = js_unique (concat (map (\<lambda>r. or_empty (avoid_modules r)) ?R))"
    unfolding or_empty_def using s by (cases "length ?R = 0") (auto simp: selectCapabilityModules_def Let_def)
  then have avo: "set (sel_avoid s) = (\<Union>r \<in> set ?R. set (or_empty (avoid_modules r)))" by simp
  have chk: "set (requiredChecks m) \<subseteq> set (sel_checks s) \<and> set (requiredAgents m) \<subseteq> set (sel_agents s)"
    if "m \<in> set capabilityModules" "module_id m \<in> set (sel_activate s)" for m
  proof -
    have "requireCapabilityModule (module_id m) = Inr m"
      using find_unique [OF capability_ids_distinct that(1)] by (simp add: requireCapabilityModule_def)
    note own = this
    have "length ?R \<noteq> 0" using that(2) unfolding act by auto
    with s obtain ms where ms: "map_result requireCapabilityModule (sel_activate s) = Inr ms"
      and s': "sel_checks s = js_unique (concat (map requiredChecks ms))" "sel_agents s = js_unique (concat (map requiredAgents ms))"
      by (auto simp: selectCapabilityModules_def Let_def)
    have "m \<in> set ms" unfolding map_result_set [OF ms] using that(2) own by blast
    then show ?thesis by (auto simp: s')
  qed
  have rules: "set ?R \<subseteq> set capabilityRoutingRules" by (auto simp: matched_rules_def)
  have three: "Three_d_addon \<in> set (activate r) \<longleftrightarrow> routing_rule_id r = ''premium_3d_experience''"
    and avoids: "set (or_empty (avoid_modules r)) = (if routing_rule_id r \<in>
        {''observability_diagnostics'', ''slow_website'', ''data_cleanup'', ''website_rescue''} then {Three_d_addon} else {})"
    if "r \<in> set capabilityRoutingRules" for r
    using that rule_activates_3d rule_avoids by (auto simp: list_all_iff)
  define A where "A r \<longleftrightarrow> routing_rule_id r \<in> {''observability_diagnostics'', ''slow_website'', ''data_cleanup'', ''website_rescue''}" for r :: capability_routing_rule
  have "(\<Union>r \<in> set ?R. set (or_empty (avoid_modules r))) = (\<Union>r \<in> set ?R. if A r then {Three_d_addon} else {})"
    using rules avoids unfolding A_def [symmetric] by (intro SUP_cong refl) blast
  then have "set (sel_avoid s) = (if list_ex A ?R then {Three_d_addon} else {})"
    unfolding avo by (auto simp: list_ex_iff)
  moreover have "Three_d_addon \<in> set (sel_activate s) \<longleftrightarrow> list_ex (\<lambda>r. routing_rule_id r = ''premium_3d_experience'') ?R"
    unfolding act list_ex_iff using rules three by blast
  ultimately have "set (sel_activate s) \<inter> set (sel_avoid s) =
      (if list_ex (\<lambda>r. routing_rule_id r = ''premium_3d_experience'') ?R \<and> list_ex A ?R then {Three_d_addon} else {})"
    by auto
  with s chk show ?thesis unfolding A_def by (intro exI [of _ s]) (auto simp only: list_all_iff set_filter mem_Collect_eq)
qed

section \<open>A small mesh\<close>

definition demo_node_doc :: "string \<Rightarrow> string \<Rightarrow> json" where
  "demo_node_doc i signal = JObj [(''id'', JStr i), (''type'', JStr ''policy''), (''name'', JStr i),
     (''question'', JStr ''q''), (''why'', JStr ''w''), (''signals'', JArr [JStr signal]), (''related_agents'', JArr [JStr ''worker'']),
     (''related_files'', JArr []), (''required_checks'', JArr [JStr ''check''])]"

definition demo_directory :: mesh_directory where
  "demo_directory = \<lparr>nodes_listing = Some [(''b.yaml'', Inr (Some (demo_node_doc ''beta'' ''fast''))), (''note.txt'', Inl RangeError),
       (''a.yml'', Inr (Some (demo_node_doc ''alpha'' ''run'')))],
     edges_file = Inr (Some (JObj [(''edges'', JArr [JObj [(''from'', JStr ''alpha''), (''to'', JStr ''beta''),
       (''relation'', JStr ''needs''), (''weight'', JNum (Finite 1)), (''why'', JStr ''w'')]])])),
     rules_file = Inr (Some (JObj [(''rules'', JArr [JObj [(''id'', JStr ''r''), (''title'', JStr ''t''), (''applies_to'', JArr [JStr ''beta'']),
       (''instruction'', JStr ''i''), (''severity'', JStr ''blocker'')]])]))\<rparr>"

definition demo_mesh :: decision_mesh where
  "demo_mesh = projr (loadDecisionMesh ''m'' demo_directory)"

lemma demo_loads: "loadDecisionMesh ''m'' demo_directory = Inr demo_mesh"
  by code_simp

definition demo_packet_input :: agent_packet_input where
  "demo_packet_input = \<lparr>ap_task = ''run it'', ap_agent = ''worker'', ap_token_budget = None, ap_mode = Some Build\<rparr>"

lemma loaded_mesh_is_well_typed_witness:
  "distinct (map node_id (mesh_nodes demo_mesh)) \<and> map node_id (mesh_nodes demo_mesh) = [''alpha'', ''beta'']"
proof
  show "distinct (map node_id (mesh_nodes demo_mesh))" using loaded_mesh_is_well_typed [OF demo_loads] by blast
  show "map node_id (mesh_nodes demo_mesh) = [''alpha'', ''beta'']" by code_simp
qed

lemma mesh_queries_never_throw_witness:
  "is_ok (buildAgentPacket (\<lambda>_ _. 0) demo_mesh demo_packet_input) \<and>
   explainNode (\<lambda>_ _. 0) demo_mesh ''x'' = Inl (Error ''Decision Mesh node not found: x'')"
proof -
  have "''x'' \<notin> set (map node_id (mesh_nodes demo_mesh))" by code_simp
  with mesh_queries_never_throw [OF demo_loads, where i = "''x''" and collate = "\<lambda>_ _. 0"] show ?thesis by auto
qed

lemma budget_never_hides_blockers_witness:
  "\<exists>p. buildAgentPacket (\<lambda>_ _. 0) demo_mesh (demo_packet_input\<lparr>ap_token_budget := Some (Finite 1)\<rparr>) = Inr p \<and>
     ''r'' \<in> set (packet_rules p)"
proof -
  have "case buildAgentPacket (\<lambda>_ _. 0) demo_mesh (demo_packet_input\<lparr>ap_token_budget := Some (Finite 7000)\<rparr>) of
      Inr p \<Rightarrow> map rule_id (blocking_rules demo_mesh (packet_nodes p)) = [''r''] | _ \<Rightarrow> False" by code_simp
  with budget_never_hides_blockers [OF demo_loads, of "Finite 7000" "Finite 1" "\<lambda>_ _. 0" demo_packet_input] show ?thesis by auto
qed

lemma packet_is_governed_witness:
  "case buildAgentPacket (\<lambda>_ _. 0) demo_mesh demo_packet_input of
     Inr p \<Rightarrow> card (set (packet_nodes p)) \<le> 7 \<and> \<not> no_governance_matched p | _ \<Rightarrow> False"
proof -
  have out: "case buildAgentPacket (\<lambda>_ _. 0) demo_mesh demo_packet_input of Inr p \<Rightarrow> \<not> no_governance_matched p | _ \<Rightarrow> False"
    by code_simp
  have "ap_token_budget demo_packet_input \<noteq> Some NotANumber" by code_simp
  from packet_is_governed [OF demo_loads this, of "\<lambda>_ _. 0"] out show ?thesis by (auto split: sum.splits)
qed

end
