(* ===== verification/TokenEfficiency.thy ===== *)
theory TokenEfficiency
  imports JsText
begin

text \<open>
  \<^verbatim>\<open>src/data/delivery-system/tokenEfficiency.ts\<close>: the profiles of compact work, which one a task gets, and how
  wide the context of its packet may be.
\<close>

datatype token_efficiency_profile_id = Caveman | Standard_compact | Review_compact | Research_compact
datatype token_budget_class = Tiny_budget | Small_budget | Medium_budget | Large_budget
datatype width_provider = Any_local | Openai_width | Gemini_width | Anthropic_width

record token_efficiency_profile =
  te_id :: token_efficiency_profile_id
  te_title :: string
  te_budgetClass :: token_budget_class
  te_useFor :: "string list"
  te_contextRules :: "string list"
  te_firstMoves :: "string list"
  te_preferredWorkerOrder :: "string list"
  te_outputRules :: "string list"
  te_escalationRules :: "string list"
  te_stopConditions :: "string list"

record token_efficiency_route =
  ter_profile :: token_efficiency_profile_id
  ter_budgetClass :: token_budget_class
  ter_contextRules :: "string list"
  ter_firstMoves :: "string list"
  ter_preferredWorkerOrder :: "string list"
  ter_outputRules :: "string list"
  ter_escalationRules :: "string list"
  ter_stopConditions :: "string list"

record context_width_spec =
  cw_budgetClass :: token_budget_class
  maxFilesInPacket :: int
  maxContextLines :: int
  requiredSections :: "string list"
  optionalSections :: "string list"
  excludedSections :: "string list"
  preferredProviderForWidth :: width_provider

definition tokenEfficiencyProfiles :: "token_efficiency_profile list" where
  "tokenEfficiencyProfiles =
     [\<lparr>te_id = Caveman, te_title = ''Caveman Mode'', te_budgetClass = Tiny_budget,
       te_useFor = [''known_file_fix'', ''small_patch'', ''test_failure_triage'',
         ''simple_explanation'', ''routine_local_work''],
       te_contextRules = [''one_task_only'', ''read_must_read_files_only'', ''use_rg_before_opening_files'',
         ''prefer_diff_and_error_output_over_full_files'', ''avoid_full_repo_dump''],
       te_firstMoves = [''classify_task'', ''select_capabilities_if_applicable'',
         ''select_local_worker_route'', ''run_deterministic_search_or_targeted_check'',
         ''draft_small_patch_or_answer''],
       te_preferredWorkerOrder = [''deterministic_tools'', ''qwen2_5_coder_7b_fast'',
         ''qwen2_5_coder_14b_max_when_installed'', ''free_cloud_advisory_only_if_blocked''],
       te_outputRules = [''answer_with_decision_and_next_action'', ''avoid_long_background_explanations'',
         ''cite_files_or_commands_used'', ''record_uncertainty_instead_of_guessing''],
       te_escalationRules = [''escalate_when_architecture_or_security_decision_needed'',
         ''escalate_when_context_exceeds_local_worker_scope'', ''escalate_after_repeated_local_failure''],
       te_stopConditions = [''full_repo_dump_requested_without_reason'',
         ''context_too_large_for_caveman_mode'', ''task_requires_architecture_decision'',
         ''paid_model_or_credit_required'', ''output_used_without_review'']\<rparr>,
      \<lparr>te_id = Standard_compact, te_title = ''Standard Compact Mode'', te_budgetClass = Small_budget,
       te_useFor = [''bounded_feature'', ''small_refactor'', ''docs_update'', ''policy_update''],
       te_contextRules = [''relevant_subgraph_first'', ''agent_packet_first'',
         ''read_direct_dependencies_only'', ''summarize_before_adding_context''],
       te_firstMoves = [''classify_task'', ''select_capabilities'', ''get_relevant_subgraph'',
         ''build_agent_packet'', ''select_local_worker_route''],
       te_preferredWorkerOrder = [''deterministic_tools'', ''local_search_index'', ''qwen2_5_coder_7b_fast'',
         ''qwen2_5_coder_14b_max_when_installed''],
       te_outputRules = [''show_changed_surface'', ''state_verification'', ''keep_summary_short''],
       te_escalationRules = [''escalate_for_ambiguous_requirements'', ''escalate_for_cross_module_contracts''],
       te_stopConditions = [''missing_acceptance_criteria'', ''context_source_unclear'',
         ''output_used_without_review'']\<rparr>,
      \<lparr>te_id = Review_compact, te_title = ''Review Compact Mode'', te_budgetClass = Medium_budget,
       te_useFor = [''architecture_review'', ''security_review'', ''code_review'', ''governance_review''],
       te_contextRules = [''read_decision_records_first'', ''read_diff_before_full_files'',
         ''load_only_risk_relevant_files'', ''separate_facts_from_judgment''],
       te_firstMoves = [''select_capabilities'', ''get_relevant_subgraph'', ''build_agent_packet'',
         ''select_reasoning_model_route'', ''verify_claims_locally''],
       te_preferredWorkerOrder = [''deterministic_tools'', ''local_search_index'', ''human_or_frontier_review'',
         ''external_advisory_review'', ''free_cloud_advisory_review''],
       te_outputRules = [''findings_first'', ''file_line_refs_when_available'',
         ''no_long_summary_before_findings''],
       te_escalationRules = [''escalate_when_public_api_auth_payment_or_security_changes'',
         ''escalate_when_evidence_conflicts''],
       te_stopConditions = [''missing_risk_context'', ''private_data_not_redacted'',
         ''model_output_used_as_source_of_truth'', ''paid_model_or_credit_required'']\<rparr>,
      \<lparr>te_id = Research_compact, te_title = ''Research Compact Mode'', te_budgetClass = Medium_budget,
       te_useFor = [''current_docs_check'', ''library_selection'', ''github_project_discovery'',
         ''technology_comparison''],
       te_contextRules = [''primary_sources_first'', ''current_date_check'',
         ''store_only_candidate_summary'', ''do_not_paste_large_docs''],
       te_firstMoves = [''select_capabilities'', ''search_primary_sources'',
         ''check_license_and_activity'', ''update_local_architecture_library''],
       te_preferredWorkerOrder = [''official_docs'', ''github_repository_search'', ''local_architecture_library'',
         ''external_advisory_review'', ''free_cloud_advisory_review''],
       te_outputRules = [''candidate_table_only'', ''license_and_cost_status_required'',
         ''separate_recommendation_from_adoption''],
       te_escalationRules = [''escalate_when_license_or_cost_unknown'', ''escalate_when_runtime_scope_changes''],
       te_stopConditions = [''unverified_technology_claim'', ''license_unknown_for_adoption'',
         ''cloud_dependency_without_free_tier_confirmation'', ''paid_dependency_without_owner_exception'']\<rparr>]"

fun contextWidthSpecs :: "token_budget_class \<Rightarrow> context_width_spec" where
  "contextWidthSpecs Tiny_budget =
     \<lparr>cw_budgetClass = Tiny_budget, maxFilesInPacket = 3, maxContextLines = 200,
      requiredSections = [''goal'', ''allowed_files'', ''forbidden_actions'', ''expected_output''],
      optionalSections = [''verified_facts'', ''stop_conditions''],
      excludedSections = [''full_mesh_packet'', ''architecture_records'', ''work_log'',
         ''dependency_records'', ''skill_registry''],
      preferredProviderForWidth = Any_local\<rparr>"
| "contextWidthSpecs Small_budget =
     \<lparr>cw_budgetClass = Small_budget, maxFilesInPacket = 8, maxContextLines = 600,
      requiredSections = [''goal'', ''scope'', ''allowed_files'', ''forbidden_actions'', ''verified_facts'',
         ''expected_output'', ''required_checks''],
      optionalSections = [''risks'', ''reuse_check'', ''open_questions''],
      excludedSections = [''full_mesh_packet'', ''full_work_log''], preferredProviderForWidth = Openai_width\<rparr>"
| "contextWidthSpecs Medium_budget =
     \<lparr>cw_budgetClass = Medium_budget, maxFilesInPacket = 20, maxContextLines = 2000,
      requiredSections = [''goal'', ''scope'', ''allowed_files'', ''forbidden_actions'', ''verified_facts'',
         ''assumptions'', ''risks'', ''expected_output'', ''required_checks'', ''stop_conditions'',
         ''reuse_check'', ''context_budget''],
      optionalSections = [''architecture_records'', ''dependency_records'', ''learning_signal'',
         ''skill_registry_relevant''],
      excludedSections = [], preferredProviderForWidth = Openai_width\<rparr>"
| "contextWidthSpecs Large_budget =
     \<lparr>cw_budgetClass = Large_budget, maxFilesInPacket = 60, maxContextLines = 8000,
      requiredSections = [''goal'', ''scope'', ''allowed_files'', ''forbidden_actions'',
         ''full_mesh_packet'', ''verified_facts'', ''architecture_records'', ''risks'', ''expected_output'',
         ''required_checks''],
      optionalSections = [''full_work_log'', ''dependency_records''], excludedSections = [],
      preferredProviderForWidth = Gemini_width\<rparr>"

definition requireProfile :: "token_efficiency_profile_id \<Rightarrow> js_error + token_efficiency_profile" where
  "requireProfile i = (case List.find (\<lambda>p. te_id p = i) tokenEfficiencyProfiles of
      None \<Rightarrow> Inl (Error ''Token efficiency profile not found'') | Some p \<Rightarrow> Inr p)"

definition selectProfile :: "string \<Rightarrow> js_error + token_efficiency_profile" where
  "selectProfile normalizedTask =
     (if hasAny normalizedTask [''caveman'', ''token'', ''cheap'', ''minimal'', ''small patch'', ''simple'', ''quick'']
        then requireProfile Caveman
      else if hasAny normalizedTask [''review'', ''security'', ''architecture'', ''audit'', ''governance'', ''payment'', ''auth'']
        then requireProfile Review_compact
      else if hasAny normalizedTask [''research'', ''latest'', ''github'', ''library'', ''docs'', ''technology'', ''context7'']
        then requireProfile Research_compact
      else requireProfile Standard_compact)"

definition selectTokenEfficiencyRoute :: "string \<Rightarrow> js_error + token_efficiency_route" where
  "selectTokenEfficiencyRoute task =
     bind_result (selectProfile (normalize task)) (\<lambda>p.
       Inr \<lparr>ter_profile = te_id p, ter_budgetClass = te_budgetClass p, ter_contextRules = te_contextRules p,
            ter_firstMoves = te_firstMoves p, ter_preferredWorkerOrder = te_preferredWorkerOrder p,
            ter_outputRules = te_outputRules p, ter_escalationRules = te_escalationRules p,
            ter_stopConditions = te_stopConditions p\<rparr>)"

definition selectContextWidth :: "token_efficiency_profile_id \<Rightarrow> string list \<Rightarrow> context_width_spec" where
  "selectContextWidth profile taskComplexitySignals =
     (let normalizedSignals = normalize (js_join '' '' taskComplexitySignals) in
      if hasAny normalizedSignals [''large'', ''long context'', ''full mesh'', ''full work log'', ''many files'']
        then contextWidthSpecs Large_budget
      else if profile = Caveman then contextWidthSpecs Tiny_budget
      else if hasAny normalizedSignals [''cross module'', ''multi file'', ''integration'', ''medium'', ''governance'']
        then contextWidthSpecs Medium_budget
      else if profile = Review_compact \<or> profile = Research_compact then contextWidthSpecs Medium_budget
      else contextWidthSpecs Small_budget)"

end
