(* ===== verification/ModelPolicy.thy ===== *)
theory ModelPolicy
  imports Routing TokenEfficiency
begin

text \<open>
  \<^verbatim>\<open>src/data/delivery-system/modelPolicy.ts\<close>: the reasoning providers and task lanes with their checks, the
  advisory route of a task, and the supervisor's routing decision (which provider a layer's work goes to, given the
  budgets, the recent failures and the circuit breakers); with the learning signal of
  \<^verbatim>\<open>src/data/delivery-system/modelOutputEvaluation.ts\<close> that the decision carries. \<open>collate\<close> is the host's
  collation. The constant fields \<open>accessMode\<close> and \<open>registration\<close> of the two credentialed providers are left out.
\<close>

section \<open>Catalogs\<close>

datatype model_policy_layer = Orchestrator_layer | Architect_layer | Reviewer_layer | Tester_layer | Micro_worker_layer | Bounded_coding_layer | Memory_summarizer_layer | Copywriter_layer

datatype task_lane = Deterministic_verification_lane | Local_routine_worker_lane | Bounded_coding_worker_lane | Structured_tool_reasoning_lane
  | Long_context_synthesis_lane | Multimodal_design_review_lane | Architecture_security_review_lane | Agent_validation_lane | Sensitive_private_context_lane

datatype access_mode = Deterministic_access | Local_access | Session_cli_access | Subscription_cli_access
  | Subscription_interactive_access | Api_or_self_hosted_access | Manual_web_login_access

datatype trust_tier = Local_evidence | High_trust_advisory | Standard_advisory | Bounded_draft | Comparison_only

datatype cli_vendor_selection = Select_codex_cli | Select_agy_cli

record model_policy_rule =
  rule_layer :: model_policy_layer
  preferredCapability :: string
  rule_allowedUse :: string
  rule_forbiddenUse :: string

record reasoning_escalation_policy =
  esc_defaultWorkerLayer :: string
  esc_strategicLayer :: string
  esc_localDefaultUse :: "string list"
  esc_freeCloudAdvisoryUse :: "string list"
  esc_docsVerificationProviders :: "string list"
  esc_frontierEscalationUse :: "string list"
  esc_frontierForbiddenUse :: "string list"
  esc_requiredChecks :: "string list"
  esc_stopConditions :: "string list"

record provider_policy =
  prov_id :: reasoning_provider
  prov_provider :: string
  prov_access :: access_mode
  prov_costGuard :: "string option"
  prov_trust :: trust_tier
  prov_weight :: int
  prov_contextScope :: string
  prov_bestFor :: "string list"
  prov_avoidFor :: "string list"
  prov_requiredChecks :: "string list"
  prov_stopConditions :: "string list"
  prov_sourceIds :: "string list"

record task_lane_policy =
  lane_id :: task_lane
  taskSignals :: "string list"
  preferredProviders :: "reasoning_provider list"
  lane_requiredChecks :: "string list"
  lane_stopConditions :: "string list"

record credentialed_provider_policy =
  cred_id :: string
  cred_provider :: string
  cred_tool :: string
  cred_costGuard :: string
  cred_trust :: trust_tier
  cred_weight :: int
  cred_contextScope :: string
  cred_allowedUse :: "string list"
  cred_forbiddenUse :: "string list"
  cred_requiredChecks :: "string list"
  cred_stopConditions :: "string list"
  cred_sourceDocs :: "string list"

definition modelPolicyRules :: "model_policy_rule list" where
  "modelPolicyRules =
     [\<lparr>rule_layer = Orchestrator_layer, preferredCapability = ''strong reasoning'',
       rule_allowedUse = ''dependency planning and routing'',
       rule_forbiddenUse = ''self-approval or governance bypass''\<rparr>,
      \<lparr>rule_layer = Architect_layer, preferredCapability = ''strong architecture reasoning'',
       rule_allowedUse = ''system design and boundary review'', rule_forbiddenUse = ''silent architecture changes''\<rparr>,
      \<lparr>rule_layer = Reviewer_layer, preferredCapability = ''independent critique'',
       rule_allowedUse = ''quality, security, architecture, and UX review'',
       rule_forbiddenUse = ''approving own implementation''\<rparr>,
      \<lparr>rule_layer = Tester_layer, preferredCapability = ''verification reasoning'',
       rule_allowedUse = ''test strategy, regression checks, and failure summaries'',
       rule_forbiddenUse = ''changing business scope''\<rparr>,
      \<lparr>rule_layer = Micro_worker_layer, preferredCapability = ''bounded code generation'',
       rule_allowedUse = ''small isolated tasks such as tests, DTOs, utilities, and focused bugfixes'',
       rule_forbiddenUse = ''architecture, governance, or business decisions''\<rparr>,
      \<lparr>rule_layer = Bounded_coding_layer, preferredCapability = ''focused implementation'',
       rule_allowedUse = ''bounded implementation with explicit ownership'',
       rule_forbiddenUse = ''unbounded autonomous execution''\<rparr>,
      \<lparr>rule_layer = Memory_summarizer_layer, preferredCapability = ''low-cost summarization'',
       rule_allowedUse = ''summaries, lessons, and run memory compaction'', rule_forbiddenUse = ''final approval''\<rparr>,
      \<lparr>rule_layer = Copywriter_layer, preferredCapability = ''language quality'',
       rule_allowedUse = ''UX copy, documentation wording, and localization review'',
       rule_forbiddenUse = ''scope or architecture approval''\<rparr>]"

fun layerProviderMapping :: "model_policy_layer \<Rightarrow> reasoning_provider" where
  "layerProviderMapping Orchestrator_layer = Anthropic_claude_subscription"
| "layerProviderMapping Architect_layer = Anthropic_claude_subscription"
| "layerProviderMapping Reviewer_layer = Anthropic_claude_subscription"
| "layerProviderMapping Tester_layer = Openai_gpt"
| "layerProviderMapping Micro_worker_layer = Openai_gpt"
| "layerProviderMapping Bounded_coding_layer = Openai_gpt"
| "layerProviderMapping Memory_summarizer_layer = Gemini_cli"
| "layerProviderMapping Copywriter_layer = Openai_gpt"

fun supervisorCliVendorMap :: "model_policy_layer \<Rightarrow> cli_vendor_selection option" where
  "supervisorCliVendorMap Orchestrator_layer = None"
| "supervisorCliVendorMap Architect_layer = Some Select_agy_cli"
| "supervisorCliVendorMap Reviewer_layer = Some Select_agy_cli"
| "supervisorCliVendorMap Tester_layer = Some Select_codex_cli"
| "supervisorCliVendorMap Micro_worker_layer = Some Select_codex_cli"
| "supervisorCliVendorMap Bounded_coding_layer = Some Select_codex_cli"
| "supervisorCliVendorMap Memory_summarizer_layer = None"
| "supervisorCliVendorMap Copywriter_layer = Some Select_agy_cli"

definition resolveCliVendorForLayer :: "model_policy_layer \<Rightarrow> cli_vendor_selection option" where
  "resolveCliVendorForLayer l = supervisorCliVendorMap l"

definition reasoningEscalationPolicy :: reasoning_escalation_policy where
  "reasoningEscalationPolicy =
     \<lparr>esc_defaultWorkerLayer = ''local_swarm'', esc_strategicLayer = ''frontier_reasoning'',
      esc_localDefaultUse = [''boilerplate coding'', ''bounded worker tasks'', ''autocomplete'', ''embeddings'',
         ''RAG retrieval'', ''indexing'', ''automation loops'', ''routine summarization''],
      esc_freeCloudAdvisoryUse = [''brainstorming'', ''architecture second opinion'', ''design critique'',
         ''security critique'', ''planning critique'', ''agent validation'', ''edge-case review'',
         ''research synthesis''],
      esc_docsVerificationProviders = [''context7_when_available'', ''official_docs_fallback'', ''local_files'',
         ''tests'', ''controlled_browser_evidence''],
      esc_frontierEscalationUse = [''deep research'', ''architecture review'', ''security audit'', ''code review'',
         ''agent validation'', ''strategic planning'', ''orchestration design'', ''edge-case reasoning'',
         ''cross-domain tradeoff analysis''],
      esc_frontierForbiddenUse = [''autocomplete'', ''boilerplate coding'', ''embeddings'',
         ''routine summarization'', ''simple tasks'', ''local automation loops'', ''unreviewed worker execution''],
      esc_requiredChecks = [''provider_availability_verified'', ''provider_run_status_recorded'',
         ''model_output_presence_verified'', ''free_tier_or_no_cost_confirmed'',
         ''subscription_entitlement_confirmed_for_subscription_tools'',
         ''google_ai_subscription_entitlement_confirmed_for_gemini_cli'', ''redacted_context_only'',
         ''context7_or_official_docs_verified'', ''gemini_brainstorm_claims_labeled_and_verified'',
         ''factual_claims_verified'', ''smallest_safe_model_class'',
         ''disclose_model_choice_when_risk_affects_delivery''],
      esc_stopConditions = [''non_local_worker_dependency'', ''cloud_model_for_routine_worker_loop'',
         ''frontier_used_for_simple_worker_task'', ''provider_availability_unverified'',
         ''provider_run_failed_without_blocked_state'', ''model_output_missing_from_artifact'',
         ''advisory_workflow_continued_after_provider_error'', ''paid_model_or_credit_required'',
         ''subscription_entitlement_unverified'', ''google_ai_subscription_entitlement_unverified'',
         ''api_credit_path_requested_without_owner_decision'',
         ''gemini_api_key_or_paid_api_path_requested_without_owner_decision'', ''private_data_not_redacted'',
         ''model_output_used_as_source_of_truth'', ''technology_claim_without_context7_or_official_docs'',
         ''gemini_claim_adopted_without_verification'']\<rparr>"

definition reasoningProviderPolicies :: "provider_policy list" where
  "reasoningProviderPolicies =
     [\<lparr>prov_id = Deterministic_tools, prov_provider = ''local'', prov_access = Deterministic_access,
       prov_costGuard = None, prov_trust = Local_evidence, prov_weight = 100,
       prov_contextScope = ''local repository evidence, commands, tests, schemas, and generated artifacts inside the declared workspace'',
       prov_bestFor = [''repository search'', ''tests'', ''typecheck'', ''schema validation'',
         ''diff checks''],
       prov_avoidFor = [''semantic architecture judgment'', ''ambiguous business decisions''],
       prov_requiredChecks = [''local_command_scope_known'', ''no_secret_exfiltration'', ''results_recorded''],
       prov_stopConditions = [''destructive_command_without_owner_approval'', ''unknown_workspace_boundary''],
       prov_sourceIds = [''local-agents-md'', ''decision-mesh-policy'']\<rparr>,
      \<lparr>prov_id = Qwen_local, prov_provider = ''qwen'', prov_access = Local_access, prov_costGuard = None,
       prov_trust = Bounded_draft, prov_weight = 45,
       prov_contextScope = ''bounded local file context for drafts and summaries; supervisor review and tests are required before adoption'',
       prov_bestFor = [''small file-local code drafts'', ''routine test drafts'', ''handoff summaries'',
         ''bounded refactor drafts''],
       prov_avoidFor = [''architecture approval'', ''security approval'', ''business decisions'',
         ''final delivery approval''],
       prov_requiredChecks = [''local_runtime_available'', ''bounded_file_scope'', ''independent_review'',
         ''test_evidence''],
       prov_stopConditions = [''local_model_unavailable'', ''private_secret_in_prompt'', ''broad_ambiguous_scope''],
       prov_sourceIds = [''qwen-chat-template'', ''qwen-function-calling'', ''qwen2-5-7b-model-card'',
         ''qwen2-5-coder-14b-model-card'']\<rparr>,
      \<lparr>prov_id = Openai_gpt, prov_provider = ''openai'', prov_access = Subscription_interactive_access,
       prov_costGuard = Some ''uses_owner_subscription_entitlement_not_api_credit'', prov_trust = High_trust_advisory,
       prov_weight = 85,
       prov_contextScope = ''redacted strategic, structured, or bounded worker context after subscription entitlement and official-doc checks'',
       prov_bestFor = [''structured outputs'', ''tool orchestration'', ''deep reasoning review'',
         ''Codex coding supervision''],
       prov_avoidFor = [''unredacted private context without approval'', ''routine boilerplate loops'',
         ''unchecked pricing assumptions''],
       prov_requiredChecks = [''provider_availability_verified'', ''cost_or_entitlement_confirmed'',
         ''subscription_entitlement_confirmed_for_subscription_tools'', ''serial_task_delegation_required'',
         ''redacted_context_only'', ''official_provider_docs_verified'', ''local_verification_required''],
       prov_stopConditions = [''provider_availability_unverified'', ''subscription_entitlement_unverified'',
         ''parallel_subscription_calls_attempted'', ''mid_task_rate_limit_without_checkpoint'',
         ''paid_model_or_credit_required_without_owner_decision'', ''private_data_not_redacted'',
         ''model_output_used_as_source_of_truth''],
       prov_sourceIds = [''openai-reasoning-best-practices'', ''openai-structured-outputs'',
         ''openai-prompt-engineering'']\<rparr>,
      \<lparr>prov_id = Anthropic_claude_subscription, prov_provider = ''anthropic'',
       prov_access = Subscription_interactive_access, prov_costGuard = None, prov_trust = High_trust_advisory,
       prov_weight = 90,
       prov_contextScope = ''broad repository read after owner scope, excluding secrets, credentials, customer data, raw logs, and unapproved remote mutation paths'',
       prov_bestFor = [''architecture second opinion'', ''security critique'', ''planning critique'',
         ''agent validation'', ''edge-case review''],
       prov_avoidFor = [''API-credit execution without owner decision'', ''default routine worker'',
         ''local automation loops''],
       prov_requiredChecks = [''provider_availability_verified'', ''subscription_entitlement_confirmed'',
         ''authentication_state_verified_without_token_disclosure'', ''redacted_context_only'',
         ''claude_broad_read_scope_owner_scoped'', ''official_provider_docs_verified'',
         ''bounded_scope_declared'', ''local_verification_required''],
       prov_stopConditions = [''provider_availability_unverified'', ''subscription_entitlement_unverified'',
         ''api_credit_path_requested_without_owner_decision'', ''private_data_not_redacted'',
         ''model_output_used_as_source_of_truth'', ''remote_mutation_without_approval''],
       prov_sourceIds = [''anthropic-claude-code-setup'', ''anthropic-claude-code-authentication'',
         ''anthropic-claude-code-memory'', ''anthropic-tool-use'', ''anthropic-context-windows'']\<rparr>,
      \<lparr>prov_id = Gemini_cli, prov_provider = ''google'', prov_access = Subscription_cli_access, prov_costGuard = None,
       prov_trust = Standard_advisory, prov_weight = 70,
       prov_contextScope = ''redacted strategy, brainstorming, multimodal, or selected long-context packets; no broad private repository dump by default'',
       prov_bestFor = [''long-context brainstorming'', ''multimodal critique'',
         ''architecture alternatives'', ''edge-case ideation''],
       prov_avoidFor = [''source-of-truth claims'', ''unredacted private context'',
         ''Gemini API key or paid API path without owner decision'',
         ''free-tier assumption for owner subscription usage'', ''primary implementation worker'',
         ''default fallback when GPT unavailable''],
       prov_requiredChecks = [''provider_availability_verified'',
         ''google_ai_subscription_entitlement_confirmed_for_gemini_cli'',
         ''authentication_state_verified_without_token_disclosure'', ''gemini_session_budget_tracked'',
         ''gemini_not_primary_worker'', ''redacted_context_only'',
         ''gemini_brainstorm_claims_labeled_and_verified'', ''context7_or_official_docs_verified'',
         ''local_verification_required''],
       prov_stopConditions = [''provider_availability_unverified'',
         ''google_ai_subscription_entitlement_unverified'', ''gemini_rate_limit_exhausted_without_pause'',
         ''gemini_used_as_default_worker'', ''gemini_api_key_or_paid_api_path_requested_without_owner_decision'',
         ''private_data_not_redacted'', ''gemini_claim_adopted_without_verification''],
       prov_sourceIds = [''gemini-code-assist-quotas'', ''gemini-subscriptions'', ''gemini-models'',
         ''gemini-long-context'', ''gemini-multimodal-prompt-design'', ''gemini-prompt-design-strategies'']\<rparr>,
      \<lparr>prov_id = Deepseek_api_or_self_hosted, prov_provider = ''deepseek'', prov_access = Api_or_self_hosted_access,
       prov_costGuard = None, prov_trust = Comparison_only, prov_weight = 40,
       prov_contextScope = ''minimal redacted comparison context after cost or self-hosting checks; not a broad private-context lane'',
       prov_bestFor = [''cost-aware coding critique'', ''JSON output'', ''reasoning-model comparison'',
         ''function calling when supported''],
       prov_avoidFor = [''routine local loops'',
         ''tool-calling assumptions on unsupported reasoning models'', ''unverified hosted cost''],
       prov_requiredChecks = [''provider_availability_verified'', ''cost_or_self_hosting_confirmed'',
         ''redacted_context_only'', ''official_provider_docs_verified'', ''local_verification_required''],
       prov_stopConditions = [''provider_availability_unverified'',
         ''paid_model_or_credit_required_without_owner_decision'', ''private_data_not_redacted'',
         ''unsupported_tool_mode_assumed'', ''model_output_used_as_source_of_truth''],
       prov_sourceIds = [''deepseek-reasoning-model'', ''deepseek-json-output'',
         ''deepseek-function-calling'']\<rparr>,
      \<lparr>prov_id = Openrouter_free, prov_provider = ''openrouter'', prov_access = Api_or_self_hosted_access,
       prov_costGuard = None, prov_trust = Bounded_draft, prov_weight = 45,
       prov_contextScope = ''minimal redacted OpenRouter free-model draft context for qwen/qwen3-coder:free and nvidia/nemotron-3-ultra-550b-a55b:free; never sensitive/private context or broad repository dumps'',
       prov_bestFor = [''qwen/qwen3-coder:free code drafts'', ''qwen/qwen3-coder:free test drafts'',
         ''qwen/qwen3-coder:free refactor drafts'', ''nvidia/nemotron-3-ultra-550b-a55b:free planning drafts'',
         ''nvidia/nemotron-3-ultra-550b-a55b:free brainstorming drafts'',
         ''nvidia/nemotron-3-ultra-550b-a55b:free long-context research drafts''],
       prov_avoidFor = [''final delivery approval'', ''security-critical review'',
         ''sensitive/private context'', ''architecture decisions'', ''source-of-truth claims'',
         ''OpenRouter auto-router'', ''paid spill''],
       prov_requiredChecks = [''provider_availability_verified'', ''free_tier_or_no_cost_confirmed'',
         ''redacted_context_only'', ''redaction_before_send'', ''explicit_model_id_allowlist'',
         ''model_output_scored_before_acceptance'', ''eval_recorded_for_output'', ''local_verification_required''],
       prov_stopConditions = [''provider_availability_unverified'', ''private_data_not_redacted'',
         ''broad_private_context_sent_to_lower_trust_model'', ''sensitive_private_context_sent_to_free_route'',
         ''paid_model_or_credit_required_without_owner_decision'', ''openrouter_paid_spill_detected'',
         ''openrouter_auto_router_requested'', ''openrouter_missing_env_key_not_reported_as_missing'',
         ''model_output_used_as_source_of_truth''],
       prov_sourceIds = [''openrouter-free-lane-adr'']\<rparr>,
      \<lparr>prov_id = Deepseek_web_chat_manual, prov_provider = ''deepseek'', prov_access = Manual_web_login_access,
       prov_costGuard = None, prov_trust = Comparison_only, prov_weight = 38,
       prov_contextScope = ''tiny redacted manual web-chat packet through chat.deepseek.com after browser-login availability is verified; no broad private repository context'',
       prov_bestFor = [''free web-chat second opinion'', ''Quick mode low-latency advisory'',
         ''Expert mode reasoning advisory'', ''manual prompt critique''],
       prov_avoidFor = [''CLI or API automation'', ''routine local loops'',
         ''broad private repository context'', ''headless browser automation as a stable runtime'',
         ''final approval''],
       prov_requiredChecks = [''provider_availability_verified'', ''free_tier_or_no_cost_confirmed'',
         ''authentication_state_verified_without_token_disclosure'', ''controlled_browser_evidence_required'',
         ''fresh_chat_started_for_each_mode_test'', ''redacted_context_only'', ''prompt_packet_bounded'',
         ''local_verification_required''],
       prov_stopConditions = [''provider_availability_unverified'', ''authentication_missing'',
         ''browser_session_unavailable'', ''mode_switch_unverified'', ''private_data_not_redacted'',
         ''broad_private_context_sent_to_lower_trust_model'', ''model_output_used_as_source_of_truth''],
       prov_sourceIds = [''deepseek-web-chat'', ''deepseek-thinking-mode'', ''deepseek-first-api-call'',
         ''deepseek-deepcode-integration'']\<rparr>]"

definition reasoningTaskLanePolicies :: "task_lane_policy list" where
  "reasoningTaskLanePolicies =
     [\<lparr>lane_id = Deterministic_verification_lane,
       taskSignals = [''test'', ''typecheck'', ''schema'', ''diff check'', ''audit'', ''build''],
       preferredProviders = [Deterministic_tools],
       lane_requiredChecks = [''local_command_scope_known'', ''results_recorded''],
       lane_stopConditions = [''destructive_command_without_owner_approval'']\<rparr>,
      \<lparr>lane_id = Local_routine_worker_lane,
       taskSignals = [''boilerplate'', ''dto'', ''small patch'', ''routine summarization'', ''indexing''],
       preferredProviders = [Deterministic_tools, Qwen_local],
       lane_requiredChecks = [''local_worker_default'', ''bounded_file_scope'', ''independent_review''],
       lane_stopConditions = [''cloud_model_for_routine_worker_loop'', ''frontier_used_for_simple_worker_task'']\<rparr>,
      \<lparr>lane_id = Bounded_coding_worker_lane,
       taskSignals = [''bounded implementation'', ''focused bugfix'', ''refactor'', ''test generation''],
       preferredProviders = [Qwen_local, Deterministic_tools, Openai_gpt],
       lane_requiredChecks = [''bounded_file_scope'', ''test_evidence'', ''supervisor_reviews_diff_or_claims''],
       lane_stopConditions = [''broad_ambiguous_scope'', ''model_output_used_as_source_of_truth'']\<rparr>,
      \<lparr>lane_id = Structured_tool_reasoning_lane,
       taskSignals = [''structured output'', ''json'', ''tool use'', ''function calling'', ''mcp schema''],
       preferredProviders = [Openai_gpt, Deepseek_api_or_self_hosted, Deterministic_tools],
       lane_requiredChecks = [''official_provider_docs_verified'', ''schema_validation_required'',
         ''local_verification_required''],
       lane_stopConditions = [''unsupported_tool_mode_assumed'',
         ''technology_claim_without_context7_or_official_docs'']\<rparr>,
      \<lparr>lane_id = Long_context_synthesis_lane,
       taskSignals = [''long context'', ''large document'', ''research synthesis'', ''broad planning''],
       preferredProviders = [Gemini_cli, Anthropic_claude_subscription, Openai_gpt],
       lane_requiredChecks = [''redacted_context_only'', ''context7_or_official_docs_verified'',
         ''factual_claims_verified''],
       lane_stopConditions = [''private_data_not_redacted'', ''model_output_used_as_source_of_truth'']\<rparr>,
      \<lparr>lane_id = Multimodal_design_review_lane,
       taskSignals = [''multimodal'', ''screenshot'', ''visual'', ''ux critique'', ''design critique''],
       preferredProviders = [Gemini_cli, Anthropic_claude_subscription, Openai_gpt],
       lane_requiredChecks = [''redacted_context_only'', ''accessibility_claims_verified'',
         ''local_visual_evidence_required''],
       lane_stopConditions = [''private_data_not_redacted'', ''visual_claim_without_evidence'']\<rparr>,
      \<lparr>lane_id = Architecture_security_review_lane,
       taskSignals = [''architecture'', ''security'', ''audit'', ''threat'', ''privacy'', ''edge case''],
       preferredProviders = [Openai_gpt, Anthropic_claude_subscription, Gemini_cli, Deepseek_api_or_self_hosted, Deepseek_web_chat_manual],
       lane_requiredChecks = [''redacted_context_only'', ''independent_review'', ''factual_claims_verified'',
         ''local_verification_required''],
       lane_stopConditions = [''model_output_used_as_source_of_truth'', ''private_data_not_redacted'']\<rparr>,
      \<lparr>lane_id = Agent_validation_lane,
       taskSignals = [''agent validation'', ''supervisor'', ''handoff'', ''routing'', ''orchestration''],
       preferredProviders = [Anthropic_claude_subscription, Openai_gpt, Gemini_cli, Qwen_local],
       lane_requiredChecks = [''handoff_packet_normalized'', ''forbidden_actions_declared'',
         ''local_verification_required''],
       lane_stopConditions = [''raw_agent_output_chained_as_prompt'', ''model_output_used_as_source_of_truth'']\<rparr>,
      \<lparr>lane_id = Sensitive_private_context_lane,
       taskSignals = [''secret'', ''credential'', ''customer data'', ''private repo'', ''sensitive''],
       preferredProviders = [Deterministic_tools, Qwen_local],
       lane_requiredChecks = [''local_only_by_default'', ''secret_redaction_verified'',
         ''owner_exception_required_for_cloud''],
       lane_stopConditions = [''private_data_not_redacted'',
         ''cloud_model_for_sensitive_context_without_owner_exception'']\<rparr>]"

definition credentialedAdvisoryProviderPolicies :: "credentialed_provider_policy list" where
  "credentialedAdvisoryProviderPolicies =
     [\<lparr>cred_id = ''claude_code'', cred_provider = ''anthropic'', cred_tool = ''claude'',
       cred_costGuard = ''uses_owner_subscription_entitlement_not_api_credit'', cred_trust = High_trust_advisory,
       cred_weight = 90,
       cred_contextScope = ''broad repository read after owner scope, excluding secrets, credentials, customer data, raw logs, and unapproved remote mutation paths'',
       cred_allowedUse = [''architecture second opinion'', ''security critique'', ''planning critique'',
         ''agent validation'', ''edge-case review'', ''bounded repo session after owner scope''],
       cred_forbiddenUse = [''default routine worker'', ''local automation loops'', ''final approval'',
         ''governance approval'', ''unredacted private context'', ''unbounded autonomous execution'',
         ''remote mutation without explicit approval''],
       cred_requiredChecks = [''provider_availability_verified'',
         ''authentication_state_verified_without_token_disclosure'', ''subscription_entitlement_confirmed'',
         ''no_api_budget_or_credit_claim'', ''redacted_context_only'', ''claude_broad_read_scope_owner_scoped'',
         ''official_provider_docs_verified'', ''bounded_scope_declared'', ''local_verification_required'',
         ''disclose_model_choice_when_risk_affects_delivery''],
       cred_stopConditions = [''provider_availability_unverified'', ''authentication_missing'',
         ''subscription_entitlement_unverified'', ''api_credit_path_requested_without_owner_decision'',
         ''private_data_not_redacted'', ''model_output_used_as_source_of_truth'',
         ''cloud_model_for_routine_worker_loop'', ''remote_mutation_without_approval''],
       cred_sourceDocs = [''https://code.claude.com/docs/en/setup'', ''https://code.claude.com/docs/en/iam'',
         ''https://code.claude.com/docs/en/memory'']\<rparr>,
      \<lparr>cred_id = ''codex_gpt_worker'', cred_provider = ''openai'', cred_tool = ''codex'',
       cred_costGuard = ''uses_owner_subscription_entitlement_not_api_credit'', cred_trust = High_trust_advisory,
       cred_weight = 85,
       cred_contextScope = ''bounded implementation after a normalized handoff packet, with declared allowed files and forbidden actions'',
       cred_allowedUse = [''bounded implementation with handoff packet'', ''test generation'',
         ''security implementation'', ''business logic'', ''focused bugfix'', ''refactor within declared scope''],
       cred_forbiddenUse = [''architecture decisions'', ''governance approval'', ''orchestration planning'',
         ''self-approval'', ''scope expansion without supervisor handoff''],
       cred_requiredChecks = [''handoff_packet_received_before_start'',
         ''subscription_entitlement_confirmed_for_subscription_tools'', ''serial_task_delegation_required'',
         ''allowed_files_declared'', ''forbidden_actions_declared''],
       cred_stopConditions = [''handoff_packet_missing_before_session_open'',
         ''parallel_subscription_calls_attempted'', ''allowed_files_missing'', ''forbidden_actions_missing'',
         ''scope_expansion_without_supervisor_handoff''],
       cred_sourceDocs = [''prompt-library/01-gpt/codex-bounded-worker.md'', ''AGENTS.md'']\<rparr>]"

section \<open>Lanes and providers of a task\<close>

definition LANE_SELECTION_PRIORITY :: "task_lane list" where
  "LANE_SELECTION_PRIORITY = [Sensitive_private_context_lane, Architecture_security_review_lane, Agent_validation_lane,
     Multimodal_design_review_lane, Long_context_synthesis_lane, Structured_tool_reasoning_lane, Bounded_coding_worker_lane,
     Local_routine_worker_lane, Deterministic_verification_lane]"

definition laneRiskPriority :: "task_lane \<Rightarrow> int" where
  "laneRiskPriority l = (case findIndex (\<lambda>m. m = l) LANE_SELECTION_PRIORITY of
      None \<Rightarrow> int (length LANE_SELECTION_PRIORITY) | Some i \<Rightarrow> int i)"

definition matching_lanes :: "string \<Rightarrow> task_lane list" where
  "matching_lanes normalizedTask =
     map lane_id (filter (\<lambda>l. hasAny normalizedTask (taskSignals l)) reasoningTaskLanePolicies)"

definition selectTaskLanes :: "string \<Rightarrow> task_lane list" where
  "selectTaskLanes normalizedTask =
     (let matches = matching_lanes normalizedTask in
      if length matches = 0 then [Architecture_security_review_lane]
      else sort_by (\<lambda>a b. laneRiskPriority a - laneRiskPriority b) (js_unique matches))"

definition find_lane :: "task_lane \<Rightarrow> task_lane_policy option" where
  "find_lane i = List.find (\<lambda>l. lane_id l = i) reasoningTaskLanePolicies"

definition find_provider_policy :: "reasoning_provider \<Rightarrow> provider_policy option" where
  "find_provider_policy i = List.find (\<lambda>p. prov_id p = i) reasoningProviderPolicies"

definition selectProviderPolicies :: "task_lane list \<Rightarrow> reasoning_provider list" where
  "selectProviderPolicies taskLanes =
     js_unique (concat (map (\<lambda>i. case find_lane i of None \<Rightarrow> [] | Some l \<Rightarrow> preferredProviders l) taskLanes))"

definition requiredChecksForProviders :: "reasoning_provider list \<Rightarrow> string list" where
  "requiredChecksForProviders ps =
     concat (map (\<lambda>i. case find_provider_policy i of None \<Rightarrow> [] | Some p \<Rightarrow> prov_requiredChecks p) ps)"

definition stopConditionsForProviders :: "reasoning_provider list \<Rightarrow> string list" where
  "stopConditionsForProviders ps =
     concat (map (\<lambda>i. case find_provider_policy i of None \<Rightarrow> [] | Some p \<Rightarrow> prov_stopConditions p) ps)"

definition requiredChecksForTaskLanes :: "task_lane list \<Rightarrow> string list" where
  "requiredChecksForTaskLanes ls =
     concat (map (\<lambda>i. case find_lane i of None \<Rightarrow> [] | Some l \<Rightarrow> lane_requiredChecks l) ls)"

definition stopConditionsForTaskLanes :: "task_lane list \<Rightarrow> string list" where
  "stopConditionsForTaskLanes ls =
     concat (map (\<lambda>i. case find_lane i of None \<Rightarrow> [] | Some l \<Rightarrow> lane_stopConditions l) ls)"

definition advisory_allowed :: "string \<Rightarrow> reasoning_provider \<Rightarrow> bool" where
  "advisory_allowed normalizedTask p =
     (case p of
        Anthropic_claude_subscription \<Rightarrow> hasAny normalizedTask [''claude'', ''anthropic'', ''subscription'']
      | Openai_gpt \<Rightarrow> hasAny normalizedTask [''openai'', ''gpt'', ''structured output'', ''function calling'', ''tool use'']
      | Deepseek_api_or_self_hosted \<Rightarrow>
          hasAny normalizedTask [''deepseek'', ''json'', ''function calling'', ''cost aware'', ''api'', ''self hosted'']
      | Deepseek_web_chat_manual \<Rightarrow>
          hasAny normalizedTask [''deepseek'', ''web chat'', ''web login'', ''manual'', ''quick'', ''expert'', ''free'']
      | _ \<Rightarrow> p = Gemini_cli \<or> p = Qwen_local \<or> p = Deterministic_tools)"

definition selectAdvisoryProviders :: "string \<Rightarrow> reasoning_provider list \<Rightarrow> string list" where
  "selectAdvisoryProviders normalizedTask providerPolicies =
     (let providers = filter (advisory_allowed normalizedTask) providerPolicies;
          normalizedProviders = (if length providers > 0 then providers else providerPolicies);
          advisoryProviders = map (\<lambda>p. if p = Deterministic_tools then ''local_deterministic_tools'' else provider_id p)
            normalizedProviders
      in if ''gemini_cli'' \<in> set advisoryProviders
         then js_unique (advisoryProviders @ [''provider_neutral_subscription_or_free_advisory_model'', ''local_llm_when_available''])
         else js_unique (advisoryProviders @ [''local_llm_when_available'']))"

section \<open>The advisory route\<close>

datatype reasoning_route = Local_worker_default | Free_cloud_advisory_review | External_advisory_review

record reasoning_route_result =
  rrr_route :: reasoning_route
  rrr_taskLanes :: "task_lane list"
  rrr_providerPolicies :: "reasoning_provider list"
  rrr_advisoryProviders :: "string list"
  rrr_docsVerification :: "string list"
  rrr_allowedUse :: "string list"
  rrr_forbiddenUse :: "string list"
  rrr_requiredChecks :: "string list"
  rrr_stopConditions :: "string list"

definition is_routine :: "string \<Rightarrow> bool" where
  "is_routine normalizedTask = hasAny normalizedTask [''autocomplete'', ''boilerplate'', ''dto'', ''embeddings'', ''indexing'',
     ''automation loop'', ''routine summarization'', ''simple task'']"

definition benefits_from_advisory :: "string \<Rightarrow> bool" where
  "benefits_from_advisory normalizedTask = hasAny normalizedTask [''brainstorm'', ''critique'', ''review'', ''architecture'',
     ''security'', ''audit'', ''planning'', ''edge case'', ''research'', ''reasoning'', ''validation'']"

definition selectReasoningModelRoute :: "string \<Rightarrow> reasoning_route_result" where
  "selectReasoningModelRoute task =
     (let normalizedTask = normalize task in
      if benefits_from_advisory normalizedTask \<and> \<not> is_routine normalizedTask then
        let taskLanes = selectTaskLanes normalizedTask; providerPolicies = selectProviderPolicies taskLanes in
        \<lparr>rrr_route = External_advisory_review, rrr_taskLanes = taskLanes, rrr_providerPolicies = providerPolicies,
         rrr_advisoryProviders = selectAdvisoryProviders normalizedTask providerPolicies,
         rrr_docsVerification = esc_docsVerificationProviders reasoningEscalationPolicy,
         rrr_allowedUse = esc_freeCloudAdvisoryUse reasoningEscalationPolicy,
         rrr_forbiddenUse = esc_frontierForbiddenUse reasoningEscalationPolicy,
         rrr_requiredChecks = js_unique (esc_requiredChecks reasoningEscalationPolicy @
           requiredChecksForProviders providerPolicies @ requiredChecksForTaskLanes taskLanes),
         rrr_stopConditions = js_unique (esc_stopConditions reasoningEscalationPolicy @
           stopConditionsForProviders providerPolicies @ stopConditionsForTaskLanes taskLanes)\<rparr>
      else
        \<lparr>rrr_route = Local_worker_default, rrr_taskLanes = [Local_routine_worker_lane],
         rrr_providerPolicies = [Deterministic_tools, Qwen_local],
         rrr_advisoryProviders = [''local_worker'', ''local_llm_when_available''],
         rrr_docsVerification = esc_docsVerificationProviders reasoningEscalationPolicy,
         rrr_allowedUse = esc_localDefaultUse reasoningEscalationPolicy,
         rrr_forbiddenUse = [''architecture decisions'', ''business decisions'', ''governance approval'', ''security approval'',
           ''unbounded autonomous execution'', ''final delivery approval''],
         rrr_requiredChecks = [''local_worker_default'', ''smallest_safe_model_class'', ''disclose_model_choice_when_risk_affects_delivery''],
         rrr_stopConditions = [''cloud_model_for_routine_worker_loop'', ''frontier_used_for_simple_worker_task'',
           ''model_output_used_as_source_of_truth'']\<rparr>)"

section \<open>Learning signals\<close>

datatype provider_family = Openai_family | Anthropic_family | Google_family | Qwen_family | Deepseek_family | Local_family | Unknown_family

datatype quality_state = Needs_scoring | Accepted_state | Retry_with_tuning | Review_route | Blocked_state

record eval_record =
  eval_taskType :: string
  eval_provider :: provider_family
  eval_state :: quality_state
  scoreAverage :: js_number
  failureLabels :: "string list"
  rerunCount :: js_number

datatype recommended_delta = Tighten_allowed_files | Decompose_task | Switch_to_qwen | No_change
datatype confidence_source = Eval_records | Single_observation | No_data

record learning_signal =
  ls_taskType :: string
  ls_provider :: provider_family
  recentFailureCount :: nat
  lastFailureLabels :: "string list"
  recommendedDelta :: recommended_delta
  confidenceSource :: confidence_source

definition repeatedFailureLimit :: nat where "repeatedFailureLimit = 3"

definition recommendDelta :: "provider_family \<Rightarrow> eval_record list \<Rightarrow> string list \<Rightarrow> recommended_delta" where
  "recommendDelta p failureRecords labels =
     (if length failureRecords = 0 then No_change
      else if list_ex (\<lambda>l. l \<in> set [''privacy_safety'', ''format_contract'', ''allowed_files'']) labels then Tighten_allowed_files
      else if length failureRecords \<ge> repeatedFailureLimit
        then (if p = Openai_family then Switch_to_qwen else Decompose_task)
      else No_change)"

definition deriveLearningSignal :: "string \<Rightarrow> provider_family \<Rightarrow> eval_record list \<Rightarrow> learning_signal" where
  "deriveLearningSignal taskType p records =
     (let matching = filter (\<lambda>r. eval_taskType r = taskType \<and> eval_provider r = p) records;
          failures = filter (\<lambda>r. eval_state r \<noteq> Accepted_state) matching;
          labels = (if failures = [] then [] else failureLabels (last failures))
      in \<lparr>ls_taskType = taskType, ls_provider = p, recentFailureCount = length failures, lastFailureLabels = labels,
          recommendedDelta = recommendDelta p failures labels,
          confidenceSource = (if length matching = 0 then No_data else if length matching = 1 then Single_observation
            else Eval_records)\<rparr>)"

section \<open>The routing decision\<close>

fun layer_name :: "model_policy_layer \<Rightarrow> string" where
  "layer_name Orchestrator_layer = ''orchestrator''"
| "layer_name Architect_layer = ''architect''"
| "layer_name Reviewer_layer = ''reviewer''"
| "layer_name Tester_layer = ''tester''"
| "layer_name Micro_worker_layer = ''micro_worker''"
| "layer_name Bounded_coding_layer = ''bounded_coding''"
| "layer_name Memory_summarizer_layer = ''memory_summarizer''"
| "layer_name Copywriter_layer = ''copywriter''"

fun providerFamilyForReasoningProvider :: "reasoning_provider \<Rightarrow> provider_family" where
  "providerFamilyForReasoningProvider Openai_gpt = Openai_family"
| "providerFamilyForReasoningProvider Anthropic_claude_subscription = Anthropic_family"
| "providerFamilyForReasoningProvider Gemini_cli = Google_family"
| "providerFamilyForReasoningProvider Qwen_local = Qwen_family"
| "providerFamilyForReasoningProvider Deepseek_api_or_self_hosted = Deepseek_family"
| "providerFamilyForReasoningProvider Deepseek_web_chat_manual = Deepseek_family"
| "providerFamilyForReasoningProvider Openrouter_free = Unknown_family"
| "providerFamilyForReasoningProvider Deterministic_tools = Local_family"

definition advisoryTrustTierForProvider :: "reasoning_provider \<Rightarrow> js_error + trust_tier" where
  "advisoryTrustTierForProvider p = (case find_provider_policy p of
      None \<Rightarrow> Inl (Error (''Reasoning provider policy not found: '' @ provider_id p)) | Some q \<Rightarrow> Inr (prov_trust q))"

datatype authority_role = Advisory_role | Source_of_truth_role | Authoritative_role

text \<open>The text of the refusal, which names the trust tier and the role, is shortened to its head.\<close>

definition assertRoleConstraint :: "reasoning_provider \<Rightarrow> trust_tier option \<Rightarrow> authority_role \<Rightarrow> js_error + unit" where
  "assertRoleConstraint p tier role =
     bind_result (case tier of Some t \<Rightarrow> Inr t | None \<Rightarrow> advisoryTrustTierForProvider p) (\<lambda>t.
       if role = Advisory_role \<or> t = Local_evidence then Inr ()
       else Inl (Error (''model_output_used_as_source_of_truth: '' @ provider_id p)))"

text \<open>\<open>Object.fromEntries\<close> keeps the last budget of a provider. Both special cases return the mapped provider.\<close>

definition selectModelForLayer :: "model_policy_layer \<Rightarrow> (reasoning_provider \<times> rate_limit_state) list \<Rightarrow> reasoning_provider" where
  "selectModelForLayer layer providerStatuses =
     (let p = layerProviderMapping layer; state = map_of (rev providerStatuses) p in
      if p = Gemini_cli \<and> (state = Some RateLimited \<or> state = Some RateExhausted) then Gemini_cli
      else if p = Anthropic_claude_subscription \<and> (state = Some RateLimited \<or> state = Some RateExhausted)
        then Anthropic_claude_subscription
      else p)"

record routing_input =
  ri_taskId :: string
  ri_task :: string
  ri_layer :: model_policy_layer
  ri_budgets :: "session_budget list"
  ri_evalRecords :: "eval_record list"
  ri_failures :: "tier_failure list option"
  ri_thresholds :: "circuit_thresholds option"
  ri_now :: "stamp option"

definition resolveRoutingCircuitStates :: "(string \<Rightarrow> string \<Rightarrow> int) \<Rightarrow> routing_input \<Rightarrow> js_error + circuit_state list" where
  "resolveRoutingCircuitStates collate i =
     (let recent = (case ri_failures i of None \<Rightarrow> [] | Some fs \<Rightarrow> fs) in
      if length recent = 0 then Inr []
      else case ri_now i of
          None \<Rightarrow> Inl (Error ''routing_circuit_now_required: pass an injected now when recentFailureSignals are provided'')
        | Some now \<Rightarrow> computeTierCircuitState collate recent
            (case ri_thresholds i of None \<Rightarrow> DEFAULT_TIER_CIRCUIT_BREAKER_THRESHOLDS | Some th \<Rightarrow> th) now)"

definition isHardRouteAllowed :: "reasoning_provider \<Rightarrow> session_budget list \<Rightarrow> circuit_state list \<Rightarrow> bool" where
  "isHardRouteAllowed p budgets cs =
     (case List.find (\<lambda>b. budget_provider b = p) budgets of
        None \<Rightarrow> \<not> isTierCircuitOpen cs p None
      | Some b \<Rightarrow> if isActiveTierExplicitlyUnverified b then False else \<not> isTierCircuitOpen cs p (activeTierId b))"

definition selectHardAllowedProvider ::
  "reasoning_provider \<Rightarrow> task_lane \<Rightarrow> session_budget list \<Rightarrow> circuit_state list \<Rightarrow> reasoning_provider option" where
  "selectHardAllowedProvider preferred lane budgets cs =
     List.find (\<lambda>p. isHardRouteAllowed p budgets cs)
       (js_unique (preferred # selectProviderPolicies [lane] @ [Qwen_local, Deterministic_tools]))"

definition selectDecisionFallbackProvider ::
  "fallback_step option \<Rightarrow> reasoning_provider \<Rightarrow> string option \<Rightarrow> rate_limit_state \<Rightarrow> fallback_target" where
  "selectDecisionFallbackProvider fallback assigned tier state =
     (let closed = (if state = RateLimited \<or> state = RateExhausted then Blocked else ToProvider assigned) in
      case fallback of
        None \<Rightarrow> closed
      | Some step \<Rightarrow> if \<not> isSelfFallbackRoute assigned tier (toTarget step) (toTierId step) then toTarget step else closed)"

record routing_decision =
  rd_taskId :: string
  rd_layer :: model_policy_layer
  rd_profile :: token_efficiency_profile_id
  rd_width :: context_width_spec
  rd_lane :: task_lane
  assignedProvider :: reasoning_provider
  assignedTierId :: "string option"
  subscriptionBudgetState :: rate_limit_state
  fallbackProvider :: fallback_target
  rd_learning :: learning_signal
  preferred_skipped :: bool

text \<open>The reasoning text is represented by the one fact it reports beyond the other fields: whether the preferred
  provider was skipped.\<close>

definition buildSupervisorRoutingDecision ::
  "(string \<Rightarrow> string \<Rightarrow> int) \<Rightarrow> routing_input \<Rightarrow> js_error + routing_decision" where
  "buildSupervisorRoutingDecision collate i =
     bind_result (selectTokenEfficiencyRoute (ri_task i)) (\<lambda>route.
       let width = selectContextWidth (ter_profile route) [layer_name (ri_layer i), ri_task i];
           lane = (case selectTaskLanes (normalize (ri_task i)) of [] \<Rightarrow> Bounded_coding_worker_lane | l # _ \<Rightarrow> l);
           statuses = map (\<lambda>b. (budget_provider b, activeTierRateLimitState b)) (ri_budgets i);
           preferred = selectModelForLayer (ri_layer i) statuses in
       bind_result (resolveRoutingCircuitStates collate i) (\<lambda>cs.
         let assigned = (case selectHardAllowedProvider preferred lane (ri_budgets i) cs of None \<Rightarrow> preferred | Some p \<Rightarrow> p);
             budget = List.find (\<lambda>b. budget_provider b = assigned) (ri_budgets i);
             state = (case budget of None \<Rightarrow> RateUnknown | Some b \<Rightarrow> activeTierRateLimitState b);
             tier = (case budget of None \<Rightarrow> None | Some b \<Rightarrow> activeTierId b) in
         bind_result (case budget of None \<Rightarrow> Inr None
             | Some b \<Rightarrow> resolveFallback collate (if state = RateLimited then OnRateLimited else ProviderUnavailable) assigned b
                 \<lparr>fo_chain = None, fo_budgets = Some (ri_budgets i), fo_recentFailureSignals = ri_failures i,
                  fo_thresholds = ri_thresholds i, fo_now = ri_now i\<rparr>) (\<lambda>fallback.
         bind_result (assertRoleConstraint assigned None Advisory_role) (\<lambda>_.
           Inr \<lparr>rd_taskId = ri_taskId i, rd_layer = ri_layer i, rd_profile = ter_profile route, rd_width = width, rd_lane = lane,
                assignedProvider = assigned, assignedTierId = tier, subscriptionBudgetState = state,
                fallbackProvider = selectDecisionFallbackProvider fallback assigned tier state,
                rd_learning = deriveLearningSignal (layer_name (ri_layer i)) (providerFamilyForReasoningProvider assigned)
                  (ri_evalRecords i),
                preferred_skipped = (assigned \<noteq> preferred)\<rparr>))))"

end
