(* ===== verification/Dispatch.thy ===== *)
theory Dispatch
  imports TokenGateway ApprovalQueue RunPolicy ModelPolicy MeshLoad
begin

text \<open>
  \<^verbatim>\<open>src/governed-core/dispatch.ts\<close>: the one way a handoff reaches a vendor. The handoff's packet hash is compared
  with the packet of the live mesh, its routing decision, checks, lane and provenance are tested, tokens are
  reserved, the worker runs, and the reservation is settled or released.

  The worker (\<^verbatim>\<open>cliWorker.ts\<close>, which spawns the vendor's process) is a parameter: while it is awaited other calls may
  use the same gateway, so it maps a gateway to a gateway and a result, or throws. The hash functions are parameters
  too. Records are extended as in the code: a handoff is a worker's input with the fields of governance. The
  telemetry lines are those the code tries to append; appending never affects a dispatch.
\<close>

section \<open>Handoffs and results\<close>

datatype codex_mode = Codex_implement | Codex_review | Codex_research

record worker_input =
  wi_handoffId :: string
  wi_sessionId :: "string option"
  wi_skillIds :: "string list option"
  wi_vendor :: cli_vendor
  wi_prompt :: utf16
  wi_outputSchemaPath :: "string option"
  wi_codexMode :: "codex_mode option"
  wi_openrouterMode :: "openrouter_mode option"
  wi_routingMode :: "routing_mode option"
  wi_taskPacketRef :: "string option"
  wi_model :: "string option"
  wi_parentSessionHash :: string
  wi_parentTurnHash :: string
  wi_timeoutMs :: "js_number option"
  wi_cwd :: "string option"
  wi_addDirs :: "string list option"
  wi_images :: "string list option"
  wi_lockSource :: "string option"
  wi_maxPromptChars :: "js_number option"
  wi_generationSettings :: "json option"
  wi_supervisorOwnsRetry :: "bool option"

record routing_context =
  rc_layer :: model_policy_layer
  rc_budgets :: "session_budget list"
  rc_evalRecords :: "eval_record list"
  rc_failures :: "tier_failure list option"
  rc_thresholds :: "circuit_thresholds option"
  rc_now :: "stamp option"

record work_unit =
  work_unit_id :: string
  work_unit_class :: work_class
  work_unit_risk :: work_risk

record handoff_efficiency =
  he_work_unit :: work_unit
  he_profile :: stored_profile
  he_actual_reasoning :: "string option"

record governed_handoff = worker_input +
  gh_task :: string
  gh_agent :: string
  gh_packet_hash :: string
  gh_required_checks :: "string list"
  gh_routing_mode :: "routing_mode option"
  gh_task_package_hash :: "string option"
  gh_prep_provenance :: "prep_provenance option"
  gh_routing :: "routing_context option"
  gh_efficiency :: "handoff_efficiency option"

record worker_result =
  wr_workerRunId :: string
  wr_handoffId :: string
  wr_vendor :: cli_vendor
  wr_model :: "string option"
  wr_exitCode :: int
  wr_rawOutput :: utf16
  wr_parsedJson :: "json option"
  wr_durationSeconds :: js_number
  wr_lockStatus :: lock_status
  wr_workerOutputPath :: "string option"
  wr_errorReason :: "string option"
  wr_missing :: bool

datatype refusal_reason = Packet_provenance_mismatch | Routing_no_viable_provider | Missing_required_checks
  | Lane_not_allowed_in_mode | Missing_upstream_draft | Token_budget_exhausted

text \<open>A dispatched result has a verified provenance and the tier, a refusal its reason, tier and provenance.\<close>

datatype dispatch_outcome =
    Dispatched worker_result "string option"
  | Refused refusal_reason "string option" bool

datatype decision_kind = Decision_dispatched | Decision_refused

record decision_record =
  dd_recorded_at :: stamp
  dd_handoff_id :: string
  dd_task_hash :: string
  dd_agent :: string
  dd_vendor :: cli_vendor
  dd_routing_mode :: "routing_mode option"
  dd_resolved_lane :: "routing_lane option"
  dd_tier_id :: "string option"
  dd_decision :: decision_kind
  dd_refusal_reason :: "refusal_reason option"

datatype efficiency_status = Eff_started | Eff_completed | Eff_refused | Eff_failed

record efficiency_event =
  ee_recorded_at :: stamp
  ee_work_unit :: work_unit
  ee_profile :: stored_profile
  ee_handoff_id :: string
  ee_actual_model :: "string option"
  ee_actual_reasoning :: "string option"
  ee_status :: efficiency_status
  ee_total_attempts :: nat
  ee_attempt_delta_recorded :: bool

section \<open>Hashes and small tests\<close>

definition DEFAULT_AGENT_PACKET_TOKEN_BUDGET :: int where "DEFAULT_AGENT_PACKET_TOKEN_BUDGET = 8000"
definition VERIFIED_LOCK_SOURCE :: string where "VERIFIED_LOCK_SOURCE = ''governed_dispatch_verified''"

fun routing_mode_name :: "routing_mode \<Rightarrow> string" where
  "routing_mode_name Idea = ''idea''" | "routing_mode_name Spec = ''spec''"
| "routing_mode_name Build = ''build''" | "routing_mode_name Review = ''review''"

fun vendor_name :: "cli_vendor \<Rightarrow> string" where
  "vendor_name V_codex_cli = ''codex_cli''" | "vendor_name V_claude_cli = ''claude_cli''"
| "vendor_name V_agy_cli = ''agy_cli''" | "vendor_name V_openrouter_api = ''openrouter_api''"

text \<open>\<open>digest\<close> is the SHA-256 of the JSON text of a value, \<open>sha\<close> that of a text.\<close>

definition canonical_packet :: "agent_packet \<Rightarrow> routing_mode option \<Rightarrow> json" where
  "canonical_packet p mode =
     (let strings = (\<lambda>xs. JArr (map JStr (sort xs))) in
      JObj [(''relevant_nodes'', strings (packet_nodes p)), (''rules'', strings (packet_rules p)),
        (''required_checks'', strings (packet_required_checks p)), (''stop_conditions'', strings (packet_stop_conditions p)),
        (''must_not_assume'', strings (packet_must_not_assume p)),
        (''routing_mode'', case mode of None \<Rightarrow> JNull | Some m \<Rightarrow> JStr (routing_mode_name m))])"

definition computePacketHash :: "(json \<Rightarrow> string) \<Rightarrow> agent_packet \<Rightarrow> routing_mode option \<Rightarrow> string" where
  "computePacketHash digest p mode = digest (canonical_packet p mode)"

definition resolveHandoffLane :: "governed_handoff \<Rightarrow> routing_lane option" where
  "resolveHandoffLane h = (case resolveRoutingLane (wi_vendor h) (wi_openrouterMode h) (wi_model h) of
      Inl _ \<Rightarrow> None | Inr lane \<Rightarrow> Some lane)"

definition hasNonEmptyString :: "string option \<Rightarrow> bool" where
  "hasNonEmptyString v \<longleftrightarrow> (case v of None \<Rightarrow> False | Some s \<Rightarrow> length (js_trim s) > 0)"

text \<open>Whether a decision assigns a provider: \<open>assignedProvider\<close> is a non-empty string other than \<open>none\<close>.\<close>

definition hasViableAssignedProvider :: "routing_decision \<Rightarrow> bool" where
  "hasViableAssignedProvider d \<longleftrightarrow> length (provider_id (assignedProvider d)) > 0 \<and> provider_id (assignedProvider d) \<noteq> ''none''"

text \<open>The tier: \<open>Inr None\<close> is \<open>undefined\<close> (no viable provider), \<open>Inr (Some tier)\<close> the tier or \<open>null\<close>.\<close>

definition resolveTierId :: "(string \<Rightarrow> string \<Rightarrow> int) \<Rightarrow> governed_handoff \<Rightarrow> js_error + string option option" where
  "resolveTierId collate h =
     (case gh_routing h of
        None \<Rightarrow> Inr (Some None)
      | Some c \<Rightarrow>
          bind_result (buildSupervisorRoutingDecision collate
              \<lparr>ri_taskId = wi_handoffId h, ri_task = gh_task h, ri_layer = rc_layer c, ri_budgets = rc_budgets c,
               ri_evalRecords = rc_evalRecords c, ri_failures = rc_failures c, ri_thresholds = rc_thresholds c,
               ri_now = rc_now c\<rparr>) (\<lambda>d.
            if \<not> hasViableAssignedProvider d then Inr None else Inr (Some (assignedTierId d))))"

definition toCliWorkerInput :: "governed_handoff \<Rightarrow> worker_input" where
  "toCliWorkerInput h =
     (let governedAgyDefaultModel =
        (if wi_vendor h = V_agy_cli \<and> wi_model h = None then Some AGY_FAST_DEFAULT else None) in
      \<lparr>wi_handoffId = wi_handoffId h, wi_sessionId = wi_sessionId h, wi_skillIds = wi_skillIds h, wi_vendor = wi_vendor h,
       wi_prompt = wi_prompt h, wi_outputSchemaPath = wi_outputSchemaPath h, wi_codexMode = wi_codexMode h,
       wi_openrouterMode = wi_openrouterMode h, wi_routingMode = gh_routing_mode h, wi_taskPacketRef = wi_taskPacketRef h,
       wi_model = (case governedAgyDefaultModel of Some m \<Rightarrow> Some m | None \<Rightarrow> wi_model h),
       wi_parentSessionHash = wi_parentSessionHash h, wi_parentTurnHash = wi_parentTurnHash h,
       wi_timeoutMs = wi_timeoutMs h, wi_cwd = wi_cwd h, wi_addDirs = wi_addDirs h, wi_images = wi_images h,
       wi_lockSource = Some VERIFIED_LOCK_SOURCE, wi_maxPromptChars = wi_maxPromptChars h,
       wi_generationSettings = None, wi_supervisorOwnsRetry = Some True\<rparr>)"

definition workerSucceeded :: "worker_result \<Rightarrow> bool" where
  "workerSucceeded r \<longleftrightarrow> wr_exitCode r = 0 \<and> wr_errorReason r = None"

fun refusal_code_name :: "token_refusal_code \<Rightarrow> string" where
  "refusal_code_name token_input_cap_exceeded = ''token_input_cap_exceeded''"
| "refusal_code_name token_output_cap_exceeded = ''token_output_cap_exceeded''"
| "refusal_code_name token_budget_exhausted = ''token_budget_exhausted''"
| "refusal_code_name token_reservation_missing = ''token_reservation_missing''"
| "refusal_code_name token_route_mismatch = ''token_route_mismatch''"
| "refusal_code_name token_settlement_exceeds_reservation = ''token_settlement_exceeds_reservation''"
| "refusal_code_name token_reservation_limit = ''token_reservation_limit''"

fun gateway_throw :: "gateway_error \<Rightarrow> js_error" where
  "gateway_throw (TokenGatewayError c) = Error (refusal_code_name c)"
| "gateway_throw (GatewayError m) = Error m"

section \<open>Telemetry\<close>

record dispatch_env =
  de_collate :: "string \<Rightarrow> string \<Rightarrow> int"
  de_digest :: "json \<Rightarrow> string"
  de_sha :: "string \<Rightarrow> string"
  de_mesh :: "js_error + decision_mesh"
  de_limits :: token_gateway_limits
  de_fits :: "gateway_state \<Rightarrow> bool"
  de_rid :: string
  de_now :: stamp

text \<open>The gateway in use (\<open>None\<close> before one is opened), and the lines of the two telemetry files.\<close>

record dispatch_state =
  ds_gateway :: "gateway option"
  ds_decisions :: "decision_record list"
  ds_efficiency :: "efficiency_event list"

definition buildDispatchDecisionRecord ::
  "dispatch_env \<Rightarrow> governed_handoff \<Rightarrow> string option \<Rightarrow> decision_kind \<Rightarrow> refusal_reason option \<Rightarrow> decision_record" where
  "buildDispatchDecisionRecord E h tier decision reason =
     \<lparr>dd_recorded_at = de_now E, dd_handoff_id = wi_handoffId h, dd_task_hash = de_sha E (gh_task h), dd_agent = gh_agent h,
      dd_vendor = wi_vendor h, dd_routing_mode = gh_routing_mode h, dd_resolved_lane = resolveHandoffLane h,
      dd_tier_id = tier, dd_decision = decision, dd_refusal_reason = reason\<rparr>"

definition buildEfficiencyTelemetryEvent ::
  "dispatch_env \<Rightarrow> governed_handoff \<Rightarrow> handoff_efficiency \<Rightarrow> string option \<Rightarrow> efficiency_status \<Rightarrow> efficiency_event" where
  "buildEfficiencyTelemetryEvent E h e actualModel status' =
     \<lparr>ee_recorded_at = de_now E, ee_work_unit = he_work_unit e, ee_profile = he_profile e, ee_handoff_id = wi_handoffId h,
      ee_actual_model = actualModel, ee_actual_reasoning = he_actual_reasoning e, ee_status = status',
      ee_total_attempts = 1, ee_attempt_delta_recorded = False\<rparr>"

definition recordEfficiencyStatus ::
  "dispatch_env \<Rightarrow> governed_handoff \<Rightarrow> efficiency_status \<Rightarrow> string option \<Rightarrow> dispatch_state \<Rightarrow> dispatch_state" where
  "recordEfficiencyStatus E h status' actualModel s =
     (case gh_efficiency h of
        None \<Rightarrow> s
      | Some e \<Rightarrow> s\<lparr>ds_efficiency := ds_efficiency s @ [buildEfficiencyTelemetryEvent E h e actualModel status']\<rparr>)"

definition recordDispatchDecision ::
  "dispatch_env \<Rightarrow> governed_handoff \<Rightarrow> decision_kind \<Rightarrow> refusal_reason option \<Rightarrow> string option \<Rightarrow> dispatch_state \<Rightarrow> dispatch_state" where
  "recordDispatchDecision E h decision reason tier s =
     (let s1 = (if decision = Decision_refused then recordEfficiencyStatus E h Eff_refused (wi_model h) s else s)
      in s1\<lparr>ds_decisions := ds_decisions s1 @ [buildDispatchDecisionRecord E h tier decision reason]\<rparr>)"

section \<open>The dispatch\<close>

type_synonym worker = "worker_input \<Rightarrow> gateway option \<Rightarrow> gateway option \<times> (js_error + worker_result)"
type_synonym dispatch_step = "dispatch_state \<times> (js_error + dispatch_outcome)"

text \<open>The recorded refusal.\<close>

definition refuse_dispatch :: "dispatch_env \<Rightarrow> governed_handoff \<Rightarrow> refusal_reason \<Rightarrow> string option \<Rightarrow> bool \<Rightarrow> dispatch_state \<Rightarrow> dispatch_step" where
  "refuse_dispatch E h reason tier verified s =
     (recordDispatchDecision E h Decision_refused (Some reason) tier s, Inr (Refused reason tier verified))"

text \<open>The guards, in the order of the code: the first that fails, with the tier known by then and whether the
  provenance was verified.\<close>

definition dispatch_guards ::
  "dispatch_env \<Rightarrow> governed_handoff \<Rightarrow> js_error + (refusal_reason \<times> string option \<times> bool) + string option" where
  "dispatch_guards E h =
     (case bind_result (de_mesh E) (\<lambda>mesh. buildAgentPacket (de_collate E) mesh
          \<lparr>ap_task = gh_task h, ap_agent = gh_agent h,
           ap_token_budget = Some (Finite (real_of_int DEFAULT_AGENT_PACKET_TOKEN_BUDGET)), ap_mode = None\<rparr>) of
        Inl e \<Rightarrow> Inl e
      | Inr packet \<Rightarrow>
     if computePacketHash (de_digest E) packet (gh_routing_mode h) \<noteq> gh_packet_hash h
     then Inr (Inl (Packet_provenance_mismatch, None, False))
     else case resolveTierId (de_collate E) h of
        Inl e \<Rightarrow> Inl e
      | Inr None \<Rightarrow> Inr (Inl (Routing_no_viable_provider, None, True))
      | Inr (Some tier) \<Rightarrow>
     if length (gh_required_checks h) = 0 then Inr (Inl (Missing_required_checks, tier, True))
     else
       let lane = (if gh_routing_mode h \<noteq> None then resolveHandoffLane h else None) in
       if (case gh_routing_mode h of None \<Rightarrow> False
           | Some m \<Rightarrow> (case lane of None \<Rightarrow> True | Some l \<Rightarrow> \<not> isLaneAllowedInMode m l))
       then Inr (Inl (Lane_not_allowed_in_mode, tier, True))
       else if gh_routing_mode h = Some Build \<and> (case lane of None \<Rightarrow> False | Some l \<Rightarrow> l \<in> set EXPENSIVE_LANES) \<and>
               (\<not> hasNonEmptyString (wi_taskPacketRef h) \<or> \<not> hasNonEmptyString (gh_task_package_hash h) \<or>
                \<not> isBuildPrepProvenanceSatisfied (gh_prep_provenance h))
       then Inr (Inl (Missing_upstream_draft, tier, True))
       else Inr (Inr tier))"

text \<open>The caller owns the reservation: the worker runs without one.\<close>

definition dispatch_for_caller ::
  "dispatch_env \<Rightarrow> worker \<Rightarrow> governed_handoff \<Rightarrow> string option \<Rightarrow> dispatch_state \<Rightarrow> dispatch_step" where
  "dispatch_for_caller E runCliWorker h tier s =
     (let w = toCliWorkerInput h; s1 = recordEfficiencyStatus E h Eff_started (wi_model w) s in
      case runCliWorker w (ds_gateway s1) of
        (g, Inl e) \<Rightarrow> (recordEfficiencyStatus E h Eff_failed (wi_model w) (s1\<lparr>ds_gateway := g\<rparr>), Inl e)
      | (g, Inr r) \<Rightarrow>
          let s2 = recordEfficiencyStatus E h (if workerSucceeded r then Eff_completed else Eff_failed) (wr_model r)
                (s1\<lparr>ds_gateway := g\<rparr>)
          in (recordDispatchDecision E h Decision_dispatched None tier s2, Inr (Dispatched r tier)))"

definition reservation_input :: "worker_input \<Rightarrow> token_request_input" where
  "reservation_input w =
     \<lparr>provider = vendor_name (wi_vendor w), model = wi_model w, sessionId = wi_sessionId w,
      raw_inputTokens = Finite (real_of_int (estimateTokenCount (wi_prompt w))),
      raw_outputTokens = Finite (real_of_int DEFAULT_AGENT_PACKET_TOKEN_BUDGET),
      raw_handoffId = Some (wi_handoffId w)\<rparr>"

definition settlement_usage :: "worker_input \<Rightarrow> worker_result \<Rightarrow> token_usage" where
  "settlement_usage w r =
     \<lparr>usage_inputTokens = Finite (real_of_int (estimateTokenCount (wi_prompt w))),
      usage_outputTokens = Finite (real_of_int (estimateTokenCount (wr_rawOutput r))), usage_released = None\<rparr>"

text \<open>After the worker: a throw releases the reservation and is thrown on (unless the release throws); a result is
  settled, and a settlement the gate refuses becomes the result's error when it had none. \<open>g\<close> is the gateway after
  the await.\<close>

definition dispatch_settle ::
  "dispatch_env \<Rightarrow> governed_handoff \<Rightarrow> string option \<Rightarrow> token_reservation \<Rightarrow> gateway \<Rightarrow> js_error + worker_result \<Rightarrow>
   dispatch_state \<Rightarrow> dispatch_step" where
  "dispatch_settle E h tier reservation g outcome s =
     (let w = toCliWorkerInput h in
      case outcome of
        Inl e \<Rightarrow>
          let s1 = recordEfficiencyStatus E h Eff_failed (wi_model w) s in
          (case release (de_fits E) (de_now E) reservation g of
             (g', Inl f) \<Rightarrow> (s1\<lparr>ds_gateway := Some g'\<rparr>, Inl (gateway_throw f))
           | (g', Inr _) \<Rightarrow> (s1\<lparr>ds_gateway := Some g'\<rparr>, Inl e))
      | Inr r \<Rightarrow>
          (case settle (de_limits E) (de_fits E) (de_now E) reservation (settlement_usage w r) g of
             (g', settlement) \<Rightarrow>
               let s1 = s\<lparr>ds_gateway := Some g'\<rparr>;
                   s2 = recordEfficiencyStatus E h (if workerSucceeded r then Eff_completed else Eff_failed) (wr_model r) s1;
                   finished = (recordDispatchDecision E h Decision_dispatched None tier s2, Inr (Dispatched r tier))
               in (case settlement of
                     Inl (TokenGatewayError code) \<Rightarrow>
                       if wr_errorReason r = None
                       then (recordEfficiencyStatus E h Eff_failed (wr_model r) s1,
                             Inr (Dispatched (r\<lparr>wr_errorReason := Some (refusal_code_name code)\<rparr>) tier))
                       else finished
                   | _ \<Rightarrow> finished)))"

definition dispatch_with_gateway ::
  "dispatch_env \<Rightarrow> worker \<Rightarrow> governed_handoff \<Rightarrow> string option \<Rightarrow> gateway \<Rightarrow> dispatch_state \<Rightarrow> dispatch_step" where
  "dispatch_with_gateway E runCliWorker h tier g s =
     (let w = toCliWorkerInput h in
      case reserve (de_limits E) (de_fits E) (de_rid E) (de_now E) (reservation_input w) g of
        (g1, Inl (TokenGatewayError _)) \<Rightarrow> refuse_dispatch E h Token_budget_exhausted tier True (s\<lparr>ds_gateway := Some g1\<rparr>)
      | (g1, Inl (GatewayError m)) \<Rightarrow> (s\<lparr>ds_gateway := Some g1\<rparr>, Inl (Error m))
      | (g1, Inr reservation) \<Rightarrow>
          let s1 = recordEfficiencyStatus E h Eff_started (wi_model w) (s\<lparr>ds_gateway := Some g1\<rparr>) in
          (case runCliWorker w (Some g1) of
             (g2, outcome) \<Rightarrow> dispatch_settle E h tier reservation (case g2 of Some x \<Rightarrow> x | None \<Rightarrow> g1) outcome s1))"

text \<open>Without a gateway in the options, one is opened on the state file.\<close>

definition open_gateway :: "gateway_state option \<Rightarrow> dispatch_state \<Rightarrow> js_error + gateway" where
  "open_gateway file s =
     (case ds_gateway s of
        Some g \<Rightarrow> Inr g
      | None \<Rightarrow> (case load_gateway file of Inl e \<Rightarrow> Inl (gateway_throw e) | Inr g \<Rightarrow> Inr g))"

definition dispatchHandoff ::
  "dispatch_env \<Rightarrow> worker \<Rightarrow> gateway_state option \<Rightarrow> bool \<Rightarrow> governed_handoff \<Rightarrow> dispatch_state \<Rightarrow> dispatch_step" where
  "dispatchHandoff E runCliWorker file callerOwns h s =
     (case dispatch_guards E h of
        Inl e \<Rightarrow> (s, Inl e)
      | Inr (Inl (reason, tier, verified)) \<Rightarrow> refuse_dispatch E h reason tier verified s
      | Inr (Inr tier) \<Rightarrow>
          if callerOwns then dispatch_for_caller E runCliWorker h tier s
          else (case open_gateway file s of
                  Inl e \<Rightarrow> (s, Inl e)
                | Inr g \<Rightarrow> dispatch_with_gateway E runCliWorker h tier g (s\<lparr>ds_gateway := Some g\<rparr>)))"

definition dispatchGovernedSessionHandoff ::
  "dispatch_env \<Rightarrow> worker \<Rightarrow> gateway_state option \<Rightarrow> (string \<Rightarrow> js_error + string list) \<Rightarrow> agent_session list \<Rightarrow> session_scope \<Rightarrow>
   stamp \<Rightarrow> governed_handoff \<Rightarrow> dispatch_state \<Rightarrow> dispatch_step" where
  "dispatchGovernedSessionHandoff E runCliWorker file route ss scope now h s =
     (case prepareGovernedSessionDispatch route ss scope (gh_task h) now of
        Inl e \<Rightarrow> (s, Inl e)
      | Inr plan \<Rightarrow>
          (case skillIdsForHandoff plan (wi_skillIds h) of
             Inl e \<Rightarrow> (s, Inl e)
           | Inr skillIds \<Rightarrow> dispatchHandoff E runCliWorker file False
               (h\<lparr>wi_sessionId := Some (agent_session_id (plan_session plan)), wi_skillIds := Some skillIds\<rparr>)
               (s\<lparr>ds_gateway := None\<rparr>)))"

end
