(* ===== verification/DispatchProps.thy ===== *)
theory DispatchProps
  imports Dispatch TokenGatewayProps MeshProps
begin

text \<open>
  What the dispatch promises: nothing reaches a worker unless every guard passed; the tokens of a dispatch are
  accounted for, except that an output above the reserved allowance leaves its reservation behind; and which provider
  a routing decision assigns.
\<close>

section \<open>Routing decisions\<close>

lemma selectModelForLayer_eq: "selectModelForLayer l statuses = layerProviderMapping l"
  by (auto simp: selectModelForLayer_def Let_def)

definition task_lane_of :: "string \<Rightarrow> task_lane" where
  "task_lane_of task = (case selectTaskLanes (normalize task) of [] \<Rightarrow> Bounded_coding_worker_lane | l # _ \<Rightarrow> l)"

lemma decision_Inr:
  assumes "buildSupervisorRoutingDecision collate i = Inr d"
  obtains cs where "resolveRoutingCircuitStates collate i = Inr cs"
    and "assignedProvider d = (case selectHardAllowedProvider (layerProviderMapping (ri_layer i)) (task_lane_of (ri_task i))
           (ri_budgets i) cs of None \<Rightarrow> layerProviderMapping (ri_layer i) | Some p \<Rightarrow> p)"
    and "rd_lane d = task_lane_of (ri_task i)"
    and "assignedTierId d = (case List.find (\<lambda>b. budget_provider b = assignedProvider d) (ri_budgets i) of
           None \<Rightarrow> None | Some b \<Rightarrow> activeTierId b)"
proof -
  from assms obtain cs where cs: "resolveRoutingCircuitStates collate i = Inr cs"
    by (auto simp: buildSupervisorRoutingDecision_def Let_def)
  from that [OF cs] assms show thesis
    unfolding buildSupervisorRoutingDecision_def selectModelForLayer_eq task_lane_of_def Let_def bind_result_eq_Inr cs sum.inject
    by (elim exE conjE) (simp only: sum.inject, hypsubst, simp)
qed

lemma provider_name_viable: "length (provider_id p) > 0 \<and> provider_id p \<noteq> ''none''"
  by (cases p) simp_all

lemma find_other: "\<not> P x \<Longrightarrow> List.find P (filter (\<lambda>y. y \<noteq> x) ys) = List.find P ys"
  by (induction ys) auto

lemma find_js_unique: "List.find P (js_unique xs) = List.find P xs"
  by (induction xs) (simp_all add: find_other)

lemma find_split:
  "List.find P xs = Some x \<Longrightarrow> \<exists>ys zs. xs = ys @ x # zs \<and> P x \<and> (\<forall>y \<in> set ys. \<not> P y)"
proof (induction xs)
  case (Cons z xs)
  show ?case
  proof (cases "P z")
    case False
    with Cons obtain ys zs where "xs = ys @ x # zs" "P x" "\<forall>y \<in> set ys. \<not> P y" by auto
    with False have "z # xs = (z # ys) @ x # zs" "\<forall>y \<in> set (z # ys). \<not> P y" by simp_all
    with \<open>P x\<close> show ?thesis by blast
  qed (use Cons in \<open>auto intro: exI [of _ "[]"]\<close>)
qed simp

text \<open>The providers a decision tries: the layer's own, those the lane's policy prefers in the order it lists them, and the
  two local ones.\<close>

definition route_candidates :: "model_policy_layer \<Rightarrow> task_lane \<Rightarrow> reasoning_provider list" where
  "route_candidates layer lane = layerProviderMapping layer # preferredProviders (the (find_lane lane)) @ [Qwen_local, Deterministic_tools]"

lemma selectProviderPolicies_lane: "selectProviderPolicies [l] = preferredProviders (the (find_lane l))"
  by (induction l) code_simp+

lemma selectHardAllowedProvider_eq:
  "selectHardAllowedProvider (layerProviderMapping layer) l bs cs = List.find (\<lambda>p. isHardRouteAllowed p bs cs) (route_candidates layer l)"
  by (simp only: selectHardAllowedProvider_def find_js_unique selectProviderPolicies_lane route_candidates_def)

text \<open>C37: A routing decision assigns the first provider whose route is open among the layer's own, the providers that the
  policy of the task's lane prefers, in its order, the local worker and the deterministic tools. So it assigns the
  layer's own provider whenever its route is open, whatever the task (the lane only chooses the substitutes); and when
  none is open it assigns the layer's provider all the same, so a dispatch never refuses for want of a viable provider.\<close>

theorem routing_decision_exact:
  assumes "buildSupervisorRoutingDecision collate i = Inr d" and "resolveRoutingCircuitStates collate i = Inr cs"
  shows "rd_lane d = task_lane_of (ri_task i) \<and>
    ((\<exists>ys zs. route_candidates (ri_layer i) (rd_lane d) = ys @ assignedProvider d # zs \<and>
        (\<forall>q \<in> set ys. \<not> isHardRouteAllowed q (ri_budgets i) cs) \<and> isHardRouteAllowed (assignedProvider d) (ri_budgets i) cs) \<or>
      (\<forall>q \<in> set (route_candidates (ri_layer i) (rd_lane d)). \<not> isHardRouteAllowed q (ri_budgets i) cs) \<and>
        assignedProvider d = layerProviderMapping (ri_layer i)) \<and>
    (isHardRouteAllowed (layerProviderMapping (ri_layer i)) (ri_budgets i) cs \<longrightarrow>
      assignedProvider d = layerProviderMapping (ri_layer i)) \<and>
    hasViableAssignedProvider d \<and> resolveTierId collate h \<noteq> Inr None"
proof -
  let ?open = "\<lambda>q. isHardRouteAllowed q (ri_budgets i) cs" and ?cands = "route_candidates (ri_layer i) (task_lane_of (ri_task i))"
  have viable: "resolveTierId collate h \<noteq> Inr None" "hasViableAssignedProvider d"
    using provider_name_viable by (auto simp: resolveTierId_def hasViableAssignedProvider_def split: option.splits)
  from decision_Inr [OF assms(1)] assms(2) have d: "assignedProvider d = (case List.find ?open ?cands of
      None \<Rightarrow> layerProviderMapping (ri_layer i) | Some p \<Rightarrow> p)" "rd_lane d = task_lane_of (ri_task i)"
    unfolding selectHardAllowedProvider_eq by (metis Inr_inject)+
  have own: "assignedProvider d = layerProviderMapping (ri_layer i)" if "?open (layerProviderMapping (ri_layer i))"
    using that by (simp add: d(1) route_candidates_def)
  show ?thesis
  proof (cases "List.find ?open ?cands")
    case None
    then have "\<forall>q \<in> set ?cands. \<not> ?open q" by (simp add: find_None_iff)
    with d None own viable show ?thesis by simp
  next
    case (Some q)
    then have "\<exists>ys zs. ?cands = ys @ assignedProvider d # zs \<and> (\<forall>q \<in> set ys. \<not> ?open q) \<and> ?open (assignedProvider d)"
      using find_split [OF Some] by (auto simp: d(1))
    with d(2) own viable show ?thesis by simp
  qed
qed

section \<open>Governance\<close>

text \<open>What a handoff must satisfy, as one condition.\<close>

definition governance_holds :: "dispatch_env \<Rightarrow> governed_handoff \<Rightarrow> bool" where
  "governance_holds E h \<longleftrightarrow>
     (\<exists>mesh packet. de_mesh E = Inr mesh \<and> buildAgentPacket (de_collate E) mesh
          \<lparr>ap_task = gh_task h, ap_agent = gh_agent h,
           ap_token_budget = Some (Finite (real_of_int DEFAULT_AGENT_PACKET_TOKEN_BUDGET)), ap_mode = None\<rparr> = Inr packet \<and>
        computePacketHash (de_digest E) packet (gh_routing_mode h) = gh_packet_hash h) \<and>
     gh_required_checks h \<noteq> [] \<and>
     (\<forall>m. gh_routing_mode h = Some m \<longrightarrow> (\<exists>l. resolveHandoffLane h = Some l \<and> isLaneAllowedInMode m l \<and>
        (m = Build \<and> l \<in> set EXPENSIVE_LANES \<longrightarrow> hasNonEmptyString (wi_taskPacketRef h) \<and>
           hasNonEmptyString (gh_task_package_hash h) \<and> isBuildPrepProvenanceSatisfied (gh_prep_provenance h))))"

lemma guards_pass: "dispatch_guards E h = Inr (Inr tier) \<Longrightarrow> governance_holds E h"
  by (auto simp: dispatch_guards_def governance_holds_def Let_def split: sum.splits option.splits if_splits)

lemma refuse_dispatch_state:
  "ds_gateway (fst (refuse_dispatch E h reason tier v s)) = ds_gateway s"
  "ds_decisions (fst (refuse_dispatch E h reason tier v s)) =
     ds_decisions s @ [buildDispatchDecisionRecord E h tier Decision_refused (Some reason)]"
  by (simp_all add: refuse_dispatch_def recordDispatchDecision_def recordEfficiencyStatus_def Let_def split: option.splits)

text \<open>C3: Nothing ungoverned reaches a vendor: unless the packet hash is that of the live mesh for the handoff's task and
  agent, checks are declared, the lane is allowed in the mode and an expensive build lane has its provenance, the
  dispatch ends the same for every worker, without touching the gateway, and never as dispatched: it is a
  refusal recorded as such, or an error.\<close>

theorem nothing_ungoverned_is_dispatched:
  assumes "\<not> governance_holds E h"
  shows "\<exists>s' res. (\<forall>worker. dispatchHandoff E worker file callerOwns h s = (s', res)) \<and> ds_gateway s' = ds_gateway s \<and>
    ((\<exists>e. res = Inl e \<and> s' = s) \<or>
     (\<exists>reason tier verified. res = Inr (Refused reason tier verified) \<and>
        ds_decisions s' = ds_decisions s @ [buildDispatchDecisionRecord E h tier Decision_refused (Some reason)]))"
proof (cases "dispatch_guards E h")
  case (Inl e)
  then show ?thesis by (auto simp: dispatchHandoff_def)
next
  case (Inr x)
  show ?thesis
  proof (cases x)
    case (Inl y)
    obtain reason tier v where y: "y = (reason, tier, v)" by (cases y)
    have out: "dispatchHandoff E worker file callerOwns h s = refuse_dispatch E h reason tier v s" for worker
      by (simp add: dispatchHandoff_def \<open>dispatch_guards E h = Inr x\<close> Inl y)
    have "snd (refuse_dispatch E h reason tier v s) = Inr (Refused reason tier v)" by (simp add: refuse_dispatch_def)
    with out refuse_dispatch_state [of E h reason tier v s] show ?thesis
      by (intro exI [of _ "fst (refuse_dispatch E h reason tier v s)"] exI [of _ "snd (refuse_dispatch E h reason tier v s)"]) (auto simp: prod_eq_iff)
  next
    case (Inr tier)
    with assms guards_pass \<open>dispatch_guards E h = Inr x\<close> show ?thesis by blast
  qed
qed

text \<open>What a worker is given is pinned by the dispatch: the verified lock source, no retries of its own, the governed
  routing mode, and for the agy CLI always a model; the generation settings of the handoff, in which a run's
  approved reasoning effort is carried, are dropped, so they have no influence on a dispatch at all.\<close>

theorem worker_input_is_pinned:
  "wi_lockSource (toCliWorkerInput h) = Some VERIFIED_LOCK_SOURCE \<and> wi_supervisorOwnsRetry (toCliWorkerInput h) = Some True \<and>
   wi_routingMode (toCliWorkerInput h) = gh_routing_mode h \<and>
   \<not> (wi_vendor h = V_agy_cli \<and> wi_model (toCliWorkerInput h) = None) \<and>
   wi_generationSettings (toCliWorkerInput h) = None \<and>
   dispatchHandoff E worker file callerOwns (h\<lparr>wi_generationSettings := g\<rparr>) s = dispatchHandoff E worker file callerOwns h s"
proof -
  let ?h = "h\<lparr>wi_generationSettings := g\<rparr>"
  have w: "toCliWorkerInput ?h = toCliWorkerInput h" by (simp add: toCliWorkerInput_def)
  have l: "resolveHandoffLane ?h = resolveHandoffLane h" by (simp add: resolveHandoffLane_def)
  have t: "resolveTierId collate ?h = resolveTierId collate h" for collate by (cases "gh_routing h") (simp_all add: resolveTierId_def)
  have r: "recordEfficiencyStatus E ?h = recordEfficiencyStatus E h"
    by (simp add: recordEfficiencyStatus_def buildEfficiencyTelemetryEvent_def fun_eq_iff split: option.splits)
  have d: "recordDispatchDecision E ?h = recordDispatchDecision E h"
    by (simp add: recordDispatchDecision_def buildDispatchDecisionRecord_def r l fun_eq_iff)
  have f: "gh_task ?h = gh_task h" "gh_agent ?h = gh_agent h" "gh_routing_mode ?h = gh_routing_mode h"
      "gh_packet_hash ?h = gh_packet_hash h" "gh_required_checks ?h = gh_required_checks h" "wi_taskPacketRef ?h = wi_taskPacketRef h"
      "gh_task_package_hash ?h = gh_task_package_hash h" "gh_prep_provenance ?h = gh_prep_provenance h" by simp_all
  have "dispatch_guards E ?h = dispatch_guards E h" unfolding dispatch_guards_def f l t by (rule refl)
  then have "dispatchHandoff E worker file callerOwns ?h s = dispatchHandoff E worker file callerOwns h s"
    unfolding dispatchHandoff_def dispatch_for_caller_def dispatch_with_gateway_def dispatch_settle_def
      refuse_dispatch_def w r d by simp
  then show ?thesis by (simp add: toCliWorkerInput_def Let_def)
qed

section \<open>Accounting\<close>

lemma estimate_nonneg: "0 \<le> estimateTokenCount us"
  by (simp add: estimateTokenCount_def)

lemma safeCount_estimate: "safeCount (Finite (real_of_int (estimateTokenCount us))) = estimateTokenCount us"
  by (rule safeCount_of_int [OF estimate_nonneg])

lemma reserve_new_shape:
  assumes "fresh_id (gw_state g) rid" and "reserve L fits rid now input g = (g', Inr r)" and "reservationId r = rid"
    and "map_of (reservations (gw_state g')) rid = Some r"
  shows "r = new_reservation (normalizeRequest input) rid now \<and>
    inputTokens (normalizeRequest input) \<le> inputCapTokens L \<and> outputTokens (normalizeRequest input) \<le> outputCapTokens L"
  using assms(2)
proof (cases rule: reserve_state)
  case same
  with assms(1,4) show ?thesis by (auto simp: fresh_id_def map_of_eq_None_iff [symmetric])
next
  case (reserved request)
  then show ?thesis by auto
qed

lemma reserved_amounts:
  assumes "r = new_reservation (normalizeRequest (reservation_input w)) rid now"
  shows "totalTokens r = estimateTokenCount (wi_prompt w) + 8000"
    "inputTokens (normalizeRequest (reservation_input w)) = estimateTokenCount (wi_prompt w)"
    "outputTokens (normalizeRequest (reservation_input w)) = 8000"
  using assms by (simp_all add: normalizeRequest_def reservation_input_def safeCount_estimate DEFAULT_AGENT_PACKET_TOKEN_BUDGET_def
      del: safeCount.simps)

lemma settlement_amounts:
  "safeCount (usage_inputTokens (settlement_usage w r)) = estimateTokenCount (wi_prompt w)"
  "safeCount (usage_outputTokens (settlement_usage w r)) = estimateTokenCount (wr_rawOutput r)"
  by (simp_all add: settlement_usage_def safeCount_estimate del: safeCount.simps)

lemma settle_too_much:
  assumes "map_of (reservations (gw_state g)) (reservationId r) = Some r"
    and "totalTokens r < safeCount (usage_inputTokens usage) + safeCount (usage_outputTokens usage)"
    and "safeCount (usage_inputTokens usage) \<le> inputCapTokens L"
  shows "\<exists>c. settle L fits now r usage g = (g, Inl (TokenGatewayError c))"
  using assms by (auto simp: settle_def Let_def same_route_def)

lemma recordEfficiencyStatus_gateway [simp]:
  "ds_gateway (recordEfficiencyStatus E h st m s) = ds_gateway s"
  "recordEfficiencyStatus E h st m (s\<lparr>ds_gateway := x\<rparr>) = (recordEfficiencyStatus E h st m s)\<lparr>ds_gateway := x\<rparr>"
  by (simp_all add: recordEfficiencyStatus_def split: option.splits)

lemma recordDispatchDecision_gateway [simp]: "ds_gateway (recordDispatchDecision E h k reason tier s) = ds_gateway s"
  by (simp add: recordDispatchDecision_def Let_def)

text \<open>What the settlement of a fresh reservation does, in the three cases.\<close>

lemma dispatch_settle_throw:
  assumes fits: "de_fits E = (\<lambda>_. True)" and inv: "gateway_inv L (gw_state g1)"
    and act: "map_of (reservations (gw_state g1)) (reservationId r) = Some r" and now: "canonical_stamp (de_now E)"
  shows "\<exists>s' g'. dispatch_settle E h tier r g1 (Inl e) s = (s', Inl e) \<and> ds_gateway s' = Some g' \<and>
    gw_state g' = release_effect r (de_now E) (gw_state g1)"
proof -
  obtain g' x where out: "release (\<lambda>_. True) (de_now E) r g1 = (g', x)" by fastforce
  note rel = release_active [OF act, of "\<lambda>_. True" "de_now E"]
  have "x = Inr ()" and "gw_state g' = release_effect r (de_now E) (gw_state g1)" using rel out by simp_all
  with out show ?thesis by (simp add: dispatch_settle_def fits Let_def)
qed

lemma dispatch_settle_fits:
  assumes fits: "de_fits E = (\<lambda>_. True)" and inv: "gateway_inv (de_limits E) (gw_state g1)"
    and act: "map_of (reservations (gw_state g1)) (reservationId r) = Some r"
    and caps: "estimateTokenCount (wi_prompt (toCliWorkerInput h)) \<le> inputCapTokens (de_limits E)"
      "estimateTokenCount (wr_rawOutput wr) \<le> outputCapTokens (de_limits E)"
    and amt: "estimateTokenCount (wi_prompt (toCliWorkerInput h)) + estimateTokenCount (wr_rawOutput wr) \<le> totalTokens r"
  shows "\<exists>s' g'. dispatch_settle E h tier r g1 (Inr wr) s = (s', Inr (Dispatched wr tier)) \<and> ds_gateway s' = Some g' \<and>
    gw_state g' = settle_effect r (settlement_usage (toCliWorkerInput h) wr) (de_now E) (gw_state g1)"
proof -
  let ?u = "settlement_usage (toCliWorkerInput h) wr"
  obtain g' x where out: "settle (de_limits E) (\<lambda>_. True) (de_now E) r ?u g1 = (g', x)" by fastforce
  have total: "usage_total ?u \<le> totalTokens r" using amt by (simp add: usage_total_def settlement_amounts)
  note st = settle_outcome [OF inv act _ _ total, of "\<lambda>_. True" "de_now E", unfolded settlement_amounts, OF caps]
  have "gw_state g' = settle_effect r ?u (de_now E) (gw_state g1)" "\<exists>z. x = Inr z" using st out by simp_all
  with out show ?thesis by (auto simp: dispatch_settle_def fits Let_def)
qed

lemma dispatch_settle_over:
  assumes act: "map_of (reservations (gw_state g1)) (reservationId r) = Some r"
    and caps: "estimateTokenCount (wi_prompt (toCliWorkerInput h)) \<le> inputCapTokens (de_limits E)"
    and amt: "totalTokens r < estimateTokenCount (wi_prompt (toCliWorkerInput h)) + estimateTokenCount (wr_rawOutput wr)"
  shows "\<exists>s' c. dispatch_settle E h tier r g1 (Inr wr) s =
      (s', Inr (Dispatched (if wr_errorReason wr = None then wr\<lparr>wr_errorReason := Some (refusal_code_name c)\<rparr> else wr) tier)) \<and>
    ds_gateway s' = Some g1"
proof -
  let ?u = "settlement_usage (toCliWorkerInput h) wr"
  obtain c where "settle (de_limits E) (de_fits E) (de_now E) r ?u g1 = (g1, Inl (TokenGatewayError c))"
    using settle_too_much [OF act, of ?u "de_limits E" "de_fits E" "de_now E", unfolded settlement_amounts, OF amt caps] by blast
  then show ?thesis by (auto simp: dispatch_settle_def Let_def intro!: exI [of _ c])
qed

lemma dispatch_reserved:
  assumes "dispatch_guards E h = Inr (Inr tier)" and "ds_gateway s = Some g"
    and "reserve (de_limits E) (de_fits E) (de_rid E) (de_now E) (reservation_input (toCliWorkerInput h)) g = (g1, Inr r)"
    and "worker (toCliWorkerInput h) (Some g1) = (Some g1, out)"
  shows "\<exists>s1. dispatchHandoff E worker file False h s = dispatch_settle E h tier r g1 out s1"
  using assms by (simp add: dispatchHandoff_def open_gateway_def dispatch_with_gateway_def Let_def) blast

text \<open>C11: The tokens of a dispatch are accounted for. When a handoff passes the guards, gets a new reservation and its
  worker leaves the gate alone: a worker that throws leaves every usage and reservation as before and its error is
  thrown on; a worker whose output counts at most 8000 tokens is charged exactly the prompt and the output; but one
  whose output counts more leaves its whole reservation active, for good, while the result is reported (as failed if it
  had no error of its own).\<close>

theorem dispatch_accounts_for_tokens:
  assumes "gateway_safe (de_limits E) g" and "fresh_id (gw_state g) (de_rid E)" and "canonical_stamp (de_now E)"
    and "de_fits E = (\<lambda>_. True)" and "dispatch_guards E h = Inr (Inr tier)" and "ds_gateway s = Some g"
    and "reserve (de_limits E) (de_fits E) (de_rid E) (de_now E) (reservation_input (toCliWorkerInput h)) g = (g1, Inr r)"
    and "reservationId r = de_rid E" and "worker (toCliWorkerInput h) (Some g1) = (Some g1, out)"
    and "dispatchHandoff E worker file False h s = (s', res)"
  shows "\<exists>g'. ds_gateway s' = Some g' \<and>
    (case out of
       Inl e \<Rightarrow> res = Inl e \<and> (\<forall>k. usedOf (used (gw_state g')) k = usedOf (used (gw_state g)) k) \<and>
         reservations (gw_state g') = reservations (gw_state g)
     | Inr wr \<Rightarrow>
         if estimateTokenCount (wr_rawOutput wr) \<le> 8000
         then res = Inr (Dispatched wr tier) \<and> reservations (gw_state g') = reservations (gw_state g) \<and>
           (\<forall>k. usedOf (used (gw_state g')) k = usedOf (used (gw_state g)) k + (if k \<in> set (routeUsageKeys r)
              then estimateTokenCount (wi_prompt (toCliWorkerInput h)) + estimateTokenCount (wr_rawOutput wr) else 0))
         else (\<exists>c. res = Inr (Dispatched (if wr_errorReason wr = None
                 then wr\<lparr>wr_errorReason := Some (refusal_code_name c)\<rparr> else wr) tier)) \<and>
           map_of (reservations (gw_state g')) (de_rid E) = Some r \<and>
           (\<forall>k. usedOf (used (gw_state g')) k = usedOf (used (gw_state g)) k + (if k \<in> set (routeUsageKeys r)
              then estimateTokenCount (wi_prompt (toCliWorkerInput h)) + 8000 else 0)))"
proof -
  let ?in = "estimateTokenCount (wi_prompt (toCliWorkerInput h))"
  have inv: "gateway_inv (de_limits E) (gw_state g)" and L: "limits_ok (de_limits E)" using assms(1) by (simp_all add: gateway_safe_def)
  note new = reserve_new [OF inv L assms(3,2,7,8)]
  note shape = reserve_new_shape [OF assms(2,7,8) new(1)]
  note amounts = reserved_amounts [OF conjunct1 [OF shape]]
  have act: "map_of (reservations (gw_state g1)) (reservationId r) = Some r" using new(1) assms(8) by simp
  have caps: "?in \<le> inputCapTokens (de_limits E)" "8000 \<le> outputCapTokens (de_limits E)" using shape amounts by simp_all
  have gone: "AList.delete (de_rid E) (AList.update (de_rid E) r (reservations (gw_state g))) = reservations (gw_state g)"
    using assms(2) by (simp add: fresh_id_def update_fresh AList.delete_eq filter_id_conv) force
  obtain s1 where "dispatchHandoff E worker file False h s = dispatch_settle E h tier r g1 out s1"
    using dispatch_reserved [where worker = worker and out = out, OF assms(5,6,7,9)] by blast
  then have res: "dispatch_settle E h tier r g1 out s1 = (s', res)" using assms(10) by simp
  show ?thesis
  proof (cases out)
    case (Inl e)
    with res dispatch_settle_throw [OF assms(4) new(4) act assms(3), of h tier e s1] obtain g' where
      g': "ds_gateway s' = Some g'" "gw_state g' = release_effect r (de_now E) (gw_state g1)" "res = Inl e" by auto
    have "usedOf (used (gw_state g')) k = usedOf (used (gw_state g)) k" for k
      using new(2,5) release_effect_inv(2) [OF new(4) act assms(3), of k] by (simp add: g'(2))
    moreover have "reservations (gw_state g') = reservations (gw_state g)"
      using gone new(6) assms(8) by (simp add: g'(2) release_effect_def)
    ultimately show ?thesis using Inl g' by simp
  next
    case (Inr wr)
    let ?out = "estimateTokenCount (wr_rawOutput wr)"
    show ?thesis
    proof (cases "?out \<le> 8000")
      case True
      then have fit: "?out \<le> outputCapTokens (de_limits E)" "?in + ?out \<le> totalTokens r" using caps(2) amounts(1) by simp_all
      let ?u = "settlement_usage (toCliWorkerInput h) wr"
      from res Inr dispatch_settle_fits [OF assms(4) new(4) act caps(1) fit, of tier s1] obtain g' where
        g': "ds_gateway s' = Some g'" "gw_state g' = settle_effect r ?u (de_now E) (gw_state g1)" "res = Inr (Dispatched wr tier)" by auto
      have total: "usage_total ?u = ?in + ?out" by (simp add: usage_total_def settlement_amounts)
      have "usedOf (used (gw_state g')) k = usedOf (used (gw_state g)) k + (if k \<in> set (routeUsageKeys r) then ?in + ?out else 0)" for k
        using new(2,5) settle_effect_inv(2) [OF new(4) act assms(3), of ?u k] fit(2) by (simp add: g'(2) total)
      moreover have "reservations (gw_state g') = reservations (gw_state g)"
        using gone new(6) assms(8) by (simp add: g'(2) settle_effect_def)
      ultimately show ?thesis using Inr True g' by simp
    next
      case False
      then have "totalTokens r < ?in + ?out" using amounts(1) by simp
      from res Inr dispatch_settle_over [OF act caps(1) this, of tier s1] obtain c where
        g': "ds_gateway s' = Some g1" "res = Inr (Dispatched (if wr_errorReason wr = None
          then wr\<lparr>wr_errorReason := Some (refusal_code_name c)\<rparr> else wr) tier)" by auto
      have "usedOf (used (gw_state g1)) k = usedOf (used (gw_state g)) k + (if k \<in> set (routeUsageKeys r) then ?in + 8000 else 0)" for k
        using new(5) amounts(1) by simp
      with Inr False g' new(1) show ?thesis by auto
    qed
  qed
qed

section \<open>Concrete dispatches\<close>

definition demo_dispatch_env :: dispatch_env where
  "demo_dispatch_env = \<lparr>de_collate = \<lambda>_ _. 0, de_digest = \<lambda>_. ''d'', de_sha = \<lambda>_. ''s'', de_mesh = Inr demo_mesh,
     de_limits = DEFAULT_TOKEN_GATEWAY_LIMITS, de_fits = \<lambda>_. True, de_rid = ''tgr-1'', de_now = Iso 0\<rparr>"

definition demo_handoff :: "string \<Rightarrow> governed_handoff" where
  "demo_handoff packet_hash =
     \<lparr>wi_handoffId = ''h'', wi_sessionId = None, wi_skillIds = None, wi_vendor = V_codex_cli, wi_prompt = [1, 2, 3],
      wi_outputSchemaPath = None, wi_codexMode = None, wi_openrouterMode = None, wi_routingMode = None, wi_taskPacketRef = None,
      wi_model = None, wi_parentSessionHash = ''p'', wi_parentTurnHash = ''t'', wi_timeoutMs = None, wi_cwd = None,
      wi_addDirs = None, wi_images = None, wi_lockSource = None, wi_maxPromptChars = None, wi_generationSettings = None,
      wi_supervisorOwnsRetry = None, gh_task = ''run it'', gh_agent = ''worker'', gh_packet_hash = packet_hash,
      gh_required_checks = [''check''], gh_routing_mode = Some Review, gh_task_package_hash = None, gh_prep_provenance = None,
      gh_routing = None, gh_efficiency = None\<rparr>"

definition demo_dispatch_state :: dispatch_state where
  "demo_dispatch_state = \<lparr>ds_gateway = Some fresh_gateway, ds_decisions = [], ds_efficiency = []\<rparr>"

definition demo_result :: worker_result where
  "demo_result = \<lparr>wr_workerRunId = ''w'', wr_handoffId = ''h'', wr_vendor = V_codex_cli, wr_model = None, wr_exitCode = 0,
     wr_rawOutput = replicate 40000 65, wr_parsedJson = None, wr_durationSeconds = Finite 1,
     wr_lockStatus = Acquired_supervisor_spawn, wr_workerOutputPath = None, wr_errorReason = None, wr_missing = False\<rparr>"

definition demo_routing :: routing_input where
  "demo_routing = \<lparr>ri_taskId = ''h'', ri_task = ''secret'', ri_layer = Architect_layer, ri_budgets = [],
     ri_evalRecords = [], ri_failures = None, ri_thresholds = None, ri_now = None\<rparr>"

definition demo_decision :: routing_decision where
  "demo_decision = projr (buildSupervisorRoutingDecision (\<lambda>_ _. 0) demo_routing)"

lemma routing_decision_exact_witness:
  "rd_lane demo_decision = Sensitive_private_context_lane \<and>
   preferredProviders (the (find_lane Sensitive_private_context_lane)) = [Deterministic_tools, Qwen_local] \<and>
   assignedProvider demo_decision = Anthropic_claude_subscription"
proof -
  have d: "buildSupervisorRoutingDecision (\<lambda>_ _. 0) demo_routing = Inr demo_decision" by code_simp
  have cs: "resolveRoutingCircuitStates (\<lambda>_ _. 0) demo_routing = Inr []" by code_simp
  have "isHardRouteAllowed (layerProviderMapping (ri_layer demo_routing)) (ri_budgets demo_routing) []" by code_simp
  with routing_decision_exact [OF d cs] have "assignedProvider demo_decision = Anthropic_claude_subscription"
    by (simp add: demo_routing_def)
  moreover have "rd_lane demo_decision = Sensitive_private_context_lane" by code_simp
  moreover have "preferredProviders (the (find_lane Sensitive_private_context_lane)) = [Deterministic_tools, Qwen_local]" by code_simp
  ultimately show ?thesis by simp
qed

lemma nothing_ungoverned_is_dispatched_witness:
  "\<exists>s' res. (\<forall>worker. dispatchHandoff demo_dispatch_env worker None False (demo_handoff ''stale'') demo_dispatch_state = (s', res)) \<and>
     ds_gateway s' = Some fresh_gateway"
proof -
  have "\<not> governance_holds demo_dispatch_env (demo_handoff ''stale'')"
    by (simp add: governance_holds_def demo_dispatch_env_def demo_handoff_def computePacketHash_def)
  from nothing_ungoverned_is_dispatched [OF this, of None False demo_dispatch_state] show ?thesis
    by (auto simp: demo_dispatch_state_def)
qed

definition demo_dispatch_reserved :: "gateway \<times> (gateway_error + token_reservation)" where
  "demo_dispatch_reserved = reserve DEFAULT_TOKEN_GATEWAY_LIMITS (\<lambda>_. True) ''tgr-1'' (Iso 0)
     (reservation_input (toCliWorkerInput (demo_handoff ''d''))) fresh_gateway"

lemma dispatch_accounts_for_tokens_witness:
  "\<exists>g'. ds_gateway (fst (dispatchHandoff demo_dispatch_env (\<lambda>w g. (g, Inr demo_result)) None False (demo_handoff ''d'')
       demo_dispatch_state)) = Some g' \<and>
     map_of (reservations (gw_state g')) ''tgr-1'' = Some (projr (snd demo_dispatch_reserved))"
proof -
  let ?E = demo_dispatch_env let ?h = "demo_handoff ''d''"
  obtain s' res where out: "dispatchHandoff ?E (\<lambda>w g. (g, Inr demo_result)) None False ?h demo_dispatch_state = (s', res)" by fastforce
  have E: "de_limits ?E = DEFAULT_TOKEN_GATEWAY_LIMITS" "de_rid ?E = ''tgr-1''" "de_now ?E = Iso 0" "de_fits ?E = (\<lambda>_. True)"
    by (simp_all add: demo_dispatch_env_def)
  have safe: "gateway_safe (de_limits ?E) fresh_gateway"
    using fresh_gateway_safe [OF default_limits_ok] by (simp add: fresh_gateway_def E)
  have f: "fresh_id (gw_state fresh_gateway) (de_rid ?E)" unfolding E by code_simp
  have now: "canonical_stamp (de_now ?E)" by (simp add: E valid_time_def MAX_TIME_def)
  have guards: "dispatch_guards ?E ?h = Inr (Inr None)" by code_simp
  have gw: "ds_gateway demo_dispatch_state = Some fresh_gateway" by (simp add: demo_dispatch_state_def)
  have "\<exists>r. demo_dispatch_reserved = (fst demo_dispatch_reserved, Inr r) \<and> reservationId r = ''tgr-1''"
    by (intro exI [of _ "projr (snd demo_dispatch_reserved)"]) code_simp
  then obtain r where r: "demo_dispatch_reserved = (fst demo_dispatch_reserved, Inr r)" "reservationId r = de_rid ?E" unfolding E by blast
  have res: "reserve (de_limits ?E) (de_fits ?E) (de_rid ?E) (de_now ?E) (reservation_input (toCliWorkerInput ?h)) fresh_gateway =
      (fst demo_dispatch_reserved, Inr r)"
    unfolding E r(1) [symmetric] by (simp add: demo_dispatch_reserved_def)
  have big: "\<not> estimateTokenCount (wr_rawOutput demo_result) \<le> 8000" by (simp add: demo_result_def estimateTokenCount_def)
  have proj: "projr (snd demo_dispatch_reserved) = r" using arg_cong [OF r(1), of snd] by simp
  from dispatch_accounts_for_tokens [OF safe f now E(4) guards gw res r(2) _ out] big show ?thesis
    unfolding out proj by (simp add: E) blast
qed

end
