(* ===== verification/RouteEligibility.thy ===== *)
theory RouteEligibility
  imports RunPolicy Routing
begin

text \<open>
  Which route a run may take: \<^verbatim>\<open>src/data/delivery-system/runRouteEligibility.ts\<close> and
  \<^verbatim>\<open>providerModelCatalog.ts\<close>, over the provider snapshots of \<^verbatim>\<open>providerQuota.ts\<close> as the quota store gives them.
  The fields that only report quota (windows, spend, versions, probe failures) are left out of a snapshot: nothing
  here reads them.
\<close>

section \<open>Snapshots\<close>

datatype provider_health = Healthy | Degraded | Unavailable_health
datatype provider_freshness = Fresh | Stale | Unavailable_freshness
datatype model_discovery = Usage_probe | Models_cache | Cli_list | Static_discovery

record model_availability =
  ma_model_id :: string
  ma_available :: bool
  ma_health :: provider_health
  ma_discovery :: "model_discovery option"
  ma_reasoning_efforts :: "reasoning_effort list option"

record provider_snapshot =
  sn_provider :: string
  sn_fetched_at :: stamp
  sn_models :: "model_availability list"
  sn_health :: provider_health

definition FRESH_MAX_AGE_MS :: int where "FRESH_MAX_AGE_MS = 5 * 60 * 1000"
definition STALE_MAX_AGE_MS :: int where "STALE_MAX_AGE_MS = 30 * 60 * 1000"

definition freshnessForSnapshot :: "provider_snapshot \<Rightarrow> stamp \<Rightarrow> provider_freshness" where
  "freshnessForSnapshot s now =
     (if sn_health s = Unavailable_health then Unavailable_freshness
      else case (date_parse (sn_fetched_at s), date_parse now) of
        (Some fetchedAt, Some nowAt) \<Rightarrow>
          if fetchedAt > nowAt then Unavailable_freshness
          else
            let age = nowAt - fetchedAt in
            if age \<le> FRESH_MAX_AGE_MS then Fresh else if age \<le> STALE_MAX_AGE_MS then Stale else Unavailable_freshness
      | _ \<Rightarrow> Unavailable_freshness)"

section \<open>The static catalog\<close>

fun provider_name :: "run_provider \<Rightarrow> string" where
  "provider_name Codex_cli = ''codex_cli''" | "provider_name Claude_cli = ''claude_cli''"
| "provider_name Agy_cli = ''agy_cli''" | "provider_name Openrouter_api = ''openrouter_api''"

text \<open>The models of a provider; OpenRouter has no entry of its own.\<close>

fun STATIC_PROVIDER_MODEL_CATALOG :: "run_provider \<Rightarrow> string list" where
  "STATIC_PROVIDER_MODEL_CATALOG Claude_cli =
     [''claude-opus-4-8'', ''claude-fable-5'', ''claude-opus-5'', ''claude-sonnet-5'', ''claude-haiku-4-5-20251001'']"
| "STATIC_PROVIDER_MODEL_CATALOG Codex_cli =
     [''gpt-5.6-sol'', ''gpt-5.6-terra'', ''gpt-5.6-luna'', ''gpt-daybreak-blue-latest'', ''gpt-5.5'', ''gpt-5.4'',
      ''gpt-5.4-mini'', ''gpt-5.3-codex-spark'']"
| "STATIC_PROVIDER_MODEL_CATALOG Agy_cli =
     [AGY_FAST_DEFAULT, ''gemini-3.5-flash-high'', ''gemini-3.1-pro-high'', AGY_GPT_OSS_120B, AGY_CLAUDE_SONNET]"
| "STATIC_PROVIDER_MODEL_CATALOG Openrouter_api = []"

definition isKnownProviderModel :: "provider_snapshot list \<Rightarrow> run_provider \<Rightarrow> string \<Rightarrow> bool" where
  "isKnownProviderModel snapshots p model \<longleftrightarrow>
     model \<in> set (STATIC_PROVIDER_MODEL_CATALOG p) \<or>
     list_ex (\<lambda>s. sn_provider s = provider_name p \<and>
       list_ex (\<lambda>c. ma_model_id c = model \<and> ma_available c) (sn_models s)) snapshots"

section \<open>Eligibility\<close>

definition snapshot_of :: "provider_snapshot list \<Rightarrow> run_provider \<Rightarrow> provider_snapshot option" where
  "snapshot_of snapshots p = List.find (\<lambda>s. sn_provider s = provider_name p) snapshots"

definition snapshot_model :: "provider_snapshot list \<Rightarrow> run_provider \<Rightarrow> string \<Rightarrow> model_availability option" where
  "snapshot_model snapshots p model =
     (case snapshot_of snapshots p of None \<Rightarrow> None | Some s \<Rightarrow> List.find (\<lambda>c. ma_model_id c = model) (sn_models s))"

definition isOwnerApprovedCodexModel :: "provider_snapshot list \<Rightarrow> run_provider \<Rightarrow> string option \<Rightarrow> bool" where
  "isOwnerApprovedCodexModel snapshots p model =
     (case model of None \<Rightarrow> True
      | Some m \<Rightarrow>
          if p \<noteq> Codex_cli \<or> m \<in> set (STATIC_PROVIDER_MODEL_CATALOG Codex_cli) then True
          else case snapshot_model snapshots p m of None \<Rightarrow> True | Some c \<Rightarrow> ma_discovery c \<noteq> Some Models_cache)"

definition supportsReasoning :: "provider_snapshot list \<Rightarrow> run_provider \<Rightarrow> string option \<Rightarrow> reasoning_effort option \<Rightarrow> bool" where
  "supportsReasoning snapshots p model reasoning =
     (case reasoning of None \<Rightarrow> True
      | Some r \<Rightarrow>
          if r \<notin> set (SUPPORTED_REASONING_EFFORTS p) then False
          else if p \<noteq> Codex_cli then True
          else case model of None \<Rightarrow> False
            | Some m \<Rightarrow>
                (case snapshot_model snapshots p m of
                   None \<Rightarrow> m \<in> set (STATIC_PROVIDER_MODEL_CATALOG Codex_cli)
                 | Some c \<Rightarrow> (case ma_reasoning_efforts c of None \<Rightarrow> False | Some es \<Rightarrow> r \<in> set es)))"

text \<open>\<open>reasoning\<close> is \<open>None\<close> when the argument is \<open>undefined\<close>.\<close>

definition isRunRouteEligible ::
  "provider_snapshot list \<Rightarrow> run_provider \<Rightarrow> string option \<Rightarrow> stamp \<Rightarrow> reasoning_effort option option \<Rightarrow> bool" where
  "isRunRouteEligible snapshots p model now reasoning =
     (if \<not> isOwnerApprovedCodexModel snapshots p model then False
      else if (case reasoning of None \<Rightarrow> False | Some r \<Rightarrow> \<not> supportsReasoning snapshots p model r) then False
      else case snapshot_of snapshots p of
          None \<Rightarrow> False
        | Some s \<Rightarrow> freshnessForSnapshot s now = Fresh \<and> sn_health s \<noteq> Unavailable_health \<and>
            (case model of None \<Rightarrow> True
             | Some m \<Rightarrow> list_ex (\<lambda>c. ma_model_id c = m \<and> ma_available c \<and> ma_health c \<noteq> Unavailable_health) (sn_models s)))"

definition isRunRouteEligibleForProfile ::
  "provider_snapshot list \<Rightarrow> run_provider \<Rightarrow> string option \<Rightarrow> reasoning_effort option \<Rightarrow> run_profile \<Rightarrow> stamp \<Rightarrow> bool" where
  "isRunRouteEligibleForProfile snapshots p model reasoning profile now =
     (if \<not> isOwnerApprovedCodexModel snapshots p model then False
      else if \<not> supportsReasoning snapshots p model reasoning then False
      else if profile = Prod then isRunRouteEligible snapshots p model now (Some reasoning)
      else if isRunRouteEligible snapshots p model now (Some reasoning) then True
      else case model of None \<Rightarrow> False | Some m \<Rightarrow> isKnownProviderModel snapshots p m)"

text \<open>What a production run may use, a development run may use; without a fresh snapshot only a development run on a
  known model is eligible.\<close>

lemma prod_route_is_dev_route:
  "isRunRouteEligibleForProfile sn p m r Prod now \<Longrightarrow> isRunRouteEligibleForProfile sn p m r Dev now"
  by (simp add: isRunRouteEligibleForProfile_def split: if_splits)

lemma prod_route_is_fresh:
  assumes "isRunRouteEligibleForProfile sn p m r Prod now"
  shows "\<exists>s \<in> set sn. sn_provider s = provider_name p \<and> freshnessForSnapshot s now = Fresh"
proof -
  from assms obtain s where "snapshot_of sn p = Some s" and "freshnessForSnapshot s now = Fresh"
    by (auto simp: isRunRouteEligibleForProfile_def isRunRouteEligible_def split: if_splits option.splits)
  then show ?thesis by (auto simp: snapshot_of_def find_Some_iff)
qed

end
