(* ===== verification/StateIO.thy ===== *)
theory StateIO
  imports JsPrelude
begin

text \<open>
  Calls on a world: a call maps the world it starts in to the world it ends in and what it returns or throws; a throw
  keeps what was done before it, as in the code. The calls in sequence, orders of worlds that calls keep, and a
  calculus of outcomes, for any type of worlds.
\<close>

named_theorems io_keeps \<open>calls that keep the order of worlds\<close>
named_theorems io_ends \<open>the outcome of a call from the outcomes of its parts\<close>

section \<open>Calls in sequence\<close>

type_synonym ('w, 'a) io = "'w \<Rightarrow> 'w \<times> (js_error + 'a)"

definition io_return :: "'a \<Rightarrow> ('w, 'a) io" where
  "io_return x w = (w, Inr x)"

definition io_throw :: "string \<Rightarrow> ('w, 'a) io" where
  "io_throw m w = (w, Inl (Error m))"

definition io_lift :: "js_error + 'a \<Rightarrow> ('w, 'a) io" where
  "io_lift r w = (w, r)"

definition io_bind :: "('w, 'a) io \<Rightarrow> ('a \<Rightarrow> ('w, 'b) io) \<Rightarrow> ('w, 'b) io" where
  "io_bind m f w = (case m w of (w', Inl e) \<Rightarrow> (w', Inl e) | (w', Inr x) \<Rightarrow> f x w')"

definition io_catch :: "('w, 'a) io \<Rightarrow> (js_error \<Rightarrow> ('w, 'a) io) \<Rightarrow> ('w, 'a) io" where
  "io_catch m h w = (case m w of (w', Inl e) \<Rightarrow> h e w' | (w', Inr x) \<Rightarrow> (w', Inr x))"

definition io_when :: "bool \<Rightarrow> ('w, unit) io \<Rightarrow> ('w, unit) io" where
  "io_when b m = (if b then m else io_return ())"

fun io_each :: "('a \<Rightarrow> ('w, unit) io) \<Rightarrow> 'a list \<Rightarrow> ('w, unit) io" where
  "io_each f [] = io_return ()"
| "io_each f (x # xs) = io_bind (f x) (\<lambda>_. io_each f xs)"

text \<open>A call whose outcome is looked at: what it threw, or what it returned.\<close>

definition io_attempt :: "('w, 'a) io \<Rightarrow> ('w, js_error + 'a) io" where
  "io_attempt m w = (case m w of (w', r) \<Rightarrow> (w', Inr r))"

definition io_assert :: "bool \<Rightarrow> string \<Rightarrow> ('w, unit) io" where
  "io_assert b m = (if b then io_return () else io_throw m)"

definition io_require :: "'a option \<Rightarrow> string \<Rightarrow> ('w, 'a) io" where
  "io_require v m = (case v of None \<Rightarrow> io_throw m | Some x \<Rightarrow> io_return x)"

section \<open>Calls that keep an order of worlds\<close>

definition preserving :: "('w \<Rightarrow> 'w \<Rightarrow> bool) \<Rightarrow> ('w, 'a) io \<Rightarrow> bool" where
  "preserving le m \<longleftrightarrow> (\<forall>w. le w (fst (m w)))"

lemma preservingI: "(\<And>w. le w (fst (m w))) \<Longrightarrow> preserving le m"
  by (simp add: preserving_def)

lemma preservingD: "preserving le m \<Longrightarrow> le w (fst (m w))"
  by (simp add: preserving_def)

locale state_order =
  fixes le :: "'w \<Rightarrow> 'w \<Rightarrow> bool"
  assumes le_refl: "le w w"
    and le_trans: "le u v \<Longrightarrow> le v w \<Longrightarrow> le u w"
begin

lemma keeps_return: "preserving le (io_return x)"
  by (simp add: preserving_def io_return_def le_refl)

lemma keeps_throw: "preserving le (io_throw m)"
  by (simp add: preserving_def io_throw_def le_refl)

lemma keeps_lift: "preserving le (io_lift r)"
  by (simp add: preserving_def io_lift_def le_refl)

lemma keeps_bind_io:
  assumes "preserving le m" and "\<And>x. preserving le (f x)"
  shows "preserving le (io_bind m f)"
proof (rule preservingI)
  fix w
  obtain w' r where m: "m w = (w', r)" by fastforce
  then have "le w w'" using preservingD [OF assms(1), of w] by simp
  moreover have "le w' (fst (f x w'))" for x using assms(2) by (rule preservingD)
  ultimately show "le w (fst (io_bind m f w))" using m le_trans by (cases r) (auto simp: io_bind_def)
qed

lemma keeps_catch:
  assumes "preserving le m" and "\<And>e. preserving le (h e)"
  shows "preserving le (io_catch m h)"
proof (rule preservingI)
  fix w
  obtain w' r where m: "m w = (w', r)" by fastforce
  then have "le w w'" using preservingD [OF assms(1), of w] by simp
  moreover have "le w' (fst (h e w'))" for e using assms(2) by (rule preservingD)
  ultimately show "le w (fst (io_catch m h w))" using m le_trans by (cases r) (auto simp: io_catch_def)
qed

lemma keeps_attempt: "preserving le m \<Longrightarrow> preserving le (io_attempt m)"
  by (auto simp: preserving_def io_attempt_def split: prod.splits dest: spec) (metis fst_conv)

lemma keeps_when: "preserving le m \<Longrightarrow> preserving le (io_when b m)"
  by (simp add: io_when_def keeps_return)

lemma keeps_each: "(\<And>x. preserving le (f x)) \<Longrightarrow> preserving le (io_each f xs)"
  by (induction xs) (simp_all add: keeps_return keeps_bind_io)

lemma keeps_assert: "preserving le (io_assert b m)"
  by (simp add: io_assert_def keeps_return keeps_throw)

lemma keeps_require: "preserving le (io_require v m)"
  by (cases v) (simp_all add: io_require_def keeps_return keeps_throw)

text \<open>A call that looks at the world before it decides what to do.\<close>

lemma keeps_looking: "(\<And>v. preserving le (\<lambda>w. f v w)) \<Longrightarrow> preserving le (\<lambda>w. f (g w) w)"
  by (simp add: preserving_def)

lemmas keeps_calls = keeps_return keeps_throw keeps_lift keeps_bind_io keeps_catch keeps_attempt keeps_when keeps_each
  keeps_assert keeps_require

end

lemma preserving_if: "preserving le a \<Longrightarrow> preserving le b \<Longrightarrow> preserving le (if c then a else b)"
  by simp

lemma preserving_option: "preserving le a \<Longrightarrow> (\<And>x. preserving le (f x)) \<Longrightarrow> preserving le (case v of None \<Rightarrow> a | Some x \<Rightarrow> f x)"
  by (cases v) simp_all

lemma preserving_sum: "(\<And>e. preserving le (h e)) \<Longrightarrow> (\<And>x. preserving le (f x)) \<Longrightarrow> preserving le (case v of Inl e \<Rightarrow> h e | Inr x \<Rightarrow> f x)"
  by (cases v) simp_all

lemma preserving_prod: "(\<And>a b. preserving le (f a b)) \<Longrightarrow> preserving le (case p of (a, b) \<Rightarrow> f a b)"
  by (cases p) simp_all


section \<open>Outcomes\<close>

text \<open>\<open>ends m Q R w\<close>: \<open>m\<close>, started in \<open>w\<close>, returns a value with \<open>Q\<close> or throws an error with \<open>R\<close>.\<close>

definition ends ::
  "('w, 'a) io \<Rightarrow> ('a \<Rightarrow> 'w \<Rightarrow> bool) \<Rightarrow> (js_error \<Rightarrow> 'w \<Rightarrow> bool) \<Rightarrow> 'w \<Rightarrow> bool" where
  "ends m Q R w = (case m w of (w', Inl e) \<Rightarrow> R e w' | (w', Inr x) \<Rightarrow> Q x w')"

lemma ends_Inr: "ends m Q R w \<Longrightarrow> m w = (w', Inr x) \<Longrightarrow> Q x w'"
  by (simp add: ends_def)

lemma ends_Inl: "ends m Q R w \<Longrightarrow> m w = (w', Inl e) \<Longrightarrow> R e w'"
  by (simp add: ends_def)

lemma ends_mono:
  assumes "ends m Q R w" and "\<And>x w'. Q x w' \<Longrightarrow> Q' x w'" and "\<And>e w'. R e w' \<Longrightarrow> R' e w'"
  shows "ends m Q' R' w"
  using assms by (auto simp: ends_def split: prod.splits sum.splits)

lemma ends_any: "(\<And>x w'. Q x w') \<Longrightarrow> (\<And>e w'. R e w') \<Longrightarrow> ends m Q R w"
  by (auto simp: ends_def split: prod.splits sum.splits)

lemma ends_conj: "ends m (\<lambda>x w'. Q x w' \<and> Q' x w') (\<lambda>e w'. R e w' \<and> R' e w') w \<longleftrightarrow> ends m Q R w \<and> ends m Q' R' w"
  by (auto simp: ends_def split: prod.splits sum.splits)

lemma ends_preserving: "preserving le m \<Longrightarrow> ends m (\<lambda>_. le w) (\<lambda>_. le w) w"
  using preservingD [of le m w] by (auto simp: ends_def split: prod.splits sum.splits)

lemma ends_total: "ends m Q R w \<longleftrightarrow> (\<forall>w' x. m w = (w', Inr x) \<longrightarrow> Q x w') \<and> (\<forall>w' e. m w = (w', Inl e) \<longrightarrow> R e w')"
  by (auto simp: ends_def split: prod.splits sum.splits)

lemma ends_control [io_ends]:
  "ends (io_return x) Q R = Q x" "ends (io_throw msg) Q R w \<longleftrightarrow> R (Error msg) w"
  "ends (io_lift r) Q R w \<longleftrightarrow> (case r of Inl e \<Rightarrow> R e w | Inr x \<Rightarrow> Q x w)"
  "ends (io_catch m h) Q R w \<longleftrightarrow> ends m Q (\<lambda>e. ends (h e) Q R) w"
  "ends (io_attempt m) Q' R w \<longleftrightarrow> ends m (\<lambda>x. Q' (Inr x)) (\<lambda>e. Q' (Inl e)) w"
  by (auto simp: fun_eq_iff ends_def io_return_def io_throw_def io_lift_def io_catch_def io_attempt_def split: prod.splits sum.splits)

lemma ends_bind [io_ends]: "ends (io_bind m f) Q R = ends m (\<lambda>x. ends (f x) Q R) R"
  by (rule ext) (auto simp: ends_def io_bind_def split: prod.splits sum.splits)

lemma ends_cond [io_ends]:
  "ends (io_when b u) Qu R w \<longleftrightarrow> (if b then ends u Qu R w else Qu () w)"
  "ends (io_assert b msg) Qu R w \<longleftrightarrow> (if b then Qu () w else R (Error msg) w)"
  "ends (io_require v msg) Q R w \<longleftrightarrow> (case v of None \<Rightarrow> R (Error msg) w | Some x \<Rightarrow> Q x w)"
  by (auto simp: io_when_def io_assert_def io_require_def io_ends split: option.splits)

lemma ends_split [io_ends]:
  "ends (if b then m else m') Q R w \<longleftrightarrow> (if b then ends m Q R w else ends m' Q R w)"
  "ends (case v of None \<Rightarrow> m | Some x \<Rightarrow> f x) Q R w \<longleftrightarrow> (case v of None \<Rightarrow> ends m Q R w | Some x \<Rightarrow> ends (f x) Q R w)"
  "ends (case s of Inl e \<Rightarrow> h e | Inr y \<Rightarrow> g y) Q R w \<longleftrightarrow> (case s of Inl e \<Rightarrow> ends (h e) Q R w | Inr y \<Rightarrow> ends (g y) Q R w)"
  by (auto split: option.splits sum.splits)

text \<open>A call that keeps an order of worlds ends as its continuation does in every world it may lead to.\<close>

lemma ends_keeping:
  assumes "preserving le m" and "\<And>x w'. le w w' \<Longrightarrow> Q x w'" and "\<And>e w'. le w w' \<Longrightarrow> R e w'"
  shows "ends m Q R w"
  using ends_preserving [OF assms(1)] assms(2,3) by (blast intro: ends_mono)

end
