(* ===== verification/RunWorld.thy ===== *)
theory RunWorld
  imports Dispatch RunStore SupervisorQueue RouteEligibility StateIO
begin

text \<open>
  The world a run lives in: the four stores the orchestrator composes (\<^verbatim>\<open>runStore.ts\<close>, \<^verbatim>\<open>approvalQueue.ts\<close>,
  \<^verbatim>\<open>tokenGateway.ts\<close>, \<^verbatim>\<open>supervisorQueue.ts\<close>), the clock and the identifiers it draws, and the calls on them.
  A call maps the world it starts in to the world it ends in and what it returns or throws; a throw keeps what was
  done before it, as in the code.
\<close>

section \<open>The world\<close>

record run_world =
  rw_runs :: run_store
  rw_approvals :: approval_queue
  rw_gateway :: gateway
  rw_queue :: queue
  rw_clock :: nat
  rw_drawn :: nat

text \<open>The result of a dispatch as far as the orchestrator reads it. \<open>parsedJson\<close>, which is only handed through, is
  left out.\<close>

record worker_output =
  wo_workerRunId :: string
  wo_exitCode :: int
  wo_rawOutput :: utf16
  wo_errorReason :: "string option"
  wo_lockStatus :: lock_status

datatype run_result = RunRefused string | RunWorked worker_output

datatype run_phase = Run_persisted | Approval_persisted | Bound | Queued_phase | Reservation_terminal | Artifact_phase
  | Finalized | Compensation_cleared

type_synonym 'a run_io = "(run_world, 'a) io"

text \<open>The options of the orchestrator and what it imports: the clock (\<open>oe_clock n\<close> is the \<open>n\<close>-th reading),
  \<open>randomUUID\<close> for runs, tasks and reservations, the text of a timestamp, the snapshots of the quota store, the
  decision mesh, the hash of a packet, the redaction of a worker's text, and the hook after a phase, which may throw.
  While \<open>dispatch\<close> is awaited other calls may change the world.\<close>

record orchestrator_env =
  oe_runs :: run_env
  oe_isProjectConfigurationError :: "js_error \<Rightarrow> bool"
  oe_fits_approvals :: "approval_queue \<Rightarrow> bool"
  oe_limits :: token_gateway_limits
  oe_fits_gateway :: "gateway_state \<Rightarrow> bool"
  oe_queue :: supervisor_env
  oe_maxAttempts :: "js_number option"
  oe_clock :: "nat \<Rightarrow> stamp"
  oe_stamp_text :: "stamp \<Rightarrow> string"
  oe_uuid :: "nat \<Rightarrow> string"
  oe_reservation_id :: "nat \<Rightarrow> gateway \<Rightarrow> string"
  oe_isRouteAvailable :: "(run_provider \<Rightarrow> string option \<Rightarrow> run_profile \<Rightarrow> reasoning_effort option \<Rightarrow> bool) option"
  oe_snapshots :: "js_error + provider_snapshot list"
  oe_packetBuilder :: "(agent_packet_input \<Rightarrow> js_error + agent_packet) option"
  oe_mesh :: "js_error + decision_mesh"
  oe_collate :: "string \<Rightarrow> string \<Rightarrow> int"
  oe_digest :: "json \<Rightarrow> string"
  oe_redact :: "utf16 \<Rightarrow> nat \<Rightarrow> js_error + utf16"
  oe_afterPhase :: "run_phase \<Rightarrow> js_error option"
  oe_dispatch :: "json \<Rightarrow> run_result run_io"

section \<open>The calls on the stores\<close>

definition io_now :: "orchestrator_env \<Rightarrow> stamp run_io" where
  "io_now E w = (w\<lparr>rw_clock := Suc (rw_clock w)\<rparr>, Inr (oe_clock E (rw_clock w)))"

definition io_uuid :: "orchestrator_env \<Rightarrow> string run_io" where
  "io_uuid E w = (w\<lparr>rw_drawn := Suc (rw_drawn w)\<rparr>, Inr (oe_uuid E (rw_drawn w)))"

definition io_phase :: "orchestrator_env \<Rightarrow> run_phase \<Rightarrow> unit run_io" where
  "io_phase E p w = (w, case oe_afterPhase E p of None \<Rightarrow> Inr () | Some e \<Rightarrow> Inl e)"

definition io_read_runs :: "run_store run_io" where
  "io_read_runs w = (w, readRunStore (rw_runs w))"

definition io_runs :: "(run_store \<Rightarrow> js_error + run_store \<times> 'a) \<Rightarrow> 'a run_io" where
  "io_runs f w = (case f (rw_runs w) of Inl e \<Rightarrow> (w, Inl e) | Inr (s, x) \<Rightarrow> (w\<lparr>rw_runs := s\<rparr>, Inr x))"

definition io_read_approvals :: "approval_queue run_io" where
  "io_read_approvals w = (w, readApprovalQueue (rw_approvals w))"

definition io_write_approvals :: "orchestrator_env \<Rightarrow> approval_queue \<Rightarrow> unit run_io" where
  "io_write_approvals E q w =
     (case writeApprovalQueue (oe_fits_approvals E) q of
        Inl e \<Rightarrow> (w, Inl e) | Inr q' \<Rightarrow> (w\<lparr>rw_approvals := q'\<rparr>, Inr ()))"

definition io_gateway :: "(gateway \<Rightarrow> gateway \<times> (gateway_error + 'a)) \<Rightarrow> 'a run_io" where
  "io_gateway f w = (case f (rw_gateway w) of
      (g, Inl e) \<Rightarrow> (w\<lparr>rw_gateway := g\<rparr>, Inl (gateway_throw e)) | (g, Inr x) \<Rightarrow> (w\<lparr>rw_gateway := g\<rparr>, Inr x))"

definition io_queue :: "(queue \<Rightarrow> queue \<times> (js_error + 'a)) \<Rightarrow> 'a run_io" where
  "io_queue f w = (case f (rw_queue w) of (q, r) \<Rightarrow> (w\<lparr>rw_queue := q\<rparr>, r))"

definition io_snapshot :: "queue run_io" where
  "io_snapshot w = (w, Inr (rw_queue w))"

text \<open>The gateway draws the identifier and the time of a new reservation itself.\<close>

definition io_reserve :: "orchestrator_env \<Rightarrow> token_request_input \<Rightarrow> token_reservation run_io" where
  "io_reserve E input = io_bind (io_now E) (\<lambda>t. \<lambda>w.
     io_gateway (reserve (oe_limits E) (oe_fits_gateway E) (oe_reservation_id E (rw_drawn w) (rw_gateway w)) t input)
       (w\<lparr>rw_drawn := Suc (rw_drawn w)\<rparr>))"

definition io_claimGroupSlot :: "orchestrator_env \<Rightarrow> string \<Rightarrow> string \<Rightarrow> token_request_input \<Rightarrow> token_reservation run_io" where
  "io_claimGroupSlot E gid sid input = io_bind (io_now E) (\<lambda>t. \<lambda>w.
     io_gateway (claimGroupSlot (oe_limits E) (oe_fits_gateway E) (oe_reservation_id E (rw_drawn w) (rw_gateway w)) t gid sid input)
       (w\<lparr>rw_drawn := Suc (rw_drawn w)\<rparr>))"

definition io_settle :: "orchestrator_env \<Rightarrow> token_reservation \<Rightarrow> token_usage \<Rightarrow> token_settlement run_io" where
  "io_settle E r usage = io_bind (io_now E) (\<lambda>t. io_gateway (settle (oe_limits E) (oe_fits_gateway E) t r usage))"

definition io_release :: "orchestrator_env \<Rightarrow> token_reservation \<Rightarrow> unit run_io" where
  "io_release E r = io_bind (io_now E) (\<lambda>t. io_gateway (release (oe_fits_gateway E) t r))"

definition io_acknowledge :: "orchestrator_env \<Rightarrow> string \<Rightarrow> unit run_io" where
  "io_acknowledge E rid = io_gateway (acknowledgeTerminal (oe_fits_gateway E) rid)"

section \<open>Reservations\<close>

text \<open>A reservation in the run store has the fields of a reservation of the gateway.\<close>

definition stored_reservation :: "token_reservation \<Rightarrow> run_reservation" where
  "stored_reservation r =
     \<lparr>rr_reservationId = reservationId r, rr_provider = provider r, rr_model = model r, rr_sessionId = sessionId r,
      rr_inputTokens = inputTokens r, rr_outputTokens = outputTokens r, rr_handoffId = handoffId r,
      rr_reservedAt = reservedAt r, rr_totalTokens = totalTokens r, rr_groupId = groupId r, rr_slotId = slotId r,
      rr_heldTokens = heldTokens r\<rparr>"

definition gateway_reservation :: "run_reservation \<Rightarrow> token_reservation" where
  "gateway_reservation r =
     \<lparr>provider = rr_provider r, model = rr_model r, sessionId = rr_sessionId r, inputTokens = rr_inputTokens r,
      outputTokens = rr_outputTokens r, handoffId = rr_handoffId r, reservationId = rr_reservationId r,
      reservedAt = rr_reservedAt r, totalTokens = rr_totalTokens r, groupId = rr_groupId r, slotId = rr_slotId r,
      heldTokens = rr_heldTokens r\<rparr>"

lemma gateway_stored_reservation [simp]: "gateway_reservation (stored_reservation r) = r"
  by (simp add: gateway_reservation_def stored_reservation_def)

lemma stored_gateway_reservation [simp]: "stored_reservation (gateway_reservation r) = r"
  by (simp add: gateway_reservation_def stored_reservation_def)

end
