(* ===== verification/RunOrchestrator.thy ===== *)
theory RunOrchestrator
  imports RunWorld
begin

text \<open>
  \<^verbatim>\<open>src/data/delivery-system/runOrchestrator.ts\<close>: a run from its draft to its end, over the run store, the approval
  queue, the token gateway and the supervisor queue. Every method of the code is one definition; those with several
  phases are cut where the code has a block of its own. \<^verbatim>\<open>workerOutputPolicy.ts\<close> stands first.
\<close>

section \<open>Sanitized output\<close>

definition MAX_PERSISTED_WORKER_OUTPUT_CHARS :: nat where "MAX_PERSISTED_WORKER_OUTPUT_CHARS = 32000"
definition MAX_PERSISTED_WORKER_ERROR_CHARS :: nat where "MAX_PERSISTED_WORKER_ERROR_CHARS = 2000"

definition sanitize_text :: "orchestrator_env \<Rightarrow> utf16 \<Rightarrow> nat \<Rightarrow> utf16" where
  "sanitize_text E v bound =
     (let s = (case oe_redact E v bound of Inl _ \<Rightarrow> take bound (units_of ''[REDACTION_FAILED]'') | Inr s \<Rightarrow> s)
      in if length s > 0 \<and> high_surrogate (last s) then butlast s else s)"

definition sanitizeWorkerOutput :: "orchestrator_env \<Rightarrow> utf16 \<Rightarrow> utf16" where
  "sanitizeWorkerOutput E v = sanitize_text E v MAX_PERSISTED_WORKER_OUTPUT_CHARS"

definition sanitizeWorkerError :: "orchestrator_env \<Rightarrow> string option \<Rightarrow> string option" where
  "sanitizeWorkerError E v =
     (case v of None \<Rightarrow> None | Some s \<Rightarrow> Some (chars_of (sanitize_text E (units_of s) MAX_PERSISTED_WORKER_ERROR_CHARS)))"

definition sanitizeDispatchResult :: "orchestrator_env \<Rightarrow> run_result \<Rightarrow> run_result" where
  "sanitizeDispatchResult E r =
     (case r of RunRefused reason \<Rightarrow> RunRefused reason
      | RunWorked out \<Rightarrow> RunWorked (out\<lparr>wo_rawOutput := sanitizeWorkerOutput E (wo_rawOutput out),
          wo_errorReason := sanitizeWorkerError E (wo_errorReason out)\<rparr>))"

section \<open>Names and commitments\<close>

fun reasoning_name :: "reasoning_effort \<Rightarrow> string" where
  "reasoning_name Low = ''low''" | "reasoning_name Medium = ''medium''" | "reasoning_name High = ''high''"
| "reasoning_name XHigh = ''xhigh''" | "reasoning_name MaxEffort = ''max''" | "reasoning_name Ultra = ''ultra''"

fun work_class_name :: "work_class \<Rightarrow> string" where
  "work_class_name Deterministic_check = ''deterministic_check''" | "work_class_name Mechanical_change = ''mechanical_change''"
| "work_class_name Bounded_implementation = ''bounded_implementation''"
| "work_class_name Research_or_design = ''research_or_design''"
| "work_class_name Review_class = ''review''" | "work_class_name High_risk_class = ''high_risk''"

fun work_risk_name :: "work_risk \<Rightarrow> string" where
  "work_risk_name OrdinaryRisk = ''ordinary''" | "work_risk_name HighRisk = ''high''"

fun stored_profile_name :: "stored_profile \<Rightarrow> string" where
  "stored_profile_name (Stored Dev) = ''dev''" | "stored_profile_name (Stored Prod) = ''prod''"
| "stored_profile_name Legacy = ''legacy''"

definition handoffIdFor :: "run_record \<Rightarrow> string" where
  "handoffIdFor r = ''run-handoff-'' @ run_id r @ ''-'' @ int_text (draft_revision (current r))"

definition deterministicGroupRunId :: "orchestrator_env \<Rightarrow> string \<Rightarrow> string \<Rightarrow> string" where
  "deterministicGroupRunId E gid sid = ''bgr-'' @ take 32 (run_sha256 (oe_runs E) (units_of (gid @ [CHR 0x00] @ sid)))"

definition requiredGroupPromptCommitment :: "run_record \<Rightarrow> js_error + string" where
  "requiredGroupPromptCommitment r =
     (case orchestration_req r of None \<Rightarrow> Inl (Error ''run_prompt_commitment_missing'')
      | Some q \<Rightarrow> (case req_prompt_commitment q of
          None \<Rightarrow> Inl (Error ''run_prompt_commitment_missing'') | Some c \<Rightarrow> Inr c))"

definition assertGroupPromptCommitment :: "orchestrator_env \<Rightarrow> run_record \<Rightarrow> js_error + unit" where
  "assertGroupPromptCommitment E r =
     (if orchestration_ref r = None then Inr ()
      else bind_result (requiredGroupPromptCommitment r) (\<lambda>c.
        if canonicalPromptCommitment (oe_runs E) (prompt (current r)) \<noteq> c
        then Inl (Error ''run_prompt_commitment_mismatch'') else Inr ()))"

definition text_field :: "string \<Rightarrow> json \<Rightarrow> string option" where
  "text_field f h = json_string (field f h)"

definition or_undefined :: "string option \<Rightarrow> string" where
  "or_undefined v = (case v of None \<Rightarrow> ''undefined'' | Some s \<Rightarrow> s)"

definition assertDispatchPromptCommitment :: "orchestrator_env \<Rightarrow> run_record \<Rightarrow> json \<Rightarrow> js_error + unit" where
  "assertDispatchPromptCommitment E r h =
     (if orchestration_ref r = None then Inr ()
      else bind_result (requiredGroupPromptCommitment r) (\<lambda>c.
        if canonicalPromptCommitment (oe_runs E) (prompt (current r)) \<noteq> c \<or>
           canonicalPromptCommitment (oe_runs E) (units_of (or_undefined (text_field ''prompt'' h))) \<noteq> c
          then Inl (Error ''run_prompt_commitment_mismatch'')
        else if text_field ''sessionId'' h \<noteq> Some (run_id r) \<or> or_undefined (text_field ''handoffId'' h) \<noteq> handoffIdFor r
          then Inl (Error ''run_prompt_commitment_identity_mismatch'')
        else Inr ()))"

definition same_number :: "int \<Rightarrow> js_number \<Rightarrow> bool" where
  "same_number n x \<longleftrightarrow> x = Finite (real_of_int n)"

definition sameGroupDraft :: "run_record \<Rightarrow> run_draft_input \<Rightarrow> bool" where
  "sameGroupDraft r input \<longleftrightarrow>
     (let c = current r in
      project_id c = in_project_id input \<and> prompt c = in_prompt input \<and> draft_provider c = in_provider input \<and>
      draft_model c = in_model input \<and>
      (case orchestration_req r of None \<Rightarrow> False
       | Some q \<Rightarrow> same_number (req_estimated_tokens q) (in_estimated_tokens input)) \<and>
      profile c = Some (in_profile input) \<and> requested_reasoning_effort c = in_reasoning_effort input \<and>
      promotion_packet_id c = in_promotion_packet_id input \<and>
      prompt_review_acknowledged c = in_prompt_review_acknowledged input \<and>
      requested_artifacts c = in_requested_artifacts input)"

definition assertTaskRoute :: "run_record \<Rightarrow> json \<Rightarrow> js_error + unit" where
  "assertTaskRoute r h = assertNoSilentRouteChange
     \<lparr>snap_provider = provider_name (draft_provider (current r)), snap_model = draft_model (current r),
      snap_reasoning = map_option reasoning_name (resolveLegacyRequestedReasoning r)\<rparr>
     \<lparr>snap_provider = or_undefined (text_field ''vendor'' h), snap_model = text_field ''model'' h,
      snap_reasoning = (case field ''generationSettings'' h of None \<Rightarrow> None | Some g \<Rightarrow> text_field ''reasoning_effort'' g)\<rparr>"

section \<open>Handoffs\<close>

definition optional_text :: "string \<Rightarrow> string option \<Rightarrow> (string \<times> json) list" where
  "optional_text f v = (case v of None \<Rightarrow> [] | Some s \<Rightarrow> [(f, JStr s)])"

definition run_handoff :: "run_record \<Rightarrow> string \<Rightarrow> string \<Rightarrow> string list \<Rightarrow> string \<Rightarrow> json" where
  "run_handoff r task packetHash checks cwd =
     (let storedProfile = resolveRunProfile r;
          executionProfile = (case storedProfile of Legacy \<Rightarrow> Prod | Stored p \<Rightarrow> p);
          workUnit = classifyWorkUnitForProfile executionProfile False;
          effort = map_option reasoning_name (resolveLegacyRequestedReasoning r)
      in JObj ([(''handoffId'', JStr (handoffIdFor r)), (''sessionId'', JStr (run_id r)),
           (''vendor'', JStr (provider_name (draft_provider (current r))))] @
         optional_text ''model'' (draft_model (current r)) @
         [(''prompt'', JStr (chars_of (prompt (current r)))), (''cwd'', JStr cwd),
          (''parentSessionHash'', JStr (run_id r)), (''parentTurnHash'', JStr (int_text (draft_revision (current r)))),
          (''task'', JStr task), (''agent'', JStr ''worker''), (''packet_hash'', JStr packetHash),
          (''required_checks'', JArr (map JStr checks)),
          (''efficiency'', JObj [
             (''work_unit'', JObj [(''work_unit_id'', JStr (run_id r)), (''class'', JStr (work_class_name (fst workUnit))),
                (''risk'', JStr (work_risk_name (snd workUnit)))]),
             (''profile'', JStr (stored_profile_name storedProfile)),
             (''actual_reasoning_effort'', case effort of None \<Rightarrow> JNull | Some e \<Rightarrow> JStr e)])] @
         (case effort of None \<Rightarrow> [] | Some e \<Rightarrow> [(''generationSettings'', JObj [(''reasoning_effort'', JStr e)])])))"

definition run_packet :: "orchestrator_env \<Rightarrow> agent_packet_input \<Rightarrow> js_error + agent_packet" where
  "run_packet E input =
     (case oe_packetBuilder E of Some build \<Rightarrow> build input
      | None \<Rightarrow> bind_result (oe_mesh E) (\<lambda>mesh. buildAgentPacket (oe_collate E) mesh input))"

definition handoffFor :: "orchestrator_env \<Rightarrow> run_record \<Rightarrow> js_error + json" where
  "handoffFor E r =
     bind_result (assertGroupPromptCommitment E r) (\<lambda>_.
     bind_result (assertRunPromptPolicy (prompt (current r)) (prompt_review_acknowledged (current r))) (\<lambda>_.
     if estimated_tokens (current r) \<noteq> canonicalRunTokenBudget (prompt (current r))
     then Inl (Error ''run_token_budget_mismatch'')
     else
       let task = ''Execute approved run '' @ run_id r @ '' revision '' @ int_text (draft_revision (current r)) in
       bind_result (run_packet E \<lparr>ap_task = task, ap_agent = ''worker'',
           ap_token_budget = Some (Finite (real_of_int (estimated_tokens (current r)))), ap_mode = None\<rparr>) (\<lambda>packet.
       bind_result (resolveEnabledProject (oe_runs E) (project_id (current r))) (\<lambda>cwd.
         Inr (run_handoff r task (computePacketHash (oe_digest E) packet None) (packet_required_checks packet) cwd)))))"

text \<open>A handoff with another working directory (\<open>{ ...handoff, cwd }\<close>).\<close>

fun with_field :: "string \<Rightarrow> json \<Rightarrow> json \<Rightarrow> json" where
  "with_field f v (JObj fs) = JObj (AList.update f v fs)"
| "with_field f v h = JObj [(f, v)]"

section \<open>Small calls\<close>

definition io_record :: "string \<Rightarrow> run_record run_io" where
  "io_record i w = (w, find_run i (rw_runs w))"

text \<open>A call on the run store that is given the time.\<close>

definition io_runs_at :: "orchestrator_env \<Rightarrow> (run_env \<Rightarrow> stamp \<Rightarrow> run_store \<Rightarrow> js_error + run_store \<times> 'a) \<Rightarrow> 'a run_io" where
  "io_runs_at E f = io_bind (io_now E) (\<lambda>t. io_runs (f (oe_runs E) t))"

definition io_finalize :: "orchestrator_env \<Rightarrow> string \<Rightarrow> bool \<Rightarrow> string option \<Rightarrow> run_record run_io" where
  "io_finalize E i completed reason = io_bind (io_now E) (\<lambda>t. \<lambda>w.
     case finalizeRun (oe_runs E) i completed reason t (rw_runs w) of (s, r) \<Rightarrow> (w\<lparr>rw_runs := s\<rparr>, r))"

definition io_cancel_task :: "orchestrator_env \<Rightarrow> string \<Rightarrow> string \<Rightarrow> unit run_io" where
  "io_cancel_task E tid reason = io_bind (io_now E) (\<lambda>t.
     io_bind (io_queue (cancel (oe_queue E) tid reason t)) (\<lambda>_. io_return ()))"

definition io_task :: "string \<Rightarrow> supervisor_task option run_io" where
  "io_task tid = io_bind io_snapshot (\<lambda>q. io_return (find_task tid q))"

definition finished_task :: "task_status \<Rightarrow> bool" where
  "finished_task s \<longleftrightarrow> s \<in> {Cancelled, Failed, Completed}"

definition finished_run :: "run_record \<Rightarrow> bool" where
  "finished_run r \<longleftrightarrow> run_status r \<in> {RCompleted, RFailed, RCancelled}"

definition routeAvailable ::
  "orchestrator_env \<Rightarrow> run_provider \<Rightarrow> string option \<Rightarrow> run_profile option \<Rightarrow> reasoning_effort option \<Rightarrow> bool \<Rightarrow> bool run_io" where
  "routeAvailable E p m prof reasoning strictRouteEligibility =
     (let pf = (case prof of None \<Rightarrow> Dev | Some x \<Rightarrow> x) in
      case oe_isRouteAvailable E of
        Some available \<Rightarrow> io_return (available p m pf reasoning)
      | None \<Rightarrow>
          io_bind (io_now E) (\<lambda>t. io_bind (io_lift (oe_snapshots E)) (\<lambda>sn. io_return
            (if strictRouteEligibility then isRunRouteEligible sn p m t (Some reasoning)
             else isRunRouteEligibleForProfile sn p m reasoning pf t))))"

definition run_approval :: "orchestrator_env \<Rightarrow> run_draft \<Rightarrow> stamp \<Rightarrow> approval_record" where
  "run_approval E d now = createApprovalRecord
     \<lparr>ai_approvalId = ''run-approval-'' @ draft_run_id d @ ''-'' @ int_text (draft_revision d),
      ai_runId = Some (draft_run_id d), ai_revision = Some (Finite (real_of_int (draft_revision d))),
      ai_sessionId = draft_run_id d, ai_vendor = provider_name (draft_provider d), ai_model = draft_model d,
      ai_skillIds = [], ai_prompt = prompt d, ai_promptFile = None,
      ai_estimatedTokens = Finite (real_of_int (estimated_tokens d)),
      ai_inputTokenBound = Finite (real_of_int (input_token_bound d)),
      ai_outputTokenAllowance = Finite (real_of_int (output_token_allowance d)),
      ai_promptReviewAcknowledged = Some (prompt_review_acknowledged d), ai_now = oe_stamp_text E now\<rparr>"

definition approval_for :: "string \<Rightarrow> int \<Rightarrow> approval_record \<Rightarrow> bool" where
  "approval_for i revision a \<longleftrightarrow> approval_run_id a = Some i \<and> approval_revision a = Some (Finite (real_of_int revision))"

section \<open>Preparing a run\<close>

definition prepareRun :: "orchestrator_env \<Rightarrow> run_draft_input \<Rightarrow> run_record run_io" where
  "prepareRun E input =
     io_bind (io_lift (resolveEnabledProject (oe_runs E) (in_project_id input))) (\<lambda>_.
     io_bind (routeAvailable E (in_provider input) (in_model input) (Some (in_profile input)) (in_reasoning_effort input) False) (\<lambda>ok.
     io_bind (io_assert ok ''run_route_unavailable'') (\<lambda>_.
     io_bind (io_uuid E) (\<lambda>fresh.
     io_bind (io_runs_at E (\<lambda>R t. createRunDraft R fresh input t)) (\<lambda>draft.
     io_bind (io_now E) (\<lambda>t.
     io_bind io_read_approvals (\<lambda>queue.
     io_bind (io_write_approvals E (queue @ [run_approval E draft t])) (\<lambda>_.
     io_record (draft_run_id draft)))))))))"

section \<open>Compensating a failed enqueue\<close>

definition first_error :: "js_error option \<Rightarrow> js_error + 'a \<Rightarrow> js_error option" where
  "first_error known r = (case known of Some e \<Rightarrow> Some e | None \<Rightarrow> (case r of Inl e \<Rightarrow> Some e | Inr _ \<Rightarrow> None))"

definition release_and_mark :: "orchestrator_env \<Rightarrow> run_record \<Rightarrow> run_reservation \<Rightarrow> run_record run_io" where
  "release_and_mark E run reservation =
     io_bind (io_release E (gateway_reservation reservation)) (\<lambda>_.
     io_runs_at E (\<lambda>R t. markRunReservationTerminal R (run_id run) False t))"

text \<open>What follows the two attempts: the binding is cleared, or the first error is thrown, or the run is left as it is.\<close>

definition close_compensation :: "orchestrator_env \<Rightarrow> string \<Rightarrow> run_record \<Rightarrow> js_error option \<Rightarrow> run_record run_io" where
  "close_compensation E tid run firstError =
     io_bind (io_task tid) (\<lambda>latestTask.
     if firstError = None \<and> (case latestTask of None \<Rightarrow> True | Some t \<Rightarrow> finished_task (status t)) \<and>
        reservation_status run = ReleasedReservation
     then io_bind (io_runs_at E (\<lambda>R t. clearRunSupervisorBinding R (run_id run) t)) (\<lambda>cleared.
          io_bind (io_phase E Compensation_cleared) (\<lambda>_. io_return cleared))
     else case firstError of Some e \<Rightarrow> io_lift (Inl e) | None \<Rightarrow> io_return run)"

definition reconcileQueueCompensation :: "orchestrator_env \<Rightarrow> run_record \<Rightarrow> run_record run_io" where
  "reconcileQueueCompensation E run =
     (case (queue_compensation_requested run, supervisor_task_id run, token_reservation run) of
        (True, Some tid, Some reservation) \<Rightarrow>
          io_bind (io_task tid) (\<lambda>task.
          io_bind (if (case task of None \<Rightarrow> False | Some t \<Rightarrow> \<not> finished_task (status t))
                   then io_attempt (io_cancel_task E tid ''enqueue_failed'') else io_return (Inr ())) (\<lambda>cancelled.
          io_bind (if reservation_status run = ActiveReservation
                   then io_attempt (release_and_mark E run reservation) else io_return (Inr run)) (\<lambda>released.
            close_compensation E tid (case released of Inl _ \<Rightarrow> run | Inr r \<Rightarrow> r)
              (first_error (first_error None cancelled) released))))
      | _ \<Rightarrow> io_return run)"

section \<open>Approving and queueing\<close>

definition run_token_request :: "run_draft \<Rightarrow> string option \<Rightarrow> string \<Rightarrow> token_request_input" where
  "run_token_request d session hid =
     \<lparr>provider = provider_name (draft_provider d), model = draft_model d, sessionId = session,
      raw_inputTokens = Finite (real_of_int (input_token_bound d)),
      raw_outputTokens = Finite (real_of_int (output_token_allowance d)), raw_handoffId = Some hid\<rparr>"

definition run_enqueue_input :: "orchestrator_env \<Rightarrow> string \<Rightarrow> json \<Rightarrow> string \<Rightarrow> enqueue_input" where
  "run_enqueue_input E tid h session =
     \<lparr>in_taskId = tid, in_handoff = h, in_sessionId = Some session, in_maxAttempts = oe_maxAttempts E,
      in_timeoutMs = None, in_dependencyIds = [], in_requiresApproval = True, in_approvalGranted = True\<rparr>"

definition io_enqueue :: "orchestrator_env \<Rightarrow> string \<Rightarrow> json \<Rightarrow> string \<Rightarrow> unit run_io" where
  "io_enqueue E tid h session = io_bind (io_now E) (\<lambda>t.
     io_bind (io_queue (enqueue (oe_queue E) (run_enqueue_input E tid h session) t)) (\<lambda>_. io_return ()))"

text \<open>The approval of the run is found and, when it is still pending, decided.\<close>

fun replace_first :: "('a \<Rightarrow> bool) \<Rightarrow> 'a \<Rightarrow> 'a list \<Rightarrow> 'a list" where
  "replace_first P y [] = []"
| "replace_first P y (x # xs) = (if P x then y # xs else x # replace_first P y xs)"

definition decide_run_approval :: "orchestrator_env \<Rightarrow> run_record \<Rightarrow> string \<Rightarrow> int \<Rightarrow> unit run_io" where
  "decide_run_approval E initial i revision =
     io_bind io_read_approvals (\<lambda>queue.
     io_bind (io_require (List.find (approval_for i revision) queue) ''approval_not_found'') (\<lambda>approval.
     io_bind (io_assert
         (review_acknowledged approval = prompt_review_acknowledged (current initial) \<and>
          same_number (estimated_tokens (current initial)) (approval_estimated_tokens approval) \<and>
          same_number (input_token_bound (current initial)) (approval_input_bound approval) \<and>
          same_number (output_token_allowance (current initial)) (approval_output_allowance approval))
         ''run_revision_conflict'') (\<lambda>_.
     if approval_status approval = Pending
     then io_bind (io_now E) (\<lambda>t.
          io_bind (io_lift (decideApproval approval False (oe_stamp_text E t) None)) (\<lambda>decided.
          io_write_approvals E (replace_first (approval_for i revision) decided queue)))
     else io_assert (approval_status approval = Approved) ''approval_not_approved'')))"

text \<open>The reservation and the task of an approved run: those it is bound to, or new ones.\<close>

definition bind_run :: "orchestrator_env \<Rightarrow> run_record \<Rightarrow> run_record \<Rightarrow> string run_io" where
  "bind_run E approved durable =
     (case (token_reservation durable, supervisor_task_id durable) of
        (Some _, Some tid) \<Rightarrow> io_return tid
      | _ \<Rightarrow>
          io_bind (io_reserve E (run_token_request (current approved) (Some (run_id durable)) (handoffIdFor approved))) (\<lambda>reservation.
          io_bind (io_uuid E) (\<lambda>u.
            let tid = ''run-task-'' @ u in
            io_bind (io_runs_at E (\<lambda>R t. bindRunToSupervisor R (run_id durable) tid (stored_reservation reservation) t)) (\<lambda>_.
            io_bind (io_phase E Bound) (\<lambda>_. io_return tid)))))"

text \<open>A task that is not in the queue yet is enqueued; when that fails, the binding is compensated.\<close>

definition enqueue_run :: "orchestrator_env \<Rightarrow> string \<Rightarrow> string \<Rightarrow> json \<Rightarrow> unit run_io" where
  "enqueue_run E i tid h =
     io_bind (io_task tid) (\<lambda>existing.
     if existing \<noteq> None then io_return ()
     else io_catch (io_enqueue E tid h i) (\<lambda>e.
       io_bind (io_runs_at E (\<lambda>R t. requestRunQueueCompensation R i t)) (\<lambda>compensating.
       io_bind (io_attempt (reconcileQueueCompensation E compensating)) (\<lambda>_. io_lift (Inl e)))))"

text \<open>What an earlier attempt left: a compensation that is still due, or a reservation that was given back.\<close>

definition durable_run :: "orchestrator_env \<Rightarrow> string \<Rightarrow> run_record run_io" where
  "durable_run E i =
     io_bind (io_record i) (\<lambda>stored.
     io_bind (if queue_compensation_requested stored then reconcileQueueCompensation E stored else io_return stored) (\<lambda>durable.
     if run_status durable = RApproved \<and> reservation_status durable = ReleasedReservation
     then io_runs_at E (\<lambda>R t. clearRunSupervisorBinding R i t) else io_return durable))"

definition queue_durable :: "orchestrator_env \<Rightarrow> string \<Rightarrow> run_record \<Rightarrow> json \<Rightarrow> run_record \<Rightarrow> run_record run_io" where
  "queue_durable E i approved h durable =
     io_bind (bind_run E approved durable) (\<lambda>tid.
     io_bind (enqueue_run E i tid h) (\<lambda>_.
     io_bind (io_runs_at E (\<lambda>R t. transitionRun R i RQueued t)) (\<lambda>queued.
     io_bind (io_phase E Queued_phase) (\<lambda>_. io_return queued))))"

definition approveAndQueueRun :: "orchestrator_env \<Rightarrow> string \<Rightarrow> int \<Rightarrow> string \<Rightarrow> run_record run_io" where
  "approveAndQueueRun E i revision operator =
     io_bind (io_record i) (\<lambda>initial.
     io_bind (io_assert (draft_revision (current initial) = revision) ''run_revision_conflict'') (\<lambda>_.
     if run_status initial = RQueued \<and> supervisor_task_id initial \<noteq> None then io_return initial
     else
       io_bind (io_assert (run_status initial \<in> {RDraft, RApproved}) ''run_revision_conflict'') (\<lambda>_.
       io_bind (routeAvailable E (draft_provider (current initial)) (draft_model (current initial)) (profile (current initial))
           (requested_reasoning_effort (current initial)) False) (\<lambda>ok.
       io_bind (io_assert ok ''run_route_unavailable'') (\<lambda>_.
       io_bind (decide_run_approval E initial i revision) (\<lambda>_.
       io_bind (io_runs_at E (\<lambda>R t. approveRunRevision R i revision operator t)) (\<lambda>approved.
       io_bind (io_lift (handoffFor E approved)) (\<lambda>h.
       io_bind (durable_run E i) (queue_durable E i approved h)))))))))"

section \<open>Runs of a group\<close>

definition reserveOrchestrationGroup :: "orchestrator_env \<Rightarrow> group_spec \<Rightarrow> token_group run_io" where
  "reserveOrchestrationGroup E spec = io_gateway (reserveGroup (oe_limits E) (oe_fits_gateway E) spec)"

definition releaseOrchestrationGroupSlots :: "orchestrator_env \<Rightarrow> string \<Rightarrow> string list \<Rightarrow> token_group run_io" where
  "releaseOrchestrationGroupSlots E gid slotIds =
     io_bind (io_now E) (\<lambda>t. io_gateway (releaseGroupSlots (oe_fits_gateway E) t gid slotIds))"

definition find_group_run :: "string \<Rightarrow> string \<Rightarrow> run_store \<Rightarrow> run_record option" where
  "find_group_run gid sid s = List.find (\<lambda>r. orchestration_ref r = Some \<lparr>ref_group_id = gid, ref_slot_id = sid\<rparr>) s"

definition same_group_request :: "run_record \<Rightarrow> run_draft_input \<Rightarrow> string \<Rightarrow> bool" where
  "same_group_request r draft operator \<longleftrightarrow>
     sameGroupDraft r draft \<and>
     (case orchestration_req r of None \<Rightarrow> False
      | Some q \<Rightarrow> req_operator q = operator \<and> same_number (req_estimated_tokens q) (in_estimated_tokens draft))"

text \<open>The run of the slot: the stored one, which must be of the same request, or a new one.\<close>

definition ensure_group_record :: "orchestrator_env \<Rightarrow> string \<Rightarrow> string \<Rightarrow> run_draft_input \<Rightarrow> string \<Rightarrow> run_record run_io" where
  "ensure_group_record E gid sid draft operator =
     io_bind io_read_runs (\<lambda>s.
     case find_group_run gid sid s of
       Some r \<Rightarrow> io_bind (io_assert (same_group_request r draft operator) ''orchestration_group_run_mismatch'') (\<lambda>_. io_return r)
     | None \<Rightarrow>
         let i = deterministicGroupRunId E gid sid in
         io_bind (io_runs_at E (\<lambda>R t. createGroupRunDraft R i \<lparr>ref_group_id = gid, ref_slot_id = sid\<rparr> operator draft t)) (\<lambda>_.
         io_bind (io_record i) (\<lambda>r.
         io_bind (io_phase E Run_persisted) (\<lambda>_. io_return r))))"

text \<open>The approval of its current revision: the stored one, or a new one, decided when the run is past its draft.\<close>

definition ensure_group_approval :: "orchestrator_env \<Rightarrow> run_record \<Rightarrow> approval_record run_io" where
  "ensure_group_approval E run =
     io_bind io_read_approvals (\<lambda>queue.
     case List.find (approval_for (run_id run) (draft_revision (current run))) queue of
       Some a \<Rightarrow> io_return a
     | None \<Rightarrow>
         io_bind (io_now E) (\<lambda>t.
         io_bind (if run_status run \<noteq> RDraft
                  then io_bind (io_now E) (\<lambda>t2. io_lift (decideApproval (run_approval E (current run) t) False (oe_stamp_text E t2) None))
                  else io_return (run_approval E (current run) t)) (\<lambda>approval.
         io_bind (io_write_approvals E (queue @ [approval])) (\<lambda>_.
         io_bind io_read_approvals (\<lambda>_.
         io_bind (io_phase E Approval_persisted) (\<lambda>_. io_return approval))))))"

definition approve_group_run :: "orchestrator_env \<Rightarrow> run_record \<Rightarrow> approval_record \<Rightarrow> string \<Rightarrow> run_record run_io" where
  "approve_group_run E run approval operator =
     (if run_status run \<noteq> RDraft then io_return run
      else
        io_bind io_read_approvals (\<lambda>queue.
        io_bind (if approval_status approval = Pending
                 then io_bind (io_now E) (\<lambda>t.
                      io_bind (io_lift (decideApproval approval False (oe_stamp_text E t) None)) (\<lambda>decided.
                      io_write_approvals E (map (\<lambda>a. if approval_id a = approval_id approval then decided else a) queue)))
                 else io_assert (approval_status approval = Approved) ''approval_not_approved'') (\<lambda>_.
        io_runs_at E (\<lambda>R t. approveRunRevision R (run_id run) (draft_revision (current run)) operator t))))"

text \<open>The slot's tokens are claimed and the run is bound, unless it is bound already.\<close>

definition bind_group_run :: "orchestrator_env \<Rightarrow> string \<Rightarrow> string \<Rightarrow> token_slot \<Rightarrow> run_record \<Rightarrow> string run_io" where
  "bind_group_run E gid sid slot run =
     (case (token_reservation run, supervisor_task_id run) of
        (Some _, Some tid) \<Rightarrow> io_return tid
      | _ \<Rightarrow>
          io_bind (io_claimGroupSlot E gid sid (run_token_request (current run) (sessionId slot) (handoffIdFor run))) (\<lambda>reservation.
            let tid = ''run-task-'' @ run_id run in
            io_bind (io_runs_at E (\<lambda>R t. bindRunToSupervisor R (run_id run) tid (stored_reservation reservation) t)) (\<lambda>_.
            io_bind (io_phase E Bound) (\<lambda>_. io_return tid))))"

definition group_slot_for :: "token_group option \<Rightarrow> string \<Rightarrow> run_draft_input \<Rightarrow> token_slot option" where
  "group_slot_for grp sid draft =
     (case grp of None \<Rightarrow> None
      | Some g \<Rightarrow> (case List.find (\<lambda>sl. slot_id sl = sid) (slots g) of None \<Rightarrow> None
          | Some sl \<Rightarrow> if provider sl = provider_name (in_provider draft) \<and> model sl = in_model draft then Some sl else None))"

definition ensureGroupRun ::
  "orchestrator_env \<Rightarrow> string \<Rightarrow> string \<Rightarrow> run_draft_input \<Rightarrow> string \<Rightarrow> bool \<Rightarrow> run_record run_io" where
  "ensureGroupRun E gid sid draft operator strictRouteEligibility =
     io_bind (io_lift (resolveEnabledProject (oe_runs E) (in_project_id draft))) (\<lambda>_.
     io_bind (routeAvailable E (in_provider draft) (in_model draft) (Some (in_profile draft)) (in_reasoning_effort draft)
         strictRouteEligibility) (\<lambda>ok.
     io_bind (io_assert ok ''run_route_unavailable'') (\<lambda>_. \<lambda>w.
     io_bind (io_require (group_slot_for (findGroup gid (rw_gateway w)) sid draft) ''token_group_slot_mismatch'') (\<lambda>slot.
     io_bind (ensure_group_record E gid sid draft operator) (\<lambda>run.
     io_bind (ensure_group_approval E run) (\<lambda>approval.
     if run_status run = RQueued \<and> supervisor_task_id run \<noteq> None then io_return run
     else
       io_bind (approve_group_run E run approval operator) (\<lambda>approved.
       io_bind (io_assert (run_status approved = RApproved) ''run_revision_conflict'') (\<lambda>_.
       io_bind (io_lift (handoffFor E approved)) (\<lambda>h.
       io_bind (bind_group_run E gid sid slot approved) (\<lambda>tid.
       io_bind (io_task tid) (\<lambda>existing.
       io_bind (io_when (existing = None) (io_enqueue E tid h (run_id approved))) (\<lambda>_.
       io_bind (io_runs_at E (\<lambda>R t. transitionRun R (run_id approved) RQueued t)) (\<lambda>queued.
       io_bind (io_phase E Queued_phase) (\<lambda>_. io_return queued))))))))))) w)))"

section \<open>Finishing\<close>

text \<open>An active reservation is given back and the run marked; a reservation that is no longer active is left.\<close>

definition release_active_reservation :: "orchestrator_env \<Rightarrow> run_record \<Rightarrow> run_reservation \<Rightarrow> run_record run_io" where
  "release_active_reservation E run reservation =
     (if reservation_status run = ActiveReservation
      then io_bind (release_and_mark E run reservation) (\<lambda>r.
           io_bind (io_phase E Reservation_terminal) (\<lambda>_. io_return r))
      else io_return run)"

definition finalize_and_acknowledge ::
  "orchestrator_env \<Rightarrow> run_record run_io \<Rightarrow> run_reservation \<Rightarrow> run_record run_io" where
  "finalize_and_acknowledge E finalize reservation =
     io_bind finalize (\<lambda>finalized.
     io_bind (io_phase E Finalized) (\<lambda>_.
     io_bind (io_acknowledge E (rr_reservationId reservation)) (\<lambda>_. io_return finalized)))"

definition finishDispatchFailure :: "orchestrator_env \<Rightarrow> run_record \<Rightarrow> run_record run_io" where
  "finishDispatchFailure E run =
     io_bind (io_require (token_reservation run) ''TypeError'') (\<lambda>reservation.
     io_bind (release_active_reservation E run reservation) (\<lambda>run'.
     finalize_and_acknowledge E (io_finalize E (run_id run') False (dispatch_failure run')) reservation))"

definition finish_refused :: "orchestrator_env \<Rightarrow> string \<Rightarrow> run_record \<Rightarrow> run_reservation \<Rightarrow> string \<Rightarrow> run_record run_io" where
  "finish_refused E tid run reservation reason =
     io_bind (release_active_reservation E run reservation) (\<lambda>run'.
     io_bind (io_task tid) (\<lambda>task.
     io_bind (io_when (case task of None \<Rightarrow> True | Some t \<Rightarrow> \<not> finished_task (status t)) (io_cancel_task E tid reason)) (\<lambda>_.
     finalize_and_acknowledge E (io_finalize E (run_id run') False (Some reason)) reservation)))"

definition worker_failed :: "worker_output \<Rightarrow> bool" where
  "worker_failed out \<longleftrightarrow> wo_exitCode out \<noteq> 0 \<or> wo_errorReason out \<noteq> None \<or> wo_lockStatus out = Lock_failed"

definition failure_reason :: "worker_output \<Rightarrow> string" where
  "failure_reason out = (case wo_errorReason out of Some e \<Rightarrow> e | None \<Rightarrow> ''worker_exit_'' @ int_text (wo_exitCode out))"

text \<open>The queue hears of the outcome first: whether the task was queued again.\<close>

definition report_outcome :: "orchestrator_env \<Rightarrow> string \<Rightarrow> bool \<Rightarrow> worker_output \<Rightarrow> bool run_io" where
  "report_outcome E tid cancelled out =
     (if cancelled then io_bind (io_cancel_task E tid ''run_cancelled'') (\<lambda>_. io_return False)
      else if worker_failed out
        then io_bind (io_now E) (\<lambda>t.
             io_bind (io_queue (fail (oe_queue E) tid (failure_reason out) t
               (Some (''retry_after_worker_failure:'' @ failure_reason out)))) (\<lambda>outcome.
             io_return (status outcome = Queued)))
      else io_return False)"

definition finish_overspent ::
  "orchestrator_env \<Rightarrow> string \<Rightarrow> run_record \<Rightarrow> run_reservation \<Rightarrow> bool \<Rightarrow> bool \<Rightarrow> bool \<Rightarrow> run_record run_io" where
  "finish_overspent E tid run reservation cancelled failed retryQueued =
     io_bind (io_task tid) (\<lambda>latestTask.
     io_bind (io_when (\<not> cancelled \<and> (retryQueued \<or> \<not> failed) \<and>
         (case latestTask of None \<Rightarrow> True | Some t \<Rightarrow> \<not> finished_task (status t)))
       (io_cancel_task E tid ''token_settlement_exceeds_reservation'')) (\<lambda>_.
     io_bind (release_active_reservation E run reservation) (\<lambda>run'.
     finalize_and_acknowledge E (io_finalize E (run_id run') False (Some ''token_settlement_exceeds_reservation'')) reservation)))"

definition settle_run :: "orchestrator_env \<Rightarrow> run_record \<Rightarrow> run_reservation \<Rightarrow> int \<Rightarrow> int \<Rightarrow> run_record run_io" where
  "settle_run E run reservation inp out =
     (if reservation_status run = ActiveReservation
      then io_bind (io_settle E (gateway_reservation reservation)
             \<lparr>usage_inputTokens = Finite (real_of_int inp), usage_outputTokens = Finite (real_of_int out), usage_released = None\<rparr>) (\<lambda>settlement.
           io_bind (io_runs_at E (\<lambda>R t. settleRunReservation R (run_id run) (settled_inputTokens settlement)
             (settled_outputTokens settlement) t)) (\<lambda>r.
           io_bind (io_phase E Reservation_terminal) (\<lambda>_. io_return r)))
      else io_return run)"

definition append_output :: "orchestrator_env \<Rightarrow> run_record \<Rightarrow> worker_output \<Rightarrow> unit run_io" where
  "append_output E run out =
     io_bind (io_record (run_id run)) (\<lambda>latest.
     let aid = ''text-'' @ wo_workerRunId out in
     io_when (\<not> list_ex (\<lambda>a. artifact_id a = aid) (artifacts latest))
       (io_bind (io_runs_at E (\<lambda>R t. appendRunArtifact R (run_id run) aid TextArtifact (sanitizeWorkerOutput E (wo_rawOutput out)) t)) (\<lambda>_.
        io_phase E Artifact_phase)))"

definition finish_worked ::
  "orchestrator_env \<Rightarrow> string \<Rightarrow> run_record \<Rightarrow> run_reservation \<Rightarrow> worker_output \<Rightarrow> run_record option run_io" where
  "finish_worked E tid run reservation out =
     io_bind (io_record (run_id run)) (\<lambda>stored.
     io_bind (io_task tid) (\<lambda>task.
       let cancelled = cancellation_requested stored; failed = worker_failed out;
           attemptInput = conservativeRunPromptTokens (prompt (current run));
           attemptOutput = conservativeRunPromptTokens (wo_rawOutput out);
           cumulativeInput = retry_input_tokens run + attemptInput;
           cumulativeOutput = retry_output_tokens run + attemptOutput
       in io_bind (report_outcome E tid cancelled out) (\<lambda>retryQueued.
          if cumulativeOutput > output_token_allowance (current run) \<or>
             cumulativeInput + cumulativeOutput > estimated_tokens (current run)
          then io_bind (finish_overspent E tid run reservation cancelled failed retryQueued) (\<lambda>r. io_return (Some r))
          else if retryQueued
          then io_bind (io_runs_at E (\<lambda>R t. clearRunProviderResultForRetry R (run_id run) attemptInput attemptOutput t)) (\<lambda>_.
               io_return None)
          else
            io_bind (io_when (\<not> cancelled \<and> \<not> failed \<and> (case task of None \<Rightarrow> True | Some t \<Rightarrow> status t = Running))
              (io_bind (io_now E) (\<lambda>t. io_bind (io_queue (complete (oe_queue E) tid t)) (\<lambda>_. io_return ())))) (\<lambda>_.
            io_bind (settle_run E run reservation cumulativeInput cumulativeOutput) (\<lambda>run'.
            io_bind (append_output E run' out) (\<lambda>_.
            io_bind (finalize_and_acknowledge E
                (if cancelled then io_runs_at E (\<lambda>R t. transitionRun R (run_id run') RCancelled t)
                 else io_finalize E (run_id run') (\<not> failed) (if failed then Some (failure_reason out) else None)) reservation) (\<lambda>r.
            io_return (Some r))))))))"

definition finishProviderResult :: "orchestrator_env \<Rightarrow> string \<Rightarrow> run_record \<Rightarrow> run_result \<Rightarrow> (run_record \<times> run_result) option run_io" where
  "finishProviderResult E tid run result =
     io_bind (io_require (token_reservation run) ''TypeError'') (\<lambda>reservation.
     case result of
       RunRefused reason \<Rightarrow> io_bind (finish_refused E tid run reservation reason) (\<lambda>r. io_return (Some (r, result)))
     | RunWorked out \<Rightarrow> io_bind (finish_worked E tid run reservation out) (\<lambda>r.
         io_return (case r of None \<Rightarrow> None | Some x \<Rightarrow> Some (x, result))))"

section \<open>Cancelling\<close>

definition release_orphan :: "orchestrator_env \<Rightarrow> run_record \<Rightarrow> (js_error + unit) run_io" where
  "release_orphan E run = (\<lambda>w.
     (if token_reservation run \<noteq> None then io_return (Inr ())
      else case findActiveReservation (handoffIdFor run) (rw_gateway w) of
          None \<Rightarrow> io_return (Inr ())
        | Some orphan \<Rightarrow> io_attempt (io_release E orphan)) w)"

definition cancel_bound_task :: "orchestrator_env \<Rightarrow> string \<Rightarrow> (js_error + unit) run_io" where
  "cancel_bound_task E tid =
     io_bind (io_task tid) (\<lambda>task.
     if (case task of None \<Rightarrow> True | Some t \<Rightarrow> \<not> finished_task (status t))
     then io_attempt (io_cancel_task E tid ''run_cancelled'') else io_return (Inr ()))"

definition release_bound_reservation :: "orchestrator_env \<Rightarrow> run_record \<Rightarrow> run_reservation \<Rightarrow> (js_error + unit) run_io" where
  "release_bound_reservation E run reservation =
     (if reservation_status run = ActiveReservation
      then io_attempt (io_bind (release_and_mark E run reservation) (\<lambda>_. io_acknowledge E (rr_reservationId reservation)))
      else io_return (Inr ()))"

definition cancelRun :: "orchestrator_env \<Rightarrow> string \<Rightarrow> run_record run_io" where
  "cancelRun E i =
     io_bind (io_record i) (\<lambda>stored.
     if run_status stored = RCancelled then io_return stored
     else
       io_bind (io_runs_at E (\<lambda>R t. requestRunCancellation R i t)) (\<lambda>run.
       io_bind (case supervisor_task_id run of None \<Rightarrow> io_return None | Some tid \<Rightarrow> io_task tid) (\<lambda>boundTask.
       if run_status run = RRunning \<and> (case boundTask of None \<Rightarrow> True | Some t \<Rightarrow> status t = Running)
       then io_return run
       else
         io_bind (release_orphan E run) (\<lambda>orphaned.
         io_bind (case (supervisor_task_id run, token_reservation run) of
              (Some tid, Some reservation) \<Rightarrow>
                io_bind (cancel_bound_task E tid) (\<lambda>c.
                io_bind (release_bound_reservation E run reservation) (\<lambda>r. io_return (first_error (first_error None c) r)))
            | _ \<Rightarrow> io_return None) (\<lambda>bound.
         case first_error None orphaned of
           Some e \<Rightarrow> io_lift (Inl e)
         | None \<Rightarrow> (case bound of Some e \<Rightarrow> io_lift (Inl e)
             | None \<Rightarrow> io_runs_at E (\<lambda>R t. transitionRun R i RCancelled t)))))))"

section \<open>One step of the supervisor\<close>

definition io_bindingForTask :: "string \<Rightarrow> run_record run_io" where
  "io_bindingForTask tid =
     io_bind io_read_runs (\<lambda>s.
     case List.find (\<lambda>r. supervisor_task_id r = Some tid) s of
       None \<Rightarrow> io_throw ''run_binding_not_found''
     | Some r \<Rightarrow> if token_reservation r = None then io_throw ''run_binding_not_found'' else io_return r)"

definition taskForPendingResult :: "supervisor_task option run_io" where
  "taskForPendingResult =
     io_bind io_read_runs (\<lambda>s.
     case List.find (\<lambda>r. provider_result r \<noteq> None \<and> \<not> finished_run r) s of
       None \<Rightarrow> io_return None
     | Some r \<Rightarrow> (case supervisor_task_id r of None \<Rightarrow> io_return None | Some tid \<Rightarrow> io_task tid))"

definition persistResult :: "orchestrator_env \<Rightarrow> run_record \<Rightarrow> run_result \<Rightarrow> run_record run_io" where
  "persistResult E run result =
     (let pr = (case result of
        RunRefused reason \<Rightarrow> \<lparr>pr_refused = True, pr_reason = Some reason, pr_worker_run_id = None, pr_raw_output = [],
          pr_exit_code = None, pr_error_reason = None, pr_lock_status = None\<rparr>
      | RunWorked out \<Rightarrow> \<lparr>pr_refused = False, pr_reason = None, pr_worker_run_id = Some (wo_workerRunId out),
          pr_raw_output = sanitizeWorkerOutput E (wo_rawOutput out), pr_exit_code = Some (wo_exitCode out),
          pr_error_reason = sanitizeWorkerError E (wo_errorReason out), pr_lock_status = Some (wo_lockStatus out)\<rparr>)
      in io_runs_at E (\<lambda>R t. recordRunProviderResult R (run_id run) pr t))"

definition reconstructedResult :: "provider_result \<Rightarrow> run_result" where
  "reconstructedResult p =
     (if pr_refused p then RunRefused (case pr_reason p of None \<Rightarrow> ''null'' | Some r \<Rightarrow> r)
      else RunWorked \<lparr>wo_workerRunId = (case pr_worker_run_id p of None \<Rightarrow> ''null'' | Some i \<Rightarrow> i),
        wo_exitCode = (case pr_exit_code p of None \<Rightarrow> 1 | Some c \<Rightarrow> c), wo_rawOutput = pr_raw_output p,
        wo_errorReason = pr_error_reason p,
        wo_lockStatus = (case pr_lock_status p of None \<Rightarrow> Lock_failed | Some l \<Rightarrow> l)\<rparr>)"

text \<open>First the settled business of finished runs is acknowledged.\<close>

definition acknowledge_finished :: "orchestrator_env \<Rightarrow> unit run_io" where
  "acknowledge_finished E =
     io_bind io_read_runs (\<lambda>s. io_each (\<lambda>r. case token_reservation r of None \<Rightarrow> io_return ()
         | Some reservation \<Rightarrow> io_acknowledge E (rr_reservationId reservation))
       (filter (\<lambda>r. finished_run r \<and> token_reservation r \<noteq> None \<and> reservation_status r \<noteq> ActiveReservation) s))"

text \<open>A run whose dispatch failed: finished when its task failed (the step ends: \<open>True\<close>), cleared when the task was
  queued again.\<close>

definition recover_failure :: "orchestrator_env \<Rightarrow> bool run_io" where
  "recover_failure E =
     io_bind io_read_runs (\<lambda>s.
     case List.find (\<lambda>r. dispatch_failure r \<noteq> None \<and> \<not> finished_run r) s of
       None \<Rightarrow> io_return False
     | Some r \<Rightarrow>
         io_bind (case supervisor_task_id r of None \<Rightarrow> io_return None | Some tid \<Rightarrow> io_task tid) (\<lambda>task.
         case task of
           None \<Rightarrow> io_return False
         | Some t \<Rightarrow>
             if status t = Failed then io_bind (finishDispatchFailure E r) (\<lambda>_. io_return True)
             else if status t = Queued
             then io_bind (io_runs_at E (\<lambda>R at'. clearRunDispatchFailure R (run_id r) at')) (\<lambda>_. io_return False)
             else io_return False))"

text \<open>The next task: its run and route are checked and its project resolved initial it is claimed.\<close>

definition claim_next :: "orchestrator_env \<Rightarrow> supervisor_task option run_io" where
  "claim_next E =
     io_bind (io_now E) (\<lambda>claimAt.
     io_bind (io_queue (peekClaimable (oe_queue E) claimAt)) (\<lambda>claimable.
     case claimable of
       None \<Rightarrow> io_return None
     | Some c \<Rightarrow>
         io_bind (io_bindingForTask (task_id c)) (\<lambda>claimableRun.
         io_bind (io_lift (assertTaskRoute claimableRun (handoff c))) (\<lambda>_.
         case resolveEnabledProject (oe_runs E) (project_id (current claimableRun)) of
           Inl e \<Rightarrow> if oe_isProjectConfigurationError E e then io_return None else io_lift (Inl e)
         | Inr _ \<Rightarrow> io_queue (claim (oe_queue E) claimAt)))))"

text \<open>A prompt that is not the one the group committed to fails the run, whatever its task's fate, and is thrown on.\<close>

definition reject_commitment :: "orchestrator_env \<Rightarrow> string \<Rightarrow> run_record \<Rightarrow> js_error \<Rightarrow> 'a run_io" where
  "reject_commitment E tid run e =
     io_bind (io_runs_at E (\<lambda>R t. recordRunDispatchFailure R (run_id run) (error_message e) t)) (\<lambda>run'.
     io_bind (io_task tid) (\<lambda>task.
     io_bind (if (case task of None \<Rightarrow> True | Some t \<Rightarrow> \<not> finished_task (status t))
              then io_attempt (io_cancel_task E tid (error_message e)) else io_return (Inr ())) (\<lambda>_.
     io_bind (finishDispatchFailure E run') (\<lambda>_. io_lift (Inl e)))))"

text \<open>A dispatch that threw: the failure is recorded, the task told (without an attempt delta), and the run finished
  or cleared as the task's status says.\<close>

definition dispatch_threw :: "orchestrator_env \<Rightarrow> string \<Rightarrow> run_record \<Rightarrow> js_error \<Rightarrow> 'a run_io" where
  "dispatch_threw E tid run e =
     (let dispatchError = (case sanitizeWorkerError E (Some (error_message e)) of None \<Rightarrow> ''dispatch_failed'' | Some m \<Rightarrow> m) in
      io_bind (io_runs_at E (\<lambda>R t. recordRunDispatchFailure R (run_id run) dispatchError t)) (\<lambda>run'.
      io_bind (io_catch (io_bind (io_now E) (\<lambda>t. io_queue (fail (oe_queue E) tid dispatchError t None)))
          (\<lambda>failError. io_bind (io_task tid) (\<lambda>persisted.
             case persisted of
               None \<Rightarrow> io_lift (Inl failError)
             | Some t \<Rightarrow> if status t = Failed then io_return t else io_lift (Inl failError)))) (\<lambda>failed.
      io_bind (if status failed = Failed then io_bind (finishDispatchFailure E run') (\<lambda>_. io_return ())
               else io_bind (io_runs_at E (\<lambda>R t. clearRunDispatchFailure R (run_id run') t)) (\<lambda>_. io_return ())) (\<lambda>_.
      io_throw dispatchError))))"

definition dispatch_run :: "orchestrator_env \<Rightarrow> run_record \<Rightarrow> json \<Rightarrow> run_result run_io" where
  "dispatch_run E run h =
     io_bind (io_lift (resolveEnabledProject (oe_runs E) (project_id (current run)))) (\<lambda>cwd.
     io_bind (oe_dispatch E (with_field ''cwd'' (JStr cwd) h)) (\<lambda>result.
     io_return (sanitizeDispatchResult E result)))"

definition run_task :: "orchestrator_env \<Rightarrow> supervisor_task \<Rightarrow> (run_record \<times> run_result) option run_io" where
  "run_task E task =
     (let tid = task_id task in
      io_bind (io_bindingForTask tid) (\<lambda>bound.
      case provider_result bound of
        Some p \<Rightarrow> finishProviderResult E tid bound (reconstructedResult p)
      | None \<Rightarrow>
          io_bind (io_lift (assertTaskRoute bound (handoff task))) (\<lambda>_.
          io_bind (if run_status bound = RQueued then io_runs_at E (\<lambda>R t. transitionRun R (run_id bound) RRunning t)
                   else io_return bound) (\<lambda>run.
          case assertDispatchPromptCommitment E run (handoff task) of
            Inl e \<Rightarrow> reject_commitment E tid run e
          | Inr _ \<Rightarrow>
              io_bind (io_attempt (dispatch_run E run (handoff task))) (\<lambda>outcome.
              case outcome of
                Inl e \<Rightarrow> dispatch_threw E tid run e
              | Inr result \<Rightarrow>
                  io_bind (persistResult E run result) (\<lambda>run'. finishProviderResult E tid run' result))))))"

definition runSupervisorOnce :: "orchestrator_env \<Rightarrow> (run_record \<times> run_result) option run_io" where
  "runSupervisorOnce E =
     io_bind (acknowledge_finished E) (\<lambda>_.
     io_bind io_read_runs (\<lambda>s.
     case List.find (\<lambda>r. cancellation_requested r \<and> run_status r \<noteq> RCancelled) s of
       Some r \<Rightarrow> io_bind (cancelRun E (run_id r)) (\<lambda>_. io_return None)
     | None \<Rightarrow>
         io_bind (recover_failure E) (\<lambda>finished.
         if finished then io_return None
         else
           io_bind taskForPendingResult (\<lambda>pending.
           io_bind (case pending of Some t \<Rightarrow> io_return (Some t) | None \<Rightarrow> claim_next E) (\<lambda>task.
           case task of None \<Rightarrow> io_return None | Some t \<Rightarrow> run_task E t)))))"

end
