(* ===== verification/RunWorldLaws.thy ===== *)
theory RunWorldLaws
  imports RunOrchestrator RunStoreProps SupervisorProps TokenGatewayProps
begin

text \<open>
  What every call of the orchestrator keeps of the world. A relation on worlds that is reflexive and transitive is kept
  by a sequence of calls when it is kept by each; this is proved once, for any such relation, and used for the one that
  says that every store moved only by its own operations.
\<close>

section \<open>Calls that keep an order of worlds\<close>

locale world_order = state_order le for le :: "run_world \<Rightarrow> run_world \<Rightarrow> bool"
begin

lemma keeps_read:
  "preserving le io_read_runs" "preserving le io_read_approvals" "preserving le io_snapshot" "preserving le (io_record i)"
  "preserving le (io_phase E p)"
  by (simp_all add: preserving_def io_read_runs_def io_read_approvals_def io_snapshot_def io_record_def io_phase_def le_refl)

lemma keeps_task: "preserving le (io_task tid)"
  unfolding io_task_def by (intro keeps_bind_io keeps_read keeps_return)

lemmas keeps_control = keeps_calls keeps_read keeps_task

end

lemma preserving_result:
  "(\<And>r. preserving le (h r)) \<Longrightarrow> (\<And>x. preserving le (f x)) \<Longrightarrow> preserving le (case v of RunRefused r \<Rightarrow> h r | RunWorked x \<Rightarrow> f x)"
  by (cases v) simp_all

lemmas preserving_cases = preserving_if preserving_option preserving_sum preserving_result preserving_prod

section \<open>Every store moves by its own operations\<close>

text \<open>\<open>b\<close> says whether the gateway is included: the claim of a group's slot is not safe in general.\<close>

definition world_le :: "bool \<Rightarrow> orchestrator_env \<Rightarrow> run_world \<Rightarrow> run_world \<Rightarrow> bool" where
  "world_le b E w w' \<longleftrightarrow>
     keeps (rw_runs w) (rw_runs w') \<and>
     (isSupervisorState (oe_queue E) (rw_queue w) \<longrightarrow>
        isSupervisorState (oe_queue E) (rw_queue w') \<and> queue_steps (oe_queue E) (rw_queue w) (rw_queue w')) \<and>
     (validate_approvals (rw_approvals w) \<longrightarrow> validate_approvals (rw_approvals w')) \<and>
     (b \<longrightarrow> gateway_safe (oe_limits E) (rw_gateway w) \<longrightarrow> gateway_safe (oe_limits E) (rw_gateway w'))"

lemma world_le_trans: "world_le b E u v \<Longrightarrow> world_le b E v w \<Longrightarrow> world_le b E u w"
  unfolding world_le_def using keeps_trans by (metis rtranclp_trans)

interpretation moves: world_order "world_le b E" for b E
  by unfold_locales (simp add: world_le_def, rule world_le_trans)

text \<open>What the environment grants: valid times, identifiers that no reservation has, and that the dispatcher, and what
  else happens while it is awaited, moves the stores by their operations as well.\<close>

definition env_ok :: "bool \<Rightarrow> orchestrator_env \<Rightarrow> bool" where
  "env_ok b E \<longleftrightarrow> (\<forall>n. canonical_stamp (oe_clock E n)) \<and> (\<forall>n g. gateway_safe (oe_limits E) g \<longrightarrow> fresh_id (gw_state g) (oe_reservation_id E n g)) \<and>
     (\<forall>h. preserving (world_le b E) (oe_dispatch E h))"

lemma env_okD:
  assumes "env_ok b E"
  shows "canonical_stamp (oe_clock E n)"
    "gateway_safe (oe_limits E) g \<Longrightarrow> fresh_id (gw_state g) (oe_reservation_id E n g)"
    "preserving (world_le b E) (oe_dispatch E h)"
  using assms by (simp_all add: env_ok_def)

lemma keeps_world:
  "world_le b E w (w\<lparr>rw_clock := n\<rparr>)" "world_le b E w (w\<lparr>rw_drawn := n\<rparr>)"
  "keeps (rw_runs w) s \<Longrightarrow> world_le b E w (w\<lparr>rw_runs := s\<rparr>)"
  "(isSupervisorState (oe_queue E) (rw_queue w) \<Longrightarrow>
      isSupervisorState (oe_queue E) q \<and> queue_steps (oe_queue E) (rw_queue w) q) \<Longrightarrow> world_le b E w (w\<lparr>rw_queue := q\<rparr>)"
  "(validate_approvals (rw_approvals w) \<Longrightarrow> validate_approvals a) \<Longrightarrow> world_le b E w (w\<lparr>rw_approvals := a\<rparr>)"
  "(b \<Longrightarrow> gateway_safe (oe_limits E) (rw_gateway w) \<Longrightarrow> gateway_safe (oe_limits E) g) \<Longrightarrow> world_le b E w (w\<lparr>rw_gateway := g\<rparr>)"
  by (auto simp: world_le_def)

section \<open>The calls on the stores\<close>

lemma keeps_now [io_keeps]: "preserving (world_le b E) (io_now E)"
  by (simp add: preserving_def io_now_def keeps_world)

lemma keeps_uuid [io_keeps]: "preserving (world_le b E) (io_uuid E)"
  by (simp add: preserving_def io_uuid_def keeps_world)

lemma keeps_io_runs:
  assumes "\<And>s. keeps s (result_store s (f s))"
  shows "preserving (world_le b E) (io_runs f)"
proof (rule preservingI)
  fix w
  show "world_le b E w (fst (io_runs f w))"
    using assms [of "rw_runs w"] keeps_world(3) [of w _ b E] moves.le_refl by (auto simp: io_runs_def split: sum.splits)
qed

lemma keeps_runs_at: "(\<And>t s. keeps s (result_store s (f (oe_runs E) t s))) \<Longrightarrow> preserving (world_le b E) (io_runs_at E f)"
  unfolding io_runs_at_def by (intro moves.keeps_control io_keeps keeps_io_runs)

lemma keeps_create_run: "keeps s (result_store s (createRunDraft R i d t s))"
  using run_exec_keeps [of s R "RCreate i d t"] by simp

lemma keeps_create_group_run: "keeps s (result_store s (createGroupRunDraft R i ref op d t s))"
  using run_exec_keeps [of s R "RCreateGroup i ref op d t"] by simp

lemmas run_calls_keep [io_keeps] = keeps_runs_at [OF keeps_create_run] keeps_runs_at [OF keeps_create_group_run]
  keeps_runs_at [OF keeps_approve] keeps_runs_at [OF keeps_transition] keeps_runs_at [OF keeps_artifact]
  keeps_runs_at [OF keeps_bind] keeps_runs_at [OF keeps_clear_bind] keeps_runs_at [OF keeps_result]
  keeps_runs_at [OF keeps_clear_result] keeps_runs_at [OF keeps_settle] keeps_runs_at [OF keeps_mark]
  keeps_runs_at [OF keeps_cancel] keeps_runs_at [OF keeps_compensate] keeps_runs_at [OF keeps_failure]
  keeps_runs_at [OF keeps_clear_failure]

lemma keeps_io_finalize [io_keeps]: "preserving (world_le b E) (io_finalize E i c reason)"
  unfolding io_finalize_def
proof (intro moves.keeps_control io_keeps preservingI)
  fix t w
  show "world_le b E w (fst (case finalizeRun (oe_runs E) i c reason t (rw_runs w) of (s, r) \<Rightarrow> (w\<lparr>rw_runs := s\<rparr>, r)))"
    using keeps_finalize [of "rw_runs w" "oe_runs E" i c reason t] by (auto simp: keeps_world split: prod.splits)
qed

lemma keeps_write_approvals [io_keeps]: "preserving (world_le b E) (io_write_approvals E q)"
  by (auto simp: preserving_def io_write_approvals_def writeApprovalQueue_def moves.le_refl
      intro!: keeps_world split: sum.splits if_splits)

lemma keeps_io_queue:
  assumes "\<And>q. isSupervisorState (oe_queue E) q \<Longrightarrow> queue_steps (oe_queue E) q (fst (f q))"
  shows "preserving (world_le b E) (io_queue f)"
proof (rule preservingI)
  fix w :: run_world
  have "isSupervisorState (oe_queue E) q' \<and> queue_steps (oe_queue E) q q'"
    if "isSupervisorState (oe_queue E) q" "q' = fst (f q)" for q q'
    using assms [OF that(1)] that queue_steps_valid by blast
  then show "world_le b E w (fst (io_queue f w))"
    by (auto simp: io_queue_def intro!: keeps_world split: prod.splits) (metis fst_conv)+
qed

lemma keeps_peek [io_keeps]: "preserving (world_le b E) (io_queue (peekClaimable (oe_queue E) t))"
proof (rule keeps_io_queue)
  fix q assume "isSupervisorState (oe_queue E) q"
  from reconcile_steps [OF this, of t] show "queue_steps (oe_queue E) q (fst (peekClaimable (oe_queue E) t q))"
    by (auto simp: peekClaimable_def split: option.splits prod.splits sum.splits)
qed

lemmas queue_calls_keep [io_keeps] = keeps_io_queue [OF cancel_steps] keeps_io_queue [OF claim_steps]
  keeps_io_queue [OF complete_steps] keeps_io_queue [OF fail_steps] keeps_io_queue [OF enqueue_steps]

lemma gateway_exec_safe: "admissible fits op g \<Longrightarrow> gateway_safe L g \<Longrightarrow> gateway_safe L (gateway_exec L fits op g)"
  using gateway_step_safe [of L g fits op] by (simp add: gateway_step_def)

lemma keeps_io_gateway:
  assumes "\<And>g. b \<Longrightarrow> gateway_safe (oe_limits E) g \<Longrightarrow> gateway_safe (oe_limits E) (fst (f g))"
  shows "preserving (world_le b E) (io_gateway f)"
proof (rule preservingI)
  fix w :: run_world
  have "gateway_safe (oe_limits E) g" if "b" "gateway_safe (oe_limits E) (rw_gateway w)" "f (rw_gateway w) = (g, r)" for g r
    using assms [OF that(1,2)] that(3) by simp
  then show "world_le b E w (fst (io_gateway f w))"
    by (auto simp: io_gateway_def intro!: keeps_world split: prod.splits sum.splits)
qed

lemma keeps_timed:
  assumes "\<And>n. preserving (world_le b E) (f (oe_clock E n))"
  shows "preserving (world_le b E) (io_bind (io_now E) f)"
proof (rule preservingI)
  fix w :: run_world
  show "world_le b E w (fst (io_bind (io_now E) f w))"
    using assms [of "rw_clock w"] keeps_world(1) [of b E w "Suc (rw_clock w)"] world_le_trans
    by (auto simp: io_bind_def io_now_def preserving_def)
qed

text \<open>A gateway call with an identifier drawn from the world.\<close>

lemma keeps_drawn:
  assumes "\<And>n g'. preserving (world_le b E) (\<lambda>w :: run_world. if rw_gateway w = g' then io_gateway (f (oe_reservation_id E n g')) w else (w, Inl NonError))"
  shows "preserving (world_le b E) (\<lambda>w :: run_world. io_gateway (f (oe_reservation_id E (rw_drawn w) (rw_gateway w))) (w\<lparr>rw_drawn := Suc (rw_drawn w)\<rparr>))"
proof (rule preservingI)
  fix w :: run_world
  let ?w = "w\<lparr>rw_drawn := Suc (rw_drawn w)\<rparr> :: run_world"
  have "world_le b E ?w (fst (io_gateway (f (oe_reservation_id E (rw_drawn w) (rw_gateway w))) ?w))"
    using preservingD [OF assms [of "rw_gateway w" "rw_drawn w"], of ?w] by simp
  with keeps_world(2) show "world_le b E w (fst (io_gateway (f (oe_reservation_id E (rw_drawn w) (rw_gateway w))) ?w))"
    by (rule world_le_trans)
qed

lemma keeps_gateway_at:
  assumes "b \<Longrightarrow> gateway_safe (oe_limits E) g' \<Longrightarrow> gateway_safe (oe_limits E) (fst (f g'))"
  shows "preserving (world_le b E) (\<lambda>w :: run_world. if rw_gateway w = g' then io_gateway f w else (w, Inl NonError))"
proof (rule preservingI)
  fix w :: run_world
  have "gateway_safe (oe_limits E) g" if "b" "gateway_safe (oe_limits E) g'" "f g' = (g, r)" for g r
    using assms [OF that(1,2)] that(3) by simp
  then show "world_le b E w (fst (if rw_gateway w = g' then io_gateway f w else (w, Inl NonError)))"
    by (auto simp: io_gateway_def moves.le_refl intro!: keeps_world split: prod.splits sum.splits)
qed

lemma keeps_io_reserve [io_keeps]: "env_ok b E \<Longrightarrow> preserving (world_le b E) (io_reserve E input)"
  unfolding io_reserve_def
  by (intro keeps_timed keeps_drawn keeps_gateway_at)
    (use gateway_exec_safe [where op = "OpReserve _ _ input"] env_okD in simp)

lemma keeps_io_claim [io_keeps]: "env_ok False E \<Longrightarrow> preserving (world_le False E) (io_claimGroupSlot E gid sid input)"
  unfolding io_claimGroupSlot_def by (intro keeps_timed keeps_drawn keeps_gateway_at) simp

lemma keeps_io_settle [io_keeps]: "env_ok b E \<Longrightarrow> preserving (world_le b E) (io_settle E r usage)"
  unfolding io_settle_def
  by (intro keeps_timed keeps_io_gateway) (use gateway_exec_safe [where op = "OpSettle _ r usage"] env_okD in simp)

lemma keeps_io_release [io_keeps]: "env_ok b E \<Longrightarrow> preserving (world_le b E) (io_release E r)"
  unfolding io_release_def
  by (intro keeps_timed keeps_io_gateway) (use gateway_exec_safe [where op = "OpRelease _ r"] env_okD in simp)

lemma keeps_io_acknowledge [io_keeps]: "preserving (world_le b E) (io_acknowledge E rid)"
  unfolding io_acknowledge_def
  by (intro keeps_io_gateway) (use gateway_exec_safe [where op = "OpAcknowledge rid"] in simp)

lemma keeps_reserve_group [io_keeps]: "preserving (world_le b E) (reserveOrchestrationGroup E spec)"
  unfolding reserveOrchestrationGroup_def
  by (intro keeps_io_gateway) (use gateway_exec_safe [where op = "OpReserveGroup spec"] in simp)

section \<open>The interface of the orchestrator\<close>

text \<open>What the orchestrator asks of an order of worlds: that the calls it makes on the clock, the stores and the
  dispatcher keep it. Everything the orchestrator does then keeps it as well.\<close>

locale orchestrator_order = world_order le for le :: "run_world \<Rightarrow> run_world \<Rightarrow> bool" +
  fixes E :: orchestrator_env
  assumes allows_now [io_keeps]: "preserving le (io_now E)"
    and allows_uuid [io_keeps]: "preserving le (io_uuid E)"
    and allows_write_approvals [io_keeps]: "preserving le (io_write_approvals E q)"
    and allows_approve [io_keeps]: "preserving le (io_runs_at E (\<lambda>R t. approveRunRevision R i n operator t))"
    and allows_transition [io_keeps]: "preserving le (io_runs_at E (\<lambda>R t. transitionRun R i st t))"
    and allows_artifact [io_keeps]: "preserving le (io_runs_at E (\<lambda>R t. appendRunArtifact R i aid k txt t))"
    and allows_bind_run [io_keeps]: "preserving le (io_runs_at E (\<lambda>R t. bindRunToSupervisor R i tid res t))"
    and allows_clear_bind [io_keeps]: "preserving le (io_runs_at E (\<lambda>R t. clearRunSupervisorBinding R i t))"
    and allows_result [io_keeps]: "preserving le (io_runs_at E (\<lambda>R t. recordRunProviderResult R i pr t))"
    and allows_clear_result [io_keeps]: "preserving le (io_runs_at E (\<lambda>R t. clearRunProviderResultForRetry R i inp out t))"
    and allows_settle_run [io_keeps]: "preserving le (io_runs_at E (\<lambda>R t. settleRunReservation R i inp out t))"
    and allows_mark [io_keeps]: "preserving le (io_runs_at E (\<lambda>R t. markRunReservationTerminal R i settled t))"
    and allows_cancel_run [io_keeps]: "preserving le (io_runs_at E (\<lambda>R t. requestRunCancellation R i t))"
    and allows_compensate [io_keeps]: "preserving le (io_runs_at E (\<lambda>R t. requestRunQueueCompensation R i t))"
    and allows_failure [io_keeps]: "preserving le (io_runs_at E (\<lambda>R t. recordRunDispatchFailure R i e t))"
    and allows_clear_failure [io_keeps]: "preserving le (io_runs_at E (\<lambda>R t. clearRunDispatchFailure R i t))"
    and allows_finalize [io_keeps]: "preserving le (io_finalize E i c reason)"
    and allows_peek [io_keeps]: "preserving le (io_queue (peekClaimable (oe_queue E) t))"
    and allows_claim [io_keeps]: "preserving le (io_queue (claim (oe_queue E) t))"
    and allows_complete [io_keeps]: "preserving le (io_queue (complete (oe_queue E) tid t))"
    and allows_fail [io_keeps]: "preserving le (io_queue (fail (oe_queue E) tid message t delta))"
    and allows_cancel_task [io_keeps]: "preserving le (io_queue (cancel (oe_queue E) tid message t))"
    and allows_enqueue [io_keeps]: "preserving le (io_queue (enqueue (oe_queue E) task t))"
    and allows_reserve [io_keeps]: "preserving le (io_reserve E input)"
    and allows_settle [io_keeps]: "preserving le (io_settle E r u)"
    and allows_release [io_keeps]: "preserving le (io_release E r)"
    and allows_acknowledge [io_keeps]: "preserving le (io_acknowledge E rid)"
    and allows_reserve_group [io_keeps]: "preserving le (reserveOrchestrationGroup E spec)"
    and allows_dispatch [io_keeps]: "preserving le (oe_dispatch E h)"
begin

lemma keeps_cancel_task [io_keeps]: "preserving le (io_cancel_task E tid reason)"
  unfolding io_cancel_task_def by (intro keeps_control io_keeps)

lemma keeps_enqueue [io_keeps]: "preserving le (io_enqueue E tid h session)"
  unfolding io_enqueue_def by (intro keeps_control io_keeps)

lemma keeps_route [io_keeps]: "preserving le (routeAvailable E p m pf r st)"
  unfolding routeAvailable_def Let_def by (intro keeps_control io_keeps preserving_cases)

text \<open>A run is prepared by creating its draft, which the interface does not allow in general.\<close>

lemma keeps_prepareRun:
  assumes "\<And>fresh. preserving le (io_runs_at E (\<lambda>R t. createRunDraft R fresh input t))"
  shows "preserving le (prepareRun E input)"
  unfolding prepareRun_def by (intro keeps_control io_keeps assms)

lemma keeps_release_and_mark [io_keeps]: "preserving le (release_and_mark E run r)"
  unfolding release_and_mark_def by (intro keeps_control io_keeps)

lemma keeps_compensation [io_keeps]: "preserving le (reconcileQueueCompensation E run)"
  unfolding reconcileQueueCompensation_def close_compensation_def
  by (auto split: prod.splits bool.splits option.splits intro!: keeps_control io_keeps preserving_cases)

lemma keeps_decide [io_keeps]: "preserving le (decide_run_approval E before i revision)"
  unfolding decide_run_approval_def by (intro keeps_control io_keeps preserving_cases)

lemma keeps_bind_run [io_keeps]: "preserving le (bind_run E approved durable)"
  unfolding bind_run_def Let_def
  by (auto split: prod.splits option.splits intro!: keeps_control io_keeps preserving_cases)

lemma keeps_enqueue_run [io_keeps]: "preserving le (enqueue_run E i tid h)"
  unfolding enqueue_run_def by (intro keeps_control io_keeps preserving_cases)

lemma keeps_approveAndQueueRun: "preserving le (approveAndQueueRun E i revision operator)"
  unfolding approveAndQueueRun_def durable_run_def queue_durable_def by (intro keeps_control io_keeps preserving_cases)

lemma keeps_release_active [io_keeps]: "preserving le (release_active_reservation E run r)"
  unfolding release_active_reservation_def by (intro keeps_control io_keeps preserving_cases)

lemma keeps_finalize_acknowledge [io_keeps]:
  "preserving le m \<Longrightarrow> preserving le (finalize_and_acknowledge E m r)"
  unfolding finalize_and_acknowledge_def by (intro keeps_control io_keeps)

lemma keeps_dispatch_failure [io_keeps]: "preserving le (finishDispatchFailure E run)"
  unfolding finishDispatchFailure_def by (intro keeps_control io_keeps)

lemma keeps_finish_refused [io_keeps]: "preserving le (finish_refused E tid run r reason)"
  unfolding finish_refused_def by (intro keeps_control io_keeps)

lemma keeps_report [io_keeps]: "preserving le (report_outcome E tid c out)"
  unfolding report_outcome_def by (intro keeps_control io_keeps preserving_cases)

lemma keeps_overspent [io_keeps]: "preserving le (finish_overspent E tid run r c f q)"
  unfolding finish_overspent_def by (intro keeps_control io_keeps)

lemma keeps_settle_run [io_keeps]: "preserving le (settle_run E run r i out)"
  unfolding settle_run_def by (intro keeps_control io_keeps preserving_cases)

lemma keeps_append_output [io_keeps]: "preserving le (append_output E run out)"
  unfolding append_output_def Let_def by (intro keeps_control io_keeps)

lemma keeps_finish_worked [io_keeps]: "preserving le (finish_worked E tid run r out)"
  unfolding finish_worked_def Let_def by (intro keeps_control io_keeps preserving_cases)

lemma keeps_finish [io_keeps]: "preserving le (finishProviderResult E tid run result)"
  unfolding finishProviderResult_def by (intro keeps_control io_keeps preserving_cases)

lemma keeps_orphan [io_keeps]: "preserving le (release_orphan E run)"
  unfolding release_orphan_def
  by (rule keeps_looking [where f = "\<lambda>g w. (if token_reservation run \<noteq> None then io_return (Inr ()) else
        case findActiveReservation (handoffIdFor run) g of None \<Rightarrow> io_return (Inr ())
        | Some orphan \<Rightarrow> io_attempt (io_release E orphan)) w" and g = rw_gateway])
    (intro keeps_control io_keeps preserving_cases)

lemma keeps_cancelRun [io_keeps]: "preserving le (cancelRun E i)"
  unfolding cancelRun_def cancel_bound_task_def release_bound_reservation_def
  by (auto split: prod.splits option.splits intro!: keeps_control io_keeps preserving_cases)

lemma keeps_binding [io_keeps]: "preserving le (io_bindingForTask tid)"
  unfolding io_bindingForTask_def by (intro keeps_control io_keeps preserving_cases)

lemma keeps_pending [io_keeps]: "preserving le taskForPendingResult"
  unfolding taskForPendingResult_def by (intro keeps_control io_keeps preserving_cases)

lemma keeps_persist [io_keeps]: "preserving le (persistResult E run result)"
  unfolding persistResult_def Let_def by (intro io_keeps)

lemma keeps_claim_next [io_keeps]: "preserving le (claim_next E)"
  unfolding claim_next_def by (intro keeps_control io_keeps preserving_cases)

lemma keeps_reject [io_keeps]: "preserving le (reject_commitment E tid run e)"
  unfolding reject_commitment_def by (intro keeps_control io_keeps preserving_cases)

lemma keeps_threw [io_keeps]: "preserving le (dispatch_threw E tid run e)"
  unfolding dispatch_threw_def Let_def by (intro keeps_control io_keeps preserving_cases)

lemma keeps_dispatch_run [io_keeps]: "preserving le (dispatch_run E run h)"
  unfolding dispatch_run_def by (intro keeps_control io_keeps)

lemma keeps_run_task [io_keeps]: "preserving le (run_task E t)"
  unfolding run_task_def Let_def by (intro keeps_control io_keeps preserving_cases)

lemma keeps_runSupervisorOnce: "preserving le (runSupervisorOnce E)"
  unfolding runSupervisorOnce_def acknowledge_finished_def recover_failure_def
  by (intro keeps_control io_keeps preserving_cases)

end

text \<open>A group's run is created and its slot claimed by calls of its own.\<close>

locale group_order = orchestrator_order +
  assumes allows_claim_slot [io_keeps]: "preserving le (io_claimGroupSlot E gid sid input)"
    and allows_create_group [io_keeps]: "preserving le (io_runs_at E (\<lambda>R t. createGroupRunDraft R i ref operator d t))"
begin

lemma keeps_group_record [io_keeps]: "preserving le (ensure_group_record E gid sid draft operator)"
  unfolding ensure_group_record_def Let_def by (intro keeps_control io_keeps preserving_cases)

lemma keeps_group_approval [io_keeps]: "preserving le (ensure_group_approval E run)"
  unfolding ensure_group_approval_def by (intro keeps_control io_keeps preserving_cases)

lemma keeps_approve_group [io_keeps]: "preserving le (approve_group_run E run a operator)"
  unfolding approve_group_run_def by (intro keeps_control io_keeps preserving_cases)

lemma keeps_bind_group [io_keeps]: "preserving le (bind_group_run E gid sid slot run)"
  unfolding bind_group_run_def Let_def
  by (auto split: prod.splits option.splits intro!: keeps_control io_keeps preserving_cases)

lemma keeps_ensureGroupRun: "preserving le (ensureGroupRun E gid sid draft operator st)"
  unfolding ensureGroupRun_def
  by (intro keeps_control io_keeps preserving_cases)
    (rule keeps_looking [where g = "\<lambda>w. findGroup gid (rw_gateway w)"], intro keeps_control io_keeps preserving_cases)

end

section \<open>The order in place\<close>

text \<open>In an environment that grants what it should, every store moves by its own operations.\<close>

definition stores_le :: "bool \<Rightarrow> orchestrator_env \<Rightarrow> run_world \<Rightarrow> run_world \<Rightarrow> bool" where
  "stores_le b E w w' \<longleftrightarrow> (env_ok b E \<longrightarrow> world_le b E w w')"

lemma stores_leD: "env_ok b E \<Longrightarrow> preserving (stores_le b E) m \<Longrightarrow> preserving (world_le b E) m"
  by (simp add: preserving_def stores_le_def)

lemma stores_leI: "(env_ok b E \<Longrightarrow> preserving (world_le b E) m) \<Longrightarrow> preserving (stores_le b E) m"
  by (auto simp: preserving_def stores_le_def)

interpretation stores: orchestrator_order "stores_le b E" E for b E
proof unfold_locales
  show "stores_le b E u w" if "stores_le b E u v" "stores_le b E v w" for u v w
    using that world_le_trans by (auto simp: stores_le_def)
qed (simp add: stores_le_def moves.le_refl, (rule stores_leI, intro io_keeps env_okD, assumption?)+)

interpretation groups: group_order "stores_le False E" E for E
  by unfold_locales (rule stores_leI, intro io_keeps, assumption?)+

lemma stores_release_slots: "preserving (stores_le False E) (releaseOrchestrationGroupSlots E gid ids)"
  unfolding releaseOrchestrationGroupSlots_def
  by (rule stores_leI, intro moves.keeps_control io_keeps keeps_io_gateway) simp

section \<open>The budgets\<close>

text \<open>No call counts more than the budgets, provided that what happens while the dispatcher is awaited does not.\<close>

definition dispatcher_within_budget :: "orchestrator_env \<Rightarrow> bool" where
  "dispatcher_within_budget E \<longleftrightarrow> (\<forall>h. preserving (\<lambda>w w'. budget_kept (oe_limits E) (gw_state (rw_gateway w)) \<longrightarrow>
     budget_kept (oe_limits E) (gw_state (rw_gateway w'))) (oe_dispatch E h))"

definition budget_le :: "orchestrator_env \<Rightarrow> run_world \<Rightarrow> run_world \<Rightarrow> bool" where
  "budget_le E w w' \<longleftrightarrow> (dispatcher_within_budget E \<longrightarrow> budget_kept (oe_limits E) (gw_state (rw_gateway w)) \<longrightarrow>
     budget_kept (oe_limits E) (gw_state (rw_gateway w')))"

lemma budget_gateway:
  assumes "\<And>g. budget_kept (oe_limits E) (gw_state g) \<Longrightarrow> budget_kept (oe_limits E) (gw_state (fst (f g)))"
  shows "preserving (budget_le E) (io_gateway f)"
proof (rule preservingI)
  fix w :: run_world
  show "budget_le E w (fst (io_gateway f w))"
    using assms [of "rw_gateway w"] by (auto simp: budget_le_def io_gateway_def split: prod.splits sum.splits)
qed

lemma budget_elsewhere:
  "preserving (budget_le E) (io_now E')" "preserving (budget_le E) (io_uuid E')" "preserving (budget_le E) (io_write_approvals E' q)"
  "preserving (budget_le E) (io_queue g)" "preserving (budget_le E) (io_runs_at E' f)" "preserving (budget_le E) (io_finalize E' i c reason)"
  by (auto simp: preserving_def budget_le_def io_now_def io_uuid_def io_write_approvals_def io_queue_def io_runs_at_def io_runs_def
      io_finalize_def io_bind_def split: sum.splits prod.splits)

lemma budget_timed: "(\<And>t. preserving (budget_le E) (f t)) \<Longrightarrow> preserving (budget_le E) (io_bind (io_now E') f)"
  by (auto simp: preserving_def budget_le_def io_bind_def io_now_def)

lemma budget_drawn:
  "(\<And>i. preserving (budget_le E) (io_gateway (f i))) \<Longrightarrow>
   preserving (budget_le E) (\<lambda>w :: run_world. io_gateway (f (oe_reservation_id E' (rw_drawn w) (rw_gateway w))) (w\<lparr>rw_drawn := Suc (rw_drawn w)\<rparr>))"
  by (auto simp: preserving_def budget_le_def)

lemma budget_calls:
  "preserving (budget_le E) (io_reserve E input)" "preserving (budget_le E) (io_settle E r u)"
  "preserving (budget_le E) (io_release E r)" "preserving (budget_le E) (io_acknowledge E rid)"
  "preserving (budget_le E) (reserveOrchestrationGroup E spec)" "preserving (budget_le E) (io_claimGroupSlot E gid sid input)"
  "preserving (budget_le E) (releaseOrchestrationGroupSlots E gid ids)"
  unfolding io_reserve_def io_settle_def io_release_def io_acknowledge_def reserveOrchestrationGroup_def io_claimGroupSlot_def
    releaseOrchestrationGroupSlots_def
  using budget_kept_exec [where op = "OpAcknowledge rid"]
  by (intro budget_timed budget_drawn budget_gateway budget_kept_reserve budget_kept_settle budget_kept_release
      budget_kept_reserve_group budget_kept_claim budget_kept_release_group; simp)+

interpretation budgets: group_order "budget_le E" E for E
proof unfold_locales
  show "preserving (budget_le E) (oe_dispatch E h)" for h
    by (auto simp: preserving_def budget_le_def dispatcher_within_budget_def)
qed (rule budget_elsewhere budget_calls | (simp add: budget_le_def; fail))+

end
