(* ===== verification/RunIds.thy ===== *)
theory RunIds
  imports RunWorldLaws
begin

text \<open>
  A concrete source of new identifiers: a safe gateway uses at most 1536 of them, so among the 2704 texts of two
  letters there is one it does not use.
\<close>

section \<open>How many identifiers a gateway uses\<close>

lemma used_reservations_bound:
  assumes "gateway_inv L s"
  shows "length (reservations s) \<le> MAX_ACTIVE_RESERVATIONS"
proof -
  let ?rs = "map snd (reservations s)"
  let ?slots = "filter slot_active (all_slots s)"
  let ?grouped = "filter (\<lambda>r. groupId r \<noteq> None) ?rs"
  have inv: "reservations_inv (reservations s)" "link_inv s" "activeTotal s \<le> int MAX_ACTIVE_RESERVATIONS"
    using assms by (simp_all add: gateway_inv_def)
  have ids: "map reservationId ?rs = keys_of (reservations s)"
    using inv(1) by (auto simp: reservations_inv_def isReservation_def comp_def intro!: map_cong)
  then have "distinct ?rs" using inv(1) by (metis distinct_map reservations_inv_def)
  then have d: "distinct ?grouped" by simp
  have "Some ` set ?grouped \<subseteq> slot_reservation ` set ?slots"
  proof
    fix x assume "x \<in> Some ` set ?grouped"
    then obtain i r where x: "x = Some r" "(i, r) \<in> set (reservations s)" "groupId r \<noteq> None" by auto
    then obtain g grp sl where sl: "map_of (groups s) g = Some grp" "sl \<in> set (slots grp)" "slot_state sl = SlotClaimed"
        "slot_reservation sl = Some r"
      using inv(2) unfolding link_inv_def reservation_linked_def by blast
    then have "sl \<in> set ?slots" using map_of_SomeD [OF sl(1)] by (force simp: slot_active_def all_slots_def)
    with x(1) sl(4) show "x \<in> slot_reservation ` set ?slots" by force
  qed
  then have "card (Some ` set ?grouped) \<le> card (slot_reservation ` set ?slots)" by (intro card_mono) auto
  also have "\<dots> \<le> card (set ?slots)" by (rule card_image_le) simp
  also have "\<dots> \<le> length ?slots" by (rule card_length)
  finally have "length ?grouped \<le> activeGroupSlots s"
    using distinct_card [OF d] by (simp add: card_image activeGroupSlots_def)
  moreover have "length ?rs = length ?grouped + length (ordinaryReservations s)"
    using sum_length_filter_compl [of "\<lambda>r. groupId r \<noteq> None" ?rs] by (simp add: ordinaryReservations_def)
  ultimately show ?thesis using inv(3) activeTotal_counts [of s] by simp
qed

section \<open>The first unused text of two letters\<close>

definition id_letters :: string where
  "id_letters = ''abcdefghijklmnopqrstuvwxyzABCDEFGHIJKLMNOPQRSTUVWXYZ''"

definition id_candidates :: "string list" where
  "id_candidates = map (\<lambda>(a, b). [a, b]) (List.product id_letters id_letters)"

definition unused_id :: "nat \<Rightarrow> gateway \<Rightarrow> string" where
  "unused_id n g =
     (case List.find (\<lambda>i. i \<notin> set (keys_of (reservations (gw_state g)) @ keys_of (terminal (gw_state g)))) id_candidates of
        None \<Rightarrow> '''' | Some i \<Rightarrow> i)"

lemma card_id_candidates: "card (set id_candidates) = 2704"
proof -
  have d: "distinct id_letters" "length id_letters = 52" by (simp_all add: id_letters_def)
  have "inj_on (\<lambda>(a, b). [a, b]) (set id_letters \<times> set id_letters)" by (auto simp: inj_on_def)
  moreover have "set id_candidates = (\<lambda>(a, b). [a, b]) ` (set id_letters \<times> set id_letters)" by (auto simp: id_candidates_def)
  ultimately show ?thesis using distinct_card [OF d(1)] d(2) by (simp add: card_image card_cartesian_product)
qed

lemma clean_letter: "c \<in> set id_letters \<Longrightarrow> clean_char c = c"
proof -
  have "list_all (\<lambda>c. clean_char c = c) id_letters" by code_simp
  then show "c \<in> set id_letters \<Longrightarrow> clean_char c = c" by (simp add: list_all_iff)
qed

lemma candidate_persisted: "i \<in> set id_candidates \<Longrightarrow> isPersistedString i"
  by (auto simp: id_candidates_def isPersistedString_def Let_def clean_letter gateway_limits_defs)

lemma unused_id_fresh:
  assumes "gateway_safe L g"
  shows "fresh_id (gw_state g) (unused_id n g)"
proof -
  let ?used = "keys_of (reservations (gw_state g)) @ keys_of (terminal (gw_state g))"
  have inv: "gateway_inv L (gw_state g)" using assms by (simp add: gateway_safe_def)
  then have "length ?used \<le> 1536"
    using used_reservations_bound [OF inv] by (simp add: gateway_inv_def gateway_limits_defs)
  then have "card (set ?used) < card (set id_candidates)" using card_length [of ?used] card_id_candidates by simp
  then have "\<not> set id_candidates \<subseteq> set ?used" by (meson List.finite_set card_mono leD)
  then obtain i where "List.find (\<lambda>i. i \<notin> set ?used) id_candidates = Some i"
    by (cases "List.find (\<lambda>i. i \<notin> set ?used) id_candidates") (auto simp: find_None_iff)
  moreover from this have "i \<in> set id_candidates" "i \<notin> set ?used" by (auto simp: find_Some_iff)
  ultimately show ?thesis by (simp add: unused_id_def fresh_id_def candidate_persisted)
qed

end
