(* ===== verification/RunOutcomes.thy ===== *)
theory RunOutcomes
  imports RunWorldLaws
begin

text \<open>
  What a call of the orchestrator returns or throws, and in which world: \<open>ends m Q R w\<close> says that \<open>m\<close>, started in \<open>w\<close>,
  either returns a value with \<open>Q\<close> or throws an error with \<open>R\<close>. It is computed along the structure of \<open>m\<close>, so that
  \<open>simp add: io_ends\<close> reduces a call to the operations of the stores it makes.
\<close>

section \<open>The calls on the stores\<close>

lemma ends_calls [io_ends]:
  "ends (io_now E) Qt R w \<longleftrightarrow> Qt (oe_clock E (rw_clock w)) (w\<lparr>rw_clock := Suc (rw_clock w)\<rparr>)"
  "ends (io_uuid E) Qi R w \<longleftrightarrow> Qi (oe_uuid E (rw_drawn w)) (w\<lparr>rw_drawn := Suc (rw_drawn w)\<rparr>)"
  "ends (io_phase E p) Qu R w \<longleftrightarrow> (case oe_afterPhase E p of None \<Rightarrow> Qu () w | Some e \<Rightarrow> R e w)"
  "ends io_snapshot Qq R w \<longleftrightarrow> Qq (rw_queue w) w"
  "ends io_read_runs Qr R w \<longleftrightarrow> (case readRunStore (rw_runs w) of Inl e \<Rightarrow> R e w | Inr s \<Rightarrow> Qr s w)"
  "ends io_read_approvals Qa R w \<longleftrightarrow> (case readApprovalQueue (rw_approvals w) of Inl e \<Rightarrow> R e w | Inr a \<Rightarrow> Qa a w)"
  "ends (io_write_approvals E a') Qu R w \<longleftrightarrow> (case writeApprovalQueue (oe_fits_approvals E) a' of Inl e \<Rightarrow> R e w
     | Inr a \<Rightarrow> Qu () (w\<lparr>rw_approvals := a\<rparr>))"
  "ends (io_record i) Qd R w \<longleftrightarrow> (case find_run i (rw_runs w) of Inl e \<Rightarrow> R e w | Inr r \<Rightarrow> Qd r w)"
  "ends (io_runs f) Q R w \<longleftrightarrow> (case f (rw_runs w) of Inl e \<Rightarrow> R e w | Inr (s, x) \<Rightarrow> Q x (w\<lparr>rw_runs := s\<rparr>))"
  "ends (io_queue g) Q' R w \<longleftrightarrow> (case g (rw_queue w) of (q, Inl e) \<Rightarrow> R e (w\<lparr>rw_queue := q\<rparr>) | (q, Inr x) \<Rightarrow> Q' x (w\<lparr>rw_queue := q\<rparr>))"
  "ends (io_gateway h) Q'' R w \<longleftrightarrow> (case h (rw_gateway w) of (g, Inl e) \<Rightarrow> R (gateway_throw e) (w\<lparr>rw_gateway := g\<rparr>)
     | (g, Inr x) \<Rightarrow> Q'' x (w\<lparr>rw_gateway := g\<rparr>))"
  by (auto simp: ends_def io_now_def io_uuid_def io_phase_def io_snapshot_def io_read_runs_def io_read_approvals_def
      io_write_approvals_def io_record_def io_runs_def io_queue_def io_gateway_def split: prod.splits sum.splits option.splits)

lemma ends_task [io_ends]: "ends (io_task tid) Q R w \<longleftrightarrow> Q (find_task tid (rw_queue w)) w"
  by (simp add: io_task_def io_ends)

lemma ends_runs_at [io_ends]:
  "ends (io_runs_at E f) Q R w \<longleftrightarrow>
    (case f (oe_runs E) (oe_clock E (rw_clock w)) (rw_runs w) of
       Inl e \<Rightarrow> R e (w\<lparr>rw_clock := Suc (rw_clock w)\<rparr>)
     | Inr (s, x) \<Rightarrow> Q x (w\<lparr>rw_clock := Suc (rw_clock w), rw_runs := s\<rparr>))"
  by (simp add: io_runs_at_def io_ends)

lemma ends_finalize [io_ends]:
  "ends (io_finalize E i c reason) Q R w \<longleftrightarrow>
    (case finalizeRun (oe_runs E) i c reason (oe_clock E (rw_clock w)) (rw_runs w) of
       (s, Inl e) \<Rightarrow> R e (w\<lparr>rw_clock := Suc (rw_clock w), rw_runs := s\<rparr>)
     | (s, Inr x) \<Rightarrow> Q x (w\<lparr>rw_clock := Suc (rw_clock w), rw_runs := s\<rparr>))"
  by (auto simp: io_finalize_def io_ends) (auto simp: ends_def split: prod.splits sum.splits)

section \<open>Calls that only touch the gateway\<close>

text \<open>Whatever a call on the gateway, the clock or a drawn identifier does, the other stores are as before.\<close>

definition same_records :: "run_world \<Rightarrow> run_world \<Rightarrow> bool" where
  "same_records w w' \<longleftrightarrow> rw_runs w' = rw_runs w \<and> rw_queue w' = rw_queue w \<and> rw_approvals w' = rw_approvals w"

interpretation records: world_order same_records
  by unfold_locales (simp_all add: same_records_def)

lemma records_gateway [io_keeps]: "preserving same_records (io_gateway f)"
  by (auto simp: preserving_def io_gateway_def same_records_def split: prod.splits sum.splits)

lemma records_now [io_keeps]: "preserving same_records (io_now E)"
  by (simp add: preserving_def io_now_def same_records_def)

lemma records_acknowledge [io_keeps]: "preserving same_records (io_acknowledge E rid)"
  unfolding io_acknowledge_def by (intro io_keeps)

lemma records_release [io_keeps]: "preserving same_records (io_release E r)"
  unfolding io_release_def by (intro records.keeps_control io_keeps)

lemma records_settle [io_keeps]: "preserving same_records (io_settle E r u)"
  unfolding io_settle_def by (intro records.keeps_control io_keeps)

lemma records_acknowledge_finished [io_keeps]: "preserving same_records (acknowledge_finished E)"
  unfolding acknowledge_finished_def by (intro records.keeps_control io_keeps preserving_cases)

section \<open>A run in its store\<close>

lemma on_run_cases:
  "on_run E i f s = (case find_run i s of Inl e \<Rightarrow> Inl e | Inr r \<Rightarrow>
     (case f r of Inl e \<Rightarrow> Inl e | Inr None \<Rightarrow> Inr (s, r) | Inr (Some r') \<Rightarrow> replace_run E r' s))"
  by (auto simp: on_run_def bind_result_def split: sum.splits option.splits)

definition replaced_run :: "run_record \<Rightarrow> run_store \<Rightarrow> run_store" where
  "replaced_run r s = map (\<lambda>x. if run_id x = run_id r then r else x) s"

lemma find_replaced_run:
  assumes "List.find P s = Some r" and "run_id r' = run_id r" and "distinct (map run_id s)" and "P r'"
  shows "List.find P (replaced_run r' s) = Some r'"
  using assms by (induction s) (auto simp: replaced_run_def split: if_splits dest: find_SomeD intro!: map_idI)

text \<open>The run \<open>r\<close> is stored in \<open>s\<close>; a successful replacement stores the new record.\<close>

lemma find_run_stored: "find_run i s = Inr r \<longleftrightarrow> validate s \<and> List.find (\<lambda>x. run_id x = i) s = Some r"
  by (auto simp: find_run_def readRunStore_def split: option.splits if_splits)

lemma find_run_mem: "validate s \<Longrightarrow> r \<in> set s \<Longrightarrow> find_run (run_id r) s = Inr r"
  using same_id [of s] by (auto simp: find_run_def readRunStore_def find_None_iff split: option.splits dest!: find_SomeD)

lemma replace_run_stored:
  assumes "find_run (run_id r) s = Inr r0" and "replace_run E r s = Inr (s', r')"
  shows "r' = r \<and> s' = replaced_run r s \<and> validate s' \<and> find_run (run_id r) s' = Inr r"
proof -
  note out = replace_run_Inr [OF assms(2)]
  have "List.find (\<lambda>x. run_id x = run_id r) (replaced_run r s) = Some r"
    using assms(1) out find_run_Inr [OF assms(1)]
    by (intro find_replaced_run [where r = r0]) (auto simp: find_run_stored validate_ids)
  then show ?thesis using out by (auto simp: replaced_run_def find_run_stored)
qed

text \<open>An operation on a run leaves the record it returns in the store.\<close>

lemma on_run_stored:
  assumes "on_run E i f s = Inr (s', x)" and "\<And>r r'. f r = Inr (Some r') \<Longrightarrow> current r' = current r"
  obtains r where "find_run i s = Inr r" "find_run i s' = Inr x" "current x = current r" "f r = Inr None \<and> x = r \<or> f r = Inr (Some x)"
proof -
  from assms(1) obtain r c where r: "find_run i s = Inr r" "f r = Inr c"
    and out: "(case c of None \<Rightarrow> Inr (s, r) | Some r' \<Rightarrow> replace_run E r' s) = Inr (s', x)"
    by (auto simp: on_run_def)
  show thesis
  proof (cases c)
    case None
    with r out that show thesis by simp
  next
    case (Some r')
    then have c: "current r' = current r" and "run_id r = i" using assms(2) r find_run_Inr [OF r(1)] by simp_all
    then have id: "run_id r' = i" by (simp add: run_id_def)
    with replace_run_stored [of r' s r E s' x] Some out r c that show thesis by simp
  qed
qed

definition stored_update :: "(run_record \<Rightarrow> run_record \<Rightarrow> bool) \<Rightarrow> string \<Rightarrow> run_store \<Rightarrow> run_store \<Rightarrow> run_record \<Rightarrow> bool" where
  "stored_update P i s s' x \<longleftrightarrow> (\<exists>r. find_run i s = Inr r \<and> find_run i s' = Inr x \<and> current x = current r \<and> P r x)"

lemma stored_updateI:
  assumes "on_run E i f s = Inr (s', x)" and "\<And>r r'. f r = Inr (Some r') \<Longrightarrow> current r' = current r"
    and "\<And>r. find_run i s = Inr r \<Longrightarrow> f r = Inr None \<Longrightarrow> P r r" and "\<And>r r'. find_run i s = Inr r \<Longrightarrow> f r = Inr (Some r') \<Longrightarrow> P r r'"
  shows "stored_update P i s s' x"
  using on_run_stored [OF assms(1,2)] assms(3,4) unfolding stored_update_def by metis

lemma approve_stored: "approveRunRevision E i revision operator now s = Inr (s', x) \<Longrightarrow>
    stored_update (\<lambda>r x. supervisor_task_id x = supervisor_task_id r \<and> token_reservation x = token_reservation r) i s s' x"
  unfolding approveRunRevision_def by (erule stored_updateI) (auto split: if_splits)

lemma transition_stored_run: "transitionRun E i st now s = Inr (s', x) \<Longrightarrow>
    stored_update (\<lambda>r x. run_status x = st \<and> supervisor_task_id x = supervisor_task_id r \<and> token_reservation x = token_reservation r \<and>
      token_settled x = token_settled r) i s s' x"
  unfolding transitionRun_def transition_step_def by (erule stored_updateI) (auto split: if_splits)

lemma bind_stored: "bindRunToSupervisor E i tid res now s = Inr (s', x) \<Longrightarrow>
    stored_update (\<lambda>_ x. supervisor_task_id x = Some tid \<and> token_reservation x = Some res \<and> reservation_status x = ActiveReservation \<and>
      rr_totalTokens res = estimated_tokens (current x)) i s s' x"
  unfolding bindRunToSupervisor_def by (erule stored_updateI) (auto split: if_splits)

lemma clear_bind_stored: "clearRunSupervisorBinding E i now s = Inr (s', x) \<Longrightarrow>
    stored_update (\<lambda>_ x. supervisor_task_id x = None \<and> token_reservation x = None) i s s' x"
  unfolding clearRunSupervisorBinding_def by (erule stored_updateI) (auto split: if_splits)

lemma mark_stored: "markRunReservationTerminal E i settled now s = Inr (s', x) \<Longrightarrow>
    stored_update (\<lambda>r x. reservation_status x = (if settled then SettledReservation else ReleasedReservation) \<and>
      supervisor_task_id x = supervisor_task_id r \<and> token_reservation x = token_reservation r) i s s' x"
  unfolding markRunReservationTerminal_def Let_def by (erule stored_updateI) (auto split: if_splits)

lemma settle_stored: "settleRunReservation E i inp out now s = Inr (s', x) \<Longrightarrow>
    stored_update (\<lambda>r x. reservation_status x = SettledReservation \<and> token_settled x = Some (settlement_of inp out) \<and>
      supervisor_task_id x = supervisor_task_id r \<and> token_reservation x = token_reservation r) i s s' x"
  unfolding settleRunReservation_def by (erule stored_updateI) (auto split: if_splits)

lemma artifact_stored: "appendRunArtifact E i aid kind pre now s = Inr (s', x) \<Longrightarrow>
    stored_update (\<lambda>r x. run_status x = run_status r \<and> token_settled x = token_settled r \<and> reservation_status x = reservation_status r \<and>
      supervisor_task_id x = supervisor_task_id r \<and> token_reservation x = token_reservation r \<and>
      (\<exists>a \<in> set (artifacts x). artifact_id a = aid \<and> preview a = pre)) i s s' x"
  unfolding appendRunArtifact_def by (erule stored_updateI) (auto split: if_splits)

lemmas runs_stored = approve_stored transition_stored_run bind_stored clear_bind_stored mark_stored settle_stored artifact_stored

lemma transition_run_outcome: "transitionRun E i st now s = Inr (s', x) \<Longrightarrow> run_status x = st"
  by (auto simp: transitionRun_def on_run_cases transition_step_def split: sum.splits if_splits dest!: replace_run_Inr)

lemma finalize_outcome:
  assumes "finalizeRun E i c reason now s = (s', Inr x)" and "find_run i s = Inr r"
  obtains "run_status r = (if c then RCompleted else RFailed)" "s' = s" "x = r"
  | "run_status r = RRunning" "replace_run E (r\<lparr>run_status := (if c then RCompleted else RFailed), terminal_reason := reason, run_updated_at := now\<rparr>) s = Inr (s', x)"
  | s1 r1 where "transitionRun E i RRunning now s = Inr (s1, r1)"
    "replace_run E (r1\<lparr>run_status := (if c then RCompleted else RFailed), terminal_reason := reason, run_updated_at := now\<rparr>) s1 = Inr (s', x)"
  using assms by (auto simp: finalizeRun_def Let_def split: if_splits sum.splits)

lemma finalize_stored:
  assumes "finalizeRun E i c reason now s = (s', Inr x)"
  shows "stored_update (\<lambda>r x. run_status x = (if c then RCompleted else RFailed) \<and> token_settled x = token_settled r) i s s' x"
proof -
  obtain r where r: "find_run i s = Inr r" using assms by (auto simp: finalizeRun_def Let_def split: sum.splits)
  let ?ended = "\<lambda>y. y\<lparr>run_status := (if c then RCompleted else RFailed), terminal_reason := reason, run_updated_at := now\<rparr>"
  have ended: "x = ?ended y \<and> find_run i s' = Inr x" if "find_run i s1 = Inr y" "replace_run E (?ended y) s1 = Inr (s', x)" for s1 y
  proof -
    have "run_id (?ended y) = i" using find_run_Inr [OF that(1)] by (simp add: run_id_def)
    with replace_run_stored [of "?ended y" s1 y E s' x] that show ?thesis by auto
  qed
  show ?thesis
  proof (cases rule: finalize_outcome [OF assms r])
    case 1
    with r show ?thesis by (auto simp: stored_update_def)
  next
    case 2
    with ended [OF r 2(2)] r show ?thesis by (auto simp: stored_update_def)
  next
    case (3 s1 r1)
    from transition_stored_run [OF 3(1)] r have r1: "find_run i s1 = Inr r1" "current r1 = current r" "token_settled r1 = token_settled r"
      by (auto simp: stored_update_def)
    from ended [OF r1(1) 3(2)] r1 r show ?thesis by (auto simp: stored_update_def)
  qed
qed

section \<open>A task in its queue\<close>

text \<open>An operation that replaced a task left that task in the queue, as it is read back.\<close>

lemma replace_outcome:
  assumes "replace E t q = (q', Inr t')" and "find_task (task_id t) q = Some t0"
  shows "t' = read_back t \<and> find_task (task_id t) q' = Some t'"
proof -
  have "find_task (task_id t) (map (\<lambda>c. if task_id c = task_id t then t else c) q) = Some t"
    using assms(2) by (induction q) (auto simp: find_task_def split: if_splits)
  then have "find_task (task_id t) (written_queue (map (\<lambda>c. if task_id c = task_id t then t else c) q)) = Some (read_back t)"
    by (simp add: find_task_written)
  with assms(1) show ?thesis
    by (auto simp: replace_def publish_def require_def split: if_splits option.splits)
qed

lemma transition_outcome:
  assumes "transition E i st now extra q = (q', Inr t')" and "\<And>t. task_id (extra t) = task_id t"
  shows "\<exists>t. find_task i q = Some t \<and> t' = read_back ((extra t)\<lparr>status := st, updated_at := now\<rparr>) \<and> find_task i q' = Some t'"
proof -
  from assms(1) obtain t where t: "find_task i q = Some t" "replace E ((extra t)\<lparr>status := st, updated_at := now\<rparr>) q = (q', Inr t')"
    by (auto simp: transition_def guarded_def require_def split: option.splits sum.splits)
  moreover have "task_id t = i" using find_taskD [OF t(1)] by simp
  ultimately show ?thesis using replace_outcome [OF t(2)] assms(2) [of t] by auto
qed

lemma cancel_outcome:
  assumes "cancel E i reason now q = (q', Inr t')"
  shows "find_task i q' = Some t' \<and> status t' = Cancelled"
proof -
  from assms have "transition E i Cancelled now (\<lambda>t. t\<lparr>run_started_at := None,
      last_error := Some (bounded_error reason), blocked_reason := None\<rparr>) q = (q', Inr t')"
    by (auto simp: cancel_def split: sum.splits if_splits)
  from transition_outcome [OF this] show ?thesis by auto
qed

lemma complete_outcome:
  assumes "complete E i now q = (q', Inr t')"
  shows "find_task i q' = Some t' \<and> status t' = Completed"
  using transition_outcome [OF assms [unfolded complete_def]] by auto

end
