(* ===== verification/OrchestratorProps.thy ===== *)
theory OrchestratorProps
  imports RunIds RunOutcomes
begin

text \<open>
  What holds of the orchestrator and the stores it composes: the whole system stays safe; how a run is queued and
  settled across the stores; and two ways in which it gets stuck.
\<close>

section \<open>The orchestrator as a machine\<close>

text \<open>Every call of the orchestrator's interface that can change something.\<close>

datatype orchestrator_op =
    OPrepare run_draft_input
  | OApprove string int string
  | OStep
  | OCancel string
  | OReserveGroup group_spec
  | OReleaseSlots string "string list"
  | OEnsureGroupRun string string run_draft_input string bool

fun orchestrator_exec :: "orchestrator_env \<Rightarrow> orchestrator_op \<Rightarrow> run_world \<Rightarrow> run_world" where
  "orchestrator_exec E (OPrepare input) w = fst (prepareRun E input w)"
| "orchestrator_exec E (OApprove i n operator) w = fst (approveAndQueueRun E i n operator w)"
| "orchestrator_exec E OStep w = fst (runSupervisorOnce E w)"
| "orchestrator_exec E (OCancel i) w = fst (cancelRun E i w)"
| "orchestrator_exec E (OReserveGroup spec) w = fst (reserveOrchestrationGroup E spec w)"
| "orchestrator_exec E (OReleaseSlots gid ids) w = fst (releaseOrchestrationGroupSlots E gid ids w)"
| "orchestrator_exec E (OEnsureGroupRun gid sid draft operator strict) w = fst (ensureGroupRun E gid sid draft operator strict w)"

definition world_safe :: "orchestrator_env \<Rightarrow> run_world \<Rightarrow> bool" where
  "world_safe E w \<longleftrightarrow> validate (rw_runs w) \<and> validate_approvals (rw_approvals w) \<and> queue_inv (oe_queue E) (rw_queue w) \<and>
     budget_kept (oe_limits E) (gw_state (rw_gateway w))"

text \<open>An order that all the calls keep is kept by each operation.\<close>

lemma exec_in_order:
  assumes "group_order le E" and "\<And>input. preserving le (prepareRun E input)"
    and "\<And>gid ids. preserving le (releaseOrchestrationGroupSlots E gid ids)"
  shows "le w (orchestrator_exec E op w)"
proof -
  note o = group_order.axioms(1) [OF assms(1)]
  show ?thesis
    by (cases op) (simp_all add: preservingD [OF assms(2)] preservingD [OF assms(3)]
        preservingD [OF orchestrator_order.keeps_approveAndQueueRun [OF o]]
        preservingD [OF orchestrator_order.keeps_runSupervisorOnce [OF o]]
        preservingD [OF orchestrator_order.keeps_cancelRun [OF o]]
        preservingD [OF orchestrator_order.allows_reserve_group [OF o]]
        preservingD [OF group_order.keeps_ensureGroupRun [OF assms(1)]])
qed

lemma exec_le: "env_ok False E \<Longrightarrow> world_le False E w (orchestrator_exec E op w)"
proof -
  assume ok: "env_ok False E"
  have "preserving (stores_le False E) (prepareRun E input)" for input
    by (rule stores.keeps_prepareRun, rule stores_leI, rule io_keeps)
  from exec_in_order [OF groups.group_order_axioms this stores_release_slots] ok show ?thesis by (simp add: stores_le_def)
qed

lemma exec_budget: "budget_le E w (orchestrator_exec E op w)"
  by (rule exec_in_order [OF budgets.group_order_axioms _ budget_calls(7)])
    (rule budgets.keeps_prepareRun, rule budget_elsewhere)

lemma exec_steps_le: "env_ok False E \<Longrightarrow> world_le False E w (fold (orchestrator_exec E) ops w)"
  using exec_le world_le_trans by (induction ops arbitrary: w) (auto simp: moves.le_refl, blast)

lemma world_le_safe:
  "world_le False E w w' \<Longrightarrow> budget_le E w w' \<Longrightarrow> dispatcher_within_budget E \<Longrightarrow> world_safe E w \<Longrightarrow> world_safe E w'"
  using queue_steps_inv by (auto simp: world_le_def world_safe_def keeps_def queue_inv_def budget_le_def)

interpretation orchestrator:
  invariant_machine "orchestrator_exec E" "\<lambda>w. env_ok False E \<and> dispatcher_within_budget E \<and> world_safe E w" for E
  by unfold_locales (use exec_le exec_budget world_le_safe in blast)

text \<open>C4: Whatever the orchestrator is asked to do through any call of its interface, in whatever order, and wherever it
  throws, the whole system stays safe: the run store and the approval queue stay valid, no run is lost or edited after
  its approval, a running task has its approval and its dependencies completed, and no usage counted by the gateway
  exceeds its budget.\<close>

theorem orchestrated_system_is_safe:
  assumes "env_ok False E" and "dispatcher_within_budget E" and "world_safe E w" and "w' = fold (orchestrator_exec E) ops w"
  shows "validate (rw_runs w') \<and> validate_approvals (rw_approvals w') \<and>
    (\<forall>r \<in> set (rw_runs w). \<exists>r' \<in> set (rw_runs w'). record_frame r r') \<and>
    (\<forall>t \<in> set (rw_queue w'). status t = Running \<longrightarrow>
       (requires_approval t \<longrightarrow> approval_granted t) \<and> dependenciesComplete (rw_queue w') t) \<and>
    (\<forall>k K. usageKeyKind k = Some K \<longrightarrow> usedOf (used (gw_state (rw_gateway w'))) k \<le> kind_cap (oe_limits E) K)"
proof -
  have safe: "world_safe E w'"
    using orchestrator.run_inv [of E w ops] assms by blast
  have "\<forall>t \<in> set (rw_queue w'). task_inv (rw_queue w') t" using safe by (simp add: world_safe_def queue_inv_def)
  moreover have "store_frame (rw_runs w) (rw_runs w')"
    using exec_steps_le [OF assms(1), of w ops] by (simp add: assms(4) world_le_def keeps_def)
  moreover have "within_caps (oe_limits E) (used (gw_state (rw_gateway w')))"
    using safe budget_keptD(1) by (simp add: world_safe_def)
  ultimately show ?thesis using safe unfolding world_safe_def task_inv_def store_frame_def within_caps_def by simp
qed

section \<open>A cancelled run that failed\<close>

text \<open>The run whose cancellation the next step handles is finished, its reservation settled or given back and its task
  finished.\<close>

definition cancelling :: "run_record \<Rightarrow> bool" where
  "cancelling r \<longleftrightarrow> cancellation_requested r \<and> run_status r \<noteq> RCancelled"

definition over :: "run_world \<Rightarrow> run_record \<Rightarrow> bool" where
  "over w r \<longleftrightarrow> run_status r \<in> {RCompleted, RFailed} \<and> reservation_status r \<noteq> ActiveReservation \<and>
     token_reservation r \<noteq> None \<and>
     (\<forall>tid. supervisor_task_id r = Some tid \<longrightarrow> (\<exists>t. find_task tid (rw_queue w) = Some t \<and> finished_task (status t)))"

definition wedged :: "run_world \<Rightarrow> bool" where
  "wedged w \<longleftrightarrow> validate (rw_runs w) \<and> (\<exists>r. List.find cancelling (rw_runs w) = Some r \<and> over w r)"

lemma cancel_over:
  assumes "find_run i (rw_runs w) = Inr r" and "cancellation_requested r" and "over w r"
  shows "ends (cancelRun E i) (\<lambda>_ _. False) (\<lambda>e w'. e = Error ''invalid_run_transition'' \<and> same_records w w') w"
proof -
  have live: "run_status r \<noteq> RCancelled" "run_status r \<noteq> RRunning" "RCancelled \<notin> set (transitions (run_status r))"
    using assms(3) by (auto simp: over_def)
  have stays: "requestRunCancellation R i t (rw_runs w) = Inr (rw_runs w, r)" for R t
    using assms(1,2) by (simp add: requestRunCancellation_def on_run_cases)
  have refused: "transitionRun R i RCancelled t (rw_runs w) = Inl (Error ''invalid_run_transition'')" for R t
    using assms(1) live by (simp add: transitionRun_def on_run_cases transition_step_def)
  obtain res where res: "token_reservation r = Some res" "reservation_status r \<noteq> ActiveReservation"
    using assms(3) by (auto simp: over_def)
  show ?thesis
    unfolding cancelRun_def release_orphan_def cancel_bound_task_def release_bound_reservation_def
    using assms live res
    by (auto simp: io_ends stays refused over_def first_error_def finished_task_def same_records_def split: option.splits)
qed

lemma wedged_step: "wedged w \<Longrightarrow> ends (runSupervisorOnce E) (\<lambda>_ _. False) (\<lambda>_. same_records w) w"
proof -
  assume "wedged w"
  then obtain r where r: "validate (rw_runs w)" "List.find cancelling (rw_runs w) = Some r" "over w r"
    by (auto simp: wedged_def)
  then have id: "find_run (run_id r) (rw_runs w) = Inr r" and c: "cancellation_requested r"
    by (auto intro!: find_run_mem simp: cancelling_def dest: find_SomeD)
  have cancelled: "ends (cancelRun E (run_id r)) (\<lambda>_ _. False) (\<lambda>_. same_records w) w'" if w': "same_records w w'" for w'
    by (rule ends_mono [OF cancel_over [OF _ c]]) (use w' r(3) id in \<open>auto simp: same_records_def over_def\<close>)
  have "(\<lambda>r. cancellation_requested r \<and> run_status r \<noteq> RCancelled) = cancelling" by (auto simp: cancelling_def)
  then show ?thesis
    unfolding runSupervisorOnce_def io_ends
    by (intro ends_keeping [OF records_acknowledge_finished])
      (use r cancelled in \<open>auto simp: io_ends same_records_def readRunStore_def\<close>)
qed

lemma wedged_same: "same_records w w' \<Longrightarrow> wedged w \<Longrightarrow> wedged w'"
  by (auto simp: same_records_def wedged_def over_def)

lemma wedged_steps:
  assumes "wedged w"
  shows "same_records w (fold (orchestrator_exec E) (replicate n OStep) w) \<and>
    (\<exists>e. snd (runSupervisorOnce E (fold (orchestrator_exec E) (replicate n OStep) w)) = Inl e)"
  using assms
proof (induction n arbitrary: w)
  case 0
  then show ?case using wedged_step [of w E] by (auto simp: ends_def records.le_refl split: prod.splits sum.splits)
next
  case (Suc n)
  have s: "same_records w (fst (runSupervisorOnce E w))"
    using wedged_step [OF Suc.prems, of E] by (auto simp: ends_def split: prod.splits sum.splits)
  show ?case using Suc.IH [OF wedged_same [OF s Suc.prems]] records.le_trans [OF s] by simp
qed

text \<open>The run whose cancellation comes next keeps its place while it is changed.\<close>

definition cancels_next :: "run_store \<Rightarrow> run_record \<Rightarrow> bool" where
  "cancels_next s r \<longleftrightarrow> validate s \<and> List.find cancelling s = Some r"

definition same_binding :: "run_record \<Rightarrow> run_record \<Rightarrow> bool" where
  "same_binding r r' \<longleftrightarrow> run_id r' = run_id r \<and> supervisor_task_id r' = supervisor_task_id r \<and>
     token_reservation r' = token_reservation r \<and> cancellation_requested r'"

lemma cancels_nextD: "cancels_next s r \<Longrightarrow> find_run (run_id r) s = Inr r \<and> cancelling r"
  by (auto simp: cancels_next_def intro!: find_run_mem dest: find_SomeD)

lemma cancels_next_replaced:
  assumes "cancels_next s r" and "run_id r' = run_id r" and "cancelling r'" and "replace_run E r' s = Inr (s', x)"
  shows "x = r' \<and> cancels_next s' r'"
proof -
  have "find_run (run_id r') s = Inr r" using cancels_nextD [OF assms(1)] assms(2) by simp
  from replace_run_stored [OF this assms(4)] show ?thesis
    using find_replaced_run [of cancelling s r r'] assms(1-3) by (auto simp: cancels_next_def validate_ids)
qed

lemma finalize_cancelling:
  assumes "cancels_next s r" and "finalizeRun E (run_id r) False reason now s = (s', Inr x)"
  shows "cancels_next s' x \<and> run_status x = RFailed \<and> same_binding r x \<and> reservation_status x = reservation_status r"
proof -
  note r = cancels_nextD [OF assms(1)]
  have moved: "cancels_next s1 r1 \<and> r1 = r\<lparr>run_status := RRunning, run_updated_at := now\<rparr>"
    if "transitionRun E (run_id r) RRunning now s = Inr (s1, r1)" for s1 r1
  proof -
    have "replace_run E (r\<lparr>run_status := RRunning, run_updated_at := now\<rparr>) s = Inr (s1, r1)"
      using that r by (simp add: transitionRun_def on_run_cases transition_step_def split: if_splits)
    from cancels_next_replaced [OF assms(1) _ _ this] r show ?thesis by (simp add: cancelling_def run_id_def)
  qed
  have ended: "cancels_next s2 x2 \<and> x2 = r1\<lparr>run_status := RFailed, terminal_reason := reason, run_updated_at := now\<rparr>"
    if "cancels_next s1 r1" "replace_run E (r1\<lparr>run_status := RFailed, terminal_reason := reason, run_updated_at := now\<rparr>) s1 = Inr (s2, x2)"
    for s1 r1 s2 x2
    using cancels_next_replaced [OF that(1) _ _ that(2)] cancels_nextD [OF that(1)]
    by (auto simp: cancelling_def run_id_def)
  show ?thesis
  proof (cases rule: finalize_outcome [OF assms(2) conjunct1 [OF r]])
    case 1
    then show ?thesis using assms(1) r by (simp add: same_binding_def cancelling_def)
  next
    case 2
    from ended [OF assms(1) 2(2) [simplified]] r show ?thesis by (auto simp: same_binding_def cancelling_def run_id_def)
  next
    case (3 s1 r1)
    from moved [OF 3(1)] ended [OF _ 3(2) [simplified]] r show ?thesis
      by (auto simp: same_binding_def cancelling_def run_id_def)
  qed
qed

lemma release_cancelling:
  assumes "cancels_next (rw_runs w) r"
  shows "ends (release_active_reservation E r res)
    (\<lambda>x w'. cancels_next (rw_runs w') x \<and> same_binding r x \<and> reservation_status x \<noteq> ActiveReservation \<and>
       rw_queue w' = rw_queue w) (\<lambda>_ _. True) w"
proof (cases "reservation_status r = ActiveReservation")
  case True
  note r = cancels_nextD [OF assms]
  have marked: "cancels_next s' x \<and> same_binding r x \<and> reservation_status x = ReleasedReservation"
    if "markRunReservationTerminal R (run_id r) False t (rw_runs w) = Inr (s', x)" for R t s' x
  proof -
    have "replace_run R (r\<lparr>reservation_status := ReleasedReservation, run_updated_at := t\<rparr>) (rw_runs w) = Inr (s', x)"
      using that r True by (simp add: markRunReservationTerminal_def on_run_cases Let_def split: if_splits)
    from cancels_next_replaced [OF assms _ _ this] r show ?thesis
      by (auto simp: cancelling_def run_id_def same_binding_def)
  qed
  then show ?thesis
    using True unfolding release_active_reservation_def release_and_mark_def io_ends
    by (auto intro!: ends_keeping [OF records_release] simp: io_ends same_records_def dest!: marked
        split: sum.splits option.splits)
next
  case False
  then show ?thesis using assms cancels_nextD [OF assms]
    by (simp add: release_active_reservation_def io_ends same_binding_def cancelling_def)
qed

lemma finalize_wedges:
  assumes "cancels_next (rw_runs w) r" and "reservation_status r \<noteq> ActiveReservation" and "token_reservation r \<noteq> None"
    and "supervisor_task_id r = Some tid" and "find_task tid (rw_queue w) = Some t" and "finished_task (status t)"
  shows "ends (finalize_and_acknowledge E (io_finalize E (run_id r) False reason) res)
    (\<lambda>x w'. wedged w' \<and> find_run (run_id r) (rw_runs w') = Inr x \<and> run_status x = RFailed) (\<lambda>_ _. True) w"
proof -
  have "wedged w' \<and> find_run (run_id r) (rw_runs w') = Inr x \<and> run_status x = RFailed"
    if "finalizeRun R (run_id r) False reason now (rw_runs w) = (s, Inr x)" and "rw_runs w' = s" and "rw_queue w' = rw_queue w"
    for R now s x w'
    using finalize_cancelling [OF assms(1) that(1)] cancels_nextD [of s x] that(2,3) assms(2-6)
    by (auto simp: wedged_def over_def cancels_next_def same_binding_def)
  then show ?thesis
    unfolding finalize_and_acknowledge_def io_ends
    by (auto simp: io_ends same_records_def split: prod.splits sum.splits option.splits
        intro!: ends_keeping [OF records_acknowledge])
qed

lemma refused_wedges:
  assumes "cancels_next (rw_runs w) r" and "token_reservation r = Some res" and "supervisor_task_id r = Some tid"
  shows "ends (finish_refused E tid r res reason)
    (\<lambda>x w'. wedged w' \<and> find_run (run_id r) (rw_runs w') = Inr x \<and> run_status x = RFailed) (\<lambda>_ _. True) w"
proof -
  let ?Q = "\<lambda>x w'. wedged w' \<and> find_run (run_id r) (rw_runs w') = Inr x \<and> run_status x = RFailed"
  have rest: "ends (finalize_and_acknowledge E (io_finalize E (run_id r1) False (Some reason)) res) ?Q (\<lambda>_ _. True) w2"
    if "cancels_next (rw_runs w2) r1" "same_binding r r1" "reservation_status r1 \<noteq> ActiveReservation"
      "find_task tid (rw_queue w2) = Some t" "finished_task (status t)" for r1 w2 t
    using finalize_wedges [OF that(1,3) _ _ that(4,5), of E "Some reason" res] assms(2,3) that(2)
    by (simp add: same_binding_def)
  have "ends (io_when (case t of None \<Rightarrow> True | Some t \<Rightarrow> \<not> finished_task (status t)) (io_cancel_task E tid reason))
      (\<lambda>_. ends (finalize_and_acknowledge E (io_finalize E (run_id r1) False (Some reason)) res) ?Q (\<lambda>_ _. True)) (\<lambda>_ _. True) w1"
    if "cancels_next (rw_runs w1) r1" "same_binding r r1" "reservation_status r1 \<noteq> ActiveReservation"
      "t = find_task tid (rw_queue w1)" for r1 w1 t
    using that unfolding io_cancel_task_def
    by (auto simp: io_ends finished_task_def split: option.splits prod.splits sum.splits
        dest!: cancel_outcome intro!: rest)
  then show ?thesis
    unfolding finish_refused_def io_ends
    by (intro ends_mono [OF release_cancelling [OF assms(1)]]) auto
qed

lemma overspent_wedges:
  assumes "cancels_next (rw_runs w) r" and "token_reservation r = Some res" and "supervisor_task_id r = Some tid"
    and "find_task tid (rw_queue w) = Some t" and "finished_task (status t)"
  shows "ends (finish_overspent E tid r res True failed queued)
    (\<lambda>x w'. wedged w' \<and> find_run (run_id r) (rw_runs w') = Inr x \<and> run_status x = RFailed) (\<lambda>_ _. True) w"
proof -
  have rest: "ends (finalize_and_acknowledge E (io_finalize E (run_id r1) False reason) res)
      (\<lambda>x w'. wedged w' \<and> find_run (run_id r) (rw_runs w') = Inr x \<and> run_status x = RFailed) (\<lambda>_ _. True) w2"
    if "cancels_next (rw_runs w2) r1" "same_binding r r1" "reservation_status r1 \<noteq> ActiveReservation"
      "rw_queue w2 = rw_queue w" for r1 w2 reason
    using finalize_wedges [OF that(1,3), of tid t E reason res] assms that(2,4)
    by (simp add: same_binding_def)
  show ?thesis
    unfolding finish_overspent_def io_ends
    by simp (rule ends_mono [OF release_cancelling [OF assms(1)]], auto intro: rest)
qed

lemma worked_wedges:
  assumes "cancels_next (rw_runs w) r" and "token_reservation r = Some res" and "supervisor_task_id r = Some tid"
  shows "ends (finish_worked E tid r res out)
    (\<lambda>y w'. \<forall>x. y = Some x \<longrightarrow> run_status x = RCancelled \<or>
       wedged w' \<and> find_run (run_id r) (rw_runs w') = Inr x \<and> run_status x = RFailed) (\<lambda>_ _. True) w"
proof -
  let ?P = "\<lambda>x w'. run_status x = RCancelled \<or>
       wedged w' \<and> find_run (run_id r) (rw_runs w') = Inr x \<and> run_status x = RFailed"
  note r = cancels_nextD [OF assms(1)]
  have stored: "find_run (run_id r) (rw_runs w) = Inr r" "cancellation_requested r" using r by (auto simp: cancelling_def)
  have over: "ends (finish_overspent E tid r res True failed queued) ?P (\<lambda>_ _. True) w1"
    if "rw_runs w1 = rw_runs w" "find_task tid (rw_queue w1) = Some t" "finished_task (status t)" for w1 t failed queued
    by (rule ends_mono [OF overspent_wedges [of w1 r res tid t]]) (use assms that in auto)
  have gone: "ends (finalize_and_acknowledge E (io_runs_at E (\<lambda>R. transitionRun R i RCancelled)) res)
      ?P (\<lambda>_ _. True) w1" for i w1
    unfolding finalize_and_acknowledge_def io_ends
    by (auto simp: io_ends intro!: ends_any split: sum.splits prod.splits option.splits dest!: transition_run_outcome)
  have settled: "ends (settle_run E r res inp outp) (\<lambda>r1. ends (append_output E r1 out) (\<lambda>_.
      ends (finalize_and_acknowledge E (io_runs_at E (\<lambda>R. transitionRun R (run_id r1) RCancelled)) res)
        ?P (\<lambda>_ _. True)) (\<lambda>_ _. True)) (\<lambda>_ _. True) w1" for inp outp w1
    by (intro ends_any gone TrueI)
  show ?thesis
    unfolding finish_worked_def Let_def io_ends report_outcome_def io_cancel_task_def
    by (auto simp: io_ends stored finished_task_def intro!: over settled split: prod.splits sum.splits
        dest!: cancel_outcome)
qed

text \<open>How a run gets there: its cancellation was requested while it was dispatched, and the dispatch was refused or spent
  more than was reserved. When no other cancellation is due, every later step throws and changes no run, no task and no
  approval.\<close>

theorem refused_cancellation_wedges:
  assumes "validate (rw_runs w)" and "List.find cancelling (rw_runs w) = Some r"
    and "token_reservation r = Some res" and "supervisor_task_id r = Some tid"
    and "finishProviderResult E tid r result w = (w', Inr (Some (x, result')))" and "run_status x \<noteq> RCancelled"
  shows "run_status x = RFailed \<and> find_run (run_id r) (rw_runs w') = Inr x \<and>
    (\<forall>n. same_records w' (fold (orchestrator_exec E) (replicate n OStep) w') \<and>
      (\<exists>e. snd (runSupervisorOnce E (fold (orchestrator_exec E) (replicate n OStep) w')) = Inl e))"
proof -
  have c: "cancels_next (rw_runs w) r" using assms(1,2) by (simp add: cancels_next_def)
  let ?Q = "\<lambda>y w'. \<forall>x result'. y = Some (x, result') \<longrightarrow> run_status x = RCancelled \<or>
       wedged w' \<and> find_run (run_id r) (rw_runs w') = Inr x \<and> run_status x = RFailed"
  have "ends (finishProviderResult E tid r result) ?Q (\<lambda>_ _. True) w"
  proof (cases result)
    case (RunRefused reason)
    then show ?thesis
      unfolding finishProviderResult_def io_ends assms(3)
      by (auto simp: io_ends intro!: ends_mono [OF refused_wedges [OF c assms(3,4)]])
  next
    case (RunWorked out)
    then show ?thesis
      unfolding finishProviderResult_def io_ends assms(3)
      by (auto simp: io_ends intro!: ends_mono [OF worked_wedges [OF c assms(3,4)]] split: option.splits)
  qed
  from ends_Inr [OF this assms(5)] assms(6) have "wedged w'" "find_run (run_id r) (rw_runs w') = Inr x" "run_status x = RFailed"
    by auto
  then show ?thesis using wedged_steps [of w' E] by blast
qed

text \<open>A step that meets a due cancellation starts no task.\<close>

definition idle_le :: "run_world \<Rightarrow> run_world \<Rightarrow> bool" where
  "idle_le w w' \<longleftrightarrow> (\<forall>t' \<in> set (rw_queue w'). status t' = Running \<longrightarrow>
     (\<exists>t \<in> set (rw_queue w). task_id t = task_id t' \<and> status t = Running))"

interpretation idle: world_order idle_le
  by unfold_locales (auto simp: idle_le_def, metis)

lemma idle_elsewhere:
  "preserving idle_le (io_now E)" "preserving idle_le (io_runs_at E f)" "preserving idle_le (io_gateway g)"
  by (auto simp: preserving_def idle_le_def io_now_def io_runs_at_def io_runs_def io_gateway_def io_bind_def
      split: sum.splits prod.splits)

lemma idle_cancel_task: "preserving idle_le (io_queue (cancel Q tid m t))"
proof (rule preservingI)
  fix w :: run_world
  have "idle_le w (w\<lparr>rw_queue := q\<rparr>)" if "cancel Q tid m t (rw_queue w) = (q, r)" for q r
    using that
    by (auto simp: idle_le_def cancel_def transition_def guarded_def replace_def publish_def written_queue_def
        split: sum.splits if_splits prod.splits) blast
  then show "idle_le w (fst (io_queue (cancel Q tid m t) w))" by (auto simp: io_queue_def split: prod.splits)
qed

lemma idle_calls: "preserving idle_le (io_release E r)" "preserving idle_le (io_acknowledge E i)"
  "preserving idle_le (io_cancel_task E tid m)" "preserving idle_le (release_and_mark E run s)"
  unfolding io_release_def io_acknowledge_def io_cancel_task_def release_and_mark_def
  by (intro idle.keeps_control idle_elsewhere idle_cancel_task)+

lemma idle_cancelRun: "preserving idle_le (cancelRun E i)"
proof -
  have orphan: "preserving idle_le (release_orphan E run)" for run
    unfolding release_orphan_def
    by (rule idle.keeps_looking [where f = "\<lambda>g w. (if token_reservation run \<noteq> None then io_return (Inr ()) else
          case findActiveReservation (handoffIdFor run) g of None \<Rightarrow> io_return (Inr ())
          | Some orphan \<Rightarrow> io_attempt (io_release E orphan)) w" and g = rw_gateway])
      (intro idle.keeps_control idle_calls preserving_cases)
  show ?thesis
    unfolding cancelRun_def cancel_bound_task_def release_bound_reservation_def
    by (auto split: prod.splits option.splits intro!: idle.keeps_control idle_elsewhere idle_calls orphan preserving_cases)
qed

text \<open>What a step does when a cancellation is due.\<close>

definition cancel_due :: "orchestrator_env \<Rightarrow> (run_record \<times> run_result) option run_io" where
  "cancel_due E = io_bind (acknowledge_finished E) (\<lambda>_. io_bind io_read_runs (\<lambda>s.
     case List.find cancelling s of None \<Rightarrow> io_return None
     | Some r \<Rightarrow> io_bind (cancelRun E (run_id r)) (\<lambda>_. io_return None)))"

lemma step_cancels:
  assumes "r \<in> set (rw_runs w)" and "cancelling r"
  shows "runSupervisorOnce E w = cancel_due E w"
proof -
  have c: "(\<lambda>r. cancellation_requested r \<and> run_status r \<noteq> RCancelled) = cancelling" by (auto simp: cancelling_def)
  obtain w1 res where a: "acknowledge_finished E w = (w1, res)" by fastforce
  then have "rw_runs w1 = rw_runs w"
    using preservingD [OF records_acknowledge_finished [of E], of w] by (simp add: same_records_def)
  moreover have "List.find cancelling (rw_runs w) \<noteq> None" using assms by (auto simp: find_None_iff)
  ultimately show ?thesis
    unfolding runSupervisorOnce_def cancel_due_def c
    by (cases res) (auto simp: io_bind_def a io_read_runs_def readRunStore_def split: option.splits)
qed

lemma now_dispatcher: "io_now (E\<lparr>oe_dispatch := d\<rparr>) = io_now E"
  by (simp add: fun_eq_iff io_now_def)

lemma cancel_due_dispatcher: "cancel_due (E\<lparr>oe_dispatch := d\<rparr>) = cancel_due E"
  by (simp add: cancel_due_def acknowledge_finished_def io_acknowledge_def cancelRun_def release_orphan_def cancel_bound_task_def
      release_bound_reservation_def release_and_mark_def io_release_def io_cancel_task_def io_runs_at_def now_dispatcher
      cong del: option.case_cong_weak if_weak_cong)

lemma cancel_due_idle: "preserving idle_le (cancel_due E)"
  unfolding cancel_due_def acknowledge_finished_def
  by (intro idle.keeps_control idle_calls idle_cancelRun preserving_cases)

lemma cancel_due_none: "ends (cancel_due E) (\<lambda>x _. x = None) (\<lambda>_ _. True) w"
  unfolding cancel_due_def io_ends by (intro ends_any) (auto simp: io_ends intro!: ends_any split: option.split sum.split)

text \<open>C9: Once the store has a run whose cancellation was requested and that ended as failed or completed instead, for
  whatever reason and whatever other runs there are, the supervisor is stuck for good. Whatever is asked of the
  orchestrator afterwards, the run stays as it is, and no step dispatches anything: a step gives the same with any other
  dispatcher, returns no run and starts no task.\<close>

theorem cancelled_run_wedges_supervisor:
  assumes "env_ok False E" and "r \<in> set (rw_runs w)" and "cancellation_requested r"
    and "run_status r \<in> {RCompleted, RFailed}" and "w' = fold (orchestrator_exec E) ops w"
  shows "(\<exists>r' \<in> set (rw_runs w'). run_id r' = run_id r \<and> cancellation_requested r' \<and> run_status r' = run_status r) \<and>
    (\<forall>d. runSupervisorOnce (E\<lparr>oe_dispatch := d\<rparr>) w' = runSupervisorOnce E w') \<and>
    (\<forall>x. snd (runSupervisorOnce E w') \<noteq> Inr (Some x)) \<and>
    (\<forall>t' \<in> set (rw_queue (fst (runSupervisorOnce E w'))). status t' = Running \<longrightarrow>
       (\<exists>t \<in> set (rw_queue w'). task_id t = task_id t' \<and> status t = Running))"
proof -
  have "store_frame (rw_runs w) (rw_runs w')"
    using exec_steps_le [OF assms(1), of w ops] by (simp add: assms(5) world_le_def keeps_def)
  then obtain r' where r': "r' \<in> set (rw_runs w')" "record_frame r r'" using assms(2) by (auto simp: store_frame_def)
  have final: "st = run_status r" if "run_next\<^sup>*\<^sup>* (run_status r) st" for st
    using that assms(4) by (induction rule: rtranclp_induct) (auto simp: run_next_def)
  have same: "run_id r' = run_id r" "cancellation_requested r'" "run_status r' = run_status r"
    using r'(2) assms(3) final by (auto simp: record_frame_def)
  then have c: "cancelling r'" using assms(4) by (auto simp: cancelling_def)
  note step = step_cancels [OF r'(1) c]
  have "snd (cancel_due E w') \<noteq> Inr (Some x)" for x
    using cancel_due_none [of E w'] by (auto simp: ends_def split: prod.splits sum.splits)
  moreover have "idle_le w' (fst (cancel_due E w'))" using cancel_due_idle by (rule preservingD)
  ultimately show ?thesis
    unfolding step cancel_due_dispatcher idle_le_def using r'(1) same by blast
qed

section \<open>A concrete orchestrator\<close>

definition orch_packet :: agent_packet where
  "orch_packet = \<lparr>packet_agent = ''worker'', packet_task = [], packet_routing_mode = None, packet_objective = [],
     packet_rules = [], packet_nodes = [''n''], packet_required_agents = [], packet_must_read = [],
     packet_must_not_assume = [], packet_required_checks = [''c''], packet_stop_conditions = [],
     no_governance_matched = False\<rparr>"

definition orch_env :: "(json \<Rightarrow> run_result run_io) \<Rightarrow> orchestrator_env" where
  "orch_env dispatch =
     \<lparr>oe_runs = \<lparr>resolveEnabledProject = \<lambda>_. Inr ''/work'', fits_store = \<lambda>_. True, run_sha256 = \<lambda>_. []\<rparr>,
      oe_isProjectConfigurationError = \<lambda>_. False, oe_fits_approvals = \<lambda>_. True,
      oe_limits = DEFAULT_TOKEN_GATEWAY_LIMITS, oe_fits_gateway = \<lambda>_. True,
      oe_queue = SupervisorProps.demo_env,
      oe_maxAttempts = None, oe_clock = \<lambda>n. Iso (int (min n 1000)), oe_stamp_text = \<lambda>_. ''t'', oe_uuid = \<lambda>n. nat_text n,
      oe_reservation_id = unused_id, oe_isRouteAvailable = Some (\<lambda>_ _ _ _. True), oe_snapshots = Inr [],
      oe_packetBuilder = Some (\<lambda>_. Inr orch_packet), oe_mesh = Inl NonError, oe_collate = \<lambda>_ _. 0,
      oe_digest = \<lambda>_. ''d'', oe_redact = \<lambda>v n. Inr (take n v), oe_afterPhase = \<lambda>_. None, oe_dispatch = dispatch\<rparr>"

definition orch_input :: run_draft_input where
  "orch_input = \<lparr>in_project_id = ''p1'', in_prompt = [0x66, 0x69, 0x78], in_provider = Codex_cli, in_model = None,
     in_estimated_tokens = Finite 8195, in_requested_artifacts = [TextArtifact], in_prompt_review_acknowledged = False,
     in_profile = Dev, in_reasoning_effort = None, in_promotion_packet_id = None\<rparr>"

definition orch_start :: run_world where
  "orch_start = \<lparr>rw_runs = [], rw_approvals = [], rw_gateway = \<lparr>gw_state = empty_gateway_state, gw_writes = [], gw_telemetry = []\<rparr>, rw_queue = [], rw_clock = 0, rw_drawn = 0\<rparr>"

definition orch_refusing :: orchestrator_env where
  "orch_refusing = orch_env (\<lambda>_ w. (w, Inr (RunRefused ''no'')))"

text \<open>A run whose cancellation was requested while its task is running.\<close>

definition orch_cancelling :: run_record where
  "orch_cancelling = (new_record RunStoreProps.demo_draft None None (Iso 1))
     \<lparr>run_status := RRunning, approved_revision := Some 1, approved_by := Some ''ops'', approved_at := Some (Iso 2),
      supervisor_task_id := Some ''a'', token_reservation := Some RunStoreProps.demo_reservation,
      reservation_status := ReleasedReservation, cancellation_requested := True, run_updated_at := Iso 2\<rparr>"

definition orch_cancelling_world :: run_world where
  "orch_cancelling_world = orch_start\<lparr>rw_runs := [orch_cancelling], rw_queue := SupervisorProps.demo_running\<rparr>"

definition orch_failed :: run_record where
  "orch_failed = orch_cancelling\<lparr>run_status := RFailed, terminal_reason := Some ''no'', run_updated_at := Iso 1\<rparr>"

lemmas orch_defs = orch_cancelling_def orch_failed_def orch_env_def orch_refusing_def orch_start_def RunStoreProps.demo_defs

lemma orch_env_ok: "env_ok b orch_refusing"
  by (simp add: env_ok_def orch_refusing_def orch_env_def unused_id_fresh valid_time_def MAX_TIME_def preserving_def
      moves.le_refl min.coboundedI2)

lemma orch_within_budget: "dispatcher_within_budget orch_refusing"
  by (simp add: dispatcher_within_budget_def preserving_def orch_refusing_def orch_env_def)

lemma orch_start_safe: "world_safe orch_refusing orch_start"
  using empty_queue_inv empty_budget_kept [OF default_limits_ok]
  by (simp add: world_safe_def orch_start_def orch_refusing_def orch_env_def validate_approvals_def)

lemma orch_finalize:
  "finalizeRun (oe_runs orch_refusing) ''run'' False (Some ''no'') (Iso 1) [orch_cancelling] = ([orch_failed], Inr orch_failed)"
  by (simp add: finalizeRun_def orch_defs RunStoreProps.demo_checks RunStoreProps.demo_store)

lemma orch_cancel:
  "\<exists>q t. cancel SupervisorProps.demo_env ''a'' ''no'' (Iso 0) SupervisorProps.demo_running = (q, Inr t)"
  using cancel_stored [OF demo_stored(2) demo_env_facts(1) demo_task_facts(1), of "Iso 0" "''no''"] demo_task_facts(2)
  by (auto simp: valid_stamp_def valid_time_def MAX_TIME_def)

lemma orch_facts:
  "token_reservation orch_cancelling = Some RunStoreProps.demo_reservation" "reservation_status orch_cancelling = ReleasedReservation"
  "run_id orch_cancelling = ''run''" "supervisor_task_id orch_cancelling = Some ''a''" "cancelling orch_cancelling"
  "rw_runs orch_cancelling_world = [orch_cancelling]" "rw_queue orch_cancelling_world = SupervisorProps.demo_running"
  "rw_clock orch_cancelling_world = 0" "terminal (gw_state (rw_gateway orch_cancelling_world)) = []"
  "oe_queue orch_refusing = SupervisorProps.demo_env" "oe_afterPhase orch_refusing p = None"
  "oe_clock orch_refusing 0 = Iso 0" "oe_clock orch_refusing (Suc 0) = Iso 1"
  by (simp_all add: orch_cancelling_def orch_cancelling_world_def orch_refusing_def orch_env_def orch_start_def
      RunStoreProps.demo_defs new_record_def run_id_def draft_of_def cancelling_def empty_gateway_state_def)

lemma orch_refused:
  "\<exists>w'. finishProviderResult orch_refusing ''a'' orch_cancelling (RunRefused ''no'') orch_cancelling_world =
     (w', Inr (Some (orch_failed, RunRefused ''no'')))"
proof -
  obtain q t where cancel: "cancel SupervisorProps.demo_env ''a'' ''no'' (Iso 0) SupervisorProps.demo_running = (q, Inr t)"
    using orch_cancel by blast
  have "ends (finishProviderResult orch_refusing ''a'' orch_cancelling (RunRefused ''no''))
      (\<lambda>x _. x = Some (orch_failed, RunRefused ''no'')) (\<lambda>_ _. False) orch_cancelling_world"
    unfolding finishProviderResult_def finish_refused_def release_active_reservation_def finalize_and_acknowledge_def
      io_cancel_task_def io_acknowledge_def
    by (simp add: io_ends orch_facts demo_task_facts cancel orch_finalize finished_task_def acknowledgeTerminal_def Let_def)
  then show ?thesis by (auto simp: ends_def split: prod.splits sum.splits)
qed

theorem orchestrated_system_is_safe_witness:
  "validate (rw_runs (fold (orchestrator_exec orch_refusing) [OPrepare orch_input, OApprove ''0'' 1 ''ops'', OStep, OCancel ''0'',
     OReserveGroup \<lparr>spec_groupId = ''g'', spec_slots = [demo_slot ''a'' 10]\<rparr>, OReleaseSlots ''g'' [''a''],
     OEnsureGroupRun ''g'' ''a'' orch_input ''ops'' True] orch_start))"
  using orchestrated_system_is_safe [OF orch_env_ok orch_within_budget orch_start_safe refl] by blast

text \<open>A dispatch that is refused after its run's cancellation was requested leads there.\<close>

theorem cancelled_run_wedges_supervisor_witness:
  "\<exists>w'. finishProviderResult orch_refusing ''a'' orch_cancelling (RunRefused ''no'') orch_cancelling_world =
       (w', Inr (Some (orch_failed, RunRefused ''no''))) \<and>
     (\<forall>d. runSupervisorOnce (orch_refusing\<lparr>oe_dispatch := d\<rparr>) (fold (orchestrator_exec orch_refusing) [OPrepare orch_input, OStep, OStep] w') =
        runSupervisorOnce orch_refusing (fold (orchestrator_exec orch_refusing) [OPrepare orch_input, OStep, OStep] w'))"
proof -
  obtain w' where out: "finishProviderResult orch_refusing ''a'' orch_cancelling (RunRefused ''no'') orch_cancelling_world =
     (w', Inr (Some (orch_failed, RunRefused ''no'')))" using orch_refused by blast
  have v: "validate (rw_runs orch_cancelling_world)"
    by (simp add: orch_cancelling_world_def orch_defs RunStoreProps.demo_checks RunStoreProps.demo_store)
  have c: "List.find cancelling (rw_runs orch_cancelling_world) = Some orch_cancelling" by (simp add: orch_facts)
  have f: "run_status orch_failed = RFailed" "cancellation_requested orch_failed"
    by (simp_all add: orch_failed_def orch_cancelling_def)
  have "find_run (run_id orch_cancelling) (rw_runs w') = Inr orch_failed"
    using refused_cancellation_wedges [OF v c orch_facts(1,4) out] f(1) by simp
  then have "orch_failed \<in> set (rw_runs w')" by (auto dest: find_run_Inr)
  from cancelled_run_wedges_supervisor [OF orch_env_ok this f(2) _ refl] f(1) out show ?thesis by blast
qed

end
