(* ===== verification/OrchestratorFlows.thy ===== *)
theory OrchestratorFlows
  imports OrchestratorProps
begin

text \<open>
  How one run goes through the stores: a dispatch that throws, an approved run that is queued, and a finished one whose
  tokens are settled.
\<close>

section \<open>A dispatch that throws\<close>

lemma fail_without_delta:
  assumes "find_task tid q = Some t" and "status t = Running" and "attempt t < max_attempts t" and "valid_stamp now"
  shows "fail E tid reason now None q = (q, Inl (Error ''attempt_delta_missing''))"
  using assms by (simp add: fail_def retry_def require_def assertSupervisorTimestamp_def)

text \<open>C10: A dispatch that throws on an attempt before the last is not recorded as a failure of its task. The step throws
  \<open>attempt_delta_missing\<close> instead, unless the run store cannot be written, and the task keeps running and the run keeps
  its tokens reserved, although nothing works on it any more.\<close>

theorem dispatch_exception_strands_task:
  fixes res :: "js_error + 'a"
  assumes "find_task tid (rw_queue w) = Some t" and "status t = Running" and "attempt t < max_attempts t"
    and "env_ok b E" and "dispatch_threw E tid r e w = (w', res)"
  shows "rw_queue w' = rw_queue w \<and> rw_gateway w' = rw_gateway w \<and>
    (res = Inl (Error ''attempt_delta_missing'') \<or> rw_runs w' = rw_runs w \<and> (\<exists>e'. res = Inl e'))"
proof -
  have now: "valid_stamp (oe_clock E n)" for n
    using canonical_stamp_parse [OF env_okD(1) [OF assms(4), of n]] by (auto simp: valid_stamp_def)
  have "ends (dispatch_threw E tid r e :: 'a run_io) (\<lambda>_ _. False)
      (\<lambda>e' w'. rw_queue w' = rw_queue w \<and> rw_gateway w' = rw_gateway w \<and>
      (e' = Error ''attempt_delta_missing'' \<or> rw_runs w' = rw_runs w)) w"
    unfolding dispatch_threw_def Let_def io_ends
    using fail_without_delta [OF assms(1-3) now] assms(1,2)
    by (auto simp: io_ends split: sum.splits option.splits)
  with assms(5) show ?thesis by (cases res) (auto simp: ends_total)
qed

section \<open>Queueing an approved run\<close>

definition holds :: "run_record \<Rightarrow> string \<Rightarrow> run_world \<Rightarrow> run_record \<Rightarrow> bool" where
  "holds r i w x \<longleftrightarrow> find_run i (rw_runs w) = Inr x \<and> current x = current r"

lemma holds_update: "holds r i w x \<Longrightarrow> stored_update P i (rw_runs w) s y \<Longrightarrow> holds r i (w\<lparr>rw_runs := s\<rparr>) y \<and> P x y"
  by (auto simp: holds_def stored_update_def)

lemma holds_same: "rw_runs w' = rw_runs w \<Longrightarrow> holds r i w' x = holds r i w x"
  by (simp add: holds_def)

lemma holds_id: "holds r i w x \<Longrightarrow> run_id x = i"
  using find_run_Inr by (auto simp: holds_def)

lemma ends_release_and_mark:
  assumes "holds r i w x"
  shows "ends (release_and_mark E x res) (\<lambda>y w'. holds r i w' y) (\<lambda>_ _. True) w"
  unfolding release_and_mark_def io_ends
  by (rule ends_keeping [OF records_release])
    (use assms holds_id [OF assms] in \<open>auto simp: io_ends same_records_def stored_update_def holds_def
      dest!: mark_stored split: sum.splits\<close>)

lemma ends_close:
  assumes "fe = None \<Longrightarrow> holds r i w x"
  shows "ends (close_compensation E tid x fe) (\<lambda>y w'. holds r i w' y) (\<lambda>_ _. True) w"
  unfolding close_compensation_def
  using assms holds_id [of r i w x]
  by (auto simp: io_ends stored_update_def holds_def dest!: clear_bind_stored split: sum.splits option.splits)

lemma ends_compensation:
  assumes "holds r i w x"
  shows "ends (reconcileQueueCompensation E x) (\<lambda>y w'. holds r i w' y) (\<lambda>_ _. True) w"
proof -
  have same: "holds r i w1 x" if "rw_runs w1 = rw_runs w" for w1 using assms that by (simp add: holds_def)
  have close: "ends (io_attempt (release_and_mark E x res)) (\<lambda>released. ends (close_compensation E tid
        (case released of Inl _ \<Rightarrow> x | Inr y \<Rightarrow> y) (first_error fe released))
      (\<lambda>y w'. holds r i w' y) (\<lambda>_ _. True)) (\<lambda>_ _. True) w1"
    if "rw_runs w1 = rw_runs w" for res fe tid w1
    unfolding io_ends
    by (rule ends_mono [OF ends_release_and_mark [OF same [OF that]]])
      (auto intro!: ends_close simp: first_error_def split: option.splits)
  have plain: "ends (close_compensation E tid x (first_error fe (Inr x))) (\<lambda>y w'. holds r i w' y) (\<lambda>_ _. True) w1"
    if "rw_runs w1 = rw_runs w" for fe tid w1
    using same [OF that] by (intro ends_close)
  show ?thesis
    using assms close plain
    by (auto simp: reconcileQueueCompensation_def io_cancel_task_def io_ends split: bool.splits option.splits prod.splits sum.splits)
qed

lemma records_reserve: "preserving same_records (io_reserve E input)"
  unfolding io_reserve_def
  by (intro records.keeps_control io_keeps) (auto simp: preserving_def io_gateway_def same_records_def split: prod.splits sum.splits)

definition bound_as :: "run_record \<Rightarrow> string \<Rightarrow> string \<Rightarrow> run_world \<Rightarrow> bool" where
  "bound_as r i tid w \<longleftrightarrow> (\<exists>x. holds r i w x \<and> supervisor_task_id x = Some tid \<and> token_reservation x \<noteq> None)"

lemma ends_bind_run:
  assumes "holds r i w x"
  shows "ends (bind_run E a x) (bound_as r i)
    (\<lambda>_ _. True) w"
proof -
  have bound: "ends (io_runs_at E (\<lambda>R t. bindRunToSupervisor R (run_id x) tid res t))
      (\<lambda>_ w'. bound_as r i tid w') (\<lambda>_ _. True) w1"
    if "rw_runs w1 = rw_runs w" for tid res w1
    using assms that holds_id [OF assms]
    by (auto simp: io_ends bound_as_def holds_def stored_update_def dest!: bind_stored split: sum.splits)
  have fresh: "ends (io_bind (io_reserve E (run_token_request (current a) (Some (run_id x)) (handoffIdFor a))) (\<lambda>reservation.
          io_bind (io_uuid E) (\<lambda>u.
            io_bind (io_runs_at E (\<lambda>R t. bindRunToSupervisor R (run_id x) (''run-task-'' @ u) (stored_reservation reservation) t)) (\<lambda>_.
            io_bind (io_phase E Bound) (\<lambda>_. io_return (''run-task-'' @ u))))))
      (bound_as r i) (\<lambda>_ _. True) w"
    unfolding ends_bind
    by (rule ends_keeping [OF records_reserve])
      (auto simp: same_records_def ends_calls(2,3) ends_control split: option.splits intro!: ends_mono [OF bound])
  show ?thesis
    unfolding bind_run_def Let_def using fresh assms by (auto simp: io_ends bound_as_def split: option.splits)
qed

lemma enqueue_outcome: "enqueue E input now q = (q', Inr t) \<Longrightarrow> find_task (in_taskId input) q' = Some t"
  by (auto simp: enqueue_def Let_def require_def split: if_splits sum.splits prod.splits option.splits)

lemma ends_enqueue_run:
  "ends (enqueue_run E i tid h) (\<lambda>_ w'. rw_runs w' = rw_runs w \<and> find_task tid (rw_queue w') \<noteq> None) (\<lambda>_ _. True) w"
proof -
  have queued: "find_task tid q \<noteq> None" if "enqueue Q (run_enqueue_input E tid h s) now q0 = (q, Inr t)" for Q s now q0 q t
    using enqueue_outcome [OF that] by (simp add: run_enqueue_input_def)
  have thrown: "ends (io_bind (io_attempt (reconcileQueueCompensation E x)) (\<lambda>_. io_lift (Inl e))) Q (\<lambda>_ _. True) w1"
    for x e w1 and Q :: "unit \<Rightarrow> run_world \<Rightarrow> bool"
    unfolding ends_bind ends_control sum.case by (rule ends_any) simp_all
  show ?thesis
    unfolding enqueue_run_def io_enqueue_def
    using thrown queued by (auto simp: ends_bind ends_control ends_split ends_calls ends_runs_at ends_task
      split: prod.splits sum.splits)
qed

text \<open>After the decision the approval queue is left alone.\<close>

definition same_approvals :: "run_world \<Rightarrow> run_world \<Rightarrow> bool" where
  "same_approvals w w' \<longleftrightarrow> rw_approvals w' = rw_approvals w"

interpretation approvals: world_order same_approvals
  by unfold_locales (simp_all add: same_approvals_def)

lemma approvals_calls:
  "preserving same_approvals (io_now E)" "preserving same_approvals (io_uuid E)" "preserving same_approvals (io_runs f)"
  "preserving same_approvals (io_queue g)" "preserving same_approvals (io_gateway h)"
  by (auto simp: preserving_def same_approvals_def io_now_def io_uuid_def io_runs_def io_queue_def io_gateway_def
      split: prod.splits sum.splits)

lemma approvals_runs_at: "preserving same_approvals (io_runs_at E f)"
  unfolding io_runs_at_def by (intro approvals.keeps_control approvals_calls)

lemma approvals_reserve: "preserving same_approvals (io_reserve E input)"
  using records_reserve by (auto simp: preserving_def same_records_def same_approvals_def)

lemma approvals_release: "preserving same_approvals (io_release E r)"
  using records_release by (auto simp: preserving_def same_records_def same_approvals_def)

lemmas approvals_keep = approvals.keeps_control approvals_calls approvals_runs_at approvals_reserve approvals_release preserving_cases

lemma approvals_compensation: "preserving same_approvals (reconcileQueueCompensation E x)"
  unfolding reconcileQueueCompensation_def close_compensation_def release_and_mark_def io_cancel_task_def
  by (auto split: prod.splits bool.splits option.splits intro!: approvals_keep)

lemma approvals_bind_run: "preserving same_approvals (bind_run E a x)"
  unfolding bind_run_def Let_def by (auto split: prod.splits option.splits intro!: approvals_keep)

lemma approvals_enqueue: "preserving same_approvals (enqueue_run E i tid h)"
  unfolding enqueue_run_def io_enqueue_def by (intro approvals_keep approvals_compensation)

definition approved_for :: "string \<Rightarrow> int \<Rightarrow> run_world \<Rightarrow> bool" where
  "approved_for i revision w \<longleftrightarrow> (\<exists>a \<in> set (rw_approvals w). approval_for i revision a \<and> approval_status a = Approved)"

lemma replace_first_mem: "List.find P xs = Some x \<Longrightarrow> y \<in> set (replace_first P y xs)"
  by (induction xs) (auto split: if_splits)

lemma ends_decide:
  "ends (decide_run_approval E r i revision) (\<lambda>_ w'. rw_runs w' = rw_runs w \<and> approved_for i revision w') (\<lambda>_ _. True) w"
proof -
  have decided: "approved_for i revision (w1\<lparr>rw_approvals := replace_first (approval_for i revision) d (rw_approvals w)\<rparr>)"
    if "List.find (approval_for i revision) (rw_approvals w) = Some a" "decideApproval a False t None = Inr d" for a d t w1
  proof -
    have "approval_for i revision d" "approval_status d = Approved"
      using that by (auto simp: decideApproval_def approval_for_def split: if_splits dest!: find_SomeD)
    then show ?thesis using replace_first_mem [OF that(1)] by (auto simp: approved_for_def)
  qed
  have found: "approved_for i revision w"
    if "List.find (approval_for i revision) (rw_approvals w) = Some a" "approval_status a = Approved" for a
    using that by (auto simp: approved_for_def dest: find_SomeD)
  show ?thesis
    unfolding decide_run_approval_def io_ends
    using decided found
    by (auto simp: io_ends readApprovalQueue_def writeApprovalQueue_def split: option.splits sum.splits)
qed

lemma approvals_durable: "preserving same_approvals (durable_run E i)"
  unfolding durable_run_def by (intro approvals_keep approvals_compensation)

lemma ends_approved:
  assumes "ends m Q (\<lambda>_ _. True) w" and "preserving same_approvals m" and "approved_for i revision w"
  shows "ends m (\<lambda>x w'. Q x w' \<and> approved_for i revision w') (\<lambda>_ _. True) w"
proof -
  have "rw_approvals (fst (m w)) = rw_approvals w" using preservingD [OF assms(2)] by (simp add: same_approvals_def)
  then show ?thesis using assms(1,3) by (auto simp: ends_def approved_for_def split: prod.splits sum.splits)
qed

definition queued_ok :: "run_record \<Rightarrow> string \<Rightarrow> int \<Rightarrow> run_record \<Rightarrow> run_world \<Rightarrow> bool" where
  "queued_ok r i revision x w \<longleftrightarrow> holds r i w x \<and> run_status x = RQueued \<and> token_reservation x \<noteq> None \<and>
     (\<exists>tid. supervisor_task_id x = Some tid \<and> find_task tid (rw_queue w) \<noteq> None) \<and> approved_for i revision w"

lemma ends_durable:
  assumes "holds r i w x"
  shows "ends (durable_run E i) (\<lambda>y w'. holds r i w' y) (\<lambda>_ _. True) w"
proof -
  have cleared: "ends (io_runs_at E (\<lambda>R. clearRunSupervisorBinding R i)) (\<lambda>y w'. holds r i w' y) (\<lambda>_ _. True) w1"
    if "holds r i w1 d" for d w1
    using that by (auto simp: io_ends holds_def stored_update_def dest!: clear_bind_stored split: sum.splits)
  have "find_run i (rw_runs w) = Inr x" using assms by (simp add: holds_def)
  then show ?thesis
    unfolding durable_run_def
    by (auto simp: ends_bind ends_calls ends_control(1) ends_split(1) assms
        intro!: ends_mono [OF ends_compensation [OF assms]] cleared [OF assms] cleared split: if_splits)
qed

lemma ends_queue_bound:
  assumes "bound_as r i tid w" and "approved_for i revision w"
  shows "ends (enqueue_run E i tid h) (\<lambda>_. ends (io_runs_at E (\<lambda>R. transitionRun R i RQueued))
      (\<lambda>x. ends (io_phase E Queued_phase) (\<lambda>_. queued_ok r i revision x) (\<lambda>_ _. True)) (\<lambda>_ _. True)) (\<lambda>_ _. True) w"
proof -
  have moved: "queued_ok r i revision x (w1\<lparr>rw_clock := n, rw_runs := s\<rparr>)"
    if "rw_runs w1 = rw_runs w" "find_task tid (rw_queue w1) \<noteq> None" "approved_for i revision w1"
      "transitionRun R i RQueued t (rw_runs w) = Inr (s, x)" for w1 n s x R t
    using assms(1) that transition_stored_run [OF that(4)]
    by (auto simp: queued_ok_def bound_as_def holds_def stored_update_def approved_for_def)
  show ?thesis
    by (rule ends_mono [OF ends_approved [OF ends_enqueue_run approvals_enqueue assms(2)]])
      (auto simp: io_ends moved split: sum.splits option.splits)
qed

lemma ends_queue_durable:
  assumes "holds r i w x" and "approved_for i revision w"
  shows "ends (queue_durable E i a h x) (queued_ok r i revision) (\<lambda>_ _. True) w"
  unfolding queue_durable_def ends_bind ends_control(1)
  by (rule ends_mono [OF ends_approved [OF ends_bind_run [OF assms(1)] approvals_bind_run assms(2)]])
    (auto intro: ends_queue_bound)

lemma records_route: "preserving same_records (routeAvailable E p m pf r st)"
  unfolding routeAvailable_def Let_def by (intro records.keeps_control io_keeps preserving_cases)

lemma ends_approve_and_queue:
  assumes "find_run i (rw_runs w) = Inr r" and "run_status r \<noteq> RQueued"
  shows "ends (approveAndQueueRun E i revision operator)
    (\<lambda>x w'. draft_revision (current r) = revision \<and> queued_ok r i revision x w') (\<lambda>_ _. True) w"
proof -
  have queued: "ends (durable_run E i) (\<lambda>d. ends (queue_durable E i a h d) (queued_ok r i revision) (\<lambda>_ _. True)) (\<lambda>_ _. True) w1"
    if "holds r i w1 x" "approved_for i revision w1" for a h w1 x
    by (rule ends_mono [OF ends_approved [OF ends_durable [OF that(1)] approvals_durable that(2)]])
      (auto intro: ends_queue_durable)
  have approved: "ends (decide_run_approval E r i revision) (\<lambda>_. ends (io_runs_at E (\<lambda>R. approveRunRevision R i revision operator))
      (\<lambda>a. ends (io_lift (handoffFor E a)) (\<lambda>h. ends (durable_run E i) (\<lambda>d. ends (queue_durable E i a h d) (queued_ok r i revision)
        (\<lambda>_ _. True)) (\<lambda>_ _. True)) (\<lambda>_ _. True)) (\<lambda>_ _. True)) (\<lambda>_ _. True) w1"
    if "rw_runs w1 = rw_runs w" for w1
  proof (rule ends_mono [OF ends_decide])
    fix u w2 assume "rw_runs w2 = rw_runs w1 \<and> approved_for i revision w2"
    then show "ends (io_runs_at E (\<lambda>R. approveRunRevision R i revision operator))
      (\<lambda>a. ends (io_lift (handoffFor E a)) (\<lambda>h. ends (durable_run E i) (\<lambda>d. ends (queue_durable E i a h d) (queued_ok r i revision)
        (\<lambda>_ _. True)) (\<lambda>_ _. True)) (\<lambda>_ _. True)) (\<lambda>_ _. True) w2"
      using assms(1) that
      by (auto simp: io_ends split: sum.splits intro!: queued dest!: approve_stored
          simp: stored_update_def holds_def approved_for_def)
  qed simp
  have routed: "ends (routeAvailable E p m pf re st) (\<lambda>ok. ends (io_assert ok msg) (\<lambda>_. ends (decide_run_approval E r i revision)
      (\<lambda>_. ends (io_runs_at E (\<lambda>R. approveRunRevision R i revision operator))
      (\<lambda>a. ends (io_lift (handoffFor E a)) (\<lambda>h. ends (durable_run E i) (\<lambda>d. ends (queue_durable E i a h d) (queued_ok r i revision)
        (\<lambda>_ _. True)) (\<lambda>_ _. True)) (\<lambda>_ _. True)) (\<lambda>_ _. True)) (\<lambda>_ _. True)) (\<lambda>_ _. True)) (\<lambda>_ _. True) w"
    for p m pf re st msg
    by (rule ends_keeping [OF records_route]) (auto simp: ends_cond(2) same_records_def intro: approved)
  show ?thesis
  proof (cases "draft_revision (current r) = revision")
    case True
    then show ?thesis
      unfolding approveAndQueueRun_def using assms by (simp add: ends_bind ends_calls ends_cond(2) ends_split(1) routed)
  qed (use assms in \<open>simp add: approveAndQueueRun_def ends_bind ends_calls ends_cond(2)\<close>)
qed

text \<open>C5: Approving and queueing a run, when it returns, has left the run queued on the draft that was asked for, with its
  tokens reserved, its task in the supervisor's queue and its approval granted; asking again returns the same run and
  changes nothing.\<close>

theorem queued_run_is_approved_and_bound:
  assumes "find_run i (rw_runs w) = Inr r" and "run_status r \<noteq> RQueued"
    and "approveAndQueueRun E i revision operator w = (w', Inr x)"
  shows "find_run i (rw_runs w') = Inr x \<and> run_status x = RQueued \<and> current x = current r \<and>
    draft_revision (current r) = revision \<and> token_reservation x \<noteq> None \<and>
    (\<exists>tid. supervisor_task_id x = Some tid \<and> find_task tid (rw_queue w') \<noteq> None) \<and>
    (\<exists>a \<in> set (rw_approvals w'). approval_for i revision a \<and> approval_status a = Approved) \<and>
    approveAndQueueRun E i revision operator' w' = (w', Inr x)"
proof -
  have q: "draft_revision (current r) = revision" "queued_ok r i revision x w'"
    using ends_Inr [OF ends_approve_and_queue [OF assms(1,2)] assms(3)] by auto
  then have "approveAndQueueRun E i revision operator' w' = (w', Inr x)"
    by (auto simp: queued_ok_def holds_def approveAndQueueRun_def io_bind_def io_record_def io_assert_def io_return_def)
  with q show ?thesis by (simp add: queued_ok_def holds_def approved_for_def)
qed

section \<open>Settling a finished run\<close>

lemma settle_Inr:
  assumes inv: "gateway_inv L (gw_state g)" and act: "map_of (reservations (gw_state g)) (reservationId r) = Some r"
    and out: "settle L fits now r usage g = (g', Inr st)"
  shows "usage_total usage \<le> totalTokens r" and "gw_state g' = settle_effect r usage now (gw_state g)"
    and "st = terminal_settlement (settled_entry usage now)"
proof -
  have caps: "safeCount (usage_inputTokens usage) \<le> inputCapTokens L" "safeCount (usage_outputTokens usage) \<le> outputCapTokens L"
    "usage_total usage \<le> totalTokens r"
    using out act by (auto simp: settle_def Let_def usage_total_def split: if_splits)
  note o = settle_outcome [OF inv act caps, of fits now]
  show "usage_total usage \<le> totalTokens r" by (rule caps(3))
  show "gw_state g' = settle_effect r usage now (gw_state g)" using o(1) out by simp
  show "st = terminal_settlement (settled_entry usage now)" using o(2) out by (auto split: if_splits)
qed

text \<open>The gateway's books after a reservation was settled with \<open>n\<close> tokens.\<close>

definition charged :: "token_reservation \<Rightarrow> int \<Rightarrow> gateway \<Rightarrow> gateway \<Rightarrow> bool" where
  "charged res n g g' \<longleftrightarrow> map_of (reservations (gw_state g')) (reservationId res) = None \<and>
     (\<forall>k. usedOf (used (gw_state g')) k = usedOf (used (gw_state g)) k - (if k \<in> set (routeUsageKeys res) then hold_of res - n else 0))"

lemma charged_settle:
  assumes "gateway_safe L g" and "map_of (reservations (gw_state g)) (reservationId r) = Some r" and "canonical_stamp now"
    and "settle L fits now r \<lparr>usage_inputTokens = Finite (real_of_int a), usage_outputTokens = Finite (real_of_int b), usage_released = c\<rparr> g = (g', Inr st)"
    and "0 \<le> a" and "0 \<le> b"
  shows "charged r (a + b) g g' \<and> settled_inputTokens st = a \<and> settled_outputTokens st = b"
proof -
  have inv: "gateway_inv L (gw_state g)" using assms(1) by (simp add: gateway_safe_def)
  note s = settle_Inr [OF inv assms(2,4)]
  have "map_of (reservations (gw_state g')) (reservationId r) = None"
    unfolding s(2) settle_effect_def retire_fields by (rule map_of_delete_self)
  then show ?thesis
    using settle_effect_inv(2) [OF inv assms(2,3) s(1)] s(3) safeCount_of_int [OF assms(5)] safeCount_of_int [OF assms(6)]
    by (simp add: charged_def s(2) settled_entry_def usage_total_def del: safeCount.simps)
qed

lemma charged_acknowledge: "charged r n g g1 \<Longrightarrow> charged r n g (fst (acknowledgeTerminal fits rid g1))"
  by (simp add: charged_def acknowledgeTerminal_def Let_def)

definition settled_world ::
  "run_record \<Rightarrow> run_reservation \<Rightarrow> int \<Rightarrow> int \<Rightarrow> gateway \<Rightarrow> queue \<Rightarrow> run_record \<Rightarrow> run_world \<Rightarrow> bool" where
  "settled_world r res a b g q x w \<longleftrightarrow> holds r (run_id r) w x \<and> token_settled x = Some (settlement_of a b) \<and>
     charged (gateway_reservation res) (a + b) g (rw_gateway w) \<and> rw_queue w = q"

lemma ends_settle_run:
  assumes "find_run (run_id r) (rw_runs w) = Inr r" and "reservation_status r = ActiveReservation"
    and "gateway_safe (oe_limits E) (rw_gateway w)" and "env_ok c E"
    and "map_of (reservations (gw_state (rw_gateway w))) (rr_reservationId res) = Some (gateway_reservation res)"
    and "0 \<le> a" and "0 \<le> b"
  shows "ends (settle_run E r res a b) (settled_world r res a b (rw_gateway w) (rw_queue w)) (\<lambda>_ _. True) w"
proof -
  have act: "map_of (reservations (gw_state (rw_gateway w))) (reservationId (gateway_reservation res)) = Some (gateway_reservation res)"
    using assms(5) by (simp add: gateway_reservation_def)
  let ?usage = "\<lparr>usage_inputTokens = Finite (real_of_int a), usage_outputTokens = Finite (real_of_int b), usage_released = None\<rparr>"
  have stored: "settled_world r res a b (rw_gateway w) (rw_queue w) x (w\<lparr>rw_gateway := g', rw_clock := n, rw_runs := s\<rparr>)"
    if "settle (oe_limits E) fits (oe_clock E m) (gateway_reservation res) ?usage (rw_gateway w) = (g', Inr st)"
      "settleRunReservation R (run_id r) (settled_inputTokens st) (settled_outputTokens st) t (rw_runs w) = Inr (s, x)"
    for fits m g' st n s x R t
    using charged_settle [OF assms(3) act env_okD(1) [OF assms(4)] that(1) assms(6,7)] settle_stored [OF that(2)] assms(1)
    by (auto simp: settled_world_def holds_def stored_update_def)
  show ?thesis
    unfolding settle_run_def io_settle_def
    using assms(2) by (auto simp: io_ends stored split: prod.splits sum.splits option.splits)
qed

lemma ends_append_output:
  assumes "settled_world r res a b g q x w"
  shows "ends (append_output E x out) (\<lambda>_ w'. \<exists>y. settled_world r res a b g q y w') (\<lambda>_ _. True) w"
proof -
  have id: "run_id x = run_id r" using assms by (simp add: settled_world_def holds_def run_id_def)
  show ?thesis
    unfolding append_output_def Let_def
    using assms id
    by (auto simp: io_ends settled_world_def holds_def stored_update_def dest!: artifact_stored split: sum.splits option.splits)
qed

lemma ends_complete:
  assumes "settled_world r res a b g q x w"
  shows "ends (finalize_and_acknowledge E (io_finalize E (run_id r) True None) res')
    (\<lambda>y w'. settled_world r res a b g q y w' \<and> run_status y = RCompleted) (\<lambda>_ _. True) w"
proof -
  have "settled_world r res a b g q y (w1\<lparr>rw_gateway := g'\<rparr>) \<and> run_status y = RCompleted"
    if "finalizeRun R (run_id r) True None t (rw_runs w) = (s, Inr y)" "w1 = w\<lparr>rw_clock := n, rw_runs := s\<rparr>"
      "acknowledgeTerminal fits rid (rw_gateway w) = (g', u)" for R t s y w1 n fits rid g' u
    using finalize_stored [OF that(1)] that assms charged_acknowledge [of "gateway_reservation res" "a + b" g "rw_gateway w" fits rid]
    by (auto simp: settled_world_def holds_def stored_update_def)
  then show ?thesis
    unfolding finalize_and_acknowledge_def io_acknowledge_def
    by (auto simp: io_ends split: prod.splits sum.splits option.splits)
qed

lemma ends_overspent_failed:
  "ends (finish_overspent E tid r res c f q) (\<lambda>x _. run_status x = RFailed) (\<lambda>_ _. True) w"
proof -
  have finalized: "ends (finalize_and_acknowledge E (io_finalize E i False reason) res) (\<lambda>x _. run_status x = RFailed) (\<lambda>_ _. True) w1"
    for i reason w1
    unfolding finalize_and_acknowledge_def io_acknowledge_def
    by (auto simp: io_ends stored_update_def dest!: finalize_stored split: prod.splits sum.splits option.splits)
  show ?thesis
    unfolding finish_overspent_def ends_bind by (intro ends_any finalized TrueI)
qed

definition completed_in :: "string \<Rightarrow> queue \<Rightarrow> bool" where
  "completed_in tid q \<longleftrightarrow> (\<exists>t. find_task tid q = Some t \<and> status t = Completed)"

lemma complete_completes: "complete E tid now q = (q', Inr t) \<Longrightarrow> completed_in tid q'"
  using complete_outcome by (auto simp: completed_in_def)

lemma ends_worked_settled:
  assumes "find_run (run_id r) (rw_runs w) = Inr r" and "reservation_status r = ActiveReservation"
    and "gateway_safe (oe_limits E) (rw_gateway w)" and "env_ok c E"
    and "map_of (reservations (gw_state (rw_gateway w))) (rr_reservationId res) = Some (gateway_reservation res)"
    and "\<not> cancellation_requested r" and "\<not> worker_failed out" and "find_task tid (rw_queue w) = Some t" and "status t = Running"
    and a: "a = retry_input_tokens r + conservativeRunPromptTokens (prompt (current r))" and "0 \<le> a"
    and b: "b = retry_output_tokens r + conservativeRunPromptTokens (wo_rawOutput out)" and "0 \<le> b"
  shows "ends (finish_worked E tid r res out) (\<lambda>y w'. \<forall>x. y = Some x \<longrightarrow> run_status x = RFailed \<or>
      run_status x = RCompleted \<and> (\<exists>q. settled_world r res a b (rw_gateway w) q x w' \<and> completed_in tid q))
    (\<lambda>_ _. True) w"
proof -
  let ?P = "\<lambda>x w'. run_status x = RFailed \<or>
      run_status x = RCompleted \<and> (\<exists>q. settled_world r res a b (rw_gateway w) q x w' \<and> completed_in tid q)"
  have completed: "ends (finalize_and_acknowledge E (io_finalize E (run_id x) True None) res) ?P (\<lambda>_ _. True) w1"
    if "settled_world r res a b (rw_gateway w) q y w1" "completed_in tid q" "run_id x = run_id r" for q x y w1
    unfolding that(3) by (rule ends_mono [OF ends_complete [OF that(1)]]) (use that in auto)
  have settled: "ends (settle_run E r res a b) (\<lambda>x. ends (append_output E x out) (\<lambda>_.
      ends (finalize_and_acknowledge E (io_finalize E (run_id x) True None) res) ?P (\<lambda>_ _. True)) (\<lambda>_ _. True)) (\<lambda>_ _. True)
      (w\<lparr>rw_clock := n, rw_queue := q\<rparr>)"
    if "completed_in tid q" for n q
  proof (rule ends_mono [OF ends_settle_run])
    fix x w1
    assume x: "settled_world r res a b (rw_gateway (w\<lparr>rw_clock := n, rw_queue := q\<rparr>)) (rw_queue (w\<lparr>rw_clock := n, rw_queue := q\<rparr>)) x w1"
    then have id: "run_id x = run_id r" by (simp add: settled_world_def holds_def run_id_def)
    show "ends (append_output E x out) (\<lambda>_. ends (finalize_and_acknowledge E (io_finalize E (run_id x) True None) res) ?P (\<lambda>_ _. True)) (\<lambda>_ _. True) w1"
      by (rule ends_mono [OF ends_append_output [OF x]]) (use completed that id in auto)
  qed (use assms in simp_all)
  show ?thesis
    unfolding finish_worked_def Let_def report_outcome_def a [symmetric] b [symmetric] ends_bind
    using assms(1,6-9)
    by (auto simp: io_ends settled intro!: ends_mono [OF ends_overspent_failed] split: prod.splits sum.splits dest!: complete_completes)
qed

text \<open>C8: When a run completes, the three stores agree on its tokens. Its settlement is the number of bytes of its prompt
  and of the output, over all attempts, the reservation is gone from the gateway, the usage of its route has moved by
  exactly the tokens held less the tokens spent, and its task is completed.\<close>

theorem completed_run_is_settled:
  assumes "gateway_safe (oe_limits E) (rw_gateway w)" and "env_ok c E" and "find_run (run_id r) (rw_runs w) = Inr r"
    and "token_reservation r = Some res" and "reservation_status r = ActiveReservation"
    and "map_of (reservations (gw_state (rw_gateway w))) (rr_reservationId res) = Some (gateway_reservation res)"
    and "\<not> cancellation_requested r" and "find_task tid (rw_queue w) = Some t" and "status t = Running"
    and "finishProviderResult E tid r (RunWorked out) w = (w', Inr (Some (x, result)))" and "\<not> worker_failed out" and "run_status x \<noteq> RFailed"
  shows "find_run (run_id r) (rw_runs w') = Inr x \<and> run_status x = RCompleted \<and>
    token_settled x = Some (settlement_of (retry_input_tokens r + utf8_byteLength (prompt (current r)))
      (retry_output_tokens r + utf8_byteLength (wo_rawOutput out))) \<and>
    map_of (reservations (gw_state (rw_gateway w'))) (rr_reservationId res) = None \<and>
    (\<forall>k. usedOf (used (gw_state (rw_gateway w'))) k = usedOf (used (gw_state (rw_gateway w))) k -
      (if k \<in> set (routeUsageKeys (gateway_reservation res)) then hold_of (gateway_reservation res) -
        (retry_input_tokens r + utf8_byteLength (prompt (current r)) + (retry_output_tokens r + utf8_byteLength (wo_rawOutput out)))
       else 0)) \<and>
    (\<exists>t'. find_task tid (rw_queue w') = Some t' \<and> status t' = Completed)"
proof -
  let ?a = "retry_input_tokens r + utf8_byteLength (prompt (current r))"
  let ?b = "retry_output_tokens r + utf8_byteLength (wo_rawOutput out)"
  have "validRecord r" using find_run_Inr [OF assms(3)] by (auto simp: validate_def list_all_iff)
  then have nn: "0 \<le> ?a" "0 \<le> ?b"
    using utf8_byteLength_lower [of "prompt (current r)"] utf8_byteLength_lower [of "wo_rawOutput out"] by (simp_all add: validRecord_def)
  have out: "finish_worked E tid r res out w = (w', Inr (Some x))"
    using assms(4,10) by (auto simp: finishProviderResult_def io_bind_def io_require_def io_return_def split: prod.splits sum.splits option.splits)
  have "run_status x = RCompleted \<and> (\<exists>q. settled_world r res ?a ?b (rw_gateway w) q x w' \<and> completed_in tid q)"
    using ends_Inr [OF ends_worked_settled [OF assms(3,5,1,2,6,7,11,8,9) refl _ refl] out] nn assms(12)
    by (simp add: conservativeRunPromptTokens_def)
  then show ?thesis
    by (auto simp: completed_in_def settled_world_def holds_def charged_def gateway_reservation_def)
qed

section \<open>Witnesses\<close>

theorem dispatch_exception_strands_task_witness:
  "rw_queue (fst ((dispatch_threw orch_refusing ''a'' orch_cancelling (Error ''boom'') :: unit run_io) orch_cancelling_world)) =
   SupervisorProps.demo_running"
proof -
  obtain w' and res :: "js_error + unit" where out: "dispatch_threw orch_refusing ''a'' orch_cancelling (Error ''boom'') orch_cancelling_world = (w', res)"
    by fastforce
  have "find_task ''a'' (rw_queue orch_cancelling_world) = Some demo_task" by (simp add: orch_facts demo_task_facts)
  from dispatch_exception_strands_task [OF this demo_task_facts(2) _ orch_env_ok out] out show ?thesis
    by (simp add: demo_task_facts orch_facts)
qed

text \<open>A run that was approved and bound by an attempt that ended before it was queued.\<close>

definition orch_bound :: run_record where
  "orch_bound = RunStoreProps.demo_bound\<lparr>supervisor_task_id := Some ''a''\<rparr>"

definition orch_approval :: approval_record where
  "orch_approval = (run_approval orch_refusing RunStoreProps.demo_draft (Iso 1))\<lparr>approval_status := Approved, decided_at := Some ''t''\<rparr>"

definition orch_bound_world :: run_world where
  "orch_bound_world = orch_start\<lparr>rw_runs := [orch_bound], rw_approvals := [orch_approval], rw_queue := SupervisorProps.demo_running\<rparr>"

lemma orch_approval_valid: "validate_approvals [orch_approval]"
  by code_simp

definition orch_queued :: run_record where
  "orch_queued = orch_bound\<lparr>run_status := RQueued, run_updated_at := Iso 1\<rparr>"

lemma orch_bound_found: "find_run ''run'' [orch_bound] = Inr orch_bound"
  by (simp add: orch_bound_def RunStoreProps.demo_bound_def RunStoreProps.demo_defs RunStoreProps.demo_checks RunStoreProps.demo_store)

lemma orch_bound_facts:
  "run_status orch_bound = RApproved" "draft_revision (current orch_bound) = 1" "supervisor_task_id orch_bound = Some ''a''"
  "token_reservation orch_bound = Some RunStoreProps.demo_reservation" "reservation_status orch_bound = ActiveReservation"
  "approved_revision orch_bound = Some 1" "approved_by orch_bound = Some ''ops''" "queue_compensation_requested orch_bound = False"
  "rw_runs orch_bound_world = [orch_bound]" "rw_approvals orch_bound_world = [orch_approval]"
  "rw_queue orch_bound_world = SupervisorProps.demo_running" "rw_clock orch_bound_world = 0"
  "oe_isRouteAvailable orch_refusing = Some (\<lambda>_ _ _ _. True)" "approval_status orch_approval = Approved"
  by (simp_all add: orch_bound_def RunStoreProps.demo_bound_def RunStoreProps.demo_defs new_record_def draft_of_def
      orch_bound_world_def orch_start_def orch_refusing_def orch_env_def orch_approval_def)

lemma orch_approval_for:
  "approval_for ''run'' 1 orch_approval" "same_number (estimated_tokens (current orch_bound)) (approval_estimated_tokens orch_approval)"
  "same_number (input_token_bound (current orch_bound)) (approval_input_bound orch_approval)"
  "same_number (output_token_allowance (current orch_bound)) (approval_output_allowance orch_approval)"
  "review_acknowledged orch_approval = prompt_review_acknowledged (current orch_bound)"
  by code_simp+

lemma orch_handoff: "\<exists>h. handoffFor orch_refusing orch_bound = Inr h"
  by (simp add: handoffFor_def Let_def assertGroupPromptCommitment_def orch_bound_def RunStoreProps.demo_bound_def new_record_def
      orch_refusing_def orch_env_def run_packet_def RunStoreProps.demo_defs RunStoreProps.demo_checks)

lemma orch_transition: "transitionRun (oe_runs orch_refusing) ''run'' RQueued (Iso 1) [orch_bound] = Inr ([orch_queued], orch_queued)"
  by (simp add: transitionRun_def transition_step_def orch_queued_def orch_bound_def RunStoreProps.demo_bound_def orch_defs
      RunStoreProps.demo_checks RunStoreProps.demo_store)

lemma orch_approved: "approveRunRevision (oe_runs orch_refusing) ''run'' 1 ''ops'' t [orch_bound] = Inr ([orch_bound], orch_bound)"
  by (simp add: approveRunRevision_def on_run_cases orch_bound_found orch_bound_facts)

lemma orch_queues:
  "\<exists>w'. approveAndQueueRun orch_refusing ''run'' 1 ''ops'' orch_bound_world = (w', Inr orch_queued)"
proof -
  obtain h where h: "handoffFor orch_refusing orch_bound = Inr h" using orch_handoff by blast
  have "ends (approveAndQueueRun orch_refusing ''run'' 1 ''ops'') (\<lambda>x _. x = orch_queued) (\<lambda>_ _. False) orch_bound_world"
    unfolding approveAndQueueRun_def durable_run_def queue_durable_def bind_run_def enqueue_run_def routeAvailable_def decide_run_approval_def
    using orch_approval_valid
    by (simp add: io_ends Let_def orch_bound_facts orch_bound_found orch_approval_for orch_approved orch_transition h orch_facts
        demo_task_facts readApprovalQueue_def)
  then show ?thesis by (auto simp: ends_def split: prod.splits sum.splits)
qed

theorem queued_run_is_approved_and_bound_witness:
  "\<exists>w'. approveAndQueueRun orch_refusing ''run'' 1 ''ops'' orch_bound_world = (w', Inr orch_queued) \<and>
     approveAndQueueRun orch_refusing ''run'' 1 ''someone'' w' = (w', Inr orch_queued) \<and>
     find_task ''a'' (rw_queue w') \<noteq> None"
proof -
  obtain w' where out: "approveAndQueueRun orch_refusing ''run'' 1 ''ops'' orch_bound_world = (w', Inr orch_queued)"
    using orch_queues by blast
  have "find_run ''run'' (rw_runs orch_bound_world) = Inr orch_bound" "run_status orch_bound \<noteq> RQueued"
    by (simp_all add: orch_bound_facts orch_bound_found)
  from queued_run_is_approved_and_bound [OF this out, of "''someone''"] out show ?thesis
    by (auto simp: orch_queued_def orch_bound_facts)
qed

text \<open>A run whose worker has come back.\<close>

definition orch_running :: run_record where
  "orch_running = orch_bound\<lparr>run_status := RRunning, token_reservation := Some (stored_reservation TokenGatewayProps.demo_reservation)\<rparr>"

definition orch_output :: worker_output where
  "orch_output = \<lparr>wo_workerRunId = ''w'', wo_exitCode = 0, wo_rawOutput = [0x6F, 0x6B], wo_errorReason = None,
     wo_lockStatus = Acquired_supervisor_spawn\<rparr>"

definition orch_running_world :: run_world where
  "orch_running_world = orch_start\<lparr>rw_runs := [orch_running], rw_gateway := demo_active, rw_queue := SupervisorProps.demo_running\<rparr>"

definition orch_settled :: run_record where
  "orch_settled = orch_running\<lparr>reservation_status := SettledReservation, token_settled := Some (settlement_of 3 2), run_updated_at := Iso 2\<rparr>"

definition orch_shown :: run_record where
  "orch_shown = orch_settled\<lparr>artifacts := [\<lparr>artifact_id = ''text-w'', artifact_kind = TextArtifact, preview = [0x6F, 0x6B],
     artifact_created_at = Iso 3\<rparr>], run_updated_at := Iso 3\<rparr>"

definition orch_completed :: run_record where
  "orch_completed = orch_shown\<lparr>run_status := RCompleted, run_updated_at := Iso 4\<rparr>"

lemma orch_reservation:
  "TokenGatewayProps.demo_reservation = \<lparr>provider = ''codex'', model = Some ''gpt'', sessionId = Some ''s1'', inputTokens = 10,
     outputTokens = 20, handoffId = Some ''h1'', reservationId = ''tgr-1'', reservedAt = Iso 0, totalTokens = 30,
     groupId = None, slotId = None, heldTokens = None\<rparr>"
  by code_simp

lemmas orch_run_defs = orch_running_def orch_settled_def orch_shown_def orch_completed_def orch_bound_def RunStoreProps.demo_bound_def
  orch_refusing_def orch_env_def stored_reservation_def orch_reservation settlement_of_def
  RunStoreProps.demo_defs RunStoreProps.demo_checks RunStoreProps.demo_store

lemma orch_settle_run: "settleRunReservation (oe_runs orch_refusing) ''run'' 3 2 (Iso 2) [orch_running] = Inr ([orch_settled], orch_settled)"
  by (simp add: settleRunReservation_def orch_run_defs)

lemma orch_append: "appendRunArtifact (oe_runs orch_refusing) ''run'' ''text-w'' TextArtifact [0x6F, 0x6B] (Iso 3) [orch_settled] =
    Inr ([orch_shown], orch_shown)"
  by (simp add: appendRunArtifact_def orch_run_defs)

lemma orch_complete_run: "finalizeRun (oe_runs orch_refusing) ''run'' True None (Iso 4) [orch_shown] = ([orch_completed], Inr orch_completed)"
  by (simp add: finalizeRun_def orch_run_defs)

abbreviation orch_usage :: token_usage where
  "orch_usage \<equiv> \<lparr>usage_inputTokens = Finite (real_of_int 3), usage_outputTokens = Finite (real_of_int 2), usage_released = None\<rparr>"

lemma orch_settle: "\<exists>g. settle DEFAULT_TOKEN_GATEWAY_LIMITS (\<lambda>_. True) (Iso 1) TokenGatewayProps.demo_reservation orch_usage
    demo_active = (g, Inr \<lparr>settled_inputTokens = 3, settled_outputTokens = 2, settled_released = Some False\<rparr>)"
proof -
  have inv: "gateway_inv DEFAULT_TOKEN_GATEWAY_LIMITS (gw_state demo_active)" using demo_active_safe by (simp add: gateway_safe_def)
  have act: "map_of (reservations (gw_state demo_active)) (reservationId TokenGatewayProps.demo_reservation) = Some TokenGatewayProps.demo_reservation"
    using demo_active_reservation by (simp add: orch_reservation)
  have caps: "safeCount (usage_inputTokens orch_usage) \<le> inputCapTokens DEFAULT_TOKEN_GATEWAY_LIMITS"
    "safeCount (usage_outputTokens orch_usage) \<le> outputCapTokens DEFAULT_TOKEN_GATEWAY_LIMITS"
    "usage_total orch_usage \<le> totalTokens TokenGatewayProps.demo_reservation"
    by (simp_all add: DEFAULT_TOKEN_GATEWAY_LIMITS_def usage_total_def orch_reservation)
  obtain g st where out: "settle DEFAULT_TOKEN_GATEWAY_LIMITS (\<lambda>_. True) (Iso 1) TokenGatewayProps.demo_reservation orch_usage demo_active = (g, st)"
    by fastforce
  have "st = Inr (terminal_settlement (settled_entry orch_usage (Iso 1)))"
    using settle_outcome(2) [OF inv act caps, of "\<lambda>_. True" "Iso 1"] out by simp
  with out show ?thesis by (simp add: settled_entry_def)
qed

lemma orch_running_facts:
  "run_status orch_running = RRunning" "current orch_running = RunStoreProps.demo_draft" "supervisor_task_id orch_running = Some ''a''"
  "token_reservation orch_running = Some (stored_reservation TokenGatewayProps.demo_reservation)"
  "reservation_status orch_running = ActiveReservation" "cancellation_requested orch_running = False" "run_id orch_running = ''run''"
  "retry_input_tokens orch_running = 0" "retry_output_tokens orch_running = 0"
  "utf8_byteLength (prompt RunStoreProps.demo_draft) = 3" "estimated_tokens RunStoreProps.demo_draft = 8195"
  "output_token_allowance RunStoreProps.demo_draft = 8192" "run_id orch_settled = ''run''"
  "rw_runs orch_running_world = [orch_running]" "rw_gateway orch_running_world = demo_active"
  "rw_queue orch_running_world = SupervisorProps.demo_running" "rw_clock orch_running_world = 0"
  "oe_limits orch_refusing = DEFAULT_TOKEN_GATEWAY_LIMITS" "oe_fits_gateway orch_refusing = (\<lambda>_. True)"
  "oe_clock orch_refusing (Suc (Suc 0)) = Iso 2" "oe_clock orch_refusing (Suc (Suc (Suc 0))) = Iso 3"
  "oe_clock orch_refusing (Suc (Suc (Suc (Suc 0)))) = Iso 4"
  "sanitizeWorkerOutput orch_refusing [0x6F, 0x6B] = [0x6F, 0x6B]" "artifacts orch_settled = []"
  by (simp_all add: orch_run_defs orch_running_world_def orch_start_def sanitizeWorkerOutput_def sanitize_text_def
      MAX_PERSISTED_WORKER_OUTPUT_CHARS_def high_surrogate_def)

lemma orch_found: "find_run ''run'' [orch_running] = Inr orch_running" "find_run ''run'' [orch_settled] = Inr orch_settled"
  by (simp_all add: orch_run_defs)

lemma orch_completes:
  "\<exists>w'. finishProviderResult orch_refusing ''a'' orch_running (RunWorked orch_output) orch_running_world =
     (w', Inr (Some (orch_completed, RunWorked orch_output)))"
proof -
  obtain q t where complete: "complete SupervisorProps.demo_env ''a'' (Iso 0) SupervisorProps.demo_running = (q, Inr t)"
    using complete_stored [OF demo_stored(2) demo_env_facts(1) demo_task_facts(1), of "Iso 0"]
    by (auto simp: valid_stamp_def valid_time_def MAX_TIME_def)
  obtain g where settle: "settle DEFAULT_TOKEN_GATEWAY_LIMITS (\<lambda>_. True) (Iso 1) TokenGatewayProps.demo_reservation orch_usage
      demo_active = (g, Inr \<lparr>settled_inputTokens = 3, settled_outputTokens = 2, settled_released = Some False\<rparr>)"
    using orch_settle by blast
  have "ends (finishProviderResult orch_refusing ''a'' orch_running (RunWorked orch_output))
      (\<lambda>x _. x = Some (orch_completed, RunWorked orch_output)) (\<lambda>_ _. False) orch_running_world"
    unfolding finishProviderResult_def finish_worked_def report_outcome_def settle_run_def io_settle_def append_output_def
      finalize_and_acknowledge_def io_acknowledge_def
    using settle
    by (simp add: io_ends Let_def orch_running_facts orch_found orch_facts demo_task_facts complete orch_output_def worker_failed_def
        conservativeRunPromptTokens_def orch_settle_run orch_append orch_complete_run acknowledgeTerminal_def persist_def)
  then show ?thesis by (auto simp: ends_def split: prod.splits sum.splits)
qed

theorem completed_run_is_settled_witness:
  "\<exists>w'. finishProviderResult orch_refusing ''a'' orch_running (RunWorked orch_output) orch_running_world =
       (w', Inr (Some (orch_completed, RunWorked orch_output))) \<and>
     token_settled orch_completed = Some (settlement_of 3 2) \<and>
     map_of (reservations (gw_state (rw_gateway w'))) ''tgr-1'' = None \<and>
     usedOf (used (gw_state (rw_gateway w'))) ''provider:codex'' = usedOf (used (gw_state demo_active)) ''provider:codex'' - 25"
proof -
  let ?res = "stored_reservation TokenGatewayProps.demo_reservation"
  obtain w' where out: "finishProviderResult orch_refusing ''a'' orch_running (RunWorked orch_output) orch_running_world =
     (w', Inr (Some (orch_completed, RunWorked orch_output)))" using orch_completes by blast
  have safe: "gateway_safe (oe_limits orch_refusing) (rw_gateway orch_running_world)"
    using demo_active_safe by (simp add: orch_running_facts)
  have found: "find_run (run_id orch_running) (rw_runs orch_running_world) = Inr orch_running"
    by (simp add: orch_running_facts orch_found)
  have held: "map_of (reservations (gw_state (rw_gateway orch_running_world))) (rr_reservationId ?res) = Some (gateway_reservation ?res)"
    using demo_active_reservation unfolding orch_running_facts by (simp add: stored_reservation_def gateway_reservation_def orch_reservation)
  have task: "find_task ''a'' (rw_queue orch_running_world) = Some demo_task" by (simp add: orch_running_facts demo_task_facts)
  have ok: "\<not> cancellation_requested orch_running" "\<not> worker_failed orch_output" "run_status orch_completed \<noteq> RFailed"
    by (simp_all add: orch_running_facts worker_failed_def orch_output_def orch_completed_def)
  note settled = completed_run_is_settled [OF safe orch_env_ok found orch_running_facts(4,5) held ok(1) task demo_task_facts(2) out ok(2,3)]
  have "''provider:codex'' \<in> set (routeUsageKeys TokenGatewayProps.demo_reservation)" "hold_of TokenGatewayProps.demo_reservation = 30"
    by code_simp+
  with settled have "usedOf (used (gw_state (rw_gateway w'))) ''provider:codex'' = usedOf (used (gw_state demo_active)) ''provider:codex'' - 25"
    by (simp add: orch_running_facts orch_output_def)
  moreover have "rr_reservationId ?res = ''tgr-1''" by (simp add: stored_reservation_def orch_reservation)
  ultimately show ?thesis using out settled by (auto simp: orch_running_facts orch_output_def)
qed

end
