(* ===== verification/BrainstormStore.thy ===== *)
theory BrainstormStore
  imports RunStore
begin

text \<open>
  \<^verbatim>\<open>src/data/delivery-system/brainstormBudget.ts\<close> and \<^verbatim>\<open>brainstormStore.ts\<close>: the stored brainstorms. One brief is answered by
  three or four providers (the fan-out), consolidated by a synthesizer and, when the answers conflict, arbitrated. A
  store is the list of its records; an operation returns the new list or throws and leaves the file. That the file has
  exactly the fields of the records, with values of their types, is checked when it is parsed, before this model.
\<close>

section \<open>The token envelope\<close>

record brainstorm_envelope =
  fanout_tokens :: int
  consolidation_tokens :: int
  optional_arbitration_tokens :: int
  minimum_tokens :: int
  maximum_tokens :: int

record brainstorm_route =
  bt_provider :: run_provider
  bt_model :: string
  bt_effort :: "reasoning_effort option"
  bt_tokens :: int

definition positiveTokenCount :: "int \<Rightarrow> bool" where
  "positiveTokenCount n \<longleftrightarrow> isSafeInteger n \<and> n > 0"

definition nonNegativeTokenCount :: "int \<Rightarrow> bool" where
  "nonNegativeTokenCount n \<longleftrightarrow> isSafeInteger n \<and> n \<ge> 0"

definition safeTokenSum :: "int \<Rightarrow> int \<Rightarrow> js_error + int" where
  "safeTokenSum left right =
     (if isSafeInteger (left + right) then Inr (left + right) else Inl (Error ''invalid_brainstorm_token_budget''))"

fun sum_routes :: "int \<Rightarrow> brainstorm_route list \<Rightarrow> js_error + int" where
  "sum_routes n [] = Inr n"
| "sum_routes n (r # rs) = bind_result (safeTokenSum n (bt_tokens r)) (\<lambda>m. sum_routes m rs)"

definition estimateBrainstormTokenEnvelope :: "brainstorm_route list \<Rightarrow> int \<Rightarrow> int \<Rightarrow> js_error + brainstorm_envelope" where
  "estimateBrainstormTokenEnvelope rts consolidation arbitration =
     (if rts = [] \<or> \<not> positiveTokenCount consolidation \<or> \<not> nonNegativeTokenCount arbitration \<or>
         \<not> list_all (\<lambda>r. positiveTokenCount (bt_tokens r)) rts
      then Inl (Error ''invalid_brainstorm_token_budget'')
      else
        bind_result (sum_routes 0 rts) (\<lambda>fanout.
        bind_result (safeTokenSum fanout consolidation) (\<lambda>least.
        bind_result (safeTokenSum least arbitration) (\<lambda>most.
          Inr \<lparr>fanout_tokens = fanout, consolidation_tokens = consolidation, optional_arbitration_tokens = arbitration,
            minimum_tokens = least, maximum_tokens = most\<rparr>))))"

section \<open>Records\<close>

datatype brainstorm_status = BDraft | BApproved | BFanout_running | BConsolidating | BNeeds_arbitration | BArbitrating
  | BCompleted | BFailed | BCancelled
datatype brainstorm_stage = Fanout | Consolidation | Arbitration
datatype brainstorm_slot_state = Slot_planned | Slot_created | Slot_queued | Slot_terminal | Slot_released
datatype brainstorm_approval = Approval_none | Approval_pending | Approval_reserved

record brainstorm_slot =
  sl_id :: string
  sl_stage :: brainstorm_stage
  sl_route :: "nat option"
  sl_run :: "string option"
  sl_state :: brainstorm_slot_state

record brainstorm_conflict =
  cf_id :: string
  cf_runs :: "string \<times> string"
  cf_summary :: utf16
  cf_material :: bool

record brainstorm =
  bs_id :: string
  bs_project :: string
  bs_brief :: utf16
  bs_routes :: "brainstorm_route list"
  bs_synthesizer :: brainstorm_route
  bs_arbiter :: "brainstorm_route option"
  bs_envelope :: brainstorm_envelope
  bs_children :: "string list"
  bs_consolidation :: "string option"
  bs_arbitration :: "string option"
  bs_conflicts :: "brainstorm_conflict list"
  bs_final :: "utf16 option"
  bs_status :: brainstorm_status
  bs_revision :: int
  bs_approval :: brainstorm_approval
  bs_group :: "string option"
  bs_slots :: "brainstorm_slot list"
  bs_operator :: "string option"
  bs_created :: stamp
  bs_updated :: stamp

record brainstorm_input =
  bi_project :: string
  bi_brief :: utf16
  bi_routes :: "brainstorm_route list"
  bi_synthesizer :: brainstorm_route
  bi_arbiter :: "brainstorm_route option"
  bi_envelope :: brainstorm_envelope

type_synonym brainstorm_store = "brainstorm list"

definition MAX_BRAINSTORMS :: nat where "MAX_BRAINSTORMS = 256"
definition MAX_BRIEF_CHARS :: nat where "MAX_BRIEF_CHARS = 32000"
definition MAX_MODEL_CHARS :: nat where "MAX_MODEL_CHARS = 256"
definition MAX_ID_CHARS :: nat where "MAX_ID_CHARS = 256"
definition MAX_STORED_CONFLICTS :: nat where "MAX_STORED_CONFLICTS = 256"
definition MAX_CONFLICT_SUMMARY_CHARS :: nat where "MAX_CONFLICT_SUMMARY_CHARS = 32000"
definition MAX_FINAL_ARTIFACT_CHARS :: nat where "MAX_FINAL_ARTIFACT_CHARS = 64000"

section \<open>Validation\<close>

text \<open>\<open>/^[A-Za-z0-9][A-Za-z0-9._:-]{0,255}$/\<close>.\<close>

definition safe_id_start :: string where
  "safe_id_start = ''ABCDEFGHIJKLMNOPQRSTUVWXYZabcdefghijklmnopqrstuvwxyz0123456789''"

definition safeId :: "string \<Rightarrow> bool" where
  "safeId v \<longleftrightarrow> length v \<le> MAX_ID_CHARS \<and>
     (case v of [] \<Rightarrow> False
      | c # cs \<Rightarrow> c \<in> set safe_id_start \<and> length cs \<le> 255 \<and> list_all (\<lambda>d. d \<in> set (safe_id_start @ ''._:-'')) cs)"

definition nullableSafeId :: "string option \<Rightarrow> bool" where
  "nullableSafeId v \<longleftrightarrow> (case v of None \<Rightarrow> True | Some s \<Rightarrow> safeId s)"

definition uniqueSafeIds :: "string list \<Rightarrow> bool" where
  "uniqueSafeIds v \<longleftrightarrow> list_all safeId v \<and> length (js_unique v) = length v"

definition boundedString :: "'a list \<Rightarrow> nat \<Rightarrow> bool \<Rightarrow> bool" where
  "boundedString v maximum allowEmpty \<longleftrightarrow> length v \<le> maximum \<and> (allowEmpty \<or> length v > 0)"

definition isBrainstormRoute :: "brainstorm_route \<Rightarrow> bool" where
  "isBrainstormRoute r \<longleftrightarrow>
     boundedString (bt_model r) MAX_MODEL_CHARS False \<and> isSafeInteger (bt_tokens r) \<and> bt_tokens r > 0 \<and>
     (let supported = SUPPORTED_REASONING_EFFORTS (bt_provider r) in
      if supported = [] then bt_effort r = None
      else (case bt_effort r of None \<Rightarrow> False | Some e \<Rightarrow> e \<in> set supported))"

definition isCanonicalEnvelope ::
  "brainstorm_envelope \<Rightarrow> brainstorm_route list \<Rightarrow> brainstorm_route \<Rightarrow> brainstorm_route option \<Rightarrow> bool" where
  "isCanonicalEnvelope v rts synthesizer arbiter \<longleftrightarrow>
     (case estimateBrainstormTokenEnvelope rts (bt_tokens synthesizer)
         (case arbiter of None \<Rightarrow> 0 | Some a \<Rightarrow> bt_tokens a) of
        Inl _ \<Rightarrow> False | Inr canonical \<Rightarrow> v = canonical)"

definition planned_slot :: "string \<Rightarrow> brainstorm_stage \<Rightarrow> nat option \<Rightarrow> brainstorm_slot" where
  "planned_slot i stage route = \<lparr>sl_id = i, sl_stage = stage, sl_route = route, sl_run = None, sl_state = Slot_planned\<rparr>"

definition planned_slots :: "nat \<Rightarrow> bool \<Rightarrow> brainstorm_slot list" where
  "planned_slots routeCount hasArbitration =
     map (\<lambda>i. planned_slot (''fanout-'' @ nat_text i) Fanout (Some i)) [0..<routeCount] @
     [planned_slot ''consolidation'' Consolidation None] @
     (if hasArbitration then [planned_slot ''arbitration'' Arbitration None] else [])"

definition same_slot :: "brainstorm_slot \<Rightarrow> brainstorm_slot \<Rightarrow> bool" where
  "same_slot a b \<longleftrightarrow> sl_id a = sl_id b \<and> sl_stage a = sl_stage b \<and> sl_route a = sl_route b"

definition validSlots :: "brainstorm_slot list \<Rightarrow> nat \<Rightarrow> bool \<Rightarrow> bool" where
  "validSlots v routeCount hasArbitration \<longleftrightarrow>
     length v = routeCount + 1 + (if hasArbitration then 1 else 0) \<and>
     list_all (\<lambda>(sl, expected). same_slot sl expected \<and> nullableSafeId (sl_run sl))
       (zip v (planned_slots routeCount hasArbitration))"

definition validConflicts :: "brainstorm_conflict list \<Rightarrow> bool" where
  "validConflicts v \<longleftrightarrow>
     list_all (\<lambda>c. safeId (cf_id c) \<and> uniqueSafeIds [fst (cf_runs c), snd (cf_runs c)] \<and>
       boundedString (cf_summary c) MAX_CONFLICT_SUMMARY_CHARS False) v \<and>
     length (js_unique (map cf_id v)) = length v"

definition isBrainstormRecord :: "brainstorm \<Rightarrow> bool" where
  "isBrainstormRecord v \<longleftrightarrow>
     safeId (bs_id v) \<and> project_id_pattern (bs_project v) \<and> boundedString (bs_brief v) MAX_BRIEF_CHARS False \<and>
     canonical_stamp (bs_created v) \<and> canonical_stamp (bs_updated v) \<and>
     length (bs_routes v) \<ge> 3 \<and> length (bs_routes v) \<le> 4 \<and> list_all isBrainstormRoute (bs_routes v) \<and>
     length (js_unique (map bt_provider (bs_routes v))) = length (bs_routes v) \<and>
     isBrainstormRoute (bs_synthesizer v) \<and>
     (case bs_arbiter v of None \<Rightarrow> True | Some a \<Rightarrow> isBrainstormRoute a) \<and>
     isCanonicalEnvelope (bs_envelope v) (bs_routes v) (bs_synthesizer v) (bs_arbiter v) \<and>
     length (bs_children v) \<le> length (bs_routes v) \<and> uniqueSafeIds (bs_children v) \<and>
     nullableSafeId (bs_consolidation v) \<and> nullableSafeId (bs_arbitration v) \<and>
     \<not> (bs_arbiter v = None \<and> bs_arbitration v \<noteq> None) \<and>
     length (bs_conflicts v) \<le> MAX_STORED_CONFLICTS \<and> validConflicts (bs_conflicts v) \<and>
     (case bs_final v of None \<Rightarrow> True | Some t \<Rightarrow> boundedString t MAX_FINAL_ARTIFACT_CHARS True) \<and>
     isSafeInteger (bs_revision v) \<and> bs_revision v \<ge> 1 \<and> nullableSafeId (bs_group v) \<and>
     validSlots (bs_slots v) (length (bs_routes v)) (bs_arbiter v \<noteq> None) \<and> nullableSafeId (bs_operator v)"

definition isBrainstormStoreDocument :: "brainstorm_store \<Rightarrow> bool" where
  "isBrainstormStoreDocument s \<longleftrightarrow>
     length s \<le> MAX_BRAINSTORMS \<and> list_all isBrainstormRecord s \<and> length (js_unique (map bs_id s)) = length s"

definition assertCreateInput :: "brainstorm_input \<Rightarrow> js_error + unit" where
  "assertCreateInput i =
     (if length (bi_routes i) < 3 \<or> length (bi_routes i) > 4 then Inl (Error ''brainstorm_route_count'')
      else if \<not> list_all isBrainstormRoute (bi_routes i) then Inl (Error ''invalid_brainstorm'')
      else if length (js_unique (map bt_provider (bi_routes i))) \<noteq> length (bi_routes i)
        then Inl (Error ''brainstorm_provider_duplicate'')
      else if \<not> project_id_pattern (bi_project i) \<or> \<not> boundedString (bi_brief i) MAX_BRIEF_CHARS False \<or>
              \<not> isBrainstormRoute (bi_synthesizer i) \<or>
              \<not> (case bi_arbiter i of None \<Rightarrow> True | Some a \<Rightarrow> isBrainstormRoute a)
        then Inl (Error ''invalid_brainstorm'')
      else if \<not> isCanonicalEnvelope (bi_envelope i) (bi_routes i) (bi_synthesizer i) (bi_arbiter i)
        then Inl (Error ''brainstorm_token_envelope_noncanonical'')
      else Inr ())"

definition sameImmutableFields :: "brainstorm \<Rightarrow> brainstorm \<Rightarrow> bool" where
  "sameImmutableFields a b \<longleftrightarrow>
     bs_id a = bs_id b \<and> bs_project a = bs_project b \<and> bs_brief a = bs_brief b \<and> bs_routes a = bs_routes b \<and>
     bs_synthesizer a = bs_synthesizer b \<and> bs_arbiter a = bs_arbiter b \<and> bs_envelope a = bs_envelope b \<and>
     map (\<lambda>sl. (sl_id sl, sl_stage sl, sl_route sl)) (bs_slots a) =
       map (\<lambda>sl. (sl_id sl, sl_stage sl, sl_route sl)) (bs_slots b) \<and>
     bs_created a = bs_created b"

section \<open>Operations\<close>

text \<open>\<open>fits\<close> says that the serialized document stays within its size limit and can be written.\<close>

definition readBrainstormStore :: "brainstorm_store \<Rightarrow> js_error + brainstorm_store" where
  "readBrainstormStore file =
     (if isBrainstormStoreDocument file then Inr file else Inl (Error ''invalid_brainstorm_store''))"

definition writeBrainstormStore :: "(brainstorm_store \<Rightarrow> bool) \<Rightarrow> brainstorm_store \<Rightarrow> js_error + brainstorm_store" where
  "writeBrainstormStore fits s =
     (if \<not> isBrainstormStoreDocument s \<or> \<not> fits s then Inl (Error ''invalid_brainstorm_store'') else Inr s)"

definition new_brainstorm :: "string \<Rightarrow> brainstorm_input \<Rightarrow> stamp \<Rightarrow> brainstorm" where
  "new_brainstorm fresh i createdAt =
     \<lparr>bs_id = fresh, bs_project = bi_project i, bs_brief = bi_brief i, bs_routes = bi_routes i,
      bs_synthesizer = bi_synthesizer i, bs_arbiter = bi_arbiter i, bs_envelope = bi_envelope i, bs_children = [],
      bs_consolidation = None, bs_arbitration = None, bs_conflicts = [], bs_final = None, bs_status = BDraft,
      bs_revision = 1, bs_approval = Approval_none, bs_group = None,
      bs_slots = planned_slots (length (bi_routes i)) (bi_arbiter i \<noteq> None), bs_operator = None,
      bs_created = createdAt, bs_updated = createdAt\<rparr>"

definition createBrainstorm ::
  "(brainstorm_store \<Rightarrow> bool) \<Rightarrow> string \<Rightarrow> brainstorm_input \<Rightarrow> stamp \<Rightarrow> brainstorm_store \<Rightarrow>
   js_error + brainstorm_store \<times> brainstorm" where
  "createBrainstorm fits fresh i createdAt file =
     bind_result (assertCreateInput i) (\<lambda>_.
     if \<not> canonical_stamp createdAt then Inl (Error ''invalid_brainstorm'')
     else bind_result (readBrainstormStore file) (\<lambda>s.
       if length s \<ge> MAX_BRAINSTORMS then Inl (Error ''brainstorm_limit'')
       else bind_result (writeBrainstormStore fits (s @ [new_brainstorm fresh i createdAt])) (\<lambda>s'.
         Inr (s', new_brainstorm fresh i createdAt))))"

definition replaceBrainstorm ::
  "(brainstorm_store \<Rightarrow> bool) \<Rightarrow> brainstorm \<Rightarrow> brainstorm_store \<Rightarrow> js_error + brainstorm_store \<times> brainstorm" where
  "replaceBrainstorm fits r file =
     (if \<not> isBrainstormRecord r then Inl (Error ''invalid_brainstorm'')
      else bind_result (readBrainstormStore file) (\<lambda>s.
        case findIndex (\<lambda>x. bs_id x = bs_id r) s of
          None \<Rightarrow> Inl (Error ''brainstorm_not_found'')
        | Some k \<Rightarrow>
            if \<not> sameImmutableFields (s ! k) r then Inl (Error ''brainstorm_immutable_fields'')
            else if bs_revision r \<noteq> bs_revision (s ! k) + 1 then Inl (Error ''brainstorm_revision_conflict'')
            else bind_result (writeBrainstormStore fits (s[k := r])) (\<lambda>s'. Inr (s', r))))"

definition compareAndSwapBrainstorm ::
  "(brainstorm_store \<Rightarrow> bool) \<Rightarrow> string \<Rightarrow> int \<Rightarrow> (brainstorm \<Rightarrow> brainstorm) \<Rightarrow> brainstorm_store \<Rightarrow>
   js_error + brainstorm_store \<times> brainstorm" where
  "compareAndSwapBrainstorm fits i expectedRevision mutate file =
     bind_result (readBrainstormStore file) (\<lambda>s.
     case findIndex (\<lambda>x. bs_id x = i) s of
       None \<Rightarrow> Inl (Error ''brainstorm_not_found'')
     | Some k \<Rightarrow>
         if bs_revision (s ! k) \<noteq> expectedRevision then Inl (Error ''brainstorm_revision_conflict'')
         else
           let replacement = (mutate (s ! k))\<lparr>bs_revision := bs_revision (s ! k) + 1\<rparr> in
           if \<not> isBrainstormRecord replacement then Inl (Error ''invalid_brainstorm'')
           else if \<not> sameImmutableFields (s ! k) replacement then Inl (Error ''brainstorm_immutable_fields'')
           else bind_result (writeBrainstormStore fits (s[k := replacement])) (\<lambda>s'. Inr (s', replacement)))"

end
