(* ===== verification/BrainstormTelemetry.thy ===== *)
theory BrainstormTelemetry
  imports BrainstormStore
begin

text \<open>
  \<^verbatim>\<open>src/data/delivery-system/brainstormTelemetry.ts\<close>: one event for each step of a brainstorm's life, recorded once. The
  file is the list of its events; that it has exactly the fields of an event is checked when it is parsed.
\<close>

datatype brainstorm_lifecycle = Ev_created | Ev_fanout_completed | Ev_consolidated | Ev_arbitrated | Ev_failed | Ev_cancelled

record brainstorm_event =
  ev_event :: brainstorm_lifecycle
  ev_brainstorm :: string
  ev_provider_count :: int
  ev_material_conflicts :: int
  ev_estimated_tokens :: int
  ev_actual_tokens :: "int option"
  ev_duration_ms :: "int option"
  ev_at :: stamp

type_synonym brainstorm_telemetry = "brainstorm_event list"

definition MAX_EVENTS :: nat where "MAX_EVENTS = 256 * 6"

definition isEvent :: "brainstorm_event \<Rightarrow> bool" where
  "isEvent e \<longleftrightarrow>
     safeId (ev_brainstorm e) \<and>
     nonNegativeTokenCount (ev_provider_count e) \<and> ev_provider_count e \<ge> 3 \<and> ev_provider_count e \<le> 4 \<and>
     nonNegativeTokenCount (ev_material_conflicts e) \<and> ev_material_conflicts e \<le> 256 \<and>
     nonNegativeTokenCount (ev_estimated_tokens e) \<and>
     (case ev_actual_tokens e of None \<Rightarrow> True | Some n \<Rightarrow> nonNegativeTokenCount n) \<and>
     (case ev_duration_ms e of None \<Rightarrow> True | Some n \<Rightarrow> nonNegativeTokenCount n) \<and> canonical_stamp (ev_at e)"

definition event_key :: "brainstorm_event \<Rightarrow> string \<times> brainstorm_lifecycle" where
  "event_key e = (ev_brainstorm e, ev_event e)"

definition isTelemetryDocument :: "brainstorm_telemetry \<Rightarrow> bool" where
  "isTelemetryDocument es \<longleftrightarrow>
     length es \<le> MAX_EVENTS \<and> list_all isEvent es \<and> length (js_unique (map event_key es)) = length es"

definition readBrainstormTelemetry :: "brainstorm_telemetry \<Rightarrow> js_error + brainstorm_telemetry" where
  "readBrainstormTelemetry file =
     (if isTelemetryDocument file then Inr file else Inl (Error ''invalid_brainstorm_telemetry_store''))"

definition write_telemetry :: "(brainstorm_telemetry \<Rightarrow> bool) \<Rightarrow> brainstorm_telemetry \<Rightarrow> js_error + brainstorm_telemetry" where
  "write_telemetry fits es =
     (if \<not> isTelemetryDocument es \<or> \<not> fits es then Inl (Error ''invalid_brainstorm_telemetry_store'') else Inr es)"

section \<open>Building an event\<close>

definition requiredStages :: "brainstorm_lifecycle \<Rightarrow> brainstorm_stage list" where
  "requiredStages event =
     (case event of Ev_fanout_completed \<Rightarrow> [Fanout] | Ev_consolidated \<Rightarrow> [Fanout, Consolidation]
      | _ \<Rightarrow> [Fanout, Consolidation, Arbitration])"

definition requiredRunIdsFor :: "brainstorm \<Rightarrow> brainstorm_lifecycle \<Rightarrow> string list" where
  "requiredRunIdsFor b event =
     (if event = Ev_created then []
      else js_unique (List.map_filter (\<lambda>sl. if sl_stage sl \<in> set (requiredStages event) then sl_run sl else None) (bs_slots b)))"

fun add_settled :: "run_store \<Rightarrow> string list \<Rightarrow> int \<Rightarrow> int option" where
  "add_settled runs [] n = Some n"
| "add_settled runs (i # is) n =
     (case List.find (\<lambda>r. run_id r = i) runs of
        None \<Rightarrow> None
      | Some r \<Rightarrow> (case token_settled r of
          None \<Rightarrow> None
        | Some t \<Rightarrow>
            if \<not> nonNegativeTokenCount (rs_totalTokens t) \<or> n > MAX_SAFE_INTEGER - rs_totalTokens t then None
            else add_settled runs is (n + rs_totalTokens t)))"

definition sumSettledTokens :: "string list \<Rightarrow> run_store \<Rightarrow> int option" where
  "sumSettledTokens ids runs = add_settled runs ids 0"

definition event_of :: "brainstorm \<Rightarrow> run_store \<Rightarrow> brainstorm_lifecycle \<Rightarrow> stamp \<Rightarrow> brainstorm_event" where
  "event_of b runs event at' =
     \<lparr>ev_event = event, ev_brainstorm = bs_id b, ev_provider_count = int (length (bs_routes b)),
      ev_material_conflicts = int (length (filter cf_material (bs_conflicts b))),
      ev_estimated_tokens = maximum_tokens (bs_envelope b),
      ev_actual_tokens = (if event = Ev_created then None else sumSettledTokens (requiredRunIdsFor b event) runs),
      ev_duration_ms = (case (date_parse (bs_created b), date_parse at') of
          (Some started, Some ended) \<Rightarrow> if ended \<ge> started then Some (ended - started) else None
        | _ \<Rightarrow> None),
      ev_at = at'\<rparr>"

definition buildBrainstormTelemetryEvent ::
  "brainstorm \<Rightarrow> run_store \<Rightarrow> brainstorm_lifecycle \<Rightarrow> stamp \<Rightarrow> js_error + brainstorm_event" where
  "buildBrainstormTelemetryEvent b runs event at' =
     (let t = event_of b runs event at'
      in if \<not> isEvent t then Inl (Error ''invalid_brainstorm_telemetry'') else Inr t)"

section \<open>Recording\<close>

definition recordBrainstormTelemetryEvent ::
  "(brainstorm_telemetry \<Rightarrow> bool) \<Rightarrow> brainstorm_event \<Rightarrow> brainstorm_telemetry \<Rightarrow>
   js_error + brainstorm_telemetry \<times> brainstorm_event" where
  "recordBrainstormTelemetryEvent fits event file =
     (if \<not> isEvent event then Inl (Error ''invalid_brainstorm_telemetry'')
      else bind_result (readBrainstormTelemetry file) (\<lambda>es.
        case List.find (\<lambda>c. ev_brainstorm c = ev_brainstorm event \<and> ev_event c = ev_event event) es of
          Some existing \<Rightarrow>
            if existing \<noteq> event then Inl (Error ''brainstorm_telemetry_conflict'') else Inr (file, existing)
        | None \<Rightarrow>
            if length es \<ge> MAX_EVENTS then Inl (Error ''brainstorm_telemetry_limit'')
            else bind_result (write_telemetry fits (es @ [event])) (\<lambda>es'. Inr (es', event))))"

definition recordBrainstormTelemetryLifecycle ::
  "(brainstorm_telemetry \<Rightarrow> bool) \<Rightarrow> brainstorm \<Rightarrow> run_store \<Rightarrow> brainstorm_lifecycle \<Rightarrow> stamp \<Rightarrow>
   brainstorm_telemetry \<Rightarrow> js_error + brainstorm_telemetry \<times> brainstorm_event" where
  "recordBrainstormTelemetryLifecycle fits b runs event at' file =
     bind_result (readBrainstormTelemetry file) (\<lambda>es.
     case List.find (\<lambda>c. ev_brainstorm c = bs_id b \<and> ev_event c = event) es of
       Some existing \<Rightarrow> Inr (file, existing)
     | None \<Rightarrow>
         bind_result (buildBrainstormTelemetryEvent b runs event at') (\<lambda>t.
         if length es \<ge> MAX_EVENTS then Inl (Error ''brainstorm_telemetry_limit'')
         else bind_result (write_telemetry fits (es @ [t])) (\<lambda>es'. Inr (es', t))))"

end
