(* ===== verification/BrainstormLaws.thy ===== *)
theory BrainstormLaws
  imports BrainstormCoordinator RunOutcomes
begin

text \<open>
  What each operation of the coordinator keeps of the stored brainstorms: the document stays valid, a brainstorm only moves
  forward in its life cycle, and what holds of it in its status (\<open>brainstorm_ok\<close>) still holds. One brainstorm is followed
  through the calls of an operation (\<open>follows\<close>), wherever it ends or throws.
\<close>

section \<open>The life cycle\<close>

fun bs_next :: "brainstorm_status \<Rightarrow> brainstorm_status list" where
  "bs_next BDraft = [BApproved, BCancelled]"
| "bs_next BApproved = [BFanout_running, BFailed, BCancelled]"
| "bs_next BFanout_running = [BConsolidating, BFailed, BCancelled]"
| "bs_next BConsolidating = [BNeeds_arbitration, BCompleted, BFailed, BCancelled]"
| "bs_next BNeeds_arbitration = [BArbitrating, BFailed]"
| "bs_next BArbitrating = [BCompleted, BFailed]"
| "bs_next _ = []"

fun bs_rank :: "brainstorm_status \<Rightarrow> nat" where
  "bs_rank BDraft = 0" | "bs_rank BApproved = 1" | "bs_rank BFanout_running = 2" | "bs_rank BConsolidating = 3"
| "bs_rank BNeeds_arbitration = 4" | "bs_rank BArbitrating = 5" | "bs_rank _ = 6"

definition bs_moves :: "brainstorm_status \<Rightarrow> brainstorm_status \<Rightarrow> bool" where
  "bs_moves s t \<longleftrightarrow> t \<in> set (bs_next s)"

interpretation brainstorms: life_cycle bs_moves bs_rank 6
proof
  show "bs_moves s t \<Longrightarrow> bs_rank s < bs_rank t" for s t by (cases s; cases t) (simp_all add: bs_moves_def)
  show "bs_rank s \<le> 6" for s by (cases s) simp_all
qed

section \<open>What holds of a brainstorm\<close>

text \<open>The route that arbitrates is of none of the providers whose outputs are in a material conflict.\<close>

definition independent_arbiter :: "brainstorm \<Rightarrow> bool" where
  "independent_arbiter b \<longleftrightarrow>
     (case bs_arbiter b of None \<Rightarrow> False
      | Some a \<Rightarrow> list_all (\<lambda>i. case providerForChildRun b i of Inl _ \<Rightarrow> False | Inr p \<Rightarrow> p \<noteq> bt_provider a)
          (conflict_runs (material_conflicts b)))"

definition arbitration_bound :: "brainstorm \<Rightarrow> bool" where
  "arbitration_bound b \<longleftrightarrow> list_all (\<lambda>sl. sl_stage sl = Arbitration \<and> sl_run sl \<noteq> None \<longrightarrow> bs_arbitration b \<noteq> None) (bs_slots b)"

definition brainstorm_ok :: "brainstorm \<Rightarrow> bool" where
  "brainstorm_ok b \<longleftrightarrow> arbitration_bound b \<and>
     (case bs_status b of
        BDraft \<Rightarrow> bs_approval b = Approval_none \<and> bs_operator b = None \<and> bs_group b = None \<and> bs_conflicts b = [] \<and> bs_final b = None
      | BNeeds_arbitration \<Rightarrow> material_conflicts b \<noteq> [] \<and> bs_final b = None
      | BArbitrating \<Rightarrow> material_conflicts b \<noteq> [] \<and> bs_final b = None \<and> independent_arbiter b \<and> bs_arbitration b \<noteq> None
      | BCompleted \<Rightarrow> bs_final b \<noteq> None \<and> (material_conflicts b = [] \<or> independent_arbiter b \<and> bs_arbitration b \<noteq> None)
      | BFailed \<Rightarrow> True
      | BCancelled \<Rightarrow> True
      | _ \<Rightarrow> bs_conflicts b = [] \<and> bs_final b = None)"

definition store_ok :: "brainstorm_store \<Rightarrow> bool" where
  "store_ok s \<longleftrightarrow> isBrainstormStoreDocument s \<and> list_all brainstorm_ok s"

text \<open>How a stored brainstorm may change.\<close>

definition brainstorm_le :: "brainstorm \<Rightarrow> brainstorm \<Rightarrow> bool" where
  "brainstorm_le b b' \<longleftrightarrow> sameImmutableFields b b' \<and> bs_moves\<^sup>*\<^sup>* (bs_status b) (bs_status b') \<and>
     (if bs_revision b' = bs_revision b then b' = b else bs_revision b < bs_revision b') \<and>
     (terminal_brainstorm (bs_status b) \<longrightarrow> b' = b) \<and>
     (bs_operator b \<noteq> None \<longrightarrow> bs_operator b' = bs_operator b) \<and> (bs_group b \<noteq> None \<longrightarrow> bs_group b' = bs_group b)"

definition store_le :: "brainstorm_store \<Rightarrow> brainstorm_store \<Rightarrow> bool" where
  "store_le s s' \<longleftrightarrow> (store_ok s \<longrightarrow> store_ok s' \<and> (\<forall>b \<in> set s. \<exists>b' \<in> set s'. brainstorm_le b b'))"

lemma sameImmutable_refl [simp]: "sameImmutableFields b b"
  by (simp add: sameImmutableFields_def)

lemma sameImmutable_trans: "sameImmutableFields a b \<Longrightarrow> sameImmutableFields b c \<Longrightarrow> sameImmutableFields a c"
  by (simp add: sameImmutableFields_def)

lemma brainstorm_le_refl [simp]: "brainstorm_le b b"
  by (simp add: brainstorm_le_def)

lemma brainstorm_le_trans:
  assumes "brainstorm_le a b" and "brainstorm_le b c"
  shows "brainstorm_le a c"
  using assms sameImmutable_trans [of a b c] rtranclp_trans [of bs_moves "bs_status a" "bs_status b" "bs_status c"]
  unfolding brainstorm_le_def by (auto split: if_splits)

lemma store_le_refl [simp]: "store_le s s"
  unfolding store_le_def by (blast intro: brainstorm_le_refl)

lemma store_le_trans: "store_le s t \<Longrightarrow> store_le t u \<Longrightarrow> store_le s u"
  unfolding store_le_def by (metis brainstorm_le_trans)

definition brain_le :: "brain_world \<Rightarrow> brain_world \<Rightarrow> bool" where
  "brain_le w w' \<longleftrightarrow> store_le (bw_store w) (bw_store w')"

interpretation brain: state_order brain_le
  by unfold_locales (simp_all add: brain_le_def, rule store_le_trans)

section \<open>Calls that leave the brainstorms alone\<close>

definition same_store :: "brain_world \<Rightarrow> brain_world \<Rightarrow> bool" where
  "same_store w w' \<longleftrightarrow> bw_store w' = bw_store w"

interpretation store: state_order same_store
  by unfold_locales (simp_all add: same_store_def)

lemma same_store_calls [io_keeps]:
  "preserving same_store (bio_run m)" "preserving same_store (bio_now E)" "preserving same_store (bio_nonce E)"
  "preserving same_store (bio_events f)" "preserving same_store (bio_get i)"
  by (auto simp: preserving_def same_store_def bio_run_def bio_now_def bio_nonce_def bio_events_def bio_get_def
      split: prod.splits sum.splits)

lemma same_store_read [io_keeps]: "preserving same_store bio_read_runs"
  unfolding bio_read_runs_def by (intro io_keeps)

lemma same_store_emit [io_keeps]: "preserving same_store (bio_emit E b event at')"
  unfolding bio_emit_def by (intro store.keeps_calls io_keeps preserving_cases)

lemma same_store_cleanup [io_keeps]: "preserving same_store (cleanupGroup E b)"
  unfolding cleanupGroup_def Let_def by (intro store.keeps_calls io_keeps preserving_cases)

lemma same_store_prompts [io_keeps]:
  "preserving same_store (consolidationPrompt E brief outputs)"
  "preserving same_store (arbitrationPrompt E brief conflicts known)"
  unfolding consolidationPrompt_def arbitrationPrompt_def Let_def by (intro store.keeps_calls io_keeps preserving_cases)+

lemma same_store_eligible [io_keeps]: "preserving same_store (require_eligible E route)"
  unfolding require_eligible_def bio_eligible_def by (intro store.keeps_calls io_keeps preserving_cases)

lemma same_store_ensure [io_keeps]: "preserving same_store (ensure_slot_run E gid sid draft operator)"
  unfolding ensure_slot_run_def by (intro io_keeps)

section \<open>A brainstorm in its store\<close>

lemma findIndex_find: "findIndex P xs = Some k \<Longrightarrow> List.find P xs = Some (xs ! k)"
  by (induction xs arbitrary: k) (auto split: if_splits)

lemma find_update_same:
  assumes "findIndex P xs = Some k" and "P y"
  shows "List.find P (xs[k := y]) = Some y"
  using assms by (induction xs arbitrary: k) (auto split: if_splits)

definition holds :: "brainstorm \<Rightarrow> brain_world \<Rightarrow> bool" where
  "holds b w \<longleftrightarrow> store_ok (bw_store w) \<and> List.find (\<lambda>x. bs_id x = bs_id b) (bw_store w) = Some b"

lemma holds_mem: "holds b w \<Longrightarrow> b \<in> set (bw_store w) \<and> isBrainstormRecord b \<and> brainstorm_ok b"
  by (auto simp: holds_def store_ok_def isBrainstormStoreDocument_def list_all_iff dest: find_SomeD)

lemma holds_same_store: "same_store w w' \<Longrightarrow> holds b w' \<longleftrightarrow> holds b w"
  by (simp add: holds_def same_store_def)

lemma find_brainstorm_holds: "store_ok (bw_store w) \<Longrightarrow> find_brainstorm i (bw_store w) = Inr b \<longleftrightarrow> holds b w \<and> bs_id b = i"
  by (auto simp: find_brainstorm_def readBrainstormStore_def store_ok_def holds_def split: option.splits dest: find_SomeD)

lemma holds_find: "holds b w \<Longrightarrow> find_brainstorm (bs_id b) (bw_store w) = Inr b"
  by (simp add: find_brainstorm_def readBrainstormStore_def store_ok_def holds_def)

text \<open>A legal change of one brainstorm: the store stays fine and moves on.\<close>

definition advances :: "brainstorm \<Rightarrow> brainstorm \<Rightarrow> bool" where
  "advances b b' \<longleftrightarrow> brainstorm_ok b' \<and> \<not> terminal_brainstorm (bs_status b) \<and>
     (bs_status b' = bs_status b \<or> bs_moves (bs_status b) (bs_status b')) \<and>
     (bs_operator b \<noteq> None \<longrightarrow> bs_operator b' = bs_operator b) \<and> (bs_group b \<noteq> None \<longrightarrow> bs_group b' = bs_group b)"

lemma store_le_update:
  assumes "store_ok s" and "k < length s" and "isBrainstormStoreDocument (s[k := b'])" and "advances (s ! k) b'"
    and "sameImmutableFields (s ! k) b'" and "bs_revision b' = bs_revision (s ! k) + 1"
  shows "store_ok (s[k := b']) \<and> store_le s (s[k := b'])"
proof -
  have le: "brainstorm_le (s ! k) b'" using assms by (auto simp: brainstorm_le_def advances_def)
  have "\<exists>y \<in> set (s[k := b']). brainstorm_le x y" if x: "x \<in> set s" for x
  proof -
    obtain j where j: "j < length s" "x = s ! j" using x by (auto simp: in_set_conv_nth)
    show ?thesis
    proof (cases "j = k")
      case True
      with j le assms(2) show ?thesis by (intro bexI [of _ b']) (auto intro: set_update_memI)
    next
      case False
      with j have "x = s[k := b'] ! j" "j < length (s[k := b'])" by auto
      then have "x \<in> set (s[k := b'])" by (metis nth_mem)
      then show ?thesis by (intro bexI [of _ x]) simp_all
    qed
  qed
  moreover have "store_ok (s[k := b'])"
    using assms(1,3,4) set_update_subset_insert [of s k b'] by (auto simp: store_ok_def advances_def list_all_iff)
  ultimately show ?thesis by (simp add: store_le_def)
qed

definition updated_by :: "(brainstorm \<Rightarrow> brainstorm) \<Rightarrow> brainstorm \<Rightarrow> brainstorm \<Rightarrow> bool" where
  "updated_by f b b' \<longleftrightarrow> (\<exists>t. b' = (f (b\<lparr>bs_updated := t\<rparr>))\<lparr>bs_revision := bs_revision b + 1\<rparr>)"

lemma cas_outcome:
  assumes cas: "compareAndSwapBrainstorm fits i n f s = Inr (s', b')"
  obtains k where "findIndex (\<lambda>x. bs_id x = i) s = Some k" "bs_revision (s ! k) = n"
    "b' = (f (s ! k))\<lparr>bs_revision := n + 1\<rparr>" "isBrainstormRecord b'" "sameImmutableFields (s ! k) b'" "s' = s[k := b']"
    "isBrainstormStoreDocument s'"
proof (cases "findIndex (\<lambda>x. bs_id x = i) s")
  case None
  with cas show ?thesis by (auto simp: compareAndSwapBrainstorm_def readBrainstormStore_def split: if_splits)
next
  case (Some k)
  with cas that [of k] show ?thesis
    by (auto simp: compareAndSwapBrainstorm_def readBrainstormStore_def writeBrainstormStore_def Let_def split: if_splits)
qed

lemma cas_advances:
  assumes b: "store_ok s" "List.find (\<lambda>x. bs_id x = bs_id b) s = Some b"
    and f: "\<And>b'. updated_by f b b' \<Longrightarrow> isBrainstormRecord b' \<Longrightarrow> sameImmutableFields b b' \<Longrightarrow> advances b b'"
    and cas: "compareAndSwapBrainstorm fits (bs_id b) (bs_revision b) (\<lambda>r. f (r\<lparr>bs_updated := t\<rparr>)) s = Inr (s', b')"
  shows "store_ok s' \<and> store_le s s' \<and> List.find (\<lambda>x. bs_id x = bs_id b') s' = Some b' \<and> updated_by f b b' \<and>
    isBrainstormRecord b' \<and> sameImmutableFields b b'"
  using cas
proof (rule cas_outcome)
  fix k
  assume k: "findIndex (\<lambda>x. bs_id x = bs_id b) s = Some k"
    and b': "b' = (f ((s ! k)\<lparr>bs_updated := t\<rparr>))\<lparr>bs_revision := bs_revision b + 1\<rparr>" "isBrainstormRecord b'"
      "sameImmutableFields (s ! k) b'" and s': "s' = s[k := b']" "isBrainstormStoreDocument s'"
  from findIndex_find [OF k] b(2) have sk: "s ! k = b" by simp
  have u: "updated_by f b b'" using b'(1) by (auto simp: updated_by_def sk)
  have adv: "advances b b'" using f [OF u] b' by (simp add: sk)
  have "bs_id b' = bs_id b" using b'(3) by (simp add: sameImmutableFields_def sk)
  then have "List.find (\<lambda>x. bs_id x = bs_id b') s' = Some b'"
    using find_update_same [OF k, of b'] by (simp add: s'(1))
  moreover have "store_ok s' \<and> store_le s s'"
    using store_le_update [OF b(1), of k b'] findIndex_Some [OF k] adv b' s' by (simp add: sk)
  ultimately show ?thesis using u b' by (simp add: sk)
qed

lemma bio_update_ends:
  assumes b: "holds b w"
    and f: "\<And>b'. updated_by f b b' \<Longrightarrow> isBrainstormRecord b' \<Longrightarrow> sameImmutableFields b b' \<Longrightarrow> advances b b'"
  shows "ends (bio_update E b f) (\<lambda>b' w'. brain_le w w' \<and> holds b' w' \<and> updated_by f b b' \<and> isBrainstormRecord b' \<and>
    sameImmutableFields b b') (\<lambda>_. same_store w) w"
  using b cas_advances [OF _ _ f, of "bw_store w"]
  unfolding bio_update_def io_ends
  by (auto simp: ends_def bio_now_def bio_store_def brain_le_def holds_def same_store_def split: sum.splits prod.splits)

section \<open>Following one brainstorm through a call\<close>

definition follows :: "brain_world \<Rightarrow> brainstorm \<Rightarrow> brain_world \<Rightarrow> bool" where
  "follows w0 b w \<longleftrightarrow> brain_le w0 w \<and> holds b w"

lemma follows_le: "follows w0 b w \<Longrightarrow> brain_le w0 w"
  by (simp add: follows_def)

lemma follows_valid: "follows w0 b w \<Longrightarrow> isBrainstormRecord b \<and> brainstorm_ok b"
  using holds_mem by (auto simp: follows_def)

lemma brain_le_same: "brain_le w0 w \<Longrightarrow> same_store w w' \<Longrightarrow> brain_le w0 w'"
  by (simp add: brain_le_def same_store_def)

lemma follows_same: "follows w0 b w \<Longrightarrow> same_store w w' \<Longrightarrow> follows w0 b w'"
  using brain_le_same holds_same_store by (auto simp: follows_def)

lemma follows_keep:
  assumes "follows w0 b w" and "preserving same_store m" and "\<And>x w'. follows w0 b w' \<Longrightarrow> Q x w'"
    and "\<And>e w'. follows w0 b w' \<Longrightarrow> R e w'"
  shows "ends m Q R w"
  by (rule ends_keeping [OF assms(2)]) (use follows_same [OF assms(1)] assms(3,4) in blast)+

lemma follows_get:
  assumes "follows w0 b w" and "i = bs_id b" and "Q b w"
  shows "ends (bio_get i) Q R w"
  using assms holds_find [of b w] by (simp add: ends_def bio_get_def follows_def)

lemma follows_update:
  assumes "follows w0 b w"
    and "\<And>b'. updated_by f b b' \<Longrightarrow> isBrainstormRecord b' \<Longrightarrow> sameImmutableFields b b' \<Longrightarrow> advances b b'"
    and "\<And>b' w'. follows w0 b' w' \<Longrightarrow> updated_by f b b' \<Longrightarrow> sameImmutableFields b b' \<Longrightarrow> Q b' w'"
    and "\<And>e w'. follows w0 b w' \<Longrightarrow> R e w'"
  shows "ends (bio_update E b f) Q R w"
proof (rule ends_mono [OF bio_update_ends])
  show "holds b w" using assms(1) by (simp add: follows_def)
  show "Q b' w'" if "brain_le w w' \<and> holds b' w' \<and> updated_by f b b' \<and> isBrainstormRecord b' \<and> sameImmutableFields b b'" for b' w'
  proof -
    from that assms(1) have "follows w0 b' w'" unfolding follows_def by (blast intro: brain.le_trans)
    with that assms(3) show ?thesis by blast
  qed
  show "R e w'" if "same_store w w'" for e w' using that assms(1,4) follows_same by blast
qed (rule assms(2))

lemma updated_by_fields:
  assumes "updated_by f b b'"
  obtains t where "b' = (f (b\<lparr>bs_updated := t\<rparr>))\<lparr>bs_revision := bs_revision b + 1\<rparr>"
  using assms by (auto simp: updated_by_def)

text \<open>What \<open>brainstorm_ok\<close> looks at.\<close>

lemma providerForChildRun_slots:
  "bs_slots b' = bs_slots b \<Longrightarrow> bs_routes b' = bs_routes b \<Longrightarrow> providerForChildRun b' = providerForChildRun b"
  by (simp add: fun_eq_iff providerForChildRun_def split: option.split)

lemma independent_arbiterD:
  assumes "independent_arbiter b"
  shows "\<exists>a. bs_arbiter b = Some a \<and>
    (\<forall>i \<in> set (conflict_runs (material_conflicts b)). \<exists>p. providerForChildRun b i = Inr p \<and> p \<noteq> bt_provider a)"
proof -
  have "\<exists>p. r = Inr p \<and> p \<noteq> q" if "case r of Inl _ \<Rightarrow> False | Inr p \<Rightarrow> p \<noteq> q" for r :: "js_error + run_provider" and q
    using that by (cases r) simp_all
  with assms show ?thesis by (cases "bs_arbiter b") (simp_all add: independent_arbiter_def list_all_iff)
qed

lemma independent_arbiter_cong:
  assumes "bs_slots b' = bs_slots b" and "bs_routes b' = bs_routes b" and "bs_arbiter b' = bs_arbiter b"
    and "bs_conflicts b' = bs_conflicts b"
  shows "independent_arbiter b' = independent_arbiter b"
  using assms providerForChildRun_slots [OF assms(1,2)]
  by (simp add: independent_arbiter_def material_conflicts_def split: option.split)

lemma independent_arbiter_updates [simp]:
  "independent_arbiter (b\<lparr>bs_updated := t\<rparr>) = independent_arbiter b"
  "independent_arbiter (b\<lparr>bs_revision := n\<rparr>) = independent_arbiter b"
  "independent_arbiter (b\<lparr>bs_status := st\<rparr>) = independent_arbiter b"
  by (rule independent_arbiter_cong; simp)+

section \<open>Failing\<close>

lemma set_status_advances:
  assumes "updated_by (\<lambda>r. r\<lparr>bs_status := st\<rparr>) b b'" and "brainstorm_ok (b\<lparr>bs_status := st\<rparr>)" and "bs_moves (bs_status b) st"
  shows "advances b b'"
proof -
  obtain t where b': "b' = b\<lparr>bs_updated := t, bs_status := st, bs_revision := bs_revision b + 1\<rparr>"
    using assms(1) by (auto simp: updated_by_def)
  have "brainstorm_ok b' = brainstorm_ok (b\<lparr>bs_status := st\<rparr>)"
    by (cases st) (simp_all add: b' brainstorm_ok_def arbitration_bound_def material_conflicts_def)
  moreover have "\<not> terminal_brainstorm (bs_status b)"
    using assms(3) by (auto simp: terminal_brainstorm_def bs_moves_def)
  ultimately show ?thesis using assms(2,3) by (simp add: advances_def b')
qed

lemma failing_ok: "brainstorm_ok b \<Longrightarrow> brainstorm_ok (b\<lparr>bs_status := BFailed\<rparr>)"
  by (simp add: brainstorm_ok_def arbitration_bound_def)

lemma cancelling_ok: "brainstorm_ok b \<Longrightarrow> brainstorm_ok (b\<lparr>bs_status := BCancelled\<rparr>)"
  by (simp add: brainstorm_ok_def arbitration_bound_def)

lemma follows_emit:
  assumes "follows w0 b w"
  shows "ends (bio_emit E r event t) (\<lambda>_. follows w0 b) (\<lambda>_. brain_le w0) w"
  by (rule follows_keep [OF assms same_store_emit]) (simp_all add: follows_le)

lemma after_cleanup:
  assumes "follows w0 b w"
  shows "ends (io_bind (cleanupGroup E b) (\<lambda>_. io_bind (bio_get (bs_id b)) (\<lambda>r. io_bind (bio_emit E r event None) (\<lambda>_. io_return r))))
    (follows w0) (\<lambda>_. brain_le w0) w"
proof -
  have "ends (bio_get (bs_id b)) (\<lambda>r. ends (bio_emit E r event None) (\<lambda>_. follows w0 r) (\<lambda>_. brain_le w0)) (\<lambda>_. brain_le w0) w'"
    if "follows w0 b w'" for w' by (rule follows_get [OF that refl]) (rule follows_emit [OF that])
  then show ?thesis
    unfolding io_ends by (intro follows_keep [OF assms same_store_cleanup]) (simp_all add: follows_le)
qed

lemma markFailed_ends:
  assumes b: "follows w0 b w" and st: "bs_status b \<notin> {BDraft, BCompleted, BCancelled}"
  shows "ends (markFailed E b) (follows w0) (\<lambda>_. brain_le w0) w"
proof (cases "bs_status b = BFailed")
  case True
  then show ?thesis unfolding markFailed_def using after_cleanup [OF b] by (simp add: io_ends)
next
  case False
  then have "bs_moves (bs_status b) BFailed" using st by (cases "bs_status b") (simp_all add: bs_moves_def)
  then have adv: "advances b b'" if "updated_by (\<lambda>r. r\<lparr>bs_status := BFailed\<rparr>) b b'" for b'
    using set_status_advances [OF that failing_ok] follows_valid [OF b] by blast
  show ?thesis
    unfolding markFailed_def using False
    by (simp add: ends_bind) (rule follows_update [OF b adv], assumption, use after_cleanup follows_le in \<open>simp_all add: io_ends\<close>)
qed

section \<open>Binding a slot\<close>

declare nat_text.simps [simp del]

lemma planned_stage:
  assumes "p \<in> set (planned_slots n h)" and "q \<in> set (planned_slots n h)" and "sl_id p = sl_id q"
  shows "sl_stage p = sl_stage q"
  using assms by (auto simp: planned_slots_def planned_slot_def split: if_splits)

lemma slot_planned:
  assumes "isBrainstormRecord b" and "x \<in> set (bs_slots b)"
  obtains p where "p \<in> set (planned_slots (length (bs_routes b)) (bs_arbiter b \<noteq> None))" "same_slot x p"
proof -
  let ?P = "planned_slots (length (bs_routes b)) (bs_arbiter b \<noteq> None)"
  have v: "validSlots (bs_slots b) (length (bs_routes b)) (bs_arbiter b \<noteq> None)"
    using assms(1) by (simp add: isBrainstormRecord_def)
  have len: "length (bs_slots b) = length ?P" using v by (simp add: validSlots_def planned_slots_def)
  obtain k where k: "k < length (bs_slots b)" "x = bs_slots b ! k" using assms(2) by (auto simp: in_set_conv_nth)
  then have "(x, ?P ! k) \<in> set (zip (bs_slots b) ?P)" using len by (auto simp: in_set_zip)
  then have "same_slot x (?P ! k)" using v by (auto simp: validSlots_def list_all_iff)
  moreover have "?P ! k \<in> set ?P" using k len by (intro nth_mem) simp
  ultimately show ?thesis by (rule that [rotated])
qed

lemma slot_stage_by_id:
  assumes "isBrainstormRecord b" and "x \<in> set (bs_slots b)" and "y \<in> set (bs_slots b)" and "sl_id x = sl_id y"
  shows "sl_stage x = sl_stage y"
proof -
  obtain p where p: "p \<in> set (planned_slots (length (bs_routes b)) (bs_arbiter b \<noteq> None))" "same_slot x p"
    using slot_planned [OF assms(1,2)] .
  obtain q where q: "q \<in> set (planned_slots (length (bs_routes b)) (bs_arbiter b \<noteq> None))" "same_slot y q"
    using slot_planned [OF assms(1,3)] .
  from p(2) q(2) assms(4) have "sl_id p = sl_id q" by (simp add: same_slot_def)
  from planned_stage [OF p(1) q(1) this] p(2) q(2) show ?thesis by (simp add: same_slot_def)
qed

lemma slot_stage_named:
  assumes "isBrainstormRecord b" and "x \<in> set (bs_slots b)"
  shows "sl_id x = ''arbitration'' \<Longrightarrow> sl_stage x = Arbitration" "sl_id x = ''consolidation'' \<Longrightarrow> sl_stage x = Consolidation"
proof -
  obtain p where p: "p \<in> set (planned_slots (length (bs_routes b)) (bs_arbiter b \<noteq> None))" "same_slot x p"
    using slot_planned [OF assms] .
  then have "sl_id p = ''arbitration'' \<longrightarrow> sl_stage p = Arbitration" "sl_id p = ''consolidation'' \<longrightarrow> sl_stage p = Consolidation"
    by (auto simp: planned_slots_def planned_slot_def split: if_splits)
  with p show "sl_id x = ''arbitration'' \<Longrightarrow> sl_stage x = Arbitration" "sl_id x = ''consolidation'' \<Longrightarrow> sl_stage x = Consolidation"
    by (simp_all add: same_slot_def)
qed

lemma find_map_unaffected:
  assumes "\<And>x. x \<in> set xs \<Longrightarrow> P (g x) = P x" and "\<And>x. x \<in> set xs \<Longrightarrow> P x \<Longrightarrow> g x = x"
  shows "List.find P (map g xs) = List.find P xs"
  using assms by (induction xs) auto

text \<open>Binding any slot but one of the fan-out leaves the providers of the fan-out runs.\<close>

lemma bind_keeps_providers:
  assumes b: "isBrainstormRecord b" "sl \<in> set (bs_slots b)" and st: "sl_stage sl \<noteq> Fanout"
  shows "providerForChildRun (bind_slot_to sl rid b) = providerForChildRun b"
proof
  fix i
  have other: "sl_stage x \<noteq> Fanout" if "x \<in> set (bs_slots b)" "sl_id x = sl_id sl" for x
    using slot_stage_by_id [OF b(1) that(1) b(2) that(2)] st by metis
  have "List.find (\<lambda>x. sl_stage x = Fanout \<and> sl_run x = Some i) (bs_slots (bind_slot_to sl rid b)) =
      List.find (\<lambda>x. sl_stage x = Fanout \<and> sl_run x = Some i) (bs_slots b)"
    unfolding bind_slot_to_def Let_def using other by (simp, intro find_map_unaffected) auto
  then show "providerForChildRun (bind_slot_to sl rid b) i = providerForChildRun b i"
    by (simp add: providerForChildRun_def bind_slot_to_def Let_def split: option.split)
qed

text \<open>What a binding leaves as it was.\<close>

definition same_progress :: "brainstorm \<Rightarrow> brainstorm \<Rightarrow> bool" where
  "same_progress b b' \<longleftrightarrow> bs_status b' = bs_status b \<and> bs_conflicts b' = bs_conflicts b \<and> bs_final b' = bs_final b \<and>
     bs_approval b' = bs_approval b \<and> bs_group b' = bs_group b \<and> bs_operator b' = bs_operator b \<and>
     bs_id b' = bs_id b \<and> bs_arbiter b' = bs_arbiter b"

lemma bound_fields:
  assumes b: "isBrainstormRecord b" "arbitration_bound b" and sl: "sl \<in> set (bs_slots b)"
    and u: "updated_by (bind_slot_to sl rid) b b'"
  shows "same_progress b b'" and "arbitration_bound b'" and "sl_stage sl = Arbitration \<Longrightarrow> bs_arbitration b' \<noteq> None"
    and "sl_stage sl \<noteq> Fanout \<Longrightarrow> independent_arbiter b' = independent_arbiter b"
proof -
  obtain t where b': "b' = (bind_slot_to sl rid (b\<lparr>bs_updated := t\<rparr>))\<lparr>bs_revision := bs_revision b + 1\<rparr>"
    using u by (auto simp: updated_by_def)
  show same: "same_progress b b'" by (simp add: b' same_progress_def bind_slot_to_def Let_def)
  show "sl_stage sl = Arbitration \<Longrightarrow> bs_arbitration b' \<noteq> None" by (simp add: b' bind_slot_to_def Let_def)
  have other: "sl_stage sl = Arbitration" if "x \<in> set (bs_slots b)" "sl_id x = sl_id sl" "sl_stage x = Arbitration" for x
    using slot_stage_by_id [OF b(1) that(1) sl that(2)] that(3) by metis
  show "arbitration_bound b'"
    using b(2) by (auto simp: b' arbitration_bound_def bind_slot_to_def Let_def list_all_iff split: if_splits dest: other)
  show "independent_arbiter b' = independent_arbiter b" if st: "sl_stage sl \<noteq> Fanout"
  proof -
    have "providerForChildRun b' = providerForChildRun (bind_slot_to sl rid b)"
      by (rule providerForChildRun_slots) (simp_all add: b' bind_slot_to_def Let_def)
    then have "providerForChildRun b' = providerForChildRun b" using bind_keeps_providers [OF b(1) sl st] by simp
    then show ?thesis using same
      by (simp add: independent_arbiter_def material_conflicts_def same_progress_def split: option.split)
  qed
qed

text \<open>A call that threw and left the brainstorm where it was.\<close>

definition stuck :: "brain_world \<Rightarrow> brainstorm \<Rightarrow> brain_world \<Rightarrow> bool" where
  "stuck w0 b w \<longleftrightarrow> (\<exists>b'. follows w0 b' w \<and> same_progress b b')"

lemma stuckI: "follows w0 b w \<Longrightarrow> stuck w0 b w"
  by (auto simp: stuck_def same_progress_def)

lemma stuck_progress: "follows w0 b' w \<Longrightarrow> same_progress b b' \<Longrightarrow> stuck w0 b w"
  by (auto simp: stuck_def)

lemma stuck_le: "stuck w0 b w \<Longrightarrow> brain_le w0 w"
  by (auto simp: stuck_def follows_le)

lemma bindSlot_ends:
  assumes b: "follows w0 b w" and st: "bs_status b \<in> {BApproved, BFanout_running} \<or> bs_status b = BNeeds_arbitration \<and> sid = ''arbitration''"
  shows "ends (bindSlot E b sid rid) (\<lambda>b' w'. follows w0 b' w' \<and> same_progress b b' \<and>
      (sid = ''arbitration'' \<longrightarrow> bs_arbitration b' \<noteq> None \<and> independent_arbiter b' = independent_arbiter b))
    (\<lambda>_. stuck w0 b) w"
proof (cases "List.find (\<lambda>x. sl_id x = sid) (bs_slots b)")
  case None
  then show ?thesis using stuckI [OF b] by (simp add: bindSlot_def io_ends)
next
  case (Some sl)
  then have sl: "sl \<in> set (bs_slots b)" "sl_id sl = sid" by (auto dest: find_SomeD)
  note valid = follows_valid [OF b]
  then have arb: "arbitration_bound b" by (simp add: brainstorm_ok_def)
  have named: "sl_stage sl = Arbitration" if "sid = ''arbitration''"
    using slot_stage_named(1) [of b sl] valid sl that by simp
  have adv: "advances b b'" if u: "updated_by (bind_slot_to sl rid) b b'" for b'
    using bound_fields [OF _ arb sl(1) u] valid st
    by (auto simp: advances_def brainstorm_ok_def same_progress_def material_conflicts_def terminal_brainstorm_def)
  have updated: "ends (bio_update E b (bind_slot_to sl rid)) (\<lambda>b' w'. follows w0 b' w' \<and> same_progress b b' \<and>
      (sid = ''arbitration'' \<longrightarrow> bs_arbitration b' \<noteq> None \<and> independent_arbiter b' = independent_arbiter b))
    (\<lambda>_. stuck w0 b) w"
    by (rule follows_update [OF b adv]) (use bound_fields [OF _ arb sl(1)] valid named stuckI in auto)
  show ?thesis
    using Some b updated stuckI [OF b] arb sl(1) named
    by (auto simp: bindSlot_def io_ends same_progress_def arbitration_bound_def list_all_iff)
qed

section \<open>The operations\<close>

text \<open>One call after the other, while the same brainstorm is followed.\<close>

lemma follows_then_stuck:
  assumes "follows w0 b w" and "preserving same_store m"
    and "\<And>x w'. follows w0 b w' \<Longrightarrow> ends (f x) Q (\<lambda>_. stuck w0 b) w'"
  shows "ends (io_bind m f) Q (\<lambda>_. stuck w0 b) w"
  unfolding ends_bind using assms by (intro follows_keep [OF assms(1,2)]) (simp_all add: stuckI)

lemma follows_then:
  assumes "follows w0 b w" and "preserving same_store m"
    and "\<And>x w'. follows w0 b w' \<Longrightarrow> ends (f x) Q (\<lambda>_. brain_le w0) w'"
  shows "ends (io_bind m f) Q (\<lambda>_. brain_le w0) w"
  unfolding ends_bind using assms by (intro follows_keep [OF assms(1,2)]) (simp_all add: follows_le)

lemma follows_then_get:
  assumes "follows w0 b w" and "ends (f b) Q R w"
  shows "ends (io_bind (bio_get (bs_id b)) f) Q R w"
  using follows_get [OF assms(1) refl, of "\<lambda>x. ends (f x) Q R" R] assms(2) by (simp add: ends_bind)

lemma follows_then_assert:
  assumes "follows w0 b w" and "c \<Longrightarrow> ends (f ()) Q (\<lambda>_. brain_le w0) w"
  shows "ends (io_bind (io_assert c msg) f) Q (\<lambda>_. brain_le w0) w"
  using assms follows_le [OF assms(1)] by (simp add: io_ends)

lemma follows_then_update:
  assumes "follows w0 b w"
    and "\<And>b'. updated_by g b b' \<Longrightarrow> isBrainstormRecord b' \<Longrightarrow> sameImmutableFields b b' \<Longrightarrow> advances b b'"
    and "\<And>b' w'. follows w0 b' w' \<Longrightarrow> updated_by g b b' \<Longrightarrow> sameImmutableFields b b' \<Longrightarrow> ends (f b') Q (\<lambda>_. brain_le w0) w'"
  shows "ends (io_bind (bio_update E b g) f) Q (\<lambda>_. brain_le w0) w"
  unfolding ends_bind by (rule follows_update [OF assms(1)]) (use assms(2,3) follows_le in auto)

lemma follows_return: "follows w0 b w \<Longrightarrow> ends (io_return b) (follows w0) R w"
  by (simp add: io_ends)

text \<open>Setting the status to the next one of the life cycle.\<close>

lemma set_status_ends:
  assumes b: "follows w0 b w" and "brainstorm_ok (b\<lparr>bs_status := st\<rparr>)" and "bs_moves (bs_status b) st"
  shows "ends (bio_update E b (\<lambda>r. r\<lparr>bs_status := st\<rparr>)) (follows w0) (\<lambda>_. follows w0 b) w"
  by (rule follows_update [OF b set_status_advances [OF _ assms(2,3)]]) simp_all

lemma ensure_stage_ends:
  assumes b: "follows w0 b w" and build: "preserving same_store build"
    and st: "bs_status b = BFanout_running \<and> st = BConsolidating \<or>
      bs_status b = BNeeds_arbitration \<and> st = BArbitrating \<and> sid = ''arbitration'' \<and> independent_arbiter b"
  shows "ends (ensure_stage E sid route build st gid operator b) (follows w0) (\<lambda>_. stuck w0 b) w"
proof -
  have set_it: "ends (if bs_status b' \<noteq> st then bio_update E b' (\<lambda>r. r\<lparr>bs_status := st\<rparr>) else io_return b')
      (follows w0) (\<lambda>_. stuck w0 b) w'"
    if "follows w0 b' w'" "same_progress b b'"
      "sid = ''arbitration'' \<longrightarrow> bs_arbitration b' \<noteq> None \<and> independent_arbiter b' = independent_arbiter b" for b' w'
  proof -
    have "brainstorm_ok (b'\<lparr>bs_status := st\<rparr>)" and "bs_moves (bs_status b') st"
      using that st follows_valid [OF that(1)]
      by (auto simp: brainstorm_ok_def same_progress_def bs_moves_def arbitration_bound_def material_conflicts_def)
    then have "ends (bio_update E b' (\<lambda>r. r\<lparr>bs_status := st\<rparr>)) (follows w0) (\<lambda>_. stuck w0 b) w'"
      by (intro ends_mono [OF set_status_ends [OF that(1)]]) (use that(2) in \<open>auto intro: stuck_progress\<close>)
    then show ?thesis using that(1) by (simp add: io_ends)
  qed
  have bind: "ends (io_bind (bindSlot E b sid rid) (\<lambda>b'. if bs_status b' \<noteq> st then bio_update E b' (\<lambda>r. r\<lparr>bs_status := st\<rparr>)
      else io_return b')) (follows w0) (\<lambda>_. stuck w0 b) w'" if w': "follows w0 b w'" for w' rid
    unfolding ends_bind by (rule ends_mono [OF bindSlot_ends [OF w']]) (use st set_it in auto)
  show ?thesis
    unfolding ensure_stage_def
    by (rule follows_then_stuck [OF b], rule io_keeps, rule follows_then_stuck, assumption)
       (auto intro!: follows_then_stuck [OF _ same_store_ensure] follows_then_get bind store.keeps_calls preserving_option build)
qed

lemma ensureConsolidation_ends:
  assumes "follows w0 b w" and "bs_status b = BFanout_running"
  shows "ends (ensureConsolidation E b outputs) (follows w0) (\<lambda>_. stuck w0 b) w"
  unfolding ensureConsolidation_def using assms stuckI [OF assms(1)]
  by (auto simp: io_ends intro!: ensure_stage_ends io_keeps split: option.split)

lemma ensureArbitration_ends:
  assumes "follows w0 b w" and "bs_status b = BNeeds_arbitration" and "independent_arbiter b"
  shows "ends (ensureArbitration E b known) (follows w0) (\<lambda>_. stuck w0 b) w"
  unfolding ensureArbitration_def using assms stuckI [OF assms(1)]
  by (auto simp: io_ends intro!: ensure_stage_ends io_keeps split: option.split)

definition approving :: "brainstorm \<Rightarrow> bool" where
  "approving b \<longleftrightarrow> bs_status b \<in> {BApproved, BFanout_running}"

lemma approve_fanout_ends:
  assumes "follows w0 b w" and "approving b"
  shows "ends (approve_fanout E gid operator sls b) (\<lambda>(b', failed) w'. follows w0 b' w' \<and> (\<not> failed \<longrightarrow> approving b'))
    (\<lambda>_. brain_le w0) w"
  using assms
proof (induction sls arbitrary: b w)
  case Nil
  then show ?case by (simp add: io_ends)
next
  case (Cons sl sls)
  let ?Q = "\<lambda>(b', failed) w'. follows w0 b' w' \<and> (\<not> failed \<longrightarrow> approving b')"
  have failed: "ends (io_bind (bio_get (bs_id b)) (\<lambda>stored. io_bind (markFailed E stored) (\<lambda>failed. io_return (failed, True))))
      ?Q (\<lambda>_. brain_le w0) w'" if w': "follows w0 b w'" for w'
    by (rule follows_then_get [OF w'], unfold ends_bind, rule ends_mono [OF markFailed_ends [OF w']])
       (use Cons.prems(2) in \<open>auto simp: approving_def io_ends\<close>)
  have bound: "ends (io_bind (bio_get (bs_id b)) (\<lambda>stored. io_bind (bindSlot E stored (sl_id sl) rid) (approve_fanout E gid operator sls)))
      ?Q (\<lambda>_. brain_le w0) w'" if w': "follows w0 b w'" for w' rid
    by (rule follows_then_get [OF w'], unfold ends_bind, rule ends_mono [OF bindSlot_ends [OF w']])
       (use Cons in \<open>auto simp: approving_def same_progress_def stuck_le\<close>)
  have outcome: "ends (case r of Inl e \<Rightarrow>
         if error_in (''run_route_unavailable'' # RECOVERABLE_ENSURE_ERRORS) e
         then io_bind (bio_get (bs_id b)) (\<lambda>stored. io_bind (markFailed E stored) (\<lambda>failed. io_return (failed, True)))
         else io_lift (Inl e)
     | Inr queued \<Rightarrow>
         io_bind (bio_get (bs_id b)) (\<lambda>stored.
         io_bind (bindSlot E stored (sl_id sl) (run_id queued)) (approve_fanout E gid operator sls))) ?Q (\<lambda>_. brain_le w0) w'"
    if w': "follows w0 b w'" for w' r
    using failed [OF w'] bound [OF w'] follows_le [OF w'] by (cases r) (simp_all add: io_ends)
  show ?case
    unfolding approve_fanout.simps
    by (rule follows_then [OF Cons.prems(1) store.keeps_lift], rule follows_then, assumption)
       (intro store.keeps_attempt io_keeps, rule outcome)
qed

lemma start_approval_ends:
  assumes b: "follows w0 b w" and st: "bs_status b \<in> {BDraft, BApproved, BFanout_running}"
  shows "ends (start_approval E operator b) (\<lambda>b' w'. follows w0 b' w' \<and> approving b') (\<lambda>_. brain_le w0) w"
proof (cases "bs_approval b = Approval_none")
  case True
  have adv: "advances b b' \<and> approving b'"
    if "updated_by (\<lambda>r. r\<lparr>bs_status := BApproved, bs_approval := Approval_pending,
        bs_group := Some (brainstorm_group_id E r), bs_operator := Some operator\<rparr>) b b'" "bs_status b = BDraft" for b'
    using that follows_valid [OF b]
    by (auto simp: updated_by_def advances_def approving_def brainstorm_ok_def arbitration_bound_def terminal_brainstorm_def bs_moves_def)
  show ?thesis
    unfolding start_approval_def using True follows_le [OF b]
    by (auto simp: io_ends intro!: follows_update [OF b] dest: adv intro: follows_le)
next
  case False
  then show ?thesis
    using b st follows_valid [OF b] by (auto simp: start_approval_def io_ends approving_def brainstorm_ok_def)
qed

lemma reserve_brainstorm_ends:
  assumes b: "follows w0 b w" and st: "approving b"
  shows "ends (reserve_brainstorm E b) (\<lambda>b' w'. follows w0 b' w' \<and> approving b') (\<lambda>_. brain_le w0) w"
proof -
  let ?Q = "\<lambda>b' w'. follows w0 b' w' \<and> approving b'"
  have adv: "advances b b' \<and> approving b'" if "updated_by (\<lambda>r. r\<lparr>bs_approval := Approval_reserved\<rparr>) b b'" for b'
    using that st follows_valid [OF b]
    by (auto simp: updated_by_def advances_def approving_def brainstorm_ok_def arbitration_bound_def terminal_brainstorm_def)
  have pending: "ends (if bs_approval b = Approval_pending then bio_update E b (\<lambda>r. r\<lparr>bs_approval := Approval_reserved\<rparr>) else io_return b)
      ?Q (\<lambda>_. brain_le w0) w'" if w': "follows w0 b w'" for w'
    using st w' by (auto simp: io_ends intro!: follows_update [OF w'] dest: adv intro: follows_le)
  have reserved: "ends (io_bind (if bs_approval b = Approval_pending then bio_update E b (\<lambda>r. r\<lparr>bs_approval := Approval_reserved\<rparr>)
      else io_return b) (\<lambda>r. io_bind (io_assert (bs_approval r = Approval_reserved \<and> bs_group r \<noteq> None) ''brainstorm_not_reserved'')
        (\<lambda>_. io_return r))) ?Q (\<lambda>_. brain_le w0) w'" if w': "follows w0 b w'" for w'
    unfolding ends_bind by (rule ends_mono [OF pending [OF w']]) (auto simp: io_ends follows_le)
  show ?thesis
    unfolding reserve_brainstorm_def
    by (rule follows_then [OF b store.keeps_lift], rule follows_then, assumption, rule io_keeps, rule follows_then_get, assumption)
       (rule reserved)
qed

lemma start_fanout_ends:
  assumes b: "follows w0 b w" and st: "approving b"
  shows "ends (start_fanout E operator b) (follows w0) (\<lambda>_. brain_le w0) w"
proof -
  have running: "ends (if bs_status b' \<noteq> BFanout_running then bio_update E b' (\<lambda>r. r\<lparr>bs_status := BFanout_running\<rparr>) else io_return b')
      (follows w0) (\<lambda>_. brain_le w0) w'" if b': "follows w0 b' w'" "approving b'" for b' w'
    using b' follows_valid [OF b'(1)] ends_mono [OF set_status_ends [OF b'(1), of BFanout_running]] follows_le
    by (auto simp: approving_def io_ends brainstorm_ok_def arbitration_bound_def bs_moves_def)
  have fanout: "ends (io_bind (approve_fanout E gid operator sls b) (\<lambda>(b', failed). if failed then io_return b'
      else if bs_status b' \<noteq> BFanout_running then bio_update E b' (\<lambda>r. r\<lparr>bs_status := BFanout_running\<rparr>) else io_return b'))
      (follows w0) (\<lambda>_. brain_le w0) w" for gid sls
    unfolding ends_bind by (rule ends_mono [OF approve_fanout_ends [OF assms]]) (use running in \<open>auto simp: io_ends\<close>)
  show ?thesis
    unfolding start_fanout_def using fanout follows_le [OF b] by (auto simp: ends_bind io_require_def io_ends split: option.split)
qed

text \<open>Every operation starts by finding its brainstorm; without a store that is in order nothing is claimed.\<close>

lemma found_ends:
  assumes "\<And>b. follows w b w \<Longrightarrow> bs_id b = i \<Longrightarrow> ends (f b) (\<lambda>_. brain_le w) (\<lambda>_. brain_le w) w"
  shows "ends (io_bind (bio_get i) f) (\<lambda>_. brain_le w) (\<lambda>_. brain_le w) w"
proof (cases "store_ok (bw_store w)")
  case True
  then have "follows w b w \<and> bs_id b = i" if "find_brainstorm i (bw_store w) = Inr b" for b
    using that find_brainstorm_holds brain.le_refl by (simp add: follows_def)
  then show ?thesis
    using assms brain.le_refl by (cases "find_brainstorm i (bw_store w)") (auto simp: ends_def io_bind_def bio_get_def)
next
  case False
  then have "brain_le w w'" for w' by (simp add: brain_le_def store_le_def)
  then show ?thesis by (auto simp: ends_def split: prod.splits sum.splits)
qed

lemma asserted_ends:
  "(c \<Longrightarrow> ends (f ()) (\<lambda>_. brain_le w) (\<lambda>_. brain_le w) w) \<Longrightarrow>
    ends (io_bind (io_assert c msg) f) (\<lambda>_. brain_le w) (\<lambda>_. brain_le w) w"
  by (simp add: io_ends brain.le_refl)

lemma ends_follows_le: "ends m (follows w0) (\<lambda>_. brain_le w0) w \<Longrightarrow> ends m (\<lambda>_. brain_le w0) (\<lambda>_. brain_le w0) w"
  by (erule ends_mono) (simp_all add: follows_le)

lemma approve_ends: "ends (brainstorm_approve E i operator) (\<lambda>_. brain_le w) (\<lambda>_. brain_le w) w"
proof -
  have approved: "ends (io_bind (start_approval E operator b) (\<lambda>started. io_bind (reserve_brainstorm E started) (start_fanout E operator)))
      (\<lambda>_. brain_le w) (\<lambda>_. brain_le w) w'" if "follows w b w'" "bs_status b \<in> {BDraft, BApproved, BFanout_running}" for b w'
    unfolding ends_bind
    by (rule ends_mono [OF start_approval_ends [OF that]], elim conjE, rule ends_mono [OF reserve_brainstorm_ends])
       (auto intro: ends_follows_le [OF start_fanout_ends])
  have st: "bs_status b \<in> {BDraft, BApproved, BFanout_running}"
    if "bs_status b \<notin> {BCompleted, BFailed, BCancelled, BNeeds_arbitration, BArbitrating, BConsolidating}" for b :: brainstorm
    using that by (cases "bs_status b") simp_all
  show ?thesis
    unfolding brainstorm_approve_def
    by (rule asserted_ends, rule found_ends, rule follows_then [OF _ same_store_emit], assumption,
        rule follows_then_assert, assumption, rule follows_then_assert, assumption,
        rule follows_then [OF _ store.keeps_each [OF same_store_eligible]], assumption, rule approved, assumption, erule st)
qed

text \<open>A step: the fan-out, the consolidation, the arbitration.\<close>

lemma finish_stage_fields [simp]:
  "bs_status (finish_stage stage b) = bs_status b" "bs_conflicts (finish_stage stage b) = bs_conflicts b"
  "bs_final (finish_stage stage b) = bs_final b" "bs_approval (finish_stage stage b) = bs_approval b"
  "bs_group (finish_stage stage b) = bs_group b" "bs_operator (finish_stage stage b) = bs_operator b"
  "bs_arbitration (finish_stage stage b) = bs_arbitration b" "bs_arbiter (finish_stage stage b) = bs_arbiter b"
  "bs_routes (finish_stage stage b) = bs_routes b"
  by (simp_all add: finish_stage_def)

lemma finish_stage_bound: "arbitration_bound b \<Longrightarrow> arbitration_bound (finish_stage stage b)"
  by (auto simp: arbitration_bound_def finish_stage_def list_all_iff)

lemma finish_arbitration_providers: "providerForChildRun (finish_stage Arbitration b) = providerForChildRun b"
proof
  fix i
  have "List.find (\<lambda>x. sl_stage x = Fanout \<and> sl_run x = Some i) (bs_slots (finish_stage Arbitration b)) =
      List.find (\<lambda>x. sl_stage x = Fanout \<and> sl_run x = Some i) (bs_slots b)"
    unfolding finish_stage_def by (simp, intro find_map_unaffected) auto
  then show "providerForChildRun (finish_stage Arbitration b) i = providerForChildRun b i"
    by (simp add: providerForChildRun_def split: option.split)
qed

lemma parse_material: "parseConsolidation E text ids = Inr p \<Longrightarrow> cr_material p = list_ex cf_material (cr_conflicts p)"
  by (auto simp: parseConsolidation_def split: if_splits)

lemma fanout_finished_advances:
  assumes "brainstorm_ok b" and "bs_status b = BFanout_running" and "updated_by (finish_stage Fanout) b b'"
  shows "advances b b' \<and> bs_status b' = BFanout_running"
proof -
  obtain t where b': "b' = (finish_stage Fanout (b\<lparr>bs_updated := t\<rparr>))\<lparr>bs_revision := bs_revision b + 1\<rparr>"
    using assms(3) by (auto simp: updated_by_def)
  have "arbitration_bound b'" using assms(1) finish_stage_bound [of "b\<lparr>bs_updated := t\<rparr>"]
    by (simp add: b' arbitration_bound_def brainstorm_ok_def finish_stage_def)
  then show ?thesis using assms(1,2) by (simp add: b' advances_def brainstorm_ok_def terminal_brainstorm_def)
qed

lemma consolidation_advances:
  assumes ok: "brainstorm_ok b" and st: "bs_status b = BConsolidating" and p: "cr_material p = list_ex cf_material (cr_conflicts p)"
    and u: "updated_by (\<lambda>r. (finish_stage Consolidation r)\<lparr>bs_conflicts := cr_conflicts p,
      bs_final := (if cr_material p then None else Some (cr_final p)),
      bs_status := (if cr_material p \<and> bs_arbiter b = None then BFailed else if cr_material p then BNeeds_arbitration else BCompleted)\<rparr>) b b'"
  shows "advances b b'"
proof -
  obtain t where b': "b' = (finish_stage Consolidation (b\<lparr>bs_updated := t\<rparr>))\<lparr>bs_conflicts := cr_conflicts p,
      bs_final := (if cr_material p then None else Some (cr_final p)),
      bs_status := (if cr_material p \<and> bs_arbiter b = None then BFailed else if cr_material p then BNeeds_arbitration else BCompleted),
      bs_revision := bs_revision b + 1\<rparr>"
    using u by (auto simp: updated_by_def)
  have "arbitration_bound b'" using ok finish_stage_bound [of "b\<lparr>bs_updated := t\<rparr>" Consolidation]
    by (simp add: b' arbitration_bound_def brainstorm_ok_def finish_stage_def)
  then show ?thesis using st p
    by (auto simp: b' advances_def brainstorm_ok_def terminal_brainstorm_def bs_moves_def material_conflicts_def list_ex_iff
        filter_empty_conv)
qed

lemma arbitration_advances:
  assumes ok: "brainstorm_ok b" and st: "bs_status b = BArbitrating"
    and u: "updated_by (\<lambda>r. (finish_stage Arbitration r)\<lparr>bs_final := Some text, bs_status := BCompleted\<rparr>) b b'"
  shows "advances b b'"
proof -
  obtain t where b': "b' = (finish_stage Arbitration (b\<lparr>bs_updated := t\<rparr>))\<lparr>bs_final := Some text, bs_status := BCompleted,
      bs_revision := bs_revision b + 1\<rparr>"
    using u by (auto simp: updated_by_def)
  have "arbitration_bound b'" using ok finish_stage_bound [of "b\<lparr>bs_updated := t\<rparr>" Arbitration]
    by (simp add: b' arbitration_bound_def brainstorm_ok_def finish_stage_def)
  moreover have "providerForChildRun b' = providerForChildRun (finish_stage Arbitration b)"
    by (rule providerForChildRun_slots) (simp_all add: b' finish_stage_def)
  then have "independent_arbiter b' = independent_arbiter b"
    by (simp add: independent_arbiter_def material_conflicts_def finish_arbitration_providers b' split: option.split)
  ultimately show ?thesis using ok st
    by (simp add: b' advances_def brainstorm_ok_def terminal_brainstorm_def bs_moves_def material_conflicts_def)
qed

lemma failing_ends:
  assumes "follows w0 b w" and "bs_status b \<in> {BFanout_running, BConsolidating, BNeeds_arbitration, BArbitrating}"
  shows "ends (markFailed E b) (follows w0) (\<lambda>_. brain_le w0) w"
  by (rule markFailed_ends [OF assms(1)]) (use assms(2) in auto)

lemma consolidate_outputs_ends:
  assumes b: "follows w0 b w" and st: "bs_status b = BFanout_running"
  shows "ends (consolidate_outputs E b outputs) (\<lambda>_. brain_le w0) (\<lambda>_. brain_le w0) w"
proof -
  have failed: "ends (io_bind (bio_get (bs_id b)) (markFailed E)) (\<lambda>_. brain_le w0) (\<lambda>_. brain_le w0) w'"
    if s: "stuck w0 b w'" for w'
  proof -
    obtain b' where b': "follows w0 b' w'" "same_progress b b'" using s by (auto simp: stuck_def)
    then have id: "bs_id b = bs_id b'" and st': "bs_status b' = BFanout_running" using st by (simp_all add: same_progress_def)
    have "ends (markFailed E b') (\<lambda>_. brain_le w0) (\<lambda>_. brain_le w0) w'"
      by (rule ends_follows_le [OF failing_ends [OF b'(1)]]) (simp add: st')
    from follows_then_get [OF b'(1), of "markFailed E", OF this] show ?thesis by (simp add: id)
  qed
  show ?thesis
    unfolding consolidate_outputs_def
    by (rule follows_then [OF b same_store_emit], unfold ends_control, rule ends_mono [OF ensureConsolidation_ends [OF _ st]], assumption)
       (use failed in \<open>auto simp: follows_le io_ends stuck_le\<close>)
qed

lemma tick_fanout_ends:
  assumes b: "follows w0 b w" and st: "bs_status b = BFanout_running"
  shows "ends (tick_fanout E runs b) (\<lambda>_. brain_le w0) (\<lambda>_. brain_le w0) w"
proof -
  have finished: "ends (io_bind (if c then bio_update E b (finish_stage Fanout) else io_return b)
      (\<lambda>b'. consolidate_outputs E b' outputs)) (\<lambda>_. brain_le w0) (\<lambda>_. brain_le w0) w'" if w': "follows w0 b w'" for c outputs w'
    using consolidate_outputs_ends [OF w' st] consolidate_outputs_ends
      fanout_finished_advances [OF conjunct2 [OF follows_valid [OF w']] st]
    by (auto simp: io_ends intro!: follows_update [OF w'] intro: follows_le)
  show ?thesis
    unfolding tick_fanout_def Let_def
    by (rule follows_then [OF b store.keeps_lift])
       (use st failing_ends finished in \<open>auto simp: io_ends follows_le intro: ends_follows_le simp del: ends_bind\<close>)
qed

lemma tick_stage_ends:
  assumes b: "follows w0 b w" and st: "bs_status b \<in> {BConsolidating, BArbitrating}"
    and finish: "\<And>text w'. follows w0 b w' \<Longrightarrow> ends (finish text) (\<lambda>_. brain_le w0) (\<lambda>_. brain_le w0) w'"
  shows "ends (tick_stage E stage runs b finish) (\<lambda>_. brain_le w0) (\<lambda>_. brain_le w0) w"
proof -
  have run: "ends (if ended_badly run then markFailed E b else case terminalText run of None \<Rightarrow> io_return b | Some text \<Rightarrow> finish text)
      (\<lambda>_. brain_le w0) (\<lambda>_. brain_le w0) w'" if w': "follows w0 b w'" for run w'
    using ends_follows_le [OF failing_ends [OF w']] st finish [OF w'] follows_le [OF w']
    by (cases "terminalText run") (auto simp: io_ends)
  show ?thesis
    unfolding tick_stage_def
    by (rule follows_then [OF b store.keeps_require], rule follows_then [OF _ store.keeps_lift], assumption, rule run)
qed

lemma finish_consolidation_ends:
  assumes b: "follows w0 b w" and st: "bs_status b = BConsolidating"
  shows "ends (finish_consolidation E b text) (\<lambda>_. brain_le w0) (\<lambda>_. brain_le w0) w"
proof (cases "parseConsolidation E text (bs_children b)")
  case (Inl e)
  then show ?thesis
    using ends_follows_le [OF failing_ends [OF b]] st by (simp add: finish_consolidation_def)
next
  case (Inr p)
  have after: "ends (io_bind (bio_emit E b' event None) (\<lambda>_. io_bind (if c then cleanupGroup E b' else io_return ()) (\<lambda>_. io_return b')))
      (\<lambda>_. brain_le w0) (\<lambda>_. brain_le w0) w'" if "follows w0 b' w'" for b' event c w'
    by (rule follows_then [OF that same_store_emit], rule follows_then, assumption)
       (auto intro: preserving_if store.keeps_return io_keeps simp: io_ends follows_le)
  show ?thesis
    unfolding finish_consolidation_def Inr sum.case Let_def
    by (rule follows_then_update [OF b consolidation_advances [OF conjunct2 [OF follows_valid [OF b]] st parse_material [OF Inr]]])
       (assumption, rule after)
qed

lemma finish_arbitration_ends:
  assumes b: "follows w0 b w" and st: "bs_status b = BArbitrating"
  shows "ends (finish_arbitration E b text) (\<lambda>_. brain_le w0) (\<lambda>_. brain_le w0) w"
proof (cases "parseArbitration E text")
  case (Inl e)
  then show ?thesis
    using ends_follows_le [OF failing_ends [OF b]] st by (simp add: finish_arbitration_def)
next
  case (Inr p)
  have after: "ends (io_bind (bio_emit E b' event None) (\<lambda>_. io_bind (cleanupGroup E b') (\<lambda>_. io_return b')))
      (\<lambda>_. brain_le w0) (\<lambda>_. brain_le w0) w'" if "follows w0 b' w'" for b' event w'
    by (rule follows_then [OF that same_store_emit], rule follows_then [OF _ same_store_cleanup], assumption)
       (simp add: io_ends follows_le)
  have finish: "ends (io_bind (bio_update E b (\<lambda>r. (finish_stage Arbitration r)\<lparr>bs_final := Some (ar_resolution p),
      bs_status := BCompleted\<rparr>)) (\<lambda>b'. io_bind (bio_emit E b' Ev_arbitrated None) (\<lambda>_. io_bind (cleanupGroup E b') (\<lambda>_. io_return b'))))
      (\<lambda>_. brain_le w0) (\<lambda>_. brain_le w0) w"
    by (rule follows_then_update [OF b arbitration_advances [OF conjunct2 [OF follows_valid [OF b]] st]])
       (assumption, rule after)
  show ?thesis
    using finish ends_follows_le [OF failing_ends [OF b]] st by (simp add: finish_arbitration_def Inr)
qed

lemma tick_ends: "ends (brainstorm_tick E i) (\<lambda>_. brain_le w) (\<lambda>_. brain_le w) w"
proof -
  have terminal: "ends (io_bind (cleanupGroup E b) (\<lambda>_. io_bind (bio_emit E b (terminal_lifecycle b) None) (\<lambda>_. bio_get i)))
      (\<lambda>_. brain_le w) (\<lambda>_. brain_le w) w" if "follows w b w" "bs_id b = i" for b
    by (rule follows_then [OF that(1) same_store_cleanup], rule follows_then [OF _ same_store_emit], assumption)
       (use that(2) in \<open>auto intro: follows_get follows_le\<close>)
  have waiting: "ends (io_bind (bio_emit E b Ev_consolidated None) (\<lambda>_. io_return b)) (\<lambda>_. brain_le w) (\<lambda>_. brain_le w) w"
    if "follows w b w" for b
    by (rule follows_then [OF that same_store_emit]) (simp add: io_ends follows_le)
  have running: "ends (io_bind bio_read_runs (\<lambda>runs. case bs_status b of
         BFanout_running \<Rightarrow> tick_fanout E runs b
       | BConsolidating \<Rightarrow> tick_stage E Consolidation runs b (finish_consolidation E b)
       | BArbitrating \<Rightarrow> tick_stage E Arbitration runs b (finish_arbitration E b)
       | _ \<Rightarrow> io_return b)) (\<lambda>_. brain_le w) (\<lambda>_. brain_le w) w" if "follows w b w" for b
    by (rule follows_then [OF that same_store_read])
       (auto simp: io_ends follows_le intro: tick_fanout_ends tick_stage_ends finish_consolidation_ends finish_arbitration_ends
         split: brainstorm_status.split)
  show ?thesis
    unfolding brainstorm_tick_def
    by (rule found_ends) (use terminal waiting running in \<open>auto simp: io_ends follows_le\<close>)
qed

lemma ends_lifted: "ends (io_bind (io_lift (Inr x)) f) Q R w = ends (f x) Q R w"
  by (simp add: io_ends)

lemma requestArbitration_ends: "ends (requestArbitration E i route operator) (\<lambda>_. brain_le w) (\<lambda>_. brain_le w) w"
proof -
  have arbitrate: "ends (io_bind (io_lift (map_result (providerForChildRun b) (conflict_runs (material_conflicts b)))) (\<lambda>providers.
      if bt_provider route \<in> set providers
      then io_bind (markFailed E b) (\<lambda>_. io_throw ''brainstorm_no_independent_arbiter'')
      else io_bind bio_read_runs (\<lambda>runs.
        io_bind (io_lift (outputsForConflicts (material_conflicts b) runs)) (ensureArbitration E b))))
      (\<lambda>_. brain_le w) (\<lambda>_. brain_le w) w'"
    if b: "follows w b w'" and st: "bs_status b = BNeeds_arbitration \<and> bs_arbiter b = Some route \<and> bs_operator b = Some operator" for b w'
  proof (cases "map_result (providerForChildRun b) (conflict_runs (material_conflicts b))")
    case (Inl e)
    then show ?thesis using follows_le [OF b] by (simp add: io_ends)
  next
    case (Inr providers)
    have failed: "ends (io_bind (markFailed E b) (\<lambda>_. io_throw ''brainstorm_no_independent_arbiter'' :: brainstorm bio)) (\<lambda>_. brain_le w) (\<lambda>_. brain_le w) w'"
      unfolding ends_bind by (rule ends_mono [OF failing_ends [OF b]]) (use st in \<open>auto simp: io_ends follows_le\<close>)
    have known: "\<exists>p \<in> set providers. providerForChildRun b j = Inr p" if "j \<in> set (conflict_runs (material_conflicts b))" for j
      using map_result_Inr [OF Inr] that by force
    have independent: "independent_arbiter b" if "bt_provider route \<notin> set providers"
      using that st known by (fastforce simp: independent_arbiter_def list_all_iff split: sum.split)
    have arbitrated: "ends (io_bind bio_read_runs (\<lambda>runs. io_bind (io_lift (outputsForConflicts (material_conflicts b) runs))
        (ensureArbitration E b))) (\<lambda>_. brain_le w) (\<lambda>_. brain_le w) w'" if "bt_provider route \<notin> set providers"
      by (rule follows_then [OF b same_store_read], rule follows_then [OF _ store.keeps_lift], assumption,
          rule ends_mono [OF ensureArbitration_ends], assumption)
         (use st independent [OF that] in \<open>auto simp: follows_le stuck_le\<close>)
    from failed arbitrated show ?thesis unfolding Inr ends_lifted by simp
  qed
  show ?thesis
    unfolding requestArbitration_def
    by (rule asserted_ends, rule found_ends, rule follows_then [OF _ store.keeps_when [OF same_store_emit]], assumption,
        rule follows_then_assert, assumption, rule arbitrate)
qed

lemma cancel_ends: "ends (brainstorm_cancel E i) (\<lambda>_. brain_le w) (\<lambda>_. brain_le w) w"
proof -
  have cleaned: "ends (io_bind (cleanupGroup E b) (\<lambda>_. io_bind (bio_get i) (\<lambda>c. io_bind (bio_emit E c Ev_cancelled None) (\<lambda>_. io_return c))))
      (\<lambda>_. brain_le w) (\<lambda>_. brain_le w) w'" if "follows w b w'" "bs_id b = i" for b w'
    using ends_follows_le [OF after_cleanup [OF that(1)]] that(2) by simp
  have cancelled: "ends (io_bind (if bs_status b \<noteq> BCancelled then bio_update E b (\<lambda>r. r\<lparr>bs_status := BCancelled\<rparr>) else io_return b)
      (\<lambda>b'. io_bind (cleanupGroup E b') (\<lambda>_. io_bind (bio_get i) (\<lambda>c. io_bind (bio_emit E c Ev_cancelled None) (\<lambda>_. io_return c)))))
      (\<lambda>_. brain_le w) (\<lambda>_. brain_le w) w'"
    if b: "follows w b w'" "bs_id b = i" "bs_status b \<notin> {BCompleted, BFailed, BNeeds_arbitration, BArbitrating}" for b w'
  proof (cases "bs_status b = BCancelled")
    case True
    then show ?thesis using cleaned [OF b(1,2)] by (simp add: ends_bind ends_control)
  next
    case False
    have move: "bs_moves (bs_status b) BCancelled" using b(3) False by (cases "bs_status b") (simp_all add: bs_moves_def)
    note ok = cancelling_ok [OF conjunct2 [OF follows_valid [OF b(1)]]]
    show ?thesis
      unfolding if_P [OF False]
      by (rule follows_then_update [OF b(1) set_status_advances [OF _ ok move]], assumption, rule cleaned, assumption)
         (simp add: sameImmutableFields_def b(2))
  qed
  show ?thesis
    unfolding brainstorm_cancel_def
    by (rule found_ends, rule follows_then [OF _ same_store_emit], assumption, rule follows_then_assert, assumption)
       (rule cancelled)
qed

text \<open>A new brainstorm is in order, and the others stay as they are.\<close>

lemma create_ends: "ends (brainstorm_create E fresh i t) (\<lambda>_. brain_le w) (\<lambda>_. brain_le w) w"
proof -
  have "store_le s s'" if "createBrainstorm fits fresh i t s = Inr (s', b)" for fits s s' b
  proof -
    from that have s': "s' = s @ [new_brainstorm fresh i t]" "isBrainstormStoreDocument s'"
      by (auto simp: createBrainstorm_def writeBrainstormStore_def readBrainstormStore_def split: if_splits)
    moreover have "brainstorm_ok (new_brainstorm fresh i t)"
      by (auto simp: brainstorm_ok_def new_brainstorm_def arbitration_bound_def planned_slots_def planned_slot_def list_all_iff)
    ultimately show ?thesis
      unfolding store_le_def store_ok_def by (auto intro: brainstorm_le_refl)
  qed
  then show ?thesis
    by (auto simp: brainstorm_create_def ends_def bio_store_def brain_le_def split: sum.splits prod.splits)
qed

end
