(* ===== verification/BrainstormProps.thy ===== *)
theory BrainstormProps
  imports BrainstormLaws OrchestratorProps "HOL-Library.Sublist"
begin

text \<open>
  What the coordinator promises: a completed brainstorm is resolved and the history of every brainstorm is kept; the
  tokens held for a brainstorm are those of its envelope; no text of a provider contains a delimiter of the prompt it
  is put into; a brainstorm that waits for its arbitration is left by nothing else.
\<close>

declare nat_text.simps [simp del]

section \<open>The coordinator as a machine\<close>

text \<open>Between the operations the runs and the clock may change in any way.\<close>

datatype brainstorm_op =
    BCreate string brainstorm_input stamp
  | BApprove string string
  | BTick string
  | BArbitrate string brainstorm_route string
  | BCancel string
  | BOther "run_world \<Rightarrow> run_world"

fun brainstorm_exec :: "brainstorm_env \<Rightarrow> brainstorm_op \<Rightarrow> brain_world \<Rightarrow> brain_world" where
  "brainstorm_exec E (BCreate fresh i t) w = fst (brainstorm_create E fresh i t w)"
| "brainstorm_exec E (BApprove i operator) w = fst (brainstorm_approve E i operator w)"
| "brainstorm_exec E (BTick i) w = fst (brainstorm_tick E i w)"
| "brainstorm_exec E (BArbitrate i route operator) w = fst (requestArbitration E i route operator w)"
| "brainstorm_exec E (BCancel i) w = fst (brainstorm_cancel E i w)"
| "brainstorm_exec E (BOther f) w = w\<lparr>bw_run := f (bw_run w)\<rparr>"

lemma ends_le_fst: "ends m (\<lambda>_. brain_le w) (\<lambda>_. brain_le w) w \<Longrightarrow> brain_le w (fst (m w))"
  by (auto simp: ends_def split: prod.splits sum.splits)

lemma brainstorm_exec_le: "brain_le w (brainstorm_exec E op w)"
proof (cases op)
  case (BOther f)
  then show ?thesis by (simp add: brain_le_def)
qed (simp_all add: ends_le_fst create_ends approve_ends tick_ends requestArbitration_ends cancel_ends)

lemma brainstorm_steps_le: "brain_le w (fold (brainstorm_exec E) ops w)"
proof (induction ops arbitrary: w)
  case (Cons op ops)
  show ?case using brain.le_trans [OF brainstorm_exec_le Cons.IH] by simp
qed (simp add: brain.le_refl)

interpretation coordinator: invariant_machine "brainstorm_exec E" "\<lambda>w. store_ok (bw_store w)" for E
  by unfold_locales (use brainstorm_exec_le in \<open>auto simp: brain_le_def store_le_def\<close>)

text \<open>C12: A completed brainstorm is resolved. Whatever the coordinator is asked to do, in any order and wherever it throws,
  a stored brainstorm that is completed has its final text, and either none of its conflicts is material or it was
  arbitrated by a bound run on a route of a provider that none of the conflicting answers came from.\<close>

theorem completed_brainstorm_is_resolved:
  assumes "store_ok (bw_store w)" and "\<forall>b \<in> set (bw_store w). bs_status b \<noteq> BCompleted"
    and "b \<in> set (bw_store (fold (brainstorm_exec E) ops w))" and "bs_status b = BCompleted"
  shows "bs_final b \<noteq> None \<and>
    (list_all (\<lambda>c. \<not> cf_material c) (bs_conflicts b) \<or>
     (\<exists>a. bs_arbiter b = Some a \<and> bs_arbitration b \<noteq> None \<and>
        (\<forall>c \<in> set (bs_conflicts b). cf_material c \<longrightarrow> (\<forall>i \<in> {fst (cf_runs c), snd (cf_runs c)}.
           \<exists>p. providerForChildRun b i = Inr p \<and> p \<noteq> bt_provider a))))"
proof -
  from coordinator.run_inv [OF assms(1), of E ops] assms(3) have "brainstorm_ok b" by (auto simp: store_ok_def list_all_iff)
  with assms(4) have b: "bs_final b \<noteq> None" "material_conflicts b = [] \<or> independent_arbiter b \<and> bs_arbitration b \<noteq> None"
    by (simp_all add: brainstorm_ok_def)
  have "\<exists>a. bs_arbiter b = Some a \<and> (\<forall>c \<in> set (bs_conflicts b). cf_material c \<longrightarrow> (\<forall>i \<in> {fst (cf_runs c), snd (cf_runs c)}.
           \<exists>p. providerForChildRun b i = Inr p \<and> p \<noteq> bt_provider a))" if "independent_arbiter b"
    using independent_arbiterD [OF that] by (fastforce simp: conflict_runs_def material_conflicts_def)
  with b show ?thesis by (auto simp: material_conflicts_def filter_empty_conv list_all_iff)
qed

text \<open>C13: The coordinator keeps the history of every brainstorm. Whatever it is asked to do, a stored brainstorm stays
  stored with the same brief, routes and envelope, its operator and its group once set, and a higher revision when
  anything changed; its status moves along the life cycle, and a finished one never changes.\<close>

theorem brainstorm_history_is_kept:
  assumes "store_ok (bw_store w)" and "b \<in> set (bw_store w)"
  shows "\<exists>b' \<in> set (bw_store (fold (brainstorm_exec E) ops w)).
    sameImmutableFields b b' \<and> (b' = b \<or> bs_revision b < bs_revision b') \<and>
    (bs_operator b \<noteq> None \<longrightarrow> bs_operator b' = bs_operator b) \<and> (bs_group b \<noteq> None \<longrightarrow> bs_group b' = bs_group b) \<and>
    (\<exists>n \<le> 6. (bs_moves ^^ n) (bs_status b) (bs_status b')) \<and> (terminal_brainstorm (bs_status b) \<longrightarrow> b' = b)"
proof -
  obtain b' where b': "b' \<in> set (bw_store (fold (brainstorm_exec E) ops w))" "brainstorm_le b b'"
    using brainstorm_steps_le [of w E ops] assms unfolding brain_le_def store_le_def by blast
  then obtain n where "(bs_moves ^^ n) (bs_status b) (bs_status b')"
    by (auto simp: brainstorm_le_def rtranclp_power)
  with brainstorms.path_bounded [OF this] b' show ?thesis
    by (intro bexI [OF _ b'(1)]) (auto simp: brainstorm_le_def split: if_splits)
qed

section \<open>Delimiters\<close>

text \<open>A replacement whose first and last characters no delimiter has, and that contains none, makes no new one.\<close>

definition bracketed :: "'a list \<Rightarrow> 'a list \<Rightarrow> bool" where
  "bracketed e by' \<longleftrightarrow> by' \<noteq> [] \<and> hd by' \<notin> set e \<and> last by' \<notin> set e \<and> \<not> sublist e by'"

lemma bracketed_append:
  assumes br: "bracketed e by'" and "sublist e (by' @ r)"
  shows "sublist e r"
proof -
  have "sublist e by' \<or> sublist e r \<or> (\<exists>e1 e2. e = e1 @ e2 \<and> suffix e1 by' \<and> prefix e2 r)"
    using assms(2) by (simp add: sublist_append)
  then consider "sublist e r" | e1 e2 where "e = e1 @ e2" "suffix e1 by'" "prefix e2 r"
    using br by (auto simp: bracketed_def)
  then show ?thesis
  proof cases
    case (2 e1 e2)
    have "e1 = []"
    proof (rule ccontr)
      assume "e1 \<noteq> []"
      moreover from this have "last by' = last e1" using 2(2) by (auto simp: suffix_def)
      ultimately have "last by' \<in> set e" using 2(1) by simp
      with br show False by (simp add: bracketed_def)
    qed
    with 2 show ?thesis by (simp add: prefix_imp_sublist)
  qed
qed

lemma replace_hit: "d \<noteq> [] \<Longrightarrow> prefix d s \<Longrightarrow> replace_all d by' s = by' @ replace_all d by' (drop (length d) s)"
  by (cases s) (auto simp: prefix_def)

lemma replace_miss: "\<not> (d \<noteq> [] \<and> prefix d (c # s)) \<Longrightarrow> replace_all d by' (c # s) = c # replace_all d by' s"
  by (simp add: prefix_def) (metis append_take_drop_id take_Cons')

lemma prefix_replaced:
  assumes br: "bracketed e by'" and "prefix e' (replace_all d by' s)" and "set e' \<subseteq> set e"
  shows "prefix e' s"
  using assms(2,3)
proof (induction s arbitrary: e')
  case (Cons c s)
  show ?case
  proof (cases "d \<noteq> [] \<and> prefix d (c # s)")
    case True
    then have "prefix e' (by' @ replace_all d by' (drop (length d) (c # s)))"
      using Cons.prems(1) replace_hit [of d "c # s" by'] by metis
    then have "e' = []" using br Cons.prems(2) by (cases by'; cases e') (auto simp: bracketed_def)
    then show ?thesis by simp
  next
    case False
    with Cons.prems(1) have "prefix e' (c # replace_all d by' s)" using replace_miss [OF False, of by'] by simp
    with Cons show ?thesis by (cases e') auto
  qed
qed simp

lemma sublist_replaced: "bracketed e by' \<Longrightarrow> sublist e (replace_all d by' s) \<Longrightarrow> sublist e s"
proof (induction "length s" arbitrary: s rule: less_induct)
  case less
  note br = less.prems(1)
  show ?case
  proof (cases "d \<noteq> [] \<and> prefix d s \<or> s = []")
    case True
    show ?thesis
    proof (cases "s = []")
      case False
      with True have hit: "d \<noteq> []" "prefix d s" by auto
      have "length (drop (length d) s) < length s" using hit(1) False by simp
      moreover have "sublist e (replace_all d by' (drop (length d) s))"
        using less.prems(2) unfolding replace_hit [OF hit] by (rule bracketed_append [OF br])
      ultimately have "sublist e (drop (length d) s)" using less.hyps br by blast
      then show ?thesis by (metis append_take_drop_id sublist_append)
    qed (use less.prems in simp)
  next
    case False
    then obtain c t where s: "s = c # t" by (cases s) auto
    from False have miss: "replace_all d by' s = c # replace_all d by' t" unfolding s by (intro replace_miss) blast
    then consider "prefix e (replace_all d by' s)" | "sublist e (replace_all d by' t)"
      using less.prems(2) by (auto simp: sublist_Cons_right)
    then show ?thesis
    proof cases
      case 1
      then show ?thesis using prefix_replaced [OF br _ order_refl] prefix_imp_sublist by blast
    next
      case 2
      moreover have "length t < length s" by (simp add: s)
      ultimately have "sublist e t" using less.hyps br by blast
      then show ?thesis by (simp add: s sublist_Cons_right)
    qed
  qed
qed

text \<open>No occurrence is left.\<close>

lemma replaced_gone: "bracketed d by' \<Longrightarrow> d \<noteq> [] \<Longrightarrow> \<not> sublist d (replace_all d by' s)"
proof (induction "length s" arbitrary: s rule: less_induct)
  case less
  note br = less.prems(1)
  show ?case
  proof (cases "prefix d s")
    case True
    then have "length (drop (length d) s) < length s" using less.prems(2) by (cases s) auto
    then have "\<not> sublist d (replace_all d by' (drop (length d) s))" using less by blast
    then show ?thesis
      unfolding replace_hit [OF less.prems(2) True] using bracketed_append [OF br] by blast
  next
    case False
    show ?thesis
    proof (cases s)
      case (Cons c t)
      with False have "replace_all d by' s = c # replace_all d by' t" using replace_miss by metis
      moreover have "\<not> sublist d (replace_all d by' t)" using less Cons by simp
      moreover have "\<not> prefix d (replace_all d by' s)" using prefix_replaced [OF br _ order_refl] False by blast
      ultimately show ?thesis by (simp add: sublist_Cons_right)
    qed (use less.prems(2) in simp)
  qed
qed

lemma escaped_clean:
  assumes "\<forall>d \<in> set ds. d \<noteq> [] \<and> bracketed d ESCAPED_DELIMITER" and "d \<in> set ds"
  shows "\<not> sublist d (escapeExactDelimiter text ds)"
  using assms
proof (induction ds rule: rev_induct)
  case (snoc e es)
  let ?t = "escapeExactDelimiter text es"
  have last: "escapeExactDelimiter text (es @ [e]) = replace_all e ESCAPED_DELIMITER ?t"
    by (simp add: escapeExactDelimiter_def)
  show ?case
  proof (cases "d = e")
    case True
    then show ?thesis unfolding last using replaced_gone snoc.prems by blast
  next
    case False
    then have "\<not> sublist d ?t" using snoc by simp
    then show ?thesis unfolding last using sublist_replaced snoc.prems by blast
  qed
qed simp

lemma escaped_same: "\<forall>d \<in> set ds. \<not> sublist d text \<Longrightarrow> escapeExactDelimiter text ds = text"
proof (induction ds)
  case (Cons d ds)
  have "replace_all d by' s = s" if "\<not> sublist d s" for by' and s :: utf16
    using that
  proof (induction s)
    case (Cons c s)
    then have "\<not> prefix d (c # s)" "\<not> sublist d s" by (auto simp: sublist_Cons_right)
    with Cons.IH show ?case using replace_miss by metis
  qed simp
  with Cons show ?case by (simp add: escapeExactDelimiter_def)
qed (simp add: escapeExactDelimiter_def)

text \<open>The delimiters of the prompts: a fixed text with the nonce in it.\<close>

lemma units_bracket: "(of_char c :: 16 word) = 0x5B \<longleftrightarrow> c = CHR ''[''" "(of_char c :: 16 word) = 0x5D \<longleftrightarrow> c = CHR '']''"
proof -
  have inj: "c = c'" if "of_char c = (of_char c' :: 16 word)" for c' using that char_of_unat by metis
  show "(of_char c :: 16 word) = 0x5B \<longleftrightarrow> c = CHR ''[''" "(of_char c :: 16 word) = 0x5D \<longleftrightarrow> c = CHR '']''"
    using inj [of "CHR ''[''"] inj [of "CHR '']''"] by auto
qed

lemma units_plain: "(0x5B :: 16 word) \<notin> set (units_of s) \<longleftrightarrow> CHR ''['' \<notin> set s" "(0x5D :: 16 word) \<notin> set (units_of s) \<longleftrightarrow> CHR '']'' \<notin> set s"
  by (induction s) (simp_all add: units_of_def, (metis units_bracket)+)

lemma delimiter_bracketed:
  assumes "CHR ''['' \<notin> set s" and "CHR '']'' \<notin> set s" and "length s > 25"
  shows "units_of s \<noteq> [] \<and> bracketed (units_of s) ESCAPED_DELIMITER"
proof -
  have esc: "length ESCAPED_DELIMITER = 25" "hd ESCAPED_DELIMITER = 0x5B" "last ESCAPED_DELIMITER = 0x5D" "ESCAPED_DELIMITER \<noteq> []"
    by (simp_all add: ESCAPED_DELIMITER_def units_of_def)
  have "\<not> sublist (units_of s) ESCAPED_DELIMITER"
    using sublist_length_le [of "units_of s" ESCAPED_DELIMITER] assms(3) esc(1) by (auto simp: units_of_def)
  moreover have "units_of s \<noteq> []" using assms(3) by (auto simp: units_of_def)
  ultimately show ?thesis using assms(1,2) esc by (simp add: bracketed_def units_plain)
qed

lemma nonce_plain:
  assumes "valid_nonce n"
  shows "length n = 32 \<and> CHR ''['' \<notin> set n \<and> CHR '']'' \<notin> set n"
proof -
  have "set n \<subseteq> set ''0123456789abcdef''" using assms unfolding valid_nonce_def list_all_iff by blast
  moreover have "CHR ''['' \<notin> set ''0123456789abcdef''" "CHR '']'' \<notin> set ''0123456789abcdef''" by simp_all
  ultimately show ?thesis using assms unfolding valid_nonce_def by blast
qed

lemma digits_plain: "CHR ''['' \<notin> set (nat_text k) \<and> CHR '']'' \<notin> set (nat_text k)"
proof -
  have digit: "''0123456789'' ! (m mod 10) \<in> set ''0123456789''" for m by (rule nth_mem) simp
  have "set (nat_text k) \<subseteq> set ''0123456789''"
  proof (induction k rule: nat_text.induct)
    case (1 k)
    show ?case
    proof (cases "k < 10")
      case True
      then show ?thesis using digit [of k] unfolding nat_text.simps [of k] by simp
    next
      case False
      then show ?thesis using 1 [OF False] digit [of k] unfolding nat_text.simps [of k] if_not_P [OF False] set_append by simp
    qed
  qed
  moreover have "CHR ''['' \<notin> set ''0123456789''" "CHR '']'' \<notin> set ''0123456789''" by simp_all
  ultimately show ?thesis by blast
qed

definition consolidation_delimiters :: "string \<Rightarrow> nat \<Rightarrow> utf16 list" where
  "consolidation_delimiters nonce n = edges_list (map (output_edges nonce) [0..<n])"

definition arbitration_delimiters :: "string \<Rightarrow> nat \<Rightarrow> utf16 list" where
  "arbitration_delimiters nonce n = edges_list (brief_edges nonce # concat (map (conflict_edges nonce) [0..<n]))"

lemma label_plain: "k < 4 \<Longrightarrow> char_of (65 + k :: nat) \<noteq> CHR ''['' \<and> char_of (65 + k) \<noteq> CHR '']''"
proof -
  assume "k < (4 :: nat)"
  then have "k = 0 \<or> k = 1 \<or> k = 2 \<or> k = 3" by auto
  then show ?thesis by (elim disjE) (simp_all add: char_of_def bit_iff_odd)
qed

lemma consolidation_delimiters_ok:
  assumes "valid_nonce nonce" and "n \<le> 4" and "d \<in> set (consolidation_delimiters nonce n)"
  shows "d \<noteq> [] \<and> bracketed d ESCAPED_DELIMITER"
proof -
  obtain k tail where "k < n" and d: "d = units_of (''UNTRUSTED_PROVIDER_OUTPUT_'' @ [char_of (65 + k)] @ ''_'' @ nonce @ tail)" "tail \<in> {''_BEGIN'', ''_END''}"
    using assms(3) by (auto simp: consolidation_delimiters_def edges_list_def output_edges_def Let_def)
  with nonce_plain [OF assms(1)] label_plain [of k] assms(2) show ?thesis
    unfolding d(1) by (intro delimiter_bracketed) auto
qed

lemma arbitration_delimiters_ok:
  assumes "valid_nonce nonce" and "d \<in> set (arbitration_delimiters nonce n)"
  shows "d \<noteq> [] \<and> bracketed d ESCAPED_DELIMITER"
proof -
  note n = nonce_plain [OF assms(1)]
  have "(\<exists>tail \<in> {''_BEGIN'', ''_END''}. d = units_of (''IMMUTABLE_BRIEF_'' @ nonce @ tail)) \<or>
      (\<exists>k. \<exists>part \<in> {''OUTPUT_A'', ''OUTPUT_B'', ''SUMMARY''}. \<exists>tail \<in> {''_BEGIN'', ''_END''}.
         d = units_of (''UNTRUSTED_CONFLICT_'' @ nat_text k @ ''_'' @ nonce @ ''_'' @ part @ tail))"
    using assms(2) by (auto simp: arbitration_delimiters_def edges_list_def brief_edges_def conflict_edges_def Let_def)
  then show ?thesis
  proof (elim disjE exE bexE)
    fix tail
    assume "tail \<in> {''_BEGIN'', ''_END''}" and d: "d = units_of (''IMMUTABLE_BRIEF_'' @ nonce @ tail)"
    then show ?thesis using n unfolding d by (intro delimiter_bracketed) auto
  next
    fix k part tail
    assume "part \<in> {''OUTPUT_A'', ''OUTPUT_B'', ''SUMMARY''}" "tail \<in> {''_BEGIN'', ''_END''}"
      and d: "d = units_of (''UNTRUSTED_CONFLICT_'' @ nat_text k @ ''_'' @ nonce @ ''_'' @ part @ tail)"
    then show ?thesis using n digits_plain [of k] unfolding d by (intro delimiter_bracketed) auto
  qed
qed

text \<open>How a text may be put into a block: without any of the delimiters, and as it is when it contains none of them.\<close>

definition embedded :: "utf16 list \<Rightarrow> utf16 \<Rightarrow> utf16 \<Rightarrow> bool" where
  "embedded ds text put \<longleftrightarrow>
     (\<forall>d \<in> set ds. \<not> sublist d put) \<and> ((\<forall>d \<in> set ds. \<not> sublist d text) \<longrightarrow> put = text)"

lemma embedded_escaped:
  "\<forall>d \<in> set ds. d \<noteq> [] \<and> bracketed d ESCAPED_DELIMITER \<Longrightarrow> embedded ds text (escapeExactDelimiter text ds)"
  unfolding embedded_def using escaped_clean escaped_same by blast

lemma embedded_map:
  "\<forall>d \<in> set ds. d \<noteq> [] \<and> bracketed d ESCAPED_DELIMITER \<Longrightarrow>
     list_all2 (embedded ds) texts (map (\<lambda>text. escapeExactDelimiter text ds) texts)"
  by (simp add: list_all2_conv_all_nth embedded_escaped)

lemma consolidation_blocks_eq:
  "consolidation_blocks nonce outputs = map (\<lambda>(k, t). delimited (output_edges nonce k) t)
     (enumerate 0 (map (\<lambda>t. escapeExactDelimiter t (consolidation_delimiters nonce (length outputs))) outputs))"
  by (intro nth_equalityI) (simp_all add: consolidation_blocks_def consolidation_delimiters_def Let_def nth_enumerate_eq)

lemma arbitration_blocks_eq:
  "arbitration_blocks nonce entries ds = concat (map (\<lambda>(k, ts). map (\<lambda>(es, t). delimited es t) (zip (conflict_edges nonce k) ts))
     (enumerate 0 (map (map (\<lambda>t. escapeExactDelimiter t ds)) entries)))"
  unfolding arbitration_blocks_def
  by (intro arg_cong [of _ _ concat] nth_equalityI) (simp_all add: nth_enumerate_eq zip_map2 case_prod_beta comp_def)

lemma brief_end_survives:
  assumes "valid_nonce nonce"
  shows "escapeExactDelimiter (units_of ''IMMUTABLE_BRIEF_END'') (consolidation_delimiters nonce n) = units_of ''IMMUTABLE_BRIEF_END''"
proof (rule escaped_same, rule ballI)
  fix d assume "d \<in> set (consolidation_delimiters nonce n)"
  then have "length d > 32"
    using nonce_plain [OF assms]
    by (auto simp: consolidation_delimiters_def edges_list_def output_edges_def Let_def units_of_def)
  then show "\<not> sublist d (units_of ''IMMUTABLE_BRIEF_END'')"
    by (auto dest!: sublist_length_le simp: units_of_def)
qed

text \<open>C20: No text of a provider can close or forge a block that has a nonce. Every output in the consolidation prompt, and
  every output and summary and the brief in the arbitration prompt, stands in a block of its own, between delimiters
  that hold the nonce drawn for the prompt; what is put there contains none of the delimiters of any such block, and a
  text that contains none of them is put in as it is. The brief of the consolidation prompt is not so protected: it is
  put in as it is between two delimiters without a nonce, and an output may contain these.\<close>

theorem no_delimiter_in_embedded_text:
  assumes "valid_nonce nonce" and "length outputs \<le> 4"
  shows "(\<exists>h1 h2 h3 h4 puts. consolidation_text brief nonce outputs = js_join newline
        ([h1, h2, delimited (units_of ''IMMUTABLE_BRIEF_BEGIN'', units_of ''IMMUTABLE_BRIEF_END'') brief, h3, h4] @
         map (\<lambda>(k, put). delimited (output_edges nonce k) put) (enumerate 0 puts)) \<and>
      list_all2 (embedded (consolidation_delimiters nonce (length outputs))) outputs puts) \<and>
    (\<exists>h1 h2 h3 h4 brief' puts. arbitration_text brief nonce entries = js_join newline
        ([h1, h2, delimited (brief_edges nonce) brief', h3, h4] @
         concat (map (\<lambda>(k, ps). map (\<lambda>(edges, put). delimited edges put) (zip (conflict_edges nonce k) ps)) (enumerate 0 puts))) \<and>
      embedded (arbitration_delimiters nonce (length entries)) brief brief' \<and>
      list_all2 (list_all2 (embedded (arbitration_delimiters nonce (length entries)))) entries puts) \<and>
    escapeExactDelimiter (units_of ''IMMUTABLE_BRIEF_END'') (consolidation_delimiters nonce (length outputs)) =
      units_of ''IMMUTABLE_BRIEF_END''"
proof (intro conjI)
  have c: "\<forall>d \<in> set (consolidation_delimiters nonce (length outputs)). d \<noteq> [] \<and> bracketed d ESCAPED_DELIMITER"
    using consolidation_delimiters_ok [OF assms] by blast
  have a: "\<forall>d \<in> set (arbitration_delimiters nonce (length entries)). d \<noteq> [] \<and> bracketed d ESCAPED_DELIMITER"
    using arbitration_delimiters_ok [OF assms(1)] by blast
  show "\<exists>h1 h2 h3 h4 puts. consolidation_text brief nonce outputs = js_join newline
        ([h1, h2, delimited (units_of ''IMMUTABLE_BRIEF_BEGIN'', units_of ''IMMUTABLE_BRIEF_END'') brief, h3, h4] @
         map (\<lambda>(k, put). delimited (output_edges nonce k) put) (enumerate 0 puts)) \<and>
      list_all2 (embedded (consolidation_delimiters nonce (length outputs))) outputs puts"
    unfolding consolidation_text_def consolidation_blocks_eq using embedded_map [OF c] by blast
  have "list_all2 (list_all2 (embedded (arbitration_delimiters nonce (length entries)))) entries
      (map (map (\<lambda>t. escapeExactDelimiter t (arbitration_delimiters nonce (length entries)))) entries)"
    using embedded_map [OF a] by (simp add: list_all2_conv_all_nth)
  then show "\<exists>h1 h2 h3 h4 brief' puts. arbitration_text brief nonce entries = js_join newline
        ([h1, h2, delimited (brief_edges nonce) brief', h3, h4] @
         concat (map (\<lambda>(k, ps). map (\<lambda>(edges, put). delimited edges put) (zip (conflict_edges nonce k) ps)) (enumerate 0 puts))) \<and>
      embedded (arbitration_delimiters nonce (length entries)) brief brief' \<and>
      list_all2 (list_all2 (embedded (arbitration_delimiters nonce (length entries)))) entries puts"
    unfolding arbitration_text_def arbitration_delimiters_def [symmetric] Let_def arbitration_blocks_eq
    using embedded_escaped [OF a] by blast
  show "escapeExactDelimiter (units_of ''IMMUTABLE_BRIEF_END'') (consolidation_delimiters nonce (length outputs)) =
      units_of ''IMMUTABLE_BRIEF_END''"
    by (rule brief_end_survives [OF assms(1)])
qed

lemma no_delimiter_in_embedded_text_witness:
  "\<exists>h1 h2 h3 h4 put. consolidation_text [] (replicate 32 (CHR ''0'')) [fst (output_edges (replicate 32 (CHR ''0'')) 0)] =
      js_join newline [h1, h2, delimited (units_of ''IMMUTABLE_BRIEF_BEGIN'', units_of ''IMMUTABLE_BRIEF_END'') [], h3, h4,
        delimited (output_edges (replicate 32 (CHR ''0'')) 0) put] \<and>
     \<not> sublist (fst (output_edges (replicate 32 (CHR ''0'')) 0)) put"
proof -
  let ?n = "replicate 32 (CHR ''0'')" and ?o = "fst (output_edges (replicate 32 (CHR ''0'')) 0)"
  have "valid_nonce ?n" by (simp add: valid_nonce_def list_all_iff)
  moreover have mem: "?o \<in> set (consolidation_delimiters ?n 1)"
    by (cases "output_edges ?n 0") (simp add: consolidation_delimiters_def edges_list_def)
  ultimately obtain h1 h2 h3 h4 puts where t: "consolidation_text [] ?n [?o] = js_join newline
        ([h1, h2, delimited (units_of ''IMMUTABLE_BRIEF_BEGIN'', units_of ''IMMUTABLE_BRIEF_END'') [], h3, h4] @
         map (\<lambda>(k, put). delimited (output_edges ?n k) put) (enumerate 0 puts))"
      "list_all2 (embedded (consolidation_delimiters ?n (length [?o]))) [?o] puts"
    using no_delimiter_in_embedded_text [of ?n "[?o]" "[]" "[]"] by auto
  then obtain put where "puts = [put]" "embedded (consolidation_delimiters ?n 1) ?o put"
    by (auto simp: list_all2_Cons1)
  with t mem show ?thesis by (auto simp: embedded_def)
qed

section \<open>The tokens held\<close>

lemma sum_routes_Inr: "sum_routes n rs = Inr m \<Longrightarrow> m = n + sum_list (map bt_tokens rs)"
proof (induction rs arbitrary: n)
  case (Cons r rs)
  then have "sum_routes (n + bt_tokens r) rs = Inr m" by (auto simp: safeTokenSum_def split: if_splits)
  from Cons.IH [OF this] show ?case by simp
qed simp

lemma envelope_Inr:
  assumes "estimateBrainstormTokenEnvelope rs c a = Inr v"
  shows "maximum_tokens v = sum_list (map bt_tokens rs) + c + a"
  using assms sum_routes_Inr [of 0 rs]
  by (auto simp: estimateBrainstormTokenEnvelope_def safeTokenSum_def split: if_splits)

lemma hold_slots_total: "hold_slots L sls u m = Inr (u', m') \<Longrightarrow> m' = m + sum_list (map holdTokens sls)"
proof (induction sls arbitrary: u m)
  case (Cons sl sls)
  then obtain v where "hold_slots L sls v (m + holdTokens sl) = Inr (u', m')"
    by (auto simp: Let_def split: if_splits sum.splits)
  from Cons.IH [OF this] show ?case by simp
qed simp

lemma routes_of_slots:
  assumes "isBrainstormRecord b"
  shows "map (routeForSlot b) (bs_slots b) = map Inr (routes_of b)"
proof -
  let ?P = "planned_slots (length (bs_routes b)) (bs_arbiter b \<noteq> None)"
  have v: "validSlots (bs_slots b) (length (bs_routes b)) (bs_arbiter b \<noteq> None)"
    using assms by (simp add: isBrainstormRecord_def)
  have len: "length (bs_slots b) = length ?P" using v by (simp add: validSlots_def planned_slots_def)
  have "routeForSlot b (bs_slots b ! k) = routeForSlot b (?P ! k)" if "k < length (bs_slots b)" for k
  proof -
    have "(bs_slots b ! k, ?P ! k) \<in> set (zip (bs_slots b) ?P)" using that len by (auto simp: in_set_zip)
    then have "same_slot (bs_slots b ! k) (?P ! k)" using v by (auto simp: validSlots_def list_all_iff)
    then show ?thesis by (simp add: routeForSlot_def same_slot_def)
  qed
  then have "map (routeForSlot b) (bs_slots b) = map (routeForSlot b) ?P" using len by (intro nth_equalityI) simp_all
  also have "\<dots> = map (\<lambda>i. Inr (bs_routes b ! i)) [0..<length (bs_routes b)] @ [Inr (bs_synthesizer b)] @
      (case bs_arbiter b of None \<Rightarrow> [] | Some a \<Rightarrow> [Inr a])"
    by (cases "bs_arbiter b") (auto simp: planned_slots_def planned_slot_def routeForSlot_def)
  also have "map (\<lambda>i. Inr (bs_routes b ! i)) [0..<length (bs_routes b)] = map Inr (bs_routes b)"
    by (intro nth_equalityI) simp_all
  finally show ?thesis by (cases "bs_arbiter b") (simp_all add: routes_of_def)
qed

text \<open>C19: The tokens the gateway holds for a brainstorm are exactly its envelope. A valid record always has a group to ask
  for, with a slot for each route; the group that the gateway reserves for it holds the envelope's maximum, neither more
  nor less.\<close>

theorem group_holds_the_envelope:
  assumes "isBrainstormRecord b"
  shows "\<exists>spec. groupSpec E b = Inr spec \<and> map slot_id (spec_slots spec) = map sl_id (bs_slots b) \<and>
    map holdTokens (spec_slots spec) = map bt_tokens (routes_of b) \<and>
    (\<forall>L fits g g' grp. map_of (groups (gw_state g)) (spec_groupId spec) = None \<and> reserveGroup L fits spec g = (g', Inr grp) \<longrightarrow>
       maximumTokens grp = maximum_tokens (bs_envelope b))"
proof -
  define gid where "gid = (case bs_group b of Some g \<Rightarrow> g | None \<Rightarrow> brainstorm_group_id E b)"
  define req where "req = (\<lambda>sl. slot_request gid sl (projr (routeForSlot b sl)))"
  define spec where "spec = \<lparr>spec_groupId = gid, spec_slots = map req (bs_slots b)\<rparr>"
  have known: "routeForSlot b sl = Inr (projr (routeForSlot b sl))" if "sl \<in> set (bs_slots b)" for sl
    using routes_of_slots [OF assms] that by (metis (no_types, lifting) image_iff list.set_map sum.sel(2))
  have "map_result (\<lambda>sl. bind_result (routeForSlot b sl) (\<lambda>route. Inr (slot_request gid sl route))) (bs_slots b) = Inr (map req (bs_slots b))"
    using known by (intro map_result_all) (metis bind_result_simps(2) req_def)
  then have 1: "groupSpec E b = Inr spec" by (simp add: groupSpec_def spec_def gid_def [symmetric])
  have 2: "map holdTokens (spec_slots spec) = map bt_tokens (routes_of b)"
    using arg_cong [OF routes_of_slots [OF assms], of "map (bt_tokens \<circ> projr)"]
    by (simp add: spec_def req_def slot_request_def comp_def)
  have env: "maximum_tokens (bs_envelope b) = sum_list (map bt_tokens (routes_of b))"
    using assms envelope_Inr
    by (cases "bs_arbiter b") (fastforce simp: isBrainstormRecord_def isCanonicalEnvelope_def routes_of_def split: sum.splits)+
  have 3: "maximumTokens grp = maximum_tokens (bs_envelope b)"
    if "map_of (groups (gw_state g)) (spec_groupId spec) = None" "reserveGroup L fits spec g = (g', Inr grp)" for L fits g g' grp
    using that hold_slots_total [of L "spec_slots spec" "used (gw_state g)" 0] normalizeGroup_ok(1) [of spec]
    by (auto simp: reserveGroup_def Let_def env 2 split: if_splits sum.splits prod.splits)
  have 4: "map slot_id (spec_slots spec) = map sl_id (bs_slots b)" by (simp add: spec_def req_def slot_request_def)
  show ?thesis using 1 2 3 4 by blast
qed

section \<open>Waiting for the arbitration\<close>

definition quiet :: "brain_world \<Rightarrow> 'a bio \<Rightarrow> brain_world \<Rightarrow> bool" where
  "quiet w0 m w \<longleftrightarrow> ends m (\<lambda>_. same_store w0) (\<lambda>_. same_store w0) w"

lemma same_store_trans: "same_store u v \<Longrightarrow> same_store v w \<Longrightarrow> same_store u w"
  by (simp add: same_store_def)

lemma quietI: "preserving same_store m \<Longrightarrow> same_store w0 w \<Longrightarrow> quiet w0 m w"
  unfolding quiet_def by (erule ends_keeping) (blast intro: same_store_trans)+

lemma quiet_then:
  "preserving same_store m \<Longrightarrow> same_store w0 w \<Longrightarrow> (\<And>x w'. same_store w0 w' \<Longrightarrow> quiet w0 (f x) w') \<Longrightarrow> quiet w0 (io_bind m f) w"
  unfolding quiet_def ends_bind by (erule ends_keeping) (blast intro: same_store_trans)+

lemma quiet_refused:
  "preserving same_store m \<Longrightarrow> same_store w0 w \<Longrightarrow> (\<And>w'. \<exists>e. snd (m w') = Inl e) \<Longrightarrow> quiet w0 (io_bind m f) w"
  using preservingD [of same_store m w]
  by (auto simp: quiet_def ends_def io_bind_def same_store_def split: prod.splits sum.splits) (metis snd_conv sum.distinct(1))

lemma quiet_assert: "same_store w0 w \<Longrightarrow> (c \<Longrightarrow> quiet w0 (f ()) w) \<Longrightarrow> quiet w0 (io_bind (io_assert c msg) f) w"
  by (simp add: quiet_def io_ends)

lemma quiet_get: "holds b w \<Longrightarrow> quiet w (f b) w \<Longrightarrow> quiet w (io_bind (bio_get (bs_id b)) f) w"
  unfolding quiet_def by (rule follows_then_get [of w b w]) (simp_all add: follows_def brain.le_refl)

definition arbitration_refused :: "brainstorm_env \<Rightarrow> bool" where
  "arbitration_refused E \<longleftrightarrow> (\<forall>gid draft operator w. \<exists>e. snd (ensureGroupRun (bo_orchestrator E) gid ''arbitration'' draft operator True w) = Inl e)"

lemma refused_slot_run: "arbitration_refused E \<Longrightarrow> \<exists>e. snd (ensure_slot_run E gid ''arbitration'' draft operator w) = Inl e"
  by (auto simp: ensure_slot_run_def bio_run_def arbitration_refused_def split: prod.split) (metis snd_conv)

lemma quiet_arbitration:
  assumes "arbitration_refused E" and "same_store w0 w"
  shows "quiet w0 (ensureArbitration E b known) w"
proof -
  have "quiet w0 (ensure_stage E ''arbitration'' route build st gid operator b) w" if "preserving same_store build" for route build st gid operator
    unfolding ensure_stage_def
    by (intro quiet_then quiet_refused io_keeps assms refused_slot_run preserving_option store.keeps_calls that)
  then show ?thesis
    using assms(2) same_store_prompts by (auto simp: ensureArbitration_def quiet_def io_ends split: option.split)
qed

lemma waiting_quiet:
  assumes b: "holds b w" "bs_status b = BNeeds_arbitration"
  shows "quiet w (brainstorm_tick E (bs_id b)) w" and "quiet w (brainstorm_approve E (bs_id b) operator) w"
    and "quiet w (brainstorm_cancel E (bs_id b)) w"
    and "arbitration_refused E \<Longrightarrow> independent_arbiter b \<Longrightarrow> quiet w (requestArbitration E (bs_id b) route operator) w"
proof -
  have here: "same_store w w" by (simp add: same_store_def)
  have emitted: "quiet w (io_bind (bio_emit E b event None) (\<lambda>_. io_return b)) w" for event
    by (rule quietI) (intro store.keeps_calls io_keeps here)+
  then show "quiet w (brainstorm_tick E (bs_id b)) w"
    unfolding brainstorm_tick_def using b(2) here
    by (intro quiet_get [OF b(1)]) (auto simp: terminal_brainstorm_def quiet_def io_ends)
  show "quiet w (brainstorm_approve E (bs_id b) operator) w"
    unfolding brainstorm_approve_def
    by (rule quiet_assert [OF here], rule quiet_get [OF b(1)], rule quiet_then [OF same_store_emit here], rule quiet_assert, assumption,
        rule quiet_assert, assumption) (simp add: b(2))
  show "quiet w (brainstorm_cancel E (bs_id b)) w"
    unfolding brainstorm_cancel_def
    by (rule quiet_get [OF b(1)], rule quiet_then [OF same_store_emit here], rule quiet_assert, assumption) (simp add: b(2))
  show "quiet w (requestArbitration E (bs_id b) route operator) w" if refused: "arbitration_refused E" and ind: "independent_arbiter b"
  proof -
    have arbitrate: "quiet w (io_bind (io_lift (map_result (providerForChildRun b) (conflict_runs (material_conflicts b)))) (\<lambda>providers.
        if bt_provider route \<in> set providers then io_bind (markFailed E b) (\<lambda>_. io_throw ''brainstorm_no_independent_arbiter'')
        else io_bind bio_read_runs (\<lambda>runs. io_bind (io_lift (outputsForConflicts (material_conflicts b) runs)) (ensureArbitration E b)))) w'"
      if w': "same_store w w'" and route: "bs_arbiter b = Some route" for w'
    proof (cases "map_result (providerForChildRun b) (conflict_runs (material_conflicts b))")
      case (Inl e)
      then show ?thesis using w' by (simp add: quiet_def io_ends)
    next
      case (Inr providers)
      have "bt_provider route \<notin> set providers"
        using independent_arbiterD [OF ind] route by (auto simp: map_result_set [OF Inr])
      moreover have "quiet w (io_bind bio_read_runs (\<lambda>runs. io_bind (io_lift (outputsForConflicts (material_conflicts b) runs)) (ensureArbitration E b))) w'"
        by (intro quiet_then io_keeps store.keeps_lift w' quiet_arbitration refused)
      ultimately show ?thesis unfolding quiet_def Inr ends_lifted by simp
    qed
    show ?thesis
      unfolding requestArbitration_def
      by (rule quiet_assert [OF here], rule quiet_get [OF b(1)], rule quiet_then [OF store.keeps_when [OF same_store_emit] here],
          rule quiet_assert, assumption, rule arbitrate) simp_all
  qed
qed

fun concerns :: "string \<Rightarrow> brainstorm_op \<Rightarrow> bool" where
  "concerns i (BCreate fresh input t) \<longleftrightarrow> False"
| "concerns i (BApprove j operator) \<longleftrightarrow> j = i"
| "concerns i (BTick j) \<longleftrightarrow> j = i"
| "concerns i (BArbitrate j route operator) \<longleftrightarrow> j = i"
| "concerns i (BCancel j) \<longleftrightarrow> j = i"
| "concerns i (BOther f) \<longleftrightarrow> True"

lemma waiting_exec:
  assumes "holds b w" and "bs_status b = BNeeds_arbitration" and "independent_arbiter b" and "arbitration_refused E"
    and "concerns (bs_id b) op"
  shows "same_store w (brainstorm_exec E op w)"
proof -
  have fst_quiet: "same_store w (fst (m w))" if "quiet w m w" for m :: "'a bio"
    using that by (auto simp: quiet_def ends_def split: prod.splits sum.splits)
  from assms(5) show ?thesis
    by (cases op) (simp_all add: fst_quiet waiting_quiet [OF assms(1,2)] assms(3,4), simp add: same_store_def)
qed

text \<open>C21: A brainstorm that waits for its arbitration can be left waiting for ever. When the orchestrator refuses the run of
  the arbitration slot (its estimate too small for the prompt, its route gone, the slot released), no sequence of
  operations on the brainstorm changes it: it cannot be cancelled, approved again or failed, and its group keeps its
  tokens. The same refusals of the fan-out and the consolidation mark it as failed and give them back.\<close>

theorem refused_arbitration_waits_for_ever:
  assumes "holds b w" and "bs_status b = BNeeds_arbitration" and "independent_arbiter b" and "arbitration_refused E"
    and "\<forall>op \<in> set ops. concerns (bs_id b) op"
  shows "bw_store (fold (brainstorm_exec E) ops w) = bw_store w \<and> (\<exists>e. snd (brainstorm_cancel E (bs_id b) w) = Inl e)"
proof -
  have "holds b w \<Longrightarrow> same_store w (fold (brainstorm_exec E) ops w)"
    using assms(5)
  proof (induction ops arbitrary: w)
    case (Cons op ops)
    have s: "same_store w (brainstorm_exec E op w)"
      using waiting_exec [OF Cons.prems(1) assms(2-4)] Cons.prems(2) by simp
    then have "holds b (brainstorm_exec E op w)" using Cons.prems(1) holds_same_store by blast
    with Cons s show ?case by (simp add: same_store_def)
  qed (simp add: same_store_def)
  moreover have "ends (brainstorm_cancel E (bs_id b)) (\<lambda>_ _. False) (\<lambda>_ _. True) w"
    unfolding brainstorm_cancel_def
    by (rule follows_then_get [of w b w], simp add: follows_def brain.le_refl assms(1), unfold ends_bind,
        rule ends_keeping [OF same_store_emit]) (simp_all add: io_ends assms(2))
  ultimately show ?thesis using assms(1)
    by (auto simp: same_store_def ends_def split: prod.splits sum.splits)
qed

section \<open>A concrete brainstorm\<close>

definition demo_route :: "run_provider \<Rightarrow> brainstorm_route" where
  "demo_route p = \<lparr>bt_provider = p, bt_model = ''m'', bt_effort = Some Low, bt_tokens = 9000\<rparr>"

definition demo_slot :: "string \<Rightarrow> brainstorm_stage \<Rightarrow> nat option \<Rightarrow> string \<Rightarrow> brainstorm_slot_state \<Rightarrow> brainstorm_slot" where
  "demo_slot i stage route run st = \<lparr>sl_id = i, sl_stage = stage, sl_route = route, sl_run = Some run, sl_state = st\<rparr>"

text \<open>Its three answers are consolidated by a fourth run, which is completed.\<close>

definition demo_consolidating :: brainstorm where
  "demo_consolidating =
     \<lparr>bs_id = ''b'', bs_project = ''p1'', bs_brief = [0x62], bs_routes = map demo_route [Codex_cli, Claude_cli, Agy_cli],
      bs_synthesizer = demo_route Codex_cli, bs_arbiter = None,
      bs_envelope = \<lparr>fanout_tokens = 27000, consolidation_tokens = 9000, optional_arbitration_tokens = 0,
        minimum_tokens = 36000, maximum_tokens = 36000\<rparr>,
      bs_children = [''c1'', ''c2'', ''c3''], bs_consolidation = Some ''c4'', bs_arbitration = None, bs_conflicts = [],
      bs_final = None, bs_status = BConsolidating, bs_revision = 4, bs_approval = Approval_reserved,
      bs_group = Some ''g'',
      bs_slots = [demo_slot ''fanout-0'' Fanout (Some 0) ''c1'' Slot_terminal,
        demo_slot ''fanout-1'' Fanout (Some 1) ''c2'' Slot_terminal,
        demo_slot ''fanout-2'' Fanout (Some 2) ''c3'' Slot_terminal,
        demo_slot ''consolidation'' Consolidation None ''c4'' Slot_queued],
      bs_operator = Some ''ops'', bs_created = Iso 0, bs_updated = Iso 1\<rparr>"

definition demo_consolidated_run :: run_record where
  "demo_consolidated_run = (new_record
       (draft_of (brainstorm_draft demo_consolidating (demo_route Codex_cli) [0x62]) (Some Low) None ''c4'' 1 (Iso 1))
       (Some \<lparr>ref_group_id = ''g'', ref_slot_id = ''consolidation''\<rparr>)
       (Some \<lparr>req_operator = ''ops'', req_estimated_tokens = 9000, req_prompt_commitment = None\<rparr>) (Iso 1))
     \<lparr>run_status := RCompleted, approved_revision := Some 1, approved_by := Some ''ops'', approved_at := Some (Iso 1),
      worker_run_id := Some ''w'',
      provider_result := Some \<lparr>pr_refused = False, pr_reason = None, pr_worker_run_id = Some ''w'', pr_raw_output = [0x7B],
        pr_exit_code = Some 0, pr_error_reason = None, pr_lock_status = None\<rparr>,
      artifacts := [\<lparr>artifact_id = ''text-w'', artifact_kind = TextArtifact, preview = [0x7B], artifact_created_at = Iso 1\<rparr>]\<rparr>"

definition demo_brain_env :: brainstorm_env where
  "demo_brain_env =
     \<lparr>bo_orchestrator = orch_refusing, bo_fits = \<lambda>_. True, bo_fits_events = \<lambda>_. True, bo_clock = \<lambda>n. Iso (int (min n 1000)),
      bo_nonce = \<lambda>_. [], bo_isRouteEligible = Some (\<lambda>_ _ _ _. True),
      bo_parse = \<lambda>_. Some (JObj [(''consensus'', JArr []),
        (''conflicts'', JArr [JObj [(''output_labels'', JArr [JStr ''A'', JStr ''B'']), (''summary'', JStr ''s''), (''material'', JBool False)]]),
        (''confidence'', JNum (Finite 1)), (''final'', JStr ''f'')])\<rparr>"

definition demo_brain_world :: brain_world where
  "demo_brain_world = \<lparr>bw_run = orch_start\<lparr>rw_runs := [demo_consolidated_run]\<rparr>, bw_store = [demo_consolidating],
     bw_events = [], bw_clock = 5, bw_nonces = 0\<rparr>"

definition demo_completed :: brainstorm where
  "demo_completed = (finish_stage Consolidation demo_consolidating)
     \<lparr>bs_conflicts := [\<lparr>cf_id = ''bsc-'', cf_runs = (''c1'', ''c2''), cf_summary = [0x73], cf_material = False\<rparr>],
      bs_final := Some [0x66], bs_status := BCompleted, bs_revision := 5, bs_updated := Iso 5\<rparr>"

definition demo_consolidation_slot :: brainstorm_slot where
  "demo_consolidation_slot = demo_slot ''consolidation'' Consolidation None ''c4'' Slot_queued"

definition demo_parsed :: consolidation_result where
  "demo_parsed = \<lparr>cr_conflicts = [\<lparr>cf_id = ''bsc-'', cf_runs = (''c1'', ''c2''), cf_summary = [0x73], cf_material = False\<rparr>],
     cr_final = [0x66], cr_material = False\<rparr>"


lemma demo_slot_found: "List.find (\<lambda>sl. sl_stage sl = Consolidation) (bs_slots demo_consolidating) = Some demo_consolidation_slot"
  by code_simp

lemma demo_run_read: "readRunStore [demo_consolidated_run] = Inr [demo_consolidated_run]"
  by (simp add: demo_consolidated_run_def demo_consolidating_def brainstorm_draft_def demo_route_def
     RunStoreProps.demo_checks RunStoreProps.demo_store)

lemma demo_bound: "assertBoundRun demo_consolidating demo_consolidation_slot (find_by_id [demo_consolidated_run] (sl_run demo_consolidation_slot))
    = Inr demo_consolidated_run"
  by (simp add: assertBoundRun_def routeForSlot_def find_by_id_def demo_consolidation_slot_def demo_slot_def demo_consolidated_run_def
     demo_consolidating_def brainstorm_draft_def demo_route_def run_group_def run_id_def new_record_def draft_of_def)

lemma demo_text: "\<not> ended_badly demo_consolidated_run \<and> terminalText demo_consolidated_run = Some [0x7B]"
  by (simp add: ended_badly_def terminalText_def demo_consolidated_run_def new_record_def)

lemma demo_parse: "parseConsolidation demo_brain_env [0x7B] [''c1'', ''c2'', ''c3''] = Inr demo_parsed"
  by (simp add: parseConsolidation_def json_of_def demo_brain_env_def demo_parsed_def parse_conflict_def label_index_def
      conflict_id_def sha256_hex_def orch_refusing_def orch_env_def boundedString_def text_of_field_def units_of_def
      MAX_RESULT_BYTES_def MAX_CONFLICTS_def MAX_FINAL_CHARS_def MAX_ITEM_CHARS_def)

definition demo_finish :: "brainstorm \<Rightarrow> brainstorm" where
  "demo_finish r = (finish_stage Consolidation (r\<lparr>bs_updated := Iso 5\<rparr>))
     \<lparr>bs_conflicts := cr_conflicts demo_parsed, bs_final := Some [0x66], bs_status := BCompleted\<rparr>"

lemmas demo_document_defs = isBrainstormStoreDocument_def isBrainstormRecord_def safeId_def safe_id_start_def nullableSafeId_def
  uniqueSafeIds_def boundedString_def isBrainstormRoute_def isCanonicalEnvelope_def estimateBrainstormTokenEnvelope_def
  safeTokenSum_def positiveTokenCount_def nonNegativeTokenCount_def validSlots_def planned_slots_def planned_slot_def same_slot_def
  validConflicts_def sameImmutableFields_def isSafeInteger_def MAX_SAFE_INTEGER_def valid_time_def MAX_TIME_def
  project_id_pattern_def MAX_BRAINSTORMS_def MAX_BRIEF_CHARS_def MAX_MODEL_CHARS_def MAX_ID_CHARS_def MAX_STORED_CONFLICTS_def
  MAX_CONFLICT_SUMMARY_CHARS_def MAX_FINAL_ARTIFACT_CHARS_def upt_rec_numeral upt_rec nat_text.simps
  demo_completed_def demo_consolidating_def demo_route_def demo_slot_def finish_stage_def

lemma demo_documents:
  "isBrainstormStoreDocument [demo_consolidating]" "isBrainstormStoreDocument [demo_completed]" "isBrainstormRecord demo_completed"
  "sameImmutableFields demo_consolidating demo_completed" "bs_id demo_consolidating = ''b''" "bs_revision demo_consolidating = 4"
  "bs_status demo_consolidating = BConsolidating" "bs_approval demo_consolidating = Approval_reserved"
  by (simp_all add: demo_document_defs)

lemma demo_finished: "(demo_finish demo_consolidating)\<lparr>bs_revision := 5\<rparr> = demo_completed"
  by (simp add: demo_finish_def demo_completed_def demo_parsed_def finish_stage_def demo_consolidating_def)

lemma demo_swap: "compareAndSwapBrainstorm (\<lambda>_. True) ''b'' 4 demo_finish [demo_consolidating] = Inr ([demo_completed], demo_completed)"
  by (simp add: compareAndSwapBrainstorm_def readBrainstormStore_def writeBrainstormStore_def demo_documents demo_finished)

lemma demo_found: "find_brainstorm ''b'' [demo_consolidating] = Inr demo_consolidating"
  by (simp add: find_brainstorm_def readBrainstormStore_def demo_documents)

lemma demo_update:
  "bio_update demo_brain_env demo_consolidating (\<lambda>r. (finish_stage Consolidation r)\<lparr>bs_conflicts := cr_conflicts demo_parsed,
      bs_final := (if cr_material demo_parsed then None else Some (cr_final demo_parsed)),
      bs_status := (if cr_material demo_parsed \<and> bs_arbiter demo_consolidating = None then BFailed
        else if cr_material demo_parsed then BNeeds_arbitration else BCompleted)\<rparr>) demo_brain_world =
   (demo_brain_world\<lparr>bw_clock := 6, bw_store := [demo_completed]\<rparr>, Inr demo_completed)"
proof -
  have "(\<lambda>r. (finish_stage Consolidation (r\<lparr>bs_updated := Iso 5\<rparr>))\<lparr>bs_conflicts := cr_conflicts demo_parsed,
      bs_final := (if cr_material demo_parsed then None else Some (cr_final demo_parsed)),
      bs_status := (if cr_material demo_parsed \<and> bs_arbiter demo_consolidating = None then BFailed
        else if cr_material demo_parsed then BNeeds_arbitration else BCompleted)\<rparr>) = demo_finish"
    by (simp add: fun_eq_iff demo_finish_def demo_parsed_def)
  then show ?thesis
    using demo_swap demo_documents(5,6)
    by (simp add: bio_update_def io_bind_def bio_now_def bio_store_def demo_brain_env_def demo_brain_world_def)
qed

lemma demo_tick: "bw_store (fst (brainstorm_tick demo_brain_env ''b'' demo_brain_world)) = [demo_completed]"
proof -
  have tick: "brainstorm_tick demo_brain_env ''b'' demo_brain_world = finish_consolidation demo_brain_env demo_consolidating [0x7B] demo_brain_world"
    using demo_found demo_run_read demo_slot_found demo_bound demo_text
    by (simp add: brainstorm_tick_def io_bind_def bio_get_def bio_read_runs_def bio_run_def io_read_runs_def tick_stage_def
        io_require_def io_return_def io_lift_def demo_brain_world_def orch_start_def terminal_brainstorm_def demo_documents)
  have children: "bs_children demo_consolidating = [''c1'', ''c2'', ''c3'']" by (simp add: demo_consolidating_def)
  have rest: "preserving same_store (io_bind (bio_emit demo_brain_env b event None) (\<lambda>_. io_bind (if c then cleanupGroup demo_brain_env b
      else io_return ()) (\<lambda>_. io_return b)))" for b event c
    by (intro store.keeps_calls preserving_if io_keeps)
  show ?thesis
    using preservingD [OF rest] unfolding tick finish_consolidation_def children demo_parse sum.case Let_def
    by (simp add: io_bind_def [of "bio_update _ _ _"] demo_update same_store_def)
qed

lemma demo_ok: "brainstorm_ok demo_consolidating"
  by (simp add: brainstorm_ok_def arbitration_bound_def demo_consolidating_def demo_slot_def)

lemma demo_done:
  "store_ok [demo_consolidating]" "bs_status demo_completed = BCompleted" "bs_final demo_completed = Some [0x66]"
  by (simp_all add: store_ok_def demo_documents demo_ok) (simp_all add: demo_completed_def)

lemma completed_brainstorm_is_resolved_witness:
  "bw_store (fold (brainstorm_exec demo_brain_env) [BTick ''b''] demo_brain_world) = [demo_completed] \<and>
   bs_status demo_completed = BCompleted \<and> bs_final demo_completed \<noteq> None"
proof -
  have run: "bw_store (fold (brainstorm_exec demo_brain_env) [BTick ''b''] demo_brain_world) = [demo_completed]"
    using demo_tick by simp
  have start: "bw_store demo_brain_world = [demo_consolidating]" by (simp add: demo_brain_world_def)
  show ?thesis
    using completed_brainstorm_is_resolved [of demo_brain_world demo_completed demo_brain_env "[BTick ''b'']"]
    unfolding run start by (simp add: demo_done demo_documents)
qed

lemma brainstorm_history_is_kept_witness:
  "demo_completed \<in> set (bw_store (fold (brainstorm_exec demo_brain_env) [BCancel ''b''] (brainstorm_exec demo_brain_env (BTick ''b'') demo_brain_world))) \<and>
   sameImmutableFields demo_consolidating demo_completed \<and> bs_revision demo_consolidating < bs_revision demo_completed"
proof -
  let ?w = "brainstorm_exec demo_brain_env (BTick ''b'') demo_brain_world"
  have start: "bw_store demo_brain_world = [demo_consolidating]" by (simp add: demo_brain_world_def)
  have tick: "bw_store ?w = [demo_completed]" using demo_tick by simp
  have "store_ok (bw_store ?w)"
    using brainstorm_exec_le [of demo_brain_world demo_brain_env "BTick ''b''"] demo_done(1)
    unfolding brain_le_def store_le_def start by blast
  then have "demo_completed \<in> set (bw_store (fold (brainstorm_exec demo_brain_env) [BCancel ''b''] ?w))"
    using brainstorm_history_is_kept [of ?w demo_completed demo_brain_env "[BCancel ''b'']"] tick
    by (auto simp: demo_done terminal_brainstorm_def simp del: fold_simps brainstorm_exec.simps)
  then show ?thesis
    using demo_documents by (simp add: demo_completed_def del: fold_simps brainstorm_exec.simps)
qed

lemma group_holds_the_envelope_witness:
  "\<exists>spec. groupSpec demo_brain_env demo_consolidating = Inr spec \<and> map holdTokens (spec_slots spec) = [9000, 9000, 9000, 9000]"
proof -
  have "isBrainstormRecord demo_consolidating" using demo_documents(1) by (simp add: isBrainstormStoreDocument_def)
  from group_holds_the_envelope [OF this, of demo_brain_env] show ?thesis
    by (auto simp: demo_consolidating_def routes_of_def demo_route_def)
qed

text \<open>A brainstorm with a material conflict between its first two answers, whose arbiter's route is not available.\<close>

definition demo_waiting :: brainstorm where
  "demo_waiting = demo_consolidating\<lparr>bs_arbiter := Some \<lparr>bt_provider = Openrouter_api, bt_model = ''m'', bt_effort = None, bt_tokens = 9000\<rparr>,
     bs_envelope := \<lparr>fanout_tokens = 27000, consolidation_tokens = 9000, optional_arbitration_tokens = 9000,
        minimum_tokens = 36000, maximum_tokens = 45000\<rparr>,
     bs_slots := bs_slots demo_consolidating @ [planned_slot ''arbitration'' Arbitration None],
     bs_conflicts := [\<lparr>cf_id = ''k'', cf_runs = (''c1'', ''c2''), cf_summary = [0x73], cf_material = True\<rparr>],
     bs_status := BNeeds_arbitration\<rparr>"

definition demo_refusing_env :: brainstorm_env where
  "demo_refusing_env = demo_brain_env\<lparr>bo_orchestrator := orch_refusing\<lparr>oe_isRouteAvailable := Some (\<lambda>_ _ _ _. False)\<rparr>\<rparr>"

lemma demo_waiting_facts:
  "isBrainstormRecord demo_waiting" "brainstorm_ok demo_waiting" "independent_arbiter demo_waiting" "bs_status demo_waiting = BNeeds_arbitration"
  "bs_id demo_waiting = ''b''"
  by (simp_all add: demo_waiting_def demo_document_defs brainstorm_ok_def arbitration_bound_def independent_arbiter_def
      material_conflicts_def conflict_runs_def providerForChildRun_def)

lemma demo_refused: "arbitration_refused demo_refusing_env"
  by (simp add: arbitration_refused_def ensureGroupRun_def demo_refusing_env_def demo_brain_env_def orch_refusing_def orch_env_def
      routeAvailable_def io_bind_def io_lift_def io_return_def io_assert_def io_throw_def)

lemma refused_arbitration_waits_for_ever_witness:
  "bw_store (fold (brainstorm_exec demo_refusing_env) [BTick ''b'', BCancel ''b'', BArbitrate ''b'' (the (bs_arbiter demo_waiting)) ''ops'']
     (demo_brain_world\<lparr>bw_store := [demo_waiting]\<rparr>)) = [demo_waiting]"
proof -
  have "holds demo_waiting (demo_brain_world\<lparr>bw_store := [demo_waiting]\<rparr>)"
    by (simp add: holds_def store_ok_def isBrainstormStoreDocument_def demo_waiting_facts MAX_BRAINSTORMS_def)
  from refused_arbitration_waits_for_ever [OF this demo_waiting_facts(4,3) demo_refused,
      of "[BTick ''b'', BCancel ''b'', BArbitrate ''b'' (the (bs_arbiter demo_waiting)) ''ops'']"]
  show ?thesis by (simp add: demo_waiting_facts del: fold_simps brainstorm_exec.simps)
qed

end
