(* ===== verification/TelemetryRedaction.thy ===== *)
theory TelemetryRedaction
  imports JsPrelude
begin

text \<open>
  \<^verbatim>\<open>src/data/delivery-system/telemetryRedaction.ts\<close>: the redaction of secrets in texts that are stored. First the regular
  expressions of the language as far as the file uses them: a match is searched from the left, alternatives and
  repetitions are tried in order, the longest repetition first, and a global replacement goes on behind each match.
\<close>

section \<open>Regular expressions\<close>

text \<open>The white space and line terminators of \<open>\s\<close> and \<open>trim\<close>, and the word characters of \<open>\w\<close> and \<open>\b\<close>.\<close>

definition js_blank :: "16 word \<Rightarrow> bool" where
  "js_blank u \<longleftrightarrow> u \<in> set [9, 10, 11, 12, 13, 32, 160, 0x1680, 0x2028, 0x2029, 0x202F, 0x205F, 0x3000, 0xFEFF] \<or>
     0x2000 \<le> u \<and> u \<le> 0x200A"

definition unit_between :: "char \<Rightarrow> char \<Rightarrow> 16 word \<Rightarrow> bool" where
  "unit_between a b u \<longleftrightarrow> of_char a \<le> u \<and> u \<le> of_char b"

definition word_unit :: "16 word \<Rightarrow> bool" where
  "word_unit u \<longleftrightarrow> unit_between (CHR ''a'') (CHR ''z'') u \<or> unit_between (CHR ''A'') (CHR ''Z'') u \<or>
     unit_between (CHR ''0'') (CHR ''9'') u \<or> u = of_char (CHR ''_'')"

datatype regex =
    RSet "16 word \<Rightarrow> bool"
  | RSeq regex regex
  | RAlt regex regex
  | RStar regex
  | REmpty
  | RBound

text \<open>A place in a text: what stands before it, last first, and the rest. The places a match may end at, in the order in
  which they are tried. A repetition goes on only when it has moved.\<close>

type_synonym place = "utf16 \<times> utf16"

function regex_ends :: "regex \<Rightarrow> place \<Rightarrow> place list" where
  "regex_ends (RSet P) (b, s) = (case s of [] \<Rightarrow> [] | u # t \<Rightarrow> if P u then [(u # b, t)] else [])"
| "regex_ends (RSeq r q) p = concat (map (regex_ends q) (regex_ends r p))"
| "regex_ends (RAlt r q) p = regex_ends r p @ regex_ends q p"
| "regex_ends (RStar r) p =
     concat (map (regex_ends (RStar r)) (filter (\<lambda>p'. length (snd p') < length (snd p)) (regex_ends r p))) @ [p]"
| "regex_ends REmpty p = [p]"
| "regex_ends RBound (b, s) =
     (if (b \<noteq> [] \<and> word_unit (hd b)) \<noteq> (s \<noteq> [] \<and> word_unit (hd s)) then [(b, s)] else [])"
  by pat_completeness auto
termination
  by (relation "inv_image (measure size <*lex*> measure (\<lambda>p. length (snd p))) (\<lambda>(r, p). (r, p))") auto

definition RLit :: "string \<Rightarrow> regex" where
  "RLit s = foldr (\<lambda>c r. RSeq (RSet (\<lambda>u. u = of_char c)) r) s REmpty"

text \<open>A literal under the flag \<open>i\<close>; \<open>[_-]?\<close> is written as an underscore.\<close>

definition same_letter :: "char \<Rightarrow> 16 word \<Rightarrow> bool" where
  "same_letter c u \<longleftrightarrow> u = of_char c \<or>
     (let n = of_char c :: nat in 97 \<le> n \<and> n \<le> 122 \<and> u = of_nat (n - 32) \<or> 65 \<le> n \<and> n \<le> 90 \<and> u = of_nat (n + 32))"

definition ROpt :: "regex \<Rightarrow> regex" where "ROpt r = RAlt r REmpty"

definition RWords :: "string \<Rightarrow> regex" where
  "RWords s = foldr (\<lambda>c r. RSeq (if c = CHR ''_'' then ROpt (RSet (\<lambda>u. u = of_char (CHR ''_'') \<or> u = of_char (CHR ''-'')))
     else RSet (same_letter c)) r) s REmpty"

fun RSeqs :: "regex list \<Rightarrow> regex" where
  "RSeqs [] = REmpty" | "RSeqs [r] = r" | "RSeqs (r # rs) = RSeq r (RSeqs rs)"

fun RAlts :: "regex list \<Rightarrow> regex" where
  "RAlts [] = RSet (\<lambda>_. False)" | "RAlts [r] = r" | "RAlts (r # rs) = RAlt r (RAlts rs)"

definition RTimes :: "nat \<Rightarrow> regex \<Rightarrow> regex" where
  "RTimes n r = RSeqs (replicate n r)"

text \<open>\<open>replace(/(kept)dropped/g, "$1" + by)\<close>: of each match the first part stays and the second is replaced.\<close>

definition first_match :: "regex \<Rightarrow> regex \<Rightarrow> place \<Rightarrow> (place \<times> place) option" where
  "first_match kept dropped p =
     (case concat (map (\<lambda>q. map (\<lambda>q'. (q, q')) (regex_ends dropped q)) (regex_ends kept p)) of [] \<Rightarrow> None | m # _ \<Rightarrow> Some m)"

function replace_from :: "regex \<Rightarrow> regex \<Rightarrow> utf16 \<Rightarrow> place \<Rightarrow> utf16" where
  "replace_from kept dropped by' (b, s) =
     (case first_match kept dropped (b, s) of
        Some (k, e) \<Rightarrow>
          if length (snd e) < length s
          then take (length s - length (snd k)) s @ by' @ replace_from kept dropped by' e
          else (case s of [] \<Rightarrow> by' | u # t \<Rightarrow> by' @ u # replace_from kept dropped by' (u # b, t))
      | None \<Rightarrow> (case s of [] \<Rightarrow> [] | u # t \<Rightarrow> u # replace_from kept dropped by' (u # b, t)))"
  by pat_completeness auto
termination by (relation "measure (\<lambda>(k, d, y, p). length (snd p))") auto

definition replace_regex :: "regex \<Rightarrow> regex \<Rightarrow> string \<Rightarrow> utf16 \<Rightarrow> utf16" where
  "replace_regex kept dropped by' s = replace_from kept dropped (units_of by') ([], s)"

section \<open>The rules\<close>

definition RSpaces :: regex where "RSpaces = RStar (RSet js_blank)"
definition RSolid :: regex where "RSolid = (let c = RSet (\<lambda>u. \<not> js_blank u) in RSeq c (RStar c))"

definition line_end :: "16 word \<Rightarrow> bool" where
  "line_end u \<longleftrightarrow> u \<in> set [10, 13, 0x2028, 0x2029]"

text \<open>A quoted text with escapes, its quote \<open>q\<close>.\<close>

definition RQuoted :: "char \<Rightarrow> regex" where
  "RQuoted q = RSeqs [RLit [q],
     RStar (RAlt (RSeq (RLit [CHR 0x5C]) (RSet (\<lambda>u. \<not> line_end u)))
       (RSet (\<lambda>u. u \<noteq> of_char q \<and> u \<noteq> of_char (CHR 0x5C)))), RLit [q]]"

text \<open>What follows a name: a quoted text or everything up to white space, a comma or a semicolon.\<close>

definition RValue :: regex where
  "RValue = RAlts [RQuoted (CHR 0x22), RQuoted (CHR 0x27),
     (let c = RSet (\<lambda>u. \<not> js_blank u \<and> u \<noteq> of_char (CHR '','') \<and> u \<noteq> of_char (CHR '';'')) in RSeq c (RStar c))]"

definition secret_names :: "regex list" where
  "secret_names = map RWords [''password'', ''passwd'', ''api_key'', ''access_token'', ''refresh_token'', ''client_secret'',
     ''private_key'']"

definition aws_names :: regex where
  "aws_names = RSeq (RWords ''aws_'') (RAlts (map RWords [''access_key_id'', ''secret_access_key'', ''session_token'']))"

definition cookie_names :: "regex list" where
  "cookie_names = [RWords ''cookie'', RSeqs [RWords ''set'', RLit ''-'', RWords ''cookie'']]"

definition quoted_names :: regex where
  "quoted_names = RAlts ([RWords ''authorization''] @ secret_names @ cookie_names @ [aws_names])"

definition separator_units :: "string \<Rightarrow> regex" where
  "separator_units cs = RSeqs [RSpaces, RSet (\<lambda>u. u \<in> set (units_of cs)), RSpaces]"

definition upper_digit :: "16 word \<Rightarrow> bool" where
  "upper_digit u \<longleftrightarrow> unit_between (CHR ''A'') (CHR ''Z'') u \<or> unit_between (CHR ''0'') (CHR ''9'') u"

definition at_least :: "nat \<Rightarrow> regex \<Rightarrow> regex" where
  "at_least n r = RSeq (RTimes n r) (RStar r)"

definition redaction_rules :: "(regex \<times> regex \<times> string) list" where
  "redaction_rules =
     [(REmpty, RSeqs [RWords ''-----BEGIN'', RBound, RStar (RSet (\<lambda>_. True))], ''[REDACTED]''),
      (RSeqs [RWords ''authorization'', RSpaces, RLit '':'', RSpaces, RWords ''bearer'', RSet js_blank, RSpaces], RSolid,
        ''[REDACTED]''),
      (RSeqs [RLit [CHR 0x22], quoted_names, RLit [CHR 0x22], RSpaces, RLit '':'', RSpaces], RQuoted (CHR 0x22),
        [CHR 0x22] @ ''[REDACTED]'' @ [CHR 0x22]),
      (RSeqs [RLit [CHR 0x27], quoted_names, RLit [CHR 0x27], RSpaces, RLit '':'', RSpaces], RQuoted (CHR 0x27),
        [CHR 0x27] @ ''[REDACTED]'' @ [CHR 0x27]),
      (RSeqs [RBound, RAlts cookie_names, separator_units '':''],
        RStar (RSet (\<lambda>u. u \<noteq> 10 \<and> u \<noteq> 13)), ''[REDACTED]''),
      (RSeqs [RBound, RAlts cookie_names, separator_units '':=''], RValue, ''[REDACTED]''),
      (RSeqs [RBound, RAlts (secret_names @ [aws_names]), separator_units '':=''], RValue, ''[REDACTED]''),
      (REmpty, RSeqs [RBound, RAlts [RLit ''AKIA'', RLit ''ASIA''], RTimes 16 (RSet upper_digit), RBound], ''[REDACTED]''),
      (REmpty, RSeqs [RBound, RLit ''github_pat_'', at_least 8 (RSet word_unit), RBound], ''[REDACTED]''),
      (REmpty, RSeqs [RBound,
         RAlts (map RLit [''sk'', ''or'', ''ghp'', ''gho'', ''ghu'', ''ghs'', ''ghr'', ''xoxb'', ''xoxa'', ''xoxp'', ''xoxr'', ''xoxs'']),
         RSet (\<lambda>u. u \<in> set (units_of ''-_'')), at_least 8 (RSet (\<lambda>u. word_unit u \<or> u = of_char (CHR ''-''))), RBound],
         ''[REDACTED]'')]"

definition apply_rules :: "(regex \<times> regex \<times> string) list \<Rightarrow> utf16 \<Rightarrow> utf16" where
  "apply_rules rules v = fold (\<lambda>(kept, dropped, by') s. replace_regex kept dropped by' s) rules v"

definition redactTelemetryText :: "utf16 \<Rightarrow> nat \<Rightarrow> utf16" where
  "redactTelemetryText v maxChars = take maxChars (apply_rules redaction_rules v)"

definition legacy_rules :: "(regex \<times> regex \<times> string) list" where
  "legacy_rules =
     [(REmpty, RSeqs [RBound, RAlts (map RLit [''sk'', ''or'', ''ghp'', ''github_pat'', ''xoxb'']), RLit ''-'',
         at_least 8 (RSet (\<lambda>u. word_unit u \<or> u = of_char (CHR ''-''))), RBound], ''[REDACTED]''),
      (RSeqs [RWords ''authorization'', RSpaces, RLit '':'', RSpaces, RWords ''bearer'', RSet js_blank, RSpaces], RSolid,
        ''[REDACTED]'')]"

definition redactLegacyObservabilityText :: "utf16 \<Rightarrow> utf16" where
  "redactLegacyObservabilityText v = apply_rules legacy_rules v"

section \<open>Texts without a match\<close>

declare regex_ends.simps(4) [simp del]

lemma regex_ends_rest: "p' \<in> set (regex_ends r p) \<Longrightarrow> set (snd p') \<subseteq> set (snd p)"
proof (induction r p arbitrary: p' rule: regex_ends.induct)
  case (4 r p)
  from "4.prems" obtain q where "p' = p \<or> q \<in> set (regex_ends r p) \<and> length (snd q) < length (snd p) \<and> p' \<in> set (regex_ends (RStar r) q)"
    unfolding regex_ends.simps(4) [of r p] by fastforce
  then show ?case
  proof (elim disjE conjE)
    assume q: "q \<in> set (regex_ends r p)" "length (snd q) < length (snd p)" "p' \<in> set (regex_ends (RStar r) q)"
    then have "set (snd p') \<subseteq> set (snd q)" "set (snd q) \<subseteq> set (snd p)" by (simp_all add: "4.IH")
    then show ?thesis by blast
  qed simp
qed (fastforce split: list.splits if_splits)+

text \<open>Every match of the expression consumes a unit with the property.\<close>

definition demands :: "regex \<Rightarrow> (16 word \<Rightarrow> bool) \<Rightarrow> bool" where
  "demands r Q \<longleftrightarrow> (\<forall>b s. (\<forall>u \<in> set s. \<not> Q u) \<longrightarrow> regex_ends r (b, s) = [])"

lemma demands_RSet: "(\<And>u. P u \<Longrightarrow> Q u) \<Longrightarrow> demands (RSet P) Q"
  by (auto simp: demands_def split: list.splits)

lemma demands_left: "demands r Q \<Longrightarrow> demands (RSeq r q) Q"
  by (simp add: demands_def)

lemma demands_right: "demands q Q \<Longrightarrow> demands (RSeq r q) Q"
  using regex_ends_rest by (fastforce simp: demands_def)

lemma demands_RAlt: "demands r Q \<Longrightarrow> demands q Q \<Longrightarrow> demands (RAlt r q) Q"
  by (simp add: demands_def)

lemma demands_RSeqs: "r \<in> set rs \<Longrightarrow> demands r Q \<Longrightarrow> demands (RSeqs rs) Q"
  by (induction rs rule: RSeqs.induct) (auto intro: demands_left demands_right)

lemma demands_RAlts: "\<forall>r \<in> set rs. demands r Q \<Longrightarrow> demands (RAlts rs) Q"
  by (induction rs rule: RAlts.induct) (auto intro: demands_RAlt demands_RSet)

lemma demands_RLit: "c \<in> set cs \<Longrightarrow> demands (RLit cs) (\<lambda>u. u = of_char c)"
  unfolding RLit_def by (induction cs) (auto intro: demands_left demands_right demands_RSet)

lemma demands_RWords: "c \<in> set cs \<Longrightarrow> c \<noteq> CHR ''_'' \<Longrightarrow> demands (RWords cs) (same_letter c)"
  unfolding RWords_def by (induction cs) (auto intro: demands_left demands_right demands_RSet)

lemma demands_mono: "demands r Q \<Longrightarrow> (\<And>u. Q u \<Longrightarrow> Q' u) \<Longrightarrow> demands r Q'"
  unfolding demands_def by blast

lemma no_match:
  assumes "demands kept Q \<or> demands dropped Q" and "\<forall>u \<in> set s. \<not> Q u"
  shows "first_match kept dropped (b, s) = None"
proof -
  have "regex_ends kept (b, s) = [] \<or> (\<forall>q \<in> set (regex_ends kept (b, s)). regex_ends dropped q = [])"
  proof (cases "demands kept Q")
    case True
    with assms(2) show ?thesis by (simp add: demands_def)
  next
    case False
    have "regex_ends dropped (c, t) = []" if "(c, t) \<in> set (regex_ends kept (b, s))" for c t
    proof -
      have "\<forall>u \<in> set t. \<not> Q u" using regex_ends_rest [OF that] assms(2) by auto
      moreover have "demands dropped Q" using False assms(1) by blast
      ultimately show ?thesis unfolding demands_def by blast
    qed
    then show ?thesis by auto
  qed
  then have none: "concat (map (\<lambda>q. map (\<lambda>q'. (q, q')) (regex_ends dropped q)) (regex_ends kept (b, s))) = []" by auto
  show ?thesis unfolding first_match_def none by simp
qed

lemma replace_absent:
  assumes "demands kept Q \<or> demands dropped Q" and "\<forall>u \<in> set s. \<not> Q u"
  shows "replace_regex kept dropped by' s = s"
proof -
  have "replace_from kept dropped y (b, s) = s" for y b
    using assms(2) by (induction s arbitrary: b) (simp_all add: no_match [OF assms(1)])
  then show ?thesis by (simp add: replace_regex_def)
qed

text \<open>A text without a separator of names and values is touched at most by the rule of the access keys.\<close>

definition plain_unit :: "16 word \<Rightarrow> bool" where
  "plain_unit u \<longleftrightarrow> u \<notin> set (units_of '':=-_'')"

definition access_key :: regex where
  "access_key = RSeqs [RBound, RAlts [RLit ''AKIA'', RLit ''ASIA''], RTimes 16 (RSet upper_digit), RBound]"

lemma demands_marks:
  "demands (RWords ''-----BEGIN'') (\<lambda>u. \<not> plain_unit u)" "c \<in> set '':=-_'' \<Longrightarrow> demands (RLit [c]) (\<lambda>u. \<not> plain_unit u)"
  "demands (RLit ''github_pat_'') (\<lambda>u. \<not> plain_unit u)"
  "set cs \<subseteq> set '':=-_'' \<Longrightarrow> demands (RSet (\<lambda>u. u \<in> set (units_of cs))) (\<lambda>u. \<not> plain_unit u)"
  "set cs \<subseteq> set '':=-_'' \<Longrightarrow> demands (separator_units cs) (\<lambda>u. \<not> plain_unit u)"
proof -
  have u: "\<not> plain_unit (of_char c)" if "c \<in> set '':=-_''" for c
    using that by (auto simp: plain_unit_def units_of_def)
  have l: "same_letter (CHR ''-'') u \<Longrightarrow> u = of_char (CHR ''-'')" for u by (simp add: same_letter_def)
  show "demands (RWords ''-----BEGIN'') (\<lambda>u. \<not> plain_unit u)"
  proof (rule demands_mono [OF demands_RWords [of "CHR ''-''"]])
    show "\<not> plain_unit u" if "same_letter (CHR ''-'') u" for u using u [of "CHR ''-''"] l [OF that] by simp
  qed simp_all
  show "demands (RLit [c]) (\<lambda>u. \<not> plain_unit u)" if "c \<in> set '':=-_''"
    by (rule demands_mono [OF demands_RLit [of c]]) (use u [OF that] in simp_all)
  show "demands (RLit ''github_pat_'') (\<lambda>u. \<not> plain_unit u)"
    by (rule demands_mono [OF demands_RLit [of "CHR ''_''"]]) (use u [of "CHR ''_''"] in simp_all)
  have s: "demands (RSet (\<lambda>u. u \<in> set (units_of cs))) (\<lambda>u. \<not> plain_unit u)" if "set cs \<subseteq> set '':=-_''" for cs
  proof (rule demands_RSet)
    show "\<not> plain_unit w" if "w \<in> set (units_of cs)" for w
    proof -
      from that obtain c where c: "c \<in> set cs" "w = of_char c" by (auto simp: units_of_def)
      from \<open>set cs \<subseteq> set '':=-_''\<close> c(1) have "c \<in> set '':=-_''" by (rule subsetD)
      with c(2) show ?thesis by (simp only: u not_False_eq_True)
    qed
  qed
  show "demands (RSet (\<lambda>u. u \<in> set (units_of cs))) (\<lambda>u. \<not> plain_unit u)" if "set cs \<subseteq> set '':=-_''"
    by (rule s [OF that])
  show "demands (separator_units cs) (\<lambda>u. \<not> plain_unit u)" if "set cs \<subseteq> set '':=-_''"
  proof -
    have "RSet (\<lambda>u. u \<in> set (units_of cs)) \<in> set [RSpaces, RSet (\<lambda>u. u \<in> set (units_of cs)), RSpaces]" by simp
    from demands_RSeqs [OF this s [OF that]] show ?thesis unfolding separator_units_def .
  qed
qed

lemma without_dropped:
  assumes "list_all plain_unit s" and "d \<in> set ds" and "demands d (\<lambda>u. \<not> plain_unit u)"
  shows "replace_regex k (RSeqs ds) y s = s"
  using assms by (intro replace_absent [where Q = "\<lambda>u. \<not> plain_unit u"]) (auto simp: list_all_iff intro: demands_RSeqs)

lemma without_kept:
  assumes "list_all plain_unit s" and "k \<in> set ks" and "demands k (\<lambda>u. \<not> plain_unit u)"
  shows "replace_regex (RSeqs ks) d y s = s"
  using assms by (intro replace_absent [where Q = "\<lambda>u. \<not> plain_unit u"]) (auto simp: list_all_iff intro: demands_RSeqs)

lemma first_rules_plain:
  assumes "list_all plain_unit v"
  shows "fold (\<lambda>(kept, dropped, by') s. replace_regex kept dropped by' s) (take 7 redaction_rules) v = v"
proof -
  have colon: "demands (RLit '':'') (\<lambda>u. \<not> plain_unit u)" by (rule demands_marks) simp
  have seps: "demands (separator_units '':'') (\<lambda>u. \<not> plain_unit u)" "demands (separator_units '':='') (\<lambda>u. \<not> plain_unit u)"
    by (rule demands_marks, simp)+
  show ?thesis
    unfolding redaction_rules_def
    by (simp add: without_dropped [OF assms _ demands_marks(1)] without_kept [OF assms _ colon] without_kept [OF assms _ seps(1)]
        without_kept [OF assms _ seps(2)] del: RSeqs.simps RAlts.simps)
qed

lemma last_rules_plain:
  assumes "list_all plain_unit v"
  shows "fold (\<lambda>(kept, dropped, by') s. replace_regex kept dropped by' s) (drop 8 redaction_rules) v = v"
proof -
  have dash: "demands (RSet (\<lambda>u. u \<in> set (units_of ''-_''))) (\<lambda>u. \<not> plain_unit u)" by (rule demands_marks) auto
  show ?thesis
    unfolding redaction_rules_def
    by (simp add: without_dropped [OF assms _ demands_marks(3)] without_dropped [OF assms _ dash] del: RSeqs.simps RAlts.simps)
qed

lemma apply_rules_plain:
  assumes "list_all plain_unit v" and "list_all plain_unit (replace_regex REmpty access_key ''[REDACTED]'' v)"
  shows "apply_rules redaction_rules v = replace_regex REmpty access_key ''[REDACTED]'' v"
proof -
  have "redaction_rules = take 7 redaction_rules @ [(REmpty, access_key, ''[REDACTED]'')] @ drop 8 redaction_rules"
    unfolding redaction_rules_def access_key_def by simp
  then have "apply_rules redaction_rules v = fold (\<lambda>(kept, dropped, by') s. replace_regex kept dropped by' s)
      (take 7 redaction_rules @ [(REmpty, access_key, ''[REDACTED]'')] @ drop 8 redaction_rules) v"
    unfolding apply_rules_def by metis
  with first_rules_plain [OF assms(1)] last_rules_plain [OF assms(2)] show ?thesis by simp
qed

lemma no_access_key:
  assumes "of_char (CHR ''I'') \<notin> set s"
  shows "replace_regex REmpty access_key y s = s"
proof -
  have "demands access_key (\<lambda>u. u = of_char (CHR ''I''))"
    unfolding access_key_def
  proof (rule demands_RSeqs [where r = "RAlts [RLit ''AKIA'', RLit ''ASIA'']"])
    have "demands (RLit ''AKIA'') (\<lambda>u. u = of_char (CHR ''I''))" "demands (RLit ''ASIA'') (\<lambda>u. u = of_char (CHR ''I''))"
      by (rule demands_RLit, simp)+
    then show "demands (RAlts [RLit ''AKIA'', RLit ''ASIA'']) (\<lambda>u. u = of_char (CHR ''I''))"
      by (intro demands_RAlts) simp
  qed simp
  with assms show ?thesis by (intro replace_absent) auto
qed

text \<open>A text without any of these marks is stored as it is, cut to its bound.\<close>

lemma redact_plain:
  assumes "list_all (\<lambda>u. plain_unit u \<and> u \<noteq> of_char (CHR ''I'')) v"
  shows "redactTelemetryText v n = take n v"
proof -
  have "of_char (CHR ''I'') \<notin> set v" "list_all plain_unit v" using assms by (auto simp: list_all_iff)
  then show ?thesis using apply_rules_plain [of v] no_access_key [of v] by (simp add: redactTelemetryText_def)
qed

lemma length_redact [simp]: "length (redactTelemetryText v n) \<le> n"
  by (simp add: redactTelemetryText_def)

section \<open>A key that the cut completes\<close>

text \<open>Twenty characters of a longer word that begins like an access key are no key; cut off there, they are one.\<close>

lemma key_after_spaces:
  assumes "b = [] \<or> \<not> word_unit (hd b)"
  shows "replace_from REmpty access_key y (b, replicate n 32 @ units_of ''AKIA'' @ t) =
     replicate n 32 @ replace_from REmpty access_key y (replicate n 32 @ b, units_of ''AKIA'' @ t)"
  using assms
proof (induction n arbitrary: b)
  case (Suc n)
  have "\<not> word_unit 32" by (simp add: word_unit_def unit_between_def)
  then have "regex_ends access_key (b, 32 # replicate n 32 @ units_of ''AKIA'' @ t) = []"
    using Suc.prems by (auto simp: access_key_def)
  then have "first_match REmpty access_key (b, 32 # replicate n 32 @ units_of ''AKIA'' @ t) = None"
    by (simp add: first_match_def)
  with Suc.IH [of "32 # b"] \<open>\<not> word_unit 32\<close> show ?case by (simp add: replicate_app_Cons_same)
qed simp

lemma key_inside_word:
  assumes "b \<noteq> []" "word_unit (hd b)" "list_all word_unit s"
  shows "replace_from REmpty access_key y (b, s) = s"
  using assms
proof (induction s arbitrary: b)
  case Nil
  then have "first_match REmpty access_key (b, []) = None" by (simp add: first_match_def access_key_def RLit_def)
  then show ?case by simp
next
  case (Cons u s)
  then have "first_match REmpty access_key (b, u # s) = None" by (simp add: first_match_def access_key_def)
  with Cons show ?case by simp
qed

lemma ends_RTimes:
  "regex_ends (RTimes n (RSet P)) (b, s) =
     (if n \<le> length s \<and> list_all P (take n s) then [(rev (take n s) @ b, drop n s)] else [])"
proof (induction n arbitrary: b s)
  case (Suc n)
  have "regex_ends (RTimes (Suc n) (RSet P)) p = regex_ends (RSeq (RSet P) (RTimes n (RSet P))) p" for p
    by (cases n; cases p) (auto simp: RTimes_def split: list.splits)
  then show ?case by (cases s) (auto simp: Suc.IH)
qed (simp add: RTimes_def)

lemma word_A [simp]: "word_unit 65" "word_unit 75" "word_unit 73" "\<not> word_unit 32" "upper_digit 65"
  by (simp_all add: word_unit_def upper_digit_def unit_between_def)

lemma ends_AKIA:
  assumes "b = [] \<or> \<not> word_unit (hd b)"
  shows "regex_ends access_key (b, units_of ''AKIA'' @ replicate n 65) =
    (if n = 16 then [(replicate 16 65 @ rev (units_of ''AKIA'') @ b, [])] else [])"
proof -
  have "regex_ends (RSeqs [RBound, RAlts [RLit ''AKIA'', RLit ''ASIA'']]) (b, units_of ''AKIA'' @ replicate n 65) =
      [(rev (units_of ''AKIA'') @ b, replicate n 65)]"
    using assms by (auto simp: units_of_def RLit_def)
  moreover have "regex_ends access_key p = concat (map (regex_ends (RSeq (RTimes 16 (RSet upper_digit)) RBound))
      (regex_ends (RSeqs [RBound, RAlts [RLit ''AKIA'', RLit ''ASIA'']]) p))" for p
    by (cases p) (simp add: access_key_def del: RAlts.simps)
  ultimately show ?thesis
    by (auto simp: ends_RTimes list_all_iff hd_append simp flip: replicate_append_same)
qed

lemma AKIA_replaced:
  assumes "b = [] \<or> \<not> word_unit (hd b)"
  shows "replace_from REmpty access_key y (b, units_of ''AKIA'' @ replicate 16 65) = y"
proof -
  have "first_match REmpty access_key (b, units_of ''AKIA'' @ replicate 16 65) =
      Some ((b, units_of ''AKIA'' @ replicate 16 65), (replicate 16 65 @ rev (units_of ''AKIA'') @ b, []))"
    unfolding first_match_def by (simp add: ends_AKIA [OF assms, of 16, simplified])
  moreover have "first_match REmpty access_key (c, []) = None" for c
    by (simp add: first_match_def access_key_def RLit_def)
  ultimately show ?thesis by simp
qed

lemma AKIA_kept:
  assumes "b = [] \<or> \<not> word_unit (hd b)"
  shows "replace_from REmpty access_key y (b, units_of ''AKIA'' @ replicate 17 65) = units_of ''AKIA'' @ replicate 17 65"
proof -
  have "first_match REmpty access_key (b, units_of ''AKIA'' @ replicate 17 65) = None"
    by (simp add: first_match_def ends_AKIA [OF assms])
  moreover have "units_of ''AKIA'' = 65 # [75, 73, 65]" by (simp add: units_of_def)
  ultimately show ?thesis using key_inside_word [of "65 # b" "[75, 73, 65] @ replicate 17 65" y] by (simp add: list_all_iff)
qed

text \<open>The text that is stored for this one in 200 characters is not stable.\<close>

definition cut_key :: "nat \<Rightarrow> utf16" where
  "cut_key n = replicate 180 32 @ units_of ''AKIA'' @ replicate n 65"

lemma plain_cut_key: "list_all plain_unit (cut_key n)"
  by (simp add: cut_key_def list_all_iff plain_unit_def units_of_def)

lemma redact_cut_key: "redactTelemetryText (cut_key 17) 200 = cut_key 16"
proof -
  have spaces: "replicate 180 (32 :: 16 word) = [] \<or> \<not> word_unit (hd (replicate 180 32))" by simp
  have "replace_regex REmpty access_key ''[REDACTED]'' (cut_key 17) = cut_key 17"
    by (simp only: replace_regex_def cut_key_def key_after_spaces [of "[]", OF disjI1, OF refl] append_Nil2 AKIA_kept [OF spaces])
  then have "apply_rules redaction_rules (cut_key 17) = cut_key 17" using apply_rules_plain [OF plain_cut_key] plain_cut_key by simp
  then show ?thesis by (simp add: redactTelemetryText_def cut_key_def units_of_def)
qed

lemma cut_key_unstable: "redactTelemetryText (cut_key 16) 200 = replicate 180 32 @ units_of ''[REDACTED]''"
proof -
  have spaces: "replicate 180 (32 :: 16 word) = [] \<or> \<not> word_unit (hd (replicate 180 32))" by simp
  have e: "replace_regex REmpty access_key ''[REDACTED]'' (cut_key 16) = replicate 180 32 @ units_of ''[REDACTED]''"
    by (simp only: replace_regex_def cut_key_def key_after_spaces [of "[]", OF disjI1, OF refl] append_Nil2 AKIA_replaced [OF spaces])
  moreover have "list_all plain_unit (replicate 180 32 @ units_of ''[REDACTED]'')"
    by (simp add: list_all_iff plain_unit_def units_of_def)
  ultimately show ?thesis using apply_rules_plain [OF plain_cut_key, of 16] by (simp add: redactTelemetryText_def units_of_def)
qed

end
