(* ===== verification/PromotionPackets.thy ===== *)
theory PromotionPackets
  imports RunStore TelemetryRedaction
begin

text \<open>
  \<^verbatim>\<open>src/data/delivery-system/promotionPacket.ts\<close>: the packets in which the result of a development run is proposed for
  production. A packet is built from a completed run, approved or rejected, verified, published with its evidence, and
  may be rolled back. A store is the list of its packets; an operation returns the new list or throws and leaves the
  file. That the file has exactly the fields of the records, with values of their types, is checked when it is parsed.
  SHA-256 and the size of the serialized document are parameters.
\<close>

section \<open>Data\<close>

datatype promotion_status = Promotion_pending | Promotion_approved | Promotion_rejected | Promotion_published
  | Promotion_rolled_back

record promotion_approval =
  pa_approver :: utf16
  pa_approved_at :: stamp
  pa_review_ref :: utf16

record promotion_evidence =
  pe_prod_run :: utf16
  pe_verification :: utf16
  pe_acceptance :: utf16
  pe_rollback :: utf16

record promotion_packet =
  pk_id :: string
  pk_source_run :: string
  pk_source_revision :: int
  pk_intent :: utf16
  pk_hash :: string
  pk_artifact_ref :: string
  pk_diff :: utf16
  pk_tests :: "utf16 list"
  pk_risks :: "utf16 list"
  pk_approvals :: "promotion_approval list"
  pk_prod_run :: "utf16 option"
  pk_verification :: "utf16 option"
  pk_acceptance :: "utf16 option"
  pk_rollback :: "utf16 option"
  pk_status :: promotion_status
  pk_created :: stamp
  pk_updated :: stamp

record promotion_input =
  pi_intent :: utf16
  pi_diff :: utf16
  pi_tests :: "utf16 list"
  pi_risks :: "utf16 list"

type_synonym promotion_store = "promotion_packet list"

record promotion_env =
  po_sha256 :: "string \<times> int \<times> (string \<times> artifact_type \<times> utf16) list \<Rightarrow> string"
  po_fits :: "promotion_store \<Rightarrow> bool"

definition MAX_PACKETS :: nat where "MAX_PACKETS = 256"
definition MAX_INTENT :: nat where "MAX_INTENT = 2000"
definition MAX_DIFF :: nat where "MAX_DIFF = 32000"
definition MAX_TESTS :: nat where "MAX_TESTS = 32"
definition MAX_RISKS :: nat where "MAX_RISKS = 20"
definition MAX_LIST_ITEM :: nat where "MAX_LIST_ITEM = 512"
definition MAX_APPROVALS :: nat where "MAX_APPROVALS = 8"
definition MAX_PROMOTION_ID :: nat where "MAX_PROMOTION_ID = 256"
definition MAX_REF :: nat where "MAX_REF = 2000"

section \<open>Texts\<close>

definition promo_bounded :: "utf16 \<Rightarrow> nat \<Rightarrow> bool" where
  "promo_bounded v maximum \<longleftrightarrow> \<not> list_all js_blank v \<and> length v \<le> maximum"

definition safeStoredString :: "utf16 \<Rightarrow> nat \<Rightarrow> bool" where
  "safeStoredString v maximum \<longleftrightarrow> promo_bounded v maximum \<and> redactTelemetryText v maximum = v"

definition nullableSafeStoredString :: "utf16 option \<Rightarrow> nat \<Rightarrow> bool" where
  "nullableSafeStoredString v maximum \<longleftrightarrow> (case v of None \<Rightarrow> True | Some s \<Rightarrow> safeStoredString s maximum)"

definition safeStoredList :: "utf16 list \<Rightarrow> nat \<Rightarrow> bool" where
  "safeStoredList vs maximumItems \<longleftrightarrow> length vs \<le> maximumItems \<and> list_all (\<lambda>v. safeStoredString v MAX_LIST_ITEM) vs"

definition boundedRedactedText :: "utf16 \<Rightarrow> nat \<Rightarrow> js_error + utf16" where
  "boundedRedactedText v maximum =
     (if \<not> promo_bounded v (max maximum (length v)) then Inl (Error ''invalid_promotion_packet'')
      else let redacted = redactTelemetryText v maximum in
        if \<not> promo_bounded redacted maximum then Inl (Error ''invalid_promotion_packet'') else Inr redacted)"

definition boundedRedactedList :: "utf16 list \<Rightarrow> nat \<Rightarrow> js_error + utf16 list" where
  "boundedRedactedList vs maximumItems =
     (if length vs > maximumItems then Inl (Error ''invalid_promotion_packet'')
      else map_result (\<lambda>v. boundedRedactedText v MAX_LIST_ITEM) vs)"

section \<open>The stored document\<close>

definition isApproval :: "promotion_approval \<Rightarrow> bool" where
  "isApproval a \<longleftrightarrow> safeStoredString (pa_approver a) MAX_PROMOTION_ID \<and> canonical_stamp (pa_approved_at a) \<and>
     safeStoredString (pa_review_ref a) MAX_REF"

text \<open>What a packet carries in its status.\<close>

definition promotion_evidenced :: "promotion_packet \<Rightarrow> bool" where
  "promotion_evidenced k \<longleftrightarrow>
     (let noEvidence = pk_prod_run k = None \<and> pk_verification k = None \<and> pk_acceptance k = None \<and> pk_rollback k = None in
      if pk_status k = Promotion_pending \<or> pk_status k = Promotion_rejected then pk_approvals k = [] \<and> noEvidence
      else if pk_status k = Promotion_approved
        then pk_approvals k \<noteq> [] \<and> pk_prod_run k = None \<and> pk_acceptance k = None \<and> pk_rollback k = None
      else pk_approvals k \<noteq> [] \<and> pk_prod_run k \<noteq> None \<and> pk_verification k \<noteq> None \<and> pk_acceptance k \<noteq> None \<and>
        pk_rollback k \<noteq> None)"

definition isPromotionPacket :: "promotion_packet \<Rightarrow> bool" where
  "isPromotionPacket k \<longleftrightarrow>
     promo_bounded (units_of (pk_id k)) MAX_PROMOTION_ID \<and> promo_bounded (units_of (pk_source_run k)) MAX_PROMOTION_ID \<and>
     isSafeInteger (pk_source_revision k) \<and> pk_source_revision k \<ge> 1 \<and>
     safeStoredString (pk_intent k) MAX_INTENT \<and> hex64 (pk_hash k) \<and>
     safeStoredString (units_of (pk_artifact_ref k)) MAX_REF \<and> safeStoredString (pk_diff k) MAX_DIFF \<and>
     safeStoredList (pk_tests k) MAX_TESTS \<and> safeStoredList (pk_risks k) MAX_RISKS \<and>
     length (pk_approvals k) \<le> MAX_APPROVALS \<and> list_all isApproval (pk_approvals k) \<and>
     nullableSafeStoredString (pk_prod_run k) MAX_PROMOTION_ID \<and> nullableSafeStoredString (pk_verification k) MAX_REF \<and>
     nullableSafeStoredString (pk_acceptance k) MAX_REF \<and> nullableSafeStoredString (pk_rollback k) MAX_REF \<and>
     canonical_stamp (pk_created k) \<and> canonical_stamp (pk_updated k) \<and> promotion_evidenced k"

definition valid_promotions :: "promotion_store \<Rightarrow> bool" where
  "valid_promotions s \<longleftrightarrow> length s \<le> MAX_PACKETS \<and> list_all isPromotionPacket s \<and>
     length (js_unique (map pk_id s)) = length s"

definition parsePromotionStore :: "promotion_store \<Rightarrow> js_error + promotion_store" where
  "parsePromotionStore s = (if valid_promotions s then Inr s else Inl (Error ''invalid_promotion_store''))"

definition readPromotionStore :: "promotion_store \<Rightarrow> js_error + promotion_store" where
  "readPromotionStore file = parsePromotionStore file"

definition writePromotionStore :: "promotion_env \<Rightarrow> promotion_store \<Rightarrow> js_error + promotion_store" where
  "writePromotionStore P s =
     bind_result (parsePromotionStore s) (\<lambda>validated.
       if po_fits P validated then Inr validated else Inl (Error ''invalid_promotion_store''))"

section \<open>Building a packet\<close>

definition artifactHash :: "promotion_env \<Rightarrow> run_record \<Rightarrow> string" where
  "artifactHash P r = po_sha256 P
     (run_id r, draft_revision (current r), map (\<lambda>a. (artifact_id a, artifact_kind a, preview a)) (artifacts r))"

definition new_packet ::
  "promotion_env \<Rightarrow> string \<Rightarrow> run_record \<Rightarrow> utf16 \<Rightarrow> utf16 \<Rightarrow> utf16 list \<Rightarrow> utf16 list \<Rightarrow> stamp \<Rightarrow> promotion_packet" where
  "new_packet P uuid r intent diff tests risks now =
     \<lparr>pk_id = ''promo-'' @ run_id r @ ''-'' @ int_text (draft_revision (current r)) @ ''-'' @ take 8 uuid,
      pk_source_run = run_id r, pk_source_revision = draft_revision (current r), pk_intent = intent,
      pk_hash = artifactHash P r, pk_artifact_ref = ''run:'' @ run_id r @ ''@'' @ int_text (draft_revision (current r)),
      pk_diff = diff, pk_tests = tests, pk_risks = risks, pk_approvals = [], pk_prod_run = None, pk_verification = None,
      pk_acceptance = None, pk_rollback = None, pk_status = Promotion_pending, pk_created = now, pk_updated = now\<rparr>"

text \<open>\<open>uuid\<close> is what \<open>randomUUID\<close> gives.\<close>

definition buildPromotionPacket ::
  "promotion_env \<Rightarrow> string \<Rightarrow> run_record \<Rightarrow> promotion_input \<Rightarrow> stamp \<Rightarrow> promotion_store \<Rightarrow>
   js_error + promotion_store \<times> promotion_packet" where
  "buildPromotionPacket P uuid r input now file =
     (if run_status r \<noteq> RCompleted then Inl (Error ''promotion_source_not_completed'')
      else if profile (current r) \<noteq> Some Dev then Inl (Error ''promotion_source_not_dev'')
      else if \<not> promo_bounded (units_of (run_id r)) MAX_PROMOTION_ID \<or> \<not> isSafeInteger (draft_revision (current r)) \<or>
              draft_revision (current r) < 1 \<or> \<not> canonical_stamp now
        then Inl (Error ''invalid_promotion_packet'')
      else
        bind_result (boundedRedactedText (pi_intent input) MAX_INTENT) (\<lambda>intent.
        bind_result (boundedRedactedText (pi_diff input) MAX_DIFF) (\<lambda>diff.
        bind_result (boundedRedactedList (pi_tests input) MAX_TESTS) (\<lambda>tests.
        bind_result (boundedRedactedList (pi_risks input) MAX_RISKS) (\<lambda>risks.
        bind_result (readPromotionStore file) (\<lambda>s.
        if length s \<ge> MAX_PACKETS then Inl (Error ''promotion_limit'')
        else
          let packet = new_packet P uuid r intent diff tests risks now in
          bind_result (writePromotionStore P (s @ [packet])) (\<lambda>s'. Inr (s', packet))))))))"

section \<open>The steps of a packet\<close>

definition promotion_step ::
  "promotion_env \<Rightarrow> string \<Rightarrow> (promotion_packet \<Rightarrow> js_error + promotion_packet) \<Rightarrow> promotion_store \<Rightarrow>
   js_error + promotion_store \<times> promotion_packet" where
  "promotion_step P packetId update file =
     (if \<not> promo_bounded (units_of packetId) MAX_PROMOTION_ID then Inl (Error ''promotion_not_found'')
      else bind_result (readPromotionStore file) (\<lambda>s.
        case findIndex (\<lambda>k. pk_id k = packetId) s of
          None \<Rightarrow> Inl (Error ''promotion_not_found'')
        | Some n \<Rightarrow>
            bind_result (update (s ! n)) (\<lambda>next'.
            bind_result (writePromotionStore P (s[n := next'])) (\<lambda>s'. Inr (s', next')))))"

definition approve_packet :: "promotion_approval \<Rightarrow> stamp \<Rightarrow> promotion_packet \<Rightarrow> js_error + promotion_packet" where
  "approve_packet normalized now k =
     (if pk_status k \<noteq> Promotion_pending then Inl (Error ''invalid_promotion_transition'')
      else Inr (k\<lparr>pk_approvals := [normalized], pk_status := Promotion_approved, pk_updated := now\<rparr>))"

definition approvePromotion ::
  "promotion_env \<Rightarrow> string \<Rightarrow> promotion_approval \<Rightarrow> stamp \<Rightarrow> promotion_store \<Rightarrow> js_error + promotion_store \<times> promotion_packet" where
  "approvePromotion P packetId approval now file =
     (if \<not> promo_bounded (pa_approver approval) MAX_PROMOTION_ID \<or> \<not> promo_bounded (pa_review_ref approval) MAX_REF \<or>
         \<not> canonical_stamp (pa_approved_at approval) \<or> \<not> canonical_stamp now
      then Inl (Error ''promotion_not_approved'')
      else
        bind_result (boundedRedactedText (pa_approver approval) MAX_PROMOTION_ID) (\<lambda>approver.
        bind_result (boundedRedactedText (pa_review_ref approval) MAX_REF) (\<lambda>reviewRef.
        promotion_step P packetId
          (approve_packet \<lparr>pa_approver = approver, pa_approved_at = pa_approved_at approval, pa_review_ref = reviewRef\<rparr> now) file)))"

definition reject_packet :: "stamp \<Rightarrow> promotion_packet \<Rightarrow> js_error + promotion_packet" where
  "reject_packet now k =
     (if pk_status k \<noteq> Promotion_pending then Inl (Error ''invalid_promotion_transition'')
      else Inr (k\<lparr>pk_status := Promotion_rejected, pk_updated := now\<rparr>))"

definition rejectPromotion ::
  "promotion_env \<Rightarrow> string \<Rightarrow> stamp \<Rightarrow> promotion_store \<Rightarrow> js_error + promotion_store \<times> promotion_packet" where
  "rejectPromotion P packetId now file =
     (if \<not> canonical_stamp now then Inl (Error ''invalid_promotion_packet'')
      else promotion_step P packetId (reject_packet now) file)"

definition verify_packet :: "utf16 \<Rightarrow> stamp \<Rightarrow> promotion_packet \<Rightarrow> js_error + promotion_packet" where
  "verify_packet normalized now k =
     (if pk_status k \<noteq> Promotion_approved \<or> pk_approvals k = [] then Inl (Error ''promotion_not_approved'')
      else if pk_verification k \<noteq> None \<and> pk_verification k \<noteq> Some normalized
        then Inl (Error ''promotion_verification_mismatch'')
      else Inr (k\<lparr>pk_verification := Some normalized, pk_updated := now\<rparr>))"

definition recordPromotionVerification ::
  "promotion_env \<Rightarrow> string \<Rightarrow> utf16 \<Rightarrow> stamp \<Rightarrow> promotion_store \<Rightarrow> js_error + promotion_store \<times> promotion_packet" where
  "recordPromotionVerification P packetId fullVerificationRef now file =
     (if \<not> promo_bounded fullVerificationRef MAX_REF then Inl (Error ''promotion_evidence_required'')
      else if \<not> canonical_stamp now then Inl (Error ''invalid_promotion_packet'')
      else bind_result (boundedRedactedText fullVerificationRef MAX_REF) (\<lambda>normalized.
        promotion_step P packetId (verify_packet normalized now) file))"

definition publish_packet :: "promotion_evidence \<Rightarrow> stamp \<Rightarrow> promotion_packet \<Rightarrow> js_error + promotion_packet" where
  "publish_packet normalized now k =
     (if pk_status k \<noteq> Promotion_approved \<or> pk_approvals k = [] \<or> pk_verification k = None
        then Inl (Error ''promotion_not_ready'')
      else if pk_verification k \<noteq> Some (pe_verification normalized) then Inl (Error ''promotion_verification_mismatch'')
      else Inr (k\<lparr>pk_prod_run := Some (pe_prod_run normalized), pk_verification := Some (pe_verification normalized),
        pk_acceptance := Some (pe_acceptance normalized), pk_rollback := Some (pe_rollback normalized),
        pk_status := Promotion_published, pk_updated := now\<rparr>))"

definition markPromotionPublished ::
  "promotion_env \<Rightarrow> string \<Rightarrow> promotion_evidence \<Rightarrow> stamp \<Rightarrow> promotion_store \<Rightarrow> js_error + promotion_store \<times> promotion_packet" where
  "markPromotionPublished P packetId evidence now file =
     (if \<not> list_all (\<lambda>v. promo_bounded v MAX_REF)
           [pe_prod_run evidence, pe_verification evidence, pe_acceptance evidence, pe_rollback evidence] \<or>
         \<not> canonical_stamp now
      then Inl (Error ''promotion_evidence_required'')
      else
        bind_result (boundedRedactedText (pe_prod_run evidence) MAX_PROMOTION_ID) (\<lambda>prodRun.
        bind_result (boundedRedactedText (pe_verification evidence) MAX_REF) (\<lambda>verification.
        bind_result (boundedRedactedText (pe_acceptance evidence) MAX_REF) (\<lambda>acceptance.
        bind_result (boundedRedactedText (pe_rollback evidence) MAX_REF) (\<lambda>rollback.
        promotion_step P packetId
          (publish_packet \<lparr>pe_prod_run = prodRun, pe_verification = verification, pe_acceptance = acceptance,
             pe_rollback = rollback\<rparr> now) file)))))"

definition roll_back_packet :: "stamp \<Rightarrow> promotion_packet \<Rightarrow> js_error + promotion_packet" where
  "roll_back_packet now k =
     (if pk_status k \<noteq> Promotion_published then Inl (Error ''promotion_not_published'')
      else Inr (k\<lparr>pk_status := Promotion_rolled_back, pk_updated := now\<rparr>))"

definition markPromotionRolledBack ::
  "promotion_env \<Rightarrow> string \<Rightarrow> stamp \<Rightarrow> promotion_store \<Rightarrow> js_error + promotion_store \<times> promotion_packet" where
  "markPromotionRolledBack P packetId now file =
     (if \<not> canonical_stamp now then Inl (Error ''invalid_promotion_packet'')
      else promotion_step P packetId (roll_back_packet now) file)"

end
