(* ===== verification/ProjectRegistry.thy ===== *)
theory ProjectRegistry
  imports RunStore JsText
begin

text \<open>
  \<^verbatim>\<open>src/data/delivery-system/projectRegistry.ts\<close> and \<^verbatim>\<open>runtimePaths.ts\<close>: the registered projects and where their
  runs may work. The file is absent or the list of its entries; how its bytes are read and parsed, and the modes of the
  directories, are outside. Paths are those of POSIX, with characters below 256; \<open>realpathSync\<close> is a parameter.
\<close>

section \<open>Paths\<close>

text \<open>\<open>isAbsolute\<close>, \<open>normalize\<close>, \<open>join\<close>, \<open>resolve\<close> of an absolute path and \<open>relative\<close> of \<open>node:path\<close>. The segments
  of a path are resolved with a stack: a double dot removes the one on top, and stays when there is none and the path is
  not absolute.\<close>

definition isAbsolute :: "string \<Rightarrow> bool" where
  "isAbsolute p \<longleftrightarrow> p \<noteq> [] \<and> hd p = CHR ''/''"

fun norm_segments :: "bool \<Rightarrow> string list \<Rightarrow> string list \<Rightarrow> string list" where
  "norm_segments allow st [] = rev st"
| "norm_segments allow st (s # ss) =
     (if s = [] \<or> s = ''.'' then norm_segments allow st ss
      else if s = ''..''
        then (case st of
            t # ts \<Rightarrow> if t \<noteq> ''..'' then norm_segments allow ts ss
                     else norm_segments allow (if allow then ''..'' # st else st) ss
          | [] \<Rightarrow> norm_segments allow (if allow then [''..''] else []) ss)
      else norm_segments allow (s # st) ss)"

definition path_segments :: "string \<Rightarrow> string list" where
  "path_segments p = norm_segments (\<not> isAbsolute p) [] (split_char (CHR ''/'') p)"

definition path_normalize :: "string \<Rightarrow> string" where
  "path_normalize p =
     (if p = [] then ''.''
      else let trailing = last p = CHR ''/''; body = js_join ''/'' (path_segments p) in
        if body = [] then (if isAbsolute p then ''/'' else if trailing then ''./'' else ''.'')
        else (if isAbsolute p then ''/'' else []) @ body @ (if trailing then ''/'' else []))"

definition path_join :: "string \<Rightarrow> string \<Rightarrow> string" where
  "path_join a b = path_normalize (if a = [] then b else if b = [] then a else a @ ''/'' @ b)"

definition path_resolve :: "string \<Rightarrow> string" where
  "path_resolve p = ''/'' @ js_join ''/'' (path_segments p)"

fun drop_common :: "'a list \<Rightarrow> 'a list \<Rightarrow> 'a list \<times> 'a list" where
  "drop_common (x # xs) (y # ys) = (if x = y then drop_common xs ys else (x # xs, y # ys))"
| "drop_common xs ys = (xs, ys)"

definition path_relative :: "string \<Rightarrow> string \<Rightarrow> string" where
  "path_relative from target =
     (case drop_common (path_segments from) (path_segments target) of
        (up, down) \<Rightarrow> js_join ''/'' (replicate (length up) ''..'' @ down))"

section \<open>The registry\<close>

record project_entry =
  pj_id :: string
  pj_name :: string
  pj_cwd :: string
  pj_enabled :: bool

type_synonym project_registry = "project_entry list"
type_synonym registry_file = "project_registry option"

datatype node_error = Enoent | Enotdir | Other_code

record registry_env =
  pr_fits :: "project_registry \<Rightarrow> bool"
  pr_writable :: bool
  pr_realpath :: "string \<Rightarrow> node_error + string"
  pr_directory :: "string \<Rightarrow> js_error + bool"
  pr_configured :: "string option"
  pr_home :: string

definition INVALID_REGISTRY :: string where "INVALID_REGISTRY = ''invalid_project_registry''"
definition PROJECT_NOT_FOUND :: string where "PROJECT_NOT_FOUND = ''project_not_found''"
definition PROJECT_PATH_MISSING :: string where "PROJECT_PATH_MISSING = ''project_path_missing''"
definition PROJECT_PATH_OUTSIDE_ROOT :: string where "PROJECT_PATH_OUTSIDE_ROOT = ''project_path_outside_root''"
definition INVALID_PROJECT_ROOT :: string where "INVALID_PROJECT_ROOT = ''invalid_project_root''"
definition INSECURE_PERMISSIONS :: string where "INSECURE_PERMISSIONS = ''insecure_project_registry_permissions''"
definition REGISTRY_IO_ERROR :: string where "REGISTRY_IO_ERROR = ''project_registry_io_error''"

definition MAX_PROJECTS :: nat where "MAX_PROJECTS = 64"
definition MAX_PROJECT_NAME_LENGTH :: nat where "MAX_PROJECT_NAME_LENGTH = 160"
definition MAX_CWD_LENGTH :: nat where "MAX_CWD_LENGTH = 1024"

text \<open>\<open>name.toLowerCase().replace(/[^a-z0-9._-]+/g, "-")\<close>: every run of other characters becomes one hyphen.\<close>

fun hyphenate :: "bool \<Rightarrow> string \<Rightarrow> string" where
  "hyphenate inside [] = []"
| "hyphenate inside (c # s) =
     (if c \<in> set ''abcdefghijklmnopqrstuvwxyz0123456789._-'' then c # hyphenate False s
      else if inside then hyphenate True s else CHR ''-'' # hyphenate True s)"

definition deriveProjectId :: "string \<Rightarrow> js_error + string" where
  "deriveProjectId name =
     (let projectId = hyphenate False (map js_lower name) in
      if project_id_pattern projectId then Inr projectId else Inl (Error ''invalid_project_id''))"

definition valid_project :: "project_entry \<Rightarrow> bool" where
  "valid_project p \<longleftrightarrow> project_id_pattern (pj_id p) \<and> length (pj_name p) \<le> MAX_PROJECT_NAME_LENGTH \<and>
     length (pj_cwd p) \<le> MAX_CWD_LENGTH \<and> isAbsolute (pj_cwd p) \<and> path_normalize (pj_cwd p) = pj_cwd p"

definition validateProjectRegistry :: "project_registry \<Rightarrow> bool" where
  "validateProjectRegistry ps \<longleftrightarrow> length ps \<le> MAX_PROJECTS \<and> list_all valid_project ps \<and>
     length (js_unique (map pj_id ps)) = length ps"

definition readProjectRegistry :: "registry_file \<Rightarrow> js_error + project_registry" where
  "readProjectRegistry file =
     (case file of None \<Rightarrow> Inr []
      | Some ps \<Rightarrow> if validateProjectRegistry ps then Inr ps else Inl (Error INVALID_REGISTRY))"

definition writeProjectRegistry :: "registry_env \<Rightarrow> project_registry \<Rightarrow> js_error + registry_file" where
  "writeProjectRegistry R ps =
     (if \<not> validateProjectRegistry ps \<or> \<not> pr_fits R ps then Inl (Error INVALID_REGISTRY)
      else if \<not> pr_writable R then Inl (Error REGISTRY_IO_ERROR) else Inr (Some ps))"

section \<open>Where a project may work\<close>

definition resolveConfiguredProjectRoot :: "string option \<Rightarrow> string \<Rightarrow> js_error + string" where
  "resolveConfiguredProjectRoot configured home =
     (let root = (case configured of Some c \<Rightarrow> c | None \<Rightarrow> path_join home ''projects'') in
      if \<not> isAbsolute root \<or> path_normalize root \<noteq> root then Inl (Error INVALID_PROJECT_ROOT) else Inr root)"

definition canonicalPath :: "registry_env \<Rightarrow> string \<Rightarrow> string \<Rightarrow> js_error + string" where
  "canonicalPath R p errorCode =
     (case pr_realpath R p of
        Inr q \<Rightarrow> Inr q
      | Inl e \<Rightarrow> if e = Enoent \<or> e = Enotdir then Inl (Error errorCode) else Inl (Error REGISTRY_IO_ERROR))"

definition outside_root :: "string \<Rightarrow> bool" where
  "outside_root pathFromRoot \<longleftrightarrow>
     pathFromRoot = [] \<or> pathFromRoot = ''..'' \<or> take 3 pathFromRoot = ''../'' \<or> isAbsolute pathFromRoot"

definition resolve_project :: "registry_env \<Rightarrow> registry_file \<Rightarrow> string \<Rightarrow> js_error + project_entry" where
  "resolve_project R file projectId =
     bind_result (readProjectRegistry file) (\<lambda>ps.
     case List.find (\<lambda>p. pj_id p = projectId \<and> pj_enabled p) ps of
       None \<Rightarrow> Inl (Error PROJECT_NOT_FOUND)
     | Some p \<Rightarrow>
         bind_result (resolveConfiguredProjectRoot (pr_configured R) (pr_home R)) (\<lambda>root.
         bind_result (canonicalPath R root INVALID_PROJECT_ROOT) (\<lambda>realRoot.
         bind_result (canonicalPath R (pj_cwd p) PROJECT_PATH_MISSING) (\<lambda>realCwd.
         if outside_root (path_relative realRoot realCwd) then Inl (Error PROJECT_PATH_OUTSIDE_ROOT)
         else Inr (p\<lparr>pj_cwd := realCwd\<rparr>)))))"

definition initializeProjectRegistry :: "registry_env \<Rightarrow> string \<Rightarrow> registry_file \<Rightarrow> js_error + registry_file \<times> (bool \<times> bool \<times> bool)" where
  "initializeProjectRegistry R stateDir file =
     bind_result (resolveConfiguredProjectRoot (pr_configured R) (pr_home R)) (\<lambda>root.
     bind_result (pr_directory R stateDir) (\<lambda>stateCreated.
     bind_result (pr_directory R root) (\<lambda>rootCreated.
     if \<not> pr_writable R then Inl (Error REGISTRY_IO_ERROR)
     else case file of
         None \<Rightarrow> Inr (Some [], stateCreated, rootCreated, True)
       | Some _ \<Rightarrow> bind_result (readProjectRegistry file) (\<lambda>_. Inr (file, stateCreated, rootCreated, False)))))"

definition isProjectConfigurationError :: "js_error \<Rightarrow> bool" where
  "isProjectConfigurationError e \<longleftrightarrow> (case e of
     Error m \<Rightarrow> m \<in> set [INVALID_REGISTRY, PROJECT_NOT_FOUND, PROJECT_PATH_MISSING, PROJECT_PATH_OUTSIDE_ROOT,
       INVALID_PROJECT_ROOT, INSECURE_PERMISSIONS]
   | _ \<Rightarrow> False)"

lemmas registry_codes = INVALID_REGISTRY_def PROJECT_NOT_FOUND_def PROJECT_PATH_MISSING_def
  PROJECT_PATH_OUTSIDE_ROOT_def INVALID_PROJECT_ROOT_def INSECURE_PERMISSIONS_def REGISTRY_IO_ERROR_def

section \<open>Segments\<close>

text \<open>The canonical absolute paths, which \<open>realpath\<close> gives: a slash and proper segments.\<close>

definition proper_segment :: "string \<Rightarrow> bool" where
  "proper_segment s \<longleftrightarrow> s \<noteq> [] \<and> s \<noteq> ''.'' \<and> s \<noteq> ''..'' \<and> CHR ''/'' \<notin> set s"

definition canonical_path :: "string \<Rightarrow> bool" where
  "canonical_path p \<longleftrightarrow> (\<exists>ss. list_all proper_segment ss \<and> p = ''/'' @ js_join ''/'' ss)"

lemma split_char_plain: "d \<notin> set s \<Longrightarrow> split_char d s = [s]"
  by (induction s) auto

lemma split_char_append: "d \<notin> set s \<Longrightarrow> split_char d (s @ d # t) = s # split_char d t"
  by (induction s) auto

lemma split_char_join:
  "ss \<noteq> [] \<Longrightarrow> \<forall>s \<in> set ss. d \<notin> set s \<Longrightarrow> split_char d (js_join [d] ss) = ss"
  by (induction "[d]" ss rule: js_join.induct) (auto simp: split_char_plain split_char_append)

lemma norm_proper: "list_all proper_segment ss \<Longrightarrow> norm_segments allow st ss = rev st @ ss"
  by (induction ss arbitrary: st) (auto simp: proper_segment_def)

text \<open>The segments of any absolute path are proper.\<close>

lemma split_char_free: "list_all (\<lambda>s. d \<notin> set s) (split_char d p)"
proof (induction p)
  case (Cons c p)
  then show ?case by (cases "split_char d p") auto
qed simp

lemma norm_segments_proper:
  "list_all proper_segment st \<Longrightarrow> list_all (\<lambda>s. CHR ''/'' \<notin> set s) ss \<Longrightarrow>
   list_all proper_segment (norm_segments False st ss)"
proof (induction ss arbitrary: st)
  case (Cons s ss)
  show ?case
  proof (cases "s = [] \<or> s = ''.''")
    case True
    with Cons show ?thesis by simp
  next
    case ordinary: False
    show ?thesis
    proof (cases "s = ''..''")
      case True
      have rest: "list_all (\<lambda>s. CHR ''/'' \<notin> set s) ss" using Cons.prems(2) by simp
      show ?thesis
      proof (cases st)
        case Nil
        with Cons.IH [of "[]"] rest show ?thesis unfolding True by simp
      next
        case (Cons t ts)
        with Cons.prems(1) have t: "proper_segment t" "list_all proper_segment ts" by simp_all
        then have "t \<noteq> ''..''" by (simp add: proper_segment_def)
        with Cons.IH [OF t(2) rest] show ?thesis unfolding True Cons by simp
      qed
    next
      case False
      with ordinary Cons.prems have "proper_segment s" by (simp add: proper_segment_def)
      with Cons ordinary False show ?thesis by simp
    qed
  qed
qed (simp add: list_all_iff)

lemma path_segments_proper: "isAbsolute p \<Longrightarrow> list_all proper_segment (path_segments p)"
  unfolding path_segments_def using norm_segments_proper [of "[]"] split_char_free [of "CHR ''/''" p] by simp

lemma path_segments_canonical:
  assumes "list_all proper_segment ss"
  shows "path_segments (''/'' @ js_join ''/'' ss) = ss"
proof (cases "ss = []")
  case False
  with assms have "split_char (CHR ''/'') (js_join ''/'' ss) = ss"
    by (intro split_char_join) (auto simp: list_all_iff proper_segment_def)
  with assms show ?thesis by (simp add: path_segments_def isAbsolute_def norm_proper)
qed (simp add: path_segments_def isAbsolute_def)

text \<open>A path down from the root is none of the forms that mean outside.\<close>

lemma join_proper_head:
  assumes "proper_segment s"
  shows "\<not> outside_root (js_join ''/'' (s # ss))"
proof -
  let ?j = "js_join ''/'' (s # ss)"
  have s: "s \<noteq> []" "CHR ''/'' \<notin> set s" "s \<noteq> ''..''" using assms by (auto simp: proper_segment_def)
  obtain t where t: "?j = s @ t" "t = [] \<or> (\<exists>u. t = CHR ''/'' # u)"
    by (cases ss) auto
  have first: "takeWhile (\<lambda>c. c \<noteq> CHR ''/'') ?j = s"
    using s(2) t(2) by (subst t(1), subst takeWhile_append2) auto
  have "?j \<noteq> ''..''" using first s(3) by auto
  moreover have "take 3 ?j \<noteq> ''../''"
  proof
    assume "take 3 ?j = ''../''"
    then have "?j = ''../'' @ drop 3 ?j" by (metis append_take_drop_id)
    then have "takeWhile (\<lambda>c. c \<noteq> CHR ''/'') ?j = takeWhile (\<lambda>c. c \<noteq> CHR ''/'') (''../'' @ drop 3 ?j)" by (rule arg_cong)
    with first s(3) show False by simp
  qed
  moreover have "?j \<noteq> []" "\<not> isAbsolute ?j" using s t(1) by (auto simp: isAbsolute_def hd_append dest: hd_in_set)
  ultimately show ?thesis by (simp only: outside_root_def) simp
qed

lemma drop_common_split:
  "drop_common xs ys = (up, down) \<Longrightarrow>
     \<exists>zs. xs = zs @ up \<and> ys = zs @ down \<and> (up = [] \<or> down = [] \<or> hd up \<noteq> hd down)"
proof (induction xs ys arbitrary: up down rule: drop_common.induct)
  case (1 x xs y ys)
  show ?case
  proof (cases "x = y")
    case True
    with 1 obtain zs where "xs = zs @ up" "ys = zs @ down" "up = [] \<or> down = [] \<or> hd up \<noteq> hd down" by auto
    with True show ?thesis by (intro exI [of _ "y # zs"]) simp
  qed (use 1 in auto)
qed auto

lemma drop_common_prefix: "drop_common zs (zs @ down) = ([], down)"
  by (induction zs) (cases down; simp)+

text \<open>Inside the root is exactly: below it, by at least one segment.\<close>

lemma outside_root_exact:
  assumes "canonical_path base" and "canonical_path cwd"
  shows "\<not> outside_root (path_relative base cwd) \<longleftrightarrow> (\<exists>down. down \<noteq> [] \<and> path_segments cwd = path_segments base @ down)"
proof -
  obtain rs cs where p: "list_all proper_segment rs" "list_all proper_segment cs" "path_segments base = rs" "path_segments cwd = cs"
    using assms path_segments_canonical by (auto simp: canonical_path_def)
  obtain up down where d: "drop_common rs cs = (up, down)" by fastforce
  from drop_common_split [OF d] obtain zs where z: "rs = zs @ up" "cs = zs @ down" "up = [] \<or> down = [] \<or> hd up \<noteq> hd down" by blast
  have rel: "path_relative base cwd = js_join ''/'' (replicate (length up) ''..'' @ down)"
    by (simp add: path_relative_def p d)
  show ?thesis
  proof (cases up)
    case Nil
    have "list_all proper_segment down" using p(2) z(2) by simp
    then have "\<not> outside_root (js_join ''/'' down) \<longleftrightarrow> down \<noteq> []"
      using join_proper_head by (cases down) (auto simp: outside_root_def)
    with Nil rel p z show ?thesis by auto
  next
    case (Cons u us)
    have up: "outside_root (js_join ''/'' (''..'' # ss))" for ss by (cases ss) (simp_all add: outside_root_def)
    have "cs \<noteq> rs @ down'" if "down' \<noteq> []" for down'
      using drop_common_prefix [of rs down'] d Cons by auto
    with Cons rel p up show ?thesis by auto
  qed
qed

section \<open>What a registered project may do\<close>

text \<open>C15: A project resolves exactly to a directory of its own below the projects root. The resolution succeeds if and
  only if the registry is valid and has the project enabled, root and directory exist, and, with links resolved, the
  directory lies below the root by at least one segment; neither the root itself, nor a directory above or beside it, nor
  one whose name merely continues the root's is accepted.\<close>

theorem project_resolves_inside_root:
  assumes "\<And>p q. pr_realpath R p = Inr q \<Longrightarrow> canonical_path q"
  shows "resolve_project R file i = Inr e \<longleftrightarrow>
    (\<exists>ps p root realRoot down. readProjectRegistry file = Inr ps \<and> List.find (\<lambda>p. pj_id p = i \<and> pj_enabled p) ps = Some p \<and>
       resolveConfiguredProjectRoot (pr_configured R) (pr_home R) = Inr root \<and> pr_realpath R root = Inr realRoot \<and>
       pr_realpath R (pj_cwd p) = Inr (pj_cwd e) \<and> e = p\<lparr>pj_cwd := pj_cwd e\<rparr> \<and>
       down \<noteq> [] \<and> path_segments (pj_cwd e) = path_segments realRoot @ down)"
proof -
  have canon: "canonicalPath R p c = Inr q \<longleftrightarrow> pr_realpath R p = Inr q" for p c q
    by (simp add: canonicalPath_def split: sum.splits)
  have inside: "(if outside_root (path_relative a b) then Inl x else Inr (p\<lparr>pj_cwd := b\<rparr>)) = Inr e \<longleftrightarrow>
      b = pj_cwd e \<and> e = p\<lparr>pj_cwd := pj_cwd e\<rparr> \<and> (\<exists>down. down \<noteq> [] \<and> path_segments b = path_segments a @ down)"
    if "pr_realpath R r = Inr a" "pr_realpath R cwd = Inr b" for a b p r cwd and x :: js_error
    using outside_root_exact [OF assms [OF that(1)] assms [OF that(2)]] by auto
  show ?thesis
    unfolding resolve_project_def
    by (simp add: canon inside split: option.split cong: conj_cong) (auto simp: inside)
qed

text \<open>A concrete machine: the projects below \<open>/srv/projects\<close>, one of them a link that leads beside the root.\<close>

definition demo_realpath :: "string \<Rightarrow> node_error + string" where
  "demo_realpath p =
     (if p = ''/srv/projects'' \<or> p = ''/srv/projects/site'' then Inr p
      else if p = ''/srv/projects/link'' then Inr ''/srv/projects-old/x'' else Inl Enoent)"

definition demo_registry_env :: registry_env where
  "demo_registry_env = \<lparr>pr_fits = (\<lambda>_. True), pr_writable = True, pr_realpath = demo_realpath, pr_directory = (\<lambda>_. Inr False),
     pr_configured = None, pr_home = ''/srv''\<rparr>"

definition demo_projects :: project_registry where
  "demo_projects =
     [\<lparr>pj_id = ''site'', pj_name = ''Site'', pj_cwd = ''/srv/projects/site'', pj_enabled = True\<rparr>,
      \<lparr>pj_id = ''link'', pj_name = ''Link'', pj_cwd = ''/srv/projects/link'', pj_enabled = True\<rparr>]"

lemma demo_realpath_canonical: "pr_realpath demo_registry_env p = Inr q \<Longrightarrow> canonical_path q"
proof -
  have c: "canonical_path (''/'' @ js_join ''/'' ss)" if "list_all proper_segment ss" for ss
    using that by (auto simp: canonical_path_def)
  have "canonical_path ''/srv/projects''" "canonical_path ''/srv/projects/site''" "canonical_path ''/srv/projects-old/x''"
    using c [of "[''srv'', ''projects'']"] c [of "[''srv'', ''projects'', ''site'']"] c [of "[''srv'', ''projects-old'', ''x'']"]
    by (simp_all add: proper_segment_def)
  then show "pr_realpath demo_registry_env p = Inr q \<Longrightarrow> canonical_path q"
    by (auto simp: demo_registry_env_def demo_realpath_def split: if_splits)
qed

lemma demo_resolution:
  "resolve_project demo_registry_env (Some demo_projects) ''site'' = Inr (hd demo_projects)"
  "resolve_project demo_registry_env (Some demo_projects) ''link'' = Inl (Error PROJECT_PATH_OUTSIDE_ROOT)"
  by code_simp+

theorem project_resolves_inside_root_witness:
  "(\<exists>p realRoot down. p \<in> set demo_projects \<and> pr_realpath demo_registry_env (pj_cwd p) = Inr ''/srv/projects/site'' \<and>
     down \<noteq> [] \<and> path_segments ''/srv/projects/site'' = path_segments realRoot @ down) \<and>
   resolve_project demo_registry_env (Some demo_projects) ''link'' = Inl (Error PROJECT_PATH_OUTSIDE_ROOT)"
proof -
  have e: "pj_cwd (hd demo_projects) = ''/srv/projects/site''" by (simp add: demo_projects_def)
  obtain ps p realRoot down where "readProjectRegistry (Some demo_projects) = Inr ps"
    "List.find (\<lambda>p. pj_id p = ''site'' \<and> pj_enabled p) ps = Some p"
    "pr_realpath demo_registry_env (pj_cwd p) = Inr ''/srv/projects/site''" "down \<noteq> []"
    "path_segments ''/srv/projects/site'' = path_segments realRoot @ down"
    using project_resolves_inside_root [THEN iffD1, OF _ demo_resolution(1)] demo_realpath_canonical unfolding e by blast
  with demo_resolution(2) show ?thesis
    by (auto simp: readProjectRegistry_def dest: find_SomeD split: if_splits)
qed

end
