(* ===== verification/IncidentStore.thy ===== *)
theory IncidentStore
  imports TelemetryRedaction
begin

text \<open>
  \<^verbatim>\<open>src/data/delivery-system/incidentStore.ts\<close> and \<^verbatim>\<open>operationalIncidents.ts\<close>: incidents of the control plane, their
  acknowledgement, the packet for an external repair, and the spool that takes an incident when the state is locked. The
  file is the list of its incidents; that it has exactly their fields, with values of their types, is checked when it is
  parsed. The text of a timestamp and the sizes of serialized documents are parameters.
\<close>

section \<open>Data\<close>

datatype incident_severity = Severity_low | Severity_medium | Severity_high | Severity_critical
datatype incident_status = Incident_open | Incident_acknowledged

record incident_input =
  ii_severity :: incident_severity
  ii_stage :: utf16
  ii_summary :: utf16
  ii_correlations :: "(utf16 \<times> utf16) list"
  ii_impact :: utf16
  ii_retry_count :: js_number
  ii_event_refs :: "utf16 list"

record incident =
  ic_id :: string
  ic_recorded_at :: stamp
  ic_status :: incident_status
  ic_acknowledged_at :: "stamp option"
  ic_acknowledged_by :: "utf16 option"
  ic_severity :: incident_severity
  ic_stage :: utf16
  ic_summary :: utf16
  ic_correlations :: "(utf16 \<times> utf16) list"
  ic_impact :: utf16
  ic_retry_count :: int
  ic_event_refs :: "utf16 list"

type_synonym incident_store = "incident list"

record repair_input =
  ri_expected :: utf16
  ri_actual :: utf16
  ri_steps :: "utf16 list"
  ri_commands :: "utf16 list"

record repair_packet =
  rp_incident :: incident
  rp_expected :: utf16
  rp_actual :: utf16
  rp_steps :: "utf16 list"
  rp_commands :: "utf16 list"

record incident_env =
  ie_stamp_text :: "stamp \<Rightarrow> string"
  ie_fits :: "incident_store \<Rightarrow> bool"
  ie_fits_packet :: "repair_packet \<Rightarrow> bool"

definition MAX_INCIDENTS :: nat where "MAX_INCIDENTS = 256"
definition MAX_SUMMARY_CHARS :: nat where "MAX_SUMMARY_CHARS = 2000"
definition MAX_TEXT_CHARS :: nat where "MAX_TEXT_CHARS = 2000"
definition MAX_INCIDENT_ID_CHARS :: nat where "MAX_INCIDENT_ID_CHARS = 200"
definition MAX_CORRELATION_IDS :: nat where "MAX_CORRELATION_IDS = 32"
definition MAX_EVENT_REFS :: nat where "MAX_EVENT_REFS = 32"
definition MAX_REPAIR_STEPS :: nat where "MAX_REPAIR_STEPS = 20"
definition MAX_PACKET_ITEM_CHARS :: nat where "MAX_PACKET_ITEM_CHARS = 512"
definition MAX_RETRY_COUNT :: int where "MAX_RETRY_COUNT = 1000"

lemmas incident_limits = MAX_INCIDENTS_def MAX_SUMMARY_CHARS_def MAX_TEXT_CHARS_def MAX_INCIDENT_ID_CHARS_def
  MAX_CORRELATION_IDS_def MAX_EVENT_REFS_def MAX_REPAIR_STEPS_def MAX_PACKET_ITEM_CHARS_def MAX_RETRY_COUNT_def

section \<open>Texts\<close>

text \<open>The pattern of a UUID, in either case.\<close>

definition hex_digit :: "char \<Rightarrow> bool" where
  "hex_digit c \<longleftrightarrow> c \<in> set ''0123456789abcdefABCDEF''"

definition incident_id_pattern :: "string \<Rightarrow> bool" where
  "incident_id_pattern s \<longleftrightarrow> length s = 36 \<and>
     list_all (\<lambda>(i, c). if i \<in> set [8, 13, 18, 23] then c = CHR ''-''
       else if i = 14 then c \<in> set ''12345'' else if i = 19 then c \<in> set ''89abAB'' else hex_digit c) (enumerate 0 s)"

text \<open>\<open>/^\d{4}-\d{2}-\d{2}T\d{2}:\d{2}:\d{2}\.\d{3}Z$/\<close>: the canonical text of a time in the years 0 to 9999.\<close>

fun isIsoTimestamp :: "stamp \<Rightarrow> bool" where
  "isIsoTimestamp (Iso ms) \<longleftrightarrow> - 62167219200000 \<le> ms \<and> ms \<le> 253402300799999"
| "isIsoTimestamp _ \<longleftrightarrow> False"

definition isRedacted :: "utf16 \<Rightarrow> bool" where
  "isRedacted v \<longleftrightarrow> redactTelemetryText v (length v) = v"

definition incident_bounded :: "'a list \<Rightarrow> nat \<Rightarrow> bool" where
  "incident_bounded v chars \<longleftrightarrow> length v \<le> chars"

text \<open>The loop that shortens a text until its UTF-8 size fits.\<close>

fun fit_bytes :: "nat \<Rightarrow> utf16 \<Rightarrow> nat \<Rightarrow> nat" where
  "fit_bytes 0 v chars = 0"
| "fit_bytes (Suc n) v chars =
     (if utf8_byteLength (take (Suc n) v) > int chars then fit_bytes n v chars else Suc n)"

definition boundedText :: "utf16 \<Rightarrow> nat \<Rightarrow> utf16" where
  "boundedText v chars =
     (let redacted = redactTelemetryText v chars in
      if utf8_byteLength redacted \<le> int chars then redacted
      else take (fit_bytes (length redacted) redacted chars) redacted)"

definition boundedTextList :: "utf16 list \<Rightarrow> nat \<Rightarrow> nat \<Rightarrow> utf16 list" where
  "boundedTextList vs count chars = map (\<lambda>v. boundedText v chars) (take count vs)"

text \<open>\<open>Object.fromEntries\<close>: a later entry with the same key replaces the value of the earlier one.\<close>

definition from_entries :: "('k \<times> 'v) list \<Rightarrow> ('k \<times> 'v) list" where
  "from_entries es = fold (\<lambda>(k, v). AList.update k v) es []"

definition boundedCorrelationIds :: "(utf16 \<times> utf16) list \<Rightarrow> (utf16 \<times> utf16) list" where
  "boundedCorrelationIds es =
     from_entries (map (\<lambda>(k, v). (boundedText k MAX_INCIDENT_ID_CHARS, boundedText v MAX_INCIDENT_ID_CHARS))
       (take MAX_CORRELATION_IDS es))"

definition boundedRetryCount :: "js_number \<Rightarrow> js_error + int" where
  "boundedRetryCount n =
     (case n of
        Finite x \<Rightarrow> if real_of_int \<lfloor>x\<rfloor> = x \<and> 0 \<le> x then Inr (min \<lfloor>x\<rfloor> MAX_RETRY_COUNT) else Inl (Error ''invalid_incident'')
      | _ \<Rightarrow> Inl (Error ''invalid_incident''))"

section \<open>The stored document\<close>

definition isBoundedStringRecord :: "(utf16 \<times> utf16) list \<Rightarrow> bool" where
  "isBoundedStringRecord es \<longleftrightarrow> length es \<le> MAX_CORRELATION_IDS \<and>
     list_all (\<lambda>(k, v). length k > 0 \<and> length k \<le> MAX_INCIDENT_ID_CHARS \<and> incident_bounded v MAX_INCIDENT_ID_CHARS \<and>
       isRedacted k \<and> isRedacted v) es"

definition isBoundedStringList :: "utf16 list \<Rightarrow> nat \<Rightarrow> nat \<Rightarrow> bool" where
  "isBoundedStringList vs count chars \<longleftrightarrow> length vs \<le> count \<and>
     list_all (\<lambda>v. incident_bounded v chars \<and> isRedacted v) vs"

definition isIncident :: "incident_env \<Rightarrow> incident \<Rightarrow> bool" where
  "isIncident I c \<longleftrightarrow>
     incident_bounded (ic_id c) MAX_INCIDENT_ID_CHARS \<and> incident_id_pattern (ic_id c) \<and> isRedacted (units_of (ic_id c)) \<and>
     incident_bounded (ie_stamp_text I (ic_recorded_at c)) MAX_INCIDENT_ID_CHARS \<and> isIsoTimestamp (ic_recorded_at c) \<and>
     isRedacted (units_of (ie_stamp_text I (ic_recorded_at c))) \<and>
     incident_bounded (ic_stage c) MAX_INCIDENT_ID_CHARS \<and> incident_bounded (ic_summary c) MAX_SUMMARY_CHARS \<and>
     incident_bounded (ic_impact c) MAX_TEXT_CHARS \<and> list_all isRedacted [ic_stage c, ic_summary c, ic_impact c] \<and>
     0 \<le> ic_retry_count c \<and> ic_retry_count c \<le> MAX_RETRY_COUNT \<and>
     (case ic_acknowledged_at c of None \<Rightarrow> True
      | Some t \<Rightarrow> incident_bounded (ie_stamp_text I t) MAX_INCIDENT_ID_CHARS \<and> isIsoTimestamp t \<and>
          isRedacted (units_of (ie_stamp_text I t))) \<and>
     (case ic_acknowledged_by c of None \<Rightarrow> True
      | Some o' \<Rightarrow> incident_bounded o' MAX_INCIDENT_ID_CHARS \<and> isRedacted o') \<and>
     (ic_status c = Incident_open \<longrightarrow> ic_acknowledged_at c = None \<and> ic_acknowledged_by c = None) \<and>
     (ic_status c = Incident_acknowledged \<longrightarrow> ic_acknowledged_at c \<noteq> None \<and> ic_acknowledged_by c \<noteq> None) \<and>
     isBoundedStringRecord (ic_correlations c) \<and> isBoundedStringList (ic_event_refs c) MAX_EVENT_REFS MAX_INCIDENT_ID_CHARS"

definition validateDocument :: "incident_env \<Rightarrow> incident_store \<Rightarrow> bool" where
  "validateDocument I s \<longleftrightarrow> length s \<le> MAX_INCIDENTS \<and> list_all (isIncident I) s \<and> length (js_unique (map ic_id s)) = length s"

definition readIncidentStore :: "incident_env \<Rightarrow> incident_store \<Rightarrow> js_error + incident_store" where
  "readIncidentStore I file = (if validateDocument I file then Inr file else Inl (Error ''invalid_incident_store''))"

text \<open>The document is written as it is, without being validated.\<close>

definition writeIncidentStore :: "incident_env \<Rightarrow> incident_store \<Rightarrow> js_error + incident_store" where
  "writeIncidentStore I s = (if ie_fits I s then Inr s else Inl (Error ''invalid_incident_store''))"

section \<open>The operations\<close>

definition new_incident :: "string \<Rightarrow> stamp \<Rightarrow> incident_input \<Rightarrow> int \<Rightarrow> incident" where
  "new_incident i recordedAt input retries =
     \<lparr>ic_id = i, ic_recorded_at = recordedAt, ic_status = Incident_open, ic_acknowledged_at = None, ic_acknowledged_by = None,
      ic_severity = ii_severity input, ic_stage = boundedText (ii_stage input) MAX_INCIDENT_ID_CHARS,
      ic_summary = boundedText (ii_summary input) MAX_SUMMARY_CHARS,
      ic_correlations = boundedCorrelationIds (ii_correlations input),
      ic_impact = boundedText (ii_impact input) MAX_TEXT_CHARS, ic_retry_count = retries,
      ic_event_refs = boundedTextList (ii_event_refs input) MAX_EVENT_REFS MAX_INCIDENT_ID_CHARS\<rparr>"

text \<open>\<open>slice(-n)\<close>: the last \<open>n\<close> elements.\<close>

definition last_n :: "nat \<Rightarrow> 'a list \<Rightarrow> 'a list" where
  "last_n n xs = drop (length xs - n) xs"

definition recordAutopilotIncident ::
  "incident_env \<Rightarrow> incident_input \<Rightarrow> string \<Rightarrow> stamp \<Rightarrow> incident_store \<Rightarrow> js_error + incident_store \<times> incident" where
  "recordAutopilotIncident I input i recordedAt file =
     bind_result (readIncidentStore I file) (\<lambda>s.
     if \<not> incident_id_pattern i \<or> \<not> isIsoTimestamp recordedAt then Inl (Error ''invalid_incident'')
     else bind_result (boundedRetryCount (ii_retry_count input)) (\<lambda>retries.
       let c = new_incident i recordedAt input retries in
       bind_result (writeIncidentStore I (last_n MAX_INCIDENTS (s @ [c]))) (\<lambda>s'. Inr (s', c))))"

definition acknowledged :: "utf16 \<Rightarrow> stamp \<Rightarrow> incident \<Rightarrow> incident" where
  "acknowledged owner now c = c\<lparr>ic_status := Incident_acknowledged,
     ic_acknowledged_at := Some (case ic_acknowledged_at c of None \<Rightarrow> now | Some t \<Rightarrow> t),
     ic_acknowledged_by := Some (case ic_acknowledged_by c of None \<Rightarrow> boundedText owner MAX_INCIDENT_ID_CHARS | Some o' \<Rightarrow> o')\<rparr>"

definition acknowledgeIncident ::
  "incident_env \<Rightarrow> string \<Rightarrow> utf16 \<Rightarrow> stamp \<Rightarrow> incident_store \<Rightarrow> js_error + incident_store \<times> incident" where
  "acknowledgeIncident I i owner now file =
     bind_result (readIncidentStore I file) (\<lambda>s.
     case findIndex (\<lambda>c. ic_id c = i) s of
       None \<Rightarrow> Inl (Error ''incident_not_found'')
     | Some n \<Rightarrow>
         let c = acknowledged owner now (s ! n) in
         bind_result (writeIncidentStore I (s[n := c])) (\<lambda>s'. Inr (s', c)))"

definition prepareRepairPacket :: "incident_env \<Rightarrow> string \<Rightarrow> repair_input \<Rightarrow> incident_store \<Rightarrow> js_error + repair_packet" where
  "prepareRepairPacket I i input file =
     bind_result (readIncidentStore I file) (\<lambda>s.
     case List.find (\<lambda>c. ic_id c = i) s of
       None \<Rightarrow> Inl (Error ''incident_not_found'')
     | Some c \<Rightarrow>
         let packet = \<lparr>rp_incident = c, rp_expected = boundedText (ri_expected input) MAX_TEXT_CHARS,
               rp_actual = boundedText (ri_actual input) MAX_TEXT_CHARS,
               rp_steps = boundedTextList (ri_steps input) MAX_REPAIR_STEPS MAX_PACKET_ITEM_CHARS,
               rp_commands = boundedTextList (ri_commands input) MAX_REPAIR_STEPS MAX_PACKET_ITEM_CHARS\<rparr>
         in if ie_fits_packet I packet then Inr packet else Inl (Error ''repair_packet_too_large''))"

section \<open>Operational incidents\<close>

datatype operational_stage = Control_plane_status | Control_plane_sessions | Control_plane_workers | Control_plane_providers
  | Control_plane_observability | Control_plane_approvals | Control_plane_runs | Supervisor_loop | Provider_poll
  | Worker_output | State_maintenance | State_recovery

fun stage_name :: "operational_stage \<Rightarrow> string" where
  "stage_name Control_plane_status = ''control_plane_status''"
| "stage_name Control_plane_sessions = ''control_plane_sessions''"
| "stage_name Control_plane_workers = ''control_plane_workers''"
| "stage_name Control_plane_providers = ''control_plane_providers''"
| "stage_name Control_plane_observability = ''control_plane_observability''"
| "stage_name Control_plane_approvals = ''control_plane_approvals''"
| "stage_name Control_plane_runs = ''control_plane_runs''"
| "stage_name Supervisor_loop = ''supervisor_loop''"
| "stage_name Provider_poll = ''provider_poll''"
| "stage_name Worker_output = ''worker_output''"
| "stage_name State_maintenance = ''state_maintenance''"
| "stage_name State_recovery = ''state_recovery''"

definition CORRELATION_KEYS :: "string list" where
  "CORRELATION_KEYS = [''request_id'', ''provider'', ''worker_run_id'', ''handoff_id'', ''run_id'', ''session_id'']"

definition MAX_SPOOL_FILES :: nat where "MAX_SPOOL_FILES = 256"

definition boundedOperationalCorrelations :: "(utf16 \<times> utf16) list \<Rightarrow> (utf16 \<times> utf16) list" where
  "boundedOperationalCorrelations es =
     from_entries (map (\<lambda>(k, v). (k, redactTelemetryText v 200))
       (take (length CORRELATION_KEYS) (filter (\<lambda>(k, v). k \<in> set (map units_of CORRELATION_KEYS)) es)))"

definition operational_input :: "operational_stage \<Rightarrow> (utf16 \<times> utf16) list \<Rightarrow> incident_input" where
  "operational_input stage correlations =
     \<lparr>ii_severity = Severity_high, ii_stage = units_of (stage_name stage),
      ii_summary = units_of (''operational_failure:'' @ stage_name stage),
      ii_correlations = boundedOperationalCorrelations correlations,
      ii_impact = units_of (''operation_incomplete:'' @ stage_name stage), ii_retry_count = Finite 0, ii_event_refs = []\<rparr>"

text \<open>The spool: its files by name, each with the incident it holds when it is a readable one.\<close>

type_synonym spool = "(string \<times> incident option) list"

definition spooled :: "string \<Rightarrow> stamp \<Rightarrow> incident_input \<Rightarrow> incident" where
  "spooled i recordedAt input =
     \<lparr>ic_id = i, ic_recorded_at = recordedAt, ic_status = Incident_open, ic_acknowledged_at = None, ic_acknowledged_by = None,
      ic_severity = ii_severity input, ic_stage = ii_stage input, ic_summary = ii_summary input,
      ic_correlations = ii_correlations input, ic_impact = ii_impact input, ic_retry_count = 0,
      ic_event_refs = ii_event_refs input\<rparr>"

text \<open>\<open>locked\<close> says that the lock of the state timed out; then the incident goes to a new file of the spool.\<close>

definition recordOperationalIncident ::
  "incident_env \<Rightarrow> bool \<Rightarrow> operational_stage \<Rightarrow> (utf16 \<times> utf16) list \<Rightarrow> string \<Rightarrow> stamp \<Rightarrow> incident_store \<times> spool \<Rightarrow>
   js_error + (incident_store \<times> spool) \<times> incident" where
  "recordOperationalIncident I locked stage correlations i recordedAt st =
     (let input = operational_input stage correlations in
      case st of (file, files) \<Rightarrow>
        if \<not> locked
        then bind_result (recordAutopilotIncident I input i recordedAt file) (\<lambda>(s', c). Inr ((s', files), c))
        else if i @ ''.json'' \<in> set (map fst files) then Inl (Error ''EEXIST'')
        else Inr ((file, files @ [(i @ ''.json'', Some (spooled i recordedAt input))]), spooled i recordedAt input))"

text \<open>A file is taken in when it holds what the spool writes. \<open>Date.parse\<close> must read its time, which need not be in
  the canonical form.\<close>

definition parseSpooledOperationalIncident :: "string \<times> incident option \<Rightarrow> incident option" where
  "parseSpooledOperationalIncident f =
     (case snd f of None \<Rightarrow> None
      | Some c \<Rightarrow>
          if incident_id_pattern (ic_id c) \<and> fst f = ic_id c @ ''.json'' \<and> date_parse (ic_recorded_at c) \<noteq> None \<and>
             ic_status c = Incident_open \<and> ic_acknowledged_at c = None \<and> ic_acknowledged_by c = None \<and>
             ic_severity c = Severity_high \<and>
             list_ex (\<lambda>st. ic_stage c = units_of (stage_name st) \<and> ic_summary c = units_of (''operational_failure:'' @ stage_name st) \<and>
               ic_impact c = units_of (''operation_incomplete:'' @ stage_name st))
               [Control_plane_status, Control_plane_sessions, Control_plane_workers, Control_plane_providers,
                Control_plane_observability, Control_plane_approvals, Control_plane_runs, Supervisor_loop, Provider_poll,
                Worker_output, State_maintenance, State_recovery] \<and>
             ic_retry_count c = 0 \<and> ic_event_refs c = [] \<and>
             boundedOperationalCorrelations (ic_correlations c) = ic_correlations c
          then Some c else None)"

definition reinput :: "incident \<Rightarrow> incident_input" where
  "reinput c = \<lparr>ii_severity = ic_severity c, ii_stage = ic_stage c, ii_summary = ic_summary c,
     ii_correlations = ic_correlations c, ii_impact = ic_impact c, ii_retry_count = Finite (real_of_int (ic_retry_count c)),
     ii_event_refs = ic_event_refs c\<rparr>"

text \<open>The files are taken in the order of their names; a throw ends the loop and keeps what was done.\<close>

fun ingest_files ::
  "incident_env \<Rightarrow> (string \<times> incident option) list \<Rightarrow> nat \<Rightarrow> incident_store \<times> spool \<Rightarrow> (incident_store \<times> spool) \<times> (js_error + nat)" where
  "ingest_files I [] n st = (st, Inr n)"
| "ingest_files I (f # fs) n (file, files) =
     (case parseSpooledOperationalIncident f of
        None \<Rightarrow> ingest_files I fs n (file, files)
      | Some c \<Rightarrow>
          (case readIncidentStore I file of
             Inl e \<Rightarrow> ((file, files), Inl e)
           | Inr s \<Rightarrow>
               if ic_id c \<in> set (map ic_id s) then ingest_files I fs n (file, AList.delete (fst f) files)
               else (case recordAutopilotIncident I (reinput c) (ic_id c) (ic_recorded_at c) file of
                   Inl e \<Rightarrow> ((file, files), Inl e)
                 | Inr (s', _) \<Rightarrow> ingest_files I fs (Suc n) (s', AList.delete (fst f) files))))"

fun text_le :: "string \<Rightarrow> string \<Rightarrow> bool" where
  "text_le [] t \<longleftrightarrow> True"
| "text_le (c # s) [] \<longleftrightarrow> False"
| "text_le (c # s) (d # t) \<longleftrightarrow> (of_char c :: nat) < of_char d \<or> c = d \<and> text_le s t"

fun insert_file :: "string \<times> 'a \<Rightarrow> (string \<times> 'a) list \<Rightarrow> (string \<times> 'a) list" where
  "insert_file f [] = [f]"
| "insert_file f (g # gs) = (if text_le (fst f) (fst g) then f # g # gs else g # insert_file f gs)"

definition ingestOperationalIncidentSpool ::
  "incident_env \<Rightarrow> incident_store \<times> spool \<Rightarrow> (incident_store \<times> spool) \<times> (js_error + nat)" where
  "ingestOperationalIncidentSpool I st =
     ingest_files I (take MAX_SPOOL_FILES (foldr insert_file (snd st) [])) 0 st"

end
