(* ===== verification/ControlRoutes.thy ===== *)
theory ControlRoutes
  imports RunOrchestrator PromotionPackets ProjectRegistry IncidentStore
begin

text \<open>
  \<^verbatim>\<open>scripts/control-plane-runs.ts\<close>: the routes of the control plane over the runs, the projects, the promotion packets
  and the incidents. A request comes with its method, its path, its query and its parsed body; the bearer check, the
  content type, the bytes of the body and the text of the response are outside. Each route is the call the code makes, in
  the world of all the stores, and its throw is turned into a status as \<open>knownHttpError\<close> does.
\<close>

section \<open>The world and the environment\<close>

record control_world =
  cw_run :: run_world
  cw_projects :: registry_file
  cw_promotions :: promotion_store
  cw_incidents :: "incident_store \<times> spool"

text \<open>The parameters of the stores; whether the lock of the state times out when an operational incident is recorded at
  a time of the clock.\<close>

record control_env =
  ce_orchestrator :: orchestrator_env
  ce_registry :: registry_env
  ce_promotions :: promotion_env
  ce_incidents :: incident_env
  ce_locked :: "nat \<Rightarrow> bool"

type_synonym 'a control_io = "(control_world, 'a) io"

text \<open>The orchestrator of a request works with the projects of the registry and redacts with \<open>redactTelemetryText\<close>.\<close>

definition request_env :: "control_env \<Rightarrow> registry_file \<Rightarrow> orchestrator_env" where
  "request_env C projects = (ce_orchestrator C)
     \<lparr>oe_runs := (oe_runs (ce_orchestrator C))
        \<lparr>resolveEnabledProject := \<lambda>i. bind_result (resolve_project (ce_registry C) projects i) (\<lambda>p. Inr (pj_cwd p))\<rparr>,
      oe_isProjectConfigurationError := isProjectConfigurationError,
      oe_redact := \<lambda>v n. Inr (redactTelemetryText v n)\<rparr>"

definition on_runs :: "control_env \<Rightarrow> (orchestrator_env \<Rightarrow> 'a run_io) \<Rightarrow> 'a control_io" where
  "on_runs C m w = (case m (request_env C (cw_projects w)) (cw_run w) of (v, r) \<Rightarrow> (w\<lparr>cw_run := v\<rparr>, r))"

definition on_promotions :: "(promotion_store \<Rightarrow> js_error + promotion_store \<times> 'a) \<Rightarrow> 'a control_io" where
  "on_promotions f w = (case f (cw_promotions w) of Inl e \<Rightarrow> (w, Inl e) | Inr (s, x) \<Rightarrow> (w\<lparr>cw_promotions := s\<rparr>, Inr x))"

definition on_incidents :: "(incident_store \<Rightarrow> js_error + incident_store \<times> 'a) \<Rightarrow> 'a control_io" where
  "on_incidents f w = (case f (fst (cw_incidents w)) of
      Inl e \<Rightarrow> (w, Inl e) | Inr (s, x) \<Rightarrow> (w\<lparr>cw_incidents := (s, snd (cw_incidents w))\<rparr>, Inr x))"

definition on_projects :: "(registry_file \<Rightarrow> js_error + registry_file \<times> 'a) \<Rightarrow> 'a control_io" where
  "on_projects f w = (case f (cw_projects w) of Inl e \<Rightarrow> (w, Inl e) | Inr (s, x) \<Rightarrow> (w\<lparr>cw_projects := s\<rparr>, Inr x))"

definition request_now :: "control_env \<Rightarrow> stamp control_io" where
  "request_now C = on_runs C io_now"

definition request_uuid :: "control_env \<Rightarrow> string control_io" where
  "request_uuid C = on_runs C io_uuid"

definition request_runs :: "run_store control_io" where
  "request_runs w = (w, readRunStore (rw_runs (cw_run w)))"

definition request_packets :: "promotion_store control_io" where
  "request_packets w = (w, readPromotionStore (cw_promotions w))"

section \<open>Bodies\<close>

text \<open>A field of a body: absent, null, not of the kind that is asked for, or a value of it.\<close>

datatype 'a given = Undefined | Null | Wrong | Given 'a

record request_body =
  rb_project_id :: "string given"
  rb_prompt :: "utf16 given"
  rb_provider :: "run_provider given"
  rb_model :: "string given"
  rb_estimated_tokens :: "js_number given"
  rb_requested_artifacts :: "artifact_type list given"
  rb_prompt_review_acknowledged :: "bool given"
  rb_profile :: "run_profile given"
  rb_requested_reasoning_effort :: "string given"
  rb_promotion_packet_id :: "string given"
  rb_full_verification_ref :: "utf16 given"
  rb_revision :: "js_number given"
  rb_operator :: "string given"
  rb_intent :: "utf16 given"
  rb_diff_summary :: "utf16 given"
  rb_tests :: "utf16 list given"
  rb_risks :: "utf16 list given"
  rb_approver :: "utf16 given"
  rb_review_ref :: "utf16 given"
  rb_prod_run_id :: "utf16 given"
  rb_release_acceptance_ref :: "utf16 given"
  rb_rollback_ref :: "utf16 given"
  rb_owner :: "utf16 given"
  rb_expected :: "utf16 given"
  rb_actual :: "utf16 given"
  rb_reproduction_steps :: "utf16 list given"
  rb_verification_commands :: "utf16 list given"
  rb_name :: "string given"
  rb_cwd :: "string given"
  rb_enabled :: "bool given"

text \<open>An \<open>HttpError\<close> is thrown as an error with its code; its status belongs to the code (\<open>knownHttpError\<close> below).\<close>

definition whole :: "js_number given \<Rightarrow> string \<Rightarrow> js_error + int" where
  "whole v code =
     (case v of Given x \<Rightarrow> (case safe_integer_of x of Some n \<Rightarrow> if n < 1 then Inl (Error code) else Inr n | None \<Rightarrow> Inl (Error code))
      | _ \<Rightarrow> Inl (Error code))"

definition nonEmpty :: "'a list given \<Rightarrow> string \<Rightarrow> js_error + 'a list" where
  "nonEmpty v code =
     (case v of Given s \<Rightarrow> if s = [] \<or> length s > 200 then Inl (Error code) else Inr s | _ \<Rightarrow> Inl (Error code))"

definition optional :: "'a given \<Rightarrow> 'a option" where
  "optional v = (case v of Given x \<Rightarrow> Some x | _ \<Rightarrow> None)"

definition checkReasoningCapability :: "request_body \<Rightarrow> js_error + unit" where
  "checkReasoningCapability b =
     (case (rb_requested_reasoning_effort b, rb_provider b) of
        (Given effort, Given p) \<Rightarrow>
          if effort \<in> set (map reasoning_name (SUPPORTED_REASONING_EFFORTS p)) then Inr ()
          else Inl (Error ''unsupported_reasoning_effort'')
      | _ \<Rightarrow> Inr ())"

text \<open>The effort is looked up by its name; \<open>checkReasoningCapability\<close> has refused the others before.\<close>

definition effort_named :: "string \<Rightarrow> reasoning_effort option" where
  "effort_named s = List.find (\<lambda>e. reasoning_name e = s) [Low, Medium, High, XHigh, MaxEffort, Ultra]"

definition draftInput :: "request_body \<Rightarrow> js_error + run_draft_input" where
  "draftInput b =
     (case (rb_project_id b, rb_prompt b, rb_provider b, rb_requested_artifacts b) of
        (Given project, Given prompt', Given p, Given artifacts') \<Rightarrow>
          if rb_model b = Undefined \<or> rb_model b = Wrong then Inl (Error ''invalid_run_draft'')
          else
            let acknowledged = (rb_prompt_review_acknowledged b = Given True) in
            bind_result (assertRunPromptPolicy prompt' acknowledged) (\<lambda>_.
            case (case rb_estimated_tokens b of
                Undefined \<Rightarrow> Some (Finite (real_of_int (canonicalRunTokenBudget prompt')))
              | Given x \<Rightarrow> Some x | _ \<Rightarrow> None) of
              None \<Rightarrow> Inl (Error ''invalid_run_draft'')
            | Some estimated \<Rightarrow>
                if safe_integer_of estimated = None \<or> rb_profile b = Null \<or> rb_profile b = Wrong \<or>
                   rb_requested_reasoning_effort b = Wrong \<or> rb_promotion_packet_id b = Wrong
                then Inl (Error ''invalid_run_draft'')
                else Inr \<lparr>in_project_id = project, in_prompt = prompt', in_provider = p, in_model = optional (rb_model b),
                  in_estimated_tokens = estimated, in_requested_artifacts = artifacts',
                  in_prompt_review_acknowledged = acknowledged,
                  in_profile = (case rb_profile b of Given prof \<Rightarrow> prof | _ \<Rightarrow> Dev),
                  in_reasoning_effort = (case rb_requested_reasoning_effort b of Given s \<Rightarrow> effort_named s | _ \<Rightarrow> None),
                  in_promotion_packet_id = optional (rb_promotion_packet_id b)\<rparr>)
      | _ \<Rightarrow> Inl (Error ''invalid_run_draft''))"

definition promoteInput :: "request_body \<Rightarrow> js_error + promotion_input" where
  "promoteInput b =
     (case (rb_intent b, rb_diff_summary b, rb_tests b, rb_risks b) of
        (Given intent, Given diff, Given tests, Given risks) \<Rightarrow>
          Inr \<lparr>pi_intent = intent, pi_diff = diff, pi_tests = tests, pi_risks = risks\<rparr>
      | _ \<Rightarrow> Inl (Error ''invalid_promotion_packet''))"

definition promotionApprovalInput :: "control_env \<Rightarrow> request_body \<Rightarrow> promotion_approval control_io" where
  "promotionApprovalInput C b =
     (case rb_review_ref b of
        Given ref \<Rightarrow>
          if rb_approver b \<noteq> Given (units_of ''owner'') then io_throw ''promotion_not_approved''
          else io_bind (request_now C) (\<lambda>t. io_return
            \<lparr>pa_approver = units_of ''owner'', pa_approved_at = t, pa_review_ref = ref\<rparr>)
      | _ \<Rightarrow> io_throw ''promotion_not_approved'')"

definition publishEvidenceInput :: "request_body \<Rightarrow> js_error + promotion_evidence" where
  "publishEvidenceInput b =
     (case (rb_prod_run_id b, rb_full_verification_ref b, rb_release_acceptance_ref b, rb_rollback_ref b) of
        (Given run, Given verification, Given acceptance, Given rollback) \<Rightarrow>
          Inr \<lparr>pe_prod_run = run, pe_verification = verification, pe_acceptance = acceptance, pe_rollback = rollback\<rparr>
      | _ \<Rightarrow> Inl (Error ''promotion_evidence_required''))"

definition promotionEvidenceRef :: "utf16 given \<Rightarrow> js_error + utf16" where
  "promotionEvidenceRef v =
     (case v of Given s \<Rightarrow> if s = [] \<or> length s > 2000 then Inl (Error ''promotion_evidence_required'') else Inr s
      | _ \<Rightarrow> Inl (Error ''promotion_evidence_required''))"

definition repairInput :: "request_body \<Rightarrow> js_error + repair_input" where
  "repairInput b =
     (case (rb_expected b, rb_actual b) of
        (Given expected, Given actual) \<Rightarrow>
          if rb_reproduction_steps b \<in> {Null, Wrong} \<or> rb_verification_commands b \<in> {Null, Wrong}
          then Inl (Error ''invalid_repair_packet'')
          else Inr \<lparr>ri_expected = expected, ri_actual = actual,
            ri_steps = (case rb_reproduction_steps b of Given vs \<Rightarrow> vs | _ \<Rightarrow> []),
            ri_commands = (case rb_verification_commands b of Given vs \<Rightarrow> vs | _ \<Rightarrow> [])\<rparr>
      | _ \<Rightarrow> Inl (Error ''invalid_repair_packet''))"

section \<open>Projects\<close>

definition project_body :: "request_body \<Rightarrow> js_error + project_entry" where
  "project_body b =
     (let name = (case rb_name b of Given n \<Rightarrow> js_trim n | _ \<Rightarrow> []) in
      case rb_cwd b of
        Given cwd \<Rightarrow>
          if name = [] \<or> length name > 160 \<or> cwd = [] \<or> length cwd > 1024 \<or> \<not> isAbsolute cwd \<or>
             path_normalize cwd \<noteq> cwd \<or> rb_enabled b = Null \<or> rb_enabled b = Wrong
          then Inl (Error ''project_invalid'')
          else (case deriveProjectId name of
              Inl _ \<Rightarrow> Inl (Error ''project_invalid'')
            | Inr i \<Rightarrow> Inr \<lparr>pj_id = i, pj_name = name, pj_cwd = cwd,
                pj_enabled = (case rb_enabled b of Given e \<Rightarrow> e | _ \<Rightarrow> True)\<rparr>)
      | _ \<Rightarrow> Inl (Error ''project_invalid''))"

definition createProject :: "registry_env \<Rightarrow> request_body \<Rightarrow> registry_file \<Rightarrow> js_error + registry_file \<times> project_entry" where
  "createProject R b file =
     bind_result (project_body b) (\<lambda>project.
     bind_result (readProjectRegistry file) (\<lambda>ps.
     if list_ex (\<lambda>e. pj_id e = pj_id project \<or> path_resolve (pj_cwd e) = path_resolve (pj_cwd project)) ps
       then Inl (Error ''project_exists'')
     else if length ps \<ge> 64 then Inl (Error ''project_invalid'')
     else bind_result (writeProjectRegistry R (ps @ [project])) (\<lambda>file'. Inr (file', project))))"

section \<open>Runs\<close>

definition sameDraftInput :: "run_draft \<Rightarrow> run_draft_input \<Rightarrow> bool" where
  "sameDraftInput d i \<longleftrightarrow>
     project_id d = in_project_id i \<and> prompt d = in_prompt i \<and> draft_provider d = in_provider i \<and>
     draft_model d = in_model i \<and> estimated_tokens d = canonicalRunTokenBudget (in_prompt i) \<and>
     requested_artifacts d = in_requested_artifacts i \<and>
     prompt_review_acknowledged d = in_prompt_review_acknowledged i \<and> profile d = Some (in_profile i) \<and>
     requested_reasoning_effort d = in_reasoning_effort i \<and> promotion_packet_id d = in_promotion_packet_id i"

text \<open>A revision that was stored before, but whose approval record was not, is taken up again.\<close>

definition reviseRunWithApproval :: "orchestrator_env \<Rightarrow> string \<Rightarrow> int \<Rightarrow> run_draft_input \<Rightarrow> run_record run_io" where
  "reviseRunWithApproval E i expectedRevision input =
     io_bind (io_lift (resolveEnabledProject (oe_runs E) (in_project_id input))) (\<lambda>_.
     io_bind (io_record i) (\<lambda>initial.
     io_bind (if run_status initial = RDraft \<and> draft_revision (current initial) = expectedRevision + 1 \<and>
                 sameDraftInput (current initial) input
              then io_return (current initial)
              else io_runs_at E (\<lambda>R t. reviseRunDraft R i expectedRevision input t)) (\<lambda>draft.
     io_bind io_read_approvals (\<lambda>queue.
     io_bind (io_when (\<not> list_ex (approval_for i (draft_revision draft)) queue)
        (io_bind (io_now E) (\<lambda>t. io_write_approvals E (queue @ [run_approval E draft t])))) (\<lambda>_.
     io_record i)))))"

definition owner_approved :: "promotion_packet \<Rightarrow> bool" where
  "owner_approved k \<longleftrightarrow> list_ex (\<lambda>a. pa_approver a = units_of ''owner'') (pk_approvals k)"

definition createProdDraft :: "control_env \<Rightarrow> run_draft_input \<Rightarrow> utf16 given \<Rightarrow> run_record control_io" where
  "createProdDraft C input fullVerificationRef =
     (case (in_promotion_packet_id input, fullVerificationRef) of
        (Some packetId, Given ref) \<Rightarrow>
          if packetId = [] \<or> ref = [] then io_throw ''promotion_evidence_required''
          else
            io_bind request_packets (\<lambda>ps.
            io_bind (io_require (List.find (\<lambda>k. pk_id k = packetId) ps) ''promotion_not_found'') (\<lambda>packet.
            io_bind request_runs (\<lambda>runs.
            io_bind (io_assert (pk_status packet = Promotion_approved \<and> owner_approved packet \<and> pk_prod_run packet = None \<and>
                pk_verification packet = Some ref \<and>
                \<not> list_ex (\<lambda>r. promotion_packet_id (current r) = Some packetId) runs) ''promotion_not_ready'') (\<lambda>_.
            on_runs C (\<lambda>E. prepareRun E input)))))
      | _ \<Rightarrow> io_throw ''promotion_evidence_required'')"

definition reviseProdDraft :: "control_env \<Rightarrow> string \<Rightarrow> int \<Rightarrow> run_draft_input \<Rightarrow> utf16 given \<Rightarrow> run_record control_io" where
  "reviseProdDraft C i revision input fullVerificationRef =
     io_bind request_runs (\<lambda>runs.
     case (List.find (\<lambda>r. run_id r = i) runs, fullVerificationRef) of
       (Some existing, Given ref) \<Rightarrow>
         (case promotion_packet_id (current existing) of
            None \<Rightarrow> io_throw ''promotion_not_ready''
          | Some packetId \<Rightarrow>
              if resolveRunProfile existing \<noteq> Stored Prod \<or> in_profile input \<noteq> Prod \<or>
                 in_promotion_packet_id input \<noteq> Some packetId \<or> ref = []
              then io_throw ''promotion_not_ready''
              else
                io_bind request_packets (\<lambda>ps.
                io_bind (io_require (List.find (\<lambda>k. pk_id k = packetId) ps) ''promotion_not_ready'') (\<lambda>packet.
                io_bind (io_assert (pk_status packet = Promotion_approved \<and> owner_approved packet \<and> pk_prod_run packet = None \<and>
                    pk_verification packet = Some ref \<and>
                    \<not> list_ex (\<lambda>r. run_id r \<noteq> i \<and> promotion_packet_id (current r) = Some packetId) runs)
                    ''promotion_not_ready'') (\<lambda>_.
                on_runs C (\<lambda>E. reviseRunWithApproval E i revision input)))))
     | _ \<Rightarrow> io_throw ''promotion_not_ready'')"

definition publishPromotion :: "control_env \<Rightarrow> string \<Rightarrow> promotion_evidence \<Rightarrow> promotion_packet control_io" where
  "publishPromotion C packetId evidence =
     io_bind request_runs (\<lambda>runs.
     io_bind (io_assert (case List.find (\<lambda>r. units_of (run_id r) = pe_prod_run evidence) runs of
           None \<Rightarrow> False
         | Some r \<Rightarrow> run_status r = RCompleted \<and> profile (current r) = Some Prod \<and>
             promotion_packet_id (current r) = Some packetId) ''promotion_not_ready'') (\<lambda>_.
     io_bind (request_now C) (\<lambda>t.
     on_promotions (markPromotionPublished (ce_promotions C) packetId evidence t))))"

definition request_route :: "control_env \<Rightarrow> run_draft_input \<Rightarrow> bool control_io" where
  "request_route C input =
     io_bind (request_now C) (\<lambda>t.
     io_bind (io_lift (oe_snapshots (ce_orchestrator C))) (\<lambda>sn.
     io_return (isRunRouteEligibleForProfile sn (in_provider input) (in_model input) (in_reasoning_effort input)
       (in_profile input) t)))"

section \<open>Routes\<close>

datatype route_kind =
    Route_projects | Route_create_project | Route_runs | Route_create | Route_incidents | Route_promotions
  | Route_run | Route_revision | Route_approve | Route_cancel | Route_promote | Route_acknowledge | Route_repair
  | Route_promotion_approve | Route_promotion_reject | Route_promotion_verify | Route_promotion_publish
  | Route_promotion_rollback

definition route_id :: "string \<Rightarrow> bool" where
  "route_id s \<longleftrightarrow> s \<noteq> [] \<and> length s \<le> 200 \<and>
     hd s \<in> set ''ABCDEFGHIJKLMNOPQRSTUVWXYZabcdefghijklmnopqrstuvwxyz0123456789'' \<and>
     list_all (\<lambda>c. c \<in> set ''ABCDEFGHIJKLMNOPQRSTUVWXYZabcdefghijklmnopqrstuvwxyz0123456789._-'') s"

text \<open>The expressions of the routes: the part before the identifier, and the part behind it, if any.\<close>

definition ROUTES :: "(route_kind \<times> string \<times> string option) list" where
  "ROUTES =
     [(Route_run, ''runs'', None), (Route_revision, ''runs'', Some ''revisions''), (Route_approve, ''runs'', Some ''approve''),
      (Route_cancel, ''runs'', Some ''cancel''), (Route_promote, ''runs'', Some ''promote''),
      (Route_acknowledge, ''incidents'', Some ''acknowledge''), (Route_repair, ''incidents'', Some ''repair-packet''),
      (Route_promotion_approve, ''promotions'', Some ''approve''), (Route_promotion_reject, ''promotions'', Some ''reject''),
      (Route_promotion_verify, ''promotions'', Some ''record-verification''),
      (Route_promotion_publish, ''promotions'', Some ''mark-published''),
      (Route_promotion_rollback, ''promotions'', Some ''mark-rolled-back'')]"

definition route_exec :: "string \<times> string option \<Rightarrow> string \<Rightarrow> string option" where
  "route_exec p path =
     (case split_char (CHR ''/'') path of
        [] # base # i # rest \<Rightarrow>
          if base = fst p \<and> route_id i \<and> rest = (case snd p of None \<Rightarrow> [] | Some s \<Rightarrow> [s]) then Some i else None
      | _ \<Rightarrow> None)"

fun match_routes :: "(route_kind \<times> string \<times> string option) list \<Rightarrow> string \<Rightarrow> string \<Rightarrow> (route_kind \<times> string) option" where
  "match_routes [] verb path = None"
| "match_routes ((kind, p) # rs) verb path =
     (case route_exec p path of
        Some i \<Rightarrow> if verb = (if kind = Route_run then ''GET'' else ''POST'') then Some (kind, i) else match_routes rs verb path
      | None \<Rightarrow> match_routes rs verb path)"

definition matchRoute :: "string \<Rightarrow> string \<Rightarrow> (route_kind \<times> string) option" where
  "matchRoute verb path =
     (if verb = ''GET'' \<and> path = ''/projects'' then Some (Route_projects, [])
      else if verb = ''POST'' \<and> path = ''/projects'' then Some (Route_create_project, [])
      else if verb = ''GET'' \<and> path = ''/runs'' then Some (Route_runs, [])
      else if verb = ''POST'' \<and> path = ''/runs'' then Some (Route_create, [])
      else if verb = ''GET'' \<and> path = ''/incidents'' then Some (Route_incidents, [])
      else if verb = ''GET'' \<and> path = ''/promotions'' then Some (Route_promotions, [])
      else match_routes ROUTES verb path)"

text \<open>What a route answers with.\<close>

datatype payload =
    Shown_projects project_registry
  | Shown_project project_entry
  | Shown_runs run_store
  | Shown_run run_record
  | Shown_incidents incident_store
  | Shown_incident incident
  | Shown_repair repair_packet
  | Shown_packets promotion_store
  | Shown_packet promotion_packet
  | Shown_error string
  | Shown_internal string string

type_synonym answer = "nat \<times> payload"

definition answered :: "nat \<Rightarrow> ('a \<Rightarrow> payload) \<Rightarrow> 'a control_io \<Rightarrow> answer control_io" where
  "answered n f m = io_bind m (\<lambda>x. io_return (n, f x))"

definition io_shown_record :: "string \<Rightarrow> run_record control_io" where
  "io_shown_record i = io_bind request_runs (\<lambda>runs. io_require (List.find (\<lambda>r. run_id r = i) runs) ''run_not_found'')"

definition status_named :: "string \<Rightarrow> run_status option" where
  "status_named s = map_option snd (List.find (\<lambda>(n, _). n = s)
     [(''draft'', RDraft), (''approved'', RApproved), (''queued'', RQueued), (''running'', RRunning),
      (''completed'', RCompleted), (''failed'', RFailed), (''cancelled'', RCancelled)])"

definition list_runs :: "string option \<Rightarrow> string option \<Rightarrow> run_store control_io" where
  "list_runs status' profile' =
     (if (case status' of None \<Rightarrow> False | Some s \<Rightarrow> status_named s = None) then io_throw ''invalid_run_status''
      else if profile' \<notin> {None, Some ''dev'', Some ''prod''} then io_throw ''invalid_run_profile''
      else io_bind request_runs (\<lambda>runs. io_return
        (filter (\<lambda>r. (case profile' of None \<Rightarrow> True
             | Some p \<Rightarrow> profile (current r) = Some (if p = ''dev'' then Dev else Prod)))
          (filter (\<lambda>r. (case status' of None \<Rightarrow> True | Some s \<Rightarrow> Some (run_status r) = status_named s)) runs))))"

definition create_route :: "control_env \<Rightarrow> request_body \<Rightarrow> run_record control_io" where
  "create_route C b =
     io_bind (io_assert (rb_profile b \<noteq> Undefined) ''run_profile_required'') (\<lambda>_.
     io_bind (io_lift (checkReasoningCapability b)) (\<lambda>_.
     io_bind (io_lift (draftInput b)) (\<lambda>input.
     if in_profile input = Prod then createProdDraft C input (rb_full_verification_ref b)
     else on_runs C (\<lambda>E. prepareRun E input))))"

definition revision_route :: "control_env \<Rightarrow> string \<Rightarrow> request_body \<Rightarrow> run_record control_io" where
  "revision_route C i b =
     io_bind (io_lift (whole (rb_revision b) ''invalid_run_revision'')) (\<lambda>revision.
     io_bind (io_lift (checkReasoningCapability b)) (\<lambda>_.
     io_bind (io_lift (draftInput b)) (\<lambda>input.
     io_bind (request_route C input) (\<lambda>ok.
     io_bind (io_assert ok ''run_route_unavailable'') (\<lambda>_.
     io_bind (io_shown_record i) (\<lambda>existing.
     if resolveRunProfile existing = Stored Prod \<or> in_profile input = Prod
     then reviseProdDraft C i revision input (rb_full_verification_ref b)
     else on_runs C (\<lambda>E. reviseRunWithApproval E i revision input)))))))"

fun route_call :: "control_env \<Rightarrow> route_kind \<Rightarrow> string \<Rightarrow> string option \<times> string option \<Rightarrow> request_body \<Rightarrow> answer control_io" where
  "route_call C Route_projects i q b = answered 200 Shown_projects
     (on_projects (\<lambda>file. bind_result (readProjectRegistry file) (\<lambda>ps. Inr (file, ps))))"
| "route_call C Route_runs i q b = answered 200 Shown_runs (list_runs (fst q) (snd q))"
| "route_call C Route_run i q b = answered 200 Shown_run (io_shown_record i)"
| "route_call C Route_incidents i q b = answered 200 Shown_incidents
     (on_incidents (\<lambda>file. bind_result (readIncidentStore (ce_incidents C) file) (\<lambda>s. Inr (file, s))))"
| "route_call C Route_promotions i q b = answered 200 Shown_packets request_packets"
| "route_call C Route_create_project i q b = answered 201 Shown_project (on_projects (createProject (ce_registry C) b))"
| "route_call C Route_create i q b = answered 201 Shown_run (create_route C b)"
| "route_call C Route_revision i q b = answered 201 Shown_run (revision_route C i b)"
| "route_call C Route_approve i q b = answered 200 Shown_run
     (io_bind (io_lift (whole (rb_revision b) ''invalid_run_revision'')) (\<lambda>revision.
      io_bind (io_lift (nonEmpty (rb_operator b) ''invalid_run_approval'')) (\<lambda>operator.
      on_runs C (\<lambda>E. approveAndQueueRun E i revision operator))))"
| "route_call C Route_cancel i q b = answered 200 Shown_run (on_runs C (\<lambda>E. cancelRun E i))"
| "route_call C Route_promote i q b = answered 201 Shown_packet
     (io_bind (io_shown_record i) (\<lambda>r.
      io_bind (io_lift (promoteInput b)) (\<lambda>input.
      io_bind (request_now C) (\<lambda>t.
      io_bind (request_uuid C) (\<lambda>u.
      on_promotions (buildPromotionPacket (ce_promotions C) u r input t))))))"
| "route_call C Route_acknowledge i q b = answered 200 Shown_incident
     (io_bind (io_lift (nonEmpty (rb_owner b) ''invalid_incident_acknowledgement'')) (\<lambda>owner.
      io_bind (request_now C) (\<lambda>t. on_incidents (acknowledgeIncident (ce_incidents C) i owner t))))"
| "route_call C Route_repair i q b = answered 200 Shown_repair
     (io_bind (io_lift (repairInput b)) (\<lambda>input.
      on_incidents (\<lambda>file. bind_result (prepareRepairPacket (ce_incidents C) i input file) (\<lambda>p. Inr (file, p)))))"
| "route_call C Route_promotion_approve i q b = answered 200 Shown_packet
     (io_bind (promotionApprovalInput C b) (\<lambda>approval.
      io_bind (request_now C) (\<lambda>t. on_promotions (approvePromotion (ce_promotions C) i approval t))))"
| "route_call C Route_promotion_reject i q b = answered 200 Shown_packet
     (io_bind (request_now C) (\<lambda>t. on_promotions (rejectPromotion (ce_promotions C) i t)))"
| "route_call C Route_promotion_verify i q b = answered 200 Shown_packet
     (io_bind (io_lift (promotionEvidenceRef (rb_full_verification_ref b))) (\<lambda>ref.
      io_bind (request_now C) (\<lambda>t. on_promotions (recordPromotionVerification (ce_promotions C) i ref t))))"
| "route_call C Route_promotion_publish i q b = answered 200 Shown_packet
     (io_bind (io_lift (publishEvidenceInput b)) (\<lambda>evidence. publishPromotion C i evidence))"
| "route_call C Route_promotion_rollback i q b = answered 200 Shown_packet
     (io_bind (request_now C) (\<lambda>t. on_promotions (markPromotionRolledBack (ce_promotions C) i t)))"

text \<open>The codes with their statuses: those of the \<open>HttpError\<close>s of the routes and those that are recognized.\<close>

definition knownHttpError :: "js_error \<Rightarrow> (nat \<times> string) option" where
  "knownHttpError e =
     (case e of
        Error code \<Rightarrow>
          if code \<in> set [''project_not_found'', ''run_not_found'', ''incident_not_found'', ''approval_not_found''] then Some (404, code)
          else if isProjectConfigurationError e then Some (409, code)
          else if code \<in> set [''run_revision_conflict'', ''run_route_unavailable'', ''invalid_run_cancellation'',
              ''approval_already_decided'', ''approval_not_approved'', ''token_input_cap_exceeded'', ''token_output_cap_exceeded'',
              ''token_budget_exhausted'', ''token_route_mismatch'', ''token_reservation_limit'', ''run_limit'', ''run_revision_limit'',
              ''unsupported_reasoning_effort'', ''promotion_source_not_completed'', ''promotion_source_not_dev'', ''promotion_limit'',
              ''invalid_promotion_transition'', ''promotion_not_approved'', ''promotion_evidence_required'', ''promotion_not_ready'',
              ''promotion_verification_mismatch'', ''promotion_not_published'', ''promotion_not_found'', ''invalid_promotion_packet'',
              ''invalid_promotion_store''] then Some (409, code)
          else if code = ''repair_packet_too_large'' then Some (413, code)
          else if code \<in> set [''invalid_run_draft'', ''invalid_run_approval'', ''invalid_incident'', ''run_prompt_token_cap_exceeded'',
              ''run_prompt_review_required'', ''run_token_budget_underestimated'', ''run_profile_required'', ''invalid_run_profile'',
              ''invalid_run_status'', ''invalid_run_revision'', ''invalid_incident_acknowledgement'', ''invalid_repair_packet'',
              ''project_invalid'', ''project_exists''] then Some (400, code)
          else None
      | _ \<Rightarrow> None)"

text \<open>An unknown error is recorded as an operational incident; when that fails, the identifier drawn before is given.\<close>

definition internal_error :: "control_env \<Rightarrow> string \<Rightarrow> answer control_io" where
  "internal_error C requestId =
     io_bind (request_uuid C) (\<lambda>fallback.
     io_bind (request_uuid C) (\<lambda>u.
     io_bind (request_now C) (\<lambda>t. \<lambda>w.
       case recordOperationalIncident (ce_incidents C) (ce_locked C (rw_clock (cw_run w))) Control_plane_runs
           [(units_of ''request_id'', units_of requestId)] u t (cw_incidents w) of
         Inl _ \<Rightarrow> (w, Inr (500, Shown_internal fallback requestId))
       | Inr (st, c) \<Rightarrow> (w\<lparr>cw_incidents := st\<rparr>, Inr (500, Shown_internal (ic_id c) requestId)))))"

definition handleControlPlaneRunRoute ::
  "control_env \<Rightarrow> string \<Rightarrow> string \<Rightarrow> string option \<times> string option \<Rightarrow> request_body \<Rightarrow> string \<Rightarrow> answer option control_io" where
  "handleControlPlaneRunRoute C verb path query body requestId =
     (case matchRoute verb path of
        None \<Rightarrow> io_return None
      | Some (kind, i) \<Rightarrow>
          io_bind (io_catch (route_call C kind i query body)
            (\<lambda>e. case knownHttpError e of
                Some (n, code) \<Rightarrow> io_return (n, Shown_error code)
              | None \<Rightarrow> internal_error C requestId)) (\<lambda>a. io_return (Some a)))"

end
