(* ===== verification/ReleaseLaws.thy ===== *)
theory ReleaseLaws
  imports OrchestratorFlows ControlRoutes
begin

text \<open>
  What the calls of the control plane do to the runs and the promotion packets: which drafts there are changes only where
  a draft is made or revised, and a packet moves by its own steps.
\<close>

section \<open>The drafts stay\<close>

definition drafts :: "run_world \<Rightarrow> run_draft list" where
  "drafts w = map current (rw_runs w)"

definition dispatcher_keeps_drafts :: "orchestrator_env \<Rightarrow> bool" where
  "dispatcher_keeps_drafts E \<longleftrightarrow> (\<forall>h. preserving (\<lambda>w w'. drafts w' = drafts w) (oe_dispatch E h))"

definition drafts_le :: "orchestrator_env \<Rightarrow> run_world \<Rightarrow> run_world \<Rightarrow> bool" where
  "drafts_le E w w' \<longleftrightarrow> (dispatcher_keeps_drafts E \<longrightarrow> drafts w' = drafts w)"

lemma map_current_replaced:
  assumes "validate s" and "r \<in> set s" and "current r' = current r"
  shows "map current (map (\<lambda>x. if run_id x = run_id r' then r' else x) s) = map current s"
  using same_id [OF assms(1) _ assms(2)] assms(3) by (auto simp: run_id_def)

lemma on_run_drafts:
  assumes "on_run E i f s = Inr (s', x)" and "\<And>r r'. f r = Inr (Some r') \<Longrightarrow> current r' = current r"
  shows "map current s' = map current s"
proof -
  from assms(1) obtain r c where r: "find_run i s = Inr r" "f r = Inr c"
    and out: "(case c of None \<Rightarrow> Inr (s, r) | Some r' \<Rightarrow> replace_run E r' s) = Inr (s', x)"
    by (auto simp: on_run_def)
  show ?thesis
  proof (cases c)
    case (Some r')
    then have "current r' = current r" using assms(2) r(2) by simp
    with Some out find_run_Inr [OF r(1)] replace_run_Inr [of E r' s s' x] map_current_replaced [of s r r'] show ?thesis by auto
  qed (use out in simp)
qed

lemma finalize_drafts: "map current (fst (finalizeRun R i c reason t s)) = map current s"
proof -
  have r: "map current s' = map current s"
    if "replace_run R (r\<lparr>run_status := st, terminal_reason := e, run_updated_at := t\<rparr>) s = Inr (s', x)" "find_run i s = Inr r"
    for r st e s' x s
    using that find_run_Inr [OF that(2)] replace_run_Inr [OF that(1)]
      map_current_replaced [of s r "r\<lparr>run_status := st, terminal_reason := e, run_updated_at := t\<rparr>"] by auto
  have same: "current r' = current r" if "transition_step st t r = Inr (Some r')" for st r r'
    using that by (auto simp: transition_step_def split: if_splits)
  have tr: "map current s' = map current s" if "transitionRun R i st t s = Inr (s', x)" for st s' x
    using on_run_drafts [OF that [unfolded transitionRun_def]] same by blast
  have found: "find_run i s' = Inr x" if "transitionRun R i st t s = Inr (s', x)" for st s' x
    using on_run_stored [OF that [unfolded transitionRun_def]] same by blast
  show ?thesis
  proof (cases "find_run i s")
    case (Inr r0)
    define st where "st = (if c then RCompleted else RFailed)"
    define step where "step = (if run_status r0 = RQueued then transitionRun R i RRunning t s else Inr (s, r0))"
    have e: "finalizeRun R i c reason t s = (if run_status r0 = st then (s, Inr r0) else
        (case step of Inl e \<Rightarrow> (s, Inl e)
         | Inr (s1, r1) \<Rightarrow> if run_status r1 \<noteq> RRunning \<or> \<not> validNullableString reason MAX_TERMINAL_REASON
             then (s1, Inl (Error ''invalid_run_transition''))
             else (case replace_run R (r1\<lparr>run_status := st, terminal_reason := reason, run_updated_at := t\<rparr>) s1 of
                 Inl e \<Rightarrow> (s1, Inl e) | Inr (s2, r2) \<Rightarrow> (s2, Inr r2))))"
      unfolding finalizeRun_def Let_def Inr sum.case st_def step_def by (rule refl)
    have m: "map current s1 = map current s" "find_run i s1 = Inr r1" if "step = Inr (s1, r1)" for s1 r1
      using that tr [of RRunning s1 r1] found [of RRunning s1 r1] Inr by (auto simp: step_def split: if_splits)
    show ?thesis
      unfolding e using m(1) r [OF _ m(2)] by (fastforce split: sum.splits)
  qed (simp add: finalizeRun_def)
qed

lemma drafts_runs_at:
  assumes "\<And>t s s' x. f (oe_runs E) t s = Inr (s', x) \<Longrightarrow> map current s' = map current s"
  shows "preserving (drafts_le E) (io_runs_at E f)"
  using assms by (fastforce simp: preserving_def drafts_le_def drafts_def io_runs_at_def io_bind_def io_now_def io_runs_def
      split: sum.splits)

lemma drafts_elsewhere:
  "preserving (drafts_le E) (io_now E')" "preserving (drafts_le E) (io_uuid E')" "preserving (drafts_le E) (io_write_approvals E' q)"
  "preserving (drafts_le E) (io_queue g)" "preserving (drafts_le E) (io_gateway h)"
  by (auto simp: preserving_def drafts_le_def drafts_def io_now_def io_uuid_def io_write_approvals_def io_queue_def io_gateway_def
      split: sum.splits prod.splits)

lemma drafts_gateway:
  "preserving (drafts_le E) (io_reserve E' input)" "preserving (drafts_le E) (io_settle E' r u)"
  "preserving (drafts_le E) (io_release E' r)"
  by (auto simp: preserving_def drafts_le_def drafts_def io_reserve_def io_settle_def io_release_def io_bind_def io_now_def
      io_gateway_def split: sum.splits prod.splits)

lemmas run_step_defs = approveRunRevision_def transitionRun_def transition_step_def appendRunArtifact_def bindRunToSupervisor_def
  clearRunSupervisorBinding_def recordRunProviderResult_def clearRunProviderResultForRetry_def settleRunReservation_def
  markRunReservationTerminal_def requestRunCancellation_def requestRunQueueCompensation_def recordRunDispatchFailure_def
  clearRunDispatchFailure_def

lemma drafts_on_run:
  assumes "\<And>R t r r'. f R t r = Inr (Some r') \<Longrightarrow> current r' = current r"
  shows "preserving (drafts_le E) (io_runs_at E (\<lambda>R t. on_run R i (f R t)))"
  using assms on_run_drafts by (intro drafts_runs_at) blast

lemma drafts_run_calls:
  "preserving (drafts_le E) (io_runs_at E (\<lambda>R t. approveRunRevision R i n operator t))"
  "preserving (drafts_le E) (io_runs_at E (\<lambda>R t. transitionRun R i st t))"
  "preserving (drafts_le E) (io_runs_at E (\<lambda>R t. appendRunArtifact R i aid k txt t))"
  "preserving (drafts_le E) (io_runs_at E (\<lambda>R t. bindRunToSupervisor R i tid res t))"
  "preserving (drafts_le E) (io_runs_at E (\<lambda>R t. clearRunSupervisorBinding R i t))"
  "preserving (drafts_le E) (io_runs_at E (\<lambda>R t. recordRunProviderResult R i pr t))"
  "preserving (drafts_le E) (io_runs_at E (\<lambda>R t. clearRunProviderResultForRetry R i inp out t))"
  "preserving (drafts_le E) (io_runs_at E (\<lambda>R t. settleRunReservation R i inp out t))"
  "preserving (drafts_le E) (io_runs_at E (\<lambda>R t. markRunReservationTerminal R i settled t))"
  "preserving (drafts_le E) (io_runs_at E (\<lambda>R t. requestRunCancellation R i t))"
  "preserving (drafts_le E) (io_runs_at E (\<lambda>R t. requestRunQueueCompensation R i t))"
  "preserving (drafts_le E) (io_runs_at E (\<lambda>R t. recordRunDispatchFailure R i e t))"
  "preserving (drafts_le E) (io_runs_at E (\<lambda>R t. clearRunDispatchFailure R i t))"
  unfolding run_step_defs Let_def by (rule drafts_on_run, auto split: if_splits)+

interpretation drafts: orchestrator_order "drafts_le E" E for E
proof unfold_locales
  show "preserving (drafts_le E) (io_finalize E i c reason)" for i c reason
  proof (rule preservingI)
    fix w :: run_world
    show "drafts_le E w (fst (io_finalize E i c reason w))"
      using finalize_drafts [of "oe_runs E" i c reason "oe_clock E (rw_clock w)" "rw_runs w"]
      by (auto simp: drafts_le_def drafts_def io_finalize_def io_bind_def io_now_def split: prod.splits)
  qed
  show "preserving (drafts_le E) (oe_dispatch E h)" for h
    by (auto simp: preserving_def drafts_le_def dispatcher_keeps_drafts_def)
qed (rule drafts_elsewhere drafts_gateway
    | (simp add: drafts_le_def; fail)
    | (simp add: io_acknowledge_def reserveOrchestrationGroup_def drafts_elsewhere; fail)
    | rule drafts_run_calls)+

section \<open>Packets and the runs that carry them into production\<close>

text \<open>A link is the profile of a draft and the packet it belongs to.\<close>

definition links :: "run_world \<Rightarrow> (run_profile option \<times> string option) list" where
  "links w = map (\<lambda>d. (profile d, promotion_packet_id d)) (drafts w)"

definition governed :: "promotion_packet \<Rightarrow> bool" where
  "governed k \<longleftrightarrow> pk_status k \<in> {Promotion_approved, Promotion_published, Promotion_rolled_back} \<and> owner_approved k \<and>
     pk_verification k \<noteq> None"

definition ran_in_production :: "run_store \<Rightarrow> promotion_packet \<Rightarrow> bool" where
  "ran_in_production runs k \<longleftrightarrow> (\<exists>r \<in> set runs. run_status r = RCompleted \<and> profile (current r) = Some Prod \<and>
     promotion_packet_id (current r) = Some (pk_id k) \<and>
     pk_prod_run k = Some (redactTelemetryText (units_of (run_id r)) MAX_PROMOTION_ID))"

text \<open>What holds of a packet in its status.\<close>

definition packet_inv :: "run_store \<Rightarrow> promotion_packet \<Rightarrow> bool" where
  "packet_inv runs k \<longleftrightarrow>
     (pk_status k \<in> {Promotion_approved, Promotion_published, Promotion_rolled_back} \<longrightarrow> owner_approved k) \<and>
     (pk_status k \<in> {Promotion_published, Promotion_rolled_back} \<longrightarrow> pk_verification k \<noteq> None \<and> ran_in_production runs k)"

definition linked_inv :: "promotion_store \<Rightarrow> (run_profile option \<times> string option) list \<Rightarrow> bool" where
  "linked_inv ks ls \<longleftrightarrow> (\<forall>q. (Some Prod, q) \<in> set ls \<longrightarrow> (\<exists>k \<in> set ks. q = Some (pk_id k) \<and> governed k)) \<and>
     distinct (filter (\<lambda>q. q \<noteq> None) (map snd ls))"

definition release_inv :: "control_world \<Rightarrow> bool" where
  "release_inv w \<longleftrightarrow> linked_inv (cw_promotions w) (links (cw_run w)) \<and>
     (\<forall>k \<in> set (cw_promotions w). packet_inv (rw_runs (cw_run w)) k)"

lemma completed_stays:
  assumes "keeps s s'" and "ran_in_production s k"
  shows "ran_in_production s' k"
proof -
  from assms(2) obtain r where r: "r \<in> set s" "run_status r = RCompleted" "profile (current r) = Some Prod"
    "promotion_packet_id (current r) = Some (pk_id k)" "pk_prod_run k = Some (redactTelemetryText (units_of (run_id r)) MAX_PROMOTION_ID)"
    by (auto simp: ran_in_production_def)
  from assms(1) r(1) obtain r' where r': "r' \<in> set s'" "record_frame r r'"
    by (auto simp: keeps_def store_frame_def)
  then have "run_status r' = RCompleted" using terminal_stays [of "run_status r" "run_status r'"] r(2) by (simp add: record_frame_def)
  moreover have "current r' = current r" "run_id r' = run_id r" using r'(2) r(2) by (simp_all add: record_frame_def)
  ultimately show ?thesis using r r'(1) by (auto simp: ran_in_production_def)
qed

lemma packet_inv_keeps: "keeps s s' \<Longrightarrow> packet_inv s k \<Longrightarrow> packet_inv s' k"
  using completed_stays by (auto simp: packet_inv_def)

text \<open>What the environment of the control plane grants.\<close>

definition control_ok :: "control_env \<Rightarrow> bool" where
  "control_ok C \<longleftrightarrow> env_ok False (ce_orchestrator C) \<and> dispatcher_keeps_drafts (ce_orchestrator C)"

lemma request_env_ok:
  assumes "control_ok C"
  shows "env_ok False (request_env C ps)" "dispatcher_keeps_drafts (request_env C ps)"
proof -
  have "world_le False (request_env C ps) = world_le False (ce_orchestrator C)"
    by (simp add: fun_eq_iff world_le_def request_env_def)
  with assms show "env_ok False (request_env C ps)" "dispatcher_keeps_drafts (request_env C ps)"
    by (simp_all add: control_ok_def env_ok_def dispatcher_keeps_drafts_def) (simp_all add: request_env_def)
qed

definition release_le :: "control_env \<Rightarrow> control_world \<Rightarrow> control_world \<Rightarrow> bool" where
  "release_le C w w' \<longleftrightarrow> (control_ok C \<longrightarrow> release_inv w \<longrightarrow> release_inv w')"

interpretation release: state_order "release_le C" for C
  by unfold_locales (simp_all add: release_le_def)

lemma release_runs:
  assumes "keeps (rw_runs (cw_run w)) (rw_runs v)" and "links v = links (cw_run w)" and "release_inv w"
  shows "release_inv (w\<lparr>cw_run := v\<rparr>)"
  using assms packet_inv_keeps by (auto simp: release_inv_def)

lemma release_on_runs:
  assumes "\<And>E. preserving (stores_le False E) (m E)" and "\<And>E. preserving (drafts_le E) (m E)"
  shows "preserving (release_le C) (on_runs C m)"
proof (rule preservingI)
  fix w :: control_world
  let ?E = "request_env C (cw_projects w)"
  obtain v r where v: "m ?E (cw_run w) = (v, r)" by fastforce
  have "release_inv (w\<lparr>cw_run := v\<rparr>)" if "control_ok C" "release_inv w"
  proof (rule release_runs [OF _ _ that(2)])
    show "keeps (rw_runs (cw_run w)) (rw_runs v)"
    proof -
      have "preserving (world_le False ?E) (m ?E)" by (rule stores_leD [OF request_env_ok(1) [OF that(1)] assms(1)])
      from preservingD [OF this, of "cw_run w"] v show ?thesis by (simp add: world_le_def)
    qed
    show "links v = links (cw_run w)"
      using preservingD [OF assms(2), of ?E "cw_run w"] request_env_ok(2) [OF that(1)] v by (simp add: drafts_le_def links_def)
  qed
  then show "release_le C w (fst (on_runs C m w))" by (simp add: release_le_def on_runs_def v)
qed

lemma release_clock [io_keeps]: "preserving (release_le C) (request_now C)" "preserving (release_le C) (request_uuid C)"
  unfolding request_now_def request_uuid_def
  by (rule release_on_runs, rule stores.allows_now stores.allows_uuid, rule drafts.allows_now drafts.allows_uuid)+

lemma release_reads [io_keeps]:
  "preserving (release_le C) request_runs" "preserving (release_le C) request_packets" "preserving (release_le C) (io_shown_record i)"
  "preserving (release_le C) (on_incidents f)" "preserving (release_le C) (on_projects g)"
  by (auto simp: preserving_def release_le_def request_runs_def request_packets_def io_shown_record_def io_bind_def io_require_def
      io_throw_def io_return_def on_incidents_def on_projects_def release_inv_def split: sum.splits prod.splits option.splits)

lemma ends_requests [io_ends]:
  "ends request_runs Qr R w \<longleftrightarrow> (case readRunStore (rw_runs (cw_run w)) of Inl e \<Rightarrow> R e w | Inr s \<Rightarrow> Qr s w)"
  "ends request_packets Qp R w \<longleftrightarrow> (case readPromotionStore (cw_promotions w) of Inl e \<Rightarrow> R e w | Inr s \<Rightarrow> Qp s w)"
  "ends (on_promotions f) Q R w \<longleftrightarrow> (case f (cw_promotions w) of Inl e \<Rightarrow> R e w | Inr (s, x) \<Rightarrow> Q x (w\<lparr>cw_promotions := s\<rparr>))"
  "ends (on_runs C m) Q' R w \<longleftrightarrow> ends (m (request_env C (cw_projects w))) (\<lambda>x v. Q' x (w\<lparr>cw_run := v\<rparr>)) (\<lambda>e v. R e (w\<lparr>cw_run := v\<rparr>)) (cw_run w)"
  by (auto simp: ends_def request_runs_def request_packets_def on_promotions_def on_runs_def split: prod.splits sum.splits)

lemma ends_request_now [io_ends]:
  "ends (request_now C) Q R w \<longleftrightarrow>
     Q (oe_clock (ce_orchestrator C) (rw_clock (cw_run w))) (w\<lparr>cw_run := (cw_run w)\<lparr>rw_clock := Suc (rw_clock (cw_run w))\<rparr>\<rparr>)"
  by (simp add: request_now_def io_ends request_env_def)

lemma releaseI:
  assumes "\<And>w. control_ok C \<Longrightarrow> release_inv w \<Longrightarrow> ends m (\<lambda>_. release_inv) (\<lambda>_. release_inv) w"
  shows "preserving (release_le C) m"
proof (rule preservingI)
  fix w :: control_world
  have "release_inv (fst (m w))" if "ends m (\<lambda>_. release_inv) (\<lambda>_. release_inv) w"
    using that by (auto simp: ends_def split: prod.splits sum.splits)
  with assms show "release_le C w (fst (m w))" by (simp add: release_le_def)
qed

lemma release_tick [simp]: "release_inv (w\<lparr>cw_run := (cw_run w)\<lparr>rw_clock := n\<rparr>\<rparr>) = release_inv w"
  by (simp add: release_inv_def links_def drafts_def)

section \<open>The steps of a packet\<close>

lemma promotion_step_Inr:
  assumes "promotion_step P i u s = Inr (s', k')"
  shows "\<exists>n < length s. s' = s[n := k'] \<and> u (s ! n) = Inr k' \<and> pk_id (s ! n) = i"
  using assms
  by (auto simp: promotion_step_def readPromotionStore_def writePromotionStore_def parsePromotionStore_def
      split: if_splits option.splits dest!: findIndex_Some)

lemma linked_inv_packets:
  assumes "linked_inv ks ls" and "\<And>k. k \<in> set ks \<Longrightarrow> governed k \<Longrightarrow> \<exists>k' \<in> set ks'. pk_id k' = pk_id k \<and> governed k'"
  shows "linked_inv ks' ls"
  unfolding linked_inv_def
proof (intro conjI allI impI)
  fix q assume "(Some Prod, q) \<in> set ls"
  with assms(1) obtain k where "k \<in> set ks" "q = Some (pk_id k)" "governed k" by (auto simp: linked_inv_def)
  with assms(2) show "\<exists>k \<in> set ks'. q = Some (pk_id k) \<and> governed k" by metis
qed (use assms(1) in \<open>simp add: linked_inv_def\<close>)

lemma release_packet:
  assumes "release_inv w" and "n < length (cw_promotions w)" and "pk_id k' = pk_id (cw_promotions w ! n)"
    and "governed (cw_promotions w ! n) \<Longrightarrow> governed k'" and "packet_inv (rw_runs (cw_run w)) k'"
  shows "release_inv (w\<lparr>cw_promotions := (cw_promotions w)[n := k']\<rparr>)"
proof -
  let ?ks = "cw_promotions w"
  have new: "k' \<in> set (?ks[n := k'])" using assms(2) by (simp add: set_update_memI)
  have "\<exists>y \<in> set (?ks[n := k']). pk_id y = pk_id k \<and> governed y" if "k \<in> set ?ks" "governed k" for k
  proof -
    from that(1) obtain m where "m < length ?ks" "k = ?ks ! m" by (auto simp: in_set_conv_nth)
    then have "m \<noteq> n \<Longrightarrow> k \<in> set (?ks[n := k'])" using nth_mem [of m "?ks[n := k']"] by simp
    then show ?thesis
      using new assms(3,4) that(2) \<open>k = ?ks ! m\<close> by (cases "m = n") auto
  qed
  with assms(1) have "linked_inv (?ks[n := k']) (links (cw_run w))" by (auto simp: release_inv_def intro: linked_inv_packets)
  then show ?thesis
    using assms(1,5) set_update_subset_insert [of ?ks n k'] by (auto simp: release_inv_def)
qed

lemma redact_owner: "redactTelemetryText (units_of ''owner'') n = take n (units_of ''owner'')"
  by (rule redact_plain) (simp add: plain_unit_def units_of_def)

lemma bounded_redacted: "boundedRedactedText v n = Inr x \<Longrightarrow> x = redactTelemetryText v n"
  by (simp add: boundedRedactedText_def Let_def split: if_splits)

text \<open>The steps that keep what holds of every packet, whatever the runs are.\<close>

definition plain_step :: "(promotion_packet \<Rightarrow> js_error + promotion_packet) \<Rightarrow> bool" where
  "plain_step u \<longleftrightarrow> (\<forall>k k' runs. u k = Inr k' \<longrightarrow> pk_id k' = pk_id k \<and> (packet_inv runs k \<longrightarrow> packet_inv runs k') \<and>
     (governed k \<longrightarrow> governed k'))"

lemma plain_steps:
  "plain_step (approve_packet \<lparr>pa_approver = units_of ''owner'', pa_approved_at = a, pa_review_ref = ref\<rparr> now)"
  "plain_step (reject_packet now)" "plain_step (verify_packet v now)" "plain_step (roll_back_packet now)"
  by (auto simp: plain_step_def packet_inv_def governed_def approve_packet_def reject_packet_def verify_packet_def
      roll_back_packet_def owner_approved_def ran_in_production_def split: if_splits)

lemma release_promotion_step:
  assumes "plain_step u"
  shows "preserving (release_le C) (on_promotions (promotion_step P i u))"
proof (rule preservingI)
  fix w :: control_world
  show "release_le C w (fst (on_promotions (promotion_step P i u) w))"
  proof (cases "promotion_step P i u (cw_promotions w)")
    case (Inr x)
    obtain s' k' where x: "x = (s', k')" by (cases x)
    from promotion_step_Inr [OF Inr [unfolded x]] obtain n where n: "n < length (cw_promotions w)" "s' = (cw_promotions w)[n := k']"
      "u (cw_promotions w ! n) = Inr k'" by blast
    have "release_inv (w\<lparr>cw_promotions := s'\<rparr>)" if "release_inv w"
    proof -
      have "packet_inv (rw_runs (cw_run w)) (cw_promotions w ! n)" using that n(1) by (simp add: release_inv_def)
      then show ?thesis
        unfolding n(2) using assms n(1,3) that by (intro release_packet) (auto simp: plain_step_def)
    qed
    then show ?thesis by (simp add: on_promotions_def Inr x release_le_def)
  qed (simp add: on_promotions_def release.le_refl)
qed

lemma release_promotions:
  assumes "\<And>s s' k. f s = Inr (s', k) \<Longrightarrow> \<exists>u i. plain_step u \<and> promotion_step P i u s = Inr (s', k)"
  shows "preserving (release_le C) (on_promotions f)"
proof (rule preservingI)
  fix w :: control_world
  show "release_le C w (fst (on_promotions f w))"
  proof (cases "f (cw_promotions w)")
    case (Inr x)
    obtain s' k' where x: "x = (s', k')" by (cases x)
    from assms [OF Inr [unfolded x]] obtain u i where u: "plain_step u" "promotion_step P i u (cw_promotions w) = Inr (s', k')"
      by blast
    have "release_le C w (fst (on_promotions (promotion_step P i u) w))"
      by (rule preservingD [OF release_promotion_step [OF u(1)]])
    with u(2) show ?thesis by (simp add: on_promotions_def Inr x)
  qed (simp add: on_promotions_def release.le_refl)
qed

lemma release_packet_calls [io_keeps]:
  "preserving (release_le C) (on_promotions (rejectPromotion P i t))"
  "preserving (release_le C) (on_promotions (recordPromotionVerification P i ref t))"
  "preserving (release_le C) (on_promotions (markPromotionRolledBack P i t))"
  by (rule release_promotions [where P = P], auto simp: rejectPromotion_def recordPromotionVerification_def
      markPromotionRolledBack_def split: if_splits intro: plain_steps)+

lemma release_approve [io_keeps]:
  "preserving (release_le C) (on_promotions
     (approvePromotion P i \<lparr>pa_approver = units_of ''owner'', pa_approved_at = a, pa_review_ref = ref\<rparr> t))"
proof (rule release_promotions [where P = P])
  fix s s' k
  assume a: "approvePromotion P i \<lparr>pa_approver = units_of ''owner'', pa_approved_at = a, pa_review_ref = ref\<rparr> t s = Inr (s', k)"
  have owner: "take MAX_PROMOTION_ID (units_of ''owner'') = units_of ''owner''" by (simp add: MAX_PROMOTION_ID_def units_of_def)
  obtain ref' where "promotion_step P i (approve_packet \<lparr>pa_approver = units_of ''owner'', pa_approved_at = a, pa_review_ref = ref'\<rparr> t) s = Inr (s', k)"
    using a by (auto simp: approvePromotion_def redact_owner owner split: if_splits dest!: bounded_redacted)
  then show "\<exists>u j. plain_step u \<and> promotion_step P j u s = Inr (s', k)" using plain_steps(1) by blast
qed

lemma if_Inl_eq_Inr: "(if b then Inl e else m) = Inr x \<longleftrightarrow> \<not> b \<and> m = Inr x"
  by simp

lemma built_packet:
  assumes "buildPromotionPacket P u r input t s = Inr (s', k)"
  shows "s' = s @ [k] \<and> pk_status k = Promotion_pending"
proof -
  have read: "readPromotionStore s = Inr v \<Longrightarrow> v = s" for v
    by (simp add: readPromotionStore_def parsePromotionStore_def split: if_splits)
  have written: "writePromotionStore P v = Inr v' \<Longrightarrow> v' = v" for v v'
    by (auto simp: writePromotionStore_def parsePromotionStore_def split: if_splits)
  have pending: "pk_status (new_packet P u r a b c d t) = Promotion_pending" for a b c d by (simp add: new_packet_def)
  from assms show ?thesis
    unfolding buildPromotionPacket_def Let_def
    by (simp only: if_Inl_eq_Inr bind_result_eq_Inr sum.inject prod.inject) (auto dest!: read written simp: pending)
qed

lemma release_build [io_keeps]: "preserving (release_le C) (on_promotions (buildPromotionPacket P u r input t))"
proof (rule releaseI)
  fix w :: control_world
  assume inv: "release_inv w"
  have "release_inv (w\<lparr>cw_promotions := s'\<rparr>)" if "buildPromotionPacket P u r input t (cw_promotions w) = Inr (s', k)" for s' k
  proof -
    note k = built_packet [OF that]
    have "linked_inv (cw_promotions w @ [k]) (links (cw_run w))"
      by (rule linked_inv_packets [of "cw_promotions w"]) (use inv in \<open>auto simp: release_inv_def\<close>)
    with inv k show ?thesis by (auto simp: release_inv_def packet_inv_def)
  qed
  with inv show "ends (on_promotions (buildPromotionPacket P u r input t)) (\<lambda>_. release_inv) (\<lambda>_. release_inv) w"
    by (auto simp: io_ends split: sum.splits)
qed

text \<open>A publication has found the completed run it names.\<close>

lemma published_packet:
  assumes "markPromotionPublished P i evidence t s = Inr (s', k')"
  shows "\<exists>n < length s. s' = s[n := k'] \<and> pk_id (s ! n) = i \<and> pk_id k' = i \<and> pk_status k' = Promotion_published \<and>
    pk_status (s ! n) = Promotion_approved \<and> pk_approvals k' = pk_approvals (s ! n) \<and> pk_verification k' \<noteq> None \<and>
    pk_prod_run k' = Some (redactTelemetryText (pe_prod_run evidence) MAX_PROMOTION_ID)"
proof -
  from assms obtain pr v a b where e: "pr = redactTelemetryText (pe_prod_run evidence) MAX_PROMOTION_ID"
    "promotion_step P i (publish_packet \<lparr>pe_prod_run = pr, pe_verification = v, pe_acceptance = a, pe_rollback = b\<rparr> t) s = Inr (s', k')"
    by (auto simp: markPromotionPublished_def split: if_splits dest: bounded_redacted)
  from promotion_step_Inr [OF e(2)] e(1) show ?thesis by (auto simp: publish_packet_def split: if_splits)
qed

lemma release_publish [io_keeps]: "preserving (release_le C) (publishPromotion C i evidence)"
proof (rule releaseI)
  fix w :: control_world
  assume inv: "release_inv w"
  let ?found = "\<lambda>runs. case List.find (\<lambda>r. units_of (run_id r) = pe_prod_run evidence) runs of
           None \<Rightarrow> False
         | Some r \<Rightarrow> run_status r = RCompleted \<and> profile (current r) = Some Prod \<and> promotion_packet_id (current r) = Some i"
  have mark: "release_inv (fst (on_promotions (markPromotionPublished P i evidence t) w'))"
    if w': "release_inv w'" "?found (rw_runs (cw_run w'))" for P t and w' :: control_world
  proof (cases "markPromotionPublished P i evidence t (cw_promotions w')")
    case (Inr x)
    obtain s' k' where x: "x = (s', k')" by (cases x)
    from published_packet [OF Inr [unfolded x]] obtain n where n: "n < length (cw_promotions w')" "s' = (cw_promotions w')[n := k']"
      "pk_id (cw_promotions w' ! n) = i" "pk_id k' = i" "pk_status k' = Promotion_published"
      "pk_status (cw_promotions w' ! n) = Promotion_approved" "pk_approvals k' = pk_approvals (cw_promotions w' ! n)"
      "pk_verification k' \<noteq> None" "pk_prod_run k' = Some (redactTelemetryText (pe_prod_run evidence) MAX_PROMOTION_ID)" by blast
    from w'(2) obtain r where r: "r \<in> set (rw_runs (cw_run w'))" "units_of (run_id r) = pe_prod_run evidence"
      "run_status r = RCompleted" "profile (current r) = Some Prod" "promotion_packet_id (current r) = Some i"
      by (auto split: option.splits dest!: find_SomeD)
    have "packet_inv (rw_runs (cw_run w')) (cw_promotions w' ! n)" using w'(1) n(1) by (simp add: release_inv_def)
    with n r have "owner_approved k'" "ran_in_production (rw_runs (cw_run w')) k'"
      by (auto simp: packet_inv_def owner_approved_def ran_in_production_def)
    with n have "release_inv (w'\<lparr>cw_promotions := s'\<rparr>)"
      unfolding n(2) by (intro release_packet [OF w'(1)]) (auto simp: governed_def packet_inv_def)
    then show ?thesis by (simp add: on_promotions_def Inr x)
  qed (simp add: on_promotions_def w')
  have step: "ends (on_promotions (markPromotionPublished P i evidence t)) (\<lambda>_. release_inv) (\<lambda>_. release_inv) w'"
    if "release_inv w'" "?found (rw_runs (cw_run w'))" for P t and w' :: control_world
    using mark [OF that, of P t] by (auto simp: ends_def split: prod.splits sum.splits)
  show "ends (publishPromotion C i evidence) (\<lambda>_. release_inv) (\<lambda>_. release_inv) w"
    unfolding publishPromotion_def ends_bind ends_requests(1) ends_cond(2) ends_request_now
    using inv by (auto simp: readRunStore_def intro!: step)
qed

end
