(* ===== verification/ReleaseProps.thy ===== *)
theory ReleaseProps
  imports ReleaseLaws
begin

text \<open>
  What the routes of the control plane promise about production: a run reaches it only with a packet that the owner
  approved and that was verified, one run for a packet, and what was published ran there; and a repeated revision is made
  once.
\<close>

section \<open>New drafts\<close>

definition packet_of_draft :: "run_draft_input \<Rightarrow> string option" where
  "packet_of_draft i = (if in_profile i = Dev then None else in_promotion_packet_id i)"

lemma checked_link:
  assumes "checked_draft R i rid n t = Inr d"
  shows "profile d = Some (in_profile i) \<and> promotion_packet_id d = packet_of_draft i \<and> draft_run_id d = rid"
  using assms
  by (auto simp: checked_draft_def normalizeProfileFields_def packet_of_draft_def draft_of_def Let_def
      split: if_splits option.splits run_profile.splits prod.splits)

lemma created_link:
  assumes "createRunDraft R i input t s = Inr (s', d)"
  shows "keeps s s' \<and> (\<exists>r. s' = s @ [r] \<and> profile (current r) = Some (in_profile input) \<and>
    promotion_packet_id (current r) = packet_of_draft input)"
proof -
  have "keeps s s'" using keeps_create(1) [of s R i input t] assms by simp
  moreover from assms obtain d' where d': "checked_draft R input i 1 t = Inr d'" "s' = s @ [new_record d' None None t]"
    by (auto simp: createRunDraft_def readRunStore_Inr write_store_Inr split: if_splits)
  then have "profile (current (new_record d' None None t)) = Some (in_profile input)"
    "promotion_packet_id (current (new_record d' None None t)) = packet_of_draft input"
    using checked_link by (auto simp: new_record_def)
  ultimately show ?thesis using d'(2) by blast
qed

lemma revised_link:
  assumes "reviseRunDraft R i n input t s = Inr (s', d)"
  shows "keeps s s' \<and> validate s \<and> (\<exists>r \<in> set s. run_id r = i \<and> profile (current r) \<noteq> None \<and>
    ((profile (current r), promotion_packet_id (current r)) = (Some (in_profile input), packet_of_draft input) \<longrightarrow>
       map (\<lambda>r. (profile (current r), promotion_packet_id (current r))) s' =
       map (\<lambda>r. (profile (current r), promotion_packet_id (current r))) s))"
proof -
  have k: "keeps s s'" using keeps_revise [of s R i n input t] assms by simp
  from assms obtain r d' x where r: "find_run i s = Inr r" "checked_draft R input i (n + 1) t = Inr d'"
    "replace_run R (r\<lparr>current := d', revisions := revisions r @ [d'], run_updated_at := t\<rparr>) s = Inr (s', x)"
    by (auto simp: reviseRunDraft_def split: if_splits)
  from find_run_Inr [OF r(1)] have f: "validate s" "r \<in> set s" "run_id r = i" by auto
  note d' = checked_link [OF r(2)]
  from replace_run_Inr [OF r(3)] d' obtain y where y: "y \<in> set s" "run_id y = i" "profile (current y) \<noteq> None"
    and s': "s' = map (\<lambda>x. if run_id x = i then r\<lparr>current := d', revisions := revisions r @ [d'], run_updated_at := t\<rparr> else x) s"
    by (auto simp: run_id_def)
  have only: "current x = current r" if "x \<in> set s" "run_id x = i" for x
    using same_id [OF f(1) that(1) f(2)] that(2) f(3) by simp
  have "y = r" using same_id [OF f(1) y(1) f(2)] y(2) f(3) by simp
  moreover have "map (\<lambda>r. (profile (current r), promotion_packet_id (current r))) s' =
      map (\<lambda>r. (profile (current r), promotion_packet_id (current r))) s"
    if "(profile (current r), promotion_packet_id (current r)) = (Some (in_profile input), packet_of_draft input)"
    unfolding s' using that d' only by auto
  ultimately show ?thesis using k f y(3) by blast
qed

text \<open>Where the runs may end up when a run is prepared or revised, whatever is thrown.\<close>

definition drafted :: "orchestrator_env \<Rightarrow> run_draft_input \<Rightarrow> run_store \<Rightarrow> run_store \<Rightarrow> bool" where
  "drafted E input s s' \<longleftrightarrow> s' = s \<or> (\<exists>i t d. createRunDraft (oe_runs E) i input t s = Inr (s', d))"

lemma prepared: "ends (prepareRun E input) (\<lambda>_ v. drafted E input (rw_runs w) (rw_runs v)) (\<lambda>_ v. drafted E input (rw_runs w) (rw_runs v)) w"
  unfolding prepareRun_def ends_bind ends_control
  by (auto simp: drafted_def split: sum.split intro!: ends_keeping [OF records_route])
    (auto simp: io_ends same_records_def drafted_def split: sum.splits)

definition revised :: "orchestrator_env \<Rightarrow> string \<Rightarrow> int \<Rightarrow> run_draft_input \<Rightarrow> run_store \<Rightarrow> run_store \<Rightarrow> bool" where
  "revised E i n input s s' \<longleftrightarrow> s' = s \<or> (\<exists>t d. reviseRunDraft (oe_runs E) i n input t s = Inr (s', d))"

lemma revisedI:
  "ends (reviseRunWithApproval E i n input) (\<lambda>_ v. revised E i n input (rw_runs w) (rw_runs v))
     (\<lambda>_ v. revised E i n input (rw_runs w) (rw_runs v)) w"
  unfolding reviseRunWithApproval_def
  by (auto simp: io_ends revised_def split: sum.splits)

section \<open>Drafts of production\<close>

lemma release_same: "rw_runs v = rw_runs (cw_run w) \<Longrightarrow> release_inv w \<Longrightarrow> release_inv (w\<lparr>cw_run := v\<rparr>)"
  by (rule release_runs) (simp_all add: links_def drafts_def)

lemma links_map: "links v = map (\<lambda>r. (profile (current r), promotion_packet_id (current r))) (rw_runs v)"
  by (simp add: links_def drafts_def comp_def)

text \<open>A run that is drafted carries no packet, or one that no other run carries and that may go into production.\<close>

lemma release_drafted:
  assumes "release_inv w" and "drafted E input (rw_runs (cw_run w)) (rw_runs v)"
    and "packet_of_draft input = None \<and> in_profile input = Dev \<or>
      (\<exists>k \<in> set (cw_promotions w). packet_of_draft input = Some (pk_id k) \<and> governed k \<and>
         Some (pk_id k) \<notin> set (map snd (links (cw_run w))))"
  shows "release_inv (w\<lparr>cw_run := v\<rparr>)"
proof (cases "rw_runs v = rw_runs (cw_run w)")
  case False
  with assms(2) obtain i t d where "createRunDraft (oe_runs E) i input t (rw_runs (cw_run w)) = Inr (rw_runs v, d)"
    by (auto simp: drafted_def)
  from created_link [OF this] have k: "keeps (rw_runs (cw_run w)) (rw_runs v)"
    and l: "links v = links (cw_run w) @ [(Some (in_profile input), packet_of_draft input)]"
    by (auto simp: links_map)
  have "linked_inv (cw_promotions w) (links v)"
    using assms(1,3) unfolding l release_inv_def linked_inv_def by (auto simp: image_iff)
  with assms(1) k packet_inv_keeps show ?thesis by (auto simp: release_inv_def)
qed (use assms(1) release_same in blast)

lemma release_revised:
  assumes "release_inv w" and "revised E i n input (rw_runs (cw_run w)) (rw_runs v)"
    and "\<And>r. validate (rw_runs (cw_run w)) \<Longrightarrow> r \<in> set (rw_runs (cw_run w)) \<Longrightarrow> run_id r = i \<Longrightarrow> profile (current r) \<noteq> None \<Longrightarrow>
      profile (current r) = Some (in_profile input) \<and> promotion_packet_id (current r) = packet_of_draft input"
  shows "release_inv (w\<lparr>cw_run := v\<rparr>)"
proof (cases "rw_runs v = rw_runs (cw_run w)")
  case False
  with assms(2) obtain t d where "reviseRunDraft (oe_runs E) i n input t (rw_runs (cw_run w)) = Inr (rw_runs v, d)"
    by (auto simp: revised_def)
  from revised_link [OF this] assms(3) have "keeps (rw_runs (cw_run w)) (rw_runs v)" "links v = links (cw_run w)"
    by (auto simp: links_map)
  with assms(1) show ?thesis by (intro release_runs)
qed (use assms(1) release_same in blast)

lemma ends_prepare:
  assumes "release_inv w"
    and "packet_of_draft input = None \<and> in_profile input = Dev \<or>
      (\<exists>k \<in> set (cw_promotions w). packet_of_draft input = Some (pk_id k) \<and> governed k \<and>
         Some (pk_id k) \<notin> set (map snd (links (cw_run w))))"
  shows "ends (on_runs C (\<lambda>E. prepareRun E input)) (\<lambda>_. release_inv) (\<lambda>_. release_inv) w"
  unfolding ends_requests(4)
  by (rule ends_mono [OF prepared]) (use release_drafted [OF assms(1) _ assms(2)] in blast)+

lemma ends_revise:
  assumes "release_inv w"
    and "\<And>r. validate (rw_runs (cw_run w)) \<Longrightarrow> r \<in> set (rw_runs (cw_run w)) \<Longrightarrow> run_id r = i \<Longrightarrow> profile (current r) \<noteq> None \<Longrightarrow>
      profile (current r) = Some (in_profile input) \<and> promotion_packet_id (current r) = packet_of_draft input"
  shows "ends (on_runs C (\<lambda>E. reviseRunWithApproval E i n input)) (\<lambda>_. release_inv) (\<lambda>_. release_inv) w"
  unfolding ends_requests(4)
  by (rule ends_mono [OF revisedI]) (use release_revised [OF assms(1) _ assms(2)] in blast)+

lemma ready_packet:
  assumes "release_inv w" and "readPromotionStore (cw_promotions w) = Inr ps" and "List.find (\<lambda>k. pk_id k = p) ps = Some k"
    and "pk_status k = Promotion_approved" "owner_approved k" "pk_verification k = Some ref"
  shows "k \<in> set (cw_promotions w)" "pk_id k = p" "governed k"
  using assms find_SomeD [OF assms(3)]
  by (auto simp: readPromotionStore_def parsePromotionStore_def governed_def split: if_splits)

lemma release_prod [io_keeps]: "preserving (release_le C) (createProdDraft C input ref)" if "in_profile input = Prod"
proof (rule releaseI)
  fix w :: control_world
  assume inv: "release_inv w"
  have "ends (on_runs C (\<lambda>E. prepareRun E input)) (\<lambda>_. release_inv) (\<lambda>_. release_inv) w"
    if "in_promotion_packet_id input = Some p" "readPromotionStore (cw_promotions w) = Inr ps"
      "List.find (\<lambda>k. pk_id k = p) ps = Some k" "pk_status k = Promotion_approved" "owner_approved k" "pk_verification k = Some v"
      "\<not> list_ex (\<lambda>r. promotion_packet_id (current r) = Some p) (rw_runs (cw_run w))" for p ps k v
  proof -
    note k = ready_packet [OF inv that(2-6)]
    have "Some (pk_id k) \<notin> set (map snd (links (cw_run w)))"
      using that(7) k(2) by (force simp: links_map list_ex_iff)
    moreover have "packet_of_draft input = Some (pk_id k)"
      using that(1) k(2) \<open>in_profile input = Prod\<close> by (simp add: packet_of_draft_def)
    ultimately show ?thesis using k by (intro ends_prepare [OF inv]) blast
  qed
  then show "ends (createProdDraft C input ref) (\<lambda>_. release_inv) (\<lambda>_. release_inv) w"
    unfolding createProdDraft_def using inv
    by (auto simp: ends_bind ends_control(1,2) ends_cond ends_split ends_requests(1,2) readRunStore_Inr
        split: option.split given.split sum.split)
qed

lemma release_dev: "in_profile input \<noteq> Prod \<Longrightarrow> preserving (release_le C) (on_runs C (\<lambda>E. prepareRun E input))"
  by (rule releaseI, rule ends_prepare) (cases "in_profile input"; simp add: packet_of_draft_def)+

lemma preserving_cond: "(c \<Longrightarrow> preserving le a) \<Longrightarrow> (\<not> c \<Longrightarrow> preserving le b) \<Longrightarrow> preserving le (if c then a else b)"
  by simp

lemma release_create [io_keeps]: "preserving (release_le C) (create_route C b)"
  unfolding create_route_def by (intro release.keeps_calls preserving_cond release_prod release_dev)

lemma dev_carries_nothing:
  assumes "validate s" and "r \<in> set s" and "profile (current r) = Some Dev"
  shows "promotion_packet_id (current r) = None"
  using assms
  by (auto simp: validate_def list_all_iff validRecord_def validRevisions_def validDraft_def validStoredProfileFields_def)

lemma release_revise_prod [io_keeps]: "preserving (release_le C) (reviseProdDraft C i n input ref)"
proof (rule releaseI)
  fix w :: control_world
  assume inv: "release_inv w"
  have "ends (on_runs C (\<lambda>E. reviseRunWithApproval E i n input)) (\<lambda>_. release_inv) (\<lambda>_. release_inv) w"
    if "List.find (\<lambda>r. run_id r = i) (rw_runs (cw_run w)) = Some x" "promotion_packet_id (current x) = Some p"
      "resolveRunProfile x = Stored Prod" "in_profile input = Prod" "in_promotion_packet_id input = Some p" for x p
  proof (rule ends_revise [OF inv])
    fix r assume r: "validate (rw_runs (cw_run w))" "r \<in> set (rw_runs (cw_run w))" "run_id r = i"
    have "r = x" using find_SomeD [OF that(1)] same_id [OF r(1,2), of x] r(3) by auto
    with that show "profile (current r) = Some (in_profile input) \<and> promotion_packet_id (current r) = packet_of_draft input"
      by (auto simp: packet_of_draft_def resolveRunProfile_def split: option.splits)
  qed
  with inv show "ends (reviseProdDraft C i n input ref) (\<lambda>_. release_inv) (\<lambda>_. release_inv) w"
    unfolding reviseProdDraft_def
    by (auto simp: ends_bind ends_control(1,2) ends_cond ends_split ends_requests(1,2) readRunStore_Inr
        split: option.split given.split sum.split)
qed

lemma release_revise_dev:
  assumes "release_inv w" and "List.find (\<lambda>r. run_id r = i) (rw_runs (cw_run w)) = Some x" and "resolveRunProfile x \<noteq> Stored Prod"
    and "in_profile input \<noteq> Prod"
  shows "ends (on_runs C (\<lambda>E. reviseRunWithApproval E i n input)) (\<lambda>_. release_inv) (\<lambda>_. release_inv) w"
proof (rule ends_revise [OF assms(1)])
  fix r assume r: "validate (rw_runs (cw_run w))" "r \<in> set (rw_runs (cw_run w))" "run_id r = i" "profile (current r) \<noteq> None"
  have x: "r = x" using find_SomeD [OF assms(2)] same_id [OF r(1,2), of x] r(3) by auto
  have dev: "q = Dev" if "q \<noteq> Prod" for q using that by (cases q) simp_all
  have "profile (current r) = Some Dev"
    using assms(3) r(4) x dev by (auto simp: resolveRunProfile_def split: option.splits)
  with dev_carries_nothing [OF r(1,2)] dev [OF assms(4)]
  show "profile (current r) = Some (in_profile input) \<and> promotion_packet_id (current r) = packet_of_draft input"
    by (simp add: packet_of_draft_def)
qed

lemma release_revision [io_keeps]: "preserving (release_le C) (revision_route C i b)"
proof -
  have "ends (io_bind (io_shown_record i) (\<lambda>existing. if resolveRunProfile existing = Stored Prod \<or> in_profile input = Prod
      then reviseProdDraft C i n input ref else on_runs C (\<lambda>E. reviseRunWithApproval E i n input)))
      (\<lambda>_. release_inv) (\<lambda>_. release_inv) w" if "control_ok C" "release_inv w" for input n ref w
  proof -
    have prod: "ends (reviseProdDraft C i n input ref) (\<lambda>_. release_inv) (\<lambda>_. release_inv) w"
      using preservingD [OF release_revise_prod, of C w i n input ref] that
      by (auto simp: release_le_def ends_def split: prod.splits sum.splits)
    show ?thesis
      using that prod release_revise_dev [OF that(2)]
      by (auto simp: ends_bind io_shown_record_def ends_requests(1) ends_cond ends_split readRunStore_Inr split: sum.split option.split)
  qed
  note existing = releaseI [OF this]
  have route: "preserving (release_le C) (request_route C input)" for input
    unfolding request_route_def by (intro release.keeps_calls io_keeps)
  show ?thesis
    unfolding revision_route_def by (intro release.keeps_calls route existing)
qed

section \<open>The control plane as a machine\<close>

text \<open>Requests in any order, whatever they contain, and steps of the supervisor between them.\<close>

datatype control_op =
    CRequest string string "string option \<times> string option" request_body string
  | CSupervise

fun control_exec :: "control_env \<Rightarrow> control_op \<Rightarrow> control_world \<Rightarrow> control_world" where
  "control_exec C (CRequest verb path query body requestId) w = fst (handleControlPlaneRunRoute C verb path query body requestId w)"
| "control_exec C CSupervise w = fst (on_runs C runSupervisorOnce w)"

lemma release_orchestrator [io_keeps]:
  "preserving (release_le C) (on_runs C (\<lambda>E. approveAndQueueRun E i n operator))"
  "preserving (release_le C) (on_runs C (\<lambda>E. cancelRun E i))" "preserving (release_le C) (on_runs C runSupervisorOnce)"
  by (rule release_on_runs, rule stores.keeps_approveAndQueueRun stores.keeps_cancelRun stores.keeps_runSupervisorOnce,
      rule drafts.keeps_approveAndQueueRun drafts.keeps_cancelRun drafts.keeps_runSupervisorOnce)+

lemma release_approval:
  "preserving (release_le C) (io_bind (promotionApprovalInput C b) (\<lambda>approval.
      io_bind (request_now C) (\<lambda>t. on_promotions (approvePromotion P i approval t))))"
proof (cases "rb_review_ref b")
  case (Given ref)
  have "io_bind (promotionApprovalInput C b) f = (if rb_approver b \<noteq> Given (units_of ''owner'') then io_throw ''promotion_not_approved''
      else io_bind (request_now C) (\<lambda>t. f \<lparr>pa_approver = units_of ''owner'', pa_approved_at = t, pa_review_ref = ref\<rparr>))"
    for f :: "promotion_approval \<Rightarrow> promotion_packet control_io"
    by (auto simp: fun_eq_iff promotionApprovalInput_def Given io_bind_def io_throw_def io_return_def split: prod.splits sum.splits)
  then show ?thesis by (simp only:) (intro release.keeps_calls preserving_if io_keeps)
qed (simp_all add: promotionApprovalInput_def preserving_def io_bind_def io_throw_def release.le_refl)

lemma release_answered: "preserving (release_le C) m \<Longrightarrow> preserving (release_le C) (answered n f m)"
  unfolding answered_def by (intro release.keeps_calls)

lemma release_list: "preserving (release_le C) (list_runs st pr)"
  unfolding list_runs_def by (intro release.keeps_calls preserving_if io_keeps)

lemma release_route: "preserving (release_le C) (route_call C kind i q b)"
  by (cases kind) (simp_all only: route_call.simps, (intro release_answered release.keeps_calls release_list release_approval io_keeps)+)

lemma release_internal: "preserving (release_le C) (internal_error C rid)"
  unfolding internal_error_def
  by (intro release.keeps_calls io_keeps)
    (auto simp: preserving_def release_le_def release_inv_def split: sum.splits prod.splits)

lemma release_request: "preserving (release_le C) (handleControlPlaneRunRoute C verb path query body rid)"
  unfolding handleControlPlaneRunRoute_def
  by (intro preserving_option preserving_prod release.keeps_calls release_route release_internal)

interpretation control: invariant_machine "control_exec C" "\<lambda>w. control_ok C \<and> release_inv w" for C
proof unfold_locales
  fix op and w :: control_world
  assume w: "control_ok C \<and> release_inv w"
  have "release_le C w (control_exec C op w)"
    by (cases op) (simp_all add: preservingD [OF release_request] preservingD [OF release_orchestrator(3)])
  with w show "control_ok C \<and> release_inv (control_exec C op w)" by (simp add: release_le_def)
qed

section \<open>What the control plane promises\<close>

text \<open>In a world without packets and production runs nothing has to be shown.\<close>

lemma release_start:
  assumes "cw_promotions w = []" and "\<forall>r \<in> set (rw_runs (cw_run w)). profile (current r) \<noteq> Some Prod \<and> promotion_packet_id (current r) = None"
  shows "release_inv w"
proof -
  have "map snd (links (cw_run w)) = map (\<lambda>_. None) (rw_runs (cw_run w))" using assms(2) by (auto simp: links_map)
  then have "filter (\<lambda>q. q \<noteq> None) (map snd (links (cw_run w))) = []" by (simp add: filter_empty_conv)
  moreover have "(Some Prod, q) \<notin> set (links (cw_run w))" for q using assms(2) by (auto simp: links_map)
  ultimately show ?thesis using assms(1) by (simp add: release_inv_def linked_inv_def)
qed

text \<open>C6: Production takes only what the owner released. Whatever requests come in, whatever they contain, and however the
  supervisor steps in between, every stored production run belongs to a packet that was approved by the owner and
  verified, and no two runs belong to the same packet.\<close>

theorem production_runs_are_promoted:
  assumes "control_ok C" and "release_inv w" and "w' = fold (control_exec C) ops w"
  shows "(\<forall>r \<in> set (rw_runs (cw_run w')). profile (current r) = Some Prod \<longrightarrow>
      (\<exists>k \<in> set (cw_promotions w'). promotion_packet_id (current r) = Some (pk_id k) \<and>
         pk_status k \<in> {Promotion_approved, Promotion_published, Promotion_rolled_back} \<and>
         (\<exists>a \<in> set (pk_approvals k). pa_approver a = units_of ''owner'') \<and> pk_verification k \<noteq> None)) \<and>
    (\<forall>i < length (rw_runs (cw_run w')). \<forall>j < i.
       promotion_packet_id (current (rw_runs (cw_run w') ! i)) \<noteq> None \<longrightarrow>
       promotion_packet_id (current (rw_runs (cw_run w') ! j)) \<noteq> promotion_packet_id (current (rw_runs (cw_run w') ! i)))"
proof -
  have "release_inv w'" using control.run_inv [of C w ops] assms by simp
  then have l: "linked_inv (cw_promotions w') (links (cw_run w'))" by (simp add: release_inv_def)
  have distinct_at: "ps ! j \<noteq> ps ! i" if "distinct (filter (\<lambda>q. q \<noteq> None) ps)" "i < length ps" "j < i" "ps ! i \<noteq> None"
    for ps :: "string option list" and i j
  proof
    assume eq: "ps ! j = ps ! i"
    have "ps = take i ps @ ps ! i # drop (Suc i) ps" using that(2) by (rule id_take_nth_drop)
    then have "distinct (filter (\<lambda>q. q \<noteq> None) (take i ps @ ps ! i # drop (Suc i) ps))" using that(1) by metis
    then have "ps ! i \<notin> set (take i ps)" using that(4) by auto
    then show False using eq that(2,3) nth_mem [of j "take i ps"] by simp
  qed
  have ids: "map snd (links (cw_run w')) = map (\<lambda>r. promotion_packet_id (current r)) (rw_runs (cw_run w'))"
    by (simp add: links_map)
  from l have "distinct (filter (\<lambda>q. q \<noteq> None) (map (\<lambda>r. promotion_packet_id (current r)) (rw_runs (cw_run w'))))"
    unfolding ids [symmetric] by (simp add: linked_inv_def)
  note unique = distinct_at [OF this]
  have "\<exists>k \<in> set (cw_promotions w'). promotion_packet_id (current r) = Some (pk_id k) \<and> governed k"
    if "r \<in> set (rw_runs (cw_run w'))" "profile (current r) = Some Prod" for r
  proof -
    have "(Some Prod, promotion_packet_id (current r)) \<in> set (links (cw_run w'))"
      unfolding links_map set_map using that by (intro image_eqI [of _ _ r]) simp_all
    with l show ?thesis by (simp add: linked_inv_def)
  qed
  then have "\<exists>k \<in> set (cw_promotions w'). promotion_packet_id (current r) = Some (pk_id k) \<and>
      pk_status k \<in> {Promotion_approved, Promotion_published, Promotion_rolled_back} \<and>
      (\<exists>a \<in> set (pk_approvals k). pa_approver a = units_of ''owner'') \<and> pk_verification k \<noteq> None"
    if "r \<in> set (rw_runs (cw_run w'))" "profile (current r) = Some Prod" for r
    using that unfolding governed_def owner_approved_def list_ex_iff by blast
  moreover note unique
  ultimately show ?thesis by simp
qed

text \<open>C7: What is published ran in production. However the control plane is used, a packet that is published, or was and is
  rolled back, has the approval of the owner and a verification, and a run of the store completed in production with this
  packet and is the run that the packet names.\<close>

theorem published_packet_ran_in_production:
  assumes "control_ok C" and "release_inv w" and "k \<in> set (cw_promotions (fold (control_exec C) ops w))"
    and "pk_status k \<in> {Promotion_published, Promotion_rolled_back}"
  shows "(\<exists>a \<in> set (pk_approvals k). pa_approver a = units_of ''owner'') \<and> pk_verification k \<noteq> None \<and>
    (\<exists>r \<in> set (rw_runs (cw_run (fold (control_exec C) ops w))). run_status r = RCompleted \<and> profile (current r) = Some Prod \<and>
       promotion_packet_id (current r) = Some (pk_id k) \<and>
       pk_prod_run k = Some (redactTelemetryText (units_of (run_id r)) 256))"
proof -
  have "release_inv (fold (control_exec C) ops w)" using control.run_inv [of C w ops] assms(1,2) by simp
  with assms(3) have "packet_inv (rw_runs (cw_run (fold (control_exec C) ops w))) k" by (simp add: release_inv_def)
  with assms(4) show ?thesis
    by (auto simp: packet_inv_def owner_approved_def ran_in_production_def list_ex_iff MAX_PROMOTION_ID_def)
qed

section \<open>A revision that is repeated\<close>

lemma revised_stored:
  assumes "reviseRunDraft R i n input t s = Inr (s', d)"
  shows "\<exists>x. find_run i s' = Inr x \<and> current x = d \<and> run_status x = RDraft \<and> draft_revision d = n + 1 \<and> draft_run_id d = i \<and>
    sameDraftInput d input"
proof -
  from assms obtain r x where r: "find_run i s = Inr r" "run_status r = RDraft" "checked_draft R input i (n + 1) t = Inr d"
    "replace_run R (r\<lparr>current := d, revisions := revisions r @ [d], run_updated_at := t\<rparr>) s = Inr (s', x)"
    by (auto simp: reviseRunDraft_def split: if_splits)
  have d: "draft_revision d = n + 1" "draft_run_id d = i" "sameDraftInput d input"
    using r(3) by (auto simp: checked_draft_def normalizeProfileFields_def draft_of_def sameDraftInput_def Let_def
        split: if_splits option.splits run_profile.splits prod.splits)
  let ?r = "r\<lparr>current := d, revisions := revisions r @ [d], run_updated_at := t\<rparr>"
  have id: "run_id ?r = i" using d(2) by (simp add: run_id_def)
  have "find_run (run_id ?r) s = Inr r" using r(1) id by simp
  from replace_run_stored [OF this r(4)] have "find_run (run_id ?r) s' = Inr ?r" by blast
  then have "find_run i s' = Inr ?r" unfolding id .
  with r(2) d show ?thesis by auto
qed

lemma bind_value: "io_bind (io_lift (Inr a)) f = f a" "io_bind (io_return b) g = g b"
  by (simp_all add: fun_eq_iff io_bind_def io_lift_def io_return_def)

text \<open>What a revision does when the stored draft is the one it asks for.\<close>

lemma revise_again:
  assumes "find_run i (rw_runs w) = Inr x" and "run_status x = RDraft" and "draft_revision (current x) = n + 1"
    and "sameDraftInput (current x) input" and "resolveEnabledProject (oe_runs E) (in_project_id input) = Inr cwd"
  shows "reviseRunWithApproval E i n input w =
    io_bind io_read_approvals (\<lambda>queue.
     io_bind (io_when (\<not> list_ex (approval_for i (n + 1)) queue)
        (io_bind (io_now E) (\<lambda>t. io_write_approvals E (queue @ [run_approval E (current x) t])))) (\<lambda>_. io_record i)) w"
proof -
  have "io_bind (io_record i) f w = f x w" for f :: "run_record \<Rightarrow> run_record run_io"
    using assms(1) by (simp add: io_bind_def io_record_def)
  with assms(2-5) show ?thesis by (simp add: reviseRunWithApproval_def bind_value)
qed

lemma approval_for_run: "draft_run_id d = i \<Longrightarrow> approval_for i (draft_revision d) (run_approval E d t)"
  by (simp add: approval_for_def run_approval_def createApprovalRecord_def)

definition record_approval :: "orchestrator_env \<Rightarrow> string \<Rightarrow> run_draft \<Rightarrow> run_record run_io" where
  "record_approval E i d =
     io_bind io_read_approvals (\<lambda>queue.
     io_bind (io_when (\<not> list_ex (approval_for i (draft_revision d)) queue)
        (io_bind (io_now E) (\<lambda>t. io_write_approvals E (queue @ [run_approval E d t])))) (\<lambda>_. io_record i))"

lemma approval_recorded:
  assumes "draft_run_id d = i"
  shows "ends (record_approval E i d)
    (\<lambda>r v. rw_runs v = rw_runs w \<and> find_run i (rw_runs w) = Inr r \<and> validate_approvals (rw_approvals v) \<and>
       list_ex (approval_for i (draft_revision d)) (rw_approvals v))
    (\<lambda>_ v. rw_runs v = rw_runs w) w"
  using approval_for_run [OF assms]
  by (auto simp: record_approval_def io_ends writeApprovalQueue_def readApprovalQueue_def split: sum.splits)

lemma revise_record: "reviseRunWithApproval E i n input =
   io_bind (io_lift (resolveEnabledProject (oe_runs E) (in_project_id input))) (\<lambda>_.
     io_bind (io_record i) (\<lambda>initial.
     io_bind (if run_status initial = RDraft \<and> draft_revision (current initial) = n + 1 \<and> sameDraftInput (current initial) input
              then io_return (current initial) else io_runs_at E (\<lambda>R t. reviseRunDraft R i n input t)) (record_approval E i)))"
  by (simp add: reviseRunWithApproval_def record_approval_def [abs_def])

text \<open>C14: A revision is made once. When a revision was stored, whether or not its approval record was, the same request
  made again makes no second one: it returns what the first returned and changes nothing, or it adds the approval record
  that is missing, or throws.\<close>

theorem revision_is_made_once:
  assumes "reviseRunWithApproval E i n input w = (w1, res)" and "rw_runs w1 \<noteq> rw_runs w"
  shows "rw_runs (fst (reviseRunWithApproval E i n input w1)) = rw_runs w1 \<and>
    (\<exists>x. find_run i (rw_runs w1) = Inr x \<and> draft_revision (current x) = n + 1 \<and> sameDraftInput (current x) input) \<and>
    (\<forall>r. res = Inr r \<longrightarrow> reviseRunWithApproval E i n input w1 = (w1, Inr r)) \<and>
    (\<forall>w2 r. reviseRunWithApproval E i n input w1 = (w2, Inr r) \<longrightarrow> list_ex (approval_for i (n + 1)) (rw_approvals w2))"
proof -
  let ?Q = "\<lambda>res v. rw_runs v \<noteq> rw_runs w \<longrightarrow> (\<exists>t d. reviseRunDraft (oe_runs E) i n input t (rw_runs w) = Inr (rw_runs v, d) \<and>
      (\<exists>cwd. resolveEnabledProject (oe_runs E) (in_project_id input) = Inr cwd) \<and>
      (\<forall>r. res = Inr r \<longrightarrow> find_run i (rw_runs v) = Inr r \<and> validate_approvals (rw_approvals v) \<and>
         list_ex (approval_for i (draft_revision d)) (rw_approvals v)))"
  have kept: "ends (record_approval E i (current x)) (\<lambda>r. ?Q (Inr r)) (\<lambda>e. ?Q (Inl e)) w" if "find_run i (rw_runs w) = Inr x" for x
    by (rule ends_mono [OF approval_recorded]) (use find_run_Inr [OF that] in \<open>simp_all add: run_id_def\<close>)
  have made: "ends (record_approval E i d) (\<lambda>r. ?Q (Inr r)) (\<lambda>e. ?Q (Inl e)) (w\<lparr>rw_clock := c, rw_runs := s'\<rparr>)"
    if "reviseRunDraft (oe_runs E) i n input t (rw_runs w) = Inr (s', d)"
      "resolveEnabledProject (oe_runs E) (in_project_id input) = Inr cwd" for s' d t c cwd
  proof (rule ends_mono [OF approval_recorded])
    show "draft_run_id d = i" using revised_stored [OF that(1)] by blast
  qed (use that in \<open>simp; blast\<close>)+
  have "ends (reviseRunWithApproval E i n input) (\<lambda>r. ?Q (Inr r)) (\<lambda>e. ?Q (Inl e)) w"
    unfolding revise_record ends_bind ends_control(1,3) ends_calls(8) ends_split(1) ends_runs_at
    using kept made by (auto split: sum.split)
  with assms obtain t d cwd where d: "reviseRunDraft (oe_runs E) i n input t (rw_runs w) = Inr (rw_runs w1, d)"
    "resolveEnabledProject (oe_runs E) (in_project_id input) = Inr cwd"
    "\<And>r. res = Inr r \<Longrightarrow> find_run i (rw_runs w1) = Inr r \<and> validate_approvals (rw_approvals w1) \<and>
         list_ex (approval_for i (draft_revision d)) (rw_approvals w1)"
    by (cases res) (auto simp: ends_def)
  from revised_stored [OF d(1)] obtain x where x: "find_run i (rw_runs w1) = Inr x" "current x = d" "run_status x = RDraft"
    "draft_revision d = n + 1" "draft_run_id d = i" "sameDraftInput d input" by blast
  have again: "reviseRunWithApproval E i n input w1 = record_approval E i d w1"
    using revise_again [OF x(1,3) _ _ d(2), of n] x(2,4,6) by (simp add: record_approval_def)
  have "rw_runs (fst (record_approval E i d w1)) = rw_runs w1"
    "record_approval E i d w1 = (w2, Inr r) \<Longrightarrow> list_ex (approval_for i (n + 1)) (rw_approvals w2)" for w2 r
    using approval_recorded [OF x(5), of E w1] x(4) by (auto simp: ends_def split: prod.splits sum.splits)
  moreover have "record_approval E i d w1 = (w1, Inr r)" if "res = Inr r" for r
    using d(3) [OF that] by (simp add: record_approval_def io_bind_def io_read_approvals_def readApprovalQueue_def io_when_def io_return_def io_record_def)
  ultimately show ?thesis using x again by auto
qed

end
