(* ===== verification/ReleaseDemo.thy ===== *)
theory ReleaseDemo
  imports ReleaseProps
begin

text \<open>
  A control plane with one completed production run and its packet, ready to be published, and a draft that is revised:
  the theorems of the routes at these worlds.
\<close>

section \<open>A concrete control plane\<close>

definition demo_control :: control_env where
  "demo_control = \<lparr>ce_orchestrator = orch_refusing, ce_registry = demo_registry_env,
     ce_promotions = \<lparr>po_sha256 = \<lambda>_. replicate 64 (CHR ''0''), po_fits = \<lambda>_. True\<rparr>,
     ce_incidents = \<lparr>ie_stamp_text = \<lambda>_. [], ie_fits = \<lambda>_. True, ie_fits_packet = \<lambda>_. True\<rparr>, ce_locked = \<lambda>_. False\<rparr>"

definition demo_prod_run :: run_record where
  "demo_prod_run = (new_record (RunStoreProps.demo_draft\<lparr>profile := Some Prod, promotion_packet_id := Some ''p''\<rparr>) None None (Iso 1))
     \<lparr>run_status := RCompleted, approved_revision := Some 1, approved_by := Some ''ops'', approved_at := Some (Iso 1)\<rparr>"

definition demo_packet :: promotion_packet where
  "demo_packet = \<lparr>pk_id = ''p'', pk_source_run = ''d'', pk_source_revision = 1, pk_intent = units_of ''ship'',
     pk_hash = replicate 64 (CHR ''0''), pk_artifact_ref = ''d'', pk_diff = units_of ''diff'', pk_tests = [], pk_risks = [],
     pk_approvals = [\<lparr>pa_approver = units_of ''owner'', pa_approved_at = Iso 1, pa_review_ref = units_of ''ok''\<rparr>],
     pk_prod_run = None, pk_verification = Some (units_of ''checked''), pk_acceptance = None, pk_rollback = None,
     pk_status = Promotion_approved, pk_created = Iso 0, pk_updated = Iso 1\<rparr>"

definition demo_release_world :: control_world where
  "demo_release_world = \<lparr>cw_run = orch_start\<lparr>rw_runs := [demo_prod_run]\<rparr>, cw_projects = Some demo_projects,
     cw_promotions = [demo_packet], cw_incidents = ([], [])\<rparr>"

definition empty_body :: request_body where
  "empty_body = \<lparr>rb_project_id = Undefined, rb_prompt = Undefined, rb_provider = Undefined, rb_model = Undefined,
     rb_estimated_tokens = Undefined, rb_requested_artifacts = Undefined, rb_prompt_review_acknowledged = Undefined,
     rb_profile = Undefined, rb_requested_reasoning_effort = Undefined, rb_promotion_packet_id = Undefined,
     rb_full_verification_ref = Undefined, rb_revision = Undefined, rb_operator = Undefined, rb_intent = Undefined,
     rb_diff_summary = Undefined, rb_tests = Undefined, rb_risks = Undefined, rb_approver = Undefined,
     rb_review_ref = Undefined, rb_prod_run_id = Undefined, rb_release_acceptance_ref = Undefined,
     rb_rollback_ref = Undefined, rb_owner = Undefined, rb_expected = Undefined, rb_actual = Undefined,
     rb_reproduction_steps = Undefined, rb_verification_commands = Undefined, rb_name = Undefined, rb_cwd = Undefined,
     rb_enabled = Undefined\<rparr>"

definition demo_publish :: control_op where
  "demo_publish = CRequest ''POST'' ''/promotions/p/mark-published'' (None, None)
     (empty_body\<lparr>rb_prod_run_id := Given (units_of ''run''), rb_full_verification_ref := Given (units_of ''checked''),
       rb_release_acceptance_ref := Given (units_of ''fine''), rb_rollback_ref := Given (units_of ''back'')\<rparr>) ''r''"

definition demo_published :: promotion_packet where
  "demo_published = demo_packet\<lparr>pk_prod_run := Some (units_of ''run''), pk_acceptance := Some (units_of ''fine''),
     pk_rollback := Some (units_of ''back''), pk_status := Promotion_published, pk_updated := Iso 0\<rparr>"

lemma demo_control_ok: "control_ok demo_control"
  by (simp add: control_ok_def env_ok_def dispatcher_keeps_drafts_def demo_control_def orch_refusing_def orch_env_def
      unused_id_fresh valid_time_def MAX_TIME_def preserving_def moves.le_refl min.coboundedI2)

lemma demo_release_inv: "release_inv demo_release_world"
  by (simp add: release_inv_def linked_inv_def links_map demo_release_world_def demo_prod_run_def new_record_def demo_packet_def
      governed_def owner_approved_def packet_inv_def)

lemma demo_route: "matchRoute ''POST'' ''/promotions/p/mark-published'' = Some (Route_promotion_publish, ''p'')"
  by code_simp

text \<open>The texts of this world have no character that the redaction looks at.\<close>

lemma demo_redact:
  "redactTelemetryText (units_of ''owner'') n = take n (units_of ''owner'')" "redactTelemetryText (units_of ''ok'') n = take n (units_of ''ok'')"
  "redactTelemetryText (units_of ''ship'') n = take n (units_of ''ship'')" "redactTelemetryText (units_of ''diff'') n = take n (units_of ''diff'')"
  "redactTelemetryText (units_of ''d'') n = take n (units_of ''d'')" "redactTelemetryText (units_of ''checked'') n = take n (units_of ''checked'')"
  "redactTelemetryText (units_of ''run'') n = take n (units_of ''run'')" "redactTelemetryText (units_of ''fine'') n = take n (units_of ''fine'')"
  "redactTelemetryText (units_of ''back'') n = take n (units_of ''back'')"
  by (rule redact_plain, simp add: plain_unit_def units_of_def)+

lemma demo_bounded:
  assumes "s \<noteq> []" and "\<not> js_blank (of_char (hd s))" and "length s \<le> n"
  shows "promo_bounded (units_of s) n" "promo_bounded (units_of s) (max n (length s))" "take n (units_of s) = units_of s"
  using assms by (auto simp: promo_bounded_def units_of_def neq_Nil_conv)

lemmas demo_limits = MAX_PROMOTION_ID_def MAX_REF_def MAX_INTENT_def MAX_DIFF_def MAX_TESTS_def MAX_RISKS_def MAX_LIST_ITEM_def
  MAX_APPROVALS_def MAX_PACKETS_def

lemma demo_hash: "hex64 (replicate 64 (CHR ''0''))"
  by (simp add: hex64_def list_all_iff)

lemma demo_packets_valid: "valid_promotions [demo_packet]" "valid_promotions [demo_published]"
  by (simp_all add: valid_promotions_def isPromotionPacket_def demo_packet_def demo_published_def safeStoredString_def
      nullableSafeStoredString_def safeStoredList_def isApproval_def promotion_evidenced_def demo_bounded demo_redact demo_limits
      js_blank_def demo_hash isSafeInteger_def MAX_SAFE_INTEGER_def valid_time_def MAX_TIME_def)

lemma demo_publication:
  "markPromotionPublished (ce_promotions demo_control) ''p''
     \<lparr>pe_prod_run = units_of ''run'', pe_verification = units_of ''checked'', pe_acceptance = units_of ''fine'', pe_rollback = units_of ''back''\<rparr>
     (Iso 0) [demo_packet] = Inr ([demo_published], demo_published)"
proof -
  have read: "readPromotionStore [demo_packet] = Inr [demo_packet]"
    by (simp add: readPromotionStore_def parsePromotionStore_def demo_packets_valid)
  have publish: "publish_packet \<lparr>pe_prod_run = units_of ''run'', pe_verification = units_of ''checked'', pe_acceptance = units_of ''fine'',
      pe_rollback = units_of ''back''\<rparr> (Iso 0) demo_packet = Inr demo_published"
    by (simp add: publish_packet_def demo_packet_def demo_published_def)
  have id: "pk_id demo_packet = ''p''" by (simp add: demo_packet_def)
  have texts: "boundedRedactedText (units_of s) n = Inr (units_of s)"
    if "s \<in> {''run'', ''checked'', ''fine'', ''back''}" "256 \<le> n" for s n
    using that by (auto simp: boundedRedactedText_def redact_plain plain_unit_def js_blank_def Let_def units_of_def promo_bounded_def)
  have bounded: "promo_bounded (units_of s) MAX_REF" if "s \<in> {''run'', ''checked'', ''fine'', ''back'', ''p''}" for s
    using that by (auto simp: demo_bounded demo_limits js_blank_def)
  have idb: "promo_bounded (units_of ''p'') MAX_PROMOTION_ID" by (simp add: demo_bounded demo_limits js_blank_def)
  show ?thesis
    by (simp add: markPromotionPublished_def bounded bounded [unfolded demo_limits] texts demo_limits(1,2) promotion_step_def idb [unfolded demo_limits(1)] read id publish
        writePromotionStore_def parsePromotionStore_def demo_packets_valid demo_control_def valid_time_def MAX_TIME_def)
qed

lemma demo_runs_valid: "validate [demo_prod_run]"
  by (simp add: demo_prod_run_def RunStoreProps.demo_defs RunStoreProps.demo_checks RunStoreProps.demo_store)

lemma demo_published_world:
  "cw_promotions (control_exec demo_control demo_publish demo_release_world) = [demo_published] \<and>
   rw_runs (cw_run (control_exec demo_control demo_publish demo_release_world)) = [demo_prod_run]"
proof -
  have run: "run_status demo_prod_run = RCompleted" "profile (current demo_prod_run) = Some Prod"
    "promotion_packet_id (current demo_prod_run) = Some ''p''" "units_of (run_id demo_prod_run) = units_of ''run''"
    by (simp_all add: demo_prod_run_def new_record_def run_id_def RunStoreProps.demo_draft_def draft_of_def)
  have e: "publishEvidenceInput (empty_body\<lparr>rb_prod_run_id := Given (units_of ''run''), rb_full_verification_ref := Given (units_of ''checked''),
       rb_release_acceptance_ref := Given (units_of ''fine''), rb_rollback_ref := Given (units_of ''back'')\<rparr>) =
     Inr \<lparr>pe_prod_run = units_of ''run'', pe_verification = units_of ''checked'', pe_acceptance = units_of ''fine'', pe_rollback = units_of ''back''\<rparr>"
    by (simp add: publishEvidenceInput_def)
  have start: "rw_runs (cw_run demo_release_world) = [demo_prod_run]" "cw_promotions demo_release_world = [demo_packet]"
    "rw_clock (cw_run demo_release_world) = 0"
    by (simp_all add: demo_release_world_def orch_start_def)
  have clock: "oe_clock (ce_orchestrator demo_control) 0 = Iso 0" by (simp add: demo_control_def orch_refusing_def orch_env_def)
  let ?w = "\<lambda>v. cw_promotions v = [demo_published] \<and> rw_runs (cw_run v) = [demo_prod_run]"
  have "ends (handleControlPlaneRunRoute demo_control ''POST'' ''/promotions/p/mark-published'' (None, None)
     (empty_body\<lparr>rb_prod_run_id := Given (units_of ''run''), rb_full_verification_ref := Given (units_of ''checked''),
       rb_release_acceptance_ref := Given (units_of ''fine''), rb_rollback_ref := Given (units_of ''back'')\<rparr>) ''r'')
     (\<lambda>_. ?w) (\<lambda>_. ?w) demo_release_world"
    unfolding handleControlPlaneRunRoute_def demo_route option.case prod.case route_call.simps answered_def e publishPromotion_def
    by (simp add: ends_bind ends_control ends_requests(1,3) ends_cond ends_request_now readRunStore_def start demo_runs_valid run clock demo_publication)
  then show ?thesis by (auto simp: demo_publish_def ends_def split: prod.splits sum.splits)
qed

theorem production_runs_are_promoted_witness:
  "\<exists>k \<in> set (cw_promotions (fold (control_exec demo_control) [demo_publish] demo_release_world)).
     pk_id k = ''p'' \<and> (\<exists>a \<in> set (pk_approvals k). pa_approver a = units_of ''owner'') \<and> pk_verification k \<noteq> None"
proof -
  have "profile (current demo_prod_run) = Some Prod" "promotion_packet_id (current demo_prod_run) = Some ''p''"
    by (simp_all add: demo_prod_run_def new_record_def)
  then show ?thesis
    using production_runs_are_promoted [OF demo_control_ok demo_release_inv, of _ "[demo_publish]"] demo_published_world by auto
qed

theorem published_packet_ran_in_production_witness:
  "pk_status demo_published = Promotion_published \<and>
   (\<exists>r \<in> set (rw_runs (cw_run (fold (control_exec demo_control) [demo_publish] demo_release_world))).
      run_status r = RCompleted \<and> profile (current r) = Some Prod \<and> promotion_packet_id (current r) = Some ''p'')"
proof -
  have k: "pk_status demo_published = Promotion_published" "pk_id demo_published = ''p''"
    by (simp_all add: demo_published_def demo_packet_def)
  moreover have "demo_published \<in> set (cw_promotions (fold (control_exec demo_control) [demo_publish] demo_release_world))"
    using demo_published_world by simp
  note published_packet_ran_in_production [OF demo_control_ok demo_release_inv this]
  ultimately show ?thesis by auto
qed

definition demo_drafted_world :: run_world where
  "demo_drafted_world = orch_start\<lparr>rw_runs := [new_record RunStoreProps.demo_draft None None (Iso 1)]\<rparr>"

definition demo_revision :: run_draft_input where
  "demo_revision = RunStoreProps.demo_input\<lparr>in_prompt := [0x66]\<rparr>"

definition demo_revised_draft :: run_draft where
  "demo_revised_draft = draft_of demo_revision (Some High) None ''run'' 2 (Iso 0)"

lemma demo_revised:
  "\<exists>s. reviseRunDraft (oe_runs orch_refusing) ''run'' 1 demo_revision (Iso 0) [new_record RunStoreProps.demo_draft None None (Iso 1)] =
       Inr (s, demo_revised_draft) \<and> s \<noteq> [new_record RunStoreProps.demo_draft None None (Iso 1)]"
proof -
  have r: "find_run ''run'' [new_record RunStoreProps.demo_draft None None (Iso 1)] = Inr (new_record RunStoreProps.demo_draft None None (Iso 1))"
    by (simp add: RunStoreProps.demo_defs RunStoreProps.demo_checks RunStoreProps.demo_store)
  show ?thesis
    unfolding reviseRunDraft_def r
    by (simp add: demo_revised_draft_def demo_revision_def orch_refusing_def orch_env_def RunStoreProps.demo_defs
        RunStoreProps.demo_checks RunStoreProps.demo_store)
qed

lemma revised_approval_valid: "valid_approval (run_approval orch_refusing demo_revised_draft (Iso 1))"
proof -
  have "int_text 2 = ''2''" by code_simp
  moreover have "oe_stamp_text orch_refusing t = ''t''" for t by (simp add: orch_refusing_def orch_env_def)
  ultimately show ?thesis
    by (simp add: run_approval_def createApprovalRecord_def valid_approval_def validText_def nullable_def valid_token_fields_def
        MAX_FIELD_def isSafeInteger_def MAX_SAFE_INTEGER_def demo_revised_draft_def demo_revision_def RunStoreProps.demo_input_def
        RunStoreProps.demo_checks)
qed

theorem revision_is_made_once_witness:
  "\<exists>w1 r. reviseRunWithApproval orch_refusing ''run'' 1 demo_revision demo_drafted_world = (w1, Inr r) \<and>
     draft_revision (current r) = 2 \<and>
     reviseRunWithApproval orch_refusing ''run'' 1 demo_revision w1 = (w1, Inr r)"
proof -
  let ?s = "[new_record RunStoreProps.demo_draft None None (Iso 1)]"
  obtain s where s: "reviseRunDraft (oe_runs orch_refusing) ''run'' 1 demo_revision (Iso 0) ?s = Inr (s, demo_revised_draft)" "s \<noteq> ?s"
    using demo_revised by blast
  from revised_stored [OF s(1)] obtain x where x: "find_run ''run'' s = Inr x" by blast
  have w: "rw_runs demo_drafted_world = ?s" "rw_approvals demo_drafted_world = []" "rw_clock demo_drafted_world = 0"
    by (simp_all add: demo_drafted_world_def orch_start_def)
  have E: "oe_clock orch_refusing 0 = Iso 0" "oe_clock orch_refusing (Suc 0) = Iso 1" "oe_fits_approvals orch_refusing q"
    "resolveEnabledProject (oe_runs orch_refusing) i = Inr ''/work''" for q i
    by (simp_all add: orch_refusing_def orch_env_def)
  have found: "find_run ''run'' ?s = Inr (new_record RunStoreProps.demo_draft None None (Iso 1))"
    by (simp add: RunStoreProps.demo_defs RunStoreProps.demo_checks RunStoreProps.demo_store)
  have rev: "draft_revision (current (new_record RunStoreProps.demo_draft None None (Iso 1))) = 1"
    by (simp add: new_record_def RunStoreProps.demo_draft_def draft_of_def)
  have "ends (reviseRunWithApproval orch_refusing ''run'' 1 demo_revision) (\<lambda>_ v. rw_runs v \<noteq> ?s) (\<lambda>_ _. False) demo_drafted_world"
    unfolding reviseRunWithApproval_def
    by (simp add: io_ends w E found rev s x readApprovalQueue_def writeApprovalQueue_def validate_approvals_def MAX_RECORDS_def
        revised_approval_valid)
  then obtain w1 r where w1: "reviseRunWithApproval orch_refusing ''run'' 1 demo_revision demo_drafted_world = (w1, Inr r)"
    "rw_runs w1 \<noteq> rw_runs demo_drafted_world"
    unfolding w(1) by (auto simp: ends_def split: prod.splits sum.splits)
  from revision_is_made_once [OF w1] obtain y where "reviseRunWithApproval orch_refusing ''run'' 1 demo_revision w1 = (w1, Inr r)"
    "find_run ''run'' (rw_runs w1) = Inr y" "draft_revision (current y) = 2" by auto
  moreover from this have "r = y" by (auto simp: reviseRunWithApproval_def io_bind_def io_lift_def io_record_def io_return_def E
      split: prod.splits sum.splits if_splits)
  ultimately show ?thesis using w1(1) by blast
qed

end
