(* ===== verification/IncidentProps.thy ===== *)
theory IncidentProps
  imports IncidentStore
begin

text \<open>
  What the store of the incidents keeps: its history, and when it can still be read.
\<close>

section \<open>The operations as steps\<close>

datatype incident_op =
    RecordIncident incident_input string stamp
  | AcknowledgeIncident string utf16 stamp
  | PrepareRepair string repair_input

fun incident_result :: "incident_env \<Rightarrow> incident_op \<Rightarrow> incident_store \<Rightarrow> js_error + incident_store" where
  "incident_result I (RecordIncident input i t) s = bind_result (recordAutopilotIncident I input i t s) (\<lambda>(s', _). Inr s')"
| "incident_result I (AcknowledgeIncident i owner now) s = bind_result (acknowledgeIncident I i owner now s) (\<lambda>(s', _). Inr s')"
| "incident_result I (PrepareRepair i input) s = bind_result (prepareRepairPacket I i input s) (\<lambda>_. Inr s)"

text \<open>A throw leaves the file.\<close>

definition incident_exec :: "incident_env \<Rightarrow> incident_op \<Rightarrow> incident_store \<Rightarrow> incident_store" where
  "incident_exec I op s = (case incident_result I op s of Inl _ \<Rightarrow> s | Inr s' \<Rightarrow> s')"

text \<open>The same incident later: only its acknowledgement is new, and that only once.\<close>

definition incident_le :: "incident \<Rightarrow> incident \<Rightarrow> bool" where
  "incident_le c c' \<longleftrightarrow>
     c'\<lparr>ic_status := ic_status c, ic_acknowledged_at := ic_acknowledged_at c, ic_acknowledged_by := ic_acknowledged_by c\<rparr> = c \<and>
     (ic_status c' = ic_status c \<or> ic_status c' = Incident_acknowledged) \<and>
     (ic_acknowledged_at c \<noteq> None \<longrightarrow> ic_acknowledged_at c' = ic_acknowledged_at c) \<and>
     (ic_acknowledged_by c \<noteq> None \<longrightarrow> ic_acknowledged_by c' = ic_acknowledged_by c)"

lemma incident_le_refl [simp]: "incident_le c c"
  by (simp add: incident_le_def)

lemma incident_le_acknowledged: "incident_le c (acknowledged owner now c)"
  by (auto simp: incident_le_def acknowledged_def)

lemma incident_le_trans: "incident_le a b \<Longrightarrow> incident_le b c \<Longrightarrow> incident_le a c"
  unfolding incident_le_def by (cases a; cases b; cases c) auto

text \<open>A later file: the oldest incidents may be gone, the others are the same, in the same order, before the new ones.\<close>

definition incidents_le :: "incident_store \<Rightarrow> incident_store \<Rightarrow> bool" where
  "incidents_le s s' \<longleftrightarrow> (\<exists>d kept new. d \<le> length s \<and> s' = kept @ new \<and> list_all2 incident_le (drop d s) kept \<and>
     (d > 0 \<longrightarrow> length s' = MAX_INCIDENTS))"

lemma all2_refl [simp]: "list_all2 incident_le s s"
  by (simp add: list_all2_refl)

lemma incidents_le_refl [simp]: "incidents_le s s"
  unfolding incidents_le_def by (rule exI [of _ 0], rule exI [of _ s], rule exI [of _ "[]"]) simp

lemma incidents_le_trans:
  assumes "incidents_le a b" and "incidents_le b c" and "length b = MAX_INCIDENTS \<longrightarrow> length c = MAX_INCIDENTS"
  shows "incidents_le a c"
proof -
  obtain d k n where a: "d \<le> length a" "b = k @ n" "list_all2 incident_le (drop d a) k" "d > 0 \<longrightarrow> length b = MAX_INCIDENTS"
    using assms(1) by (auto simp: incidents_le_def)
  obtain d' k' n' where b: "d' \<le> length b" "c = k' @ n'" "list_all2 incident_le (drop d' b) k'"
    "d' > 0 \<longrightarrow> length c = MAX_INCIDENTS"
    using assms(2) by (auto simp: incidents_le_def)
  have kl: "length k = length a - d" using list_all2_lengthD [OF a(3)] by simp
  obtain k1 k2 where k: "k' = k1 @ k2" "list_all2 incident_le (drop d' k) k1" "list_all2 incident_le (drop (d' - length k) n) k2"
    using b(3) unfolding a(2) by (auto simp: list_all2_append1)
  have "list_all2 incident_le (drop d' (drop d a)) k1"
    by (rule list_all2_trans [OF incident_le_trans list_all2_dropI [OF a(3)] k(2)])
  moreover have "drop d' (drop d a) = drop (min (d + d') (length a)) a"
    by (simp add: min_def add.commute)
  moreover have "min (d + d') (length a) > 0 \<longrightarrow> length c = MAX_INCIDENTS" using a(4) b(4) assms(3) by auto
  ultimately show ?thesis
    unfolding incidents_le_def b(2) k(1)
    by (intro exI [of _ "min (d + d') (length a)"] exI [of _ k1] exI [of _ "k2 @ n'"]) simp
qed

lemma last_n_le: "length s \<le> MAX_INCIDENTS \<Longrightarrow> incidents_le s (last_n MAX_INCIDENTS (s @ [c]))"
proof (cases "length s < MAX_INCIDENTS")
  case True
  then show ?thesis unfolding incidents_le_def
    by (intro exI [of _ 0] exI [of _ s] exI [of _ "[c]"]) (simp add: last_n_def)
next
  case False
  moreover assume "length s \<le> MAX_INCIDENTS"
  ultimately show ?thesis unfolding incidents_le_def
    by (intro exI [of _ 1] exI [of _ "drop 1 s"] exI [of _ "[c]"]) (auto simp: last_n_def MAX_INCIDENTS_def)
qed

lemma read_Inr [simp]: "readIncidentStore I s = Inr s' \<longleftrightarrow> validateDocument I s \<and> s' = s"
  by (auto simp: readIncidentStore_def)

lemma write_Inr [simp]: "writeIncidentStore I s = Inr s' \<longleftrightarrow> ie_fits I s \<and> s' = s"
  by (auto simp: writeIncidentStore_def)

lemma recorded:
  assumes "recordAutopilotIncident I input i t s = Inr (s', c)"
  shows "validateDocument I s" "s' = last_n MAX_INCIDENTS (s @ [c])" "incident_id_pattern i" "ic_id c = i"
    "\<exists>n. boundedRetryCount (ii_retry_count input) = Inr n \<and> c = new_incident i t input n"
  using assms by (auto simp: recordAutopilotIncident_def Let_def new_incident_def split: if_splits)

lemma incident_exec_le:
  "incidents_le s (incident_exec I op s) \<and> (length s = MAX_INCIDENTS \<longrightarrow> length (incident_exec I op s) = MAX_INCIDENTS)"
proof (cases "incident_result I op s")
  case (Inr s')
  show ?thesis
  proof (cases op)
    case (RecordIncident input i t)
    with Inr obtain c where "recordAutopilotIncident I input i t s = Inr (s', c)" by auto
    note r = recorded [OF this]
    have "length s \<le> MAX_INCIDENTS" using r(1) by (simp add: validateDocument_def)
    with last_n_le [of s c] r(2) Inr show ?thesis by (auto simp: incident_exec_def last_n_def)
  next
    case (AcknowledgeIncident i owner now)
    with Inr obtain n where n: "findIndex (\<lambda>c. ic_id c = i) s = Some n" "s' = s[n := acknowledged owner now (s ! n)]"
      by (auto simp: acknowledgeIncident_def Let_def split: option.splits)
    have "n < length s" using findIndex_Some [OF n(1)] by simp
    then have "list_all2 incident_le s s'"
      by (simp add: n(2) list_all2_conv_all_nth nth_list_update incident_le_acknowledged)
    then have "incidents_le s s'" unfolding incidents_le_def by (intro exI [of _ 0] exI [of _ s'] exI [of _ "[]"]) simp
    with Inr n(2) show ?thesis by (simp add: incident_exec_def)
  qed (use Inr in \<open>auto simp: incident_exec_def\<close>)
qed (simp add: incident_exec_def)

lemma incident_steps_le:
  "incidents_le s (fold (incident_exec I) ops s) \<and>
   (length s = MAX_INCIDENTS \<longrightarrow> length (fold (incident_exec I) ops s) = MAX_INCIDENTS)"
proof (induction ops arbitrary: s)
  case (Cons op ops)
  show ?case using incident_exec_le [of s I op] Cons.IH [of "incident_exec I op s"] incidents_le_trans by auto
qed simp

text \<open>C17: The store keeps its incidents. Whatever operations follow, in any order and wherever they throw, the file is
  a run of new incidents behind those it had: in the same order, each with everything it was recorded with, acknowledged
  or not as it was or acknowledged since, and an acknowledgement keeps its time and its owner for good. Only the oldest
  are dropped, and none while the file holds fewer than 256.\<close>

theorem incidents_are_kept:
  "\<exists>d kept new. fold (incident_exec I) ops s = kept @ new \<and> d \<le> length s \<and>
     (d > 0 \<longrightarrow> length (fold (incident_exec I) ops s) = 256) \<and> length kept = length s - d \<and>
     (\<forall>n < length kept. \<exists>status at' by'.
        kept ! n = (s ! (d + n))\<lparr>ic_status := status, ic_acknowledged_at := at', ic_acknowledged_by := by'\<rparr> \<and>
        (status = ic_status (s ! (d + n)) \<or> status = Incident_acknowledged) \<and>
        (ic_acknowledged_at (s ! (d + n)) \<noteq> None \<longrightarrow> at' = ic_acknowledged_at (s ! (d + n))) \<and>
        (ic_acknowledged_by (s ! (d + n)) \<noteq> None \<longrightarrow> by' = ic_acknowledged_by (s ! (d + n))))"
proof -
  obtain d kept new where k: "fold (incident_exec I) ops s = kept @ new" "d \<le> length s"
    "d > 0 \<longrightarrow> length (fold (incident_exec I) ops s) = MAX_INCIDENTS" "list_all2 incident_le (drop d s) kept"
    using incident_steps_le [of s I ops] by (auto simp: incidents_le_def)
  have le: "incident_le (s ! (d + n)) (kept ! n)" if "n < length kept" for n
    using k(2,4) that by (auto simp: list_all2_conv_all_nth)
  have "\<exists>status at' by'. c' = c\<lparr>ic_status := status, ic_acknowledged_at := at', ic_acknowledged_by := by'\<rparr> \<and>
      (status = ic_status c \<or> status = Incident_acknowledged) \<and> (ic_acknowledged_at c \<noteq> None \<longrightarrow> at' = ic_acknowledged_at c) \<and>
      (ic_acknowledged_by c \<noteq> None \<longrightarrow> by' = ic_acknowledged_by c)" if "incident_le c c'" for c c'
    using that unfolding incident_le_def
    by (intro exI [of _ "ic_status c'"] exI [of _ "ic_acknowledged_at c'"] exI [of _ "ic_acknowledged_by c'"]) (cases c; cases c'; auto)
  with le list_all2_lengthD [OF k(4)] k(1-3) show ?thesis
    by (intro exI [of _ d] exI [of _ kept] exI [of _ new]) (auto simp: MAX_INCIDENTS_def)
qed

section \<open>When the file can be read\<close>

lemma unreadable_stays:
  assumes "\<not> validateDocument I s"
  shows "fold (incident_exec I) ops s = s" "incident_result I op s = Inl (Error ''invalid_incident_store'')"
proof -
  have r: "incident_result I op s = Inl (Error ''invalid_incident_store'')" for op
    using assms by (cases op) (simp_all add: recordAutopilotIncident_def acknowledgeIncident_def prepareRepairPacket_def readIncidentStore_def)
  then show "incident_result I op s = Inl (Error ''invalid_incident_store'')" .
  show "fold (incident_exec I) ops s = s" by (induction ops) (simp_all add: incident_exec_def r)
qed

lemma valid_extended:
  assumes "validateDocument I s" and "ic_id c \<notin> set (map ic_id s)"
  shows "validateDocument I (last_n MAX_INCIDENTS (s @ [c])) \<longleftrightarrow> isIncident I c"
proof -
  let ?s = "drop (length s + 1 - MAX_INCIDENTS) s"
  have e: "last_n MAX_INCIDENTS (s @ [c]) = ?s @ [c]"
    by (cases "length s + 1 - MAX_INCIDENTS \<le> length s") (auto simp: last_n_def MAX_INCIDENTS_def)
  have sub: "set ?s \<subseteq> set s" by (rule set_drop_subset)
  have "distinct (map ic_id s)" "list_all (isIncident I) s"
    using assms(1) length_js_unique_eq [of "map ic_id s"] by (simp_all add: validateDocument_def)
  moreover from this have "distinct (map ic_id ?s)" by (metis distinct_drop drop_map)
  moreover have "set (map ic_id ?s) \<subseteq> set (map ic_id s)" unfolding set_map by (rule image_mono [OF sub])
  ultimately have "list_all (isIncident I) ?s" "distinct (map ic_id ?s)" "set (map ic_id ?s) \<subseteq> set (map ic_id s)"
    using sub by (auto simp: list_all_iff)
  moreover have "length (?s @ [c]) \<le> MAX_INCIDENTS" by (simp add: MAX_INCIDENTS_def)
  ultimately show ?thesis
    unfolding e using assms(2)
    by (auto simp: validateDocument_def length_js_unique_eq [of "map ic_id (?s @ [c])", simplified])
qed

text \<open>C16: A recorded incident is the last of the file; the file can be read again exactly if the incident, as it was
  shortened and redacted, passes the validation, which is made only when reading. Otherwise every later operation throws
  and the file stays as it is.\<close>

theorem recorded_incident_readable_exactly:
  assumes "recordAutopilotIncident I input i t s = Inr (s', c)" and "i \<notin> set (map ic_id s)"
  shows "s' \<noteq> [] \<and> last s' = c \<and> length s' \<le> 256 \<and> (validateDocument I s' \<longleftrightarrow> isIncident I c) \<and>
    (isIncident I c \<or> (\<forall>ops op. fold (incident_exec I) ops s' = s' \<and>
       incident_result I op s' = Inl (Error ''invalid_incident_store'')))"
proof -
  note r = recorded [OF assms(1)]
  have v: "validateDocument I s' \<longleftrightarrow> isIncident I c" using valid_extended [OF r(1)] assms(2) r(2,4) by simp
  moreover have "s' \<noteq> []" "last s' = c" "length s' \<le> 256" by (simp_all add: r(2) last_n_def MAX_INCIDENTS_def)
  ultimately show ?thesis using unreadable_stays [of I s'] by blast
qed

text \<open>An incident whose stage is cut off in the middle of a word that begins like an access key.\<close>

definition key_incident :: incident_input where
  "key_incident = \<lparr>ii_severity = Severity_high, ii_stage = cut_key 17, ii_summary = [], ii_correlations = [], ii_impact = [],
     ii_retry_count = Finite 0, ii_event_refs = []\<rparr>"

definition any_incidents :: incident_env where
  "any_incidents = \<lparr>ie_stamp_text = (\<lambda>_. []), ie_fits = (\<lambda>_. True), ie_fits_packet = (\<lambda>_. True)\<rparr>"

definition some_id :: string where "some_id = ''00000000-0000-4000-8000-000000000000''"

lemma key_recorded:
  "recordAutopilotIncident any_incidents key_incident some_id (Iso 0) [] =
     Inr ([new_incident some_id (Iso 0) key_incident 0], new_incident some_id (Iso 0) key_incident 0)"
proof -
  have i: "incident_id_pattern some_id" by (simp add: incident_id_pattern_def some_id_def hex_digit_def)
  show ?thesis
    by (simp add: recordAutopilotIncident_def i readIncidentStore_def validateDocument_def key_incident_def boundedRetryCount_def
        any_incidents_def writeIncidentStore_def last_n_def MAX_INCIDENTS_def MAX_RETRY_COUNT_def Let_def)
qed

lemma key_stage: "ic_stage (new_incident some_id (Iso 0) key_incident 0) = cut_key 16"
proof -
  have "utf8_byteLength us = int (length us)" if "list_all (\<lambda>u. u < 0x80) us" for us
    using that by (induction us rule: utf8_byteLength.induct) auto
  then have "utf8_byteLength (cut_key 16) = 200"
    by (simp add: cut_key_def units_of_def list_all_iff)
  then show ?thesis
    by (simp add: new_incident_def key_incident_def boundedText_def MAX_INCIDENT_ID_CHARS_def redact_cut_key Let_def)
qed

lemma key_unredacted: "\<not> isRedacted (cut_key 16)"
proof -
  have "length (cut_key 16) = 200" by (simp add: cut_key_def units_of_def)
  moreover have "replicate 180 32 @ units_of ''[REDACTED]'' \<noteq> cut_key 16" by (simp add: cut_key_def units_of_def)
  ultimately show ?thesis unfolding isRedacted_def using cut_key_unstable by metis
qed

lemma acknowledge_length: "length (incident_exec I (AcknowledgeIncident i owner now) s) = length s"
  by (auto simp: incident_exec_def acknowledgeIncident_def bind_result_def Let_def split: sum.splits option.splits)

theorem incidents_are_kept_witness:
  "\<exists>c. fold (incident_exec any_incidents) [AcknowledgeIncident some_id (units_of ''other'') (Iso 5)]
       [(new_incident some_id (Iso 0) key_incident 0)\<lparr>ic_status := Incident_acknowledged, ic_acknowledged_at := Some (Iso 1),
          ic_acknowledged_by := Some (units_of ''owner'')\<rparr>] = [c] \<and>
     ic_acknowledged_at c = Some (Iso 1) \<and> ic_acknowledged_by c = Some (units_of ''owner'')"
proof -
  define c where "c = (new_incident some_id (Iso 0) key_incident 0)\<lparr>ic_status := Incident_acknowledged,
    ic_acknowledged_at := Some (Iso 1), ic_acknowledged_by := Some (units_of ''owner'')\<rparr>"
  define s' where "s' = fold (incident_exec any_incidents) [AcknowledgeIncident some_id (units_of ''other'') (Iso 5)] [c]"
  have c: "ic_acknowledged_at c = Some (Iso 1)" "ic_acknowledged_by c = Some (units_of ''owner'')" by (simp_all add: c_def)
  have l: "length s' = 1" unfolding s'_def by (simp only: fold_simps acknowledge_length) simp
  obtain d kept new where k: "s' = kept @ new" "d > 0 \<longrightarrow> length s' = 256" "length kept = length [c] - d"
    and n: "\<forall>n < length kept. \<exists>status at' by'.
       kept ! n = ([c] ! (d + n))\<lparr>ic_status := status, ic_acknowledged_at := at', ic_acknowledged_by := by'\<rparr> \<and>
       (status = ic_status ([c] ! (d + n)) \<or> status = Incident_acknowledged) \<and>
       (ic_acknowledged_at ([c] ! (d + n)) \<noteq> None \<longrightarrow> at' = ic_acknowledged_at ([c] ! (d + n))) \<and>
       (ic_acknowledged_by ([c] ! (d + n)) \<noteq> None \<longrightarrow> by' = ic_acknowledged_by ([c] ! (d + n)))"
    using incidents_are_kept [of any_incidents "[AcknowledgeIncident some_id (units_of ''other'') (Iso 5)]" "[c]", folded s'_def]
    by (elim exE conjE)
  have d: "d = 0" "length kept = 1" "new = []" using k l by auto
  then have "s' = [kept ! 0]" using k(1) by (cases kept) auto
  moreover have "ic_acknowledged_at (kept ! 0) = ic_acknowledged_at c \<and> ic_acknowledged_by (kept ! 0) = ic_acknowledged_by c"
    using n d c by auto
  ultimately have "s' = [kept ! 0] \<and> ic_acknowledged_at (kept ! 0) = Some (Iso 1) \<and>
      ic_acknowledged_by (kept ! 0) = Some (units_of ''owner'')" by (simp add: c)
  then have "\<exists>x. s' = [x] \<and> ic_acknowledged_at x = Some (Iso 1) \<and> ic_acknowledged_by x = Some (units_of ''owner'')"
    by (rule exI [of _ "kept ! 0"])
  then show ?thesis unfolding s'_def c_def .
qed

theorem recorded_incident_readable_exactly_witness:
  "\<exists>s' c. recordAutopilotIncident any_incidents key_incident some_id (Iso 0) [] = Inr (s', c) \<and> \<not> isIncident any_incidents c \<and>
     incident_result any_incidents (RecordIncident key_incident some_id (Iso 1)) s' = Inl (Error ''invalid_incident_store'')"
proof -
  let ?c = "new_incident some_id (Iso 0) key_incident 0"
  have "\<not> isIncident any_incidents ?c" using key_stage key_unredacted by (simp add: isIncident_def)
  moreover from this have "incident_result any_incidents (RecordIncident key_incident some_id (Iso 1)) [?c] =
      Inl (Error ''invalid_incident_store'')"
    using recorded_incident_readable_exactly [OF key_recorded] by (simp del: incident_result.simps)
  ultimately show ?thesis using key_recorded by blast
qed

end
