(* ===== verification/Spec2Isabelle.thy ===== *)
theory Spec2Isabelle
  imports TokenGatewayProps SupervisorProps RunStoreProps AuthSessionProps ApprovalQueue RoutingProps MeshProps DispatchProps
    OrchestratorFlows BrainstormProps ReleaseDemo IncidentProps
begin

text \<open>
  Autopilot is a control plane for one operator: work is drafted, approved at one revision, queued, dispatched to a
  vendor's command line program under a token budget, and settled. This development models its core, the files of
  \<^verbatim>\<open>src/data/delivery-system\<close>, \<^verbatim>\<open>src/governed-core\<close> and \<^verbatim>\<open>src/lib/decision-mesh\<close> (below \<^verbatim>\<open>src/\<close> of the repository).

  \<^bold>\<open>How the parts work together.\<close> A run (\<open>runStore.ts\<close>) is a draft with revisions and an approval. The orchestrator
  (\<open>runOrchestrator.ts\<close>) composes four stores: the runs, the approval queue (\<open>approvalQueue.ts\<close>), the token gateway
  (\<open>tokenGateway.ts\<close>) and the supervisor's task queue (\<open>supervisorQueue.ts\<close>). It approves and queues a run, lets the
  supervisor claim and dispatch its task, records the result, settles or gives back the tokens, and repairs what an
  interrupted call left. A dispatch (\<open>dispatch.ts\<close>) checks the handoff against the decision mesh (\<open>query.ts\<close>,
  \<open>load.ts\<close>) and the routing rules (\<open>routingModes.ts\<close>, \<open>modelPolicy.ts\<close>, \<open>routingGuards.ts\<close>, \<open>fallbackChains.ts\<close>),
  reserves tokens and starts a worker. A brainstorm (\<open>brainstormCoordinator.ts\<close>) asks several providers the same question
  through runs of the orchestrator, which share one group of tokens, consolidates their answers and has conflicts
  arbitrated. Browser sessions and the service token (\<open>authSessionRegistry.ts\<close>) and governed
  session dispatch (\<open>sessionDispatch.ts\<close>) guard the entrance. The routes of the control plane
  (\<open>control-plane-runs.ts\<close>) expose the orchestrator with the registered projects (\<open>projectRegistry.ts\<close>), the packets that
  promote a completed run to production (\<open>promotionPacket.ts\<close>) and the incidents (\<open>incidentStore.ts\<close>); what they store
  is redacted (\<open>telemetryRedaction.ts\<close>).

  \<^bold>\<open>Theories and source files.\<close>
  \<^item> \<^theory_text>\<open>JsPrelude\<close>, \<^theory_text>\<open>JsJson\<close>, \<^theory_text>\<open>JsText\<close>: the language and its standard library, with the lemmas the components
    share, and the locales \<^theory_text>\<open>invariant_machine\<close> and \<^theory_text>\<open>life_cycle\<close> of a state with operations.
  \<^item> \<^theory_text>\<open>TokenGateway\<close> and its seven companions: \<open>tokenGateway.ts\<close>. The state is the \<open>state\<close> field of the class with the
    list of snapshots written; \<open>reserve\<close>, \<open>settle\<close>, \<open>release\<close>, \<open>acknowledgeTerminal\<close>, \<open>reserveGroup\<close>, \<open>claimGroupSlot\<close>,
    \<open>releaseGroupSlots\<close> are its methods. \<^theory_text>\<open>TokenGatewayLaws\<close> states the invariant, \<^theory_text>\<open>TokenGatewaySafety\<close> and
    \<^theory_text>\<open>TokenGatewayGroups\<close> show that each method keeps it, \<^theory_text>\<open>TokenGatewayMachine\<close> that every run of them does,
    \<^theory_text>\<open>TokenGatewayReload\<close> that the loader accepts what it reaches, all for the runs that claim no released slot and
    no handoff twice; \<^theory_text>\<open>TokenGatewayBudget\<close> shows for every run, with no condition, that the budgets hold.
  \<^item> \<^theory_text>\<open>SupervisorQueue\<close>, \<^theory_text>\<open>SupervisorHandoff\<close>, \<^theory_text>\<open>SupervisorGraph\<close>: \<open>supervisorQueue.ts\<close>, its state the list of tasks
    published. \<^theory_text>\<open>SupervisorLaws\<close> has the abstract life cycle of a task and shows that the operations refine it,
    \<^theory_text>\<open>SupervisorProps\<close> the invariants and how often operations can change a task; \<^theory_text>\<open>SupervisorGraph\<close> that the search for cycles is exact and ends.
  \<^item> \<^theory_text>\<open>RunPolicy\<close>, \<^theory_text>\<open>RunStore\<close>, \<^theory_text>\<open>RunStoreProps\<close>: \<open>runPromptPolicy.ts\<close>, \<open>executionProfile.ts\<close>, \<open>runStore.ts\<close>; a store
    is the list of its records, an operation returns the new list or throws.
  \<^item> \<^theory_text>\<open>ApprovalQueue\<close>, \<^theory_text>\<open>AuthSessions\<close>, \<^theory_text>\<open>AuthSessionProps\<close>: \<open>approvalQueue.ts\<close>, \<open>sessionRegistry.ts\<close>,
    \<open>sessionDispatch.ts\<close>, \<open>authSessionRegistry.ts\<close>.
  \<^item> \<^theory_text>\<open>Routing\<close>, \<^theory_text>\<open>RoutingProps\<close>: \<open>routingModes.ts\<close>, \<open>subscriptionBudget.ts\<close>, \<open>routingGuards.ts\<close>, \<open>fallbackChains.ts\<close>;
    \<^theory_text>\<open>ModelPolicy\<close>, \<^theory_text>\<open>TokenEfficiency\<close>, \<^theory_text>\<open>Capabilities\<close>: the files of the same names.
  \<^item> \<^theory_text>\<open>DecisionMesh\<close>, \<^theory_text>\<open>MeshLoad\<close>, \<^theory_text>\<open>MeshProps\<close>: \<open>types.ts\<close>, \<open>query.ts\<close>, \<open>graph.ts\<close>, \<open>load.ts\<close> of the decision mesh.
  \<^item> \<^theory_text>\<open>Dispatch\<close>, \<^theory_text>\<open>DispatchProps\<close>: \<open>dispatch.ts\<close>, over the gateway, the mesh and the policies.
  \<^item> \<^theory_text>\<open>RouteEligibility\<close>, \<^theory_text>\<open>RunWorld\<close>, \<^theory_text>\<open>RunOrchestrator\<close>: \<open>runRouteEligibility.ts\<close>, \<open>providerModelCatalog.ts\<close>,
    \<open>workerOutputPolicy.ts\<close>, \<open>runOrchestrator.ts\<close>. A world holds the four stores, the clock and the identifiers drawn;
    a call maps a world to a world and a result or an error, and an error keeps what was done before it.
    \<^theory_text>\<open>StateIO\<close> has such calls in general, with the locale \<^theory_text>\<open>state_order\<close> of the relations between worlds that calls keep
    and a calculus of outcomes; \<^theory_text>\<open>RunWorldLaws\<close> extends it to the orchestrator's calls, \<^theory_text>\<open>RunOutcomes\<close> has their outcomes,
    \<^theory_text>\<open>RunIds\<close> a concrete supply of identifiers, and \<^theory_text>\<open>OrchestratorProps\<close>, \<^theory_text>\<open>OrchestratorFlows\<close> hold the properties of
    the composed system.
  \<^item> \<^theory_text>\<open>BrainstormStore\<close>, \<^theory_text>\<open>BrainstormTelemetry\<close>, \<^theory_text>\<open>BrainstormCoordinator\<close>: \<open>brainstormBudget.ts\<close>, \<open>brainstormStore.ts\<close>,
    \<open>brainstormTelemetry.ts\<close>, \<open>brainstormCoordinator.ts\<close>, over a world that contains the orchestrator's.
    \<^theory_text>\<open>BrainstormLaws\<close> shows what each operation keeps of the stored brainstorms and that they follow their life cycle,
    \<^theory_text>\<open>BrainstormProps\<close> what every sequence of operations guarantees.
  \<^item> \<^theory_text>\<open>TelemetryRedaction\<close>: \<open>telemetryRedaction.ts\<close>, its regular expressions as values with a matcher that tries the
    alternatives in JavaScript's order; a text without a match is left as it is, and cutting a text can uncover one.
  \<^item> \<^theory_text>\<open>ProjectRegistry\<close>: \<open>projectRegistry.ts\<close>, \<open>runtimePaths.ts\<close>, with node's functions on POSIX paths.
    \<^theory_text>\<open>PromotionPackets\<close>: \<open>promotionPacket.ts\<close>. \<^theory_text>\<open>IncidentStore\<close>, \<^theory_text>\<open>IncidentProps\<close>: \<open>incidentStore.ts\<close> and
    \<open>operationalIncidents.ts\<close>. Each store is its parsed document, each operation returns the new one or throws.
  \<^item> \<^theory_text>\<open>ControlRoutes\<close>: \<open>control-plane-runs.ts\<close> below \<^verbatim>\<open>scripts\<close>: the bodies, the routes and the status of an error, over a
    world of all these stores. \<^theory_text>\<open>request_env\<close> gives the orchestrator the registry and the redaction. \<^theory_text>\<open>ReleaseLaws\<close>
    shows which drafts and packets each call keeps, \<^theory_text>\<open>ReleaseProps\<close> what holds of production runs and published packets
    under every sequence of requests and supervisor steps, \<^theory_text>\<open>ReleaseDemo\<close> that a concrete release does.

  \<^bold>\<open>Bounds and fuel.\<close> The search for dependency cycles takes as fuel the number of tasks plus one, which is proved enough
  for a search from any task along any path (\<^theory_text>\<open>SupervisorGraph\<close>). Every other loop is structural recursion on its list, or a function with a proof of its
  termination. Integers are unbounded, with the code's own tests for safe integers, and its caps, as it makes them;
  UTF-16 units are 16-bit words.

  \<^bold>\<open>Parameters.\<close> Not under \<^verbatim>\<open>src/\<close>, or the platform's: the clock, \<open>randomUUID\<close>, SHA-256, the collation of
  \<open>localeCompare\<close>, the parsers of YAML and JSON, whether a serialized document fits its size limit or a file can be
  written, which files exist, the real path of a path, the worker. For the orchestrator alone so are the redaction of a
  worker's output and the registered projects, which the control plane instantiates with their models. A dispatcher works on
  the stores while it is awaited: that it keeps them valid and the drafts of the runs, and the budgets of the gateway, is
  assumed where it is needed (\<^theory_text>\<open>env_ok\<close>, \<^theory_text>\<open>control_ok\<close>, \<^theory_text>\<open>dispatcher_within_budget\<close>). The result of \<open>JSON.parse\<close> has strings of characters below 256. They are arguments of the definitions; what a theorem needs of them is a
  hypothesis, and a witness gives concrete functions.

  \<^bold>\<open>Not modelled.\<close> Process and file I/O (spawning and capturing the vendors' programs, locks, backups, permissions, the
  hashing of passwords), the HTTP parsing and the cockpit, reports over logs (efficiency, spend, readiness), tables of text (prompts, skills, tools), the design checks of
  \<^verbatim>\<open>product-design-os\<close>: presentation, I/O and glue around the core.
\<close>

end
